(* ===== verification/Prelude.thy ===== *)
theory Prelude
  imports Complex_Main "HOL-Library.Sublist" "HOL-Library.Multiset"
begin

text \<open>
  Shared vocabulary of the development: identifiers, Go errors as values, the byte-string
  functions of the Go library that the program calls, and the computation type of the
  command handlers (environment and world passing with errors), with its reasoning rules.
\<close>

section \<open>Collections of facts\<close>

named_theorems comp_simps "evaluation of handler combinators"
named_theorems keeps_intros "rules that prove that a handler keeps an invariant"
named_theorems str_defs "definitions of the string functions"

section \<open>Identifiers\<close>

text \<open>A \<open>uuid.UUID\<close> is a 128-bit value that the program only compares, prints and parses;
  \<open>uuid.Nil\<close> is 0. Printing is a parameter of the model wherever the text matters.\<close>

type_synonym uuid = nat

definition uuid_Nil :: uuid where "uuid_Nil = 0"

section \<open>Go errors\<close>

text \<open>The package-level error values. Each is a pointer of its own, whatever its text.\<close>

datatype sentinel =
    MediaErrInvalidTransition | MediaErrInvalidFilename | MediaErrUnsupportedContentType
  | MediaErrTooManyFiles | MediaErrEmptyFileList | MediaErrInvalidMediaType
  | ContentErrInvalidTransition | ContentErrInvalidLabel
  | CampaignErrDefaultProtected | CampaignErrMissingSchedule | CampaignErrInvalidSchedule
  | CampaignErrUnsupportedBackgroundType
  | PlanErrNotFound | PlanErrDuplicateSlug | QuotaErrNotFound
  | ResultErrInvalidDetectorName | ResultErrInvalidStatus
  | ErrMemberQuotaExceeded | ErrCampaignQuotaExceeded | ErrVerificationQuotaExceeded
  | ErrConcurrentQuotaExceeded | ErrFileSizeQuotaExceeded | ErrVideoAnalysisNotAllowed
  | ErrBatchUploadQuotaExceeded | ErrStorageQuotaExceeded
  | ErrStripeSubscriptionNotLinked | ErrMissingStripeCustomer | ErrFreePlanBillingPortal
  | ErrNotWorkspaceOwner
  | ErrPlanInactive | ErrFreePlanCheckout | ErrMissingStripePrice | ErrAlreadyOnPlan
  | ErrMissingStripeSub | QueryErrPlanNotFound | ErrSubscriptionNotFound
  | GormErrRecordNotFound | GormErrDuplicatedKey

datatype go_error =
    Err string
  | Sentinel sentinel
  | Wrapped string go_error
  | RetryableError "go_error option"
  | DeferredError "go_error option"
  | NonRetryableError "go_error option"

type_synonym 'a res = "go_error + 'a"

fun sentinel_msg :: "sentinel \<Rightarrow> string" where
  "sentinel_msg MediaErrInvalidTransition = ''invalid media status transition''"
| "sentinel_msg MediaErrInvalidFilename = ''invalid media filename''"
| "sentinel_msg MediaErrUnsupportedContentType = ''unsupported media file type''"
| "sentinel_msg MediaErrTooManyFiles = ''too many files''"
| "sentinel_msg MediaErrEmptyFileList = ''files are required''"
| "sentinel_msg MediaErrInvalidMediaType = ''invalid media type''"
| "sentinel_msg ContentErrInvalidTransition = ''invalid content status transition''"
| "sentinel_msg ContentErrInvalidLabel = ''invalid content label''"
| "sentinel_msg CampaignErrDefaultProtected = ''default campaign cannot be modified''"
| "sentinel_msg CampaignErrMissingSchedule = ''startAt and endAt are required''"
| "sentinel_msg CampaignErrInvalidSchedule = ''startAt must be before or equal to endAt''"
| "sentinel_msg CampaignErrUnsupportedBackgroundType = ''unsupported background file type''"
| "sentinel_msg PlanErrNotFound = ''plan not found''"
| "sentinel_msg PlanErrDuplicateSlug = ''plan slug already exists''"
| "sentinel_msg QuotaErrNotFound = ''quota not found''"
| "sentinel_msg ResultErrInvalidDetectorName = ''detector name is required''"
| "sentinel_msg ResultErrInvalidStatus = ''invalid analysis result status''"
| "sentinel_msg ErrMemberQuotaExceeded = ''Member quota exceeded for your current plan''"
| "sentinel_msg ErrCampaignQuotaExceeded = ''Campaign quota exceeded for your current plan''"
| "sentinel_msg ErrVerificationQuotaExceeded = ''Quota exceeded for your current plan''"
| "sentinel_msg ErrConcurrentQuotaExceeded =
     ''Concurrent analysis quota exceeded for your current plan''"
| "sentinel_msg ErrFileSizeQuotaExceeded =
     ''File size exceeds the maximum allowed for your current plan''"
| "sentinel_msg ErrVideoAnalysisNotAllowed =
     ''Video analysis is not available on your current plan''"
| "sentinel_msg ErrBatchUploadQuotaExceeded =
     ''Batch upload size exceeds the maximum allowed for your current plan''"
| "sentinel_msg ErrStorageQuotaExceeded = ''Storage quota exceeded for your current plan''"
| "sentinel_msg ErrStripeSubscriptionNotLinked = ''stripe subscription not linked yet''"
| "sentinel_msg ErrMissingStripeCustomer = ''workspace has no stripe customer id''"
| "sentinel_msg ErrFreePlanBillingPortal = ''billing portal is not available on free plan''"
| "sentinel_msg ErrNotWorkspaceOwner = ''only the workspace owner can manage billing''"
| "sentinel_msg ErrPlanInactive = ''plan is inactive''"
| "sentinel_msg ErrFreePlanCheckout = ''free plan does not require checkout''"
| "sentinel_msg ErrMissingStripePrice = ''plan has no stripe price''"
| "sentinel_msg ErrAlreadyOnPlan = ''workspace is already on this plan''"
| "sentinel_msg ErrMissingStripeSub = ''subscription has no stripe subscription id''"
| "sentinel_msg QueryErrPlanNotFound = ''plan not found''"
| "sentinel_msg ErrSubscriptionNotFound = ''subscription not found''"
| "sentinel_msg GormErrRecordNotFound = ''record not found''"
| "sentinel_msg GormErrDuplicatedKey = ''duplicated key not allowed''"

text \<open>\<open>err.Error()\<close>; a wrapped error prints as its prefix, a colon and its cause.\<close>

fun Error :: "go_error \<Rightarrow> string" where
  "Error (Err m) = m"
| "Error (Sentinel s) = sentinel_msg s"
| "Error (Wrapped m e) = m @ '': '' @ Error e"
| "Error (RetryableError None) = ''retryable error''"
| "Error (RetryableError (Some e)) = ''retryable: '' @ Error e"
| "Error (DeferredError None) = ''deferred error''"
| "Error (DeferredError (Some e)) = ''deferred: '' @ Error e"
| "Error (NonRetryableError None) = ''non-retryable error''"
| "Error (NonRetryableError (Some e)) = ''non-retryable: '' @ Error e"

text \<open>\<open>errors.Is(err, target)\<close> for a package-level target: the chain of \<open>Unwrap\<close>.\<close>

fun errors_is :: "go_error \<Rightarrow> sentinel \<Rightarrow> bool" where
  "errors_is (Err m) s = False"
| "errors_is (Sentinel t) s = (t = s)"
| "errors_is (Wrapped m e) s = errors_is e s"
| "errors_is (RetryableError None) s = False"
| "errors_is (RetryableError (Some e)) s = errors_is e s"
| "errors_is (DeferredError None) s = False"
| "errors_is (DeferredError (Some e)) s = errors_is e s"
| "errors_is (NonRetryableError None) s = False"
| "errors_is (NonRetryableError (Some e)) s = errors_is e s"

text \<open>\<open>errors.As\<close> for the three classification types of the messaging package.\<close>

fun as_retryable :: "go_error \<Rightarrow> bool" where
  "as_retryable (Err m) = False"
| "as_retryable (Sentinel t) = False"
| "as_retryable (Wrapped m e) = as_retryable e"
| "as_retryable (RetryableError c) = True"
| "as_retryable (DeferredError None) = False"
| "as_retryable (DeferredError (Some e)) = as_retryable e"
| "as_retryable (NonRetryableError None) = False"
| "as_retryable (NonRetryableError (Some e)) = as_retryable e"

fun as_deferred :: "go_error \<Rightarrow> bool" where
  "as_deferred (Err m) = False"
| "as_deferred (Sentinel t) = False"
| "as_deferred (Wrapped m e) = as_deferred e"
| "as_deferred (DeferredError c) = True"
| "as_deferred (RetryableError None) = False"
| "as_deferred (RetryableError (Some e)) = as_deferred e"
| "as_deferred (NonRetryableError None) = False"
| "as_deferred (NonRetryableError (Some e)) = as_deferred e"

fun as_non_retryable :: "go_error \<Rightarrow> bool" where
  "as_non_retryable (Err m) = False"
| "as_non_retryable (Sentinel t) = False"
| "as_non_retryable (Wrapped m e) = as_non_retryable e"
| "as_non_retryable (NonRetryableError c) = True"
| "as_non_retryable (RetryableError None) = False"
| "as_non_retryable (RetryableError (Some e)) = as_non_retryable e"
| "as_non_retryable (DeferredError None) = False"
| "as_non_retryable (DeferredError (Some e)) = as_non_retryable e"

section \<open>Byte strings\<close>

definition is_space :: "char \<Rightarrow> bool" where
  "is_space c \<longleftrightarrow> c \<in> {CHR 0x09, CHR 0x0A, CHR 0x0B, CHR 0x0C, CHR 0x0D, CHR 0x20}"

definition TrimSpace :: "string \<Rightarrow> string" where
  "TrimSpace s = rev (dropWhile is_space (rev (dropWhile is_space s)))"

definition lower_char :: "char \<Rightarrow> char" where
  "lower_char c = (let n = (of_char c :: nat) in
     if 65 \<le> n \<and> n \<le> 90 then char_of (n + 32) else c)"

definition ToLower :: "string \<Rightarrow> string" where
  "ToLower s = List.map lower_char s"

definition HasPrefix :: "string \<Rightarrow> string \<Rightarrow> bool" where
  "HasPrefix s p \<longleftrightarrow> prefix p s"

definition HasSuffix :: "string \<Rightarrow> string \<Rightarrow> bool" where
  "HasSuffix s p \<longleftrightarrow> suffix p s"

fun Contains :: "string \<Rightarrow> string \<Rightarrow> bool" where
  "Contains [] p = (p = [])"
| "Contains (c # s) p = (prefix p (c # s) \<or> Contains s p)"

definition TrimPrefix :: "string \<Rightarrow> string \<Rightarrow> string" where
  "TrimPrefix s p = (if prefix p s then drop (length p) s else s)"

text \<open>\<open>filepath.Ext\<close>: the suffix from the last dot of the last path element.\<close>

definition filepath_Ext :: "string \<Rightarrow> string" where
  "filepath_Ext p = (let r = takeWhile (\<lambda>c. c \<noteq> CHR ''/'') (rev p) in
     if CHR ''.'' \<in> set r then CHR ''.'' # rev (takeWhile (\<lambda>c. c \<noteq> CHR ''.'') r) else [])"

text \<open>\<open>filepath.Base\<close>: trailing slashes dropped, then what follows the last slash.\<close>

definition filepath_Base :: "string \<Rightarrow> string" where
  "filepath_Base p = (if p = [] then ''.'' else
     (let s = dropWhile (\<lambda>c. c = CHR ''/'') (rev p) in
      if s = [] then ''/'' else rev (takeWhile (\<lambda>c. c \<noteq> CHR ''/'') s)))"

fun nat_digits :: "nat \<Rightarrow> string" where
  "nat_digits n = (if n < 10 then [char_of (48 + n)]
     else nat_digits (n div 10) @ [char_of (48 + n mod 10)])"

declare nat_digits.simps [simp del]

definition int_string :: "int \<Rightarrow> string" where
  "int_string i = (if i < 0 then CHR ''-'' # nat_digits (nat (- i)) else nat_digits (nat i))"

text \<open>\<open>%03d\<close>: padded with zeros to three characters, the sign first.\<close>

definition pad3 :: "int \<Rightarrow> string" where
  "pad3 i = (let ds = nat_digits (nat (abs i)); w = (if i < 0 then 2 else 3) in
     (if i < 0 then ''-'' else []) @ replicate (w - length ds) (CHR ''0'') @ ds)"

lemmas [str_defs] = TrimSpace_def ToLower_def HasPrefix_def HasSuffix_def TrimPrefix_def
  filepath_Ext_def filepath_Base_def

subsection \<open>Facts on strings\<close>

lemma Contains_iff: "Contains s p \<longleftrightarrow> sublist p s"
proof (induction s)
  case Nil
  show ?case by auto
next
  case (Cons c s)
  then show ?case by (auto simp: sublist_Cons_right)
qed

lemma Contains_append: "Contains (a @ p @ b) p"
  by (simp add: Contains_iff)

lemma dropWhile_space_fix: "xs = [] \<or> \<not> P (hd xs) \<Longrightarrow> dropWhile P xs = xs"
  by (cases xs) auto

lemma TrimSpace_hd: "TrimSpace s \<noteq> [] \<Longrightarrow> \<not> is_space (hd (TrimSpace s))"
proof -
  let ?d = "dropWhile is_space s"
  assume ne: "TrimSpace s \<noteq> []"
  have suf: "suffix (dropWhile is_space (rev ?d)) (rev ?d)" by (rule suffix_dropWhile)
  then have "prefix (TrimSpace s) ?d" by (simp add: TrimSpace_def suffix_to_prefix)
  then obtain z where z: "?d = TrimSpace s @ z" by (auto simp: prefix_def)
  then have "?d \<noteq> []" and "hd ?d = hd (TrimSpace s)" using ne by auto
  then show ?thesis using hd_dropWhile [of is_space s] by simp
qed

lemma TrimSpace_last: "TrimSpace s \<noteq> [] \<Longrightarrow> \<not> is_space (last (TrimSpace s))"
  unfolding TrimSpace_def by (simp add: last_rev hd_dropWhile)

lemma TrimSpace_idem [simp]: "TrimSpace (TrimSpace s) = TrimSpace s"
proof -
  let ?t = "TrimSpace s"
  have a: "dropWhile is_space ?t = ?t"
    by (rule dropWhile_space_fix) (use TrimSpace_hd in blast)
  have b: "dropWhile is_space (rev ?t) = rev ?t"
    by (rule dropWhile_space_fix) (use TrimSpace_last in \<open>auto simp: hd_rev\<close>)
  show ?thesis unfolding TrimSpace_def [of ?t] a b by simp
qed

lemma TrimSpace_Nil [simp]: "TrimSpace [] = []"
  by (simp add: TrimSpace_def)

end
