(* ===== verification/Comp.thy ===== *)
theory Comp
  imports Prelude
begin

text \<open>
  The computation type of the handlers: a function of an environment \<open>'r\<close> (the configuration
  and the oracles of a run) and a world \<open>'w\<close> (database, clock ticks, brokers) that yields a Go
  error or a value, and the new world. An error does not undo the world: only
  \<open>tx\<close>, the transaction, restores the database. The rules below evaluate the combinators and
  prove that a handler keeps an invariant whatever errors the environment injects.
\<close>

type_synonym ('r, 'w, 'a) comp = "'r \<Rightarrow> 'w \<Rightarrow> (go_error + 'a) \<times> 'w"

definition returnC :: "'a \<Rightarrow> ('r, 'w, 'a) comp" where
  "returnC a = (\<lambda>r w. (Inr a, w))"

definition failC :: "go_error \<Rightarrow> ('r, 'w, 'a) comp" where
  "failC e = (\<lambda>r w. (Inl e, w))"

definition bindC :: "('r, 'w, 'a) comp \<Rightarrow> ('a \<Rightarrow> ('r, 'w, 'b) comp) \<Rightarrow> ('r, 'w, 'b) comp" where
  "bindC c f = (\<lambda>r w. case c r w of (Inl e, w') \<Rightarrow> (Inl e, w') | (Inr a, w') \<Rightarrow> f a r w')"

definition thenC :: "('r, 'w, 'a) comp \<Rightarrow> ('r, 'w, 'b) comp \<Rightarrow> ('r, 'w, 'b) comp" where
  "thenC c d = bindC c (\<lambda>_. d)"

text \<open>\<open>if err != nil \<dots>\<close> with a branch for the error and one for the value.\<close>

definition tryC :: "('r, 'w, 'a) comp \<Rightarrow> (go_error \<Rightarrow> ('r, 'w, 'b) comp)
    \<Rightarrow> ('a \<Rightarrow> ('r, 'w, 'b) comp) \<Rightarrow> ('r, 'w, 'b) comp" where
  "tryC c h f = (\<lambda>r w. case c r w of (Inl e, w') \<Rightarrow> h e r w' | (Inr a, w') \<Rightarrow> f a r w')"

text \<open>\<open>if err != nil { return g(err) }\<close>.\<close>

definition mapErrC :: "(go_error \<Rightarrow> go_error) \<Rightarrow> ('r, 'w, 'a) comp \<Rightarrow> ('r, 'w, 'a) comp" where
  "mapErrC g c = tryC c (\<lambda>e. failC (g e)) returnC"

definition liftC :: "'a res \<Rightarrow> ('r, 'w, 'a) comp" where
  "liftC x = (\<lambda>r w. (x, w))"

definition askC :: "('r \<Rightarrow> 'a) \<Rightarrow> ('r, 'w, 'a) comp" where
  "askC f = (\<lambda>r w. (Inr (f r), w))"

text \<open>A step on the world that needs no oracle.\<close>

definition stateC :: "('w \<Rightarrow> (go_error + 'a) \<times> 'w) \<Rightarrow> ('r, 'w, 'a) comp" where
  "stateC f = (\<lambda>r w. f w)"

text \<open>A loop over a slice with a state, left by the first error.\<close>

fun foldC :: "('a \<Rightarrow> 's \<Rightarrow> ('r, 'w, 's) comp) \<Rightarrow> 'a list \<Rightarrow> 's \<Rightarrow> ('r, 'w, 's) comp" where
  "foldC f [] s = returnC s"
| "foldC f (x # xs) s = bindC (f x s) (foldC f xs)"

section \<open>Evaluation\<close>

lemma returnC_run [comp_simps]: "returnC a r w = (Inr a, w)"
  by (simp add: returnC_def)

lemma failC_run [comp_simps]: "failC e r w = (Inl e, w)"
  by (simp add: failC_def)

lemma liftC_run [comp_simps]: "liftC x r w = (x, w)"
  by (simp add: liftC_def)

lemma askC_run [comp_simps]: "askC f r w = (Inr (f r), w)"
  by (simp add: askC_def)

lemma stateC_run [comp_simps]: "stateC f r w = f w"
  by (simp add: stateC_def)

lemma bindC_run [comp_simps]: "bindC c f r w =
    (case c r w of (Inl e, w') \<Rightarrow> (Inl e, w') | (Inr a, w') \<Rightarrow> f a r w')"
  by (simp add: bindC_def)

lemma thenC_run [comp_simps]: "thenC c d r w =
    (case c r w of (Inl e, w') \<Rightarrow> (Inl e, w') | (Inr a, w') \<Rightarrow> d r w')"
  by (simp add: thenC_def bindC_def)

lemma tryC_run [comp_simps]: "tryC c h f r w =
    (case c r w of (Inl e, w') \<Rightarrow> h e r w' | (Inr a, w') \<Rightarrow> f a r w')"
  by (simp add: tryC_def)

lemma mapErrC_run [comp_simps]: "mapErrC g c r w =
    (case c r w of (Inl e, w') \<Rightarrow> (Inl (g e), w') | (Inr a, w') \<Rightarrow> (Inr a, w'))"
  by (simp add: mapErrC_def tryC_def failC_def returnC_def split: prod.splits sum.splits)

lemma bindC_assoc: "bindC (bindC c f) g = bindC c (\<lambda>a. bindC (f a) g)"
  by (intro ext) (simp add: bindC_def split: prod.splits sum.splits)

lemma bindC_return_left: "bindC (returnC a) f = f a"
  by (intro ext) (simp add: bindC_def returnC_def)

lemma bindC_return_right: "bindC c returnC = c"
  by (intro ext) (simp add: bindC_def returnC_def split: prod.splits sum.splits)

section \<open>Postconditions\<close>

text \<open>\<open>wp c Q E\<close>: run from here, \<open>c\<close> yields a value and a world with \<open>Q\<close>, or an error and a
  world with \<open>E\<close>. A handler always returns, so \<open>wp\<close> is total correctness.\<close>

definition wp :: "('r, 'w, 'a) comp \<Rightarrow> ('a \<Rightarrow> 'w \<Rightarrow> bool) \<Rightarrow> (go_error \<Rightarrow> 'w \<Rightarrow> bool)
    \<Rightarrow> 'r \<Rightarrow> 'w \<Rightarrow> bool" where
  "wp c Q E r w = (case c r w of (Inl e, w') \<Rightarrow> E e w' | (Inr a, w') \<Rightarrow> Q a w')"

lemma wp_return [simp]: "wp (returnC a) Q E r w = Q a w"
  by (simp add: wp_def returnC_def)

lemma wp_fail [simp]: "wp (failC e) Q E r w = E e w"
  by (simp add: wp_def failC_def)

lemma wp_bind [simp]: "wp (bindC c f) Q E r w = wp c (\<lambda>a. wp (f a) Q E r) E r w"
  by (simp add: wp_def bindC_def split: prod.splits sum.splits)

lemma wp_then [simp]: "wp (thenC c d) Q E r w = wp c (\<lambda>a. wp d Q E r) E r w"
  by (simp add: thenC_def)

lemma wp_try [simp]: "wp (tryC c h f) Q E r w = wp c (\<lambda>a. wp (f a) Q E r) (\<lambda>e. wp (h e) Q E r) r w"
  by (simp add: wp_def tryC_def split: prod.splits sum.splits)

lemma wp_mapErr [simp]: "wp (mapErrC g c) Q E r w = wp c Q (\<lambda>e. E (g e)) r w"
  by (simp add: wp_def mapErrC_run split: prod.splits sum.splits)

lemma wp_lift [simp]: "wp (liftC x) Q E r w =
    ((\<forall>e. x = Inl e \<longrightarrow> E e w) \<and> (\<forall>a. x = Inr a \<longrightarrow> Q a w))"
  by (auto simp: wp_def liftC_def split: sum.splits)

lemma wp_ask [simp]: "wp (askC f) Q E r w = Q (f r) w"
  by (simp add: wp_def askC_def)

lemma wp_state [simp]: "wp (stateC f) Q E r w =
    (case f w of (Inl e, w') \<Rightarrow> E e w' | (Inr a, w') \<Rightarrow> Q a w')"
  by (simp add: wp_def stateC_def)

lemma wp_mono:
  assumes "wp c Q E r w" and "\<And>a w'. Q a w' \<Longrightarrow> Q' a w'" and "\<And>e w'. E e w' \<Longrightarrow> E' e w'"
  shows "wp c Q' E' r w"
  using assms by (auto simp: wp_def split: prod.splits sum.splits)

lemma wp_foldC:
  assumes "I xs s w"
    and "\<And>x ys t v. I (x # ys) t v \<Longrightarrow> wp (f x t) (\<lambda>t' v'. I ys t' v') E r v"
  shows "wp (foldC f xs s) (\<lambda>t v. I [] t v) E r w"
  using assms(1)
proof (induction xs arbitrary: s w)
  case Nil
  then show ?case by simp
next
  case (Cons x xs)
  show ?case
    by (simp, rule wp_mono [OF assms(2) [OF Cons.prems]]) (auto intro: Cons.IH)
qed

section \<open>Invariants\<close>

text \<open>\<open>keeps I c\<close>: \<open>c\<close> preserves \<open>I\<close>, whether it returns a value or an error.\<close>

definition keeps :: "('r \<Rightarrow> 'w \<Rightarrow> bool) \<Rightarrow> ('r, 'w, 'a) comp \<Rightarrow> bool" where
  "keeps I c \<longleftrightarrow> (\<forall>r w. I r w \<longrightarrow> I r (snd (c r w)))"

lemma keepsD: "keeps I c \<Longrightarrow> I r w \<Longrightarrow> I r (snd (c r w))"
  by (simp add: keeps_def)

lemma wp_both: "wp c (\<lambda>_. P) (\<lambda>_. P) r w = P (snd (c r w))"
  by (simp add: wp_def split: prod.split sum.split)

lemma keeps_wp: "keeps I c \<longleftrightarrow> (\<forall>r w. I r w \<longrightarrow> wp c (\<lambda>_. I r) (\<lambda>_. I r) r w)"
  by (simp add: keeps_def wp_both)

lemma keeps_return [keeps_intros]: "keeps I (returnC a)"
  by (simp add: keeps_def returnC_def)

lemma keeps_fail [keeps_intros]: "keeps I (failC e)"
  by (simp add: keeps_def failC_def)

lemma keeps_lift [keeps_intros]: "keeps I (liftC x)"
  by (simp add: keeps_def liftC_def)

lemma keeps_ask [keeps_intros]: "keeps I (askC f)"
  by (simp add: keeps_def askC_def)

lemma keeps_state: "(\<And>r w. I r w \<Longrightarrow> I r (snd (f w))) \<Longrightarrow> keeps I (stateC f)"
  by (simp add: keeps_def stateC_def)

lemma keeps_try [keeps_intros]:
  assumes c: "keeps I c" and h: "\<And>e. keeps I (h e)" and f: "\<And>a. keeps I (f a)"
  shows "keeps I (tryC c h f)"
  unfolding keeps_def
proof (intro allI impI)
  fix r w assume I: "I r w"
  obtain x w' where x: "c r w = (x, w')" by (cases "c r w")
  have "I r w'" using keepsD [OF c I] x by simp
  then show "I r (snd (tryC c h f r w))"
    using keepsD [OF h] keepsD [OF f] by (simp add: tryC_def x split: sum.splits)
qed

lemma keeps_bind [keeps_intros]:
  assumes "keeps I c" and "\<And>a. keeps I (f a)"
  shows "keeps I (bindC c f)"
proof -
  have "bindC c f = tryC c failC f"
    by (intro ext) (simp add: bindC_def tryC_def failC_def split: prod.splits sum.splits)
  then show ?thesis by (simp add: keeps_try keeps_fail assms)
qed

lemma keeps_then [keeps_intros]: "keeps I c \<Longrightarrow> keeps I d \<Longrightarrow> keeps I (thenC c d)"
  unfolding thenC_def by (rule keeps_bind)

lemma keeps_mapErr [keeps_intros]: "keeps I c \<Longrightarrow> keeps I (mapErrC g c)"
  unfolding mapErrC_def by (intro keeps_intros)

lemma keeps_foldC [keeps_intros]: "(\<And>x s. keeps I (f x s)) \<Longrightarrow> keeps I (foldC f xs s)"
  by (induction xs arbitrary: s) (auto intro: keeps_intros)

lemma keeps_if [keeps_intros]: "(b \<Longrightarrow> keeps I c) \<Longrightarrow> (\<not> b \<Longrightarrow> keeps I d) \<Longrightarrow> keeps I (if b then c else d)"
  by simp

lemma keeps_option [keeps_intros]:
  "(x = None \<Longrightarrow> keeps I c) \<Longrightarrow> (\<And>a. x = Some a \<Longrightarrow> keeps I (f a)) \<Longrightarrow>
    keeps I (case x of None \<Rightarrow> c | Some a \<Rightarrow> f a)"
  by (cases x) auto

lemma keeps_sum [keeps_intros]:
  "(\<And>a. x = Inl a \<Longrightarrow> keeps I (g a)) \<Longrightarrow> (\<And>a. x = Inr a \<Longrightarrow> keeps I (f a)) \<Longrightarrow>
    keeps I (case x of Inl a \<Rightarrow> g a | Inr a \<Rightarrow> f a)"
  by (cases x) auto

lemma keeps_prod [keeps_intros]:
  "(\<And>a b. x = (a, b) \<Longrightarrow> keeps I (f a b)) \<Longrightarrow> keeps I (case x of (a, b) \<Rightarrow> f a b)"
  by (cases x) auto

lemma keeps_let [keeps_intros]: "(\<And>x. x = t \<Longrightarrow> keeps I (f x)) \<Longrightarrow> keeps I (Let t f)"
  by (simp add: Let_def)

lemma keeps_conj: "keeps I c \<Longrightarrow> keeps J c \<Longrightarrow> keeps (\<lambda>r w. I r w \<and> J r w) c"
  by (simp add: keeps_def)

end
