(* ===== verification/GoTime.thy ===== *)
theory GoTime
  imports Prelude
begin

text \<open>
  The part of Go's package \<open>time\<close> that the program uses: an instant in UTC is the number of
  nanoseconds since 1 January of year 1, so the zero \<open>time.Time\<close> is 0; a \<open>time.Duration\<close> is a
  number of nanoseconds; \<open>AddDate\<close> adds to the calendar date and normalises the result, as
  \<open>time.Date\<close> does.
\<close>

type_synonym gotime = int
type_synonym duration = int

abbreviation Second :: duration where "Second \<equiv> 1000000000"
abbreviation Minute :: duration where "Minute \<equiv> 60 * Second"
abbreviation Hour :: duration where "Hour \<equiv> 60 * Minute"
abbreviation Day :: duration where "Day \<equiv> 86400000000000"

definition IsZero :: "gotime \<Rightarrow> bool" where
  "IsZero t \<longleftrightarrow> t = 0"

definition UTC :: "gotime \<Rightarrow> gotime" where
  "UTC t = t"

lemma UTC_id [simp]: "UTC t = t"
  by (simp add: UTC_def)

section \<open>Calendar dates\<close>

definition leap :: "int \<Rightarrow> bool" where
  "leap y \<longleftrightarrow> y mod 4 = 0 \<and> (y mod 100 \<noteq> 0 \<or> y mod 400 = 0)"

text \<open>Days from 1 January of year 1 to 1 January of year \<open>y\<close>.\<close>

definition days_before_year :: "int \<Rightarrow> int" where
  "days_before_year y = 365 * (y - 1) + (y - 1) div 4 - (y - 1) div 100 + (y - 1) div 400"

definition leap_day :: "int \<Rightarrow> int" where
  "leap_day y = (if leap y then 1 else 0)"

text \<open>Days before month \<open>m\<close> (1 to 12; 13 gives the length of the year).\<close>

definition days_before_month :: "int \<Rightarrow> int \<Rightarrow> int" where
  "days_before_month y m = (let l = leap_day y in
     if m \<le> 1 then 0 else if m = 2 then 31 else if m = 3 then 59 + l else if m = 4 then 90 + l
     else if m = 5 then 120 + l else if m = 6 then 151 + l else if m = 7 then 181 + l
     else if m = 8 then 212 + l else if m = 9 then 243 + l else if m = 10 then 273 + l
     else if m = 11 then 304 + l else if m = 12 then 334 + l else 365 + l)"

definition days_in_month :: "int \<Rightarrow> int \<Rightarrow> int" where
  "days_in_month y m = days_before_month y (m + 1) - days_before_month y m"

definition year_of :: "int \<Rightarrow> int" where
  "year_of d = (let n400 = d div 146097; r0 = d mod 146097;
                    n100 = min 3 (r0 div 36524); r1 = r0 - 36524 * n100;
                    n4 = r1 div 1461; r2 = r1 mod 1461;
                    n1 = min 3 (r2 div 365)
                in 400 * n400 + 100 * n100 + 4 * n4 + n1 + 1)"

definition yday_of :: "int \<Rightarrow> int" where
  "yday_of d = d - days_before_year (year_of d)"

definition month_of :: "int \<Rightarrow> int" where
  "month_of d = (let y = year_of d; k = yday_of d; l = leap_day y in
     if k < 31 then 1 else if k < 59 + l then 2 else if k < 90 + l then 3
     else if k < 120 + l then 4 else if k < 151 + l then 5 else if k < 181 + l then 6
     else if k < 212 + l then 7 else if k < 243 + l then 8 else if k < 273 + l then 9
     else if k < 304 + l then 10 else if k < 334 + l then 11 else 12)"

definition mday_of :: "int \<Rightarrow> int" where
  "mday_of d = yday_of d - days_before_month (year_of d) (month_of d) + 1"

text \<open>\<open>time.Date\<close> on a month outside 1 to 12 carries into the year; the day of the month may
  be any number.\<close>

definition date_days :: "int \<Rightarrow> int \<Rightarrow> int \<Rightarrow> int" where
  "date_days y m d = (let y' = y + (m - 1) div 12; m' = (m - 1) mod 12 + 1 in
     days_before_year y' + days_before_month y' m' + d - 1)"

definition AddDate :: "gotime \<Rightarrow> int \<Rightarrow> int \<Rightarrow> int \<Rightarrow> gotime" where
  "AddDate t years months days = (let d = t div Day in
     date_days (year_of d + years) (month_of d + months) (mday_of d + days) * Day + t mod Day)"

definition first_of_month :: "gotime \<Rightarrow> gotime" where
  "first_of_month t = (let d = t div Day in date_days (year_of d) (month_of d) 1 * Day)"

section \<open>The decomposition of a day number is its calendar date\<close>

lemma days_before_year_parts:
  fixes n400 n100 n4 n1 :: int
  assumes "0 \<le> n100" "n100 \<le> 3" "0 \<le> n4" "n4 \<le> 24" "0 \<le> n1" "n1 \<le> 3"
  shows "days_before_year (400 * n400 + 100 * n100 + 4 * n4 + n1 + 1) =
    146097 * n400 + 36524 * n100 + 1461 * n4 + 365 * n1"
proof -
  let ?y = "400 * n400 + 100 * n100 + 4 * n4 + n1"
  have a: "?y div 4 = 100 * n400 + 25 * n100 + n4" using assms by linarith
  have b: "?y div 100 = 4 * n400 + n100" using assms by linarith
  have c: "?y div 400 = n400" using assms by linarith
  show ?thesis unfolding days_before_year_def by (simp add: a b c)
qed

lemma mod_cycle:
  fixes c k q :: int
  assumes "0 < c" "1 \<le> k" "k \<le> c"
  shows "(c * q + k) mod c = 0 \<longleftrightarrow> k = c"
proof (cases "k = c")
  case False
  then have "(c * q + k) mod c = k" using assms by (simp add: mod_pos_pos_trivial)
  then show ?thesis using False assms by simp
qed simp

lemma leap_parts:
  fixes n400 n100 n4 n1 :: int
  assumes "0 \<le> n100" "n100 \<le> 3" "0 \<le> n4" "n4 \<le> 24" "0 \<le> n1" "n1 \<le> 3"
  shows "leap (400 * n400 + 100 * n100 + 4 * n4 + n1 + 1) \<longleftrightarrow>
    n1 = 3 \<and> (n4 \<noteq> 24 \<or> n100 = 3)"
proof -
  let ?y = "400 * n400 + 100 * n100 + 4 * n4 + n1 + 1"
  have a: "?y mod 4 = 0 \<longleftrightarrow> n1 + 1 = 4"
    using mod_cycle [of 4 "n1 + 1" "100 * n400 + 25 * n100 + n4"] assms
    by (simp add: algebra_simps)
  have b: "?y mod 100 = 0 \<longleftrightarrow> 4 * n4 + n1 + 1 = 100"
    using mod_cycle [of 100 "4 * n4 + n1 + 1" "4 * n400 + n100"] assms
    by (simp add: algebra_simps)
  have c: "?y mod 400 = 0 \<longleftrightarrow> 100 * n100 + 4 * n4 + n1 + 1 = 400"
    using mod_cycle [of 400 "100 * n100 + 4 * n4 + n1 + 1" n400] assms
    by (simp add: algebra_simps)
  show ?thesis unfolding leap_def a b c using assms by auto
qed

lemma yday_bounds: "0 \<le> yday_of d" "yday_of d < 365 + leap_day (year_of d)"
proof -
  define n400 where "n400 = d div 146097"
  define r0 where "r0 = d mod 146097"
  define n100 where "n100 = min 3 (r0 div 36524)"
  define r1 where "r1 = r0 - 36524 * n100"
  define n4 where "n4 = r1 div 1461"
  define r2 where "r2 = r1 mod 1461"
  define n1 where "n1 = min 3 (r2 div 365)"
  have y: "year_of d = 400 * n400 + 100 * n100 + 4 * n4 + n1 + 1"
    by (simp add: year_of_def Let_def n400_def r0_def n100_def r1_def n4_def r2_def n1_def)
  have d: "d = 146097 * n400 + r0" by (simp add: n400_def r0_def)
  have r0: "0 \<le> r0" "r0 < 146097" by (simp_all add: r0_def)
  have n100: "0 \<le> n100" "n100 \<le> 3" using r0 by (auto simp: n100_def)
  have r1: "0 \<le> r1" "r1 \<le> 36524" "r1 = 36524 \<longrightarrow> n100 = 3"
    using r0 unfolding r1_def n100_def by linarith+
  have r1': "r1 = 1461 * n4 + r2" by (simp add: n4_def r2_def)
  have r2: "0 \<le> r2" "r2 < 1461" by (simp_all add: r2_def)
  have n4: "0 \<le> n4" "n4 \<le> 24" using r1 by (simp_all add: n4_def)
  have n1: "0 \<le> n1" "n1 \<le> 3" using r2 by (auto simp: n1_def)
  have k: "yday_of d = r2 - 365 * n1"
    unfolding yday_of_def y days_before_year_parts [OF n100 n4 n1] using d r1_def r1' by linarith
  have r2': "r2 - 365 * n1 < 365 \<or> (n1 = 3 \<and> r2 - 365 * n1 = 365)" "0 \<le> r2 - 365 * n1"
    using r2 unfolding n1_def by linarith+
  have full: "r2 = 1460 \<longrightarrow> n4 \<noteq> 24 \<or> n100 = 3" using r1 r1' by linarith
  show "0 \<le> yday_of d" using k r2' by simp
  show "yday_of d < 365 + leap_day (year_of d)"
    using k r2' full n1 unfolding leap_day_def y leap_parts [OF n100 n4 n1] by auto
qed

lemma leap_day_range: "0 \<le> leap_day y" "leap_day y \<le> 1"
  by (simp_all add: leap_day_def)

lemma month_range: "1 \<le> month_of d" "month_of d \<le> 12"
  by (simp_all add: month_of_def Let_def)

lemma mday_range: "1 \<le> mday_of d" "mday_of d \<le> days_in_month (year_of d) (month_of d)"
  using yday_bounds [of d] leap_day_range [of "year_of d"]
  by (auto simp: mday_of_def days_in_month_def days_before_month_def month_of_def Let_def)

lemma days_in_month_range:
  assumes "1 \<le> m" "m \<le> 12"
  shows "28 \<le> days_in_month y m" "days_in_month y m \<le> 31"
proof -
  have "m \<in> {1..12}" using assms by simp
  then have m: "m \<in> set [1..12]" by simp
  then show "28 \<le> days_in_month y m" "days_in_month y m \<le> 31"
    using leap_day_range [of y]
    by (auto simp: days_in_month_def days_before_month_def Let_def upto_rec1)
qed

lemma date_days_of_day: "date_days (year_of d) (month_of d) (mday_of d) = d"
  using month_range [of d]
  by (simp add: date_days_def Let_def mday_of_def yday_of_def div_pos_pos_trivial mod_pos_pos_trivial)

lemma div_pred:
  fixes y k :: int
  assumes "1 < k"
  shows "y div k = (y - 1) div k + (if y mod k = 0 then 1 else 0)"
proof (cases "y mod k = 0")
  case True
  then have "y - 1 = k * (y div k - 1) + (k - 1)" by (auto simp: algebra_simps)
  then have "(y - 1) div k = y div k - 1" using assms by (intro int_div_pos_eq [where r = "k - 1"]) auto
  then show ?thesis using True by simp
next
  case False
  have "0 \<le> y mod k" "y mod k < k" using assms by simp_all
  moreover have "y - 1 = k * (y div k) + (y mod k - 1)" by simp
  ultimately have "(y - 1) div k = y div k"
    using False by (intro int_div_pos_eq [where r = "y mod k - 1"]) auto
  then show ?thesis using False by simp
qed

lemma year_sum:
  fixes y a b c p q r :: int
  shows "365 * y + (a + p) - (b + q) + (c + r) = 365 * (y - 1) + a - b + c + 365 + p - q + r"
  by simp

lemma leap_sum:
  assumes "r \<longrightarrow> q" "q \<longrightarrow> p"
  shows "(if p \<and> (\<not> q \<or> r) then 1 else 0 :: int) =
    (if p then 1 else 0) - (if q then 1 else 0) + (if r then 1 else 0)"
  using assms by (cases p; cases q; cases r) simp_all

lemma year_step: "days_before_year (y + 1) = days_before_year y + 365 + leap_day y"
proof -
  have a: "y div 4 = (y - 1) div 4 + (if y mod 4 = 0 then 1 else 0)" by (rule div_pred) simp
  have b: "y div 100 = (y - 1) div 100 + (if y mod 100 = 0 then 1 else 0)" by (rule div_pred) simp
  have c: "y div 400 = (y - 1) div 400 + (if y mod 400 = 0 then 1 else 0)" by (rule div_pred) simp
  have d: "y mod 400 = 0 \<longrightarrow> y mod 100 = 0" "y mod 100 = 0 \<longrightarrow> y mod 4 = 0"
    using dvd_trans [of 100 400 y] dvd_trans [of 4 100 y] by (simp_all add: mod_eq_0_iff_dvd)
  have "days_before_year (y + 1) = days_before_year y + 365
      + (if y mod 4 = 0 then 1 else 0) - (if y mod 100 = 0 then 1 else 0)
      + (if y mod 400 = 0 then 1 else 0)"
    unfolding days_before_year_def add_diff_cancel_right' a b c by (rule year_sum)
  moreover have "leap_day y = (if y mod 4 = 0 then 1 else 0) - (if y mod 100 = 0 then 1 else 0)
      + (if y mod 400 = 0 then 1 else 0)"
    unfolding leap_day_def leap_def by (rule leap_sum [OF d])
  ultimately show ?thesis by linarith
qed

text \<open>One month later is as many days later as the month has: the day of the month is kept only
  when the next month has it.\<close>

lemma date_days_next_month:
  assumes "1 \<le> m" "m \<le> 12"
  shows "date_days y (m + 1) d = date_days y m d + days_in_month y m"
proof (cases "m = 12")
  case True
  have "days_before_month y 13 = 365 + leap_day y" by (simp add: days_before_month_def Let_def)
  moreover have "days_before_month (y + 1) 1 = 0" by (simp add: days_before_month_def Let_def)
  ultimately show ?thesis
    using True by (simp add: date_days_def Let_def year_step days_in_month_def)
next
  case False
  then have "m div 12 = 0" "m mod 12 = m" "(m - 1) div 12 = 0" "(m - 1) mod 12 = m - 1"
    using assms by auto
  then show ?thesis by (simp add: date_days_def Let_def days_in_month_def)
qed

lemma AddDate_month:
  "AddDate t 0 1 0 = t + days_in_month (year_of (t div Day)) (month_of (t div Day)) * Day"
proof -
  let ?d = "t div Day"
  have "date_days (year_of ?d) (month_of ?d + 1) (mday_of ?d) =
      ?d + days_in_month (year_of ?d) (month_of ?d)"
    using date_days_next_month [OF month_range] date_days_of_day by simp
  then have "AddDate t 0 1 0 = (?d + days_in_month (year_of ?d) (month_of ?d)) * Day + t mod Day"
    by (simp add: AddDate_def Let_def)
  then show ?thesis by (simp add: algebra_simps)
qed

lemma AddDate_month_bounds: "t + 28 * Day \<le> AddDate t 0 1 0" "AddDate t 0 1 0 \<le> t + 31 * Day"
  using days_in_month_range [OF month_range] unfolding AddDate_month by auto

lemma AddDate_month_later: "t < AddDate t 0 1 0"
  using AddDate_month_bounds(1) [of t] by linarith

section \<open>The first day of a month\<close>

lemma days_before_year_mono: "y < z \<Longrightarrow> days_before_year y < days_before_year z"
proof (induction z rule: int_gr_induct)
  case base
  show ?case using year_step [of y] leap_day_range [of y] by simp
next
  case (step i)
  then show ?case using year_step [of i] leap_day_range [of i] by simp
qed

lemma year_of_unique:
  assumes "days_before_year y \<le> d" "d < days_before_year (y + 1)"
  shows "year_of d = y"
proof -
  have a: "days_before_year (year_of d) \<le> d" "d < days_before_year (year_of d + 1)"
    using yday_bounds [of d] year_step [of "year_of d"] by (simp_all add: yday_of_def)
  have "\<not> year_of d < y"
  proof
    assume "year_of d < y"
    then have "year_of d + 1 = y \<or> year_of d + 1 < y" by linarith
    then show False using a assms days_before_year_mono [of "year_of d + 1" y] by auto
  qed
  moreover have "\<not> y < year_of d"
  proof
    assume "y < year_of d"
    then have "y + 1 = year_of d \<or> y + 1 < year_of d" by linarith
    then show False using a assms days_before_year_mono [of "y + 1" "year_of d"] by auto
  qed
  ultimately show ?thesis by simp
qed

lemma month_of_first:
  fixes y m :: int
  assumes "1 \<le> m" "m \<le> 12"
  shows "year_of (days_before_year y + days_before_month y m) = y" (is "year_of ?d = y")
    and "month_of (days_before_year y + days_before_month y m) = m"
proof -
  have m: "m \<in> set [1..12]" using assms(1,2) by simp
  show y: "year_of ?d = y"
    by (rule year_of_unique)
      (use m leap_day_range [of y] in \<open>auto simp: year_step days_before_month_def Let_def upto_rec1\<close>)
  have "yday_of ?d = days_before_month y m" by (simp add: yday_of_def y)
  then have k: "month_of ?d = (let k = days_before_month y m; l = leap_day y in
     if k < 31 then 1 else if k < 59 + l then 2 else if k < 90 + l then 3
     else if k < 120 + l then 4 else if k < 151 + l then 5 else if k < 181 + l then 6
     else if k < 212 + l then 7 else if k < 243 + l then 8 else if k < 273 + l then 9
     else if k < 304 + l then 10 else if k < 334 + l then 11 else 12)"
    by (simp only: month_of_def y Let_def)
  have m12: "m = 1 \<or> m = 2 \<or> m = 3 \<or> m = 4 \<or> m = 5 \<or> m = 6 \<or> m = 7 \<or> m = 8 \<or> m = 9 \<or> m = 10
      \<or> m = 11 \<or> m = 12" using m by (simp add: upto_rec1)
  have "leap_day y = 0 \<or> leap_day y = 1" by (simp add: leap_day_def)
  then show "month_of ?d = m"
    unfolding k by (elim disjE; use m12 in \<open>elim disjE\<close>; simp add: days_before_month_def Let_def)
qed

lemma first_of_month_bounds: "first_of_month t \<le> t" "t < AddDate (first_of_month t) 0 1 0"
proof -
  let ?d = "t div Day"
  let ?y = "year_of ?d" and ?m = "month_of ?d"
  let ?f = "days_before_year ?y + days_before_month ?y ?m"
  have f: "first_of_month t = ?f * Day" and day: "?f div 1 = ?d - (mday_of ?d - 1)"
    using month_range [of ?d]
    by (simp_all add: first_of_month_def date_days_def Let_def mday_of_def yday_of_def)
  have fd: "first_of_month t div Day = ?f" unfolding f by simp
  have t: "t = ?d * Day + t mod Day" "0 \<le> t mod Day" "t mod Day < Day" by simp_all
  have "?f \<le> ?d" using day mday_range(1) [of ?d] by simp
  then have "?f * Day \<le> ?d * Day" by simp
  then show "first_of_month t \<le> t" using f t by linarith
  have "?d + 1 \<le> ?f + days_in_month ?y ?m" using day mday_range(2) [of ?d] by simp
  then have "(?d + 1) * Day \<le> (?f + days_in_month ?y ?m) * Day" by simp
  moreover have "(?d + 1) * Day = ?d * Day + Day" by simp
  moreover have "(?f + days_in_month ?y ?m) * Day = ?f * Day + days_in_month ?y ?m * Day"
    by (rule distrib_right)
  ultimately have "t < first_of_month t + days_in_month ?y ?m * Day"
    using f t by linarith
  then show "t < AddDate (first_of_month t) 0 1 0"
    unfolding AddDate_month fd month_of_first [OF month_range] .
qed

end
