(* ===== verification/Content.thy ===== *)
theory Content
  imports GoTime
begin

text \<open>
  \<open>src/internal/domain/content\<close>: one analysable unit, a full image or a video frame. The status
  machine goes from \<open>uploaded\<close> through \<open>analyzing\<close> to \<open>analyzed\<close>, or to \<open>failed\<close>; every change
  of status records exactly one event. Operations take the reading of the clock and the fresh
  event identifiers as arguments; an operation that returns an error leaves the entity alone.
  A \<open>float64\<close> weight or confidence is a rational number (no rounding, no NaN).
\<close>

section \<open>Data\<close>

datatype content_status =
  ContentPendingUpload | ContentStUploaded | ContentAnalyzing | ContentAnalyzed | ContentFailed

fun content_status_string :: "content_status \<Rightarrow> string" where
  "content_status_string ContentPendingUpload = ''pending_upload''"
| "content_status_string ContentStUploaded = ''uploaded''"
| "content_status_string ContentAnalyzing = ''analyzing''"
| "content_status_string ContentAnalyzed = ''analyzed''"
| "content_status_string ContentFailed = ''failed''"

text \<open>\<open>Label\<close> is a string type with three valid values.\<close>

datatype label = LabelHuman | LabelAIGenerated | LabelUncertain | LabelOther string

fun label_string :: "label \<Rightarrow> string" where
  "label_string LabelHuman = ''human''"
| "label_string LabelAIGenerated = ''ai_generated''"
| "label_string LabelUncertain = ''uncertain''"
| "label_string (LabelOther s) = s"

definition label_of_string :: "string \<Rightarrow> label" where
  "label_of_string s = (if s = ''human'' then LabelHuman
     else if s = ''ai_generated'' then LabelAIGenerated
     else if s = ''uncertain'' then LabelUncertain else LabelOther s)"

record signal =
  sg_Type :: string
  sg_Code :: string
  sg_Description :: string
  sg_Weight :: rat

record verdict =
  v_Label :: label
  v_Confidence :: rat
  v_Signals :: "signal list"

datatype content_event =
    ContentCreated (cev_ID: uuid) (cev_ContentID: uuid) (cev_MediaID: uuid) (cev_CampaignID: uuid)
      (cev_ClientID: uuid) (cev_ObjectKey: string) (cev_Status: string) (cev_Timestamp: gotime)
  | ContentUploaded (cev_ID: uuid) (cev_ContentID: uuid) (cev_MediaID: uuid) (cev_CampaignID: uuid)
      (cev_ClientID: uuid) (cev_ObjectKey: string) (cev_ThumbnailKey: string) (cev_SizeBytes: int)
      (cev_Timestamp: gotime)
  | ContentStatusChanged (cev_ID: uuid) (cev_ContentID: uuid) (cev_MediaID: uuid)
      (cev_CampaignID: uuid) (cev_ClientID: uuid) (cev_Status: string) (cev_Label: string)
      (cev_Timestamp: gotime)
  | ContentVerdictRendered (cev_ID: uuid) (cev_ContentID: uuid) (cev_MediaID: uuid)
      (cev_CampaignID: uuid) (cev_ClientID: uuid) (cev_Label: string) (cev_Confidence: rat)
      (cev_Signals: "signal list") (cev_Timestamp: gotime)

fun content_event_type :: "content_event \<Rightarrow> string" where
  "content_event_type (ContentCreated _ _ _ _ _ _ _ _) = ''content.created.v1''"
| "content_event_type (ContentUploaded _ _ _ _ _ _ _ _ _) = ''content.uploaded.v1''"
| "content_event_type (ContentStatusChanged _ _ _ _ _ _ _ _) = ''content.status_changed.v1''"
| "content_event_type (ContentVerdictRendered _ _ _ _ _ _ _ _ _) = ''content.verdict_rendered.v1''"

record content =
  c_ID :: uuid
  c_MediaID :: uuid
  c_FrameIndex :: "int option"
  c_TimestampMs :: "int option"
  c_ObjectKey :: string
  c_ThumbnailKey :: "string option"
  c_SizeBytes :: "int option"
  c_Label :: "label option"
  c_Confidence :: "rat option"
  c_Status :: content_status
  c_CreatedAt :: gotime
  c_UpdatedAt :: gotime
  c_CampaignID :: uuid
  c_ClientID :: uuid
  c_events :: "content_event list"

section \<open>Operations\<close>

definition FileExtension :: "string \<Rightarrow> string" where
  "FileExtension filename = ToLower (TrimPrefix (filepath_Ext filename) ''.'')"

fun ValidateLabel :: "label \<Rightarrow> unit res" where
  "ValidateLabel LabelHuman = Inr ()"
| "ValidateLabel LabelAIGenerated = Inr ()"
| "ValidateLabel LabelUncertain = Inr ()"
| "ValidateLabel (LabelOther s) = Inl (Sentinel ContentErrInvalidLabel)"

definition IsThumbnailObjectKey :: "string \<Rightarrow> bool" where
  "IsThumbnailObjectKey key = Contains key ''/thumbnails/''"

definition IsContentObjectKey :: "string \<Rightarrow> bool" where
  "IsContentObjectKey key = (if IsThumbnailObjectKey key then False
     else if Contains key ''/contents/'' then True
     else Contains key ''/media/'' \<and> Contains key ''/frames/'')"

definition content_NewThumbnailKey :: "(uuid \<Rightarrow> string) \<Rightarrow> uuid \<Rightarrow> uuid \<Rightarrow> uuid \<Rightarrow> string" where
  "content_NewThumbnailKey us clientID campaignID contentID =
     ''clients/'' @ us clientID @ ''/campaigns/'' @ us campaignID @
     ''/media/thumbnails/contents/'' @ us contentID @ ''.jpg''"

definition content_recordEvent :: "content_event \<Rightarrow> content \<Rightarrow> content" where
  "content_recordEvent e c = c\<lparr>c_events := c_events c @ [e]\<rparr>"

definition content_PullEvents :: "content \<Rightarrow> content_event list \<times> content" where
  "content_PullEvents c = (c_events c, c\<lparr>c_events := []\<rparr>)"

definition content_recordStatusChanged :: "uuid \<Rightarrow> gotime \<Rightarrow> content \<Rightarrow> content" where
  "content_recordStatusChanged eid ts c =
     content_recordEvent (ContentStatusChanged eid (c_ID c) (c_MediaID c) (c_CampaignID c)
       (c_ClientID c) (content_status_string (c_Status c))
       (case c_Label c of None \<Rightarrow> '''' | Some l \<Rightarrow> label_string l) ts) c"

text \<open>Identifiers \<open>nid\<close>, \<open>eid1\<close>, \<open>eid2\<close> are the three values of \<open>uuid.New\<close> in the order of the calls.\<close>

definition NewFromMedia :: "gotime \<Rightarrow> uuid \<Rightarrow> uuid \<Rightarrow> uuid \<Rightarrow> uuid \<Rightarrow> uuid \<Rightarrow> uuid \<Rightarrow> string
    \<Rightarrow> int option \<Rightarrow> int option \<Rightarrow> int \<Rightarrow> string \<Rightarrow> content res" where
  "NewFromMedia now nid eid1 eid2 mediaID campaignID clientID objectKey frameIndex timestampMs
     sizeBytes thumbnailKey =
   (if mediaID = uuid_Nil then Inl (Err ''media id is required'')
    else let objectKey = TrimSpace objectKey in
      if objectKey = [] then Inl (Err ''object key is required'')
      else let size = (if sizeBytes < 0 then 0 else sizeBytes);
               thumb = TrimSpace thumbnailKey;
               c = \<lparr>c_ID = nid, c_MediaID = mediaID, c_FrameIndex = frameIndex,
                    c_TimestampMs = timestampMs, c_ObjectKey = objectKey,
                    c_ThumbnailKey = (if thumb \<noteq> [] then Some thumb else None),
                    c_SizeBytes = Some size, c_Label = None, c_Confidence = None,
                    c_Status = ContentStUploaded, c_CreatedAt = now, c_UpdatedAt = now,
                    c_CampaignID = campaignID, c_ClientID = clientID, c_events = []\<rparr>
      in Inr (content_recordEvent (ContentUploaded eid2 nid mediaID campaignID clientID objectKey
                thumb size now)
           (content_recordEvent (ContentCreated eid1 nid mediaID campaignID clientID objectKey
              (content_status_string ContentStUploaded) now) c)))"

definition StartAnalyzing :: "gotime \<Rightarrow> uuid \<Rightarrow> content \<Rightarrow> content res" where
  "StartAnalyzing now eid c =
     (if c_Status c \<noteq> ContentStUploaded then Inl (Sentinel ContentErrInvalidTransition)
      else Inr (content_recordStatusChanged eid now
        (c\<lparr>c_Label := None, c_Confidence := None, c_Status := ContentAnalyzing,
           c_UpdatedAt := now\<rparr>)))"

definition StartAnalysis :: "gotime \<Rightarrow> uuid \<Rightarrow> content \<Rightarrow> content res" where
  "StartAnalysis = StartAnalyzing"

definition RenderVerdict :: "gotime \<Rightarrow> uuid \<Rightarrow> verdict \<Rightarrow> content \<Rightarrow> content res" where
  "RenderVerdict now eid v c =
     (if c_Status c \<noteq> ContentAnalyzing then Inl (Sentinel ContentErrInvalidTransition)
      else case ValidateLabel (v_Label v) of
        Inl e \<Rightarrow> Inl e
      | Inr _ \<Rightarrow> Inr (content_recordEvent (ContentVerdictRendered eid (c_ID c) (c_MediaID c)
            (c_CampaignID c) (c_ClientID c) (label_string (v_Label v)) (v_Confidence v)
            (v_Signals v) now)
          (c\<lparr>c_Label := Some (v_Label v), c_Confidence := Some (v_Confidence v),
             c_Status := ContentAnalyzed, c_UpdatedAt := now\<rparr>)))"

definition CompleteAnalysis :: "gotime \<Rightarrow> uuid \<Rightarrow> label \<Rightarrow> content \<Rightarrow> content res" where
  "CompleteAnalysis now eid l = RenderVerdict now eid \<lparr>v_Label = l, v_Confidence = 0, v_Signals = []\<rparr>"

definition content_MarkFailed :: "gotime \<Rightarrow> uuid \<Rightarrow> content \<Rightarrow> content res" where
  "content_MarkFailed now eid c =
     (if c_Status c \<noteq> ContentPendingUpload \<and> c_Status c \<noteq> ContentStUploaded
         \<and> c_Status c \<noteq> ContentAnalyzing
      then Inl (Sentinel ContentErrInvalidTransition)
      else Inr (content_recordStatusChanged eid now
        (c\<lparr>c_Status := ContentFailed, c_UpdatedAt := now\<rparr>)))"

definition SetThumbnailKey :: "gotime \<Rightarrow> string \<Rightarrow> content \<Rightarrow> content" where
  "SetThumbnailKey now key c = (let key = TrimSpace key in
     if key = [] then c\<lparr>c_ThumbnailKey := None\<rparr>
     else c\<lparr>c_ThumbnailKey := Some key, c_UpdatedAt := now\<rparr>)"

definition IsTerminal :: "content \<Rightarrow> bool" where
  "IsTerminal c \<longleftrightarrow> c_Status c = ContentAnalyzed \<or> c_Status c = ContentFailed"

definition RequeueAnalysis :: "gotime \<Rightarrow> uuid \<Rightarrow> content \<Rightarrow> content" where
  "RequeueAnalysis now eid c =
     content_recordEvent (ContentUploaded eid (c_ID c) (c_MediaID c) (c_CampaignID c) (c_ClientID c)
       (c_ObjectKey c) (case c_ThumbnailKey c of None \<Rightarrow> '''' | Some t \<Rightarrow> t)
       (case c_SizeBytes c of None \<Rightarrow> 0 | Some s \<Rightarrow> s) now)
     (c\<lparr>c_UpdatedAt := now\<rparr>)"

section \<open>Labels\<close>

lemma ValidateLabel_ok: "ValidateLabel l = Inr () \<longleftrightarrow> l \<in> {LabelHuman, LabelAIGenerated, LabelUncertain}"
  by (cases l) auto

lemma ValidateLabel_cases: "ValidateLabel l = Inr () \<or> ValidateLabel l = Inl (Sentinel ContentErrInvalidLabel)"
  by (cases l) auto

lemma label_of_string_string: "ValidateLabel l = Inr () \<Longrightarrow> label_of_string (label_string l) = l"
  by (cases l) (auto simp: label_of_string_def)

lemma label_string_of_string: "label_string (label_of_string s) = s"
  by (simp add: label_of_string_def)

lemma valid_label_not_empty: "ValidateLabel l = Inr () \<Longrightarrow> label_string l \<noteq> []"
  by (cases l) auto

section \<open>The entity of each operation\<close>

named_theorems content_ops "definitions of the operations of a content"

lemmas [content_ops] = content_recordEvent_def content_recordStatusChanged_def StartAnalyzing_def
  StartAnalysis_def RenderVerdict_def CompleteAnalysis_def content_MarkFailed_def
  SetThumbnailKey_def RequeueAnalysis_def

text \<open>The one label of a content is set exactly when it is analysed.\<close>

definition content_wf :: "content \<Rightarrow> bool" where
  "content_wf c \<longleftrightarrow>
     (c_Status c = ContentAnalyzed \<longrightarrow>
        (\<exists>l q. c_Label c = Some l \<and> ValidateLabel l = Inr () \<and> c_Confidence c = Some q)) \<and>
     (c_Status c \<in> {ContentPendingUpload, ContentStUploaded, ContentAnalyzing} \<longrightarrow>
        c_Label c = None \<and> c_Confidence c = None) \<and>
     (\<forall>s. c_SizeBytes c = Some s \<longrightarrow> 0 \<le> s)"

lemma NewFromMedia_cases:
  "NewFromMedia now nid eid1 eid2 mid cpid clid key fi ts sz thumb =
   (if mid = uuid_Nil then Inl (Err ''media id is required'')
    else if TrimSpace key = [] then Inl (Err ''object key is required'')
    else Inr \<lparr>c_ID = nid, c_MediaID = mid, c_FrameIndex = fi, c_TimestampMs = ts,
         c_ObjectKey = TrimSpace key,
         c_ThumbnailKey = (if TrimSpace thumb \<noteq> [] then Some (TrimSpace thumb) else None),
         c_SizeBytes = Some (max 0 sz), c_Label = None, c_Confidence = None,
         c_Status = ContentStUploaded, c_CreatedAt = now, c_UpdatedAt = now,
         c_CampaignID = cpid, c_ClientID = clid,
         c_events = [ContentCreated eid1 nid mid cpid clid (TrimSpace key) ''uploaded'' now,
           ContentUploaded eid2 nid mid cpid clid (TrimSpace key) (TrimSpace thumb) (max 0 sz) now]\<rparr>)"
  by (simp add: NewFromMedia_def Let_def content_recordEvent_def max_def)

lemma StartAnalyzing_ok: "StartAnalyzing now eid c = Inr c' \<longleftrightarrow> c_Status c = ContentStUploaded \<and>
    c' = c\<lparr>c_Label := None, c_Confidence := None, c_Status := ContentAnalyzing, c_UpdatedAt := now,
           c_events := c_events c @ [ContentStatusChanged eid (c_ID c) (c_MediaID c)
             (c_CampaignID c) (c_ClientID c) ''analyzing'' '''' now]\<rparr>"
  by (auto simp: content_ops)

lemma RenderVerdict_ok: "RenderVerdict now eid v c = Inr c' \<longleftrightarrow> c_Status c = ContentAnalyzing \<and>
    ValidateLabel (v_Label v) = Inr () \<and>
    c' = c\<lparr>c_Label := Some (v_Label v), c_Confidence := Some (v_Confidence v),
           c_Status := ContentAnalyzed, c_UpdatedAt := now,
           c_events := c_events c @ [ContentVerdictRendered eid (c_ID c) (c_MediaID c)
             (c_CampaignID c) (c_ClientID c) (label_string (v_Label v)) (v_Confidence v)
             (v_Signals v) now]\<rparr>"
  by (auto simp: content_ops split: sum.splits)

lemma content_MarkFailed_ok: "content_MarkFailed now eid c = Inr c' \<longleftrightarrow> \<not> IsTerminal c \<and>
    c' = c\<lparr>c_Status := ContentFailed, c_UpdatedAt := now,
           c_events := c_events c @ [ContentStatusChanged eid (c_ID c) (c_MediaID c)
             (c_CampaignID c) (c_ClientID c) ''failed''
             (case c_Label c of None \<Rightarrow> '''' | Some l \<Rightarrow> label_string l) now]\<rparr>"
  by (cases "c_Status c") (auto simp: content_ops IsTerminal_def)

lemma content_MarkFailed_total: "\<not> IsTerminal c \<Longrightarrow> \<exists>c'. content_MarkFailed now eid c = Inr c'"
  by (simp add: content_MarkFailed_ok)

lemma content_wf_NewFromMedia:
  "NewFromMedia now nid eid1 eid2 mid cpid clid key fi ts sz thumb = Inr c \<Longrightarrow> content_wf c"
  by (auto simp: NewFromMedia_cases content_wf_def split: if_splits)

lemma content_wf_StartAnalyzing: "content_wf c \<Longrightarrow> StartAnalyzing now eid c = Inr c' \<Longrightarrow> content_wf c'"
  by (auto simp: StartAnalyzing_ok content_wf_def)

lemma content_wf_RenderVerdict: "content_wf c \<Longrightarrow> RenderVerdict now eid v c = Inr c' \<Longrightarrow> content_wf c'"
  by (auto simp: RenderVerdict_ok content_wf_def)

lemma content_wf_MarkFailed: "content_wf c \<Longrightarrow> content_MarkFailed now eid c = Inr c' \<Longrightarrow> content_wf c'"
  by (auto simp: content_MarkFailed_ok content_wf_def)

lemma content_wf_SetThumbnailKey: "content_wf c \<Longrightarrow> content_wf (SetThumbnailKey now key c)"
  by (auto simp: content_ops content_wf_def Let_def)

lemma content_wf_RequeueAnalysis: "content_wf c \<Longrightarrow> content_wf (RequeueAnalysis now eid c)"
  by (auto simp: content_ops content_wf_def)

lemma content_wf_PullEvents: "content_wf (snd (content_PullEvents c)) = content_wf c"
  by (simp add: content_PullEvents_def content_wf_def)

lemmas content_wf_intros = content_wf_NewFromMedia content_wf_StartAnalyzing content_wf_RenderVerdict
  content_wf_MarkFailed content_wf_SetThumbnailKey content_wf_RequeueAnalysis

section \<open>The status machine\<close>

text \<open>The successful operations as steps of a relation.\<close>

inductive content_step :: "content \<Rightarrow> content \<Rightarrow> bool" where
  start: "StartAnalysis now eid c = Inr c' \<Longrightarrow> content_step c c'"
| verdict: "RenderVerdict now eid v c = Inr c' \<Longrightarrow> content_step c c'"
| fail: "content_MarkFailed now eid c = Inr c' \<Longrightarrow> content_step c c'"
| thumbnail: "content_step c (SetThumbnailKey now key c)"
| requeue: "content_step c (RequeueAnalysis now eid c)"
| pull: "content_step c (snd (content_PullEvents c))"

inductive_cases content_stepE: "content_step c c'"

fun content_rank :: "content_status \<Rightarrow> nat" where
  "content_rank ContentPendingUpload = 0"
| "content_rank ContentStUploaded = 1"
| "content_rank ContentAnalyzing = 2"
| "content_rank ContentAnalyzed = 3"
| "content_rank ContentFailed = 3"

lemma content_step_wf: "content_step c c' \<Longrightarrow> content_wf c \<Longrightarrow> content_wf c'"
  by (erule content_stepE; (simp add: StartAnalysis_def content_wf_PullEvents)?;
      (erule (1) content_wf_StartAnalyzing content_wf_RenderVerdict content_wf_MarkFailed
        | erule content_wf_SetThumbnailKey | erule content_wf_RequeueAnalysis)?)

lemma content_step_status: "content_step c c' \<Longrightarrow> c_Status c' = c_Status c
    \<or> (c_Status c = ContentStUploaded \<and> c_Status c' = ContentAnalyzing)
    \<or> (c_Status c = ContentAnalyzing \<and> c_Status c' = ContentAnalyzed)
    \<or> (\<not> IsTerminal c \<and> c_Status c' = ContentFailed)"
  by (erule content_stepE)
    (auto simp: StartAnalysis_def StartAnalyzing_ok RenderVerdict_ok content_MarkFailed_ok
      SetThumbnailKey_def RequeueAnalysis_def content_recordEvent_def content_PullEvents_def Let_def)

lemma content_rank_le: "content_rank s \<le> 3"
  by (cases s) auto

lemma content_step_rank: "content_step c c' \<Longrightarrow> content_rank (c_Status c) \<le> content_rank (c_Status c')"
  using content_step_status [of c c'] content_rank_le [of "c_Status c"] by auto

lemma content_step_terminal: "content_step c c' \<Longrightarrow> IsTerminal c \<Longrightarrow>
    c_Status c' = c_Status c \<and> c_Label c' = c_Label c \<and> c_Confidence c' = c_Confidence c"
  by (erule content_stepE)
    (auto simp: StartAnalysis_def StartAnalyzing_ok RenderVerdict_ok content_MarkFailed_ok IsTerminal_def
      SetThumbnailKey_def RequeueAnalysis_def content_recordEvent_def content_PullEvents_def Let_def)

lemma content_step_identity: "content_step c c' \<Longrightarrow>
    c_ID c' = c_ID c \<and> c_MediaID c' = c_MediaID c \<and> c_ObjectKey c' = c_ObjectKey c \<and>
    c_CreatedAt c' = c_CreatedAt c"
  by (erule content_stepE)
    (auto simp: StartAnalysis_def StartAnalyzing_ok RenderVerdict_ok content_MarkFailed_ok
      SetThumbnailKey_def RequeueAnalysis_def content_recordEvent_def content_PullEvents_def Let_def)

end
