(* ===== verification/Media.thy ===== *)
theory Media
  imports Content
begin

text \<open>
  \<open>src/internal/domain/media\<close>: an uploaded image or video of a campaign. A media is requested
  (\<open>pending_upload\<close>), uploaded, processed, and ends \<open>analyzed\<close> with a verdict over its contents, or
  \<open>failed\<close>; both ends record \<open>media.verdict_rendered.v1\<close>. The object keys name where the bytes live
  and tell the workers which handler an uploaded object belongs to; the text of a UUID is the
  argument \<open>us\<close>.
\<close>

section \<open>Data\<close>

datatype media_type = MediaTypeImage | MediaTypeVideo

fun media_type_string :: "media_type \<Rightarrow> string" where
  "media_type_string MediaTypeImage = ''image''"
| "media_type_string MediaTypeVideo = ''video''"

datatype media_status =
  StatusPendingUpload | StatusUploaded | StatusProcessing | StatusAnalyzed | StatusFailed

fun media_status_string :: "media_status \<Rightarrow> string" where
  "media_status_string StatusPendingUpload = ''pending_upload''"
| "media_status_string StatusUploaded = ''uploaded''"
| "media_status_string StatusProcessing = ''processing''"
| "media_status_string StatusAnalyzed = ''analyzed''"
| "media_status_string StatusFailed = ''failed''"

definition MaxPresignBatch :: int where "MaxPresignBatch = 20"
definition MaxMediaBytes :: int where "MaxMediaBytes = push_bit 20 200"
definition MaxImageBytes :: int where "MaxImageBytes = push_bit 20 20"

definition imageExtensions :: "string set" where
  "imageExtensions = {''jpg'', ''jpeg'', ''png'', ''webp''}"

definition videoExtensions :: "string set" where
  "videoExtensions = {''mp4'', ''webm'', ''mov''}"

record media_verdict =
  mv_Label :: label
  mv_FlaggedCount :: int
  mv_TotalCount :: int
  mv_FailedCount :: int

text \<open>A \<open>MediaDeletedContentKey\<close> is the pair of an object key and a thumbnail key.\<close>

type_synonym deleted_content_key = "string \<times> string"

datatype media_event =
    MediaUploadRequested (mev_ID: uuid) (mev_MediaID: uuid) (mev_CampaignID: uuid)
      (mev_ClientID: uuid) (mev_Filename: string) (mev_ContentType: string) (mev_MediaType: string)
      (mev_ObjectKey: string) (mev_Status: string) (mev_Timestamp: gotime)
  | MediaUploaded (mev_ID: uuid) (mev_MediaID: uuid) (mev_CampaignID: uuid) (mev_ClientID: uuid)
      (mev_MediaType: string) (mev_ObjectKey: string) (mev_SizeBytes: int) (mev_Status: string)
      (mev_Timestamp: gotime)
  | MediaProcessingStarted (mev_ID: uuid) (mev_MediaID: uuid) (mev_CampaignID: uuid)
      (mev_ClientID: uuid) (mev_Timestamp: gotime)
  | MediaStatusChanged (mev_ID: uuid) (mev_MediaID: uuid) (mev_CampaignID: uuid) (mev_ClientID: uuid)
      (mev_Status: string) (mev_Label: string) (mev_Timestamp: gotime)
  | MediaVerdictRendered (mev_ID: uuid) (mev_MediaID: uuid) (mev_CampaignID: uuid)
      (mev_ClientID: uuid) (mev_Label: string) (mev_FlaggedCount: int) (mev_TotalCount: int)
      (mev_FailedCount: int) (mev_Status: string) (mev_Reason: string) (mev_Timestamp: gotime)
  | MediaDeleted (mev_ID: uuid) (mev_MediaID: uuid) (mev_CampaignID: uuid) (mev_ClientID: uuid)
      (mev_ObjectKey: string) (mev_ThumbnailKey: string) (mev_Contents: "deleted_content_key list")
      (mev_Cascade: bool) (mev_Timestamp: gotime)

fun media_event_type :: "media_event \<Rightarrow> string" where
  "media_event_type (MediaUploadRequested _ _ _ _ _ _ _ _ _ _) = ''media.upload_requested.v1''"
| "media_event_type (MediaUploaded _ _ _ _ _ _ _ _ _) = ''media.uploaded.v1''"
| "media_event_type (MediaProcessingStarted _ _ _ _ _) = ''media.processing_started.v1''"
| "media_event_type (MediaStatusChanged _ _ _ _ _ _ _) = ''media.status_changed.v1''"
| "media_event_type (MediaVerdictRendered _ _ _ _ _ _ _ _ _ _ _) = ''media.verdict_rendered.v1''"
| "media_event_type (MediaDeleted _ _ _ _ _ _ _ _ _) = ''media.deleted.v1''"

record media =
  m_ID :: uuid
  m_CampaignID :: uuid
  m_ClientID :: uuid
  m_Filename :: string
  m_ContentType :: string
  m_MediaType :: media_type
  m_ObjectKey :: string
  m_SizeBytes :: "int option"
  m_Status :: media_status
  m_Verdict :: "media_verdict option"
  m_FailureReason :: string
  m_AnalyzedAt :: "gotime option"
  m_CreatedAt :: gotime
  m_UpdatedAt :: gotime
  m_DeletedAt :: "gotime option"
  m_events :: "media_event list"

section \<open>File names and object keys\<close>

definition DetectMediaType :: "string \<Rightarrow> string \<Rightarrow> media_type res" where
  "DetectMediaType filename contentType =
    (let ext = FileExtension filename; ct = ToLower (TrimSpace contentType) in
     if HasPrefix ct ''image/'' \<or> ext \<in> imageExtensions then
       (if ext \<notin> imageExtensions \<and> ext \<noteq> [] then Inl (Sentinel MediaErrUnsupportedContentType)
        else Inr MediaTypeImage)
     else if HasPrefix ct ''video/'' \<or> ext \<in> videoExtensions then
       (if ext \<notin> videoExtensions \<and> ext \<noteq> [] then Inl (Sentinel MediaErrUnsupportedContentType)
        else Inr MediaTypeVideo)
     else Inl (Sentinel MediaErrUnsupportedContentType))"

definition ValidateFilename :: "string \<Rightarrow> unit res" where
  "ValidateFilename filename =
    (let ext = FileExtension filename in
     if ext = [] then Inl (Sentinel MediaErrUnsupportedContentType)
     else if ext \<in> imageExtensions then Inr ()
     else if ext \<in> videoExtensions then Inr ()
     else Inl (Sentinel MediaErrUnsupportedContentType))"

definition IsMediaObjectKey :: "string \<Rightarrow> bool" where
  "IsMediaObjectKey key \<longleftrightarrow> Contains key ''/media/'' \<and> \<not> Contains key ''/frames/''
     \<and> \<not> IsThumbnailObjectKey key"

definition IsFrameObjectKey :: "string \<Rightarrow> bool" where
  "IsFrameObjectKey key \<longleftrightarrow> Contains key ''/media/'' \<and> Contains key ''/frames/''"

definition NewObjectKey :: "(uuid \<Rightarrow> string) \<Rightarrow> uuid \<Rightarrow> uuid \<Rightarrow> uuid \<Rightarrow> string \<Rightarrow> string" where
  "NewObjectKey us clientID campaignID mediaID filename =
    (let ext = FileExtension filename;
         key = us mediaID @ (if ext \<noteq> [] then ''.'' @ ext else []) in
     ''clients/'' @ us clientID @ ''/campaigns/'' @ us campaignID @ ''/media/'' @ key)"

definition NewFrameObjectKey :: "(uuid \<Rightarrow> string) \<Rightarrow> uuid \<Rightarrow> uuid \<Rightarrow> uuid \<Rightarrow> int \<Rightarrow> string" where
  "NewFrameObjectKey us clientID campaignID mediaID frameIndex =
     ''clients/'' @ us clientID @ ''/campaigns/'' @ us campaignID @ ''/media/'' @ us mediaID @
     ''/frames/'' @ pad3 frameIndex @ ''.jpg''"

definition NewThumbnailKey :: "(uuid \<Rightarrow> string) \<Rightarrow> uuid \<Rightarrow> uuid \<Rightarrow> uuid \<Rightarrow> string" where
  "NewThumbnailKey us clientID campaignID mediaID =
     ''clients/'' @ us clientID @ ''/campaigns/'' @ us campaignID @ ''/media/thumbnails/'' @
     us mediaID @ ''.jpg''"

fun MaxBytesFor :: "media_type \<Rightarrow> int" where
  "MaxBytesFor MediaTypeVideo = MaxMediaBytes"
| "MaxBytesFor MediaTypeImage = MaxImageBytes"

section \<open>Operations\<close>

definition recordEvent :: "media_event \<Rightarrow> media \<Rightarrow> media" where
  "recordEvent e m = m\<lparr>m_events := m_events m @ [e]\<rparr>"

definition PullEvents :: "media \<Rightarrow> media_event list \<times> media" where
  "PullEvents m = (m_events m, m\<lparr>m_events := []\<rparr>)"

definition recordStatusChanged :: "uuid \<Rightarrow> gotime \<Rightarrow> media \<Rightarrow> media" where
  "recordStatusChanged eid ts m =
     recordEvent (MediaStatusChanged eid (m_ID m) (m_CampaignID m) (m_ClientID m)
       (media_status_string (m_Status m))
       (case m_Verdict m of None \<Rightarrow> '''' | Some v \<Rightarrow> label_string (mv_Label v)) ts) m"

definition NewPendingUpload :: "(uuid \<Rightarrow> string) \<Rightarrow> gotime \<Rightarrow> uuid \<Rightarrow> uuid \<Rightarrow> uuid \<Rightarrow> uuid \<Rightarrow> string
    \<Rightarrow> string \<Rightarrow> media res" where
  "NewPendingUpload us now nid eid campaignID clientID filename contentType =
    (let filename = filepath_Base (TrimSpace filename) in
     if filename = [] \<or> filename = ''.'' \<or> filename = ''..'' then Inl (Sentinel MediaErrInvalidFilename)
     else case ValidateFilename filename of
       Inl e \<Rightarrow> Inl e
     | Inr _ \<Rightarrow> (case DetectMediaType filename contentType of
         Inl e \<Rightarrow> Inl e
       | Inr mediaType \<Rightarrow>
         (let m = \<lparr>m_ID = nid, m_CampaignID = campaignID, m_ClientID = clientID,
                  m_Filename = filename, m_ContentType = TrimSpace contentType,
                  m_MediaType = mediaType,
                  m_ObjectKey = NewObjectKey us clientID campaignID nid filename,
                  m_SizeBytes = None, m_Status = StatusPendingUpload, m_Verdict = None,
                  m_FailureReason = [], m_AnalyzedAt = None, m_CreatedAt = now, m_UpdatedAt = now,
                  m_DeletedAt = None, m_events = []\<rparr>
          in Inr (recordEvent (MediaUploadRequested eid (m_ID m) (m_CampaignID m) (m_ClientID m)
               (m_Filename m) (m_ContentType m) (media_type_string (m_MediaType m)) (m_ObjectKey m)
               (media_status_string (m_Status m)) now) m))))"

definition IsDeleted :: "media \<Rightarrow> bool" where
  "IsDeleted m \<longleftrightarrow> m_DeletedAt m \<noteq> None"

text \<open>The references of the contents, trimmed, without those that name no object at all.\<close>

fun deleted_contents :: "(string \<times> string) list \<Rightarrow> deleted_content_key list" where
  "deleted_contents [] = []"
| "deleted_contents ((k, t) # refs) =
     (if TrimSpace k = [] \<and> TrimSpace t = [] then deleted_contents refs
      else (TrimSpace k, TrimSpace t) # deleted_contents refs)"

definition SoftDelete :: "(uuid \<Rightarrow> string) \<Rightarrow> gotime \<Rightarrow> uuid \<Rightarrow> (string \<times> string) list \<Rightarrow> bool \<Rightarrow> media \<Rightarrow> media" where
  "SoftDelete us now eid contentRefs cascade m =
    (if IsDeleted m then m
     else recordEvent (MediaDeleted eid (m_ID m) (m_CampaignID m) (m_ClientID m) (m_ObjectKey m)
         (if m_MediaType m = MediaTypeImage
          then NewThumbnailKey us (m_ClientID m) (m_CampaignID m) (m_ID m) else '''')
         (deleted_contents contentRefs) cascade now)
       (m\<lparr>m_DeletedAt := Some now, m_UpdatedAt := now\<rparr>))"

definition MarkUploaded :: "gotime \<Rightarrow> uuid \<Rightarrow> int \<Rightarrow> string \<Rightarrow> media \<Rightarrow> media res" where
  "MarkUploaded now eid sizeBytes contentType m =
    (if m_Status m \<noteq> StatusPendingUpload then Inl (Sentinel MediaErrInvalidTransition)
     else let sizeBytes = (if sizeBytes < 0 then 0 else sizeBytes);
              ct = TrimSpace contentType;
              m = m\<lparr>m_SizeBytes := Some sizeBytes,
                    m_ContentType := (if ct \<noteq> [] then ct else m_ContentType m),
                    m_Status := StatusUploaded, m_UpdatedAt := now\<rparr>
     in Inr (recordEvent (MediaUploaded eid (m_ID m) (m_CampaignID m) (m_ClientID m)
          (media_type_string (m_MediaType m)) (m_ObjectKey m) sizeBytes
          (media_status_string (m_Status m)) now) m))"

definition StartProcessing :: "gotime \<Rightarrow> uuid \<Rightarrow> uuid \<Rightarrow> media \<Rightarrow> media res" where
  "StartProcessing now eid1 eid2 m =
    (if m_Status m \<noteq> StatusUploaded \<and> m_Status m \<noteq> StatusProcessing
     then Inl (Sentinel MediaErrInvalidTransition)
     else if m_Status m = StatusProcessing then Inr m
     else let m = m\<lparr>m_Status := StatusProcessing, m_UpdatedAt := now\<rparr> in
       Inr (recordEvent (MediaProcessingStarted eid2 (m_ID m) (m_CampaignID m) (m_ClientID m) now)
             (recordStatusChanged eid1 now m)))"

definition RenderGlobalVerdict :: "gotime \<Rightarrow> uuid \<Rightarrow> media_verdict \<Rightarrow> media \<Rightarrow> media res" where
  "RenderGlobalVerdict now eid v m =
    (if m_Status m \<noteq> StatusProcessing \<and> m_Status m \<noteq> StatusUploaded
     then Inl (Sentinel MediaErrInvalidTransition)
     else case ValidateLabel (mv_Label v) of
       Inl e \<Rightarrow> Inl e
     | Inr _ \<Rightarrow>
       (let m = m\<lparr>m_Verdict := Some v, m_AnalyzedAt := Some now, m_Status := StatusAnalyzed,
                  m_UpdatedAt := now\<rparr>
        in Inr (recordEvent (MediaVerdictRendered eid (m_ID m) (m_CampaignID m) (m_ClientID m)
             (label_string (mv_Label v)) (mv_FlaggedCount v) (mv_TotalCount v) (mv_FailedCount v)
             (media_status_string (m_Status m)) '''' now) m)))"

definition MarkFailed :: "gotime \<Rightarrow> uuid \<Rightarrow> string \<Rightarrow> media \<Rightarrow> media res" where
  "MarkFailed now eid reason m =
    (if m_Status m \<noteq> StatusPendingUpload \<and> m_Status m \<noteq> StatusUploaded
        \<and> m_Status m \<noteq> StatusProcessing
     then Inl (Sentinel MediaErrInvalidTransition)
     else let m = m\<lparr>m_Status := StatusFailed, m_FailureReason := TrimSpace reason,
                    m_UpdatedAt := now\<rparr>
     in Inr (recordEvent (MediaVerdictRendered eid (m_ID m) (m_CampaignID m) (m_ClientID m)
          '''' 0 0 0 (media_status_string StatusFailed) (m_FailureReason m) now) m))"

definition Touch :: "gotime \<Rightarrow> gotime \<Rightarrow> media \<Rightarrow> media" where
  "Touch now t m = m\<lparr>m_UpdatedAt := UTC (if IsZero t then now else t)\<rparr>"

definition RequeueUploaded :: "gotime \<Rightarrow> uuid \<Rightarrow> media \<Rightarrow> media res" where
  "RequeueUploaded now eid m =
    (if m_Status m \<noteq> StatusProcessing then Inl (Sentinel MediaErrInvalidTransition)
     else let m = m\<lparr>m_UpdatedAt := now\<rparr>;
              sizeBytes = (case m_SizeBytes m of None \<Rightarrow> 0 | Some s \<Rightarrow> s)
     in Inr (recordEvent (MediaUploaded eid (m_ID m) (m_CampaignID m) (m_ClientID m)
          (media_type_string (m_MediaType m)) (m_ObjectKey m) sizeBytes
          (media_status_string (m_Status m)) now) m))"

section \<open>Object keys\<close>

text \<open>Every key belongs to at most one of the two kinds a worker may pick up, and a thumbnail that
  is not a frame belongs to neither.\<close>

lemma media_frame_disjoint: "\<not> (IsMediaObjectKey key \<and> IsFrameObjectKey key)"
  by (auto simp: IsMediaObjectKey_def IsFrameObjectKey_def)

lemma media_thumbnail_disjoint: "\<not> (IsMediaObjectKey key \<and> IsThumbnailObjectKey key)"
  by (auto simp: IsMediaObjectKey_def)

lemma Contains_mid: "sublist p b \<Longrightarrow> Contains (a @ b @ c) p"
  unfolding Contains_iff by (meson sublist_appendI sublist_order.order_trans)

lemma NewThumbnailKey_thumbnail: "IsThumbnailObjectKey (NewThumbnailKey us a b c)"
proof -
  have "sublist ''/thumbnails/'' ''/media/thumbnails/''"
    by (simp add: Contains_iff [symmetric])
  then have "Contains ((''clients/'' @ us a @ ''/campaigns/'' @ us b) @ ''/media/thumbnails/'' @
      (us c @ ''.jpg'')) ''/thumbnails/''"
    by (rule Contains_mid)
  then show ?thesis by (simp add: NewThumbnailKey_def IsThumbnailObjectKey_def)
qed

lemma NewThumbnailKey_not_media: "\<not> IsMediaObjectKey (NewThumbnailKey us a b c)"
  using NewThumbnailKey_thumbnail media_thumbnail_disjoint by blast

lemma NewFrameObjectKey_frame: "IsFrameObjectKey (NewFrameObjectKey us a b c i)"
proof -
  have "Contains ((''clients/'' @ us a @ ''/campaigns/'' @ us b) @ ''/media/'' @
      (us c @ ''/frames/'' @ pad3 i @ ''.jpg'')) ''/media/''"
    by (rule Contains_mid) simp
  moreover have "Contains ((''clients/'' @ us a @ ''/campaigns/'' @ us b @ ''/media/'' @ us c) @
      ''/frames/'' @ (pad3 i @ ''.jpg'')) ''/frames/''"
    by (rule Contains_mid) simp
  ultimately show ?thesis by (simp add: NewFrameObjectKey_def IsFrameObjectKey_def)
qed

text \<open>A substring between slashes is a whole path element.\<close>

lemma slash_free_split:
  assumes "a @ CHR ''/'' # r = b @ CHR ''/'' # r'" "CHR ''/'' \<notin> set a" "CHR ''/'' \<notin> set b"
  shows "a = b \<and> r = r'"
  using assms
proof (induction a arbitrary: b)
  case Nil
  then show ?case by (cases b) auto
next
  case (Cons x a)
  then show ?case by (cases b) auto
qed

lemma element_sublist:
  assumes "CHR ''/'' \<notin> set p" "CHR ''/'' \<notin> set a"
  shows "sublist (CHR ''/'' # p @ ''/'') (a @ CHR ''/'' # r) \<longleftrightarrow>
    sublist (CHR ''/'' # p @ ''/'') (CHR ''/'' # r)"
  using assms(2)
proof (induction a)
  case (Cons x a)
  have "\<not> prefix (CHR ''/'' # p @ ''/'') (x # a @ CHR ''/'' # r)" using Cons.prems by auto
  then show ?case using Cons by (auto simp: sublist_Cons_right)
qed simp

lemma element_head:
  assumes "CHR ''/'' \<notin> set p" "CHR ''/'' \<notin> set e"
  shows "sublist (CHR ''/'' # p @ ''/'') (CHR ''/'' # e @ CHR ''/'' # r) \<longleftrightarrow>
    e = p \<or> sublist (CHR ''/'' # p @ ''/'') (CHR ''/'' # r)"
proof -
  have "prefix (CHR ''/'' # p @ ''/'') (CHR ''/'' # e @ CHR ''/'' # r) \<longleftrightarrow> e = p"
  proof
    assume "prefix (CHR ''/'' # p @ ''/'') (CHR ''/'' # e @ CHR ''/'' # r)"
    then obtain z where "e @ CHR ''/'' # r = p @ CHR ''/'' # z" by (auto simp: prefix_def)
    then show "e = p" using slash_free_split assms by blast
  qed auto
  then show ?thesis using element_sublist [OF assms] by (simp add: sublist_Cons_right)
qed

lemma element_last:
  assumes "CHR ''/'' \<notin> set e"
  shows "\<not> sublist (CHR ''/'' # p @ ''/'') (CHR ''/'' # e)"
proof
  assume "sublist (CHR ''/'' # p @ ''/'') (CHR ''/'' # e)"
  then obtain x y where "CHR ''/'' # e = x @ (CHR ''/'' # p @ ''/'') @ y" by (auto simp: sublist_def)
  then have "count (mset (CHR ''/'' # e)) (CHR ''/'') \<ge> 2" by simp
  moreover have "count (mset e) (CHR ''/'') = 0" using assms by (simp add: count_eq_zero_iff)
  ultimately show False by simp
qed

lemma toLower_slash: "CHR ''/'' \<notin> set s \<Longrightarrow> CHR ''/'' \<notin> set (ToLower s)"
proof -
  have *: "lower_char c = CHR ''/'' \<Longrightarrow> c = CHR ''/''" for c
  proof -
    assume a: "lower_char c = CHR ''/''"
    show "c = CHR ''/''"
    proof (cases "65 \<le> (of_char c :: nat) \<and> (of_char c :: nat) \<le> 90")
      case True
      then have "(of_char (char_of (of_char c + 32 :: nat) :: char) :: nat) = 47"
        using a by (simp add: lower_char_def Let_def)
      then show ?thesis using True by simp
    qed (use a in \<open>auto simp: lower_char_def Let_def\<close>)
  qed
  assume "CHR ''/'' \<notin> set s"
  then show ?thesis unfolding ToLower_def by (auto dest: * [OF sym])
qed

lemma filepath_Ext_slash: "CHR ''/'' \<notin> set (filepath_Ext p)"
proof -
  have *: "x \<in> set (takeWhile P xs) \<Longrightarrow> P x" for x P and xs :: string by (rule set_takeWhileD [THEN conjunct2])
  show ?thesis by (auto simp: filepath_Ext_def Let_def dest!: * [of _ "\<lambda>c. c \<noteq> CHR ''.''"] set_takeWhileD)
qed

lemma FileExtension_slash: "CHR ''/'' \<notin> set (FileExtension f)"
  unfolding FileExtension_def
  by (rule toLower_slash) (use filepath_Ext_slash in \<open>auto simp: TrimPrefix_def dest: in_set_dropD\<close>)

text \<open>What the keys rely on from \<open>uuid.UUID.String\<close>: 36 characters, hexadecimal digits and dashes.\<close>

definition uuid_text :: "(uuid \<Rightarrow> string) \<Rightarrow> bool" where
  "uuid_text us \<longleftrightarrow> (\<forall>x. length (us x) = 36 \<and> set (us x) \<subseteq> set ''0123456789abcdef-'')"

lemma uuid_text_slash: "uuid_text us \<Longrightarrow> CHR ''/'' \<notin> set (us x)"
  by (auto simp: uuid_text_def)

lemma uuid_text_length: "uuid_text us \<Longrightarrow> length (us x) = 36"
  by (auto simp: uuid_text_def)

lemma key_elements:
  assumes p: "CHR ''/'' \<notin> set p" and abc: "CHR ''/'' \<notin> set a" "CHR ''/'' \<notin> set b" "CHR ''/'' \<notin> set c"
  shows "Contains (''clients/'' @ a @ ''/campaigns/'' @ b @ ''/media/'' @ c) (''/'' @ p @ ''/'') \<longleftrightarrow>
    a = p \<or> p = ''campaigns'' \<or> b = p \<or> p = ''media''"
proof -
  have k: "''clients/'' @ a @ ''/campaigns/'' @ b @ ''/media/'' @ c =
      ''clients'' @ CHR ''/'' # (a @ CHR ''/'' # (''campaigns'' @ CHR ''/'' #
      (b @ CHR ''/'' # (''media'' @ CHR ''/'' # c))))" by simp
  have q: "''/'' @ p @ ''/'' = CHR ''/'' # p @ ''/''" by simp
  have nl: "CHR ''/'' \<notin> set ''clients''" "CHR ''/'' \<notin> set ''campaigns''" "CHR ''/'' \<notin> set ''media''" by simp_all
  show ?thesis
    unfolding k q Contains_iff element_sublist [OF p nl(1)] element_head [OF p abc(1)]
      element_head [OF p nl(2)] element_head [OF p abc(2)] element_head [OF p nl(3)]
    using element_last [OF abc(3), of p] by auto
qed

lemma NewObjectKey_media:
  assumes us: "uuid_text us"
  shows "IsMediaObjectKey (NewObjectKey us clientID campaignID mediaID filename)"
proof -
  let ?c = "us mediaID @ (if FileExtension filename \<noteq> [] then ''.'' @ FileExtension filename else [])"
  have c: "CHR ''/'' \<notin> set ?c" using uuid_text_slash [OF us] FileExtension_slash by auto
  note key = key_elements [OF _ uuid_text_slash [OF us] uuid_text_slash [OF us] c,
    of _ clientID campaignID]
  have ne: "us x \<noteq> ''frames''" "us x \<noteq> ''thumbnails''" for x
    using uuid_text_length [OF us, of x] by auto
  show ?thesis
    using key [of "''media''"] key [of "''frames''"] key [of "''thumbnails''"] ne
    by (simp add: IsMediaObjectKey_def IsThumbnailObjectKey_def NewObjectKey_def Let_def)
qed

section \<open>The entity of each operation\<close>

named_theorems media_ops "definitions of the operations of a media"

lemmas [media_ops] = recordEvent_def recordStatusChanged_def SoftDelete_def MarkUploaded_def
  StartProcessing_def RenderGlobalVerdict_def MarkFailed_def Touch_def RequeueUploaded_def
  IsDeleted_def PullEvents_def Let_def

definition media_terminal :: "media \<Rightarrow> bool" where
  "media_terminal m \<longleftrightarrow> m_Status m = StatusAnalyzed \<or> m_Status m = StatusFailed"

lemma RenderGlobalVerdict_ok: "RenderGlobalVerdict now eid v m = Inr m' \<longleftrightarrow>
    (m_Status m = StatusProcessing \<or> m_Status m = StatusUploaded) \<and> ValidateLabel (mv_Label v) = Inr () \<and>
    m' = m\<lparr>m_Verdict := Some v, m_AnalyzedAt := Some now, m_Status := StatusAnalyzed, m_UpdatedAt := now,
       m_events := m_events m @ [MediaVerdictRendered eid (m_ID m) (m_CampaignID m) (m_ClientID m)
         (label_string (mv_Label v)) (mv_FlaggedCount v) (mv_TotalCount v) (mv_FailedCount v)
         ''analyzed'' '''' now]\<rparr>"
  by (auto simp: media_ops split: sum.splits)

lemma MarkFailed_ok: "MarkFailed now eid reason m = Inr m' \<longleftrightarrow> \<not> media_terminal m \<and>
    m' = m\<lparr>m_Status := StatusFailed, m_FailureReason := TrimSpace reason, m_UpdatedAt := now,
       m_events := m_events m @ [MediaVerdictRendered eid (m_ID m) (m_CampaignID m) (m_ClientID m)
         '''' 0 0 0 ''failed'' (TrimSpace reason) now]\<rparr>"
  by (cases "m_Status m") (auto simp: media_ops media_terminal_def)

lemma MarkUploaded_ok: "MarkUploaded now eid sz ct m = Inr m' \<longleftrightarrow> m_Status m = StatusPendingUpload \<and>
    m' = m\<lparr>m_SizeBytes := Some (max 0 sz),
       m_ContentType := (if TrimSpace ct \<noteq> [] then TrimSpace ct else m_ContentType m),
       m_Status := StatusUploaded, m_UpdatedAt := now,
       m_events := m_events m @ [MediaUploaded eid (m_ID m) (m_CampaignID m) (m_ClientID m)
         (media_type_string (m_MediaType m)) (m_ObjectKey m) (max 0 sz) ''uploaded'' now]\<rparr>"
  by (auto simp: media_ops max_def)

lemma StartProcessing_ok: "StartProcessing now eid1 eid2 m = Inr m' \<longleftrightarrow>
    (m_Status m = StatusProcessing \<and> m' = m) \<or> (m_Status m = StatusUploaded \<and>
    m' = m\<lparr>m_Status := StatusProcessing, m_UpdatedAt := now,
       m_events := m_events m @ [MediaStatusChanged eid1 (m_ID m) (m_CampaignID m) (m_ClientID m)
         ''processing'' (case m_Verdict m of None \<Rightarrow> '''' | Some v \<Rightarrow> label_string (mv_Label v)) now,
         MediaProcessingStarted eid2 (m_ID m) (m_CampaignID m) (m_ClientID m) now]\<rparr>)"
  by (cases "m_Status m") (auto simp: media_ops)

lemma RequeueUploaded_ok: "RequeueUploaded now eid m = Inr m' \<longleftrightarrow> m_Status m = StatusProcessing \<and>
    m' = m\<lparr>m_UpdatedAt := now, m_events := m_events m @ [MediaUploaded eid (m_ID m) (m_CampaignID m)
         (m_ClientID m) (media_type_string (m_MediaType m)) (m_ObjectKey m)
         (case m_SizeBytes m of None \<Rightarrow> 0 | Some s \<Rightarrow> s) ''processing'' now]\<rparr>"
  by (auto simp: media_ops)

lemmas media_ok = RenderGlobalVerdict_ok MarkFailed_ok MarkUploaded_ok StartProcessing_ok
  RequeueUploaded_ok

definition media_wf :: "media \<Rightarrow> bool" where
  "media_wf m \<longleftrightarrow>
     (m_Status m = StatusAnalyzed \<longleftrightarrow> m_Verdict m \<noteq> None) \<and>
     (m_Status m = StatusAnalyzed \<longleftrightarrow> m_AnalyzedAt m \<noteq> None) \<and>
     (\<forall>v. m_Verdict m = Some v \<longrightarrow> ValidateLabel (mv_Label v) = Inr ()) \<and>
     (m_FailureReason m \<noteq> [] \<longrightarrow> m_Status m = StatusFailed) \<and>
     TrimSpace (m_FailureReason m) = m_FailureReason m \<and>
     (\<forall>s. m_SizeBytes m = Some s \<longrightarrow> 0 \<le> s)"

inductive media_step :: "media \<Rightarrow> media \<Rightarrow> bool" where
  uploaded: "MarkUploaded now eid sz ct m = Inr m' \<Longrightarrow> media_step m m'"
| processing: "StartProcessing now eid1 eid2 m = Inr m' \<Longrightarrow> media_step m m'"
| verdict: "RenderGlobalVerdict now eid v m = Inr m' \<Longrightarrow> media_step m m'"
| failed: "MarkFailed now eid reason m = Inr m' \<Longrightarrow> media_step m m'"
| requeued: "RequeueUploaded now eid m = Inr m' \<Longrightarrow> media_step m m'"
| touched: "media_step m (Touch now t m)"
| deleted: "media_step m (SoftDelete us now eid refs cascade m)"
| pulled: "media_step m (snd (PullEvents m))"

inductive_cases media_stepE: "media_step m m'"

lemma media_step_wf: "media_step m m' \<Longrightarrow> media_wf m \<Longrightarrow> media_wf m'"
  by (erule media_stepE; auto simp: media_ok media_wf_def media_terminal_def Touch_def SoftDelete_def
      PullEvents_def recordEvent_def)

lemma media_step_status: "media_step m m' \<Longrightarrow> m_Status m' = m_Status m
    \<or> (m_Status m = StatusPendingUpload \<and> m_Status m' = StatusUploaded)
    \<or> (m_Status m = StatusUploaded \<and> m_Status m' = StatusProcessing)
    \<or> (m_Status m \<in> {StatusUploaded, StatusProcessing} \<and> m_Status m' = StatusAnalyzed)
    \<or> (\<not> media_terminal m \<and> m_Status m' = StatusFailed)"
  by (erule media_stepE; auto simp: media_ok Touch_def SoftDelete_def PullEvents_def recordEvent_def)

lemma media_step_terminal: "media_step m m' \<Longrightarrow> media_terminal m \<Longrightarrow>
    m_Status m' = m_Status m \<and> m_Verdict m' = m_Verdict m \<and> m_FailureReason m' = m_FailureReason m"
  by (erule media_stepE; auto simp: media_ok media_terminal_def Touch_def SoftDelete_def PullEvents_def
      recordEvent_def)

lemma media_step_deleted: "media_step m m' \<Longrightarrow> IsDeleted m \<Longrightarrow> m_DeletedAt m' = m_DeletedAt m"
  by (erule media_stepE; auto simp: media_ok IsDeleted_def Touch_def SoftDelete_def PullEvents_def
      recordEvent_def)

text \<open>The events a media has recorded that announce its end.\<close>

fun is_verdict_event :: "media_event \<Rightarrow> bool" where
  "is_verdict_event (MediaVerdictRendered _ _ _ _ _ _ _ _ _ _ _) = True"
| "is_verdict_event _ = False"

lemma media_step_verdict_events:
  assumes "media_step m m'"
  shows "(\<exists>es. m_events m' = m_events m @ es \<and>
      length (List.filter is_verdict_event es) = (if media_terminal m = media_terminal m' then 0 else 1))
    \<or> (m_events m' = [] \<and> media_terminal m = media_terminal m')"
  using assms
  by (cases rule: media_step.cases)
    (auto simp: media_ok media_terminal_def Touch_def SoftDelete_def PullEvents_def recordEvent_def)

end
