(* ===== verification/Campaign.thy ===== *)
theory Campaign
  imports Content
begin

text \<open>
  \<open>src/internal/domain/campaign\<close>: a campaign groups the medias of a client between two dates. The
  default campaign of a client has no dates and can be neither updated nor deleted. The
  background image goes \<open>none\<close>, \<open>pending\<close>, \<open>ready\<close> or \<open>failed\<close>.
\<close>

definition BackgroundStatusNone :: string where "BackgroundStatusNone = ''none''"
definition BackgroundStatusPending :: string where "BackgroundStatusPending = ''pending''"
definition BackgroundStatusReady :: string where "BackgroundStatusReady = ''ready''"
definition BackgroundStatusFailed :: string where "BackgroundStatusFailed = ''failed''"
definition MaxBackgroundBytes :: int where "MaxBackgroundBytes = push_bit 20 5"
definition DefaultCampaignName :: string where "DefaultCampaignName = ''Default''"

lemmas background_status_defs = BackgroundStatusNone_def BackgroundStatusPending_def
  BackgroundStatusReady_def BackgroundStatusFailed_def

datatype campaign_event =
    CampaignCreated (cpev_ID: uuid) (cpev_CampaignID: uuid) (cpev_ClientID: uuid) (cpev_Name: string)
      (cpev_IsDefault: bool) (cpev_StartAt: "gotime option") (cpev_EndAt: "gotime option")
      (cpev_Timestamp: gotime)
  | CampaignUpdated (cpev_ID: uuid) (cpev_CampaignID: uuid) (cpev_ClientID: uuid) (cpev_Name: string)
      (cpev_StartAt: "gotime option") (cpev_EndAt: "gotime option") (cpev_Timestamp: gotime)
  | CampaignDeleted (cpev_ID: uuid) (cpev_CampaignID: uuid) (cpev_ClientID: uuid)
      (cpev_BackgroundPendingKey: string) (cpev_BackgroundThumbnailKey: string)
      (cpev_Timestamp: gotime)
  | CampaignBackgroundUpdated (cpev_ID: uuid) (cpev_CampaignID: uuid) (cpev_ClientID: uuid)
      (cpev_BackgroundStatus: string) (cpev_BackgroundThumbnailKey: string) (cpev_Timestamp: gotime)

fun campaign_event_type :: "campaign_event \<Rightarrow> string" where
  "campaign_event_type (CampaignCreated _ _ _ _ _ _ _ _) = ''campaign.created.v1''"
| "campaign_event_type (CampaignUpdated _ _ _ _ _ _ _) = ''campaign.updated.v1''"
| "campaign_event_type (CampaignDeleted _ _ _ _ _ _) = ''campaign.deleted.v1''"
| "campaign_event_type (CampaignBackgroundUpdated _ _ _ _ _ _) = ''campaign.background_updated.v1''"

record campaign =
  cp_ID :: uuid
  cp_ClientID :: uuid
  cp_Name :: string
  cp_IsDefault :: bool
  cp_CreatedAt :: gotime
  cp_UpdatedAt :: gotime
  cp_DeletedAt :: "gotime option"
  cp_StartAt :: "gotime option"
  cp_EndAt :: "gotime option"
  cp_BackgroundStatus :: string
  cp_BackgroundPendingKey :: string
  cp_BackgroundThumbnailKey :: string
  cp_BackgroundFilename :: string
  cp_BackgroundContentType :: string
  cp_events :: "campaign_event list"

section \<open>Background files\<close>

definition campaign_imageExtensions :: "string set" where
  "campaign_imageExtensions = {''jpg'', ''jpeg'', ''png'', ''webp''}"

definition ValidateBackgroundFilename :: "string \<Rightarrow> unit res" where
  "ValidateBackgroundFilename filename =
    (let ext = FileExtension filename in
     if ext = [] then Inl (Sentinel CampaignErrUnsupportedBackgroundType)
     else if ext \<notin> campaign_imageExtensions then Inl (Sentinel CampaignErrUnsupportedBackgroundType)
     else Inr ())"

definition IsImageFilename :: "string \<Rightarrow> bool" where
  "IsImageFilename filename \<longleftrightarrow> FileExtension filename \<in> campaign_imageExtensions"

definition NewBackgroundObjectKey :: "(uuid \<Rightarrow> string) \<Rightarrow> uuid \<Rightarrow> uuid \<Rightarrow> uuid \<Rightarrow> string \<Rightarrow> string" where
  "NewBackgroundObjectKey us nid clientID campaignID filename =
    (let ext = FileExtension filename;
         fileKey = us nid @ (if ext \<noteq> [] then ''.'' @ ext else []) in
     ''clients/'' @ us clientID @ ''/campaigns/'' @ us campaignID @ ''/'' @ fileKey)"

definition NewBackgroundThumbnailKey :: "(uuid \<Rightarrow> string) \<Rightarrow> uuid \<Rightarrow> uuid \<Rightarrow> string" where
  "NewBackgroundThumbnailKey us clientID campaignID =
     ''clients/'' @ us clientID @ ''/campaigns/'' @ us campaignID @ ''/thumbnails/'' @
     us campaignID @ ''.jpg''"

section \<open>Operations\<close>

definition cloneTimePtr :: "gotime option \<Rightarrow> gotime option" where
  "cloneTimePtr v = map_option UTC v"

definition ValidateSchedule :: "gotime option \<Rightarrow> gotime option \<Rightarrow> unit res" where
  "ValidateSchedule startAt endAt = (case (startAt, endAt) of
      (Some s, Some e) \<Rightarrow> if e < s then Inl (Sentinel CampaignErrInvalidSchedule) else Inr ()
    | _ \<Rightarrow> Inl (Sentinel CampaignErrMissingSchedule))"

definition campaign_recordEvent :: "campaign_event \<Rightarrow> campaign \<Rightarrow> campaign" where
  "campaign_recordEvent e c = c\<lparr>cp_events := cp_events c @ [e]\<rparr>"

definition campaign_PullEvents :: "campaign \<Rightarrow> campaign_event list \<times> campaign" where
  "campaign_PullEvents c = (cp_events c, c\<lparr>cp_events := []\<rparr>)"

definition NewCampaign :: "gotime \<Rightarrow> uuid \<Rightarrow> uuid \<Rightarrow> string \<Rightarrow> uuid \<Rightarrow> gotime option \<Rightarrow> gotime option
    \<Rightarrow> campaign res" where
  "NewCampaign now nid eid name clientID startAt endAt =
    (case ValidateSchedule startAt endAt of
       Inl e \<Rightarrow> Inl e
     | Inr _ \<Rightarrow>
       (let c = \<lparr>cp_ID = nid, cp_ClientID = clientID, cp_Name = name, cp_IsDefault = False,
                cp_CreatedAt = now, cp_UpdatedAt = now, cp_DeletedAt = None,
                cp_StartAt = cloneTimePtr startAt, cp_EndAt = cloneTimePtr endAt,
                cp_BackgroundStatus = BackgroundStatusNone, cp_BackgroundPendingKey = '''',
                cp_BackgroundThumbnailKey = '''', cp_BackgroundFilename = '''',
                cp_BackgroundContentType = '''', cp_events = []\<rparr>
        in Inr (campaign_recordEvent (CampaignCreated eid (cp_ID c) clientID (cp_Name c) False
             (cloneTimePtr (cp_StartAt c)) (cloneTimePtr (cp_EndAt c)) now) c)))"

definition NewDefaultCampaign :: "gotime \<Rightarrow> uuid \<Rightarrow> uuid \<Rightarrow> uuid \<Rightarrow> campaign" where
  "NewDefaultCampaign now nid eid clientID =
    (let c = \<lparr>cp_ID = nid, cp_ClientID = clientID, cp_Name = DefaultCampaignName, cp_IsDefault = True,
             cp_CreatedAt = now, cp_UpdatedAt = now, cp_DeletedAt = None,
             cp_StartAt = None, cp_EndAt = None,
             cp_BackgroundStatus = BackgroundStatusNone, cp_BackgroundPendingKey = '''',
             cp_BackgroundThumbnailKey = '''', cp_BackgroundFilename = '''',
             cp_BackgroundContentType = '''', cp_events = []\<rparr>
     in campaign_recordEvent (CampaignCreated eid (cp_ID c) clientID (cp_Name c) True None None now) c)"

definition campaign_IsDeleted :: "campaign \<Rightarrow> bool" where
  "campaign_IsDeleted c \<longleftrightarrow> cp_DeletedAt c \<noteq> None"

definition campaign_ApplyUpdate :: "gotime \<Rightarrow> uuid \<Rightarrow> string \<Rightarrow> gotime option \<Rightarrow> gotime option
    \<Rightarrow> campaign \<Rightarrow> campaign res" where
  "campaign_ApplyUpdate now eid name startAt endAt c =
    (if cp_IsDefault c then Inl (Sentinel CampaignErrDefaultProtected)
     else if campaign_IsDeleted c then Inl (Err ''campaign not found'')
     else case ValidateSchedule startAt endAt of
       Inl e \<Rightarrow> Inl e
     | Inr _ \<Rightarrow>
       (let c = c\<lparr>cp_Name := name, cp_StartAt := cloneTimePtr startAt, cp_EndAt := cloneTimePtr endAt,
                  cp_UpdatedAt := now\<rparr>
        in Inr (campaign_recordEvent (CampaignUpdated eid (cp_ID c) (cp_ClientID c) (cp_Name c)
             (cloneTimePtr (cp_StartAt c)) (cloneTimePtr (cp_EndAt c)) (cp_UpdatedAt c)) c)))"

definition campaign_SoftDelete :: "gotime \<Rightarrow> uuid \<Rightarrow> campaign \<Rightarrow> campaign res" where
  "campaign_SoftDelete now eid c =
    (if cp_IsDefault c then Inl (Sentinel CampaignErrDefaultProtected)
     else if campaign_IsDeleted c then Inr c
     else let c = c\<lparr>cp_DeletedAt := Some now, cp_UpdatedAt := now\<rparr> in
       Inr (campaign_recordEvent (CampaignDeleted eid (cp_ID c) (cp_ClientID c)
         (cp_BackgroundPendingKey c) (cp_BackgroundThumbnailKey c) now) c))"

definition recordBackgroundUpdated :: "uuid \<Rightarrow> campaign \<Rightarrow> campaign" where
  "recordBackgroundUpdated eid c =
     campaign_recordEvent (CampaignBackgroundUpdated eid (cp_ID c) (cp_ClientID c)
       (cp_BackgroundStatus c) (cp_BackgroundThumbnailKey c) (cp_UpdatedAt c)) c"

definition StartBackgroundUpload :: "gotime \<Rightarrow> uuid \<Rightarrow> string \<Rightarrow> string \<Rightarrow> string \<Rightarrow> campaign \<Rightarrow> campaign" where
  "StartBackgroundUpload now eid pendingKey filename contentType c =
     recordBackgroundUpdated eid (c\<lparr>cp_BackgroundStatus := BackgroundStatusPending,
       cp_BackgroundPendingKey := pendingKey, cp_BackgroundFilename := filename,
       cp_BackgroundContentType := contentType, cp_UpdatedAt := now\<rparr>)"

definition ApplyBackgroundReady :: "gotime \<Rightarrow> uuid \<Rightarrow> string \<Rightarrow> string \<Rightarrow> campaign \<Rightarrow> campaign" where
  "ApplyBackgroundReady now eid thumbnailKey contentType c =
     recordBackgroundUpdated eid (c\<lparr>cp_BackgroundStatus := BackgroundStatusReady,
       cp_BackgroundPendingKey := '''', cp_BackgroundThumbnailKey := thumbnailKey,
       cp_BackgroundContentType := (if contentType \<noteq> [] then contentType
                                    else cp_BackgroundContentType c),
       cp_UpdatedAt := now\<rparr>)"

definition MarkBackgroundFailed :: "gotime \<Rightarrow> uuid \<Rightarrow> campaign \<Rightarrow> campaign" where
  "MarkBackgroundFailed now eid c =
     recordBackgroundUpdated eid (c\<lparr>cp_BackgroundStatus := BackgroundStatusFailed,
       cp_BackgroundPendingKey := '''', cp_UpdatedAt := now\<rparr>)"

definition campaign_ClearBackground :: "gotime \<Rightarrow> uuid \<Rightarrow> campaign \<Rightarrow> campaign" where
  "campaign_ClearBackground now eid c =
     recordBackgroundUpdated eid (c\<lparr>cp_BackgroundStatus := BackgroundStatusNone,
       cp_BackgroundPendingKey := '''', cp_BackgroundThumbnailKey := '''',
       cp_BackgroundFilename := '''', cp_BackgroundContentType := '''', cp_UpdatedAt := now\<rparr>)"

section \<open>The entity of each operation\<close>

named_theorems campaign_ops "definitions of the operations of a campaign"

lemmas [campaign_ops] = campaign_recordEvent_def campaign_PullEvents_def NewCampaign_def
  NewDefaultCampaign_def campaign_ApplyUpdate_def campaign_SoftDelete_def recordBackgroundUpdated_def
  StartBackgroundUpload_def ApplyBackgroundReady_def MarkBackgroundFailed_def
  campaign_ClearBackground_def campaign_IsDeleted_def cloneTimePtr_def Let_def

lemma ValidateSchedule_ok: "ValidateSchedule s e = Inr () \<longleftrightarrow> (\<exists>a b. s = Some a \<and> e = Some b \<and> a \<le> b)"
  by (auto simp: ValidateSchedule_def split: option.splits)

lemma cloneTimePtr_id [simp]: "cloneTimePtr v = v"
  by (cases v) (simp_all add: cloneTimePtr_def)

text \<open>A campaign that is not the default one has dates in order; a pending key is stored exactly
  while an upload is pending.\<close>

definition campaign_wf :: "campaign \<Rightarrow> bool" where
  "campaign_wf c \<longleftrightarrow>
     (\<not> cp_IsDefault c \<longrightarrow> (\<exists>s e. cp_StartAt c = Some s \<and> cp_EndAt c = Some e \<and> s \<le> e)) \<and>
     (cp_IsDefault c \<longrightarrow> cp_DeletedAt c = None \<and> cp_Name c = DefaultCampaignName) \<and>
     cp_BackgroundStatus c \<in> {BackgroundStatusNone, BackgroundStatusPending, BackgroundStatusReady,
       BackgroundStatusFailed} \<and>
     (cp_BackgroundPendingKey c \<noteq> [] \<longrightarrow> cp_BackgroundStatus c = BackgroundStatusPending)"

inductive campaign_step :: "campaign \<Rightarrow> campaign \<Rightarrow> bool" where
  update: "campaign_ApplyUpdate now eid name s e c = Inr c' \<Longrightarrow> campaign_step c c'"
| delete: "campaign_SoftDelete now eid c = Inr c' \<Longrightarrow> campaign_step c c'"
| pending: "campaign_step c (StartBackgroundUpload now eid key filename ct c)"
| ready: "campaign_step c (ApplyBackgroundReady now eid key ct c)"
| failed: "campaign_step c (MarkBackgroundFailed now eid c)"
| cleared: "campaign_step c (campaign_ClearBackground now eid c)"
| pulled: "campaign_step c (snd (campaign_PullEvents c))"

inductive_cases campaign_stepE: "campaign_step c c'"

lemma campaign_wf_NewCampaign: "NewCampaign now nid eid name cl s e = Inr c \<Longrightarrow> campaign_wf c"
  by (auto simp: campaign_ops campaign_wf_def ValidateSchedule_ok background_status_defs
      split: sum.splits)

lemma campaign_wf_NewDefaultCampaign: "campaign_wf (NewDefaultCampaign now nid eid cl)"
  by (auto simp: campaign_ops campaign_wf_def background_status_defs)

lemma campaign_step_wf: "campaign_step c c' \<Longrightarrow> campaign_wf c \<Longrightarrow> campaign_wf c'"
  by (erule campaign_stepE; auto simp: campaign_ops campaign_wf_def ValidateSchedule_ok
      background_status_defs split: if_splits sum.splits)

lemma campaign_step_default: "campaign_step c c' \<Longrightarrow> cp_IsDefault c \<Longrightarrow>
    cp_IsDefault c' \<and> cp_Name c' = cp_Name c \<and> cp_DeletedAt c' = cp_DeletedAt c \<and>
    cp_StartAt c' = cp_StartAt c \<and> cp_EndAt c' = cp_EndAt c"
  by (erule campaign_stepE; auto simp: campaign_ops split: if_splits sum.splits)

lemma campaign_step_deleted: "campaign_step c c' \<Longrightarrow> campaign_IsDeleted c \<Longrightarrow>
    cp_DeletedAt c' = cp_DeletedAt c \<and> cp_Name c' = cp_Name c"
  by (erule campaign_stepE; auto simp: campaign_ops split: if_splits sum.splits)

lemma campaign_step_identity: "campaign_step c c' \<Longrightarrow>
    cp_ID c' = cp_ID c \<and> cp_ClientID c' = cp_ClientID c \<and> cp_IsDefault c' = cp_IsDefault c"
  by (erule campaign_stepE; auto simp: campaign_ops split: if_splits sum.splits)

end
