(* ===== verification/Accounts.thy ===== *)
theory Accounts
  imports GoTime
begin

text \<open>
  \<open>src/internal/domain/client\<close>, \<open>user\<close> and \<open>workspace\<close>: a user owns a workspace; the clients of a
  workspace have members; a user works in one of the clients, the current one. Operations that Go
  writes with a boolean result return the flag and the entity.
\<close>

section \<open>Clients\<close>

datatype client_event =
    ClientCreated (clev_ID: uuid) (clev_ClientID: uuid) (clev_Name: string) (clev_CreatedByUserID: uuid)
      (clev_Timestamp: gotime)
  | ClientUpdated (clev_ID: uuid) (clev_ClientID: uuid) (clev_Name: string) (clev_MemberIDs: "uuid list")
      (clev_Timestamp: gotime)
  | ClientDeleted (clev_ID: uuid) (clev_ClientID: uuid) (clev_MemberIDs: "uuid list")
      (clev_Timestamp: gotime)
  | ClientMemberAdded (clev_ID: uuid) (clev_ClientID: uuid) (clev_UserID: uuid) (clev_Timestamp: gotime)
  | ClientMemberRemoved (clev_ID: uuid) (clev_ClientID: uuid) (clev_UserID: uuid) (clev_Timestamp: gotime)

fun client_event_type :: "client_event \<Rightarrow> string" where
  "client_event_type (ClientCreated _ _ _ _ _) = ''client.created.v1''"
| "client_event_type (ClientUpdated _ _ _ _ _) = ''client.updated.v1''"
| "client_event_type (ClientDeleted _ _ _ _) = ''client.deleted.v1''"
| "client_event_type (ClientMemberAdded _ _ _ _) = ''client.member_added.v1''"
| "client_event_type (ClientMemberRemoved _ _ _ _) = ''client.member_removed.v1''"

record client =
  cl_ID :: uuid
  cl_Name :: string
  cl_WorkspaceID :: uuid
  cl_CreatedAt :: gotime
  cl_UpdatedAt :: gotime
  cl_MemberIDs :: "uuid list"
  cl_events :: "client_event list"

definition client_recordEvent :: "client_event \<Rightarrow> client \<Rightarrow> client" where
  "client_recordEvent e c = c\<lparr>cl_events := cl_events c @ [e]\<rparr>"

definition client_PullEvents :: "client \<Rightarrow> client_event list \<times> client" where
  "client_PullEvents c = (cl_events c, c\<lparr>cl_events := []\<rparr>)"

definition NewClient :: "gotime \<Rightarrow> uuid \<Rightarrow> uuid \<Rightarrow> string \<Rightarrow> uuid \<Rightarrow> uuid \<Rightarrow> client" where
  "NewClient now nid eid name workspaceID createdByUserID =
    (let c = \<lparr>cl_ID = nid, cl_Name = name, cl_WorkspaceID = workspaceID, cl_CreatedAt = now,
             cl_UpdatedAt = now, cl_MemberIDs = [], cl_events = []\<rparr>
     in client_recordEvent (ClientCreated eid (cl_ID c) (cl_Name c) createdByUserID now) c)"

definition client_ApplyUpdate :: "gotime \<Rightarrow> uuid \<Rightarrow> string \<Rightarrow> client \<Rightarrow> client" where
  "client_ApplyUpdate now eid name c =
    (let c = c\<lparr>cl_Name := name, cl_UpdatedAt := now\<rparr>
     in client_recordEvent (ClientUpdated eid (cl_ID c) (cl_Name c) (cl_MemberIDs c) (cl_UpdatedAt c)) c)"

definition client_MarkDeleted :: "gotime \<Rightarrow> uuid \<Rightarrow> client \<Rightarrow> client" where
  "client_MarkDeleted now eid c = client_recordEvent (ClientDeleted eid (cl_ID c) (cl_MemberIDs c) now) c"

definition AddMember :: "gotime \<Rightarrow> uuid \<Rightarrow> uuid \<Rightarrow> client \<Rightarrow> bool \<times> client" where
  "AddMember now eid userID c =
    (if userID \<in> set (cl_MemberIDs c) then (False, c)
     else let c = c\<lparr>cl_MemberIDs := cl_MemberIDs c @ [userID], cl_UpdatedAt := now\<rparr>
     in (True, client_recordEvent (ClientMemberAdded eid (cl_ID c) userID (cl_UpdatedAt c)) c))"

text \<open>The first index at which the user occurs, as the loop with \<open>break\<close> finds it.\<close>

fun member_index :: "uuid \<Rightarrow> uuid list \<Rightarrow> nat option" where
  "member_index u [] = None"
| "member_index u (x # xs) = (if x = u then Some 0 else map_option Suc (member_index u xs))"

definition RemoveMember :: "gotime \<Rightarrow> uuid \<Rightarrow> uuid \<Rightarrow> client \<Rightarrow> bool \<times> client" where
  "RemoveMember now eid userID c =
    (case member_index userID (cl_MemberIDs c) of
       None \<Rightarrow> (False, c)
     | Some idx \<Rightarrow>
       (let c = c\<lparr>cl_MemberIDs := take idx (cl_MemberIDs c) @ drop (idx + 1) (cl_MemberIDs c),
                  cl_UpdatedAt := now\<rparr>
        in (True, client_recordEvent (ClientMemberRemoved eid (cl_ID c) userID (cl_UpdatedAt c)) c)))"

section \<open>Users\<close>

datatype user_event =
    UserCreated (uev_ID: uuid) (uev_UserID: uuid) (uev_ClerkID: string) (uev_FirstName: string)
      (uev_LastName: string) (uev_Email: string) (uev_Banned: bool) (uev_Timestamp: gotime)
  | UserUpdated (uev_ID: uuid) (uev_UserID: uuid) (uev_ClerkID: string) (uev_FirstName: string)
      (uev_LastName: string) (uev_Email: string) (uev_Banned: bool) (uev_Timestamp: gotime)
  | UserDeleted (uev_ID: uuid) (uev_UserID: uuid) (uev_ClerkID: string) (uev_Timestamp: gotime)
  | UserCurrentClientChanged (uev_ID: uuid) (uev_UserID: uuid) (uev_ClientID: "uuid option")
      (uev_Timestamp: gotime)

fun user_event_type :: "user_event \<Rightarrow> string" where
  "user_event_type (UserCreated _ _ _ _ _ _ _ _) = ''user.created.v1''"
| "user_event_type (UserUpdated _ _ _ _ _ _ _ _) = ''user.updated.v1''"
| "user_event_type (UserDeleted _ _ _ _) = ''user.deleted.v1''"
| "user_event_type (UserCurrentClientChanged _ _ _ _) = ''user.current_client_changed.v1''"

record user =
  u_ID :: uuid
  u_ClerkID :: string
  u_FirstName :: string
  u_LastName :: string
  u_Banned :: bool
  u_Email :: string
  u_CurrentClientID :: "uuid option"
  u_CreatedAt :: gotime
  u_UpdatedAt :: gotime
  u_events :: "user_event list"

definition user_recordEvent :: "user_event \<Rightarrow> user \<Rightarrow> user" where
  "user_recordEvent e u = u\<lparr>u_events := u_events u @ [e]\<rparr>"

definition user_PullEvents :: "user \<Rightarrow> user_event list \<times> user" where
  "user_PullEvents u = (u_events u, u\<lparr>u_events := []\<rparr>)"

definition NewUser :: "gotime \<Rightarrow> uuid \<Rightarrow> uuid \<Rightarrow> string \<Rightarrow> string \<Rightarrow> string \<Rightarrow> string \<Rightarrow> bool \<Rightarrow> user" where
  "NewUser now nid eid clerkID firstName lastName email banned =
    (let u = \<lparr>u_ID = nid, u_ClerkID = clerkID, u_FirstName = firstName, u_LastName = lastName,
             u_Banned = banned, u_Email = email, u_CurrentClientID = None, u_CreatedAt = now,
             u_UpdatedAt = now, u_events = []\<rparr>
     in user_recordEvent (UserCreated eid (u_ID u) clerkID firstName lastName email banned now) u)"

definition user_ApplyUpdate :: "gotime \<Rightarrow> uuid \<Rightarrow> string \<Rightarrow> string \<Rightarrow> string \<Rightarrow> bool \<Rightarrow> user \<Rightarrow> user" where
  "user_ApplyUpdate now eid firstName lastName email banned u =
    (let u = u\<lparr>u_FirstName := firstName, u_LastName := lastName, u_Banned := banned,
               u_Email := (if email \<noteq> [] then email else u_Email u), u_UpdatedAt := now\<rparr>
     in user_recordEvent (UserUpdated eid (u_ID u) (u_ClerkID u) (u_FirstName u) (u_LastName u)
          (u_Email u) (u_Banned u) (u_UpdatedAt u)) u)"

definition user_MarkDeleted :: "gotime \<Rightarrow> uuid \<Rightarrow> user \<Rightarrow> user" where
  "user_MarkDeleted now eid u = user_recordEvent (UserDeleted eid (u_ID u) (u_ClerkID u) now) u"

definition SetCurrentClient :: "gotime \<Rightarrow> uuid \<Rightarrow> uuid \<Rightarrow> user \<Rightarrow> bool \<times> user" where
  "SetCurrentClient now eid clientID u =
    (if u_CurrentClientID u = Some clientID then (False, u)
     else let u = u\<lparr>u_CurrentClientID := Some clientID, u_UpdatedAt := now\<rparr>
     in (True, user_recordEvent (UserCurrentClientChanged eid (u_ID u) (Some clientID) (u_UpdatedAt u)) u))"

definition ClearCurrentClient :: "gotime \<Rightarrow> uuid \<Rightarrow> user \<Rightarrow> bool \<times> user" where
  "ClearCurrentClient now eid u =
    (if u_CurrentClientID u = None then (False, u)
     else let u = u\<lparr>u_CurrentClientID := None, u_UpdatedAt := now\<rparr>
     in (True, user_recordEvent (UserCurrentClientChanged eid (u_ID u) None (u_UpdatedAt u)) u))"

section \<open>Workspaces\<close>

datatype workspace_event =
    WorkspaceCreated (wev_ID: uuid) (wev_WorkspaceID: uuid) (wev_OwnerUserID: uuid) (wev_Timestamp: gotime)
  | WorkspaceSubscriptionAssigned (wev_ID: uuid) (wev_WorkspaceID: uuid) (wev_SubscriptionID: uuid)
      (wev_Timestamp: gotime)

fun workspace_event_type :: "workspace_event \<Rightarrow> string" where
  "workspace_event_type (WorkspaceCreated _ _ _ _) = ''workspace.created.v1''"
| "workspace_event_type (WorkspaceSubscriptionAssigned _ _ _ _) = ''workspace.subscription_assigned.v1''"

record workspace =
  w_ID :: uuid
  w_OwnerUserID :: uuid
  w_SubscriptionID :: "uuid option"
  w_CreatedAt :: gotime
  w_UpdatedAt :: gotime
  w_events :: "workspace_event list"

definition workspace_recordEvent :: "workspace_event \<Rightarrow> workspace \<Rightarrow> workspace" where
  "workspace_recordEvent e w = w\<lparr>w_events := w_events w @ [e]\<rparr>"

definition workspace_PullEvents :: "workspace \<Rightarrow> workspace_event list \<times> workspace" where
  "workspace_PullEvents w = (w_events w, w\<lparr>w_events := []\<rparr>)"

definition NewWorkspace :: "gotime \<Rightarrow> uuid \<Rightarrow> uuid \<Rightarrow> uuid \<Rightarrow> workspace" where
  "NewWorkspace now nid eid ownerUserID =
    (let w = \<lparr>w_ID = nid, w_OwnerUserID = ownerUserID, w_SubscriptionID = None, w_CreatedAt = now,
             w_UpdatedAt = now, w_events = []\<rparr>
     in workspace_recordEvent (WorkspaceCreated eid (w_ID w) (w_OwnerUserID w) now) w)"

definition AssignSubscription :: "gotime \<Rightarrow> uuid \<Rightarrow> uuid \<Rightarrow> workspace \<Rightarrow> workspace" where
  "AssignSubscription now eid subscriptionID w =
    (let w = w\<lparr>w_SubscriptionID := Some subscriptionID, w_UpdatedAt := now\<rparr>
     in workspace_recordEvent (WorkspaceSubscriptionAssigned eid (w_ID w) subscriptionID (w_UpdatedAt w)) w)"

section \<open>Membership\<close>

named_theorems account_ops "definitions of the operations of clients, users and workspaces"

lemmas [account_ops] = client_recordEvent_def client_PullEvents_def NewClient_def client_ApplyUpdate_def
  client_MarkDeleted_def user_recordEvent_def user_PullEvents_def NewUser_def user_ApplyUpdate_def
  user_MarkDeleted_def SetCurrentClient_def ClearCurrentClient_def workspace_recordEvent_def
  workspace_PullEvents_def NewWorkspace_def AssignSubscription_def Let_def

lemma member_index_Some: "member_index u xs = Some i \<Longrightarrow> i < length xs \<and> xs ! i = u \<and> u \<notin> set (take i xs)"
  by (induction xs arbitrary: i) (auto split: if_splits)

lemma member_index_None: "member_index u xs = None \<longleftrightarrow> u \<notin> set xs"
  by (induction xs) auto

lemma remove_at_index: "member_index u xs = Some i \<Longrightarrow> take i xs @ drop (i + 1) xs = remove1 u xs"
  by (induction xs arbitrary: i) (auto split: if_splits)

lemma RemoveMember_eq: "RemoveMember now eid u c =
    (if u \<notin> set (cl_MemberIDs c) then (False, c)
     else (True, c\<lparr>cl_MemberIDs := remove1 u (cl_MemberIDs c), cl_UpdatedAt := now,
       cl_events := cl_events c @ [ClientMemberRemoved eid (cl_ID c) u now]\<rparr>))"
proof (cases "member_index u (cl_MemberIDs c)")
  case None
  then show ?thesis by (simp add: RemoveMember_def member_index_None [symmetric])
next
  case (Some i)
  then have "u \<in> set (cl_MemberIDs c)" using member_index_None [of u "cl_MemberIDs c"] by auto
  then show ?thesis
    using Some remove_at_index [OF Some] by (simp add: RemoveMember_def client_recordEvent_def Let_def)
qed

lemma AddMember_eq: "AddMember now eid u c =
    (if u \<in> set (cl_MemberIDs c) then (False, c)
     else (True, c\<lparr>cl_MemberIDs := cl_MemberIDs c @ [u], cl_UpdatedAt := now,
       cl_events := cl_events c @ [ClientMemberAdded eid (cl_ID c) u now]\<rparr>))"
  by (simp add: AddMember_def client_recordEvent_def Let_def)

definition client_wf :: "client \<Rightarrow> bool" where
  "client_wf c \<longleftrightarrow> distinct (cl_MemberIDs c)"

lemma client_wf_NewClient: "client_wf (NewClient now nid eid name w u)"
  by (simp add: client_wf_def account_ops)

lemma client_wf_AddMember: "client_wf c \<Longrightarrow> client_wf (snd (AddMember now eid u c))"
  by (simp add: client_wf_def AddMember_eq)

lemma client_wf_RemoveMember: "client_wf c \<Longrightarrow> client_wf (snd (RemoveMember now eid u c))"
  by (simp add: client_wf_def RemoveMember_eq distinct_remove1)

lemma AddMember_members: "set (cl_MemberIDs (snd (AddMember now eid u c))) = insert u (set (cl_MemberIDs c))"
  by (auto simp: AddMember_eq)

lemma RemoveMember_members: "client_wf c \<Longrightarrow>
    set (cl_MemberIDs (snd (RemoveMember now eid u c))) = set (cl_MemberIDs c) - {u}"
  by (simp add: client_wf_def RemoveMember_eq)

lemma RemoveMember_AddMember: "u \<notin> set (cl_MemberIDs c) \<Longrightarrow>
    cl_MemberIDs (snd (RemoveMember t eid u (snd (AddMember t' eid' u c)))) = cl_MemberIDs c"
  by (simp add: AddMember_eq RemoveMember_eq remove1_append)

end
