(* ===== verification/Subscription.thy ===== *)
theory Subscription
  imports GoTime
begin

text \<open>
  \<open>src/internal/domain/subscription\<close>: the subscription of a workspace to a plan, and the quota
  period, the month of the anchor date in which usage is counted. An event identifier given by
  the caller is \<open>Some\<close>; \<open>None\<close> stands for the empty string, for which Go draws a new one.
\<close>

section \<open>Status\<close>

datatype sub_status = SubActive | SubInactive | SubCancelled | SubPending | SubPastDue
  | SubStatusOther string

fun sub_status_string :: "sub_status \<Rightarrow> string" where
  "sub_status_string SubActive = ''active''"
| "sub_status_string SubInactive = ''inactive''"
| "sub_status_string SubCancelled = ''cancelled''"
| "sub_status_string SubPending = ''pending''"
| "sub_status_string SubPastDue = ''past_due''"
| "sub_status_string (SubStatusOther s) = s"

fun sub_status_Valid :: "sub_status \<Rightarrow> bool" where
  "sub_status_Valid (SubStatusOther s) = False"
| "sub_status_Valid _ = True"

definition MapBillingStatus :: "string \<Rightarrow> sub_status" where
  "MapBillingStatus stripeStatus =
    (if stripeStatus \<in> {''active'', ''trialing''} then SubActive
     else if stripeStatus \<in> {''past_due'', ''unpaid''} then SubPastDue
     else if stripeStatus = ''canceled'' then SubCancelled
     else if stripeStatus \<in> {''incomplete'', ''incomplete_expired'', ''paused''} then SubInactive
     else SubInactive)"

section \<open>The subscription\<close>

datatype subscription_event =
    SubscriptionCreated (sev_ID: uuid) (sev_SubscriptionID: uuid) (sev_PlanID: uuid)
      (sev_StripeCustomerID: string) (sev_StripeSubscriptionID: string) (sev_Status: string)
      (sev_StartDate: gotime) (sev_EndDate: gotime) (sev_CancelAtPeriodEnd: bool)
      (sev_QuotaPeriodStart: gotime) (sev_Timestamp: gotime)
  | SubscriptionUpdated (sev_ID: uuid) (sev_SubscriptionID: uuid) (sev_PlanID: uuid)
      (sev_StripeCustomerID: string) (sev_StripeSubscriptionID: string) (sev_Status: string)
      (sev_StartDate: gotime) (sev_EndDate: gotime) (sev_CancelAtPeriodEnd: bool)
      (sev_QuotaPeriodStart: gotime) (sev_Timestamp: gotime)
  | SubscriptionPlanChanged (sev_ID: uuid) (sev_SubscriptionID: uuid) (sev_PreviousPlanID: uuid)
      (sev_PlanID: uuid) (sev_Status: string) (sev_Timestamp: gotime)
  | SubscriptionRenewalUpcoming (sev_ID: uuid) (sev_SubscriptionID: uuid) (sev_PlanID: uuid)
      (sev_AmountDue: int) (sev_Currency: string) (sev_PeriodEnd: gotime) (sev_Timestamp: gotime)
  | SubscriptionPaymentMethodExpiring (sev_ID: uuid) (sev_SubscriptionID: uuid) (sev_Brand: string)
      (sev_Last4: string) (sev_ExpMonth: int) (sev_ExpYear: int) (sev_Timestamp: gotime)

fun subscription_event_type :: "subscription_event \<Rightarrow> string" where
  "subscription_event_type (SubscriptionCreated _ _ _ _ _ _ _ _ _ _ _) = ''subscription.created.v1''"
| "subscription_event_type (SubscriptionUpdated _ _ _ _ _ _ _ _ _ _ _) = ''subscription.updated.v1''"
| "subscription_event_type (SubscriptionPlanChanged _ _ _ _ _ _) = ''subscription.planChanged.v1''"
| "subscription_event_type (SubscriptionRenewalUpcoming _ _ _ _ _ _ _) =
     ''subscription.renewalUpcoming.v1''"
| "subscription_event_type (SubscriptionPaymentMethodExpiring _ _ _ _ _ _ _) =
     ''subscription.paymentMethodExpiring.v1''"

record subscription =
  s_ID :: uuid
  s_PlanID :: uuid
  s_StripeCustomerID :: string
  s_StripeSubscriptionID :: string
  s_Status :: sub_status
  s_StartDate :: gotime
  s_EndDate :: gotime
  s_CancelAtPeriodEnd :: bool
  s_QuotaPeriodStart :: gotime
  s_CreatedAt :: gotime
  s_UpdatedAt :: gotime
  s_events :: "subscription_event list"

definition subscription_recordEvent :: "subscription_event \<Rightarrow> subscription \<Rightarrow> subscription" where
  "subscription_recordEvent e s = s\<lparr>s_events := s_events s @ [e]\<rparr>"

definition subscription_PullEvents :: "subscription \<Rightarrow> subscription_event list \<times> subscription" where
  "subscription_PullEvents s = (s_events s, s\<lparr>s_events := []\<rparr>)"

definition eventIDOrNew :: "uuid \<Rightarrow> uuid option \<Rightarrow> uuid" where
  "eventIDOrNew fresh eventID = (case eventID of None \<Rightarrow> fresh | Some e \<Rightarrow> e)"

definition NewSubscription :: "gotime \<Rightarrow> uuid \<Rightarrow> uuid \<Rightarrow> uuid \<Rightarrow> sub_status \<Rightarrow> gotime \<Rightarrow> gotime
    \<Rightarrow> subscription" where
  "NewSubscription now nid eid planID status startDate endDate =
    (let startDate = (if IsZero startDate then now else startDate);
         endDate = (if IsZero endDate then startDate else endDate);
         s = \<lparr>s_ID = nid, s_PlanID = planID, s_StripeCustomerID = '''', s_StripeSubscriptionID = '''',
              s_Status = status, s_StartDate = UTC startDate, s_EndDate = UTC endDate,
              s_CancelAtPeriodEnd = False, s_QuotaPeriodStart = UTC startDate, s_CreatedAt = now,
              s_UpdatedAt = now, s_events = []\<rparr>
     in subscription_recordEvent (SubscriptionCreated eid (s_ID s) (s_PlanID s) (s_StripeCustomerID s)
          (s_StripeSubscriptionID s) (sub_status_string (s_Status s)) (s_StartDate s) (s_EndDate s)
          (s_CancelAtPeriodEnd s) (s_QuotaPeriodStart s) now) s)"

text \<open>\<open>now\<close> is the clock of \<open>NewFreeSubscription\<close>, \<open>now'\<close> that of the \<open>NewSubscription\<close> it calls.\<close>

definition NewFreeSubscription :: "gotime \<Rightarrow> gotime \<Rightarrow> uuid \<Rightarrow> uuid \<Rightarrow> uuid \<Rightarrow> subscription" where
  "NewFreeSubscription now now' nid eid planID =
     NewSubscription now' nid eid planID SubActive now (AddDate now 100 0 0)"

definition ApplyUpdate :: "gotime \<Rightarrow> uuid \<Rightarrow> uuid \<Rightarrow> uuid \<Rightarrow> sub_status \<Rightarrow> string \<Rightarrow> string \<Rightarrow> gotime
    \<Rightarrow> gotime \<Rightarrow> bool \<Rightarrow> gotime \<Rightarrow> subscription \<Rightarrow> subscription" where
  "ApplyUpdate now eid1 eid2 planID status stripeCustomerID stripeSubscriptionID startDate endDate
     cancelAtPeriodEnd quotaPeriodStart s =
    (let previousPlanID = s_PlanID s;
         s = s\<lparr>s_PlanID := planID, s_Status := status, s_StripeCustomerID := stripeCustomerID,
               s_StripeSubscriptionID := stripeSubscriptionID, s_StartDate := UTC startDate,
               s_EndDate := UTC endDate, s_CancelAtPeriodEnd := cancelAtPeriodEnd,
               s_QuotaPeriodStart := (if \<not> IsZero quotaPeriodStart then UTC quotaPeriodStart
                                      else s_QuotaPeriodStart s),
               s_UpdatedAt := now\<rparr>;
         s = (if previousPlanID \<noteq> s_PlanID s
              then subscription_recordEvent (SubscriptionPlanChanged eid1 (s_ID s) previousPlanID
                     (s_PlanID s) (sub_status_string (s_Status s)) (s_UpdatedAt s)) s
              else s)
     in subscription_recordEvent (SubscriptionUpdated eid2 (s_ID s) (s_PlanID s) (s_StripeCustomerID s)
          (s_StripeSubscriptionID s) (sub_status_string (s_Status s)) (s_StartDate s) (s_EndDate s)
          (s_CancelAtPeriodEnd s) (s_QuotaPeriodStart s) (s_UpdatedAt s)) s)"

definition RecordRenewalUpcoming :: "gotime \<Rightarrow> uuid \<Rightarrow> uuid option \<Rightarrow> int \<Rightarrow> string \<Rightarrow> gotime
    \<Rightarrow> subscription \<Rightarrow> subscription" where
  "RecordRenewalUpcoming now fresh eventID amountDue currency periodEnd s =
    (let s = s\<lparr>s_UpdatedAt := now\<rparr>
     in subscription_recordEvent (SubscriptionRenewalUpcoming (eventIDOrNew fresh eventID) (s_ID s)
          (s_PlanID s) amountDue currency (UTC periodEnd) now) s)"

definition RecordPaymentMethodExpiring :: "gotime \<Rightarrow> uuid \<Rightarrow> uuid option \<Rightarrow> string \<Rightarrow> string \<Rightarrow> int
    \<Rightarrow> int \<Rightarrow> subscription \<Rightarrow> subscription" where
  "RecordPaymentMethodExpiring now fresh eventID brand last4 expMonth expYear s =
    (let s = s\<lparr>s_UpdatedAt := now\<rparr>
     in subscription_recordEvent (SubscriptionPaymentMethodExpiring (eventIDOrNew fresh eventID)
          (s_ID s) brand last4 expMonth expYear now) s)"

definition DowngradeToFree :: "gotime \<Rightarrow> gotime \<Rightarrow> uuid \<Rightarrow> uuid \<Rightarrow> uuid \<Rightarrow> subscription \<Rightarrow> subscription" where
  "DowngradeToFree now now' eid1 eid2 freePlanID s =
     ApplyUpdate now' eid1 eid2 freePlanID SubActive (s_StripeCustomerID s) '''' now
       (AddDate now 100 0 0) False (s_QuotaPeriodStart s) s"

named_theorems subscription_ops "definitions of the operations of a subscription"

lemmas [subscription_ops] = subscription_recordEvent_def subscription_PullEvents_def
  eventIDOrNew_def NewSubscription_def NewFreeSubscription_def ApplyUpdate_def
  RecordRenewalUpcoming_def RecordPaymentMethodExpiring_def DowngradeToFree_def Let_def

lemma MapBillingStatus_valid: "sub_status_Valid (MapBillingStatus s)"
  by (simp add: MapBillingStatus_def)

lemma ApplyUpdate_fields:
  "s_ID (ApplyUpdate now e1 e2 p st cu sb sd ed can q s) = s_ID s"
  "s_PlanID (ApplyUpdate now e1 e2 p st cu sb sd ed can q s) = p"
  "s_Status (ApplyUpdate now e1 e2 p st cu sb sd ed can q s) = st"
  "s_StripeCustomerID (ApplyUpdate now e1 e2 p st cu sb sd ed can q s) = cu"
  "s_StripeSubscriptionID (ApplyUpdate now e1 e2 p st cu sb sd ed can q s) = sb"
  "s_QuotaPeriodStart (ApplyUpdate now e1 e2 p st cu sb sd ed can q s) =
     (if q = 0 then s_QuotaPeriodStart s else q)"
  by (simp_all add: subscription_ops IsZero_def)

text \<open>A change of plan is announced once, before the update.\<close>

lemma ApplyUpdate_events: "\<exists>upd. s_events (ApplyUpdate now e1 e2 p st cu sb sd ed can q s) =
    s_events s @ (if s_PlanID s \<noteq> p
      then [SubscriptionPlanChanged e1 (s_ID s) (s_PlanID s) p (sub_status_string st) now] else [])
    @ [upd] \<and> subscription_event_type upd = ''subscription.updated.v1'' \<and> sev_PlanID upd = p"
  by (simp add: subscription_ops IsZero_def)

lemma DowngradeToFree_fields:
  "s_PlanID (DowngradeToFree now now' e1 e2 fp s) = fp"
  "s_Status (DowngradeToFree now now' e1 e2 fp s) = SubActive"
  "s_StripeSubscriptionID (DowngradeToFree now now' e1 e2 fp s) = []"
  "s_StripeCustomerID (DowngradeToFree now now' e1 e2 fp s) = s_StripeCustomerID s"
  "s_QuotaPeriodStart (DowngradeToFree now now' e1 e2 fp s) = s_QuotaPeriodStart s"
  by (simp_all add: subscription_ops IsZero_def)

section \<open>The quota period\<close>

text \<open>The loop of \<open>CurrentQuotaPeriod\<close>: each turn moves the start at least 28 days on, so it ends.\<close>

function quota_period_loop :: "gotime \<Rightarrow> gotime \<Rightarrow> gotime \<times> gotime" where
  "quota_period_loop now start =
    (let nxt = AddDate start 0 1 0 in
     if nxt > now then (start, nxt) else quota_period_loop now nxt)"
  by pat_completeness auto

termination
proof (relation "measure (\<lambda>(now, start). nat (now - start + 1))")
  fix now start nxt :: gotime
  assume "nxt = AddDate start 0 1 0" "\<not> now < nxt"
  then show "((now, nxt), now, start) \<in> measure (\<lambda>(now, start). nat (now - start + 1))"
    using AddDate_month_later [of start] by auto
qed simp

declare quota_period_loop.simps [simp del]

definition CurrentQuotaPeriod :: "gotime \<Rightarrow> gotime \<Rightarrow> gotime \<times> gotime" where
  "CurrentQuotaPeriod anchor now =
    (let now = UTC now; anchor = UTC anchor in
     if IsZero anchor then
       (let start = first_of_month now in (start, AddDate start 0 1 0))
     else if now < anchor then (anchor, AddDate anchor 0 1 0)
     else quota_period_loop now anchor)"

lemma quota_period_loop_bounds:
  assumes "start \<le> now" and "quota_period_loop now start = (a, b)"
  shows "start \<le> a" "a \<le> now" "now < b" "b = AddDate a 0 1 0"
  using assms
proof (induction now start rule: quota_period_loop.induct)
  case (1 now start)
  {
    case 1 then show ?case using "1.IH" [OF refl] AddDate_month_later [of start]
      by (subst (asm) quota_period_loop.simps) (auto simp: Let_def split: if_splits)
  next
    case 2 then show ?case using "1.IH" [OF refl]
      by (subst (asm) quota_period_loop.simps) (auto simp: Let_def split: if_splits)
  next
    case 3 then show ?case using "1.IH" [OF refl]
      by (subst (asm) quota_period_loop.simps) (auto simp: Let_def split: if_splits)
  next
    case 4 then show ?case using "1.IH" [OF refl]
      by (subst (asm) quota_period_loop.simps) (auto simp: Let_def split: if_splits)
  }
qed

text \<open>For every anchor but one in the future, the period contains the instant, and the end is one
  calendar month after the start.\<close>

lemma CurrentQuotaPeriod_bounds:
  assumes "CurrentQuotaPeriod anchor now = (a, b)" and "anchor \<le> now \<or> anchor = 0"
  shows "a \<le> now \<and> now < b \<and> b = AddDate a 0 1 0"
proof (cases "anchor = 0")
  case True
  then show ?thesis
    using assms first_of_month_bounds [of now] by (auto simp: CurrentQuotaPeriod_def Let_def IsZero_def)
next
  case False
  then have "quota_period_loop now anchor = (a, b)" "anchor \<le> now"
    using assms by (auto simp: CurrentQuotaPeriod_def Let_def IsZero_def split: if_splits)
  then show ?thesis using quota_period_loop_bounds [of anchor now a b] by auto
qed

lemma CurrentQuotaPeriod_future:
  "anchor \<noteq> 0 \<Longrightarrow> now < anchor \<Longrightarrow> CurrentQuotaPeriod anchor now = (anchor, AddDate anchor 0 1 0)"
  by (simp add: CurrentQuotaPeriod_def Let_def IsZero_def)

lemma CurrentQuotaPeriod_length:
  assumes "CurrentQuotaPeriod anchor now = (a, b)"
  shows "a + 28 * Day \<le> b" "b \<le> a + 31 * Day"
proof -
  have "b = AddDate a 0 1 0"
    using assms CurrentQuotaPeriod_bounds [OF assms] CurrentQuotaPeriod_future [of anchor now]
    by (cases "anchor = 0 \<or> anchor \<le> now") auto
  then show "a + 28 * Day \<le> b" "b \<le> a + 31 * Day" using AddDate_month_bounds by auto
qed

end
