(* ===== verification/Billing.thy ===== *)
theory Billing
  imports GoTime
begin

text \<open>
  \<open>src/internal/domain/plan\<close>, \<open>quota\<close> and \<open>invoice\<close>: the plans on sale with their limits, and the copy
  of a Stripe invoice. A \<open>float64\<close> price is a rational number.
\<close>

section \<open>Plans\<close>

definition FreePlanSlug :: string where "FreePlanSlug = ''free''"

datatype billing_interval = BillingIntervalMonth | BillingIntervalYear | BillingIntervalOther string

definition billing_interval_of :: "string \<Rightarrow> billing_interval" where
  "billing_interval_of s = (if s = ''month'' then BillingIntervalMonth
     else if s = ''year'' then BillingIntervalYear else BillingIntervalOther s)"

fun billing_interval_Valid :: "billing_interval \<Rightarrow> bool" where
  "billing_interval_Valid (BillingIntervalOther s) = False"
| "billing_interval_Valid _ = True"

definition ParseBillingInterval :: "string \<Rightarrow> billing_interval res" where
  "ParseBillingInterval v = (if v = '''' then Inr BillingIntervalMonth
     else let i = billing_interval_of v in
       if \<not> billing_interval_Valid i then Inl (Err (''invalid billing interval '' @ v)) else Inr i)"

datatype currency = CurrencyEUR | CurrencyUSD | CurrencyOther string

definition currency_of :: "string \<Rightarrow> currency" where
  "currency_of s = (if s = ''EUR'' then CurrencyEUR else if s = ''USD'' then CurrencyUSD
     else CurrencyOther s)"

fun currency_Valid :: "currency \<Rightarrow> bool" where
  "currency_Valid (CurrencyOther s) = False"
| "currency_Valid _ = True"

definition ParseCurrency :: "string \<Rightarrow> currency res" where
  "ParseCurrency v = (if v = '''' then Inr CurrencyEUR
     else let c = currency_of v in
       if \<not> currency_Valid c then Inl (Err (''invalid currency '' @ v)) else Inr c)"

record plan =
  p_ID :: uuid
  p_Name :: string
  p_Description :: string
  p_Slug :: string
  p_StripePriceID :: string
  p_IsActive :: bool
  p_BillingInterval :: billing_interval
  p_Price :: rat
  p_Currency :: currency
  p_QuotaID :: uuid
  p_CreatedAt :: gotime
  p_UpdatedAt :: gotime

record plan_params =
  pp_Name :: string
  pp_Description :: string
  pp_Slug :: string
  pp_StripePriceID :: string
  pp_IsActive :: bool
  pp_BillingInterval :: billing_interval
  pp_Price :: rat
  pp_Currency :: currency
  pp_QuotaID :: uuid

definition validatePlanInput :: "string \<Rightarrow> string \<Rightarrow> string \<Rightarrow> billing_interval \<Rightarrow> currency \<Rightarrow> uuid
    \<Rightarrow> unit res" where
  "validatePlanInput name slug stripePriceID interval currency quotaID =
    (if TrimSpace name = [] then Inl (Err ''name is required'')
     else if TrimSpace slug = [] then Inl (Err ''slug is required'')
     else if TrimSpace stripePriceID = [] then Inl (Err ''stripePriceId is required'')
     else if interval \<noteq> BillingIntervalOther '''' \<and> \<not> billing_interval_Valid interval
       then Inl (Err ''invalid billingInterval'')
     else if currency \<noteq> CurrencyOther '''' \<and> \<not> currency_Valid currency
       then Inl (Err ''invalid currency'')
     else if quotaID = uuid_Nil then Inl (Err ''quotaId is required'')
     else Inr ())"

definition NewPlan :: "gotime \<Rightarrow> uuid \<Rightarrow> plan_params \<Rightarrow> plan res" where
  "NewPlan now nid p =
    (case validatePlanInput (pp_Name p) (pp_Slug p) (pp_StripePriceID p) (pp_BillingInterval p)
            (pp_Currency p) (pp_QuotaID p) of
       Inl e \<Rightarrow> Inl e
     | Inr _ \<Rightarrow>
       (let interval = (if pp_BillingInterval p = BillingIntervalOther '''' then BillingIntervalMonth
                        else pp_BillingInterval p);
            currency = (if pp_Currency p = CurrencyOther '''' then CurrencyEUR else pp_Currency p)
        in Inr \<lparr>p_ID = nid, p_Name = TrimSpace (pp_Name p), p_Description = TrimSpace (pp_Description p),
             p_Slug = TrimSpace (pp_Slug p), p_StripePriceID = TrimSpace (pp_StripePriceID p),
             p_IsActive = pp_IsActive p, p_BillingInterval = interval, p_Price = pp_Price p,
             p_Currency = currency, p_QuotaID = pp_QuotaID p, p_CreatedAt = now,
             p_UpdatedAt = now\<rparr>))"

definition plan_ApplyUpdate :: "gotime \<Rightarrow> plan_params \<Rightarrow> plan \<Rightarrow> plan res" where
  "plan_ApplyUpdate now params p =
    (case validatePlanInput (pp_Name params) (pp_Slug params) (pp_StripePriceID params)
            (pp_BillingInterval params) (pp_Currency params) (pp_QuotaID params) of
       Inl e \<Rightarrow> Inl e
     | Inr _ \<Rightarrow>
       (let interval = (if pp_BillingInterval params = BillingIntervalOther ''''
                        then BillingIntervalMonth else pp_BillingInterval params);
            currency = (if pp_Currency params = CurrencyOther '''' then CurrencyEUR
                        else pp_Currency params)
        in Inr (p\<lparr>p_Name := TrimSpace (pp_Name params),
             p_Description := TrimSpace (pp_Description params),
             p_Slug := TrimSpace (pp_Slug params),
             p_StripePriceID := TrimSpace (pp_StripePriceID params),
             p_IsActive := pp_IsActive params, p_BillingInterval := interval,
             p_Price := pp_Price params, p_Currency := currency, p_QuotaID := pp_QuotaID params,
             p_UpdatedAt := now\<rparr>)))"

definition plan_Activate :: "gotime \<Rightarrow> plan \<Rightarrow> plan" where
  "plan_Activate now p = p\<lparr>p_IsActive := True, p_UpdatedAt := now\<rparr>"

definition plan_Deactivate :: "gotime \<Rightarrow> plan \<Rightarrow> plan" where
  "plan_Deactivate now p = p\<lparr>p_IsActive := False, p_UpdatedAt := now\<rparr>"

text \<open>What a stored plan satisfies: trimmed, named, priced at Stripe, in a valid currency.\<close>

definition plan_wf :: "plan \<Rightarrow> bool" where
  "plan_wf p \<longleftrightarrow> p_Name p \<noteq> [] \<and> TrimSpace (p_Name p) = p_Name p \<and>
     p_Slug p \<noteq> [] \<and> TrimSpace (p_Slug p) = p_Slug p \<and>
     p_StripePriceID p \<noteq> [] \<and> TrimSpace (p_StripePriceID p) = p_StripePriceID p \<and>
     TrimSpace (p_Description p) = p_Description p \<and>
     billing_interval_Valid (p_BillingInterval p) \<and> currency_Valid (p_Currency p) \<and>
     p_QuotaID p \<noteq> uuid_Nil"

lemma validatePlanInput_ok: "validatePlanInput n s pr i c q = Inr () \<longleftrightarrow>
    TrimSpace n \<noteq> [] \<and> TrimSpace s \<noteq> [] \<and> TrimSpace pr \<noteq> [] \<and>
    (i = BillingIntervalOther [] \<or> billing_interval_Valid i) \<and>
    (c = CurrencyOther [] \<or> currency_Valid c) \<and> q \<noteq> uuid_Nil"
  by (auto simp: validatePlanInput_def)

lemma plan_wf_NewPlan: "NewPlan now nid p = Inr pl \<Longrightarrow> plan_wf pl"
  by (auto simp: NewPlan_def plan_wf_def validatePlanInput_ok Let_def split: sum.splits)

lemma plan_wf_ApplyUpdate: "plan_ApplyUpdate now params p = Inr pl \<Longrightarrow> plan_wf pl"
  by (auto simp: plan_ApplyUpdate_def plan_wf_def validatePlanInput_ok Let_def split: sum.splits)

lemma plan_wf_Activate: "plan_wf p \<Longrightarrow> plan_wf (plan_Activate now p)"
  by (simp add: plan_wf_def plan_Activate_def)

lemma plan_wf_Deactivate: "plan_wf p \<Longrightarrow> plan_wf (plan_Deactivate now p)"
  by (simp add: plan_wf_def plan_Deactivate_def)

section \<open>Quotas\<close>

record quota_params =
  qp_Name :: string
  qp_MaxClientMembers :: int
  qp_MaxCampaigns :: int
  qp_MaxVerificationsPerMonth :: int
  qp_MaxConcurrentAnalyses :: int
  qp_MaxFileSizeMB :: int
  qp_ReportRetentionDays :: int
  qp_AllowsVideoAnalysis :: bool
  qp_AllowsPDFExport :: bool
  qp_AllowsCSVExport :: bool
  qp_AllowsAPIAccess :: bool
  qp_OveragePriceCents :: int
  qp_AnalysisPriority :: int
  qp_MaxDetectorsPerAnalysis :: int
  qp_MaxFramesPerVideo :: int
  qp_AllowsReanalysis :: bool
  qp_MaxStorageGB :: int
  qp_MaxBatchUploadSize :: int
  qp_FrameRetentionDays :: int
  qp_AllowsCustomRuleset :: bool
  qp_AllowsWhiteLabelReport :: bool
  qp_AllowsWebhooks :: bool
  qp_QuotaOverageGraceVerifications :: int

record quota =
  q_ID :: uuid
  q_Name :: string
  q_MaxClientMembers :: int
  q_MaxCampaigns :: int
  q_MaxVerificationsPerMonth :: int
  q_MaxConcurrentAnalyses :: int
  q_MaxFileSizeMB :: int
  q_ReportRetentionDays :: int
  q_AllowsVideoAnalysis :: bool
  q_AllowsPDFExport :: bool
  q_AllowsCSVExport :: bool
  q_AllowsAPIAccess :: bool
  q_OveragePriceCents :: int
  q_AnalysisPriority :: int
  q_MaxDetectorsPerAnalysis :: int
  q_MaxFramesPerVideo :: int
  q_AllowsReanalysis :: bool
  q_MaxStorageGB :: int
  q_MaxBatchUploadSize :: int
  q_FrameRetentionDays :: int
  q_AllowsCustomRuleset :: bool
  q_AllowsWhiteLabelReport :: bool
  q_AllowsWebhooks :: bool
  q_QuotaOverageGraceVerifications :: int
  q_CreatedAt :: gotime
  q_UpdatedAt :: gotime

definition NewQuota :: "gotime \<Rightarrow> uuid \<Rightarrow> quota_params \<Rightarrow> quota" where
  "NewQuota now nid p = \<lparr>q_ID = nid,
     q_Name = qp_Name p, q_MaxClientMembers = qp_MaxClientMembers p,
     q_MaxCampaigns = qp_MaxCampaigns p,
     q_MaxVerificationsPerMonth = qp_MaxVerificationsPerMonth p,
     q_MaxConcurrentAnalyses = qp_MaxConcurrentAnalyses p, q_MaxFileSizeMB = qp_MaxFileSizeMB p,
     q_ReportRetentionDays = qp_ReportRetentionDays p,
     q_AllowsVideoAnalysis = qp_AllowsVideoAnalysis p, q_AllowsPDFExport = qp_AllowsPDFExport p,
     q_AllowsCSVExport = qp_AllowsCSVExport p, q_AllowsAPIAccess = qp_AllowsAPIAccess p,
     q_OveragePriceCents = qp_OveragePriceCents p, q_AnalysisPriority = qp_AnalysisPriority p,
     q_MaxDetectorsPerAnalysis = qp_MaxDetectorsPerAnalysis p,
     q_MaxFramesPerVideo = qp_MaxFramesPerVideo p, q_AllowsReanalysis = qp_AllowsReanalysis p,
     q_MaxStorageGB = qp_MaxStorageGB p, q_MaxBatchUploadSize = qp_MaxBatchUploadSize p,
     q_FrameRetentionDays = qp_FrameRetentionDays p,
     q_AllowsCustomRuleset = qp_AllowsCustomRuleset p,
     q_AllowsWhiteLabelReport = qp_AllowsWhiteLabelReport p,
     q_AllowsWebhooks = qp_AllowsWebhooks p,
     q_QuotaOverageGraceVerifications = qp_QuotaOverageGraceVerifications p, q_CreatedAt = now,
     q_UpdatedAt = now\<rparr>"

definition quota_ApplyUpdate :: "gotime \<Rightarrow> quota_params \<Rightarrow> quota \<Rightarrow> quota" where
  "quota_ApplyUpdate now p q = q\<lparr>
     q_Name := qp_Name p, q_MaxClientMembers := qp_MaxClientMembers p,
     q_MaxCampaigns := qp_MaxCampaigns p,
     q_MaxVerificationsPerMonth := qp_MaxVerificationsPerMonth p,
     q_MaxConcurrentAnalyses := qp_MaxConcurrentAnalyses p, q_MaxFileSizeMB := qp_MaxFileSizeMB p,
     q_ReportRetentionDays := qp_ReportRetentionDays p,
     q_AllowsVideoAnalysis := qp_AllowsVideoAnalysis p, q_AllowsPDFExport := qp_AllowsPDFExport p,
     q_AllowsCSVExport := qp_AllowsCSVExport p, q_AllowsAPIAccess := qp_AllowsAPIAccess p,
     q_OveragePriceCents := qp_OveragePriceCents p, q_AnalysisPriority := qp_AnalysisPriority p,
     q_MaxDetectorsPerAnalysis := qp_MaxDetectorsPerAnalysis p,
     q_MaxFramesPerVideo := qp_MaxFramesPerVideo p, q_AllowsReanalysis := qp_AllowsReanalysis p,
     q_MaxStorageGB := qp_MaxStorageGB p, q_MaxBatchUploadSize := qp_MaxBatchUploadSize p,
     q_FrameRetentionDays := qp_FrameRetentionDays p,
     q_AllowsCustomRuleset := qp_AllowsCustomRuleset p,
     q_AllowsWhiteLabelReport := qp_AllowsWhiteLabelReport p,
     q_AllowsWebhooks := qp_AllowsWebhooks p,
     q_QuotaOverageGraceVerifications := qp_QuotaOverageGraceVerifications p,
     q_UpdatedAt := now\<rparr>"

text \<open>The limits of a quota, as the parameters that would set them.\<close>

definition quota_limits :: "quota \<Rightarrow> quota_params" where
  "quota_limits q = \<lparr>
     qp_Name = q_Name q, qp_MaxClientMembers = q_MaxClientMembers q,
     qp_MaxCampaigns = q_MaxCampaigns q,
     qp_MaxVerificationsPerMonth = q_MaxVerificationsPerMonth q,
     qp_MaxConcurrentAnalyses = q_MaxConcurrentAnalyses q, qp_MaxFileSizeMB = q_MaxFileSizeMB q,
     qp_ReportRetentionDays = q_ReportRetentionDays q,
     qp_AllowsVideoAnalysis = q_AllowsVideoAnalysis q, qp_AllowsPDFExport = q_AllowsPDFExport q,
     qp_AllowsCSVExport = q_AllowsCSVExport q, qp_AllowsAPIAccess = q_AllowsAPIAccess q,
     qp_OveragePriceCents = q_OveragePriceCents q, qp_AnalysisPriority = q_AnalysisPriority q,
     qp_MaxDetectorsPerAnalysis = q_MaxDetectorsPerAnalysis q,
     qp_MaxFramesPerVideo = q_MaxFramesPerVideo q, qp_AllowsReanalysis = q_AllowsReanalysis q,
     qp_MaxStorageGB = q_MaxStorageGB q, qp_MaxBatchUploadSize = q_MaxBatchUploadSize q,
     qp_FrameRetentionDays = q_FrameRetentionDays q,
     qp_AllowsCustomRuleset = q_AllowsCustomRuleset q,
     qp_AllowsWhiteLabelReport = q_AllowsWhiteLabelReport q,
     qp_AllowsWebhooks = q_AllowsWebhooks q,
     qp_QuotaOverageGraceVerifications = q_QuotaOverageGraceVerifications q\<rparr>"

lemma quota_limits_NewQuota: "quota_limits (NewQuota now nid p) = p"
  by (simp add: quota_limits_def NewQuota_def)

lemma quota_limits_ApplyUpdate: "quota_limits (quota_ApplyUpdate now p q) = p"
  by (simp add: quota_limits_def quota_ApplyUpdate_def)

section \<open>Invoices\<close>

datatype invoice_event =
    InvoiceCreated (iev_ID: uuid) (iev_InvoiceID: uuid) (iev_WorkspaceID: uuid)
      (iev_SubscriptionID: "uuid option") (iev_StripeInvoiceID: string) (iev_StripeCustomerID: string)
      (iev_StripeSubscriptionID: string) (iev_Number: string) (iev_Status: string)
      (iev_Currency: string) (iev_AmountDue: int) (iev_AmountPaid: int) (iev_Total: int)
      (iev_BillingReason: string) (iev_PaidAt: "gotime option") (iev_StripeCreatedAt: gotime)
      (iev_Timestamp: gotime)
  | InvoiceUpdated (iev_ID: uuid) (iev_InvoiceID: uuid) (iev_WorkspaceID: uuid)
      (iev_SubscriptionID: "uuid option") (iev_StripeInvoiceID: string) (iev_StripeCustomerID: string)
      (iev_StripeSubscriptionID: string) (iev_Number: string) (iev_Status: string)
      (iev_Currency: string) (iev_AmountDue: int) (iev_AmountPaid: int) (iev_Total: int)
      (iev_BillingReason: string) (iev_PaidAt: "gotime option") (iev_StripeCreatedAt: gotime)
      (iev_Timestamp: gotime)
  | InvoicePaymentSucceeded (iev_ID: uuid) (iev_InvoiceID: uuid) (iev_WorkspaceID: uuid)
      (iev_Number: string) (iev_Currency: string) (iev_AmountPaid: int) (iev_Total: int)
      (iev_HostedInvoiceURL: string) (iev_InvoicePDF: string) (iev_BillingReason: string)
      (iev_PaidAt: "gotime option") (iev_Timestamp: gotime)
  | InvoicePaymentFailed (iev_ID: uuid) (iev_InvoiceID: uuid) (iev_WorkspaceID: uuid)
      (iev_Number: string) (iev_Currency: string) (iev_AmountDue: int) (iev_Total: int)
      (iev_AttemptCount: int) (iev_HostedInvoiceURL: string) (iev_BillingReason: string)
      (iev_Timestamp: gotime)

fun invoice_event_type :: "invoice_event \<Rightarrow> string" where
  "invoice_event_type (InvoiceCreated _ _ _ _ _ _ _ _ _ _ _ _ _ _ _ _ _) = ''invoice.created.v1''"
| "invoice_event_type (InvoiceUpdated _ _ _ _ _ _ _ _ _ _ _ _ _ _ _ _ _) = ''invoice.updated.v1''"
| "invoice_event_type (InvoicePaymentSucceeded _ _ _ _ _ _ _ _ _ _ _ _) =
     ''invoice.paymentSucceeded.v1''"
| "invoice_event_type (InvoicePaymentFailed _ _ _ _ _ _ _ _ _ _ _) = ''invoice.paymentFailed.v1''"

record invoice =
  i_ID :: uuid
  i_WorkspaceID :: uuid
  i_SubscriptionID :: "uuid option"
  i_StripeInvoiceID :: string
  i_StripeCustomerID :: string
  i_StripeSubscriptionID :: string
  i_Number :: string
  i_Status :: string
  i_Currency :: string
  i_AmountDue :: int
  i_AmountPaid :: int
  i_Total :: int
  i_HostedInvoiceURL :: string
  i_InvoicePDF :: string
  i_BillingReason :: string
  i_Description :: string
  i_AttemptCount :: int
  i_PeriodStart :: gotime
  i_PeriodEnd :: gotime
  i_PaidAt :: "gotime option"
  i_StripeCreatedAt :: gotime
  i_CreatedAt :: gotime
  i_UpdatedAt :: gotime
  i_events :: "invoice_event list"

definition NewInvoice :: "gotime \<Rightarrow> uuid \<Rightarrow> uuid \<Rightarrow> uuid option \<Rightarrow> string \<Rightarrow> invoice" where
  "NewInvoice now nid workspaceID subscriptionID stripeInvoiceID =
     \<lparr>i_ID = nid, i_WorkspaceID = workspaceID, i_SubscriptionID = subscriptionID,
      i_StripeInvoiceID = stripeInvoiceID, i_StripeCustomerID = '''', i_StripeSubscriptionID = '''',
      i_Number = '''', i_Status = '''', i_Currency = '''', i_AmountDue = 0, i_AmountPaid = 0,
      i_Total = 0, i_HostedInvoiceURL = '''', i_InvoicePDF = '''', i_BillingReason = '''',
      i_Description = '''', i_AttemptCount = 0, i_PeriodStart = 0, i_PeriodEnd = 0, i_PaidAt = None,
      i_StripeCreatedAt = 0, i_CreatedAt = now, i_UpdatedAt = now, i_events = []\<rparr>"

definition invoice_recordEvent :: "invoice_event \<Rightarrow> invoice \<Rightarrow> invoice" where
  "invoice_recordEvent e i = i\<lparr>i_events := i_events i @ [e]\<rparr>"

definition invoice_PullEvents :: "invoice \<Rightarrow> invoice_event list \<times> invoice" where
  "invoice_PullEvents i = (i_events i, i\<lparr>i_events := []\<rparr>)"

definition ApplyStripeSnapshot :: "gotime \<Rightarrow> string \<Rightarrow> string \<Rightarrow> string \<Rightarrow> string \<Rightarrow> string \<Rightarrow> int \<Rightarrow> int
    \<Rightarrow> int \<Rightarrow> string \<Rightarrow> string \<Rightarrow> string \<Rightarrow> string \<Rightarrow> int \<Rightarrow> gotime \<Rightarrow> gotime \<Rightarrow> gotime option \<Rightarrow> gotime
    \<Rightarrow> invoice \<Rightarrow> invoice" where
  "ApplyStripeSnapshot now stripeCustomerID stripeSubscriptionID number status currency amountDue
     amountPaid tot hostedInvoiceURL invoicePDF billingReason description attemptCount periodStart
     periodEnd paidAt stripeCreatedAt i =
   i\<lparr>i_StripeCustomerID := stripeCustomerID, i_StripeSubscriptionID := stripeSubscriptionID,
     i_Number := number, i_Status := status, i_Currency := currency, i_AmountDue := amountDue,
     i_AmountPaid := amountPaid, i_Total := tot, i_HostedInvoiceURL := hostedInvoiceURL,
     i_InvoicePDF := invoicePDF, i_BillingReason := billingReason, i_Description := description,
     i_AttemptCount := attemptCount, i_PeriodStart := periodStart, i_PeriodEnd := periodEnd,
     i_PaidAt := paidAt, i_StripeCreatedAt := stripeCreatedAt, i_UpdatedAt := now\<rparr>"

definition RaiseCreated :: "uuid \<Rightarrow> invoice \<Rightarrow> invoice" where
  "RaiseCreated eid i = invoice_recordEvent (InvoiceCreated eid (i_ID i) (i_WorkspaceID i)
     (i_SubscriptionID i) (i_StripeInvoiceID i) (i_StripeCustomerID i) (i_StripeSubscriptionID i)
     (i_Number i) (i_Status i) (i_Currency i) (i_AmountDue i) (i_AmountPaid i) (i_Total i)
     (i_BillingReason i) (i_PaidAt i) (i_StripeCreatedAt i) (i_UpdatedAt i)) i"

definition RaiseUpdated :: "uuid \<Rightarrow> invoice \<Rightarrow> invoice" where
  "RaiseUpdated eid i = invoice_recordEvent (InvoiceUpdated eid (i_ID i) (i_WorkspaceID i)
     (i_SubscriptionID i) (i_StripeInvoiceID i) (i_StripeCustomerID i) (i_StripeSubscriptionID i)
     (i_Number i) (i_Status i) (i_Currency i) (i_AmountDue i) (i_AmountPaid i) (i_Total i)
     (i_BillingReason i) (i_PaidAt i) (i_StripeCreatedAt i) (i_UpdatedAt i)) i"

definition invoice_eventIDOrNew :: "uuid \<Rightarrow> uuid option \<Rightarrow> uuid" where
  "invoice_eventIDOrNew fresh eventID = (case eventID of None \<Rightarrow> fresh | Some e \<Rightarrow> e)"

definition RaisePaymentSucceeded :: "uuid \<Rightarrow> uuid option \<Rightarrow> invoice \<Rightarrow> invoice" where
  "RaisePaymentSucceeded fresh eventID i = invoice_recordEvent (InvoicePaymentSucceeded
     (invoice_eventIDOrNew fresh eventID) (i_ID i) (i_WorkspaceID i) (i_Number i) (i_Currency i)
     (i_AmountPaid i) (i_Total i) (i_HostedInvoiceURL i) (i_InvoicePDF i) (i_BillingReason i)
     (i_PaidAt i) (i_UpdatedAt i)) i"

definition RaisePaymentFailed :: "uuid \<Rightarrow> uuid option \<Rightarrow> invoice \<Rightarrow> invoice" where
  "RaisePaymentFailed fresh eventID i = invoice_recordEvent (InvoicePaymentFailed
     (invoice_eventIDOrNew fresh eventID) (i_ID i) (i_WorkspaceID i) (i_Number i) (i_Currency i)
     (i_AmountDue i) (i_Total i) (i_AttemptCount i) (i_HostedInvoiceURL i) (i_BillingReason i)
     (i_UpdatedAt i)) i"

named_theorems invoice_ops "definitions of the operations of an invoice"

lemmas [invoice_ops] = NewInvoice_def invoice_recordEvent_def invoice_PullEvents_def
  ApplyStripeSnapshot_def RaiseCreated_def RaiseUpdated_def invoice_eventIDOrNew_def
  RaisePaymentSucceeded_def RaisePaymentFailed_def

end
