(* ===== verification/Events.thy ===== *)
theory Events
  imports Media Campaign Accounts Subscription Billing
begin

text \<open>
  \<open>src/internal/domain/event\<close>: the interface \<open>DomainEvent\<close> as the sum of the events of the
  packages. Identifiers inside an event are UUIDs; Go stores their text, which \<open>uuid.Parse\<close> reads
  back. An event is its own JSON payload.
\<close>

datatype domain_event =
    EvMedia media_event
  | EvContent content_event
  | EvCampaign campaign_event
  | EvClient client_event
  | EvUser user_event
  | EvWorkspace workspace_event
  | EvSubscription subscription_event
  | EvInvoice invoice_event

fun EventID :: "domain_event \<Rightarrow> uuid" where
  "EventID (EvMedia e) = mev_ID e"
| "EventID (EvContent e) = cev_ID e"
| "EventID (EvCampaign e) = cpev_ID e"
| "EventID (EvClient e) = clev_ID e"
| "EventID (EvUser e) = uev_ID e"
| "EventID (EvWorkspace e) = wev_ID e"
| "EventID (EvSubscription e) = sev_ID e"
| "EventID (EvInvoice e) = iev_ID e"

fun EventType :: "domain_event \<Rightarrow> string" where
  "EventType (EvMedia e) = media_event_type e"
| "EventType (EvContent e) = content_event_type e"
| "EventType (EvCampaign e) = campaign_event_type e"
| "EventType (EvClient e) = client_event_type e"
| "EventType (EvUser e) = user_event_type e"
| "EventType (EvWorkspace e) = workspace_event_type e"
| "EventType (EvSubscription e) = subscription_event_type e"
| "EventType (EvInvoice e) = invoice_event_type e"

fun AggregateID :: "domain_event \<Rightarrow> uuid" where
  "AggregateID (EvMedia e) = mev_MediaID e"
| "AggregateID (EvContent e) = cev_ContentID e"
| "AggregateID (EvCampaign e) = cpev_CampaignID e"
| "AggregateID (EvClient e) = clev_ClientID e"
| "AggregateID (EvUser e) = uev_UserID e"
| "AggregateID (EvWorkspace e) = wev_WorkspaceID e"
| "AggregateID (EvSubscription e) = sev_SubscriptionID e"
| "AggregateID (EvInvoice e) = iev_InvoiceID e"

fun OccurredAt :: "domain_event \<Rightarrow> gotime" where
  "OccurredAt (EvMedia e) = mev_Timestamp e"
| "OccurredAt (EvContent e) = cev_Timestamp e"
| "OccurredAt (EvCampaign e) = cpev_Timestamp e"
| "OccurredAt (EvClient e) = clev_Timestamp e"
| "OccurredAt (EvUser e) = uev_Timestamp e"
| "OccurredAt (EvWorkspace e) = wev_Timestamp e"
| "OccurredAt (EvSubscription e) = sev_Timestamp e"
| "OccurredAt (EvInvoice e) = iev_Timestamp e"

section \<open>The contract of an aggregate\<close>

text \<open>Every aggregate keeps the events it has recorded until they are pulled: what a transaction
  stores is exactly what was recorded, in order, once.\<close>

locale aggregate =
  fixes events :: "'a \<Rightarrow> 'e list"
    and record_event :: "'e \<Rightarrow> 'a \<Rightarrow> 'a"
    and pull :: "'a \<Rightarrow> 'e list \<times> 'a"
  assumes events_record: "events (record_event e a) = events a @ [e]"
    and pull_events: "fst (pull a) = events a"
    and pull_clears: "events (snd (pull a)) = []"
    and record_pull: "snd (pull (record_event e a)) = snd (pull a)"
begin

lemma pull_twice: "fst (pull (snd (pull a))) = []"
  by (simp add: pull_events pull_clears)

lemma pull_recorded: "fst (pull (fold record_event es a)) = events a @ es"
  by (induction es arbitrary: a) (simp_all add: pull_events events_record)

lemma pull_recorded_rest: "snd (pull (fold record_event es a)) = snd (pull a)"
  by (induction es arbitrary: a) (simp_all add: record_pull)

end

interpretation media_agg: aggregate m_events Media.recordEvent Media.PullEvents
  by unfold_locales (simp_all add: Media.recordEvent_def Media.PullEvents_def)

interpretation content_agg: aggregate c_events content_recordEvent content_PullEvents
  by unfold_locales (simp_all add: content_recordEvent_def content_PullEvents_def)

interpretation campaign_agg: aggregate cp_events campaign_recordEvent campaign_PullEvents
  by unfold_locales (simp_all add: campaign_recordEvent_def campaign_PullEvents_def)

interpretation client_agg: aggregate cl_events client_recordEvent client_PullEvents
  by unfold_locales (simp_all add: client_recordEvent_def client_PullEvents_def)

interpretation user_agg: aggregate u_events user_recordEvent user_PullEvents
  by unfold_locales (simp_all add: user_recordEvent_def user_PullEvents_def)

interpretation workspace_agg: aggregate w_events workspace_recordEvent workspace_PullEvents
  by unfold_locales (simp_all add: workspace_recordEvent_def workspace_PullEvents_def)

interpretation subscription_agg: aggregate s_events subscription_recordEvent subscription_PullEvents
  by unfold_locales (simp_all add: subscription_recordEvent_def subscription_PullEvents_def)

interpretation invoice_agg: aggregate i_events invoice_recordEvent invoice_PullEvents
  by unfold_locales (simp_all add: invoice_recordEvent_def invoice_PullEvents_def)

end
