(* ===== verification/AnalysisResult.thy ===== *)
theory AnalysisResult
  imports Content
begin

text \<open>
  \<open>src/internal/domain/analysisresult\<close>: the outcome of one detector on one content. The weight of a
  result is not stored; a weight that is not positive counts as 1.
\<close>

datatype result_status = ResultSuccess | ResultFailed | ResultTimeout | ResultStatusNone

text \<open>\<open>ResultStatusNone\<close> is the empty status of a result that \<open>New\<close> has just built.\<close>

record result =
  r_ID :: uuid
  r_ContentID :: uuid
  r_DetectorName :: string
  r_Status :: result_status
  r_Signals :: "signal list"
  r_Error :: string
  r_StartedAt :: gotime
  r_CompletedAt :: gotime
  r_Weight :: rat
  r_RulesetVersion :: "int option"

definition result_New :: "gotime \<Rightarrow> uuid \<Rightarrow> uuid \<Rightarrow> string \<Rightarrow> gotime \<Rightarrow> gotime \<Rightarrow> rat \<Rightarrow> result res" where
  "result_New now nid contentID detectorName startedAt completedAt weight =
    (let detectorName = TrimSpace detectorName in
     if detectorName = [] then Inl (Sentinel ResultErrInvalidDetectorName)
     else if contentID = uuid_Nil then Inl (Err ''content id is required'')
     else let weight = (if weight \<le> 0 then 1 else weight);
              startedAt = (if IsZero startedAt then now else startedAt);
              completedAt = (if IsZero completedAt then now else completedAt)
     in Inr \<lparr>r_ID = nid, r_ContentID = contentID, r_DetectorName = detectorName,
             r_Status = ResultStatusNone, r_Signals = [], r_Error = '''',
             r_StartedAt = UTC startedAt, r_CompletedAt = UTC completedAt, r_Weight = weight,
             r_RulesetVersion = None\<rparr>)"

definition MarkSuccess :: "gotime \<Rightarrow> signal list \<Rightarrow> result \<Rightarrow> result" where
  "MarkSuccess now signals r =
     r\<lparr>r_Status := ResultSuccess, r_Signals := signals, r_Error := '''', r_CompletedAt := now\<rparr>"

definition result_MarkFailed :: "gotime \<Rightarrow> string \<Rightarrow> result \<Rightarrow> result" where
  "result_MarkFailed now message r =
     r\<lparr>r_Status := ResultFailed, r_Signals := [], r_Error := message, r_CompletedAt := now\<rparr>"

definition MarkTimeout :: "gotime \<Rightarrow> string \<Rightarrow> result \<Rightarrow> result" where
  "MarkTimeout now message r =
     r\<lparr>r_Status := ResultTimeout, r_Signals := [], r_Error := message, r_CompletedAt := now\<rparr>"

definition ExpectedWeight :: "result \<Rightarrow> rat" where
  "ExpectedWeight r = (if r_Weight r \<le> 0 then 1 else r_Weight r)"

lemma ExpectedWeight_pos: "0 < ExpectedWeight r"
  by (simp add: ExpectedWeight_def)

text \<open>Only a successful result carries signals, only an unsuccessful one an error.\<close>

definition result_wf :: "result \<Rightarrow> bool" where
  "result_wf r \<longleftrightarrow> 0 < r_Weight r \<and> r_DetectorName r \<noteq> [] \<and> r_ContentID r \<noteq> uuid_Nil \<and>
     (r_Signals r \<noteq> [] \<longrightarrow> r_Status r = ResultSuccess) \<and>
     (r_Error r \<noteq> [] \<longrightarrow> r_Status r \<in> {ResultFailed, ResultTimeout})"

lemma result_wf_New: "result_New now nid cid n s c w = Inr r \<Longrightarrow> result_wf r"
  by (auto simp: result_New_def Let_def result_wf_def split: if_splits)

lemma result_wf_marks:
  "result_wf r \<Longrightarrow> result_wf (MarkSuccess now sg r)"
  "result_wf r \<Longrightarrow> result_wf (result_MarkFailed now msg r)"
  "result_wf r \<Longrightarrow> result_wf (MarkTimeout now msg r)"
  by (auto simp: result_wf_def MarkSuccess_def result_MarkFailed_def MarkTimeout_def)

end
