(* ===== verification/Table.thy ===== *)
theory Table
  imports Prelude
begin

text \<open>
  A database table is the list of its rows, addressed by a primary key. The operations are those
  the repositories ask of gorm: \<open>Create\<close> refuses a key that is taken, \<open>Save\<close> replaces the row of
  the key or inserts it, \<open>First\<close> yields the matching row with the least key. The locale
  \<open>entity_store\<close> states what a repository of entities promises; \<open>keyed_rows\<close> states what a mapping
  between entities and rows must satisfy to keep that promise.
\<close>

definition tbl_create :: "('r \<Rightarrow> 'k) \<Rightarrow> 'r \<Rightarrow> 'r list \<Rightarrow> 'r list res" where
  "tbl_create key row t = (if key row \<in> key ` set t then Inl (Sentinel GormErrDuplicatedKey)
     else Inr (t @ [row]))"

definition tbl_save :: "('r \<Rightarrow> 'k) \<Rightarrow> 'r \<Rightarrow> 'r list \<Rightarrow> 'r list" where
  "tbl_save key row t = (if key row \<in> key ` set t
     then List.map (\<lambda>r. if key r = key row then row else r) t else t @ [row])"

definition tbl_first :: "('r \<Rightarrow> 'k::linorder) \<Rightarrow> ('r \<Rightarrow> bool) \<Rightarrow> 'r list \<Rightarrow> 'r option" where
  "tbl_first key P t = (case sort_key key (List.filter P t) of [] \<Rightarrow> None | r # _ \<Rightarrow> Some r)"

definition tbl_delete :: "('r \<Rightarrow> bool) \<Rightarrow> 'r list \<Rightarrow> 'r list" where
  "tbl_delete P t = List.filter (\<lambda>r. \<not> P r) t"

definition keys_distinct :: "('r \<Rightarrow> 'k) \<Rightarrow> 'r list \<Rightarrow> bool" where
  "keys_distinct key t \<longleftrightarrow> distinct (List.map key t)"

lemma keys_distinct_Nil [simp]: "keys_distinct key []"
  by (simp add: keys_distinct_def)

lemma tbl_create_distinct: "keys_distinct key t \<Longrightarrow> tbl_create key row t = Inr t' \<Longrightarrow> keys_distinct key t'"
  by (auto simp: keys_distinct_def tbl_create_def split: if_splits)

lemma tbl_create_rows: "tbl_create key row t = Inr t' \<Longrightarrow> t' = t @ [row]"
  by (auto simp: tbl_create_def split: if_splits)

lemma tbl_save_keys: "List.map key (tbl_save key row t) =
    (if key row \<in> key ` set t then List.map key t else List.map key t @ [key row])"
  by (auto simp: tbl_save_def)

lemma tbl_save_distinct: "keys_distinct key t \<Longrightarrow> keys_distinct key (tbl_save key row t)"
  unfolding keys_distinct_def tbl_save_keys by auto

lemma tbl_delete_distinct: "keys_distinct key t \<Longrightarrow> keys_distinct key (tbl_delete P t)"
  by (induction t) (auto simp: keys_distinct_def tbl_delete_def)

lemma set_tbl_save: "keys_distinct key t \<Longrightarrow>
    set (tbl_save key row t) = insert row {r \<in> set t. key r \<noteq> key row}"
  by (auto simp: tbl_save_def image_iff eq_commute [of "key row"] split: if_splits)

lemma set_tbl_delete: "set (tbl_delete P t) = {r \<in> set t. \<not> P r}"
  by (auto simp: tbl_delete_def)

lemma tbl_first_Some: "tbl_first key P t = Some r \<Longrightarrow> r \<in> set t \<and> P r \<and> (\<forall>q \<in> set t. P q \<longrightarrow> key r \<le> key q)"
proof -
  assume a: "tbl_first key P t = Some r"
  then obtain rs where rs: "sort_key key (List.filter P t) = r # rs"
    by (auto simp: tbl_first_def split: list.splits)
  have s: "set (r # rs) = {q \<in> set t. P q}" using arg_cong [OF rs, of set] by auto
  have "sorted (List.map key (r # rs))" using sorted_sort_key [of key "List.filter P t"] rs by simp
  then have "\<forall>q \<in> set (r # rs). key r \<le> key q" by auto
  then show ?thesis using s by auto
qed

lemma tbl_first_None: "tbl_first key P t = None \<longleftrightarrow> (\<forall>q \<in> set t. \<not> P q)"
proof -
  have "sort_key key (List.filter P t) = [] \<longleftrightarrow> List.filter P t = []"
    by (metis length_0_conv length_sort)
  then show ?thesis
    by (auto simp: tbl_first_def filter_empty_conv split: list.splits)
qed

lemma keys_distinct_unique: "keys_distinct key t \<Longrightarrow> r \<in> set t \<Longrightarrow> q \<in> set t \<Longrightarrow> key r = key q \<Longrightarrow> r = q"
  by (auto simp: keys_distinct_def distinct_map inj_on_def)

lemma tbl_first_key:
  assumes "keys_distinct key t" "r \<in> set t" "P r" "\<And>q. P q \<Longrightarrow> key q = key r"
  shows "tbl_first key P t = Some r"
proof (cases "tbl_first key P t")
  case None
  then show ?thesis using assms by (simp add: tbl_first_None)
next
  case (Some q)
  then have "q \<in> set t" "P q" using tbl_first_Some [OF Some] by auto
  then have "q = r" using assms keys_distinct_unique by metis
  then show ?thesis using Some by simp
qed

section \<open>Stores of entities\<close>

locale entity_store =
  fixes get :: "uuid \<Rightarrow> 's \<Rightarrow> 'e option"
    and create :: "'e \<Rightarrow> 's \<Rightarrow> 's res"
    and update :: "'e \<Rightarrow> 's \<Rightarrow> 's"
    and ident :: "'e \<Rightarrow> uuid"
    and stored :: "'e \<Rightarrow> 'e"
    and live :: "'e \<Rightarrow> bool"
    and inv :: "'s \<Rightarrow> bool"
  assumes get_update: "inv s \<Longrightarrow> get i (update e s) =
        (if i = ident e then (if live e then Some (stored e) else None) else get i s)"
    and get_create: "inv s \<Longrightarrow> create e s = Inr s' \<Longrightarrow> get i s' =
        (if i = ident e then (if live e then Some (stored e) else None) else get i s)"
    and get_ident: "get i s = Some e \<Longrightarrow> ident e = i"
    and get_stored: "inv s \<Longrightarrow> get i s = Some e \<Longrightarrow> stored e = e \<and> live e"
    and inv_update: "inv s \<Longrightarrow> inv (update e s)"
    and inv_create: "inv s \<Longrightarrow> create e s = Inr s' \<Longrightarrow> inv s'"
begin

lemma load_modify_save:
  assumes "inv s" "get i s = Some e" "ident (f e) = ident e" "live (f e)"
  shows "get i (update (f e) s) = Some (stored (f e))"
  using assms get_ident by (simp add: get_update)

lemma load_modify_save_other:
  assumes "inv s" "get i s = Some e" "ident (f e) = ident e" "j \<noteq> i"
  shows "get j (update (f e) s) = get j s"
  using assms get_ident by (simp add: get_update)

lemma update_unchanged:
  assumes "inv s" "get i s = Some e"
  shows "get j (update e s) = get j s"
proof -
  have "ident e = i" "stored e = e" "live e" using get_ident get_stored assms by blast+
  then show ?thesis using assms by (simp add: get_update)
qed

lemma update_overwrites:
  assumes "inv s" "ident e = ident e'"
  shows "get j (update e' (update e s)) = get j (update e' s)"
  using assms inv_update [OF assms(1)] by (simp add: get_update)

lemma update_commutes:
  assumes "inv s" "ident e \<noteq> ident e'"
  shows "get j (update e (update e' s)) = get j (update e' (update e s))"
  using assms inv_update [OF assms(1)] by (simp add: get_update)

end

text \<open>Rows that carry what is stored of an entity, under the key of the entity.\<close>

locale keyed_rows =
  fixes key :: "'r \<Rightarrow> uuid"
    and to_row :: "'e \<Rightarrow> 'r"
    and of_row :: "'r \<Rightarrow> 'e"
    and ident :: "'e \<Rightarrow> uuid"
    and stored :: "'e \<Rightarrow> 'e"
    and live :: "'e \<Rightarrow> bool"
    and row_live :: "'r \<Rightarrow> bool"
  assumes of_to: "of_row (to_row e) = stored e"
    and key_to: "key (to_row e) = ident e"
    and ident_of: "ident (of_row r) = key r"
    and stored_idem: "stored (stored e) = stored e"
    and live_stored: "live (stored e) = live e"
    and live_to: "row_live (to_row e) = live e"
begin

lemma written_save: "set t \<subseteq> range to_row \<Longrightarrow> keys_distinct key t \<Longrightarrow>
    set (tbl_save key (to_row e) t) \<subseteq> range to_row"
  by (auto simp: set_tbl_save)

lemma written_create: "set t \<subseteq> range to_row \<Longrightarrow> tbl_create key (to_row e) t = Inr t' \<Longrightarrow>
    set t' \<subseteq> range to_row"
  using tbl_create_rows [of key "to_row e" t t'] by simp

lemma first_key_Some: "tbl_first key (\<lambda>r. row_live r \<and> key r = i) t = Some r \<Longrightarrow>
    r \<in> set t \<and> row_live r \<and> key r = i"
  using tbl_first_Some [of key "\<lambda>r. row_live r \<and> key r = i" t r] by auto

lemma first_key_save:
  assumes d: "keys_distinct key t"
  shows "tbl_first key (\<lambda>r. row_live r \<and> key r = i) (tbl_save key row t) =
    (if i = key row then (if row_live row then Some row else None)
     else tbl_first key (\<lambda>r. row_live r \<and> key r = i) t)"
proof -
  let ?P = "\<lambda>r. row_live r \<and> key r = i"
  have d': "keys_distinct key (tbl_save key row t)" by (rule tbl_save_distinct [OF d])
  note rows = set_tbl_save [OF d, of row]
  show ?thesis
  proof (cases "i = key row")
    case True
    show ?thesis
    proof (cases "row_live row")
      case live: True
      have "tbl_first key ?P (tbl_save key row t) = Some row"
        by (rule tbl_first_key [OF d']) (use True live rows in auto)
      then show ?thesis using True live by simp
    next
      case False
      have "tbl_first key ?P (tbl_save key row t) = None"
        unfolding tbl_first_None using True False rows by auto
      then show ?thesis using True False by simp
    qed
  next
    case False
    show ?thesis
    proof (cases "tbl_first key ?P t")
      case None
      then have "tbl_first key ?P (tbl_save key row t) = None"
        unfolding tbl_first_None using False rows by auto
      then show ?thesis using None False by simp
    next
      case (Some r)
      have "tbl_first key ?P (tbl_save key row t) = Some r"
        by (rule tbl_first_key [OF d']) (use first_key_Some [OF Some] False rows in auto)
      then show ?thesis using Some False by simp
    qed
  qed
qed

end

sublocale keyed_rows \<subseteq> store: entity_store
  "\<lambda>i t. map_option of_row (tbl_first key (\<lambda>r. row_live r \<and> key r = i) t)"
  "\<lambda>e t. tbl_create key (to_row e) t" "\<lambda>e t. tbl_save key (to_row e) t" ident stored live
  "\<lambda>t. keys_distinct key t \<and> set t \<subseteq> range to_row"
proof (unfold_locales, goal_cases)
  case (1 s i e)
  then show ?case by (simp add: first_key_save key_to live_to of_to)
next
  case (2 s e s' i)
  then have "s' = tbl_save key (to_row e) s"
    by (auto simp: tbl_create_def tbl_save_def split: if_splits)
  then show ?case using 2 by (simp add: first_key_save key_to live_to of_to)
next
  case (3 i s e)
  then obtain r where "tbl_first key (\<lambda>r. row_live r \<and> key r = i) s = Some r" "e = of_row r" by auto
  then show ?case using first_key_Some [of i s r] ident_of by simp
next
  case (4 s i e)
  then obtain r where r: "tbl_first key (\<lambda>r. row_live r \<and> key r = i) s = Some r" "e = of_row r" by auto
  then have rs: "r \<in> set s" "row_live r" using first_key_Some [of i s r] by auto
  then have "r \<in> range to_row" using 4(1) by (meson subsetD)
  then obtain d where d: "r = to_row d" by (rule rangeE)
  have "e = stored d" unfolding r(2) d by (rule of_to)
  moreover have "live d" using rs(2) unfolding d live_to .
  ultimately show ?case by (simp add: stored_idem live_stored)
next
  case (5 s e)
  then show ?case by (intro conjI tbl_save_distinct written_save) simp_all
next
  case (6 s e s')
  then show ?case using tbl_create_distinct [of key s "to_row e" s'] written_create [of s e s'] by simp
qed

end
