(* ===== verification/Database.thy ===== *)
theory Database
  imports Events AnalysisResult Table
begin

text \<open>
  The tables of \<open>src/migrations\<close> as the repositories of \<open>src/internal/infrastructure/persistence\<close> see
  them. Media, contents, campaigns and clients have row types of their own, with the conversions
  of the \<open>*_model.go\<close> files; the other rows are the entities without their events. A status or
  type column holds the value of the Go type it is converted to and from.
\<close>

section \<open>Rows\<close>

record media_model =
  mm_ID :: uuid
  mm_CampaignID :: uuid
  mm_ClientID :: uuid
  mm_Filename :: string
  mm_ContentType :: string
  mm_MediaType :: media_type
  mm_ObjectKey :: string
  mm_SizeBytes :: "int option"
  mm_Status :: media_status
  mm_Verdict :: "media_verdict option"
  mm_FailureReason :: "string option"
  mm_AnalyzedAt :: "gotime option"
  mm_CreatedAt :: gotime
  mm_UpdatedAt :: gotime
  mm_DeletedAt :: "gotime option"

definition mediaModelFromDomain :: "media \<Rightarrow> media_model" where
  "mediaModelFromDomain m =
    (let reason = TrimSpace (m_FailureReason m) in
     \<lparr>mm_ID = m_ID m, mm_CampaignID = m_CampaignID m, mm_ClientID = m_ClientID m,
      mm_Filename = m_Filename m, mm_ContentType = m_ContentType m, mm_MediaType = m_MediaType m,
      mm_ObjectKey = m_ObjectKey m, mm_SizeBytes = m_SizeBytes m, mm_Status = m_Status m,
      mm_Verdict = m_Verdict m, mm_FailureReason = (if reason \<noteq> [] then Some reason else None),
      mm_AnalyzedAt = m_AnalyzedAt m, mm_CreatedAt = m_CreatedAt m, mm_UpdatedAt = m_UpdatedAt m,
      mm_DeletedAt = m_DeletedAt m\<rparr>)"

definition mediaDomainFromModel :: "media_model \<Rightarrow> media" where
  "mediaDomainFromModel r =
    \<lparr>m_ID = mm_ID r, m_CampaignID = mm_CampaignID r, m_ClientID = mm_ClientID r,
     m_Filename = mm_Filename r, m_ContentType = mm_ContentType r, m_MediaType = mm_MediaType r,
     m_ObjectKey = mm_ObjectKey r, m_SizeBytes = mm_SizeBytes r, m_Status = mm_Status r,
     m_Verdict = mm_Verdict r,
     m_FailureReason = (case mm_FailureReason r of None \<Rightarrow> '''' | Some s \<Rightarrow> s),
     m_AnalyzedAt = mm_AnalyzedAt r, m_CreatedAt = mm_CreatedAt r, m_UpdatedAt = mm_UpdatedAt r,
     m_DeletedAt = mm_DeletedAt r, m_events = []\<rparr>"

record content_model =
  cm_ID :: uuid
  cm_MediaID :: uuid
  cm_FrameIndex :: "int option"
  cm_TimestampMs :: "int option"
  cm_ObjectKey :: string
  cm_ThumbnailKey :: "string option"
  cm_SizeBytes :: "int option"
  cm_Status :: content_status
  cm_Label :: "string option"
  cm_Confidence :: "rat option"
  cm_CreatedAt :: gotime
  cm_UpdatedAt :: gotime

definition labelStringPtr :: "label option \<Rightarrow> string option" where
  "labelStringPtr l = map_option label_string l"

definition labelFromStringPtr :: "string option \<Rightarrow> label option" where
  "labelFromStringPtr s = (case s of None \<Rightarrow> None
     | Some t \<Rightarrow> if t = '''' then None else Some (label_of_string t))"

definition contentModelFromDomain :: "content \<Rightarrow> content_model" where
  "contentModelFromDomain c =
    \<lparr>cm_ID = c_ID c, cm_MediaID = c_MediaID c, cm_FrameIndex = c_FrameIndex c,
     cm_TimestampMs = c_TimestampMs c, cm_ObjectKey = c_ObjectKey c,
     cm_ThumbnailKey = c_ThumbnailKey c, cm_SizeBytes = c_SizeBytes c, cm_Status = c_Status c,
     cm_Label = labelStringPtr (c_Label c), cm_Confidence = c_Confidence c,
     cm_CreatedAt = c_CreatedAt c, cm_UpdatedAt = c_UpdatedAt c\<rparr>"

definition contentDomainFromModel :: "content_model \<Rightarrow> uuid \<Rightarrow> uuid \<Rightarrow> content" where
  "contentDomainFromModel r campaignID clientID =
    \<lparr>c_ID = cm_ID r, c_MediaID = cm_MediaID r, c_FrameIndex = cm_FrameIndex r,
     c_TimestampMs = cm_TimestampMs r, c_ObjectKey = cm_ObjectKey r,
     c_ThumbnailKey = cm_ThumbnailKey r, c_SizeBytes = cm_SizeBytes r,
     c_Label = labelFromStringPtr (cm_Label r), c_Confidence = cm_Confidence r,
     c_Status = cm_Status r, c_CreatedAt = cm_CreatedAt r, c_UpdatedAt = cm_UpdatedAt r,
     c_CampaignID = campaignID, c_ClientID = clientID, c_events = []\<rparr>"

record campaign_model =
  cpm_ID :: uuid
  cpm_ClientID :: uuid
  cpm_Name :: string
  cpm_CreatedAt :: gotime
  cpm_UpdatedAt :: gotime
  cpm_DeletedAt :: "gotime option"
  cpm_StartAt :: "gotime option"
  cpm_EndAt :: "gotime option"
  cpm_BackgroundStatus :: string
  cpm_BackgroundPendingKey :: "string option"
  cpm_BackgroundThumbnailKey :: "string option"
  cpm_BackgroundFilename :: "string option"
  cpm_BackgroundContentType :: "string option"
  cpm_IsDefault :: bool

definition optionalNonEmpty :: "string \<Rightarrow> string option" where
  "optionalNonEmpty s = (if s = '''' then None else Some s)"

definition derefString :: "string option \<Rightarrow> string" where
  "derefString s = (case s of None \<Rightarrow> '''' | Some t \<Rightarrow> t)"

definition campaignModelFromDomain :: "campaign \<Rightarrow> campaign_model" where
  "campaignModelFromDomain c =
    (let status = (if cp_BackgroundStatus c = '''' then BackgroundStatusNone
                   else cp_BackgroundStatus c) in
     \<lparr>cpm_ID = cp_ID c, cpm_ClientID = cp_ClientID c, cpm_Name = cp_Name c,
      cpm_CreatedAt = cp_CreatedAt c, cpm_UpdatedAt = cp_UpdatedAt c,
      cpm_DeletedAt = cp_DeletedAt c, cpm_StartAt = cp_StartAt c, cpm_EndAt = cp_EndAt c,
      cpm_BackgroundStatus = status,
      cpm_BackgroundPendingKey = optionalNonEmpty (cp_BackgroundPendingKey c),
      cpm_BackgroundThumbnailKey = optionalNonEmpty (cp_BackgroundThumbnailKey c),
      cpm_BackgroundFilename = optionalNonEmpty (cp_BackgroundFilename c),
      cpm_BackgroundContentType = optionalNonEmpty (cp_BackgroundContentType c),
      cpm_IsDefault = cp_IsDefault c\<rparr>)"

definition campaignDomainFromModel :: "campaign_model \<Rightarrow> campaign" where
  "campaignDomainFromModel r =
    (let status = (if cpm_BackgroundStatus r = '''' then BackgroundStatusNone
                   else cpm_BackgroundStatus r) in
     \<lparr>cp_ID = cpm_ID r, cp_ClientID = cpm_ClientID r, cp_Name = cpm_Name r,
      cp_IsDefault = cpm_IsDefault r, cp_CreatedAt = cpm_CreatedAt r,
      cp_UpdatedAt = cpm_UpdatedAt r, cp_DeletedAt = cpm_DeletedAt r, cp_StartAt = cpm_StartAt r,
      cp_EndAt = cpm_EndAt r, cp_BackgroundStatus = status,
      cp_BackgroundPendingKey = derefString (cpm_BackgroundPendingKey r),
      cp_BackgroundThumbnailKey = derefString (cpm_BackgroundThumbnailKey r),
      cp_BackgroundFilename = derefString (cpm_BackgroundFilename r),
      cp_BackgroundContentType = derefString (cpm_BackgroundContentType r), cp_events = []\<rparr>)"

record client_model =
  clm_ID :: uuid
  clm_Name :: string
  clm_WorkspaceID :: uuid
  clm_CreatedAt :: gotime
  clm_UpdatedAt :: gotime

record user_client_model =
  ucm_UserID :: uuid
  ucm_ClientID :: uuid
  ucm_CreatedAt :: gotime

definition clientModelFromDomain :: "client \<Rightarrow> client_model" where
  "clientModelFromDomain c =
    \<lparr>clm_ID = cl_ID c, clm_Name = cl_Name c, clm_WorkspaceID = cl_WorkspaceID c,
     clm_CreatedAt = cl_CreatedAt c, clm_UpdatedAt = cl_UpdatedAt c\<rparr>"

definition clientDomainFromModel :: "client_model \<Rightarrow> uuid list \<Rightarrow> client" where
  "clientDomainFromModel r memberIDs =
    \<lparr>cl_ID = clm_ID r, cl_Name = clm_Name r, cl_WorkspaceID = clm_WorkspaceID r,
     cl_CreatedAt = clm_CreatedAt r, cl_UpdatedAt = clm_UpdatedAt r, cl_MemberIDs = memberIDs,
     cl_events = []\<rparr>"

definition userModel :: "user \<Rightarrow> user" where
  "userModel u = u\<lparr>u_events := []\<rparr>"

definition workspaceModel :: "workspace \<Rightarrow> workspace" where
  "workspaceModel w = w\<lparr>w_events := []\<rparr>"

definition subscriptionModel :: "subscription \<Rightarrow> subscription" where
  "subscriptionModel s = s\<lparr>s_events := []\<rparr>"

definition invoiceModel :: "invoice \<Rightarrow> invoice" where
  "invoiceModel i = i\<lparr>i_events := []\<rparr>"

text \<open>The weight of a result has no column: a result that is read back weighs 1.\<close>

definition resultModel :: "result \<Rightarrow> result" where
  "resultModel r = r\<lparr>r_Weight := 1\<rparr>"

record outbox_event =
  o_ID :: uuid
  o_AggregateID :: uuid
  o_EventType :: string
  o_Payload :: domain_event
  o_CreatedAt :: gotime
  o_PublishedAt :: "gotime option"

record processed_event =
  pe_EventID :: uuid
  pe_HandlerName :: string
  pe_ProcessedAt :: gotime

text \<open>A row of the activity feed; its payload is a JSON object.\<close>

datatype json = JString string | JInt int | JUuid uuid | JBool bool

record activity =
  a_ID :: uuid
  a_ClientID :: uuid
  a_Type :: string
  a_ActorType :: string
  a_ActorUserID :: "uuid option"
  a_ActorName :: string
  a_Message :: string
  a_Payload :: "(string \<times> json) list"
  a_OccurredAt :: gotime
  a_CreatedAt :: gotime

record db =
  t_media :: "media_model list"
  t_contents :: "content_model list"
  t_results :: "result list"
  t_campaigns :: "campaign_model list"
  t_clients :: "client_model list"
  t_user_clients :: "user_client_model list"
  t_users :: "user list"
  t_workspaces :: "workspace list"
  t_subscriptions :: "subscription list"
  t_plans :: "plan list"
  t_quotas :: "quota list"
  t_invoices :: "invoice list"
  t_outbox :: "outbox_event list"
  t_processed :: "processed_event list"
  t_activities :: "activity list"

section \<open>The row conversions keep the entity\<close>

definition media_stored :: "media \<Rightarrow> media" where
  "media_stored m = m\<lparr>m_FailureReason := TrimSpace (m_FailureReason m), m_events := []\<rparr>"

definition campaign_stored :: "campaign \<Rightarrow> campaign" where
  "campaign_stored c = c\<lparr>cp_BackgroundStatus := (if cp_BackgroundStatus c = '''' then BackgroundStatusNone
     else cp_BackgroundStatus c), cp_events := []\<rparr>"

lemma media_round_trip: "mediaDomainFromModel (mediaModelFromDomain m) = media_stored m"
  by (simp add: mediaDomainFromModel_def mediaModelFromDomain_def media_stored_def Let_def)

lemma media_stored_wf: "media_wf m \<Longrightarrow> media_stored m = m\<lparr>m_events := []\<rparr>"
  by (simp add: media_wf_def media_stored_def)

lemma campaign_round_trip: "campaignDomainFromModel (campaignModelFromDomain c) = campaign_stored c"
  by (simp add: campaignDomainFromModel_def campaignModelFromDomain_def campaign_stored_def Let_def
      derefString_def optionalNonEmpty_def background_status_defs)

lemma campaign_stored_wf: "campaign_wf c \<Longrightarrow> campaign_stored c = c\<lparr>cp_events := []\<rparr>"
  by (auto simp: campaign_wf_def campaign_stored_def background_status_defs)

lemma labelStringPtr_round_trip:
  "(\<forall>x. l = Some x \<longrightarrow> ValidateLabel x = Inr ()) \<Longrightarrow> labelFromStringPtr (labelStringPtr l) = l"
  by (cases l)
    (auto simp: labelFromStringPtr_def labelStringPtr_def label_of_string_string valid_label_not_empty)

lemma content_round_trip:
  assumes "\<forall>x. c_Label c = Some x \<longrightarrow> ValidateLabel x = Inr ()"
  shows "contentDomainFromModel (contentModelFromDomain c) (c_CampaignID c) (c_ClientID c) = c\<lparr>c_events := []\<rparr>"
  using labelStringPtr_round_trip [OF assms]
  by (simp add: contentDomainFromModel_def contentModelFromDomain_def)

lemma client_round_trip:
  "clientDomainFromModel (clientModelFromDomain c) (cl_MemberIDs c) = c\<lparr>cl_events := []\<rparr>"
  by (simp add: clientDomainFromModel_def clientModelFromDomain_def)

section \<open>The stores\<close>

lemmas model_defs = mediaDomainFromModel_def mediaModelFromDomain_def media_stored_def
  campaignDomainFromModel_def campaignModelFromDomain_def campaign_stored_def
  userModel_def workspaceModel_def subscriptionModel_def invoiceModel_def Let_def

interpretation media_rows: keyed_rows mm_ID mediaModelFromDomain mediaDomainFromModel m_ID media_stored
    "\<lambda>m. m_DeletedAt m = None" "\<lambda>r. mm_DeletedAt r = None"
  by unfold_locales (simp_all add: media_round_trip, simp_all add: model_defs)

interpretation campaign_rows: keyed_rows cpm_ID campaignModelFromDomain campaignDomainFromModel cp_ID
    campaign_stored "\<lambda>c. cp_DeletedAt c = None" "\<lambda>r. cpm_DeletedAt r = None"
  by unfold_locales (simp_all add: campaign_round_trip, simp_all add: model_defs background_status_defs)

interpretation user_rows: keyed_rows u_ID userModel userModel u_ID userModel "\<lambda>_. True" "\<lambda>_. True"
  by unfold_locales (simp_all add: userModel_def)

interpretation workspace_rows: keyed_rows w_ID workspaceModel workspaceModel w_ID workspaceModel
    "\<lambda>_. True" "\<lambda>_. True"
  by unfold_locales (simp_all add: workspaceModel_def)

interpretation subscription_rows: keyed_rows s_ID subscriptionModel subscriptionModel s_ID
    subscriptionModel "\<lambda>_. True" "\<lambda>_. True"
  by unfold_locales (simp_all add: subscriptionModel_def)

interpretation invoice_rows: keyed_rows i_ID invoiceModel invoiceModel i_ID invoiceModel
    "\<lambda>_. True" "\<lambda>_. True"
  by unfold_locales (simp_all add: invoiceModel_def)

end
