(* ===== verification/World.thy ===== *)
theory World
  imports Comp Database "HOL-Library.Word"
begin

text \<open>
  The state and the oracles of a run. A transaction works on \<open>wd_db\<close>; \<open>wd_committed\<close> is what other
  connections see: the repositories of \<open>persistence/write\<close> join the transaction of their context,
  the ones of \<open>persistence/read\<close> never do. Every call that leaves the process (a query, a commit,
  the object store, the clock, a fresh UUID) takes a tick, and the environment decides by tick
  whether the call fails and with which error; theorems about handlers hold for every such choice.
  A commit that reports an error has not taken place.
\<close>

type_synonym bytes = "8 word list"

record extracted_frame =
  fr_Index :: int
  fr_TimestampMs :: int
  fr_JPEGBytes :: bytes

record envelope =
  ev_EventID :: uuid
  ev_Type :: string
  ev_AggregateID :: uuid
  ev_OccurredAt :: gotime
  ev_Payload :: domain_event

datatype rt_payload = RtEvent domain_event | RtActivity activity

record realtime_message =
  rt_Channel :: string
  rt_EventType :: string
  rt_Payload :: rt_payload

record world =
  wd_db :: db
  wd_committed :: db
  wd_tx :: bool
  wd_locks :: "uuid list"
  wd_tick :: nat
  wd_objects :: "string \<rightharpoonup> bytes"
  wd_thumbnails :: "string \<rightharpoonup> bytes"
  wd_published :: "envelope list"
  wd_dlq :: "(envelope option \<times> string) list"
  wd_realtime :: "realtime_message list"
  wd_rulesets :: "uuid \<rightharpoonup> int"

record env =
  en_fault :: "nat \<Rightarrow> go_error option"
  en_clock :: "nat \<Rightarrow> gotime"
  en_uuid :: "nat \<Rightarrow> uuid"
  en_uuid_string :: "uuid \<Rightarrow> string"
  en_deterministic_id :: "string list \<Rightarrow> uuid"
  en_thumbnail :: "bytes \<Rightarrow> int \<Rightarrow> bytes res"
  en_extract :: "bytes \<Rightarrow> int \<Rightarrow> extracted_frame list res"
  en_presigned_url :: "string \<Rightarrow> string res"

type_synonym 'a app = "(env, world, 'a) comp"

section \<open>Calls\<close>

definition tickC :: "nat app" where
  "tickC = (\<lambda>r w. (Inr (wd_tick w), w\<lparr>wd_tick := Suc (wd_tick w)\<rparr>))"

definition nowC :: "gotime app" where
  "nowC = bindC tickC (\<lambda>t. askC (\<lambda>r. en_clock r t))"

definition uuidC :: "uuid app" where
  "uuidC = bindC tickC (\<lambda>t. askC (\<lambda>r. en_uuid r t))"

definition callC :: "unit app" where
  "callC = bindC tickC (\<lambda>t. bindC (askC (\<lambda>r. en_fault r t))
     (\<lambda>f. case f of None \<Rightarrow> returnC () | Some e \<Rightarrow> failC e))"

text \<open>A query through the connection of the context, and one through the pool.\<close>

definition dbRead :: "(db \<Rightarrow> 'a) \<Rightarrow> 'a app" where
  "dbRead f = thenC callC (stateC (\<lambda>w. (Inr (f (wd_db w)), w)))"

definition poolRead :: "(db \<Rightarrow> 'a) \<Rightarrow> 'a app" where
  "poolRead f = thenC callC (stateC (\<lambda>w. (Inr (f (wd_committed w)), w)))"

text \<open>A statement that writes: committed at once outside a transaction.\<close>

definition set_db :: "db \<Rightarrow> world \<Rightarrow> world" where
  "set_db d w = w\<lparr>wd_db := d, wd_committed := (if wd_tx w then wd_committed w else d)\<rparr>"

definition dbWrite :: "(db \<Rightarrow> db res) \<Rightarrow> unit app" where
  "dbWrite f = thenC callC (stateC (\<lambda>w. case f (wd_db w) of
     Inl e \<Rightarrow> (Inl e, w) | Inr d \<Rightarrow> (Inr (), set_db d w)))"

text \<open>\<open>WithTransaction\<close>: commit on success, roll back on an error of the body or of the commit;
  either way the advisory locks of the transaction are released. Handlers do not nest it.\<close>

definition beginTx :: "world \<Rightarrow> world" where
  "beginTx w = w\<lparr>wd_tx := True, wd_db := wd_committed w\<rparr>"

definition commitTx :: "world \<Rightarrow> world" where
  "commitTx w = w\<lparr>wd_tx := False, wd_committed := wd_db w, wd_locks := []\<rparr>"

definition rollbackTx :: "world \<Rightarrow> world" where
  "rollbackTx w = w\<lparr>wd_tx := False, wd_db := wd_committed w, wd_locks := []\<rparr>"

definition withTx :: "'a app \<Rightarrow> 'a app" where
  "withTx c = (\<lambda>r w. case c r (beginTx w) of
      (Inl e, w') \<Rightarrow> (Inl e, rollbackTx w')
    | (Inr a, w') \<Rightarrow> (case callC r w' of
        (Inl e, w'') \<Rightarrow> (Inl e, rollbackTx w'')
      | (Inr _, w'') \<Rightarrow> (Inr a, commitTx w'')))"

text \<open>\<open>pg_advisory_xact_lock\<close> for the workspace; no other transaction holds it when it returns.\<close>

definition Lock :: "uuid \<Rightarrow> unit app" where
  "Lock workspaceID = (if workspaceID = uuid_Nil
     then failC (Err ''workspace id is required for analysis quota lock'')
     else thenC callC (stateC (\<lambda>w. (Inr (), w\<lparr>wd_locks := workspaceID # wd_locks w\<rparr>))))"

section \<open>The object store\<close>

definition storage_Get :: "string \<Rightarrow> bytes app" where
  "storage_Get key = mapErrC (Wrapped ''object not found'') (thenC callC (stateC (\<lambda>w.
     case wd_objects w key of None \<Rightarrow> (Inl (Err ''NoSuchKey''), w) | Some b \<Rightarrow> (Inr b, w))))"

definition storage_Put :: "string \<Rightarrow> bytes \<Rightarrow> unit app" where
  "storage_Put key b = mapErrC (Wrapped ''failed to upload object'') (thenC callC (stateC (\<lambda>w.
     (Inr (), w\<lparr>wd_objects := (wd_objects w)(key \<mapsto> b)\<rparr>))))"

definition storage_PutThumbnail :: "string \<Rightarrow> bytes \<Rightarrow> unit app" where
  "storage_PutThumbnail key b = mapErrC (Wrapped ''failed to upload thumbnail'') (thenC callC (stateC (\<lambda>w.
     (Inr (), w\<lparr>wd_thumbnails := (wd_thumbnails w)(key \<mapsto> b)\<rparr>))))"

definition storage_Delete :: "string \<Rightarrow> unit app" where
  "storage_Delete key = mapErrC (Wrapped ''failed to delete object'') (thenC callC (stateC (\<lambda>w.
     (Inr (), w\<lparr>wd_objects := (wd_objects w)(key := None)\<rparr>))))"

definition storage_DeleteThumbnail :: "string \<Rightarrow> unit app" where
  "storage_DeleteThumbnail key = mapErrC (Wrapped ''failed to delete thumbnail'') (thenC callC (stateC (\<lambda>w.
     (Inr (), w\<lparr>wd_thumbnails := (wd_thumbnails w)(key := None)\<rparr>))))"

definition PresignedPutURL :: "string \<Rightarrow> string app" where
  "PresignedPutURL key = mapErrC (Wrapped ''failed to generate upload url'')
     (bindC (askC (\<lambda>r. en_presigned_url r key)) liftC)"

definition GenerateJPEG :: "bytes \<Rightarrow> int \<Rightarrow> bytes app" where
  "GenerateJPEG raw width = bindC (askC (\<lambda>r. en_thumbnail r raw width)) liftC"

section \<open>Postconditions of the calls\<close>

lemma wp_tick [simp]: "wp tickC Q E r w = Q (wd_tick w) (w\<lparr>wd_tick := Suc (wd_tick w)\<rparr>)"
  by (simp add: wp_def tickC_def)

lemma wp_now [simp]: "wp nowC Q E r w = Q (en_clock r (wd_tick w)) (w\<lparr>wd_tick := Suc (wd_tick w)\<rparr>)"
  by (simp add: nowC_def)

lemma wp_uuid [simp]: "wp uuidC Q E r w = Q (en_uuid r (wd_tick w)) (w\<lparr>wd_tick := Suc (wd_tick w)\<rparr>)"
  by (simp add: uuidC_def)

lemma wp_call [simp]: "wp callC Q E r w =
    ((\<forall>e. en_fault r (wd_tick w) = Some e \<longrightarrow> E e (w\<lparr>wd_tick := Suc (wd_tick w)\<rparr>)) \<and>
     (en_fault r (wd_tick w) = None \<longrightarrow> Q () (w\<lparr>wd_tick := Suc (wd_tick w)\<rparr>)))"
  by (auto simp: callC_def split: option.splits)

lemma wp_dbRead [simp]: "wp (dbRead f) Q E r w =
    ((\<forall>e. en_fault r (wd_tick w) = Some e \<longrightarrow> E e (w\<lparr>wd_tick := Suc (wd_tick w)\<rparr>)) \<and>
     (en_fault r (wd_tick w) = None \<longrightarrow> Q (f (wd_db w)) (w\<lparr>wd_tick := Suc (wd_tick w)\<rparr>)))"
  by (simp add: dbRead_def)

lemma wp_poolRead [simp]: "wp (poolRead f) Q E r w =
    ((\<forall>e. en_fault r (wd_tick w) = Some e \<longrightarrow> E e (w\<lparr>wd_tick := Suc (wd_tick w)\<rparr>)) \<and>
     (en_fault r (wd_tick w) = None \<longrightarrow> Q (f (wd_committed w)) (w\<lparr>wd_tick := Suc (wd_tick w)\<rparr>)))"
  by (simp add: poolRead_def)

lemma wp_dbWrite [simp]: "wp (dbWrite f) Q E r w =
    ((\<forall>e. en_fault r (wd_tick w) = Some e \<longrightarrow> E e (w\<lparr>wd_tick := Suc (wd_tick w)\<rparr>)) \<and>
     (en_fault r (wd_tick w) = None \<longrightarrow>
       (\<forall>e. f (wd_db w) = Inl e \<longrightarrow> E e (w\<lparr>wd_tick := Suc (wd_tick w)\<rparr>)) \<and>
       (\<forall>d. f (wd_db w) = Inr d \<longrightarrow> Q () (set_db d (w\<lparr>wd_tick := Suc (wd_tick w)\<rparr>)))))"
  by (auto simp: dbWrite_def split: sum.splits)

lemma wp_withTx: "wp (withTx c) Q E r w =
    wp c (\<lambda>a w'. wp callC (\<lambda>_ w''. Q a (commitTx w'')) (\<lambda>e w''. E e (rollbackTx w'')) r w')
      (\<lambda>e w'. E e (rollbackTx w')) r (beginTx w)"
  by (simp add: withTx_def wp_def split: prod.splits sum.splits)

lemma wp_any: "(\<And>a w. Q a w) \<Longrightarrow> (\<And>e w. E e w) \<Longrightarrow> wp c Q E r w"
  by (simp add: wp_def split: prod.splits sum.splits)

section \<open>Transactions are atomic\<close>

text \<open>Outside a transaction the connection and the pool see the same database.\<close>

definition idle :: "world \<Rightarrow> bool" where
  "idle w \<longleftrightarrow> \<not> wd_tx w \<and> wd_db w = wd_committed w"

text \<open>What the steps inside a transaction leave alone.\<close>

definition in_tx :: "db \<Rightarrow> world \<Rightarrow> bool" where
  "in_tx d w \<longleftrightarrow> wd_tx w \<and> wd_committed w = d"

lemma keeps_tick [keeps_intros]: "(\<And>r w. I r w \<Longrightarrow> I r (w\<lparr>wd_tick := Suc (wd_tick w)\<rparr>)) \<Longrightarrow> keeps I tickC"
  by (simp add: keeps_def tickC_def)

lemma keeps_call:
  assumes "\<And>r w. I r w \<Longrightarrow> I r (w\<lparr>wd_tick := Suc (wd_tick w)\<rparr>)"
  shows "keeps I callC"
  unfolding callC_def by (intro keeps_intros assms)

lemma keeps_now:
  assumes "\<And>r w. I r w \<Longrightarrow> I r (w\<lparr>wd_tick := Suc (wd_tick w)\<rparr>)"
  shows "keeps I nowC"
  unfolding nowC_def by (intro keeps_intros assms)

lemma keeps_uuid:
  assumes "\<And>r w. I r w \<Longrightarrow> I r (w\<lparr>wd_tick := Suc (wd_tick w)\<rparr>)"
  shows "keeps I uuidC"
  unfolding uuidC_def by (intro keeps_intros assms)

lemma keeps_dbRead:
  assumes "\<And>r w. I r w \<Longrightarrow> I r (w\<lparr>wd_tick := Suc (wd_tick w)\<rparr>)"
  shows "keeps I (dbRead f)"
  unfolding dbRead_def by (intro keeps_then keeps_call keeps_state assms) simp_all

lemma keeps_poolRead:
  assumes "\<And>r w. I r w \<Longrightarrow> I r (w\<lparr>wd_tick := Suc (wd_tick w)\<rparr>)"
  shows "keeps I (poolRead f)"
  unfolding poolRead_def by (intro keeps_then keeps_call keeps_state assms) simp_all

lemma keeps_dbWrite:
  assumes "\<And>r w. I r w \<Longrightarrow> I r (w\<lparr>wd_tick := Suc (wd_tick w)\<rparr>)"
    and "\<And>r w d. I r w \<Longrightarrow> f (wd_db w) = Inr d \<Longrightarrow> I r (set_db d w)"
  shows "keeps I (dbWrite f)"
  unfolding dbWrite_def
  by (intro keeps_then keeps_call keeps_state assms) (auto simp: assms(2) split: sum.splits)

text \<open>The invariant of a transaction body: the committed database stays what it was.\<close>

lemma in_tx_steps [simp]:
  "in_tx d (w\<lparr>wd_tick := n\<rparr>) = in_tx d w"
  "in_tx d (w\<lparr>wd_locks := l\<rparr>) = in_tx d w"
  "in_tx d (w\<lparr>wd_objects := ob\<rparr>) = in_tx d w"
  "in_tx d (w\<lparr>wd_thumbnails := ob\<rparr>) = in_tx d w"
  "in_tx d (w\<lparr>wd_rulesets := vs\<rparr>) = in_tx d w"
  "in_tx d w \<Longrightarrow> in_tx d (set_db d' w)"
  by (simp_all add: in_tx_def set_db_def)

definition tx_safe :: "'a app \<Rightarrow> bool" where
  "tx_safe c \<longleftrightarrow> (\<forall>d. keeps (\<lambda>r. in_tx d) c)"

lemma tx_safe_keeps: "tx_safe c \<Longrightarrow> keeps (\<lambda>r. in_tx d) c"
  by (simp add: tx_safe_def)

named_theorems tx_safe_intros "transaction bodies"

lemma tx_safe_basic [tx_safe_intros]:
  "tx_safe (returnC a)" "tx_safe (failC e)" "tx_safe (liftC x)" "tx_safe (askC g)"
  "tx_safe nowC" "tx_safe uuidC" "tx_safe callC" "tx_safe (dbRead h)" "tx_safe (poolRead h)"
  "tx_safe (dbWrite u)"
  unfolding tx_safe_def
  by (intro allI keeps_intros keeps_now keeps_uuid keeps_call keeps_dbRead keeps_poolRead keeps_dbWrite;
      simp)+

lemma tx_safe_bind [tx_safe_intros]: "tx_safe c \<Longrightarrow> (\<And>a. tx_safe (f a)) \<Longrightarrow> tx_safe (bindC c f)"
  unfolding tx_safe_def by (auto intro: keeps_bind)

lemma tx_safe_then [tx_safe_intros]: "tx_safe c \<Longrightarrow> tx_safe d \<Longrightarrow> tx_safe (thenC c d)"
  unfolding tx_safe_def by (auto intro: keeps_then)

lemma tx_safe_try [tx_safe_intros]:
  "tx_safe c \<Longrightarrow> (\<And>e. tx_safe (h e)) \<Longrightarrow> (\<And>a. tx_safe (f a)) \<Longrightarrow> tx_safe (tryC c h f)"
  unfolding tx_safe_def by (auto intro: keeps_try)

lemma tx_safe_mapErr [tx_safe_intros]: "tx_safe c \<Longrightarrow> tx_safe (mapErrC g c)"
  unfolding tx_safe_def by (auto intro: keeps_mapErr)

lemma tx_safe_foldC [tx_safe_intros]: "(\<And>x s. tx_safe (f x s)) \<Longrightarrow> tx_safe (foldC f xs s)"
  unfolding tx_safe_def by (auto intro: keeps_foldC)

lemma tx_safe_if [tx_safe_intros]: "tx_safe c \<Longrightarrow> tx_safe d \<Longrightarrow> tx_safe (if b then c else d)"
  by simp

lemma tx_safe_option [tx_safe_intros]:
  "tx_safe c \<Longrightarrow> (\<And>a. tx_safe (f a)) \<Longrightarrow> tx_safe (case x of None \<Rightarrow> c | Some a \<Rightarrow> f a)"
  by (cases x) auto

lemma tx_safe_sum [tx_safe_intros]:
  "(\<And>a. tx_safe (g a)) \<Longrightarrow> (\<And>a. tx_safe (f a)) \<Longrightarrow> tx_safe (case x of Inl a \<Rightarrow> g a | Inr a \<Rightarrow> f a)"
  by (cases x) auto

lemma tx_safe_prod [tx_safe_intros]: "(\<And>a b. tx_safe (f a b)) \<Longrightarrow> tx_safe (case x of (a, b) \<Rightarrow> f a b)"
  by (cases x) auto

lemma tx_safe_let [tx_safe_intros]: "(\<And>x. tx_safe (f x)) \<Longrightarrow> tx_safe (Let t f)"
  by (simp add: Let_def)

lemma tx_safe_Lock [tx_safe_intros]: "tx_safe (Lock ws)"
  unfolding Lock_def by (intro tx_safe_intros) (simp add: tx_safe_def keeps_state)

lemma withTx_error:
  assumes "tx_safe c" and "fst (withTx c r w) = Inl e"
  shows "wd_db (snd (withTx c r w)) = wd_committed w \<and> wd_committed (snd (withTx c r w)) = wd_committed w"
proof -
  obtain x w' where x: "c r (beginTx w) = (x, w')" by (cases "c r (beginTx w)")
  have "in_tx (wd_committed w) (beginTx w)" by (simp add: in_tx_def beginTx_def)
  then have w': "wd_committed w' = wd_committed w"
    using keepsD [OF tx_safe_keeps [OF assms(1)], of "wd_committed w" "beginTx w" r] x
    by (simp add: in_tx_def)
  obtain y w'' where y: "callC r w' = (y, w'')" by (cases "callC r w'")
  have "wd_committed w'' = wd_committed w'"
    using y by (auto simp: callC_def tickC_def comp_simps split: option.splits)
  then show ?thesis
    using assms(2) w' x y by (auto simp: withTx_def rollbackTx_def split: sum.splits)
qed

lemma withTx_idle: "idle (snd (withTx c r w))"
  by (auto simp: withTx_def idle_def rollbackTx_def commitTx_def split: prod.splits sum.splits)

lemma withTx_unlocks: "wd_locks (snd (withTx c r w)) = []"
  by (auto simp: withTx_def rollbackTx_def commitTx_def split: prod.splits sum.splits)

section \<open>Calls that only read\<close>

definition readonly :: "'a app \<Rightarrow> bool" where
  "readonly c \<longleftrightarrow> (\<forall>r w. \<exists>n. snd (c r w) = w\<lparr>wd_tick := n\<rparr>)"

named_theorems readonly_intros "computations that only read"

lemma readonlyD: "readonly c \<Longrightarrow> \<exists>n. snd (c r w) = w\<lparr>wd_tick := n\<rparr>"
  by (simp add: readonly_def)

lemma readonlyI: "(\<And>r w. snd (c r w) = w) \<Longrightarrow> readonly c"
  unfolding readonly_def by (metis world.unfold_congs(5) world.surjective world.update_convs(5))

lemma readonly_basic [readonly_intros]:
  "readonly (returnC a)" "readonly (failC e)" "readonly (liftC x)" "readonly (askC g)" "readonly tickC"
  by (rule readonlyI, simp add: comp_simps)+ (auto simp: readonly_def tickC_def)

lemma readonly_try [readonly_intros]:
  assumes c: "readonly c" and h: "\<And>e. readonly (h e)" and f: "\<And>a. readonly (f a)"
  shows "readonly (tryC c h f)"
  unfolding readonly_def
proof (intro allI)
  fix r w
  obtain x w' where x: "c r w = (x, w')" by (cases "c r w")
  obtain n where n: "w' = w\<lparr>wd_tick := n\<rparr>" using readonlyD [OF c, of r w] x by auto
  show "\<exists>n. snd (tryC c h f r w) = w\<lparr>wd_tick := n\<rparr>"
    using readonlyD [OF h, of _ r w'] readonlyD [OF f, of _ r w'] x n
    by (cases x) (auto simp: comp_simps)
qed

lemma readonly_bind [readonly_intros]: "readonly c \<Longrightarrow> (\<And>a. readonly (f a)) \<Longrightarrow> readonly (bindC c f)"
proof -
  have "bindC c f = tryC c failC f"
    by (intro ext) (simp add: bindC_def tryC_def failC_def split: prod.splits sum.splits)
  then show "readonly c \<Longrightarrow> (\<And>a. readonly (f a)) \<Longrightarrow> readonly (bindC c f)"
    by (simp add: readonly_try readonly_basic)
qed

lemma readonly_then [readonly_intros]: "readonly c \<Longrightarrow> readonly d \<Longrightarrow> readonly (thenC c d)"
  unfolding thenC_def by (intro readonly_intros)

lemma readonly_mapErr [readonly_intros]: "readonly c \<Longrightarrow> readonly (mapErrC g c)"
  unfolding mapErrC_def by (intro readonly_intros)

lemma readonly_option [readonly_intros]:
  "readonly c \<Longrightarrow> (\<And>a. readonly (f a)) \<Longrightarrow> readonly (case x of None \<Rightarrow> c | Some a \<Rightarrow> f a)"
  by (cases x) auto

lemma readonly_prod [readonly_intros]: "(\<And>a b. readonly (f a b)) \<Longrightarrow> readonly (case x of (a, b) \<Rightarrow> f a b)"
  by (cases x) auto

lemma readonly_let [readonly_intros]: "(\<And>x. readonly (f x)) \<Longrightarrow> readonly (Let t f)"
  by (simp add: Let_def)

lemma readonly_if [readonly_intros]: "readonly c \<Longrightarrow> readonly d \<Longrightarrow> readonly (if b then c else d)"
  by simp

lemma readonly_call [readonly_intros]: "readonly callC"
  unfolding callC_def by (intro readonly_intros)

lemma readonly_now [readonly_intros]: "readonly nowC" "readonly uuidC"
  unfolding nowC_def uuidC_def by (intro readonly_intros)+

lemma readonly_get [readonly_intros]:
  "readonly (dbRead g)" "readonly (poolRead g)"
proof -
  have s: "readonly (stateC (\<lambda>w. (Inr (k w), w)))" for k :: "world \<Rightarrow> 'b"
    by (rule readonlyI) (simp add: comp_simps)
  show "readonly (dbRead g)" "readonly (poolRead g)"
    unfolding dbRead_def poolRead_def by (intro readonly_intros s)+
qed

lemma readonly_tx_safe: "readonly c \<Longrightarrow> tx_safe c"
  unfolding tx_safe_def keeps_def
  using readonlyD [of c] by (metis in_tx_steps(1))

text \<open>What a reading computation yields, in the world it started from.\<close>

lemma wp_readonly:
  assumes "readonly c"
    and "\<And>a n. fst (c r w) = Inr a \<Longrightarrow> Q a (w\<lparr>wd_tick := n\<rparr>)"
    and "\<And>e n. fst (c r w) = Inl e \<Longrightarrow> E e (w\<lparr>wd_tick := n\<rparr>)"
  shows "wp c Q E r w"
  using readonlyD [OF assms(1), of r w] assms(2,3)
  by (auto simp: wp_def split: prod.splits sum.splits)

section \<open>Transactions as relations\<close>

lemma set_db_tx [simp]: "wd_tx w \<Longrightarrow> set_db d w = w\<lparr>wd_db := d\<rparr>"
  by (simp add: set_db_def)

lemma idle_steps [simp]:
  "idle (w\<lparr>wd_tick := n\<rparr>) = idle w" "idle (w\<lparr>wd_rulesets := f\<rparr>) = idle w"
  "idle (w\<lparr>wd_objects := b\<rparr>) = idle w" "idle (w\<lparr>wd_thumbnails := b\<rparr>) = idle w"
  by (simp_all add: idle_def)

text \<open>What a transaction leaves behind: the relation of its body, or nothing.\<close>

lemma wp_withTx_val:
  assumes "tx_safe c" and "wp c (\<lambda>a w'. R a (wd_db w')) (\<lambda>_ _. True) r (beginTx w)"
  shows "wp (withTx c) (\<lambda>a w'. idle w' \<and> R a (wd_committed w'))
      (\<lambda>_ w'. idle w' \<and> wd_committed w' = wd_committed w) r w"
proof -
  obtain x w' where x: "withTx c r w = (x, w')" by (cases "withTx c r w")
  have idle: "idle w'" using withTx_idle [of c r w] x by simp
  show ?thesis
  proof (cases x)
    case (Inl e)
    then show ?thesis using withTx_error [OF assms(1), of r w e] x idle by (simp add: wp_def)
  next
    case (Inr a)
    obtain y w1 where y: "c r (beginTx w) = (y, w1)" by (cases "c r (beginTx w)")
    have ok: "\<exists>b w2. y = Inr b \<and> callC r w1 = (Inr (), w2) \<and> w' = commitTx w2"
      using x y Inr by (auto simp: withTx_def split: sum.splits prod.splits)
    then obtain b w2 where b: "y = Inr b" "callC r w1 = (Inr (), w2)" "w' = commitTx w2" by blast
    have "wd_db w2 = wd_db w1"
      using b(2) by (auto simp: callC_def tickC_def comp_simps split: option.splits)
    then have "R a (wd_committed w')"
      using assms(2) x y b Inr by (auto simp: wp_def commitTx_def withTx_def)
    then show ?thesis using x Inr idle by (simp add: wp_def)
  qed
qed

lemmas wp_withTx_rel = wp_withTx_val [where R = "\<lambda>_. R" for R]

section \<open>Errors that the code drops\<close>

text \<open>\<open>_ = f()\<close>, or an error that is only logged: the next statement runs either way.\<close>

definition attemptC :: "'a app \<Rightarrow> 'b app \<Rightarrow> 'b app" where
  "attemptC c d = tryC c (\<lambda>_. d) (\<lambda>_. d)"

lemma wp_attempt [simp]: "wp (attemptC c d) Q E r w = wp c (\<lambda>_. wp d Q E r) (\<lambda>_. wp d Q E r) r w"
  by (simp add: attemptC_def)

lemma keeps_attempt [keeps_intros]: "keeps I c \<Longrightarrow> keeps I d \<Longrightarrow> keeps I (attemptC c d)"
  unfolding attemptC_def by (intro keeps_intros)

lemma tx_safe_attempt [tx_safe_intros]: "tx_safe c \<Longrightarrow> tx_safe d \<Longrightarrow> tx_safe (attemptC c d)"
  unfolding attemptC_def by (intro tx_safe_intros)

end
