(* ===== verification/Repositories.thy ===== *)
theory Repositories
  imports World "HOL-Library.Char_ord" "HOL-Library.List_Lexorder"
begin

text \<open>
  \<open>src/internal/infrastructure/persistence\<close>: the write repositories, which join the transaction of
  their context, the read repositories the quotas use, which always read what is committed, and
  the outbox. \<open>ORDER BY\<close> is a stable sort of the rows; constraints of the schema other than the
  primary and unique keys written here show up as injected errors.
\<close>

section \<open>Media\<close>

definition media_row :: "uuid \<Rightarrow> db \<Rightarrow> media_model option" where
  "media_row i d = tbl_first mm_ID (\<lambda>r. mm_DeletedAt r = None \<and> mm_ID r = i) (t_media d)"

definition media_get :: "uuid \<Rightarrow> db \<Rightarrow> media option" where
  "media_get i d = map_option mediaDomainFromModel (media_row i d)"

definition media_put :: "media \<Rightarrow> db \<Rightarrow> db" where
  "media_put m d = d\<lparr>t_media := tbl_save mm_ID (mediaModelFromDomain m) (t_media d)\<rparr>"

definition media_insert :: "media \<Rightarrow> db \<Rightarrow> db res" where
  "media_insert m d = (if m_ObjectKey m \<in> mm_ObjectKey ` set (t_media d)
     then Inl (Sentinel GormErrDuplicatedKey)
     else case tbl_create mm_ID (mediaModelFromDomain m) (t_media d) of
       Inl e \<Rightarrow> Inl e | Inr t \<Rightarrow> Inr (d\<lparr>t_media := t\<rparr>))"

definition media_Save :: "media \<Rightarrow> unit app" where
  "media_Save m = dbWrite (media_insert m)"

definition media_Update :: "media \<Rightarrow> unit app" where
  "media_Update m = dbWrite (\<lambda>d. Inr (media_put m d))"

definition media_GetByID :: "uuid \<Rightarrow> media option app" where
  "media_GetByID i = dbRead (media_get i)"

definition media_by_key :: "string \<Rightarrow> db \<Rightarrow> media option" where
  "media_by_key key d = map_option mediaDomainFromModel
     (tbl_first mm_ID (\<lambda>r. mm_DeletedAt r = None \<and> mm_ObjectKey r = key) (t_media d))"

definition media_GetByObjectKey :: "string \<Rightarrow> media option app" where
  "media_GetByObjectKey key = dbRead (media_by_key key)"

definition stale_medias :: "gotime \<Rightarrow> int \<Rightarrow> db \<Rightarrow> media list" where
  "stale_medias before limit d =
    (let limit = (if limit \<le> 0 then 100 else limit) in
     List.map mediaDomainFromModel (take (nat limit) (sort_key mm_UpdatedAt
       (List.filter (\<lambda>r. mm_DeletedAt r = None \<and> mm_Status r = StatusProcessing
                        \<and> mm_UpdatedAt r < before) (t_media d)))))"

definition ListProcessingUpdatedBefore :: "gotime \<Rightarrow> int \<Rightarrow> media list app" where
  "ListProcessingUpdatedBefore before limit = dbRead (stale_medias before limit)"

definition campaign_medias :: "uuid \<Rightarrow> db \<Rightarrow> media list" where
  "campaign_medias campaignID d = List.map mediaDomainFromModel (sort_key mm_CreatedAt
     (List.filter (\<lambda>r. mm_CampaignID r = campaignID \<and> mm_DeletedAt r = None) (t_media d)))"

definition ListActiveByCampaignID :: "uuid \<Rightarrow> media list app" where
  "ListActiveByCampaignID campaignID = dbRead (campaign_medias campaignID)"

section \<open>Contents\<close>

text \<open>A content is read through its media: the row joins a media that is not deleted.\<close>

definition content_join :: "db \<Rightarrow> content_model \<Rightarrow> content option" where
  "content_join d r = map_option (\<lambda>m. contentDomainFromModel r (mm_CampaignID m) (mm_ClientID m))
     (media_row (cm_MediaID r) d)"

definition content_get :: "uuid \<Rightarrow> db \<Rightarrow> content option" where
  "content_get i d = (case tbl_first cm_ID (\<lambda>r. cm_ID r = i \<and> media_row (cm_MediaID r) d \<noteq> None)
      (t_contents d) of None \<Rightarrow> None | Some r \<Rightarrow> content_join d r)"

definition content_put :: "content \<Rightarrow> db \<Rightarrow> db" where
  "content_put c d = d\<lparr>t_contents := tbl_save cm_ID (contentModelFromDomain c) (t_contents d)\<rparr>"

definition content_insert :: "content \<Rightarrow> db \<Rightarrow> db res" where
  "content_insert c d = (if c_ObjectKey c \<in> cm_ObjectKey ` set (t_contents d)
     then Inl (Sentinel GormErrDuplicatedKey)
     else case tbl_create cm_ID (contentModelFromDomain c) (t_contents d) of
       Inl e \<Rightarrow> Inl e | Inr t \<Rightarrow> Inr (d\<lparr>t_contents := t\<rparr>))"

definition content_Save :: "content \<Rightarrow> unit app" where
  "content_Save c = dbWrite (content_insert c)"

definition content_Update :: "content \<Rightarrow> unit app" where
  "content_Update c = dbWrite (\<lambda>d. Inr (content_put c d))"

definition content_GetByID :: "uuid \<Rightarrow> content option app" where
  "content_GetByID i = dbRead (content_get i)"

definition content_by_key :: "string \<Rightarrow> db \<Rightarrow> content option" where
  "content_by_key key d = (case tbl_first cm_ID
      (\<lambda>r. cm_ObjectKey r = key \<and> media_row (cm_MediaID r) d \<noteq> None)
      (t_contents d) of None \<Rightarrow> None | Some r \<Rightarrow> content_join d r)"

definition content_GetByObjectKey :: "string \<Rightarrow> content option app" where
  "content_GetByObjectKey key = dbRead (content_by_key key)"

text \<open>\<open>ORDER BY frame_index ASC NULLS FIRST, created_at ASC\<close>.\<close>

definition frame_order :: "content_model list \<Rightarrow> content_model list" where
  "frame_order rows = (let rows = sort_key cm_CreatedAt rows in
     List.filter (\<lambda>r. cm_FrameIndex r = None) rows @
     sort_key (\<lambda>r. case cm_FrameIndex r of None \<Rightarrow> 0 | Some i \<Rightarrow> i)
       (List.filter (\<lambda>r. cm_FrameIndex r \<noteq> None) rows))"

definition contents_of :: "uuid \<Rightarrow> db \<Rightarrow> content list" where
  "contents_of mediaID d = (case media_row mediaID d of
      None \<Rightarrow> []
    | Some m \<Rightarrow> List.map (\<lambda>r. contentDomainFromModel r (mm_CampaignID m) (mm_ClientID m))
        (frame_order (List.filter (\<lambda>r. cm_MediaID r = mediaID) (t_contents d))))"

definition ListByMediaID :: "uuid \<Rightarrow> content list app" where
  "ListByMediaID mediaID = dbRead (contents_of mediaID)"

section \<open>Detector results\<close>

text \<open>\<open>INSERT \<dots> ON CONFLICT (content_id, detector_name) DO UPDATE\<close> of the outcome columns.\<close>

definition same_result :: "result \<Rightarrow> result \<Rightarrow> bool" where
  "same_result a b \<longleftrightarrow> r_ContentID a = r_ContentID b \<and> r_DetectorName a = r_DetectorName b"

definition results_upsert :: "result \<Rightarrow> db \<Rightarrow> db" where
  "results_upsert x d = d\<lparr>t_results :=
     (if \<exists>q \<in> set (t_results d). same_result q x
      then List.map (\<lambda>q. if same_result q x
         then q\<lparr>r_Status := r_Status x, r_Signals := r_Signals x, r_Error := r_Error x,
                r_StartedAt := r_StartedAt x, r_CompletedAt := r_CompletedAt x,
                r_RulesetVersion := r_RulesetVersion x\<rparr>
         else q) (t_results d)
      else t_results d @ [resultModel x])\<rparr>"

definition result_Upsert :: "result \<Rightarrow> unit app" where
  "result_Upsert x = dbWrite (\<lambda>d. Inr (results_upsert x d))"

definition results_of :: "uuid \<Rightarrow> db \<Rightarrow> result list" where
  "results_of contentID d = List.map (\<lambda>q. q\<lparr>r_Weight := 1\<rparr>) (sort_key r_DetectorName
     (List.filter (\<lambda>q. r_ContentID q = contentID) (t_results d)))"

definition FindByContentID :: "uuid \<Rightarrow> result list app" where
  "FindByContentID contentID = dbRead (results_of contentID)"

section \<open>Campaigns\<close>

definition campaign_get :: "uuid \<Rightarrow> db \<Rightarrow> campaign option" where
  "campaign_get i d = map_option campaignDomainFromModel
     (tbl_first cpm_ID (\<lambda>r. cpm_DeletedAt r = None \<and> cpm_ID r = i) (t_campaigns d))"

definition campaign_put :: "campaign \<Rightarrow> db \<Rightarrow> db" where
  "campaign_put c d = d\<lparr>t_campaigns := tbl_save cpm_ID (campaignModelFromDomain c) (t_campaigns d)\<rparr>"

definition campaign_insert :: "campaign \<Rightarrow> db \<Rightarrow> db res" where
  "campaign_insert c d = (case tbl_create cpm_ID (campaignModelFromDomain c) (t_campaigns d) of
     Inl e \<Rightarrow> Inl e | Inr t \<Rightarrow> Inr (d\<lparr>t_campaigns := t\<rparr>))"

definition campaign_Save :: "campaign \<Rightarrow> unit app" where
  "campaign_Save c = dbWrite (campaign_insert c)"

definition campaign_Update :: "campaign \<Rightarrow> unit app" where
  "campaign_Update c = dbWrite (\<lambda>d. Inr (campaign_put c d))"

definition campaign_GetByID :: "uuid \<Rightarrow> campaign option app" where
  "campaign_GetByID i = dbRead (campaign_get i)"

text \<open>\<open>SELECT \<dots> FOR UPDATE\<close> reads the same row; the row lock has no counterpart here, where a
  transaction runs alone.\<close>

definition campaign_GetByIDForUpdate :: "uuid \<Rightarrow> campaign option app" where
  "campaign_GetByIDForUpdate i = dbRead (campaign_get i)"

definition campaign_default :: "uuid \<Rightarrow> db \<Rightarrow> campaign option" where
  "campaign_default clientID d = map_option campaignDomainFromModel (tbl_first cpm_ID
     (\<lambda>r. cpm_DeletedAt r = None \<and> cpm_ClientID r = clientID \<and> cpm_IsDefault r) (t_campaigns d))"

definition GetDefaultByClientID :: "uuid \<Rightarrow> campaign option app" where
  "GetDefaultByClientID clientID = dbRead (campaign_default clientID)"

definition campaign_pending :: "string \<Rightarrow> db \<Rightarrow> campaign option" where
  "campaign_pending key d = map_option campaignDomainFromModel (tbl_first cpm_ID
     (\<lambda>r. cpm_DeletedAt r = None \<and> cpm_BackgroundPendingKey r = Some key) (t_campaigns d))"

definition GetByBackgroundPendingKey :: "string \<Rightarrow> campaign option app" where
  "GetByBackgroundPendingKey key = dbRead (campaign_pending key)"

section \<open>Clients\<close>

definition members_of :: "uuid \<Rightarrow> db \<Rightarrow> uuid list" where
  "members_of clientID d = List.map ucm_UserID
     (List.filter (\<lambda>r. ucm_ClientID r = clientID) (t_user_clients d))"

definition client_get :: "uuid \<Rightarrow> db \<Rightarrow> client option" where
  "client_get i d = map_option (\<lambda>r. clientDomainFromModel r (members_of i d))
     (tbl_first clm_ID (\<lambda>r. clm_ID r = i) (t_clients d))"

definition drop_members :: "uuid \<Rightarrow> db \<Rightarrow> db" where
  "drop_members clientID d = d\<lparr>t_user_clients := tbl_delete (\<lambda>r. ucm_ClientID r = clientID) (t_user_clients d)\<rparr>"

text \<open>The multi-row insert fails as a whole on a repeated member.\<close>

definition add_members :: "gotime \<Rightarrow> uuid \<Rightarrow> uuid list \<Rightarrow> db \<Rightarrow> db res" where
  "add_members now clientID memberIDs d =
    (let rows = List.map (\<lambda>u. \<lparr>ucm_UserID = u, ucm_ClientID = clientID, ucm_CreatedAt = now\<rparr>) memberIDs;
         t = t_user_clients d @ rows in
     if distinct (List.map (\<lambda>r. (ucm_UserID r, ucm_ClientID r)) t) then Inr (d\<lparr>t_user_clients := t\<rparr>)
     else Inl (Sentinel GormErrDuplicatedKey))"

definition ReplaceMembers :: "uuid \<Rightarrow> uuid list \<Rightarrow> unit app" where
  "ReplaceMembers clientID memberIDs =
     thenC (dbWrite (\<lambda>d. Inr (drop_members clientID d)))
       (if memberIDs = [] then returnC ()
        else bindC nowC (\<lambda>now. dbWrite (add_members now clientID memberIDs)))"

definition client_Save :: "client \<Rightarrow> unit app" where
  "client_Save c = thenC
     (dbWrite (\<lambda>d. case tbl_create clm_ID (clientModelFromDomain c) (t_clients d) of
        Inl e \<Rightarrow> Inl e | Inr t \<Rightarrow> Inr (d\<lparr>t_clients := t\<rparr>)))
     (ReplaceMembers (cl_ID c) (cl_MemberIDs c))"

definition client_Update :: "client \<Rightarrow> unit app" where
  "client_Update c = thenC
     (dbWrite (\<lambda>d. Inr (d\<lparr>t_clients := tbl_save clm_ID (clientModelFromDomain c) (t_clients d)\<rparr>)))
     (ReplaceMembers (cl_ID c) (cl_MemberIDs c))"

text \<open>The foreign keys of the schema: what belongs to a client goes with it, and no user keeps it as
  the current client.\<close>

definition cascade_client :: "uuid \<Rightarrow> db \<Rightarrow> db" where
  "cascade_client i d =
    (let medias = mm_ID ` {r \<in> set (t_media d). mm_ClientID r = i};
         contents = cm_ID ` {r \<in> set (t_contents d). cm_MediaID r \<in> medias} in
     d\<lparr>t_clients := tbl_delete (\<lambda>r. clm_ID r = i) (t_clients d),
       t_user_clients := tbl_delete (\<lambda>r. ucm_ClientID r = i) (t_user_clients d),
       t_campaigns := tbl_delete (\<lambda>r. cpm_ClientID r = i) (t_campaigns d),
       t_media := tbl_delete (\<lambda>r. mm_ClientID r = i) (t_media d),
       t_contents := tbl_delete (\<lambda>r. cm_MediaID r \<in> medias) (t_contents d),
       t_results := tbl_delete (\<lambda>r. r_ContentID r \<in> contents) (t_results d),
       t_activities := tbl_delete (\<lambda>r. a_ClientID r = i) (t_activities d),
       t_users := List.map (\<lambda>u. if u_CurrentClientID u = Some i then u\<lparr>u_CurrentClientID := None\<rparr> else u)
         (t_users d)\<rparr>)"

definition client_Delete :: "uuid \<Rightarrow> unit app" where
  "client_Delete i = thenC (dbWrite (\<lambda>d. Inr (drop_members i d)))
     (dbWrite (\<lambda>d. Inr (cascade_client i d)))"

definition client_GetByID :: "uuid \<Rightarrow> client option app" where
  "client_GetByID i = bindC (dbRead (\<lambda>d. tbl_first clm_ID (\<lambda>r. clm_ID r = i) (t_clients d)))
     (\<lambda>row. case row of None \<Rightarrow> returnC None
       | Some r \<Rightarrow> bindC (dbRead (members_of i)) (\<lambda>ids. returnC (Some (clientDomainFromModel r ids))))"

section \<open>Users and workspaces\<close>

definition user_get :: "uuid \<Rightarrow> db \<Rightarrow> user option" where
  "user_get i d = map_option userModel (tbl_first u_ID (\<lambda>u. u_ID u = i) (t_users d))"

definition user_put :: "user \<Rightarrow> db \<Rightarrow> db" where
  "user_put u d = d\<lparr>t_users := tbl_save u_ID (userModel u) (t_users d)\<rparr>"

definition user_Save :: "user \<Rightarrow> unit app" where
  "user_Save u = dbWrite (\<lambda>d.
     if u_ClerkID u \<in> u_ClerkID ` set (t_users d) \<or> u_Email u \<in> u_Email ` set (t_users d)
     then Inl (Sentinel GormErrDuplicatedKey)
     else case tbl_create u_ID (userModel u) (t_users d) of
       Inl e \<Rightarrow> Inl e | Inr t \<Rightarrow> Inr (d\<lparr>t_users := t\<rparr>))"

definition user_Update :: "user \<Rightarrow> unit app" where
  "user_Update u = dbWrite (\<lambda>d. Inr (user_put u d))"

definition user_GetByID :: "uuid \<Rightarrow> user option app" where
  "user_GetByID i = dbRead (user_get i)"

definition user_GetByClerkID :: "string \<Rightarrow> user option app" where
  "user_GetByClerkID clerkID = dbRead (\<lambda>d. map_option userModel
     (tbl_first u_ID (\<lambda>u. u_ClerkID u = clerkID) (t_users d)))"

text \<open>Deleting a user takes the memberships, and the owned workspace with its clients, unless an
  invoice refers to that workspace (\<open>ON DELETE RESTRICT\<close>).\<close>

definition cascade_user :: "uuid \<Rightarrow> db \<Rightarrow> db res" where
  "cascade_user i d =
    (let ws = w_ID ` {w \<in> set (t_workspaces d). w_OwnerUserID w = i};
         cls = List.map clm_ID (List.filter (\<lambda>r. clm_WorkspaceID r \<in> ws) (t_clients d)) in
     if \<exists>v \<in> set (t_invoices d). i_WorkspaceID v \<in> ws then Inl (Err ''foreign key violation'')
     else let d = fold cascade_client cls d in
       Inr (d\<lparr>t_users := tbl_delete (\<lambda>u. u_ID u = i) (t_users d),
              t_user_clients := tbl_delete (\<lambda>r. ucm_UserID r = i) (t_user_clients d),
              t_workspaces := tbl_delete (\<lambda>w. w_OwnerUserID w = i) (t_workspaces d),
              t_activities := List.map (\<lambda>a. if a_ActorUserID a = Some i
                 then a\<lparr>a_ActorUserID := None\<rparr> else a) (t_activities d)\<rparr>))"

definition user_DeleteByClerkID :: "string \<Rightarrow> unit app" where
  "user_DeleteByClerkID clerkID = dbWrite (\<lambda>d.
     case tbl_first u_ID (\<lambda>u. u_ClerkID u = clerkID) (t_users d) of
       None \<Rightarrow> Inr d | Some u \<Rightarrow> cascade_user (u_ID u) d)"

definition workspace_get :: "uuid \<Rightarrow> db \<Rightarrow> workspace option" where
  "workspace_get i d = map_option workspaceModel (tbl_first w_ID (\<lambda>w. w_ID w = i) (t_workspaces d))"

definition workspace_put :: "workspace \<Rightarrow> db \<Rightarrow> db" where
  "workspace_put w d = d\<lparr>t_workspaces := tbl_save w_ID (workspaceModel w) (t_workspaces d)\<rparr>"

definition workspace_Save :: "workspace \<Rightarrow> unit app" where
  "workspace_Save w = dbWrite (\<lambda>d.
     if w_OwnerUserID w \<in> w_OwnerUserID ` set (t_workspaces d) then Inl (Sentinel GormErrDuplicatedKey)
     else case tbl_create w_ID (workspaceModel w) (t_workspaces d) of
       Inl e \<Rightarrow> Inl e | Inr t \<Rightarrow> Inr (d\<lparr>t_workspaces := t\<rparr>))"

definition workspace_Update :: "workspace \<Rightarrow> unit app" where
  "workspace_Update w = dbWrite (\<lambda>d. Inr (workspace_put w d))"

definition workspace_GetByID :: "uuid \<Rightarrow> workspace option app" where
  "workspace_GetByID i = dbRead (workspace_get i)"

definition workspace_GetByOwnerUserID :: "uuid \<Rightarrow> workspace option app" where
  "workspace_GetByOwnerUserID i = dbRead (\<lambda>d. map_option workspaceModel
     (tbl_first w_ID (\<lambda>w. w_OwnerUserID w = i) (t_workspaces d)))"

definition workspace_GetBySubscriptionID :: "uuid \<Rightarrow> workspace option app" where
  "workspace_GetBySubscriptionID i = dbRead (\<lambda>d. map_option workspaceModel
     (tbl_first w_ID (\<lambda>w. w_SubscriptionID w = Some i) (t_workspaces d)))"

text \<open>\<open>LIMIT 1\<close> without an order: the first row of the table stands for the one PostgreSQL picks.\<close>

definition workspace_GetByStripeCustomerID :: "string \<Rightarrow> workspace option app" where
  "workspace_GetByStripeCustomerID customerID =
     bindC (dbRead (\<lambda>d. List.map s_ID (take 1
         (List.filter (\<lambda>s. s_StripeCustomerID s = customerID) (t_subscriptions d)))))
       (\<lambda>ids. case ids of [] \<Rightarrow> returnC None | i # _ \<Rightarrow> workspace_GetBySubscriptionID i)"

section \<open>Subscriptions, plans and invoices\<close>

definition subscription_get :: "uuid \<Rightarrow> db \<Rightarrow> subscription option" where
  "subscription_get i d = map_option subscriptionModel
     (tbl_first s_ID (\<lambda>s. s_ID s = i) (t_subscriptions d))"

definition subscription_put :: "subscription \<Rightarrow> db \<Rightarrow> db" where
  "subscription_put s d = d\<lparr>t_subscriptions := tbl_save s_ID (subscriptionModel s) (t_subscriptions d)\<rparr>"

definition subscription_Save :: "subscription \<Rightarrow> unit app" where
  "subscription_Save s = dbWrite (\<lambda>d.
     case tbl_create s_ID (subscriptionModel s) (t_subscriptions d) of
       Inl e \<Rightarrow> Inl e | Inr t \<Rightarrow> Inr (d\<lparr>t_subscriptions := t\<rparr>))"

definition subscription_Update :: "subscription \<Rightarrow> unit app" where
  "subscription_Update s = dbWrite (\<lambda>d. Inr (subscription_put s d))"

definition subscription_GetByID :: "uuid \<Rightarrow> subscription option app" where
  "subscription_GetByID i = dbRead (subscription_get i)"

definition subscription_by_stripe :: "string \<Rightarrow> db \<Rightarrow> subscription option" where
  "subscription_by_stripe stripeID d = map_option subscriptionModel
     (tbl_first s_ID (\<lambda>s. s_StripeSubscriptionID s = stripeID) (t_subscriptions d))"

definition GetByStripeSubscriptionID :: "string \<Rightarrow> subscription option app" where
  "GetByStripeSubscriptionID stripeID = dbRead (subscription_by_stripe stripeID)"

definition subscription_by_customer :: "string \<Rightarrow> db \<Rightarrow> subscription option" where
  "subscription_by_customer customerID d = map_option subscriptionModel
     (tbl_first s_ID (\<lambda>s. s_StripeCustomerID s = customerID) (t_subscriptions d))"

definition GetByStripeCustomerID :: "string \<Rightarrow> subscription option app" where
  "GetByStripeCustomerID customerID = dbRead (subscription_by_customer customerID)"

definition plan_Save :: "plan \<Rightarrow> unit app" where
  "plan_Save p = dbWrite (\<lambda>d. if p_Slug p \<in> p_Slug ` set (t_plans d)
     then Inl (Sentinel PlanErrDuplicateSlug)
     else case tbl_create p_ID p (t_plans d) of
       Inl e \<Rightarrow> Inl (Sentinel PlanErrDuplicateSlug) | Inr t \<Rightarrow> Inr (d\<lparr>t_plans := t\<rparr>))"

definition plan_Update :: "plan \<Rightarrow> unit app" where
  "plan_Update p = dbWrite (\<lambda>d. if \<exists>q \<in> set (t_plans d). p_Slug q = p_Slug p \<and> p_ID q \<noteq> p_ID p
     then Inl (Sentinel PlanErrDuplicateSlug)
     else Inr (d\<lparr>t_plans := tbl_save p_ID p (t_plans d)\<rparr>))"

definition plan_get :: "uuid \<Rightarrow> db \<Rightarrow> plan option" where
  "plan_get i d = tbl_first p_ID (\<lambda>p. p_ID p = i) (t_plans d)"

definition plan_by_slug :: "string \<Rightarrow> db \<Rightarrow> plan option" where
  "plan_by_slug slug d = tbl_first p_ID (\<lambda>p. p_Slug p = slug) (t_plans d)"

definition plan_by_price :: "string \<Rightarrow> db \<Rightarrow> plan option" where
  "plan_by_price price d = tbl_first p_ID (\<lambda>p. p_StripePriceID p = price) (t_plans d)"

definition plan_GetByID :: "uuid \<Rightarrow> plan option app" where
  "plan_GetByID i = dbRead (plan_get i)"

definition plan_GetBySlug :: "string \<Rightarrow> plan option app" where
  "plan_GetBySlug slug = dbRead (plan_by_slug slug)"

definition plan_GetByStripePriceID :: "string \<Rightarrow> plan option app" where
  "plan_GetByStripePriceID price = dbRead (plan_by_price price)"

definition quota_get :: "uuid \<Rightarrow> db \<Rightarrow> quota option" where
  "quota_get i d = tbl_first q_ID (\<lambda>q. q_ID q = i) (t_quotas d)"

definition quota_GetByID :: "uuid \<Rightarrow> quota option app" where
  "quota_GetByID i = dbRead (quota_get i)"

definition quota_Save :: "quota \<Rightarrow> unit app" where
  "quota_Save q = dbWrite (\<lambda>d. case tbl_create q_ID q (t_quotas d) of
     Inl e \<Rightarrow> Inl e | Inr t \<Rightarrow> Inr (d\<lparr>t_quotas := t\<rparr>))"

definition quota_Update :: "quota \<Rightarrow> unit app" where
  "quota_Update q = dbWrite (\<lambda>d. Inr (d\<lparr>t_quotas := tbl_save q_ID q (t_quotas d)\<rparr>))"

definition invoice_by_stripe :: "string \<Rightarrow> db \<Rightarrow> invoice option" where
  "invoice_by_stripe stripeID d = map_option invoiceModel
     (tbl_first i_ID (\<lambda>i. i_StripeInvoiceID i = stripeID) (t_invoices d))"

definition GetByStripeInvoiceID :: "string \<Rightarrow> invoice option app" where
  "GetByStripeInvoiceID stripeID = dbRead (invoice_by_stripe stripeID)"

text \<open>The upsert takes over the identifier and the creation date of the stored invoice.\<close>

definition UpsertByStripeInvoiceID :: "invoice \<Rightarrow> invoice app" where
  "UpsertByStripeInvoiceID iv = bindC (GetByStripeInvoiceID (i_StripeInvoiceID iv)) (\<lambda>existing.
     case existing of
       None \<Rightarrow> thenC (dbWrite (\<lambda>d. case tbl_create i_ID (invoiceModel iv) (t_invoices d) of
           Inl e \<Rightarrow> Inl e | Inr t \<Rightarrow> Inr (d\<lparr>t_invoices := t\<rparr>))) (returnC iv)
     | Some ex \<Rightarrow>
         (let iv = iv\<lparr>i_ID := i_ID ex, i_CreatedAt := i_CreatedAt ex\<rparr> in
          thenC (dbWrite (\<lambda>d. Inr (d\<lparr>t_invoices := tbl_save i_ID (invoiceModel iv) (t_invoices d)\<rparr>)))
            (returnC iv)))"

section \<open>The outbox\<close>

definition outbox_row :: "domain_event \<Rightarrow> outbox_event" where
  "outbox_row e = \<lparr>o_ID = EventID e, o_AggregateID = AggregateID e, o_EventType = EventType e,
     o_Payload = e, o_CreatedAt = OccurredAt e, o_PublishedAt = None\<rparr>"

text \<open>\<open>ON CONFLICT DO NOTHING\<close>: an identifier that is already there is skipped.\<close>

fun outbox_append :: "outbox_event list \<Rightarrow> domain_event list \<Rightarrow> outbox_event list" where
  "outbox_append t [] = t"
| "outbox_append t (e # es) =
     (if EventID e \<in> o_ID ` set t then outbox_append t es else outbox_append (t @ [outbox_row e]) es)"

definition outbox_put :: "domain_event list \<Rightarrow> db \<Rightarrow> db" where
  "outbox_put es d = d\<lparr>t_outbox := outbox_append (t_outbox d) es\<rparr>"

definition StoreEvents :: "domain_event list \<Rightarrow> unit app" where
  "StoreEvents es = (if es = [] then returnC () else dbWrite (\<lambda>d. Inr (outbox_put es d)))"

definition unpublished :: "int \<Rightarrow> db \<Rightarrow> outbox_event list" where
  "unpublished limit d = take (nat limit) (sort_key o_CreatedAt
     (List.filter (\<lambda>o'. o_PublishedAt o' = None) (t_outbox d)))"

definition FetchUnpublished :: "int \<Rightarrow> outbox_event list app" where
  "FetchUnpublished limit = poolRead (unpublished limit)"

definition outbox_mark :: "gotime \<Rightarrow> uuid list \<Rightarrow> db \<Rightarrow> db" where
  "outbox_mark now ids d = d\<lparr>t_outbox := List.map (\<lambda>o'. if o_ID o' \<in> set ids
     then o'\<lparr>o_PublishedAt := Some now\<rparr> else o') (t_outbox d)\<rparr>"

definition MarkPublished :: "uuid list \<Rightarrow> unit app" where
  "MarkPublished ids = (if ids = [] then returnC ()
     else bindC nowC (\<lambda>now. dbWrite (\<lambda>d. Inr (outbox_mark now ids d))))"

section \<open>Processed events\<close>

definition MarkProcessed :: "uuid \<Rightarrow> string \<Rightarrow> bool app" where
  "MarkProcessed eventID handlerName = bindC nowC (\<lambda>now.
     tryC (dbWrite (\<lambda>d. if (eventID, handlerName) \<in>
                (\<lambda>p. (pe_EventID p, pe_HandlerName p)) ` set (t_processed d)
              then Inl (Sentinel GormErrDuplicatedKey)
              else Inr (d\<lparr>t_processed := t_processed d @ [\<lparr>pe_EventID = eventID,
                pe_HandlerName = handlerName, pe_ProcessedAt = now\<rparr>]\<rparr>)))
       (\<lambda>e. if errors_is e GormErrDuplicatedKey then returnC False else failC e)
       (\<lambda>_. returnC True))"

definition UnmarkProcessed :: "uuid \<Rightarrow> string \<Rightarrow> unit app" where
  "UnmarkProcessed eventID handlerName = dbWrite (\<lambda>d. Inr (d\<lparr>t_processed :=
     tbl_delete (\<lambda>p. pe_EventID p = eventID \<and> pe_HandlerName p = handlerName) (t_processed d)\<rparr>))"

section \<open>Reading what is committed\<close>

definition clientRead_FindByID :: "uuid \<Rightarrow> client option app" where
  "clientRead_FindByID i = bindC (poolRead (\<lambda>d. tbl_first clm_ID (\<lambda>r. clm_ID r = i) (t_clients d)))
     (\<lambda>row. case row of None \<Rightarrow> returnC None
       | Some r \<Rightarrow> bindC (poolRead (members_of i)) (\<lambda>ids. returnC (Some (clientDomainFromModel r ids))))"

definition workspaceRead_FindByID :: "uuid \<Rightarrow> workspace option app" where
  "workspaceRead_FindByID i = poolRead (workspace_get i)"

text \<open>A plan view carries the quota of the plan, a subscription view its plan view.\<close>

definition toPlanViewWithQuota :: "plan \<Rightarrow> (plan \<times> quota option) app" where
  "toPlanViewWithQuota p = bindC (poolRead (quota_get (p_QuotaID p))) (\<lambda>q. returnC (p, q))"

definition planRead_FindByID :: "uuid \<Rightarrow> (plan \<times> quota option) option app" where
  "planRead_FindByID i = bindC (poolRead (plan_get i)) (\<lambda>p. case p of None \<Rightarrow> returnC None
     | Some p \<Rightarrow> bindC (toPlanViewWithQuota p) (\<lambda>v. returnC (Some v)))"

definition planRead_FindBySlug :: "string \<Rightarrow> (plan \<times> quota option) option app" where
  "planRead_FindBySlug slug = bindC (poolRead (plan_by_slug slug)) (\<lambda>p. case p of None \<Rightarrow> returnC None
     | Some p \<Rightarrow> bindC (toPlanViewWithQuota p) (\<lambda>v. returnC (Some v)))"

definition subscriptionRead_FindByID ::
    "uuid \<Rightarrow> (subscription \<times> (plan \<times> quota option) option) option app" where
  "subscriptionRead_FindByID i = bindC (poolRead (subscription_get i)) (\<lambda>s. case s of
       None \<Rightarrow> returnC None
     | Some s \<Rightarrow> bindC (planRead_FindByID (s_PlanID s)) (\<lambda>p. returnC (Some (s, p))))"

definition in_workspace :: "uuid \<Rightarrow> db \<Rightarrow> uuid \<Rightarrow> bool" where
  "in_workspace workspaceID d clientID \<longleftrightarrow>
     (\<exists>r \<in> set (t_clients d). clm_ID r = clientID \<and> clm_WorkspaceID r = workspaceID)"

definition count_campaigns :: "uuid \<Rightarrow> db \<Rightarrow> int" where
  "count_campaigns workspaceID d = int (length (List.filter
     (\<lambda>r. in_workspace workspaceID d (cpm_ClientID r) \<and> \<not> cpm_IsDefault r) (t_campaigns d)))"

definition CountNonDefaultByWorkspaceID :: "uuid \<Rightarrow> int app" where
  "CountNonDefaultByWorkspaceID workspaceID = poolRead (count_campaigns workspaceID)"

text \<open>The media of a content row, deleted or not.\<close>

definition any_media_row :: "uuid \<Rightarrow> db \<Rightarrow> media_model option" where
  "any_media_row i d = tbl_first mm_ID (\<lambda>r. mm_ID r = i) (t_media d)"

definition workspace_content :: "uuid \<Rightarrow> db \<Rightarrow> content_model \<Rightarrow> bool" where
  "workspace_content workspaceID d r = (case any_media_row (cm_MediaID r) d of
     None \<Rightarrow> False | Some m \<Rightarrow> in_workspace workspaceID d (mm_ClientID m))"

definition quota_unit :: "gotime \<Rightarrow> gotime \<Rightarrow> db \<Rightarrow> content_model \<Rightarrow> bool" where
  "quota_unit from to d r \<longleftrightarrow> cm_Status r = ContentAnalyzing \<or>
     (cm_Status r = ContentAnalyzed \<and>
      (let t = (case any_media_row (cm_MediaID r) d of None \<Rightarrow> cm_UpdatedAt r
            | Some m \<Rightarrow> (case mm_AnalyzedAt m of None \<Rightarrow> cm_UpdatedAt r | Some t \<Rightarrow> t)) in
       from \<le> t \<and> t < to))"

definition count_units :: "uuid \<Rightarrow> gotime \<Rightarrow> gotime \<Rightarrow> db \<Rightarrow> int" where
  "count_units workspaceID from to d = int (length (List.filter
     (\<lambda>r. workspace_content workspaceID d r \<and> quota_unit from to d r) (t_contents d)))"

definition CountQuotaUnitsByWorkspaceIDInPeriod :: "uuid \<Rightarrow> gotime \<Rightarrow> gotime \<Rightarrow> int app" where
  "CountQuotaUnitsByWorkspaceIDInPeriod workspaceID from to = poolRead (count_units workspaceID from to)"

definition count_status :: "uuid \<Rightarrow> content_status \<Rightarrow> db \<Rightarrow> int" where
  "count_status workspaceID st d = int (length (List.filter
     (\<lambda>r. workspace_content workspaceID d r \<and> cm_Status r = st) (t_contents d)))"

definition CountByWorkspaceIDAndStatus :: "uuid \<Rightarrow> content_status \<Rightarrow> int app" where
  "CountByWorkspaceIDAndStatus workspaceID st = poolRead (count_status workspaceID st)"

definition storage_bytes :: "uuid \<Rightarrow> db \<Rightarrow> int" where
  "storage_bytes workspaceID d =
     sum_list (List.map (\<lambda>m. case mm_SizeBytes m of None \<Rightarrow> 0 | Some s \<Rightarrow> s)
       (List.filter (\<lambda>m. in_workspace workspaceID d (mm_ClientID m)) (t_media d))) +
     sum_list (List.map (\<lambda>r. case cm_SizeBytes r of None \<Rightarrow> 0 | Some s \<Rightarrow> s)
       (List.filter (\<lambda>r. workspace_content workspaceID d r \<and> cm_FrameIndex r \<noteq> None) (t_contents d)))"

definition SumStorageBytesByWorkspaceID :: "uuid \<Rightarrow> int app" where
  "SumStorageBytesByWorkspaceID workspaceID = poolRead (storage_bytes workspaceID)"

section \<open>Laws of the stores\<close>

definition media_table :: "db \<Rightarrow> bool" where
  "media_table d \<longleftrightarrow> keys_distinct mm_ID (t_media d) \<and> set (t_media d) \<subseteq> range mediaModelFromDomain"

lemma media_get_put: "media_table d \<Longrightarrow> media_get i (media_put m d) =
    (if i = m_ID m then (if m_DeletedAt m = None then Some (media_stored m) else None) else media_get i d)"
  using media_rows.store.get_update [of "t_media d" i m]
  by (simp add: media_table_def media_get_def media_row_def media_put_def)

lemma media_get_stored: "media_table d \<Longrightarrow> media_get i d = Some m \<Longrightarrow>
    m_ID m = i \<and> media_stored m = m \<and> m_DeletedAt m = None"
  using media_rows.store.get_stored [of "t_media d" i m] media_rows.store.get_ident [of i "t_media d" m]
  by (simp add: media_table_def media_get_def media_row_def)

lemma media_table_put: "media_table d \<Longrightarrow> media_table (media_put m d)"
  using media_rows.store.inv_update [of "t_media d" m]
  by (simp add: media_table_def media_put_def)

lemma media_get_ID: "media_get i d = Some m \<Longrightarrow> m_ID m = i"
  using media_rows.store.get_ident [of i "t_media d" m] by (simp add: media_get_def media_row_def)

lemma media_row_put_other: "keys_distinct mm_ID (t_media d) \<Longrightarrow> i \<noteq> m_ID m \<Longrightarrow>
    media_row i (media_put m d) = media_row i d"
  using media_rows.first_key_save [of "t_media d" i "mediaModelFromDomain m"] media_rows.key_to [of m]
  by (simp add: media_row_def media_put_def)

lemma media_get_campaign: "campaign_get i d = Some c \<Longrightarrow> cp_ID c = i"
  using campaign_rows.store.get_ident [of i "t_campaigns d" c] by (simp add: campaign_get_def)

lemma contents_put_media: "media_row i (content_put c d) = media_row i d"
  by (simp add: media_row_def content_put_def)

definition content_table :: "db \<Rightarrow> bool" where
  "content_table d \<longleftrightarrow> keys_distinct cm_ID (t_contents d)"

lemma content_table_put: "content_table d \<Longrightarrow> content_table (content_put c d)"
  by (simp add: content_table_def content_put_def tbl_save_distinct)

lemma content_get_Some: "content_get i d = Some c \<longleftrightarrow>
    (\<exists>r. tbl_first cm_ID (\<lambda>r. cm_ID r = i \<and> media_row (cm_MediaID r) d \<noteq> None) (t_contents d) = Some r \<and>
      content_join d r = Some c)"
  by (simp add: content_get_def split: option.splits)

lemma content_get_row: "content_get i d = Some c \<Longrightarrow>
    \<exists>r m. r \<in> set (t_contents d) \<and> cm_ID r = i \<and> media_row (cm_MediaID r) d = Some m \<and>
      c = contentDomainFromModel r (mm_CampaignID m) (mm_ClientID m)"
  unfolding content_get_Some by (auto dest!: tbl_first_Some simp: content_join_def)

lemma content_get_ID: "content_get i d = Some c \<Longrightarrow> c_ID c = i"
  by (auto dest!: content_get_row simp: contentDomainFromModel_def)

lemma set_frame_order: "set (frame_order rows) = set rows"
  by (auto simp: frame_order_def Let_def)

lemma length_frame_order: "length (frame_order rows) = length rows"
  using sum_length_filter_compl [of "\<lambda>r. cm_FrameIndex r = None" "sort_key cm_CreatedAt rows"]
  by (simp add: frame_order_def Let_def)

lemma set_contents_of: "set (contents_of i d) = (case media_row i d of None \<Rightarrow> {}
    | Some m \<Rightarrow> (\<lambda>r. contentDomainFromModel r (mm_CampaignID m) (mm_ClientID m)) `
        {r \<in> set (t_contents d). cm_MediaID r = i})"
  by (auto simp: contents_of_def set_frame_order split: option.splits)

section \<open>The outbox keeps what it has\<close>

lemma outbox_append_ids: "o_ID ` set (outbox_append t es) = o_ID ` set t \<union> EventID ` set es"
  by (induction t es rule: outbox_append.induct) (auto simp: outbox_row_def)

lemma outbox_append_prefix: "\<exists>ys. outbox_append t es = t @ List.map outbox_row ys \<and> subseq ys es"
proof (induction t es rule: outbox_append.induct)
  case (1 t)
  show ?case by (rule exI [of _ "[]"]) simp
next
  case (2 t e es)
  show ?case
  proof (cases "EventID e \<in> o_ID ` set t")
    case True
    then obtain ys where "outbox_append t es = t @ List.map outbox_row ys" "subseq ys es" using 2 by auto
    then show ?thesis using True by (auto intro: exI [of _ ys])
  next
    case False
    then obtain ys where "outbox_append (t @ [outbox_row e]) es = (t @ [outbox_row e]) @ List.map outbox_row ys"
      "subseq ys es" using 2 by auto
    then show ?thesis using False by (auto intro: exI [of _ "e # ys"])
  qed
qed

lemma outbox_append_distinct: "distinct (List.map o_ID t) \<Longrightarrow> distinct (List.map o_ID (outbox_append t es))"
  by (induction t es rule: outbox_append.induct) (auto simp: outbox_row_def)

lemma outbox_append_known: "EventID ` set es \<subseteq> o_ID ` set t \<Longrightarrow> outbox_append t es = t"
  by (induction es arbitrary: t) auto

lemma outbox_append_fresh: "distinct (List.map EventID es) \<Longrightarrow> EventID ` set es \<inter> o_ID ` set t = {} \<Longrightarrow>
    outbox_append t es = t @ List.map outbox_row es"
  by (induction es arbitrary: t) (auto simp: outbox_row_def)

lemma outbox_append_idem: "outbox_append (outbox_append t es) es = outbox_append t es"
  by (rule outbox_append_known) (simp add: outbox_append_ids)

lemma outbox_append_append: "outbox_append t (xs @ ys) = outbox_append (outbox_append t xs) ys"
  by (induction t xs rule: outbox_append.induct) simp_all

section \<open>Operations of the repositories run in a transaction\<close>

lemmas repository_defs = media_Save_def media_Update_def media_GetByID_def media_GetByObjectKey_def
  ListProcessingUpdatedBefore_def ListActiveByCampaignID_def content_Save_def content_Update_def
  content_GetByID_def content_GetByObjectKey_def ListByMediaID_def result_Upsert_def
  FindByContentID_def campaign_Save_def campaign_Update_def campaign_GetByID_def
  campaign_GetByIDForUpdate_def GetDefaultByClientID_def GetByBackgroundPendingKey_def
  ReplaceMembers_def client_Save_def client_Update_def client_Delete_def client_GetByID_def
  user_Save_def user_Update_def user_GetByID_def user_GetByClerkID_def user_DeleteByClerkID_def
  workspace_Save_def workspace_Update_def workspace_GetByID_def workspace_GetByOwnerUserID_def
  workspace_GetBySubscriptionID_def workspace_GetByStripeCustomerID_def
  subscription_Save_def subscription_Update_def subscription_GetByID_def
  GetByStripeSubscriptionID_def GetByStripeCustomerID_def plan_GetByID_def plan_GetBySlug_def
  plan_GetByStripePriceID_def quota_GetByID_def GetByStripeInvoiceID_def
  UpsertByStripeInvoiceID_def StoreEvents_def

lemma tx_safe_list [tx_safe_intros]:
  "tx_safe c \<Longrightarrow> (\<And>a as. tx_safe (f a as)) \<Longrightarrow> tx_safe (case xs of [] \<Rightarrow> c | a # as \<Rightarrow> f a as)"
  by (cases xs) auto

lemma tx_safe_repositories [tx_safe_intros]:
  "tx_safe (media_Save m)" "tx_safe (media_Update m)" "tx_safe (media_GetByID i)"
  "tx_safe (media_GetByObjectKey k)" "tx_safe (ListActiveByCampaignID i)"
  "tx_safe (content_Save c)" "tx_safe (content_Update c)" "tx_safe (content_GetByID i)"
  "tx_safe (content_GetByObjectKey k)" "tx_safe (ListByMediaID i)"
  "tx_safe (result_Upsert x)" "tx_safe (FindByContentID i)"
  "tx_safe (campaign_Save cp)" "tx_safe (campaign_Update cp)" "tx_safe (campaign_GetByID i)"
  "tx_safe (campaign_GetByIDForUpdate i)" "tx_safe (GetDefaultByClientID i)"
  "tx_safe (client_Save cl)" "tx_safe (client_Update cl)" "tx_safe (client_Delete i)"
  "tx_safe (client_GetByID i)" "tx_safe (ReplaceMembers i us)"
  "tx_safe (user_Save u)" "tx_safe (user_Update u)" "tx_safe (user_GetByID i)"
  "tx_safe (user_GetByClerkID k)" "tx_safe (user_DeleteByClerkID k)"
  "tx_safe (workspace_Save v)" "tx_safe (workspace_Update v)" "tx_safe (workspace_GetByID i)"
  "tx_safe (workspace_GetByOwnerUserID i)" "tx_safe (workspace_GetBySubscriptionID i)"
  "tx_safe (workspace_GetByStripeCustomerID k)"
  "tx_safe (subscription_Save s)" "tx_safe (subscription_Update s)" "tx_safe (subscription_GetByID i)"
  "tx_safe (GetByStripeSubscriptionID k)" "tx_safe (GetByStripeCustomerID k)"
  "tx_safe (plan_GetByID i)" "tx_safe (plan_GetBySlug k)" "tx_safe (plan_GetByStripePriceID k)"
  "tx_safe (quota_GetByID i)" "tx_safe (UpsertByStripeInvoiceID iv)" "tx_safe (StoreEvents es)"
  unfolding repository_defs by (intro tx_safe_intros)+

section \<open>Contents after a write\<close>

definition label_stored :: "content \<Rightarrow> bool" where
  "label_stored c \<longleftrightarrow> labelFromStringPtr (labelStringPtr (c_Label c)) = c_Label c"

lemma label_stored_valid: "(\<And>l. c_Label c = Some l \<Longrightarrow> ValidateLabel l = Inr ()) \<Longrightarrow> label_stored c"
  unfolding label_stored_def by (rule labelStringPtr_round_trip) simp

lemma label_stored_row: "label_stored (contentDomainFromModel r cp cl)"
  by (auto simp: label_stored_def contentDomainFromModel_def labelFromStringPtr_def labelStringPtr_def
      label_string_of_string split: option.splits)

lemma content_get_label: "content_get i d = Some c \<Longrightarrow> label_stored c"
  using label_stored_row by (auto dest!: content_get_row)

lemma content_row_back: "label_stored c \<Longrightarrow>
    contentDomainFromModel (contentModelFromDomain c) (c_CampaignID c) (c_ClientID c) = c\<lparr>c_events := []\<rparr>"
  by (simp add: contentDomainFromModel_def contentModelFromDomain_def label_stored_def)

text \<open>Two contents stand for the same row of the same media.\<close>

definition same_content :: "content \<Rightarrow> content \<Rightarrow> bool" where
  "same_content c c' \<longleftrightarrow> c_ID c' = c_ID c \<and> c_MediaID c' = c_MediaID c \<and>
     c_CampaignID c' = c_CampaignID c \<and> c_ClientID c' = c_ClientID c"

lemma contentModel_sel [simp]: "cm_ID (contentModelFromDomain c) = c_ID c"
    "cm_MediaID (contentModelFromDomain c) = c_MediaID c" "cm_Status (contentModelFromDomain c) = c_Status c"
  by (simp_all add: contentModelFromDomain_def)

lemma contentDomain_sel [simp]: "c_ID (contentDomainFromModel r cp cl) = cm_ID r"
    "c_MediaID (contentDomainFromModel r cp cl) = cm_MediaID r"
    "c_Status (contentDomainFromModel r cp cl) = cm_Status r"
    "c_CampaignID (contentDomainFromModel r cp cl) = cp" "c_ClientID (contentDomainFromModel r cp cl) = cl"
    "c_events (contentDomainFromModel r cp cl) = []"
  by (simp_all add: contentDomainFromModel_def)

lemma content_get_put:
  assumes t: "content_table d" and g: "content_get i d = Some c" and s: "same_content c c'"
    and l: "label_stored c'"
  shows "content_get j (content_put c' d) = (if j = i then Some (c'\<lparr>c_events := []\<rparr>) else content_get j d)"
proof -
  obtain r m where r: "r \<in> set (t_contents d)" "cm_ID r = i" "media_row (cm_MediaID r) d = Some m"
      "c = contentDomainFromModel r (mm_CampaignID m) (mm_ClientID m)"
    using content_get_row [OF g] by blast
  let ?row = "contentModelFromDomain c'" and ?t = "tbl_save cm_ID (contentModelFromDomain c') (t_contents d)"
  have k: "keys_distinct cm_ID (t_contents d)" using t by (simp add: content_table_def)
  have k': "keys_distinct cm_ID ?t" by (rule tbl_save_distinct [OF k])
  have rows: "set ?t = insert ?row {q \<in> set (t_contents d). cm_ID q \<noteq> c_ID c'}"
    using set_tbl_save [OF k, of ?row] by simp
  have c': "c_ID c' = i" "c_MediaID c' = cm_MediaID r" "c_CampaignID c' = mm_CampaignID m"
      "c_ClientID c' = mm_ClientID m"
    using s r by (simp_all add: same_content_def)
  let ?P = "\<lambda>j q. cm_ID q = j \<and> media_row (cm_MediaID q) d \<noteq> None"
  have put: "content_get j (content_put c' d) = (case tbl_first cm_ID (?P j) ?t of None \<Rightarrow> None
      | Some q \<Rightarrow> content_join d q)"
    by (simp add: content_get_def content_put_def media_row_def content_join_def
        cong: option.case_cong)
  show ?thesis
  proof (cases "j = i")
    case True
    have "tbl_first cm_ID (?P j) ?t = Some ?row"
      by (rule tbl_first_key [OF k']) (use rows c' r True in auto)
    then show ?thesis
      using True put c' r content_row_back [OF l] by (simp add: content_join_def)
  next
    case False
    have "tbl_first cm_ID (?P j) ?t = tbl_first cm_ID (?P j) (t_contents d)"
    proof (cases "tbl_first cm_ID (?P j) (t_contents d)")
      case None
      then have "tbl_first cm_ID (?P j) ?t = None"
        unfolding tbl_first_None using rows c' False by auto
      then show ?thesis using None by simp
    next
      case (Some q)
      have "tbl_first cm_ID (?P j) ?t = Some q"
        by (rule tbl_first_key [OF k']) (use tbl_first_Some [OF Some] rows c' False in auto)
      then show ?thesis using Some by simp
    qed
    then show ?thesis using put False by (simp add: content_get_def)
  qed
qed

lemma contents_of_put:
  assumes t: "content_table d" and g: "content_get i d = Some c" and s: "same_content c c'"
    and l: "label_stored c'"
  shows "set (contents_of j (content_put c' d)) =
    (if j = c_MediaID c then insert (c'\<lparr>c_events := []\<rparr>) {x \<in> set (contents_of j d). c_ID x \<noteq> i}
     else set (contents_of j d))"
proof -
  obtain r m where r: "r \<in> set (t_contents d)" "cm_ID r = i" "media_row (cm_MediaID r) d = Some m"
      "c = contentDomainFromModel r (mm_CampaignID m) (mm_ClientID m)"
    using content_get_row [OF g] by blast
  have k: "keys_distinct cm_ID (t_contents d)" using t by (simp add: content_table_def)
  have c': "c_ID c' = i" "c_MediaID c' = cm_MediaID r" "c_CampaignID c' = mm_CampaignID m"
      "c_ClientID c' = mm_ClientID m"
    using s r by (simp_all add: same_content_def)
  have rows: "set (t_contents (content_put c' d)) =
      insert (contentModelFromDomain c') {q \<in> set (t_contents d). cm_ID q \<noteq> i}"
    using set_tbl_save [OF k, of "contentModelFromDomain c'"] c' by (simp add: content_put_def)
  show ?thesis
  proof (cases "j = c_MediaID c")
    case True
    then have m: "media_row j d = Some m" using r by simp
    have "contentDomainFromModel (contentModelFromDomain c') (mm_CampaignID m) (mm_ClientID m) = c'\<lparr>c_events := []\<rparr>"
      using content_row_back [OF l] c' by simp
    moreover have "{q \<in> insert (contentModelFromDomain c') {q \<in> set (t_contents d). cm_ID q \<noteq> i}. cm_MediaID q = j} =
        insert (contentModelFromDomain c') {q \<in> set (t_contents d). cm_MediaID q = j \<and> cm_ID q \<noteq> i}"
      using True c' r by auto
    ultimately show ?thesis
      unfolding set_contents_of contents_put_media rows using True m by auto
  next
    case False
    have "cm_MediaID q \<noteq> j" if "q \<in> set (t_contents d)" "cm_ID q = i" for q
      using keys_distinct_unique [OF k that(1) r(1)] that r False by auto
    then have "{q \<in> set (t_contents (content_put c' d)). cm_MediaID q = j} = {q \<in> set (t_contents d). cm_MediaID q = j}"
      unfolding rows using False c' r by auto
    then show ?thesis unfolding set_contents_of contents_put_media using False
      by (simp cong: option.case_cong)
  qed
qed

text \<open>A write of a media that keeps its campaign, its client and its life leaves the contents alone.\<close>

lemma media_row_put:
  assumes t: "keys_distinct mm_ID (t_media d)"
  shows "media_row i (media_put m d) = (if i = m_ID m
    then (if m_DeletedAt m = None then Some (mediaModelFromDomain m) else None) else media_row i d)"
  using media_rows.first_key_save [OF t, of i "mediaModelFromDomain m"] media_rows.key_to [of m]
    media_rows.live_to [of m]
  by (simp add: media_row_def media_put_def)

lemma mediaModel_sel [simp]: "mm_CampaignID (mediaModelFromDomain m) = m_CampaignID m"
    "mm_ClientID (mediaModelFromDomain m) = m_ClientID m"
  by (simp_all add: mediaModelFromDomain_def Let_def)

lemma content_get_media_put:
  assumes t: "keys_distinct mm_ID (t_media d)" and g: "media_get (m_ID m) d = Some m0"
    and "m_CampaignID m = m_CampaignID m0" "m_ClientID m = m_ClientID m0" "m_DeletedAt m = None"
  shows "content_get j (media_put m d) = content_get j d"
proof -
  obtain q where q: "media_row (m_ID m) d = Some q" "m0 = mediaDomainFromModel q"
    using g by (auto simp: media_get_def)
  have live: "(media_row i (media_put m d) = None) = (media_row i d = None)" for i
    using q assms by (simp add: media_row_put [OF t])
  have same: "map_option (\<lambda>x. contentDomainFromModel r (mm_CampaignID x) (mm_ClientID x)) (media_row i (media_put m d)) =
      map_option (\<lambda>x. contentDomainFromModel r (mm_CampaignID x) (mm_ClientID x)) (media_row i d)" for r i
    using q assms by (simp add: media_row_put [OF t] mediaDomainFromModel_def)
  have "t_contents (media_put m d) = t_contents d" by (simp add: media_put_def)
  then show ?thesis
    by (simp add: content_get_def content_join_def live same del: not_None_eq cong: option.case_cong)
qed

lemma outbox_put_reads [simp]:
  "media_get i (outbox_put es d) = media_get i d" "content_get i (outbox_put es d) = content_get i d"
  "contents_of i (outbox_put es d) = contents_of i d" "media_table (outbox_put es d) = media_table d"
  "content_table (outbox_put es d) = content_table d"
  by (simp_all add: outbox_put_def media_get_def media_row_def content_get_def content_join_def
      contents_of_def media_table_def content_table_def cong: option.case_cong)

lemma content_put_reads [simp]:
  "media_get i (content_put c d) = media_get i d" "media_table (content_put c d) = media_table d"
  by (simp_all add: media_get_def media_row_def content_put_def media_table_def)

lemma media_put_reads [simp]: "content_table (media_put m d) = content_table d"
  by (simp add: media_put_def content_table_def)

lemma contents_of_put_other:
  assumes t: "content_table d" and g: "content_get i d = Some c" and s: "same_content c c'"
    and j: "j \<noteq> c_MediaID c"
  shows "contents_of j (content_put c' d) = contents_of j d"
proof -
  obtain r m where r: "r \<in> set (t_contents d)" "cm_ID r = i" "c_MediaID c = cm_MediaID r"
    using content_get_row [OF g] by auto
  have k: "keys_distinct cm_ID (t_contents d)" using t by (simp add: content_table_def)
  have c': "c_ID c' = cm_ID r" "c_MediaID c' = cm_MediaID r"
    using s r content_get_ID [OF g] by (simp_all add: same_content_def)
  have "List.filter (\<lambda>q. cm_MediaID q = j) (List.map (\<lambda>q. if cm_ID q = cm_ID r then contentModelFromDomain c' else q) t)
      = List.filter (\<lambda>q. cm_MediaID q = j) t" if "set t \<subseteq> set (t_contents d)" for t
    using that
  proof (induction t)
    case (Cons q t)
    then have "cm_ID q = cm_ID r \<Longrightarrow> q = r" using keys_distinct_unique [OF k] r(1) by auto
    then show ?case using Cons j r c' by auto
  qed simp
  then have "List.filter (\<lambda>q. cm_MediaID q = j) (t_contents (content_put c' d)) =
      List.filter (\<lambda>q. cm_MediaID q = j) (t_contents d)"
    using r c' by (auto simp: content_put_def tbl_save_def image_iff)
  then show ?thesis by (simp add: contents_of_def contents_put_media cong: option.case_cong)
qed

lemma contents_of_media_put:
  assumes t: "keys_distinct mm_ID (t_media d)" and g: "media_get (m_ID m) d = Some m0"
    and s: "m_CampaignID m = m_CampaignID m0" "m_ClientID m = m_ClientID m0" "m_DeletedAt m = None"
  shows "contents_of j (media_put m d) = contents_of j d"
proof -
  obtain q where q: "media_row (m_ID m) d = Some q" "m0 = mediaDomainFromModel q"
    using g by (auto simp: media_get_def)
  have "t_contents (media_put m d) = t_contents d" by (simp add: media_put_def)
  then show ?thesis
    using q s by (cases "j = m_ID m") (simp_all add: contents_of_def media_row_put [OF t] mediaDomainFromModel_def
        cong: option.case_cong)
qed

lemma contents_of_media: "c \<in> set (contents_of i d) \<Longrightarrow> c_MediaID c = i"
  by (auto simp: set_contents_of split: option.splits)

lemma content_get_contents_of: "content_get i d = Some c \<Longrightarrow> c \<in> set (contents_of (c_MediaID c) d)"
  by (auto dest!: content_get_row simp: set_contents_of split: option.splits)

lemma wp_StoreEvents [simp]: "wp (StoreEvents es) Q E r w =
    (if es = [] then Q () w
     else (\<forall>e. en_fault r (wd_tick w) = Some e \<longrightarrow> E e (w\<lparr>wd_tick := Suc (wd_tick w)\<rparr>)) \<and>
       (en_fault r (wd_tick w) = None \<longrightarrow>
         Q () (set_db (outbox_put es (wd_db w)) (w\<lparr>wd_tick := Suc (wd_tick w)\<rparr>))))"
  by (simp add: StoreEvents_def)

lemma outbox_put_Nil [simp]: "outbox_put [] d = d"
  by (simp add: outbox_put_def)

end
