(* ===== verification/QuotaUsage.thy ===== *)
theory QuotaUsage
  imports Repositories
begin

text \<open>
  \<open>src/internal/application/query/subscription/get_quota_usage.go\<close> and
  \<open>src/internal/application/command/quota/assert_create_allowed.go\<close>: what a workspace has used of its
  plan, read from what is committed, and the guards that refuse an operation beyond the plan. The
  limits are \<open>integer\<close> columns, so no 64-bit product or sum below overflows; they are \<open>int\<close> here.
\<close>

section \<open>Usage\<close>

record quota_counter =
  qc_Used :: int
  qc_Max :: int
  qc_Left :: int

record quota_usage =
  qu_WorkspaceID :: uuid
  qu_Members :: quota_counter
  qu_Campaigns :: quota_counter
  qu_Verifications :: quota_counter
  qu_ConcurrentAnalyses :: quota_counter
  qu_Storage :: quota_counter
  qu_Limits :: quota
  qu_PeriodStart :: gotime
  qu_PeriodEnd :: gotime

definition quotaLeft :: "int \<Rightarrow> int \<Rightarrow> int" where
  "quotaLeft mx used = (let left = mx - used in if left < 0 then 0 else left)"

definition counter :: "int \<Rightarrow> int \<Rightarrow> quota_counter" where
  "counter mx used = \<lparr>qc_Used = used, qc_Max = mx, qc_Left = quotaLeft mx used\<rparr>"

definition quota_anchor :: "subscription \<Rightarrow> gotime" where
  "quota_anchor sub =
    (let anchor = s_QuotaPeriodStart sub;
         anchor = (if IsZero anchor then s_StartDate sub else anchor)
     in if IsZero anchor then s_CreatedAt sub else anchor)"

definition failed_to :: "string \<Rightarrow> go_error \<Rightarrow> go_error" where
  "failed_to what e = Err (''failed to '' @ what)"

definition buildUsage :: "client \<Rightarrow> uuid \<Rightarrow> subscription \<Rightarrow> quota \<Rightarrow> quota_usage app" where
  "buildUsage client workspaceID sub quota =
    bindC nowC (\<lambda>now. let (periodStart, periodEnd) = CurrentQuotaPeriod (quota_anchor sub) now;
         membersUsed = int (length (cl_MemberIDs client)) in
    bindC (mapErrC (failed_to ''count campaigns'') (CountNonDefaultByWorkspaceID workspaceID))
      (\<lambda>campaignsUsed.
    bindC (mapErrC (failed_to ''count verifications'')
        (CountQuotaUnitsByWorkspaceIDInPeriod workspaceID periodStart periodEnd))
      (\<lambda>verificationsUsed.
    bindC (mapErrC (failed_to ''count concurrent analyses'')
        (CountByWorkspaceIDAndStatus workspaceID ContentAnalyzing))
      (\<lambda>concurrentUsed.
    bindC (mapErrC (failed_to ''sum storage usage'') (SumStorageBytesByWorkspaceID workspaceID))
      (\<lambda>storageUsed.
    returnC \<lparr>qu_WorkspaceID = workspaceID,
      qu_Members = counter (q_MaxClientMembers quota) membersUsed,
      qu_Campaigns = counter (q_MaxCampaigns quota) campaignsUsed,
      qu_Verifications = counter (q_MaxVerificationsPerMonth quota) verificationsUsed,
      qu_ConcurrentAnalyses = counter (q_MaxConcurrentAnalyses quota) concurrentUsed,
      qu_Storage = counter (q_MaxStorageGB quota * 1024 * 1024 * 1024) storageUsed,
      qu_Limits = quota, qu_PeriodStart = periodStart, qu_PeriodEnd = periodEnd\<rparr>)))))"

text \<open>The quota of the plan, or of the free plan unless the subscription is active.\<close>

definition effective_quota :: "subscription \<Rightarrow> quota \<Rightarrow> quota app" where
  "effective_quota sub quota = (if s_Status sub \<noteq> SubActive then
       tryC (planRead_FindBySlug FreePlanSlug)
         (\<lambda>e. failC (Err ''free plan quota not found''))
         (\<lambda>freePlan. case freePlan of
             Some (_, Some q) \<Rightarrow> returnC q
           | _ \<Rightarrow> failC (Err ''free plan quota not found''))
     else returnC quota)"

definition GetQuotaUsage :: "uuid \<Rightarrow> quota_usage app" where
  "GetQuotaUsage clientID =
    bindC (mapErrC (failed_to ''get client'') (clientRead_FindByID clientID)) (\<lambda>client.
    case client of None \<Rightarrow> failC (Sentinel ErrSubscriptionNotFound) | Some client \<Rightarrow>
    bindC (mapErrC (failed_to ''get workspace'') (workspaceRead_FindByID (cl_WorkspaceID client)))
      (\<lambda>workspace.
    case workspace of None \<Rightarrow> failC (Sentinel ErrSubscriptionNotFound) | Some workspace \<Rightarrow>
    case w_SubscriptionID workspace of None \<Rightarrow> failC (Sentinel ErrSubscriptionNotFound)
    | Some subID \<Rightarrow>
    bindC (mapErrC (failed_to ''get subscription'') (subscriptionRead_FindByID subID)) (\<lambda>sub.
    case sub of None \<Rightarrow> failC (Sentinel ErrSubscriptionNotFound)
    | Some (sub, Some (_, Some quota)) \<Rightarrow>
        bindC (effective_quota sub quota) (\<lambda>quota. buildUsage client (w_ID workspace) sub quota)
    | Some (sub, _) \<Rightarrow> failC (Err ''subscription plan quota not found''))))"

section \<open>Guards\<close>

definition AssertMemberCreate :: "uuid \<Rightarrow> unit app" where
  "AssertMemberCreate clientID = bindC (GetQuotaUsage clientID) (\<lambda>usage.
     if qc_Left (qu_Members usage) \<le> 0 then failC (Sentinel ErrMemberQuotaExceeded) else returnC ())"

definition AssertCampaignCreate :: "uuid \<Rightarrow> unit app" where
  "AssertCampaignCreate clientID = bindC (GetQuotaUsage clientID) (\<lambda>usage.
     if qc_Left (qu_Campaigns usage) \<le> 0 then failC (Sentinel ErrCampaignQuotaExceeded)
     else returnC ())"

definition assertVerificationSlots :: "quota_usage \<Rightarrow> int \<Rightarrow> unit res" where
  "assertVerificationSlots usage n =
    (if 0 < q_OveragePriceCents (qu_Limits usage) then Inr ()
     else let grace = q_QuotaOverageGraceVerifications (qu_Limits usage);
              grace = (if grace < 0 then 0 else grace);
              effectiveLeft = qc_Max (qu_Verifications usage) + grace - qc_Used (qu_Verifications usage)
     in if effectiveLeft < n then Inl (Sentinel ErrVerificationQuotaExceeded) else Inr ())"

definition assertConcurrentSlot :: "quota_usage \<Rightarrow> unit res" where
  "assertConcurrentSlot usage = (if qc_Left (qu_ConcurrentAnalyses usage) \<le> 0
     then Inl (Sentinel ErrConcurrentQuotaExceeded) else Inr ())"

definition AssertVerificationReserve :: "uuid \<Rightarrow> int \<Rightarrow> unit app" where
  "AssertVerificationReserve clientID n = (if n \<le> 0 then returnC ()
     else bindC (GetQuotaUsage clientID) (\<lambda>usage. liftC (assertVerificationSlots usage n)))"

definition AssertVerificationCreate :: "uuid \<Rightarrow> unit app" where
  "AssertVerificationCreate clientID = AssertVerificationReserve clientID 1"

definition AssertConcurrentAnalysis :: "uuid \<Rightarrow> unit app" where
  "AssertConcurrentAnalysis clientID =
     bindC (GetQuotaUsage clientID) (\<lambda>usage. liftC (assertConcurrentSlot usage))"

definition file_too_big :: "quota_usage \<Rightarrow> int \<Rightarrow> bool" where
  "file_too_big usage sizeBytes = (let maxBytes = q_MaxFileSizeMB (qu_Limits usage) * 1024 * 1024 in
     0 < maxBytes \<and> maxBytes < sizeBytes)"

definition AssertFileSize :: "uuid \<Rightarrow> int \<Rightarrow> unit app" where
  "AssertFileSize clientID sizeBytes = bindC (GetQuotaUsage clientID) (\<lambda>usage.
     if file_too_big usage sizeBytes then failC (Sentinel ErrFileSizeQuotaExceeded) else returnC ())"

definition AssertMediaUpload :: "uuid \<Rightarrow> media_type \<Rightarrow> int option \<Rightarrow> unit app" where
  "AssertMediaUpload clientID mediaType sizeBytes = bindC (GetQuotaUsage clientID) (\<lambda>usage.
     if mediaType = MediaTypeVideo \<and> \<not> q_AllowsVideoAnalysis (qu_Limits usage)
     then failC (Sentinel ErrVideoAnalysisNotAllowed)
     else case sizeBytes of
         None \<Rightarrow> returnC ()
       | Some s \<Rightarrow> if file_too_big usage s then failC (Sentinel ErrFileSizeQuotaExceeded)
           else returnC ())"

definition batch_limit :: "quota_usage \<Rightarrow> int" where
  "batch_limit usage =
    (let maxBatch = q_MaxBatchUploadSize (qu_Limits usage);
         maxBatch = (if maxBatch \<le> 0 then MaxPresignBatch else maxBatch)
     in if MaxPresignBatch < maxBatch then MaxPresignBatch else maxBatch)"

definition AssertBatchUpload :: "uuid \<Rightarrow> int \<Rightarrow> unit app" where
  "AssertBatchUpload clientID fileCount = (if fileCount \<le> 0 then returnC ()
     else bindC (GetQuotaUsage clientID) (\<lambda>usage.
       if batch_limit usage < fileCount then failC (Sentinel ErrBatchUploadQuotaExceeded)
       else returnC ()))"

definition AssertStorageReserve :: "uuid \<Rightarrow> int \<Rightarrow> unit app" where
  "AssertStorageReserve clientID additionalBytes = (if additionalBytes \<le> 0 then returnC ()
     else bindC (GetQuotaUsage clientID) (\<lambda>usage.
       let maxBytes = q_MaxStorageGB (qu_Limits usage) * 1024 * 1024 * 1024 in
       if maxBytes \<le> 0 then returnC ()
       else if maxBytes < qc_Used (qu_Storage usage) + additionalBytes
       then failC (Sentinel ErrStorageQuotaExceeded) else returnC ()))"

text \<open>The lock is taken between two readings of the usage; the second one decides.\<close>

definition AssertAnalyze :: "uuid \<Rightarrow> unit app" where
  "AssertAnalyze clientID =
    bindC (GetQuotaUsage clientID) (\<lambda>usage.
    thenC (Lock (qu_WorkspaceID usage))
    (bindC (GetQuotaUsage clientID) (\<lambda>usage.
    thenC (liftC (assertVerificationSlots usage 1))
      (liftC (assertConcurrentSlot usage)))))"

section \<open>What the usage is\<close>

text \<open>The usage of a client as a function of the database and the time.\<close>

definition sub_quota :: "subscription \<Rightarrow> db \<Rightarrow> quota option" where
  "sub_quota sub d = (case plan_get (s_PlanID sub) d of None \<Rightarrow> None | Some p \<Rightarrow>
     case quota_get (p_QuotaID p) d of None \<Rightarrow> None | Some q \<Rightarrow>
     if s_Status sub = SubActive then Some q
     else case plan_by_slug FreePlanSlug d of None \<Rightarrow> None | Some fp \<Rightarrow> quota_get (p_QuotaID fp) d)"

definition usage_of :: "client \<Rightarrow> uuid \<Rightarrow> subscription \<Rightarrow> quota \<Rightarrow> db \<Rightarrow> gotime \<Rightarrow> quota_usage" where
  "usage_of client ws sub q d now = (let (a, b) = CurrentQuotaPeriod (quota_anchor sub) now in
     \<lparr>qu_WorkspaceID = ws,
      qu_Members = counter (q_MaxClientMembers q) (int (length (cl_MemberIDs client))),
      qu_Campaigns = counter (q_MaxCampaigns q) (count_campaigns ws d),
      qu_Verifications = counter (q_MaxVerificationsPerMonth q) (count_units ws a b d),
      qu_ConcurrentAnalyses = counter (q_MaxConcurrentAnalyses q) (count_status ws ContentAnalyzing d),
      qu_Storage = counter (q_MaxStorageGB q * 1024 * 1024 * 1024) (storage_bytes ws d),
      qu_Limits = q, qu_PeriodStart = a, qu_PeriodEnd = b\<rparr>)"

definition quota_usage_spec :: "uuid \<Rightarrow> db \<Rightarrow> gotime \<Rightarrow> quota_usage option" where
  "quota_usage_spec clientID d now = (case client_get clientID d of None \<Rightarrow> None | Some client \<Rightarrow>
     case workspace_get (cl_WorkspaceID client) d of None \<Rightarrow> None | Some ws \<Rightarrow>
     case w_SubscriptionID ws of None \<Rightarrow> None | Some sid \<Rightarrow>
     case subscription_get sid d of None \<Rightarrow> None | Some sub \<Rightarrow>
     case sub_quota sub d of None \<Rightarrow> None | Some q \<Rightarrow> Some (usage_of client (w_ID ws) sub q d now))"

lemma readonly_GetQuotaUsage [readonly_intros]: "readonly (GetQuotaUsage i)"
  unfolding GetQuotaUsage_def buildUsage_def effective_quota_def clientRead_FindByID_def
    workspaceRead_FindByID_def subscriptionRead_FindByID_def planRead_FindByID_def
    planRead_FindBySlug_def toPlanViewWithQuota_def CountNonDefaultByWorkspaceID_def
    CountQuotaUnitsByWorkspaceIDInPeriod_def CountByWorkspaceIDAndStatus_def
    SumStorageBytesByWorkspaceID_def
  by (intro readonly_intros)

text \<open>\<open>yields P c\<close>: whatever fails, a value that \<open>c\<close> returns satisfies \<open>P\<close> of the committed database.\<close>

lemmas quota_reads = clientRead_FindByID_def workspaceRead_FindByID_def subscriptionRead_FindByID_def
  planRead_FindByID_def planRead_FindBySlug_def toPlanViewWithQuota_def
  CountNonDefaultByWorkspaceID_def CountQuotaUnitsByWorkspaceIDInPeriod_def
  CountByWorkspaceIDAndStatus_def SumStorageBytesByWorkspaceID_def

lemma wp_buildUsage:
  assumes "\<And>t n. Q (usage_of client ws sub q (wd_committed w) (en_clock r t)) (w\<lparr>wd_tick := n\<rparr>)"
    and "\<And>e n. E e (w\<lparr>wd_tick := n\<rparr>)"
  shows "wp (buildUsage client ws sub q) Q E r w"
  using assms(2) assms(1) [of "wd_tick w"]
  by (auto simp: buildUsage_def usage_of_def quota_reads split: prod.splits)

lemma wp_effective_quota:
  assumes "\<And>q' n. (if s_Status sub = SubActive then q' = q else
      \<exists>p. plan_by_slug FreePlanSlug (wd_committed w) = Some p \<and>
          quota_get (p_QuotaID p) (wd_committed w) = Some q') \<Longrightarrow> Q q' (w\<lparr>wd_tick := n\<rparr>)"
    and "\<And>e n. E e (w\<lparr>wd_tick := n\<rparr>)"
  shows "wp (effective_quota sub q) Q E r w"
  using assms(2) assms(1) [where n = "wd_tick w"] assms(1)
  by (auto simp: effective_quota_def quota_reads split: option.splits prod.splits)

lemma wp_GetQuotaUsage:
  assumes ok: "\<And>u t n. quota_usage_spec clientID (wd_committed w) (en_clock r t) = Some u \<Longrightarrow>
      Q u (w\<lparr>wd_tick := n\<rparr>)"
    and err: "\<And>e n. E e (w\<lparr>wd_tick := n\<rparr>)"
  shows "wp (GetQuotaUsage clientID) Q E r w"
proof -
  note spec = ok [unfolded quota_usage_spec_def client_get_def sub_quota_def]
  show ?thesis
    unfolding GetQuotaUsage_def
    by (simp add: quota_reads err split: option.splits prod.splits)
      (intro allI impI conjI wp_effective_quota wp_buildUsage;
        auto simp: spec err split: if_splits)
qed

text \<open>A guard that reads the usage and refuses on it.\<close>

lemma counter_sel [simp]: "qc_Used (counter m u) = u" "qc_Max (counter m u) = m"
    "qc_Left (counter m u) = max 0 (m - u)"
  by (simp_all add: counter_def quotaLeft_def Let_def)

lemma usage_of_sel [simp]:
  "qu_WorkspaceID (usage_of c ws s q d now) = ws"
  "qu_Members (usage_of c ws s q d now) = counter (q_MaxClientMembers q) (int (length (cl_MemberIDs c)))"
  "qu_Campaigns (usage_of c ws s q d now) = counter (q_MaxCampaigns q) (count_campaigns ws d)"
  "qu_ConcurrentAnalyses (usage_of c ws s q d now) =
     counter (q_MaxConcurrentAnalyses q) (count_status ws ContentAnalyzing d)"
  "qu_Storage (usage_of c ws s q d now) = counter (q_MaxStorageGB q * 1073741824) (storage_bytes ws d)"
  "qu_Limits (usage_of c ws s q d now) = q"
  by (simp_all add: usage_of_def split: prod.splits)

lemma assertVerificationSlots_ok: "assertVerificationSlots u n = Inr () \<longleftrightarrow>
    0 < q_OveragePriceCents (qu_Limits u) \<or>
    qc_Used (qu_Verifications u) + n \<le> qc_Max (qu_Verifications u) +
      max 0 (q_QuotaOverageGraceVerifications (qu_Limits u))"
  by (auto simp: assertVerificationSlots_def Let_def)

lemma batch_limit_bounds: "1 \<le> batch_limit u" "batch_limit u \<le> 20"
  by (auto simp: batch_limit_def Let_def MaxPresignBatch_def)

lemma assertConcurrentSlot_ok: "assertConcurrentSlot u = Inr () \<longleftrightarrow> 0 < qc_Left (qu_ConcurrentAnalyses u)"
  by (auto simp: assertConcurrentSlot_def)

lemma in_workspace_set: "in_workspace ws d i \<longleftrightarrow> i \<in> {clm_ID r |r. r \<in> set (t_clients d) \<and> clm_WorkspaceID r = ws}"
  by (auto simp: in_workspace_def)

text \<open>A successful \<open>AssertAnalyze\<close> holds the lock of the workspace, and the committed database has
  room for one more analysis.\<close>

definition analysis_room :: "quota_usage \<Rightarrow> bool" where
  "analysis_room u \<longleftrightarrow> assertVerificationSlots u 1 = Inr () \<and> assertConcurrentSlot u = Inr ()"

lemma quota_usage_spec_workspace: "quota_usage_spec i d t = Some u \<Longrightarrow>
    quota_usage_spec i d t' = Some u' \<Longrightarrow> qu_WorkspaceID u' = qu_WorkspaceID u"
  by (auto simp: quota_usage_spec_def split: option.splits)

lemma wp_AssertAnalyze:
  assumes ok: "\<And>u t n. quota_usage_spec clientID (wd_committed w) (en_clock r t) = Some u \<Longrightarrow>
      analysis_room u \<Longrightarrow> qu_WorkspaceID u \<noteq> uuid_Nil \<Longrightarrow>
      Q () (w\<lparr>wd_locks := qu_WorkspaceID u # wd_locks w, wd_tick := n\<rparr>)"
    and err: "\<And>e n. E e (w\<lparr>wd_tick := n\<rparr>)"
    and err': "\<And>e n l. E e (w\<lparr>wd_locks := l # wd_locks w, wd_tick := n\<rparr>)"
  shows "wp (AssertAnalyze clientID) Q E r w"
proof -
  have ok': "Q () (w\<lparr>wd_locks := qu_WorkspaceID u # wd_locks w, wd_tick := n\<rparr>)"
    if "quota_usage_spec clientID (wd_committed w) (en_clock r t) = Some u" "qu_WorkspaceID u \<noteq> uuid_Nil"
      "quota_usage_spec clientID (wd_committed w) (en_clock r t') = Some u'"
      "assertVerificationSlots u' 1 = Inr ()" "assertConcurrentSlot u' = Inr ()" for u u' t t' n
    using ok [OF that(3), of n] that quota_usage_spec_workspace [OF that(1) that(3)]
    by (simp add: analysis_room_def)
  show ?thesis
    unfolding AssertAnalyze_def
    by (simp, rule wp_GetQuotaUsage)
      (auto simp: Lock_def err intro!: wp_GetQuotaUsage intro: err' ok')
qed

lemma tx_safe_AssertAnalyze [tx_safe_intros]: "tx_safe (AssertAnalyze i)"
  unfolding AssertAnalyze_def by (intro tx_safe_intros readonly_tx_safe [OF readonly_GetQuotaUsage])

lemma readonly_guards [readonly_intros]:
  "readonly (AssertMemberCreate i)" "readonly (AssertCampaignCreate i)"
  "readonly (AssertVerificationReserve i n)" "readonly (AssertVerificationCreate i)"
  "readonly (AssertConcurrentAnalysis i)" "readonly (AssertFileSize i s)"
  "readonly (AssertMediaUpload i mt so)" "readonly (AssertBatchUpload i n)"
  "readonly (AssertStorageReserve i n)"
  unfolding AssertMemberCreate_def AssertCampaignCreate_def AssertVerificationReserve_def
    AssertVerificationCreate_def AssertConcurrentAnalysis_def AssertFileSize_def
    AssertMediaUpload_def AssertBatchUpload_def AssertStorageReserve_def
  by (intro readonly_intros)+

lemma wp_AssertBatchUpload:
  "wp (AssertBatchUpload i n) (\<lambda>_ _. n \<le> 20) (\<lambda>_ _. True) r w"
proof -
  have "n \<le> 20" if "\<not> batch_limit u < n" for u using batch_limit_bounds(2) [of u] that by linarith
  then show ?thesis
    by (auto simp: AssertBatchUpload_def intro!: wp_GetQuotaUsage)
qed

end
