(* ===== verification/AnalyzeContent.thy ===== *)
theory AnalyzeContent
  imports QuotaUsage
begin

text \<open>
  \<open>src/internal/application/command/content/analyze_content.go\<close>: the analysis of one content. The
  handler reserves a slot of the quota and moves the content to \<open>analyzing\<close>, runs the detectors
  and stores their results, renders the verdict of the content, and closes the media once all its
  contents are terminal. The detectors are values of the interface \<open>Detector\<close>. The goroutines of
  the error group run here one after the other, in an order \<open>ah_schedule\<close> that is a parameter; a
  detector that runs after an error of the group sees a cancelled context.
\<close>

section \<open>Detectors\<close>

record detector =
  det_Name :: string
  det_ExpectedWeight :: rat
  det_ExternalDetector :: "bool option"
  det_Analyze :: "bool \<Rightarrow> uuid \<Rightarrow> string \<Rightarrow> signal list app"
  det_TakeRulesetVersion :: "(uuid \<Rightarrow> int option app) option"

definition IsExternal :: "detector \<Rightarrow> bool" where
  "IsExternal d = (case det_ExternalDetector d of Some b \<Rightarrow> b | None \<Rightarrow> False)"

record analyze_handler =
  ah_detectors :: "detector list"
  ah_quota :: bool
  ah_schedule :: "detector list \<Rightarrow> detector list"

section \<open>Verdicts\<close>

text \<open>The score is the largest weight among the signals that count, and at least 0.\<close>

definition signal_counts :: "signal \<Rightarrow> bool" where
  "signal_counts s = (if sg_Type s = ''meta'' then False
     else if sg_Type s \<in> {''model'', ''heuristic'', ''metadata''} then True
     else sg_Code s = ''sightengine_genai'' \<or> sg_Code s = ''suspicious_filename'')"

fun aiScore :: "rat \<Rightarrow> signal list \<Rightarrow> rat" where
  "aiScore acc [] = acc"
| "aiScore acc (s # ss) = aiScore (if signal_counts s \<and> acc < sg_Weight s then sg_Weight s else acc) ss"

definition computeLabel :: "signal list \<Rightarrow> label \<times> rat" where
  "computeLabel signals = (let score = aiScore 0 signals in
     if 7 / 10 \<le> score then (LabelAIGenerated, score)
     else if score \<le> 3 / 10 then
       (let conf = 1 - score in (LabelHuman, if 1 < conf then 1 else conf))
     else (LabelUncertain, 1 / 2))"

text \<open>The loop of \<open>aggregate\<close>: signals, weight that responded, total weight, number of successes.\<close>

fun aggregate_loop :: "result list \<Rightarrow> signal list \<Rightarrow> rat \<Rightarrow> rat \<Rightarrow> int
    \<Rightarrow> signal list \<times> rat \<times> rat \<times> int" where
  "aggregate_loop [] sg responded tot n = (sg, responded, tot, n)"
| "aggregate_loop (r # rs) sg responded tot n =
    (let tot = tot + ExpectedWeight r in
     if r_Status r \<noteq> ResultSuccess then aggregate_loop rs sg responded tot n
     else aggregate_loop rs (sg @ r_Signals r) (responded + ExpectedWeight r) tot (n + 1))"

definition partial_sources :: "int \<Rightarrow> int \<Rightarrow> signal" where
  "partial_sources n total_n = \<lparr>sg_Type = ''meta'', sg_Code = ''partial_sources'',
     sg_Description = int_string n @ ''/'' @ int_string total_n @ '' sources responded'', sg_Weight = 0\<rparr>"

definition aggregate_results :: "result list \<Rightarrow> verdict" where
  "aggregate_results results =
    (let (signals, responded, tot, n) = aggregate_loop results [] 0 0 0;
         (lab, confidence) = computeLabel signals;
         signals = (if responded < tot then signals @ [partial_sources n (int (length results))]
                    else signals)
     in \<lparr>v_Label = lab, v_Confidence = confidence, v_Signals = signals\<rparr>)"

record verdict_counts =
  vc_flagged :: int
  vc_failed :: int
  vc_uncertain :: int

fun count_content :: "content \<Rightarrow> verdict_counts \<Rightarrow> verdict_counts" where
  "count_content c n =
    (if c_Status c = ContentFailed then n\<lparr>vc_failed := vc_failed n + 1\<rparr>
     else case c_Label c of
       None \<Rightarrow> n\<lparr>vc_uncertain := vc_uncertain n + 1\<rparr>
     | Some LabelAIGenerated \<Rightarrow> n\<lparr>vc_flagged := vc_flagged n + 1\<rparr>
     | Some LabelUncertain \<Rightarrow> n\<lparr>vc_uncertain := vc_uncertain n + 1\<rparr>
     | Some _ \<Rightarrow> n)"

definition AggregateMediaVerdict :: "content list \<Rightarrow> media_verdict" where
  "AggregateMediaVerdict contents =
    (let n = fold count_content contents \<lparr>vc_flagged = 0, vc_failed = 0, vc_uncertain = 0\<rparr>;
         lab = (if 0 < vc_flagged n then LabelAIGenerated
                else if 0 < vc_failed n \<or> 0 < vc_uncertain n then LabelUncertain
                else LabelHuman)
     in \<lparr>mv_Label = lab, mv_FlaggedCount = vc_flagged n, mv_TotalCount = int (length contents),
         mv_FailedCount = vc_failed n\<rparr>)"

section \<open>Steps of the handler\<close>

definition isHardAnalysisQuotaError :: "go_error \<Rightarrow> bool" where
  "isHardAnalysisQuotaError e \<longleftrightarrow> errors_is e ErrVerificationQuotaExceeded \<or>
     errors_is e ErrVideoAnalysisNotAllowed \<or> errors_is e ErrFileSizeQuotaExceeded \<or>
     errors_is e ErrStorageQuotaExceeded"

fun keep_detectors :: "int \<Rightarrow> int \<Rightarrow> detector list \<Rightarrow> detector list" where
  "keep_detectors maxExternal externalKept [] = []"
| "keep_detectors maxExternal externalKept (d # ds) =
    (if IsExternal d then
       (if maxExternal \<le> externalKept then keep_detectors maxExternal externalKept ds
        else d # keep_detectors maxExternal (externalKept + 1) ds)
     else d # keep_detectors maxExternal externalKept ds)"

definition selectDetectors :: "analyze_handler \<Rightarrow> uuid \<Rightarrow> detector list app" where
  "selectDetectors h clientID =
    (if ah_quota h then
       tryC (GetQuotaUsage clientID)
         (\<lambda>e. returnC (keep_detectors 0 0 (ah_detectors h)))
         (\<lambda>usage. let maxExternal = q_MaxDetectorsPerAnalysis (qu_Limits usage) in
           returnC (keep_detectors (if maxExternal < 0 then 0 else maxExternal) 0 (ah_detectors h)))
     else returnC (ah_detectors h))"

definition reserveAnalysis :: "analyze_handler \<Rightarrow> content \<Rightarrow> media \<Rightarrow> content app" where
  "reserveAnalysis h content media =
    bindC (content_GetByID (c_ID content)) (\<lambda>fresh. case fresh of None \<Rightarrow> returnC content | Some fresh \<Rightarrow>
    if c_Status fresh \<noteq> ContentStUploaded then returnC fresh else
    thenC (if ah_quota h then AssertAnalyze (m_ClientID media) else returnC ())
    (bindC nowC (\<lambda>now. bindC uuidC (\<lambda>eid.
    bindC (liftC (StartAnalysis now eid fresh)) (\<lambda>fresh.
    thenC (content_Update fresh)
    (thenC (StoreEvents (List.map EvContent (c_events fresh)))
    (returnC (snd (content_PullEvents fresh)))))))))"

definition failQuotaBlockedAnalysis :: "content \<Rightarrow> media \<Rightarrow> go_error \<Rightarrow> unit app" where
  "failQuotaBlockedAnalysis content media quotaErr =
    bindC nowC (\<lambda>now. bindC uuidC (\<lambda>eid.
    bindC (liftC (content_MarkFailed now eid content)) (\<lambda>content.
    withTx (thenC (content_Update content)
      (let events = List.map EvContent (c_events content) in
       bindC (media_GetByID (m_ID media)) (\<lambda>fresh. case fresh of None \<Rightarrow> StoreEvents events | Some fresh \<Rightarrow>
       if m_Status fresh \<noteq> StatusAnalyzed \<and> m_Status fresh \<noteq> StatusFailed then
         bindC nowC (\<lambda>now. bindC uuidC (\<lambda>eid.
         bindC (liftC (MarkFailed now eid (Error quotaErr) fresh)) (\<lambda>fresh.
         thenC (media_Update fresh)
         (StoreEvents (events @ List.map EvMedia (m_events fresh))))))
       else StoreEvents events))))))"

definition tryFinalizeMedia :: "uuid \<Rightarrow> unit app" where
  "tryFinalizeMedia mediaID = (if mediaID = uuid_Nil then returnC () else withTx (
    bindC (media_GetByID mediaID) (\<lambda>media. case media of None \<Rightarrow> returnC () | Some media \<Rightarrow>
    if m_Status media = StatusAnalyzed \<or> m_Status media = StatusFailed then returnC () else
    bindC (ListByMediaID mediaID) (\<lambda>siblings.
    if siblings = [] then returnC ()
    else if \<exists>c \<in> set siblings. \<not> IsTerminal c then returnC ()
    else bindC nowC (\<lambda>now. bindC uuidC (\<lambda>eid.
      bindC (liftC (RenderGlobalVerdict now eid (AggregateMediaVerdict siblings) media)) (\<lambda>media.
      thenC (media_Update media)
      (StoreEvents (List.map EvMedia (m_events media))))))))))"

text \<open>One goroutine: the outcome of the detector is stored whether it is an error or not.\<close>

definition storeOutcome :: "content \<Rightarrow> detector \<Rightarrow> gotime \<Rightarrow> signal list res \<Rightarrow> unit app" where
  "storeOutcome content d started outcome =
    bindC nowC (\<lambda>completed. bindC nowC (\<lambda>now. bindC uuidC (\<lambda>nid.
    bindC (liftC (result_New now nid (c_ID content) (det_Name d) started completed (det_ExpectedWeight d)))
      (\<lambda>result.
    bindC nowC (\<lambda>now.
    let result = (case outcome of Inl e \<Rightarrow> result_MarkFailed now (Error e) result
                    | Inr signals \<Rightarrow> MarkSuccess now signals result) in
    bindC (case det_TakeRulesetVersion d of
        None \<Rightarrow> returnC result
      | Some take_version \<Rightarrow> bindC (take_version (c_ID content))
          (\<lambda>ver. returnC (result\<lparr>r_RulesetVersion := ver\<rparr>)))
      result_Upsert)))))"

definition runDetector :: "content \<Rightarrow> bool \<Rightarrow> detector \<Rightarrow> unit app" where
  "runDetector content cancelled d = bindC nowC (\<lambda>started.
     tryC (det_Analyze d cancelled (c_ID content) (c_ObjectKey content))
       (\<lambda>e. storeOutcome content d started (Inl e))
       (\<lambda>signals. storeOutcome content d started (Inr signals)))"

text \<open>\<open>g.Wait\<close>: all goroutines run, the first error is the error of the group.\<close>

fun runDetectors :: "content \<Rightarrow> go_error option \<Rightarrow> detector list \<Rightarrow> unit app" where
  "runDetectors content err [] = (case err of None \<Rightarrow> returnC () | Some e \<Rightarrow> failC e)"
| "runDetectors content err (d # ds) = tryC (runDetector content (err \<noteq> None) d)
     (\<lambda>e. runDetectors content (Some (case err of None \<Rightarrow> e | Some e' \<Rightarrow> e')) ds)
     (\<lambda>_. runDetectors content err ds)"

definition detector_weights :: "detector list \<Rightarrow> string \<rightharpoonup> rat" where
  "detector_weights ds = map_of (rev (List.map (\<lambda>d. (det_Name d, det_ExpectedWeight d)) ds))"

definition weigh :: "(string \<rightharpoonup> rat) \<Rightarrow> result \<Rightarrow> result" where
  "weigh weights r = (case weights (r_DetectorName r) of None \<Rightarrow> r | Some x \<Rightarrow> r\<lparr>r_Weight := x\<rparr>)"

definition renderVerdictTx :: "uuid \<Rightarrow> verdict \<Rightarrow> unit app" where
  "renderVerdictTx contentID verdict = withTx (
    bindC (content_GetByID contentID) (\<lambda>fresh. case fresh of None \<Rightarrow> returnC () | Some fresh \<Rightarrow>
    if c_Status fresh \<noteq> ContentAnalyzing then returnC () else
    bindC nowC (\<lambda>now. bindC uuidC (\<lambda>eid.
    bindC (liftC (RenderVerdict now eid verdict fresh)) (\<lambda>fresh.
    thenC (content_Update fresh) (StoreEvents (List.map EvContent (c_events fresh))))))))"

definition analyze_and_render :: "analyze_handler \<Rightarrow> content \<Rightarrow> unit app" where
  "analyze_and_render h content =
    bindC (selectDetectors h (c_ClientID content)) (\<lambda>detectors.
    thenC (runDetectors content None (ah_schedule h detectors))
    (bindC (FindByContentID (c_ID content)) (\<lambda>results.
    let results = List.map (weigh (detector_weights detectors)) results in
    thenC (renderVerdictTx (c_ID content) (aggregate_results results))
    (tryFinalizeMedia (c_MediaID content)))))"

text \<open>A failed commit is no quota error, so the content that \<open>failQuotaBlockedAnalysis\<close> gets is the
  one that was read before the transaction.\<close>

definition AnalyzeContent :: "analyze_handler \<Rightarrow> uuid \<Rightarrow> unit app" where
  "AnalyzeContent h contentID =
    (if contentID = uuid_Nil then failC (Err ''content id is required'')
     else if ah_detectors h = [] then failC (Err ''no detectors configured'')
     else bindC (content_GetByID contentID) (\<lambda>content. case content of None \<Rightarrow> returnC () | Some content \<Rightarrow>
     case c_Status content of
       ContentAnalyzed \<Rightarrow> tryFinalizeMedia (c_MediaID content)
     | ContentStUploaded \<Rightarrow>
         bindC (media_GetByID (c_MediaID content)) (\<lambda>media. case media of
             None \<Rightarrow> bindC (askC en_uuid_string) (\<lambda>us.
               failC (Err (''media '' @ us (c_MediaID content) @ '' not found for content '' @
                 us (c_ID content))))
           | Some media \<Rightarrow>
               tryC (withTx (reserveAnalysis h content media))
                 (\<lambda>e. if ah_quota h \<and> isHardAnalysisQuotaError e
                      then thenC (failQuotaBlockedAnalysis content media e) (failC e)
                      else failC e)
                 (analyze_and_render h))
     | ContentAnalyzing \<Rightarrow> analyze_and_render h content
     | _ \<Rightarrow> returnC ()))"

section \<open>The label of a content\<close>

lemma aiScore_eq: "aiScore acc ss = Max (insert acc (sg_Weight ` {s \<in> set ss. signal_counts s}))"
proof (induction ss arbitrary: acc)
  case Nil
  then show ?case by simp
next
  case (Cons s ss)
  let ?W = "sg_Weight ` {s \<in> set ss. signal_counts s}"
  have fin: "finite ?W" by simp
  show ?case
  proof (cases "signal_counts s")
    case True
    have "Max (insert acc (sg_Weight ` {x \<in> set (s # ss). signal_counts x})) =
        Max (insert acc (insert (sg_Weight s) ?W))"
      using True by (intro arg_cong [where f = Max]) auto
    also have "\<dots> = Max (insert (max acc (sg_Weight s)) ?W)"
    proof (cases "?W = {}")
      case True
      show ?thesis unfolding True by simp
    next
      case False
      show ?thesis using Max_insert [OF fin False] fin by (simp add: max.assoc)
    qed
    finally show ?thesis using True Cons by (simp add: max_def)
  next
    case False
    then have "{x \<in> set (s # ss). signal_counts x} = {x \<in> set ss. signal_counts x}" by auto
    then show ?thesis using False Cons by simp
  qed
qed

lemma aiScore_ge: "x \<le> aiScore acc ss \<longleftrightarrow> x \<le> acc \<or> (\<exists>s \<in> set ss. signal_counts s \<and> x \<le> sg_Weight s)"
  by (induction ss arbitrary: acc) auto

lemma aiScore_le: "aiScore acc ss \<le> x \<longleftrightarrow> acc \<le> x \<and> (\<forall>s \<in> set ss. signal_counts s \<longrightarrow> sg_Weight s \<le> x)"
  by (induction ss arbitrary: acc) auto

lemma computeLabel_ai: "fst (computeLabel ss) = LabelAIGenerated \<longleftrightarrow>
    (\<exists>s \<in> set ss. signal_counts s \<and> 7 / 10 \<le> sg_Weight s)"
  using aiScore_ge [of "7 / 10" 0 ss] by (auto simp: computeLabel_def Let_def)

lemma computeLabel_human: "fst (computeLabel ss) = LabelHuman \<longleftrightarrow>
    (\<forall>s \<in> set ss. signal_counts s \<longrightarrow> sg_Weight s \<le> 3 / 10)"
proof -
  have "(\<forall>s \<in> set ss. signal_counts s \<longrightarrow> sg_Weight s \<le> 3 / 10) \<longleftrightarrow> aiScore 0 ss \<le> 3 / 10"
    unfolding aiScore_le by simp
  then show ?thesis by (auto simp: computeLabel_def Let_def)
qed

lemma computeLabel_valid: "ValidateLabel (fst (computeLabel ss)) = Inr ()"
  by (simp add: computeLabel_def Let_def)

lemma computeLabel_confidence: "1 / 2 \<le> snd (computeLabel ss)"
    "fst (computeLabel ss) = LabelHuman \<Longrightarrow> snd (computeLabel ss) \<le> 1"
  by (auto simp: computeLabel_def Let_def)

lemma aiScore_nonneg: "0 \<le> aiScore 0 ss"
  by (simp add: aiScore_ge)

lemma computeLabel_set: "set ss = set ts \<Longrightarrow> computeLabel ss = computeLabel ts"
  by (simp add: computeLabel_def aiScore_eq)

section \<open>The verdict of a content\<close>

definition successes :: "result list \<Rightarrow> result list" where
  "successes rs = List.filter (\<lambda>r. r_Status r = ResultSuccess) rs"

lemma aggregate_loop_eq: "aggregate_loop rs sg a b n =
    (sg @ concat (List.map r_Signals (successes rs)),
     a + sum_list (List.map ExpectedWeight (successes rs)),
     b + sum_list (List.map ExpectedWeight rs), n + int (length (successes rs)))"
  by (induction rs arbitrary: sg a b n) (simp_all add: successes_def Let_def)

lemma weight_filter: "sum_list (List.map ExpectedWeight (List.filter P rs)) \<le> sum_list (List.map ExpectedWeight rs)"
  by (induction rs) (use ExpectedWeight_pos in \<open>auto intro: add_mono simp: less_imp_le add_increasing\<close>)

lemma weight_missing: "sum_list (List.map ExpectedWeight (successes rs)) < sum_list (List.map ExpectedWeight rs)
    \<longleftrightarrow> (\<exists>r \<in> set rs. r_Status r \<noteq> ResultSuccess)"
proof (induction rs)
  case Nil
  then show ?case by (simp add: successes_def)
next
  case (Cons r rs)
  have "sum_list (List.map ExpectedWeight (successes rs)) \<le> sum_list (List.map ExpectedWeight rs)"
    unfolding successes_def by (rule weight_filter)
  then have "r_Status r \<noteq> ResultSuccess \<Longrightarrow> sum_list (List.map ExpectedWeight (successes rs)) <
      ExpectedWeight r + sum_list (List.map ExpectedWeight rs)"
    using ExpectedWeight_pos [of r] by (intro add_strict_increasing)
  then show ?case using Cons by (cases "r_Status r = ResultSuccess") (auto simp: successes_def)
qed

lemma aggregate_results_eq: "aggregate_results rs =
    (let sg = concat (List.map r_Signals (successes rs)) in
     \<lparr>v_Label = fst (computeLabel sg), v_Confidence = snd (computeLabel sg),
      v_Signals = (if \<exists>r \<in> set rs. r_Status r \<noteq> ResultSuccess
        then sg @ [partial_sources (int (length (successes rs))) (int (length rs))] else sg)\<rparr>)"
  using weight_missing [of rs]
  by (simp add: aggregate_results_def aggregate_loop_eq Let_def split: prod.splits)

lemma aggregate_results_valid: "ValidateLabel (v_Label (aggregate_results rs)) = Inr ()"
  by (simp add: aggregate_results_eq Let_def computeLabel_valid)

section \<open>The verdict of a media\<close>

definition judged :: "label \<Rightarrow> content \<Rightarrow> bool" where
  "judged l c \<longleftrightarrow> c_Status c \<noteq> ContentFailed \<and> c_Label c = Some l"

definition unjudged :: "content \<Rightarrow> bool" where
  "unjudged c \<longleftrightarrow> c_Status c \<noteq> ContentFailed \<and> (c_Label c = None \<or> c_Label c = Some LabelUncertain)"

lemma count_contents: "fold count_content cs n =
    \<lparr>vc_flagged = vc_flagged n + int (length (List.filter (judged LabelAIGenerated) cs)),
     vc_failed = vc_failed n + int (length (List.filter (\<lambda>c. c_Status c = ContentFailed) cs)),
     vc_uncertain = vc_uncertain n + int (length (List.filter unjudged cs))\<rparr>"
proof (induction cs arbitrary: n)
  case Nil
  then show ?case by simp
next
  case (Cons c cs)
  have IH: "fold count_content (c # cs) n = fold count_content cs (count_content c n)" by simp
  show ?case
    unfolding IH Cons
    by (simp add: judged_def [of _ c] unjudged_def [of c] split: option.splits label.splits)
qed

lemma AggregateMediaVerdict_eq: "AggregateMediaVerdict cs =
    \<lparr>mv_Label = (if \<exists>c \<in> set cs. judged LabelAIGenerated c then LabelAIGenerated
       else if \<exists>c \<in> set cs. c_Status c = ContentFailed \<or> unjudged c then LabelUncertain else LabelHuman),
     mv_FlaggedCount = int (length (List.filter (judged LabelAIGenerated) cs)),
     mv_TotalCount = int (length cs),
     mv_FailedCount = int (length (List.filter (\<lambda>c. c_Status c = ContentFailed) cs))\<rparr>"
  by (auto simp: AggregateMediaVerdict_def count_contents Let_def filter_empty_conv)

lemma AggregateMediaVerdict_valid: "ValidateLabel (mv_Label (AggregateMediaVerdict cs)) = Inr ()"
  by (simp add: AggregateMediaVerdict_eq)

lemma AggregateMediaVerdict_counts:
  "mv_FlaggedCount (AggregateMediaVerdict cs) + mv_FailedCount (AggregateMediaVerdict cs) \<le>
    mv_TotalCount (AggregateMediaVerdict cs)"
proof -
  have "length (List.filter (judged LabelAIGenerated) cs) +
      length (List.filter (\<lambda>c. c_Status c = ContentFailed) cs) \<le> length cs"
    by (induction cs) (auto simp: judged_def)
  then show ?thesis by (simp add: AggregateMediaVerdict_eq)
qed

lemma AggregateMediaVerdict_mset: "mset cs = mset ds \<Longrightarrow> AggregateMediaVerdict cs = AggregateMediaVerdict ds"
proof -
  assume a: "mset cs = mset ds"
  have "length (List.filter P cs) = length (List.filter P ds)" for P
    using arg_cong [OF a, of "\<lambda>m. size (filter_mset P m)"] by (metis mset_filter size_mset)
  moreover have "set cs = set ds" "length cs = length ds"
    using mset_eq_setD [OF a] mset_eq_length [OF a] by auto
  ultimately show ?thesis by (simp add: AggregateMediaVerdict_eq)
qed

section \<open>The choice of detectors\<close>

lemma keep_detectors_local: "List.filter (\<lambda>d. \<not> IsExternal d) (keep_detectors n k ds) = List.filter (\<lambda>d. \<not> IsExternal d) ds"
  by (induction n k ds rule: keep_detectors.induct) auto

lemma keep_detectors_external: "List.filter IsExternal (keep_detectors n k ds) =
    take (nat (n - k)) (List.filter IsExternal ds)"
proof (induction n k ds rule: keep_detectors.induct)
  case (2 n k d ds)
  have "nat (n - k) = Suc (nat (n - (k + 1)))" if "\<not> n \<le> k" using that by simp
  then show ?case using 2 by auto
qed simp

lemma keep_detectors_subseq: "subseq (keep_detectors n k ds) ds"
  by (induction n k ds rule: keep_detectors.induct) auto

section \<open>The transactions of the handler\<close>

text \<open>The transactions that the handler commits, as steps on the database. Contents and medias are
  read in the transaction that writes them.\<close>

inductive analysis_tx :: "db \<Rightarrow> db \<Rightarrow> bool" where
  reserve: "content_get i d = Some c \<Longrightarrow> StartAnalysis now eid c = Inr c' \<Longrightarrow>
    analysis_tx d (outbox_put (List.map EvContent (c_events c')) (content_put c' d))"
| blocked: "content_get i d = Some c \<Longrightarrow> content_MarkFailed now eid c = Inr c' \<Longrightarrow>
    analysis_tx d (outbox_put (List.map EvContent (c_events c')) (content_put c' d))"
| blocked_media: "content_get i d = Some c \<Longrightarrow> content_MarkFailed now eid c = Inr c' \<Longrightarrow>
    media_get j d = Some m \<Longrightarrow> MarkFailed now' eid' reason m = Inr m' \<Longrightarrow>
    analysis_tx d (outbox_put (List.map EvContent (c_events c') @ List.map EvMedia (m_events m'))
      (media_put m' (content_put c' d)))"
| outcome: "analysis_tx d (results_upsert x d)"
| verdict: "content_get i d = Some c \<Longrightarrow> RenderVerdict now eid v c = Inr c' \<Longrightarrow>
    analysis_tx d (outbox_put (List.map EvContent (c_events c')) (content_put c' d))"
| finalise: "media_get i d = Some m \<Longrightarrow> contents_of i d \<noteq> [] \<Longrightarrow>
    (\<And>c. c \<in> set (contents_of i d) \<Longrightarrow> IsTerminal c) \<Longrightarrow>
    RenderGlobalVerdict now eid (AggregateMediaVerdict (contents_of i d)) m = Inr m' \<Longrightarrow>
    analysis_tx d (outbox_put (List.map EvMedia (m_events m')) (media_put m' d))"

inductive_cases analysis_txE: "analysis_tx d d'"

text \<open>The verdict of an analysed media is the aggregate of its contents, all of them terminal.\<close>

definition verdict_sound :: "db \<Rightarrow> bool" where
  "verdict_sound d \<longleftrightarrow> (\<forall>i m. media_get i d = Some m \<and> m_Status m = StatusAnalyzed \<longrightarrow>
     contents_of i d \<noteq> [] \<and> (\<forall>c \<in> set (contents_of i d). IsTerminal c) \<and>
     m_Verdict m = Some (AggregateMediaVerdict (contents_of i d)))"

definition analysis_inv :: "db \<Rightarrow> bool" where
  "analysis_inv d \<longleftrightarrow> media_table d \<and> content_table d \<and> verdict_sound d"

text \<open>A step of a content: it was not terminal, and it stays the same content with a storable label.\<close>

lemma content_op_facts:
  "StartAnalysis now eid c = Inr c' \<Longrightarrow> \<not> IsTerminal c \<and> same_content c c' \<and> label_stored c'"
  "content_MarkFailed now eid c = Inr c' \<Longrightarrow> label_stored c \<Longrightarrow> \<not> IsTerminal c \<and> same_content c c' \<and> label_stored c'"
  "RenderVerdict now eid v c = Inr c' \<Longrightarrow> \<not> IsTerminal c \<and> same_content c c' \<and> label_stored c'"
  by (auto simp: StartAnalysis_def StartAnalyzing_ok content_MarkFailed_ok RenderVerdict_ok IsTerminal_def
      same_content_def label_stored_def labelStringPtr_def labelFromStringPtr_def label_of_string_string
      valid_label_not_empty)

lemma analysis_inv_content_put:
  assumes inv: "analysis_inv d" and g: "content_get i d = Some c"
    and c': "\<not> IsTerminal c" "same_content c c'" "label_stored c'"
  shows "analysis_inv (outbox_put es (content_put c' d))"
proof -
  have t: "content_table d" using inv by (simp add: analysis_inv_def)
  have "contents_of j (content_put c' d) = contents_of j d"
    if "\<forall>x \<in> set (contents_of j d). IsTerminal x" for j
  proof (rule contents_of_put_other [OF t g c'(2)])
    show "j \<noteq> c_MediaID c" using that c'(1) content_get_contents_of [OF g] by auto
  qed
  then show ?thesis
    using inv content_table_put [OF t] by (fastforce simp: analysis_inv_def verdict_sound_def)
qed

lemma analysis_inv_media_put:
  assumes inv: "analysis_inv d" and g: "media_get i d = Some m0"
    and m: "m_ID m = m_ID m0" "m_CampaignID m = m_CampaignID m0" "m_ClientID m = m_ClientID m0"
      "m_DeletedAt m = m_DeletedAt m0"
    and v: "m_Status m = StatusAnalyzed \<Longrightarrow> contents_of i d \<noteq> [] \<and> (\<forall>c \<in> set (contents_of i d). IsTerminal c) \<and>
      m_Verdict m = Some (AggregateMediaVerdict (contents_of i d))"
  shows "analysis_inv (outbox_put es (media_put m d))"
proof -
  have t: "media_table d" using inv by (simp add: analysis_inv_def)
  have k: "keys_distinct mm_ID (t_media d)" using t by (simp add: media_table_def)
  have s: "m_ID m0 = i" "m_DeletedAt m0 = None" using media_get_stored [OF t g] by auto
  have "contents_of j (media_put m d) = contents_of j d" for j
    by (rule contents_of_media_put [OF k]) (use g m s in auto)
  moreover have "verdict_sound d" using inv by (simp add: analysis_inv_def)
  ultimately have v: "verdict_sound (media_put m d)"
    using v m s by (auto simp: verdict_sound_def media_get_put [OF t] media_stored_def)
  then show ?thesis
    using inv media_table_put [OF t] by (auto simp: analysis_inv_def verdict_sound_def)
qed

lemma media_op_facts:
  "RenderGlobalVerdict now eid v m = Inr m' \<Longrightarrow> m_ID m' = m_ID m \<and> m_CampaignID m' = m_CampaignID m \<and>
     m_ClientID m' = m_ClientID m \<and> m_DeletedAt m' = m_DeletedAt m \<and> m_Verdict m' = Some v"
  "MarkFailed now eid reason m = Inr m' \<Longrightarrow> m_ID m' = m_ID m \<and> m_CampaignID m' = m_CampaignID m \<and>
     m_ClientID m' = m_ClientID m \<and> m_DeletedAt m' = m_DeletedAt m \<and> m_Status m' = StatusFailed"
  by (auto simp: RenderGlobalVerdict_ok MarkFailed_ok)

lemma analysis_tx_inv: "analysis_tx d d' \<Longrightarrow> analysis_inv d \<Longrightarrow> analysis_inv d'"
proof (induction rule: analysis_tx.induct)
  case (reserve i d c now eid c')
  then show ?case using content_op_facts(1) analysis_inv_content_put by blast
next
  case (blocked i d c now eid c')
  then show ?case using content_op_facts(2) content_get_label analysis_inv_content_put by blast
next
  case (blocked_media i d c now eid c' j m now' eid' reason m')
  have "analysis_inv (outbox_put [] (content_put c' d))"
    using blocked_media content_op_facts(2) content_get_label analysis_inv_content_put by blast
  then have i: "analysis_inv (content_put c' d)" by simp
  show ?case
    by (rule analysis_inv_media_put [OF i, of j m])
      (use blocked_media media_op_facts(2) [OF blocked_media(4)] in auto)
next
  case (outcome d x)
  have "media_get i (results_upsert x d) = media_get i d" "contents_of i (results_upsert x d) = contents_of i d"
    "media_table (results_upsert x d) = media_table d" "content_table (results_upsert x d) = content_table d" for i
    by (simp_all add: results_upsert_def media_get_def media_row_def contents_of_def media_table_def
        content_table_def cong: option.case_cong)
  then show ?case using outcome by (auto simp: analysis_inv_def verdict_sound_def)
next
  case (verdict i d c now eid v c')
  then show ?case using content_op_facts(3) analysis_inv_content_put by blast
next
  case (finalise i d m now eid m')
  show ?case
    by (rule analysis_inv_media_put [OF finalise(5) finalise(1)])
      (use finalise media_op_facts(1) [OF finalise(4)] in auto)
qed

section \<open>The handler only takes these steps\<close>

lemma media_op_events:
  "RenderGlobalVerdict now eid v m = Inr m' \<Longrightarrow> m_events m' \<noteq> []"
  "MarkFailed now eid reason m = Inr m' \<Longrightarrow> m_events m' \<noteq> []"
  by (simp_all add: RenderGlobalVerdict_ok MarkFailed_ok)

lemma content_op_events:
  "StartAnalysis now eid c = Inr c' \<Longrightarrow> c_events c' \<noteq> []"
  "content_MarkFailed now eid c = Inr c' \<Longrightarrow> c_events c' \<noteq> []"
  "RenderVerdict now eid v c = Inr c' \<Longrightarrow> c_events c' \<noteq> []"
  by (simp_all add: StartAnalysis_def StartAnalyzing_ok content_MarkFailed_ok RenderVerdict_ok)

lemmas handler_defs = media_GetByID_def ListByMediaID_def media_Update_def content_GetByID_def
  content_Update_def FindByContentID_def

abbreviation tx_or_nothing :: "(db \<Rightarrow> db \<Rightarrow> bool) \<Rightarrow> db \<Rightarrow> db \<Rightarrow> bool" where
  "tx_or_nothing R d d' \<equiv> d' = d \<or> R d d'"

lemma wp_tryFinalizeMedia:
  assumes "idle w"
  shows "wp (tryFinalizeMedia i)
    (\<lambda>_ w'. idle w' \<and> tx_or_nothing analysis_tx (wd_committed w) (wd_committed w'))
    (\<lambda>_ w'. idle w' \<and> wd_committed w' = wd_committed w) r w"
proof (cases "i = uuid_Nil")
  case True
  then show ?thesis using assms by (simp add: tryFinalizeMedia_def)
next
  case False
  show ?thesis
    unfolding tryFinalizeMedia_def if_not_P [OF False]
    by (rule wp_withTx_rel, intro tx_safe_intros)
      (auto intro!: analysis_tx.finalise simp: handler_defs beginTx_def media_op_events(1) split: option.splits)
qed

lemma wp_renderVerdictTx: "wp (renderVerdictTx i v)
    (\<lambda>_ w'. idle w' \<and> tx_or_nothing analysis_tx (wd_committed w) (wd_committed w'))
    (\<lambda>_ w'. idle w' \<and> wd_committed w' = wd_committed w) r w"
  unfolding renderVerdictTx_def
  by (rule wp_withTx_rel, intro tx_safe_intros)
    (auto intro!: analysis_tx.verdict simp: handler_defs beginTx_def content_op_events(3) split: option.splits)


text \<open>The slot is reserved only where the quota leaves room, when there is a quota.\<close>

definition has_room :: "analyze_handler \<Rightarrow> uuid \<Rightarrow> db \<Rightarrow> bool" where
  "has_room h clientID d \<longleftrightarrow> (ah_quota h \<longrightarrow> (\<exists>u t. quota_usage_spec clientID d t = Some u \<and> analysis_room u))"

lemma has_room_quota: "quota_usage_spec clientID d t = Some u \<Longrightarrow> analysis_room u \<Longrightarrow> has_room h clientID d"
  by (auto simp: has_room_def)

lemma has_room_none: "\<not> ah_quota h \<Longrightarrow> has_room h clientID d"
  by (simp add: has_room_def)

inductive reserved :: "analyze_handler \<Rightarrow> uuid \<Rightarrow> db \<Rightarrow> db \<Rightarrow> bool" where
  "content_get i d = Some c \<Longrightarrow> StartAnalysis now eid c = Inr c' \<Longrightarrow> has_room h clientID d \<Longrightarrow>
    reserved h clientID d (outbox_put (List.map EvContent (c_events c')) (content_put c' d))"

lemma reserved_tx: "reserved h clientID d d' \<Longrightarrow> analysis_tx d d'"
  by (auto elim!: reserved.cases intro: analysis_tx.reserve)

lemma tx_safe_reserve: "tx_safe (reserveAnalysis h c m)"
  unfolding reserveAnalysis_def by (intro tx_safe_intros)

lemma wp_reserveAnalysis: "wp (withTx (reserveAnalysis h c m))
    (\<lambda>_ w'. idle w' \<and> tx_or_nothing (reserved h (m_ClientID m)) (wd_committed w) (wd_committed w'))
    (\<lambda>_ w'. idle w' \<and> wd_committed w' = wd_committed w) r w"
  by (rule wp_withTx_rel [OF tx_safe_reserve])
    (auto simp: reserveAnalysis_def handler_defs beginTx_def content_op_events(1) has_room_none
      split: option.splits intro!: reserved.intros wp_AssertAnalyze intro: has_room_quota)

lemma wp_failQuotaBlocked:
  assumes w: "idle w" and g: "content_get i (wd_committed w) = Some c"
  shows "wp (failQuotaBlockedAnalysis c m e)
    (\<lambda>_ w'. idle w' \<and> tx_or_nothing analysis_tx (wd_committed w) (wd_committed w'))
    (\<lambda>_ w'. idle w' \<and> wd_committed w' = wd_committed w) r w"
proof -
  have b: "wp (withTx (thenC (content_Update c')
      (let events = List.map EvContent (c_events c') in
       bindC (media_GetByID (m_ID m)) (\<lambda>fresh. case fresh of None \<Rightarrow> StoreEvents events | Some fresh \<Rightarrow>
       if m_Status fresh \<noteq> StatusAnalyzed \<and> m_Status fresh \<noteq> StatusFailed then
         bindC nowC (\<lambda>now. bindC uuidC (\<lambda>eid.
         bindC (liftC (MarkFailed now eid (Error e) fresh)) (\<lambda>fresh.
         thenC (media_Update fresh)
         (StoreEvents (events @ List.map EvMedia (m_events fresh))))))
       else StoreEvents events))))
      (\<lambda>_ w'. idle w' \<and> tx_or_nothing analysis_tx (wd_committed v) (wd_committed w'))
      (\<lambda>_ w'. idle w' \<and> wd_committed w' = wd_committed v) r v"
    if "content_get i (wd_committed v) = Some c" "content_MarkFailed now eid c = Inr c'" for v c' now eid
    using that
    by (intro wp_withTx_rel, intro tx_safe_intros)
      (auto simp: handler_defs beginTx_def content_op_events(2) media_op_events(2) Let_def
        split: option.splits intro!: analysis_tx.blocked analysis_tx.blocked_media)
  show ?thesis
    unfolding failQuotaBlockedAnalysis_def
    using w g by (auto intro!: wp_mono [OF b])
qed

section \<open>The whole handler\<close>

text \<open>What the handler relies on from a detector: it does not write to the database.\<close>

definition quiet :: "'a app \<Rightarrow> bool" where
  "quiet c \<longleftrightarrow> (\<forall>r w. \<exists>n f. snd (c r w) = w\<lparr>wd_tick := n, wd_rulesets := f\<rparr>)"

definition detector_quiet :: "detector \<Rightarrow> bool" where
  "detector_quiet d \<longleftrightarrow> (\<forall>x i key. quiet (det_Analyze d x i key)) \<and>
     (\<forall>f i. det_TakeRulesetVersion d = Some f \<longrightarrow> quiet (f i))"

definition handler_ok :: "analyze_handler \<Rightarrow> bool" where
  "handler_ok h \<longleftrightarrow> (\<forall>d \<in> set (ah_detectors h). detector_quiet d) \<and>
     (\<forall>ds. mset (ah_schedule h ds) = mset ds)"

text \<open>Outside a transaction, reached from \<open>d\<close> by transactions of the handler.\<close>

definition reached :: "db \<Rightarrow> world \<Rightarrow> bool" where
  "reached d w \<longleftrightarrow> idle w \<and> analysis_tx\<^sup>*\<^sup>* d (wd_committed w)"

lemma reached_steps [simp]:
  "reached d (w\<lparr>wd_tick := n\<rparr>) = reached d w" "reached d (w\<lparr>wd_rulesets := f\<rparr>) = reached d w"
  by (simp_all add: reached_def)

lemma reached_tx: "reached d w \<Longrightarrow> idle w' \<Longrightarrow> tx_or_nothing analysis_tx (wd_committed w) (wd_committed w') \<Longrightarrow> reached d w'"
  by (auto simp: reached_def)

lemma reached_same: "reached d w \<Longrightarrow> idle w' \<Longrightarrow> wd_committed w' = wd_committed w \<Longrightarrow> reached d w'"
  by (simp add: reached_def)

lemma reached_upsert: "reached d w \<Longrightarrow> reached d (set_db (results_upsert x (wd_db w)) w)"
  unfolding reached_def idle_def set_db_def
  by (auto intro: rtranclp.rtrancl_into_rtrancl analysis_tx.outcome)

lemma wp_quiet:
  assumes "quiet c" "reached d w" "\<And>a w'. reached d w' \<Longrightarrow> Q a w'" "\<And>e w'. reached d w' \<Longrightarrow> E e w'"
  shows "wp c Q E r w"
proof -
  obtain n f where "snd (c r w) = w\<lparr>wd_tick := n, wd_rulesets := f\<rparr>" using assms(1) unfolding quiet_def by blast
  then show ?thesis using assms(2-4) by (auto simp: wp_def split: prod.splits sum.splits)
qed

lemma keeps_quiet: "quiet c \<Longrightarrow> keeps (\<lambda>r. reached d) c"
  unfolding keeps_wp by (blast intro: wp_quiet)

lemma keeps_reached [keeps_intros]:
  "keeps (\<lambda>r. reached d) nowC" "keeps (\<lambda>r. reached d) uuidC" "keeps (\<lambda>r. reached d) (dbRead g)"
  "keeps (\<lambda>r. reached d) (poolRead g)"
  by (intro keeps_now keeps_uuid keeps_dbRead keeps_poolRead; simp)+

lemma keeps_result_Upsert: "keeps (\<lambda>r. reached d) (result_Upsert x)"
  unfolding result_Upsert_def by (rule keeps_dbWrite) (auto intro: reached_upsert)

lemma keeps_readonly: "readonly c \<Longrightarrow> keeps (\<lambda>r. reached d) c"
  unfolding keeps_def using readonlyD [of c] by (metis reached_steps(1))

lemma keeps_storeOutcome:
  assumes "detector_quiet de"
  shows "keeps (\<lambda>r. reached d) (storeOutcome c de s oc)"
  unfolding storeOutcome_def
  by (intro keeps_intros keeps_result_Upsert keeps_quiet) (use assms in \<open>auto simp: detector_quiet_def\<close>)

lemma keeps_runDetector: "detector_quiet de \<Longrightarrow> keeps (\<lambda>r. reached d) (runDetector c x de)"
  unfolding runDetector_def
  by (intro keeps_intros keeps_storeOutcome keeps_quiet) (auto simp: detector_quiet_def)

lemma keeps_runDetectors: "\<forall>de \<in> set ds. detector_quiet de \<Longrightarrow> keeps (\<lambda>r. reached d) (runDetectors c err ds)"
proof (induction ds arbitrary: err)
  case Nil
  then show ?case by (auto intro: keeps_intros split: option.splits)
next
  case (Cons de ds)
  then show ?case by (auto intro!: keeps_intros keeps_runDetector)
qed

lemma keeps_wp_tx:
  assumes "\<And>r w. idle w \<Longrightarrow> wp c (\<lambda>_ w'. idle w' \<and> tx_or_nothing analysis_tx (wd_committed w) (wd_committed w'))
    (\<lambda>_ w'. idle w' \<and> wd_committed w' = wd_committed w) r w"
  shows "keeps (\<lambda>r. reached d) c"
  unfolding keeps_wp
proof (intro allI impI)
  fix r w assume R: "reached d w"
  then have "idle w" by (simp add: reached_def)
  then show "wp c (\<lambda>_. reached d) (\<lambda>_. reached d) r w"
    by (rule wp_mono [OF assms]) (use R reached_tx reached_same in blast)+
qed

lemma keeps_tryFinalizeMedia: "keeps (\<lambda>r. reached d) (tryFinalizeMedia i)"
  by (rule keeps_wp_tx [OF wp_tryFinalizeMedia])

lemma keeps_renderVerdictTx: "keeps (\<lambda>r. reached d) (renderVerdictTx i v)"
  by (rule keeps_wp_tx [OF wp_renderVerdictTx])

lemma keep_detectors_set: "set (keep_detectors n k ds) \<subseteq> set ds"
  by (induction n k ds rule: keep_detectors.induct) auto

lemma selectDetectors_subset: "fst (selectDetectors h i r w) = Inr ds \<Longrightarrow> set ds \<subseteq> set (ah_detectors h)"
  using keep_detectors_set
  by (auto simp: selectDetectors_def comp_simps Let_def split: if_splits prod.splits sum.splits; blast)

lemma readonly_selectDetectors: "readonly (selectDetectors h i)"
  unfolding selectDetectors_def by (intro readonly_intros)

lemma keeps_bind_value:
  assumes "keeps I c" "\<And>r w a. fst (c r w) = Inr a \<Longrightarrow> keeps I (f a)"
  shows "keeps I (bindC c f)"
  unfolding keeps_def
proof (intro allI impI)
  fix r w assume "I r w"
  then have "I r (snd (c r w))" using assms(1) by (simp add: keeps_def)
  then show "I r (snd (bindC c f r w))"
    using assms(2) [of r w] by (auto simp: bindC_def keeps_def split: prod.splits sum.splits)
qed

lemma keeps_analyze_and_render:
  assumes "handler_ok h"
  shows "keeps (\<lambda>r. reached d) (analyze_and_render h c)"
  unfolding analyze_and_render_def
proof (rule keeps_bind_value)
  show "keeps (\<lambda>r. reached d) (selectDetectors h (c_ClientID c))"
    by (rule keeps_readonly [OF readonly_selectDetectors])
  fix r w ds assume "fst (selectDetectors h (c_ClientID c) r w) = Inr ds"
  then have "set ds \<subseteq> set (ah_detectors h)" by (rule selectDetectors_subset)
  moreover have "set (ah_schedule h ds) = set ds"
    using assms mset_eq_setD by (auto simp: handler_ok_def)
  ultimately have "\<forall>de \<in> set (ah_schedule h ds). detector_quiet de" using assms by (auto simp: handler_ok_def)
  then show "keeps (\<lambda>r. reached d) (thenC (runDetectors c None (ah_schedule h ds))
      (bindC (FindByContentID (c_ID c)) (\<lambda>results.
        let results = List.map (weigh (detector_weights ds)) results in
        thenC (renderVerdictTx (c_ID c) (aggregate_results results)) (tryFinalizeMedia (c_MediaID c)))))"
    unfolding FindByContentID_def
    by (intro keeps_intros keeps_runDetectors keeps_renderVerdictTx keeps_tryFinalizeMedia)
qed


lemma keeps_AnalyzeContent:
  assumes h: "handler_ok h"
  shows "keeps (\<lambda>r. reached d) (AnalyzeContent h i)"
  unfolding keeps_wp
proof (intro allI impI)
  fix r :: env and w assume w: "reached d w"
  let ?wp = "\<lambda>c :: unit app. wp c (\<lambda>_. reached d) (\<lambda>_. reached d) r"
  have render: "reached d v \<Longrightarrow> ?wp (analyze_and_render h c) v" for c v
    using keeps_analyze_and_render [OF h] unfolding keeps_wp by blast
  have finalize: "reached d v \<Longrightarrow> ?wp (tryFinalizeMedia m) v" for m v
    using keeps_tryFinalizeMedia unfolding keeps_wp by blast
  have reserve: "?wp (tryC (withTx (reserveAnalysis h c m))
      (\<lambda>e. if ah_quota h \<and> isHardAnalysisQuotaError e
           then thenC (failQuotaBlockedAnalysis c m e) (failC e) else failC e) (analyze_and_render h)) v"
    if v: "reached d v" and g: "content_get i (wd_committed v) = Some c" for c m v
    unfolding wp_try
  proof (rule wp_mono [OF wp_reserveAnalysis])
    fix a w' assume "idle w' \<and> tx_or_nothing (reserved h (m_ClientID m)) (wd_committed v) (wd_committed w')"
    then have "reached d w'" by (intro reached_tx [OF v]) (auto dest: reserved_tx)
    then show "?wp (analyze_and_render h a) w'" by (rule render)
  next
    fix e w' assume a: "idle w' \<and> wd_committed w' = wd_committed v"
    then have r: "reached d w'" using reached_same [OF v] by blast
    have f: "wp (failQuotaBlockedAnalysis c m e) (\<lambda>_ w'. wp (failC e) (\<lambda>_ :: unit. reached d) (\<lambda>_. reached d) r w')
        (\<lambda>_. reached d) r w'"
    proof (rule wp_mono [OF wp_failQuotaBlocked])
      show "idle w'" using a by simp
      show "content_get i (wd_committed w') = Some c" using a g by simp
    qed (use reached_tx [OF r] reached_same [OF r] in \<open>simp, blast\<close>)+
    show "?wp (if ah_quota h \<and> isHardAnalysisQuotaError e
        then thenC (failQuotaBlockedAnalysis c m e) (failC e) else failC e) w'"
    proof (cases "ah_quota h \<and> isHardAnalysisQuotaError e")
      case True
      show ?thesis unfolding if_P [OF True] wp_then by (rule f)
    next
      case False
      show ?thesis unfolding if_not_P [OF False] using r by simp
    qed
  qed
  have g: "wd_db w = wd_committed w" using w by (simp add: reached_def idle_def)
  show "?wp (AnalyzeContent h i) w"
    unfolding AnalyzeContent_def content_GetByID_def media_GetByID_def
    using w g by (auto split: option.splits content_status.splits simp del: wp_try intro!: render finalize reserve)
qed

text \<open>Every run of the handler, whatever fails, is a sequence of its transactions.\<close>

lemma AnalyzeContent_steps: "handler_ok h \<Longrightarrow> idle w \<Longrightarrow>
    idle (snd (AnalyzeContent h i r w)) \<and>
    analysis_tx\<^sup>*\<^sup>* (wd_committed w) (wd_committed (snd (AnalyzeContent h i r w)))"
  using keepsD [OF keeps_AnalyzeContent [of h "wd_committed w" i], of w r]
  by (simp add: reached_def)

lemma analysis_txs_inv: "analysis_tx\<^sup>*\<^sup>* d d' \<Longrightarrow> analysis_inv d \<Longrightarrow> analysis_inv d'"
  by (induction rule: rtranclp_induct) (auto intro: analysis_tx_inv)

text \<open>A content that is terminal stays as it is.\<close>

lemma content_get_put_terminal:
  assumes i: "analysis_inv d" and g: "content_get j d = Some c0" "content_get k d = Some c"
    and c': "\<not> IsTerminal c" "same_content c c'" "label_stored c'" and t: "IsTerminal c0"
  shows "content_get j (content_put c' d) = Some c0"
proof -
  have "j \<noteq> k" using g c' t by auto
  then show ?thesis using content_get_put [OF _ g(2) c'(2,3), of j] i g by (simp add: analysis_inv_def)
qed

lemma content_get_media_step:
  assumes "analysis_inv d" "media_get i d = Some m" "m_ID m' = m_ID m" "m_CampaignID m' = m_CampaignID m"
    "m_ClientID m' = m_ClientID m" "m_DeletedAt m' = m_DeletedAt m"
  shows "content_get j (media_put m' d) = content_get j d"
proof -
  have k: "keys_distinct mm_ID (t_media d)" "media_table d"
    using assms(1) by (simp_all add: analysis_inv_def media_table_def)
  show ?thesis
    by (rule content_get_media_put [OF k(1)]) (use assms media_get_stored [OF k(2) assms(2)] in auto)
qed

lemma analysis_tx_terminal:
  assumes "analysis_tx d d'" "analysis_inv d" "content_get j d = Some c0" "IsTerminal c0"
  shows "content_get j d' = Some c0"
  using assms
proof (induction rule: analysis_tx.induct)
  case (reserve i d c now eid c')
  then show ?case using content_op_facts(1) [OF reserve(2)] content_get_put_terminal by simp
next
  case (blocked i d c now eid c')
  then show ?case using content_op_facts(2) [OF blocked(2)] content_get_label content_get_put_terminal by simp
next
  case (blocked_media i d c now eid c' k m now' eid' reason m')
  note c' = content_op_facts(2) [OF blocked_media(2) content_get_label [OF blocked_media(1)]]
  have i: "analysis_inv (content_put c' d)"
    using analysis_inv_content_put [OF blocked_media(5) blocked_media(1), of c' "[]"] c' by simp
  have "content_get j (media_put m' (content_put c' d)) = content_get j (content_put c' d)"
    by (rule content_get_media_step [OF i, of k m]) (use blocked_media media_op_facts(2) in auto)
  then show ?case using blocked_media c' content_get_put_terminal by simp
next
  case (outcome d x)
  then show ?case
    by (simp add: results_upsert_def content_get_def content_join_def media_row_def cong: option.case_cong)
next
  case (verdict i d c now eid v c')
  then show ?case using content_op_facts(3) [OF verdict(2)] content_get_put_terminal by simp
next
  case (finalise i d m now eid m')
  then show ?case using content_get_media_step [OF finalise(5,1), of m' j] media_op_facts(1) [OF finalise(4)] by simp
qed

lemma analysis_txs_terminal:
  assumes "analysis_tx\<^sup>*\<^sup>* d d'" "analysis_inv d" "content_get j d = Some c0" "IsTerminal c0"
  shows "content_get j d' = Some c0"
  using assms
proof (induction rule: rtranclp_induct)
  case (step y z)
  then show ?case using analysis_tx_terminal [OF step(2)] analysis_txs_inv [OF step(1)] by simp
qed

section \<open>The quota bounds the running analyses\<close>


lemma count_status_put:
  assumes "content_table d"
  shows "count_status ws st (content_put c d) \<le> count_status ws st d + 1"
proof -
  let ?P = "\<lambda>r. workspace_content ws d r \<and> cm_Status r = st"
  let ?row = "contentModelFromDomain c"
  have k: "distinct (List.map cm_ID (t_contents d))" using assms by (simp add: content_table_def keys_distinct_def)
  have one: "length (List.filter P (List.map (\<lambda>r. if cm_ID r = i then row else r) t)) \<le> length (List.filter P t) + 1"
    if "distinct (List.map cm_ID t)" for P row i t
    using that
  proof (induction t)
    case (Cons q t)
    then have "cm_ID q = i \<Longrightarrow> List.map (\<lambda>r. if cm_ID r = i then row else r) t = t"
      by (intro map_idI) (auto simp: image_iff)
    then show ?case using Cons by (auto simp del: length_filter_map)
  qed simp
  have "length (List.filter ?P (tbl_save cm_ID ?row (t_contents d))) \<le> length (List.filter ?P (t_contents d)) + 1"
    unfolding tbl_save_def using one [OF k] by auto
  moreover have "workspace_content ws (content_put c d) = workspace_content ws d"
    by (intro ext) (simp add: workspace_content_def any_media_row_def in_workspace_def content_put_def
        cong: option.case_cong)
  ultimately show ?thesis by (simp add: count_status_def content_put_def)
qed

lemma count_status_outbox [simp]: "count_status ws st (outbox_put es d) = count_status ws st d"
proof -
  have "workspace_content ws (outbox_put es d) = workspace_content ws d"
    by (intro ext) (simp add: workspace_content_def any_media_row_def in_workspace_def outbox_put_def
        cong: option.case_cong)
  then show ?thesis by (simp add: count_status_def outbox_put_def)
qed

lemma reserved_concurrent:
  assumes "reserved h clientID d d'" "ah_quota h" "content_table d"
  shows "\<exists>u t. quota_usage_spec clientID d t = Some u \<and>
    count_status (qu_WorkspaceID u) ContentAnalyzing d' \<le> qc_Max (qu_ConcurrentAnalyses u)"
  using assms
proof (induction rule: reserved.induct)
  case (1 i d c now eid c' h clientID)
  then obtain u t where u: "quota_usage_spec clientID d t = Some u" "analysis_room u"
    by (auto simp: has_room_def)
  have "0 < qc_Left (qu_ConcurrentAnalyses u)"
    using u(2) by (simp add: analysis_room_def assertConcurrentSlot_ok)
  then have "count_status (qu_WorkspaceID u) ContentAnalyzing d < qc_Max (qu_ConcurrentAnalyses u)"
    using u(1) by (auto simp: quota_usage_spec_def split: option.splits)
  then show ?case
    using u(1) count_status_put [OF 1(5), of "qu_WorkspaceID u" ContentAnalyzing c'] by fastforce
qed

end
