(* ===== verification/MediaCommands.thy ===== *)
theory MediaCommands
  imports AnalyzeContent
begin

text \<open>
  \<open>src/internal/application/command/media\<close>: the uploads that a client asks for, the upload that has
  arrived, the frames of a video, and the scheduled recovery of medias that stopped moving. A
  handler whose quota service is optional in Go takes a flag for it. The extractor and the
  thumbnailer are parameters of the environment.
\<close>

section \<open>Asking for uploads\<close>

record presign_file =
  pf_Filename :: string
  pf_ContentType :: string

record presign_item =
  pi_MediaID :: uuid
  pi_URL :: string
  pi_ObjectKey :: string
  pi_Filename :: string
  pi_MediaType :: media_type

definition normalize_file :: "bool \<Rightarrow> uuid \<Rightarrow> presign_file \<Rightarrow> presign_file list \<Rightarrow> presign_file list app" where
  "normalize_file quota clientID file acc =
    (let filename = filepath_Base (TrimSpace (pf_Filename file));
         contentType = TrimSpace (pf_ContentType file) in
     thenC (liftC (ValidateFilename filename))
     (bindC (liftC (DetectMediaType filename contentType)) (\<lambda>mediaType.
     thenC (if quota then AssertMediaUpload clientID mediaType None else returnC ())
     (returnC (acc @ [\<lparr>pf_Filename = filename, pf_ContentType = contentType\<rparr>])))))"

definition resolveCampaign :: "uuid \<Rightarrow> uuid \<Rightarrow> campaign app" where
  "resolveCampaign campaignID clientID =
    bindC (mapErrC (failed_to ''get campaign'')
        (if campaignID = uuid_Nil then GetDefaultByClientID clientID else campaign_GetByID campaignID))
      (\<lambda>campaign. case campaign of
         None \<Rightarrow> failC (Err ''campaign not found'')
       | Some campaign \<Rightarrow> if cp_ClientID campaign \<noteq> clientID then failC (Err ''campaign not found'')
           else returnC campaign)"

definition create_upload :: "uuid \<Rightarrow> uuid \<Rightarrow> presign_file \<Rightarrow> media list \<times> domain_event list
    \<Rightarrow> (media list \<times> domain_event list) app" where
  "create_upload campaignID clientID file = (\<lambda>(created, events).
    bindC nowC (\<lambda>now. bindC uuidC (\<lambda>nid. bindC uuidC (\<lambda>eid. bindC (askC en_uuid_string) (\<lambda>us.
    bindC (liftC (NewPendingUpload us now nid eid campaignID clientID (pf_Filename file)
        (pf_ContentType file))) (\<lambda>item.
    thenC (mapErrC (failed_to ''create media'') (media_Save item))
    (returnC (created @ [item], events @ List.map EvMedia (m_events item)))))))))"

definition presign_tx :: "uuid \<Rightarrow> uuid \<Rightarrow> presign_file list \<Rightarrow> media list app" where
  "presign_tx campaignID clientID files = withTx (
    bindC (resolveCampaign campaignID clientID) (\<lambda>campaign.
    bindC (foldC (create_upload (cp_ID campaign) clientID) files ([], [])) (\<lambda>(created, events).
    thenC (StoreEvents events) (returnC created))))"

definition presign_item_of :: "media \<Rightarrow> presign_item list \<Rightarrow> presign_item list app" where
  "presign_item_of item acc =
    bindC (mapErrC (failed_to ''generate upload url'') (PresignedPutURL (m_ObjectKey item))) (\<lambda>url.
    returnC (acc @ [\<lparr>pi_MediaID = m_ID item, pi_URL = url, pi_ObjectKey = m_ObjectKey item,
      pi_Filename = m_Filename item, pi_MediaType = m_MediaType item\<rparr>]))"

text \<open>\<open>created[0]\<close> is there: one media per file, and there is a file.\<close>

definition PresignMedia :: "bool \<Rightarrow> uuid \<Rightarrow> uuid \<Rightarrow> presign_file list \<Rightarrow> (uuid \<times> presign_item list) app" where
  "PresignMedia quota campaignID clientID files =
    (if files = [] then failC (Sentinel MediaErrEmptyFileList) else
     thenC (if quota then AssertBatchUpload clientID (int (length files))
       else if MaxPresignBatch < int (length files) then failC (Sentinel MediaErrTooManyFiles)
       else returnC ())
     (bindC (foldC (normalize_file quota clientID) files []) (\<lambda>normalized.
     bindC (presign_tx campaignID clientID normalized) (\<lambda>created.
     bindC (foldC presign_item_of created []) (\<lambda>items.
     returnC (m_CampaignID (hd created), items))))))"

section \<open>An upload has arrived\<close>

text \<open>\<open>fail\<close>: the object goes first; the media is marked failed if it still waits for this object. The
  cause is returned, so the delivery fails too.\<close>

definition process_fail :: "media \<Rightarrow> string \<Rightarrow> go_error \<Rightarrow> unit app" where
  "process_fail media objectKey cause = attemptC (storage_Delete objectKey)
    (thenC (withTx (
      bindC (media_GetByID (m_ID media)) (\<lambda>fresh. case fresh of None \<Rightarrow> returnC () | Some fresh \<Rightarrow>
      if m_ObjectKey fresh \<noteq> objectKey \<or> m_Status fresh \<noteq> StatusPendingUpload then returnC () else
      bindC nowC (\<lambda>now. bindC uuidC (\<lambda>eid.
      bindC (liftC (MarkFailed now eid (Error cause) fresh)) (\<lambda>fresh.
      thenC (media_Update fresh) (StoreEvents (List.map EvMedia (m_events fresh)))))))))
    (failC cause))"

text \<open>\<open>MarkUploaded\<close> and \<open>StartProcessing\<close> on the media read in the transaction.\<close>

definition accept_upload :: "int \<Rightarrow> string \<Rightarrow> media \<Rightarrow> media app" where
  "accept_upload size' contentType fresh =
    bindC nowC (\<lambda>now. bindC uuidC (\<lambda>eid.
    bindC (liftC (MarkUploaded now eid size' contentType fresh)) (\<lambda>fresh.
    bindC nowC (\<lambda>now. bindC uuidC (\<lambda>eid1. bindC uuidC (\<lambda>eid2.
    liftC (StartProcessing now eid1 eid2 fresh)))))))"

definition new_content :: "uuid \<Rightarrow> uuid \<Rightarrow> uuid \<Rightarrow> string \<Rightarrow> int option \<Rightarrow> int option \<Rightarrow> int \<Rightarrow> string
    \<Rightarrow> content app" where
  "new_content mediaID campaignID clientID objectKey frameIndex timestampMs size' thumbKey =
    bindC nowC (\<lambda>now. bindC uuidC (\<lambda>nid. bindC uuidC (\<lambda>eid1. bindC uuidC (\<lambda>eid2.
    liftC (NewFromMedia now nid eid1 eid2 mediaID campaignID clientID objectKey frameIndex
      timestampMs size' thumbKey)))))"

definition image_tx :: "media \<Rightarrow> string \<Rightarrow> string \<Rightarrow> int \<Rightarrow> string \<Rightarrow> unit app" where
  "image_tx media objectKey contentType size' thumbKey = withTx (
    bindC (mapErrC (failed_to ''get media'') (media_GetByID (m_ID media))) (\<lambda>fresh.
    case fresh of None \<Rightarrow> returnC () | Some fresh \<Rightarrow>
    if m_Status fresh \<noteq> StatusPendingUpload \<or> m_ObjectKey fresh \<noteq> objectKey then returnC () else
    bindC (accept_upload size' contentType fresh) (\<lambda>fresh.
    bindC (new_content (m_ID fresh) (m_CampaignID fresh) (m_ClientID fresh) (m_ObjectKey fresh)
        None None size' thumbKey) (\<lambda>content.
    thenC (mapErrC (failed_to ''update media'') (media_Update fresh))
    (thenC (mapErrC (failed_to ''create content'') (content_Save content))
    (StoreEvents (List.map EvMedia (m_events fresh) @ List.map EvContent (c_events content))))))))"

definition ThumbnailMaxWidth :: int where "ThumbnailMaxWidth = 400"

definition handleImage :: "media \<Rightarrow> string \<Rightarrow> string \<Rightarrow> int \<Rightarrow> bytes \<Rightarrow> unit app" where
  "handleImage media objectKey contentType size' raw =
    tryC (GenerateJPEG raw ThumbnailMaxWidth) (process_fail media objectKey) (\<lambda>thumbBytes.
    bindC (askC en_uuid_string) (\<lambda>us.
    let thumbKey = NewThumbnailKey us (m_ClientID media) (m_CampaignID media) (m_ID media) in
    tryC (storage_PutThumbnail thumbKey thumbBytes) (process_fail media objectKey) (\<lambda>_.
    image_tx media objectKey contentType size' thumbKey)))"

definition handleVideo :: "media \<Rightarrow> string \<Rightarrow> string \<Rightarrow> int \<Rightarrow> unit app" where
  "handleVideo media objectKey contentType size' = withTx (
    bindC (mapErrC (failed_to ''get media'') (media_GetByID (m_ID media))) (\<lambda>fresh.
    case fresh of None \<Rightarrow> returnC () | Some fresh \<Rightarrow>
    if m_Status fresh \<noteq> StatusPendingUpload \<or> m_ObjectKey fresh \<noteq> objectKey then returnC () else
    bindC (accept_upload size' contentType fresh) (\<lambda>fresh.
    thenC (mapErrC (failed_to ''update media'') (media_Update fresh))
    (StoreEvents (List.map EvMedia (m_events fresh))))))"

definition upload_content_type :: "media \<Rightarrow> string \<Rightarrow> string \<Rightarrow> string" where
  "upload_content_type media objectKey given =
    (let contentType = TrimSpace given;
         contentType = (if contentType = '''' then m_ContentType media else contentType)
     in if contentType = '''' then
          (let ext = TrimPrefix (filepath_Ext objectKey) ''.'' in
           case m_MediaType media of
             MediaTypeImage \<Rightarrow> ''image/'' @ ext
           | MediaTypeVideo \<Rightarrow> ''video/'' @ ext)
        else contentType)"

text \<open>The checks on the announced size; any error, of the quota or of the service, fails the upload.\<close>

definition announced_quota :: "media \<Rightarrow> int \<Rightarrow> unit app" where
  "announced_quota media size' =
    thenC (AssertMediaUpload (m_ClientID media) (m_MediaType media) (if size' \<le> 0 then None else Some size'))
    (if 0 < size' then thenC (AssertFileSize (m_ClientID media) size')
       (AssertStorageReserve (m_ClientID media) size') else returnC ())"

definition stored_quota :: "media \<Rightarrow> int \<Rightarrow> unit app" where
  "stored_quota media size' = thenC (AssertFileSize (m_ClientID media) size')
     (AssertStorageReserve (m_ClientID media) size')"

definition process_stored :: "bool \<Rightarrow> media \<Rightarrow> string \<Rightarrow> string \<Rightarrow> int \<Rightarrow> bytes \<Rightarrow> unit app" where
  "process_stored quota media objectKey given announced raw =
    (if MaxBytesFor (m_MediaType media) < int (length raw)
     then process_fail media objectKey (Err ''file too large'')
     else let contentType = upload_content_type media objectKey given;
              size' = (if announced \<le> 0 then int (length raw) else announced) in
       tryC (if quota then stored_quota media size' else returnC ()) (process_fail media objectKey) (\<lambda>_.
       case m_MediaType media of
         MediaTypeImage \<Rightarrow> handleImage media objectKey contentType size' raw
       | MediaTypeVideo \<Rightarrow> handleVideo media objectKey contentType size'))"

definition ProcessUpload :: "bool \<Rightarrow> string \<Rightarrow> string \<Rightarrow> int \<Rightarrow> unit app" where
  "ProcessUpload quota key given announced =
    (let objectKey = TrimSpace key in
     if objectKey = [] \<or> \<not> IsMediaObjectKey objectKey then returnC () else
     bindC (mapErrC (failed_to ''get media'') (media_GetByObjectKey objectKey)) (\<lambda>media.
     case media of None \<Rightarrow> returnC () | Some media \<Rightarrow>
     if m_Status media \<noteq> StatusPendingUpload then returnC () else
     tryC (if quota then announced_quota media announced else returnC ()) (process_fail media objectKey) (\<lambda>_.
     if MaxBytesFor (m_MediaType media) < announced
     then process_fail media objectKey (Err ''file too large'')
     else tryC (storage_Get objectKey) (process_fail media objectKey)
       (process_stored quota media objectKey given announced))))"

end
