(* ===== verification/Frames.thy ===== *)
theory Frames
  imports MediaCommands
begin

text \<open>
  \<open>src/internal/application/command/media/extract_frames.go\<close> and \<open>recover_stale_processing.go\<close>. The
  extraction turns a video into one content per sampled frame; the recovery looks at medias that
  have not moved for a while, fails the old ones and puts the others back to work.
\<close>

section \<open>Frames of a video\<close>

definition DefaultFramesPerVideo :: int where "DefaultFramesPerVideo = 10"
definition MaxHardFramesPerVideo :: int where "MaxHardFramesPerVideo = 30"

definition resolveMaxFrames :: "bool \<Rightarrow> uuid \<Rightarrow> int app" where
  "resolveMaxFrames quota clientID = (if \<not> quota then returnC DefaultFramesPerVideo else
     bindC (GetQuotaUsage clientID) (\<lambda>usage.
     let maxFrames = q_MaxFramesPerVideo (qu_Limits usage) in
     if maxFrames \<le> 0 then failC (Sentinel ErrVideoAnalysisNotAllowed)
     else returnC (if MaxHardFramesPerVideo < maxFrames then MaxHardFramesPerVideo else maxFrames)))"

text \<open>The file system calls around the temporary file can fail like any other call.\<close>

definition downloadToTemp :: "string \<Rightarrow> bytes app" where
  "downloadToTemp objectKey = bindC (storage_Get objectKey) (\<lambda>body. thenC callC (returnC body))"

definition extract_fail :: "media \<Rightarrow> go_error \<Rightarrow> unit app" where
  "extract_fail media cause = thenC (withTx (
     bindC (media_GetByID (m_ID media)) (\<lambda>fresh. case fresh of None \<Rightarrow> returnC () | Some fresh \<Rightarrow>
     if m_Status fresh = StatusAnalyzed \<or> m_Status fresh = StatusFailed then returnC () else
     bindC nowC (\<lambda>now. bindC uuidC (\<lambda>eid.
     bindC (liftC (MarkFailed now eid (Error cause) fresh)) (\<lambda>fresh.
     thenC (media_Update fresh) (StoreEvents (List.map EvMedia (m_events fresh))))))))) (failC cause)"

definition store_frame :: "media \<Rightarrow> extracted_frame \<Rightarrow> content list \<Rightarrow> content list app" where
  "store_frame media frame created = bindC (askC en_uuid_string) (\<lambda>us.
    let objectKey = NewFrameObjectKey us (m_ClientID media) (m_CampaignID media) (m_ID media)
          (fr_Index frame) in
    thenC (storage_Put objectKey (fr_JPEGBytes frame))
    (bindC (new_content (m_ID media) (m_CampaignID media) (m_ClientID media) objectKey
        (Some (fr_Index frame)) (Some (fr_TimestampMs frame)) (int (length (fr_JPEGBytes frame))) '''')
      (\<lambda>content.
    let thumbKey = content_NewThumbnailKey us (m_ClientID media) (m_CampaignID media) (c_ID content) in
    thenC (storage_PutThumbnail thumbKey (fr_JPEGBytes frame))
    (bindC nowC (\<lambda>now. returnC (created @ [SetThumbnailKey now thumbKey content]))))))"

definition save_frame :: "content \<Rightarrow> domain_event list \<Rightarrow> domain_event list app" where
  "save_frame c events = thenC (mapErrC (Wrapped ''save content frame'') (content_Save c))
     (returnC (events @ List.map EvContent (c_events c)))"

definition frames_tx :: "media \<Rightarrow> content list \<Rightarrow> unit app" where
  "frames_tx media created = withTx (
     bindC (media_GetByID (m_ID media)) (\<lambda>fresh. case fresh of None \<Rightarrow> returnC () | Some fresh \<Rightarrow>
     bindC (ListByMediaID (m_ID fresh)) (\<lambda>siblings.
     if siblings \<noteq> [] then returnC () else
     bindC (foldC save_frame created []) StoreEvents)))"

definition extract_and_store :: "bool \<Rightarrow> media \<Rightarrow> unit app" where
  "extract_and_store quota media =
    tryC (resolveMaxFrames quota (m_ClientID media))
      (\<lambda>e. if errors_is e ErrVideoAnalysisNotAllowed then extract_fail media e else failC e)
      (\<lambda>maxFrames.
    tryC (downloadToTemp (m_ObjectKey media)) (extract_fail media) (\<lambda>tmpFile.
    tryC (bindC (askC (\<lambda>r. en_extract r tmpFile maxFrames)) liftC) (extract_fail media) (\<lambda>frames.
    bindC (foldC (store_frame media) frames []) (frames_tx media))))"

text \<open>A media that is only uploaded is moved on first; it is written as it was read before the
  transaction.\<close>

definition ensure_processing :: "media \<Rightarrow> media app" where
  "ensure_processing media = (if m_Status media = StatusUploaded then
     bindC nowC (\<lambda>now. bindC uuidC (\<lambda>eid1. bindC uuidC (\<lambda>eid2.
     bindC (liftC (StartProcessing now eid1 eid2 media)) (\<lambda>media.
     thenC (withTx (thenC (media_Update media) (StoreEvents (List.map EvMedia (m_events media)))))
       (returnC (snd (PullEvents media)))))))
   else returnC media)"

definition ExtractFrames :: "bool \<Rightarrow> uuid \<Rightarrow> unit app" where
  "ExtractFrames quota mediaID = (if mediaID = uuid_Nil then failC (Err ''media id is required'') else
     bindC (media_GetByID mediaID) (\<lambda>media. case media of None \<Rightarrow> returnC () | Some media \<Rightarrow>
     if m_MediaType media \<noteq> MediaTypeVideo then returnC ()
     else if m_Status media \<noteq> StatusProcessing \<and> m_Status media \<noteq> StatusUploaded then returnC ()
     else bindC (ensure_processing media) (\<lambda>media.
       bindC (ListByMediaID (m_ID media)) (\<lambda>existing.
       if existing \<noteq> [] then returnC () else extract_and_store quota media))))"

section \<open>Recovery\<close>

record recover_handler =
  rh_staleAfter :: duration
  rh_maxAge :: duration
  rh_batchSize :: int

record recover_result =
  rr_Scanned :: int
  rr_Requeued :: int
  rr_Failed :: int
  rr_Errors :: int

definition DefaultStaleAfter :: duration where "DefaultStaleAfter = 30 * Minute"
definition DefaultMaxAge :: duration where "DefaultMaxAge = 2 * Hour"
definition DefaultBatchSize :: int where "DefaultBatchSize = 100"
definition StaleFailReason :: string where "StaleFailReason = ''Media processing timed out''"

definition NewRecoverStale :: "duration \<Rightarrow> duration \<Rightarrow> recover_handler" where
  "NewRecoverStale staleAfter maxAge =
     \<lparr>rh_staleAfter = (if staleAfter \<le> 0 then DefaultStaleAfter else staleAfter),
      rh_maxAge = (if maxAge \<le> 0 then DefaultMaxAge else maxAge), rh_batchSize = DefaultBatchSize\<rparr>"

definition fail_content :: "content \<Rightarrow> domain_event list \<Rightarrow> domain_event list app" where
  "fail_content c events = (if IsTerminal c then returnC events else
     bindC nowC (\<lambda>now. bindC uuidC (\<lambda>eid. bindC (liftC (content_MarkFailed now eid c)) (\<lambda>c.
     thenC (content_Update c) (returnC (events @ List.map EvContent (c_events c)))))))"

text \<open>The end of each branch: the media is written and its events follow those of the contents.\<close>

definition save_media :: "media \<Rightarrow> domain_event list \<Rightarrow> unit app" where
  "save_media m events = thenC (media_Update m) (StoreEvents (events @ List.map EvMedia (m_events m)))"

definition fail_stale :: "media \<Rightarrow> domain_event list \<Rightarrow> unit app" where
  "fail_stale m events = bindC nowC (\<lambda>now. bindC uuidC (\<lambda>eid.
     bindC (liftC (MarkFailed now eid StaleFailReason m)) (\<lambda>m. save_media m events)))"

definition recover_failMedia :: "uuid \<Rightarrow> unit app" where
  "recover_failMedia mediaID = withTx (
     bindC (media_GetByID mediaID) (\<lambda>fresh. case fresh of None \<Rightarrow> returnC () | Some fresh \<Rightarrow>
     if m_Status fresh \<noteq> StatusProcessing then returnC () else
     bindC (ListByMediaID (m_ID fresh)) (\<lambda>contents.
     bindC (foldC fail_content contents []) (fail_stale fresh))))"

definition requeueable :: "gotime \<Rightarrow> content \<Rightarrow> bool" where
  "requeueable staleBefore c \<longleftrightarrow> c_Status c = ContentStUploaded \<and> c_UpdatedAt c < staleBefore"

text \<open>The state of the loop: all terminal so far, whether something was requeued, the events.\<close>

definition requeue_content :: "gotime \<Rightarrow> content \<Rightarrow> bool \<times> bool \<times> domain_event list
    \<Rightarrow> (bool \<times> bool \<times> domain_event list) app" where
  "requeue_content staleBefore c = (\<lambda>(allTerminal, didWork, events).
     if IsTerminal c then returnC (allTerminal, didWork, events)
     else if \<not> requeueable staleBefore c then returnC (False, didWork, events)
     else bindC nowC (\<lambda>now. bindC uuidC (\<lambda>eid. let c = RequeueAnalysis now eid c in
       thenC (content_Update c) (returnC (False, True, events @ List.map EvContent (c_events c))))))"

definition requeueMedia :: "uuid \<Rightarrow> gotime \<Rightarrow> gotime \<Rightarrow> bool app" where
  "requeueMedia mediaID staleBefore now = withTx (
     bindC (media_GetByID mediaID) (\<lambda>fresh. case fresh of None \<Rightarrow> returnC False | Some fresh \<Rightarrow>
     if m_Status fresh \<noteq> StatusProcessing then returnC False else
     bindC (ListByMediaID (m_ID fresh)) (\<lambda>contents.
     if contents = [] then
       (if m_MediaType fresh \<noteq> MediaTypeVideo then thenC (fail_stale fresh []) (returnC True)
        else bindC nowC (\<lambda>t. bindC uuidC (\<lambda>eid.
          bindC (liftC (RequeueUploaded t eid fresh)) (\<lambda>fresh.
          thenC (save_media fresh []) (returnC True)))))
     else bindC (foldC (requeue_content staleBefore) contents (True, False, []))
       (\<lambda>(allTerminal, didWork, events).
       if allTerminal then
         bindC nowC (\<lambda>t. bindC uuidC (\<lambda>eid.
         bindC (liftC (RenderGlobalVerdict t eid (AggregateMediaVerdict contents) fresh)) (\<lambda>fresh.
         thenC (save_media fresh events) (returnC True))))
       else if \<not> didWork then returnC False
       else bindC nowC (\<lambda>t. thenC (media_Update (Touch t now fresh))
         (thenC (StoreEvents events) (returnC True)))))))"

definition recover_one :: "recover_handler \<Rightarrow> gotime \<Rightarrow> media \<Rightarrow> recover_result \<Rightarrow> recover_result app" where
  "recover_one h now m res =
    (if m_CreatedAt m < now - rh_maxAge h then
       tryC (recover_failMedia (m_ID m))
         (\<lambda>e. returnC (res\<lparr>rr_Errors := rr_Errors res + 1\<rparr>))
         (\<lambda>_. returnC (res\<lparr>rr_Failed := rr_Failed res + 1\<rparr>))
     else tryC (requeueMedia (m_ID m) (now - rh_staleAfter h) now)
         (\<lambda>e. returnC (res\<lparr>rr_Errors := rr_Errors res + 1\<rparr>))
         (\<lambda>requeued. returnC (if requeued then res\<lparr>rr_Requeued := rr_Requeued res + 1\<rparr> else res)))"

definition RecoverStale :: "recover_handler \<Rightarrow> gotime \<Rightarrow> recover_result app" where
  "RecoverStale h given = bindC nowC (\<lambda>clock.
     let now = (if IsZero given then clock else UTC given) in
     bindC (mapErrC (Wrapped ''list stale processing medias'')
         (ListProcessingUpdatedBefore (now - rh_staleAfter h) (rh_batchSize h))) (\<lambda>medias.
     foldC (recover_one h now) medias
       \<lparr>rr_Scanned = int (length medias), rr_Requeued = 0, rr_Failed = 0, rr_Errors = 0\<rparr>))"

end
