(* ===== verification/Invariants.thy ===== *)
theory Invariants
  imports QuotaUsage
begin

text \<open>
  Invariants of the committed database. A handler keeps one when its transactions do: calls that do
  not write, the guards of the quotas and the object store cannot break it. The lemmas are shared by
  the invariants of the analyses, of the accounts and of the billing.
\<close>

definition holds :: "(db \<Rightarrow> bool) \<Rightarrow> world \<Rightarrow> bool" where
  "holds I w \<longleftrightarrow> idle w \<and> I (wd_committed w)"

lemma holds_steps [simp]:
  "holds I (w\<lparr>wd_tick := n\<rparr>) = holds I w" "holds I (w\<lparr>wd_rulesets := f\<rparr>) = holds I w"
  "holds I (w\<lparr>wd_objects := b\<rparr>) = holds I w" "holds I (w\<lparr>wd_thumbnails := b\<rparr>) = holds I w"
  by (simp_all add: holds_def)

lemma holds_withTx:
  assumes "tx_safe c" and "\<And>r w. wd_tx w \<Longrightarrow> I (wd_db w) \<Longrightarrow>
      wp c (\<lambda>_ w'. I (wd_db w')) (\<lambda>_ _. True) r w"
  shows "keeps (\<lambda>r. holds I) (withTx c)"
  unfolding keeps_wp
proof (intro allI impI)
  fix r w assume "holds I w"
  then have "wp c (\<lambda>_ w'. I (wd_db w')) (\<lambda>_ _. True) r (beginTx w)"
    by (intro assms(2)) (simp_all add: holds_def beginTx_def)
  from wp_withTx_rel [OF assms(1), of I, OF this]
  show "wp (withTx c) (\<lambda>_. holds I) (\<lambda>_. holds I) r w"
    by (rule wp_mono) (use \<open>holds I w\<close> in \<open>auto simp: holds_def\<close>)
qed

lemma holds_calls [keeps_intros]:
  "keeps (\<lambda>r. holds I) nowC" "keeps (\<lambda>r. holds I) uuidC" "keeps (\<lambda>r. holds I) callC"
  "keeps (\<lambda>r. holds I) (dbRead g)" "keeps (\<lambda>r. holds I) (poolRead g)"
  by (intro keeps_now keeps_uuid keeps_call keeps_dbRead keeps_poolRead; simp)+

lemma holds_readonly: "readonly c \<Longrightarrow> keeps (\<lambda>r. holds I) c"
  unfolding keeps_def using readonlyD [of c] by (metis holds_steps(1))

lemmas holds_guards [keeps_intros] = readonly_guards [THEN holds_readonly]
  readonly_GetQuotaUsage [THEN holds_readonly]

lemma holds_storage [keeps_intros]:
  "keeps (\<lambda>r. holds I) (storage_Get key)" "keeps (\<lambda>r. holds I) (storage_Put key b)"
  "keeps (\<lambda>r. holds I) (storage_PutThumbnail key b)" "keeps (\<lambda>r. holds I) (storage_Delete key)"
  "keeps (\<lambda>r. holds I) (storage_DeleteThumbnail key)"
  "keeps (\<lambda>r. holds I) (GenerateJPEG raw n)" "keeps (\<lambda>r. holds I) (PresignedPutURL key)"
  unfolding storage_Get_def storage_Put_def storage_PutThumbnail_def storage_Delete_def
    storage_DeleteThumbnail_def GenerateJPEG_def PresignedPutURL_def
  by (intro keeps_intros keeps_state; simp split: option.splits)+

text \<open>A body keeps what holds in the transaction.\<close>

definition in_tx_holds :: "(db \<Rightarrow> bool) \<Rightarrow> world \<Rightarrow> bool" where
  "in_tx_holds I w \<longleftrightarrow> wd_tx w \<and> I (wd_db w)"

lemma in_tx_holds_steps [simp]:
  "in_tx_holds I (w\<lparr>wd_tick := n\<rparr>) = in_tx_holds I w" "in_tx_holds I (w\<lparr>wd_locks := l\<rparr>) = in_tx_holds I w"
  by (simp_all add: in_tx_holds_def)

lemma in_tx_holds_calls [keeps_intros]:
  "keeps (\<lambda>r. in_tx_holds I) nowC" "keeps (\<lambda>r. in_tx_holds I) uuidC" "keeps (\<lambda>r. in_tx_holds I) callC"
  "keeps (\<lambda>r. in_tx_holds I) (dbRead g)" "keeps (\<lambda>r. in_tx_holds I) (poolRead g)"
  by (intro keeps_now keeps_uuid keeps_call keeps_dbRead keeps_poolRead; simp)+

lemma in_tx_holds_write: "(\<And>d d'. I d \<Longrightarrow> f d = Inr d' \<Longrightarrow> I d') \<Longrightarrow> keeps (\<lambda>r. in_tx_holds I) (dbWrite f)"
  by (intro keeps_dbWrite) (auto simp: in_tx_holds_def set_db_def)

lemma holds_withTx_keeps:
  assumes "tx_safe c" and "keeps (\<lambda>r. in_tx_holds I) c"
  shows "keeps (\<lambda>r. holds I) (withTx c)"
proof (rule holds_withTx [OF assms(1)])
  fix r and w :: world
  assume "wd_tx w" "I (wd_db w)"
  then show "wp c (\<lambda>_ w'. I (wd_db w')) (\<lambda>_ _. True) r w"
    using assms(2) unfolding keeps_wp in_tx_holds_def by (blast intro: wp_mono)
qed

end
