(* ===== verification/Soundness.thy ===== *)
theory Soundness
  imports Frames Invariants
begin

text \<open>
  An invariant across handlers: in the committed database, the verdict of an analysed media is the
  aggregate of its contents and all of them are terminal. Every handler that touches a media or a
  content keeps it, whichever calls fail; the recovery also brings a media whose contents are all
  terminal to its verdict, and a media that is too old to \<open>failed\<close>.
\<close>

section \<open>Handlers that keep the verdicts sound\<close>

abbreviation sound :: "world \<Rightarrow> bool" where
  "sound \<equiv> holds analysis_inv"

lemma analysis_inv_outbox [simp]: "analysis_inv (outbox_put es d) = analysis_inv d"
  by (simp add: analysis_inv_def verdict_sound_def)

text \<open>Operations of a media that do not analyse it.\<close>

definition media_kept :: "media \<Rightarrow> media \<Rightarrow> bool" where
  "media_kept m m' \<longleftrightarrow> m_ID m' = m_ID m \<and> m_CampaignID m' = m_CampaignID m \<and> m_ClientID m' = m_ClientID m \<and>
     m_DeletedAt m' = m_DeletedAt m \<and>
     (m_Status m' = StatusAnalyzed \<longrightarrow> m_Status m = StatusAnalyzed \<and> m_Verdict m' = m_Verdict m)"

lemma media_kept_ops:
  "MarkFailed now eid reason m = Inr m' \<Longrightarrow> media_kept m m'"
  "MarkUploaded now eid sz ct m = Inr m' \<Longrightarrow> media_kept m m'"
  "StartProcessing now eid1 eid2 m = Inr m' \<Longrightarrow> media_kept m m'"
  "RequeueUploaded now eid m = Inr m' \<Longrightarrow> media_kept m m'"
  "media_kept m (Touch now t m)"
  by (auto simp: media_kept_def media_ok Touch_def)

lemma media_kept_trans: "media_kept a b \<Longrightarrow> media_kept b c \<Longrightarrow> media_kept a c"
  by (auto simp: media_kept_def)

lemma analysis_inv_kept:
  assumes i: "analysis_inv d" and g: "media_get j d = Some m" and k: "media_kept m m'"
  shows "analysis_inv (media_put m' d)"
proof -
  have s: "verdict_sound d" using i by (simp add: analysis_inv_def)
  have "analysis_inv (outbox_put [] (media_put m' d))"
    by (rule analysis_inv_media_put [OF i g])
      (use k g s in \<open>auto simp: media_kept_def verdict_sound_def\<close>)
  then show ?thesis by simp
qed

lemma analysis_inv_verdict:
  assumes "analysis_inv d" "media_get j d = Some m" "contents_of j d \<noteq> []"
    "\<forall>c \<in> set (contents_of j d). IsTerminal c"
    "RenderGlobalVerdict now eid (AggregateMediaVerdict (contents_of j d)) m = Inr m'"
  shows "analysis_inv (media_put m' d)"
proof -
  have "analysis_inv (outbox_put [] (media_put m' d))"
    by (rule analysis_inv_media_put [OF assms(1,2)])
      (use assms media_op_facts(1) [OF assms(5)] in auto)
  then show ?thesis by simp
qed

lemma analysis_inv_content:
  assumes "analysis_inv d" "content_get i d = Some c" "\<not> IsTerminal c" "same_content c c'" "label_stored c'"
  shows "analysis_inv (content_put c' d)"
  using analysis_inv_content_put [OF assms, of "[]"] by simp

text \<open>A new content of a media that is not analysed, and a new media.\<close>

lemma analysis_inv_content_insert:
  assumes i: "analysis_inv d" and ins: "content_insert c d = Inr d'"
    and m: "\<And>m. media_get (c_MediaID c) d = Some m \<Longrightarrow> m_Status m \<noteq> StatusAnalyzed"
  shows "analysis_inv d'"
proof -
  obtain t where t: "tbl_create cm_ID (contentModelFromDomain c) (t_contents d) = Inr t" "d' = d\<lparr>t_contents := t\<rparr>"
    using ins by (auto simp: content_insert_def split: if_splits sum.splits)
  have rows: "t = t_contents d @ [contentModelFromDomain c]" using tbl_create_rows [OF t(1)] .
  have mg: "media_get j d' = media_get j d" for j by (simp add: t media_get_def media_row_def)
  have co: "contents_of j d' = contents_of j d" if "j \<noteq> c_MediaID c" for j
    using that by (simp add: t rows contents_of_def media_row_def cong: option.case_cong)
  have "verdict_sound d" using i by (simp add: analysis_inv_def)
  then have "verdict_sound d'" unfolding verdict_sound_def mg using co m by metis
  moreover have "content_table d'"
    using i tbl_create_distinct [OF _ t(1)] by (simp add: t analysis_inv_def content_table_def)
  moreover have "media_table d'" using i by (simp add: t analysis_inv_def media_table_def)
  ultimately show ?thesis by (simp add: analysis_inv_def)
qed

lemma analysis_inv_media_insert:
  assumes i: "analysis_inv d" and ins: "media_insert m d = Inr d'" and m: "m_Status m \<noteq> StatusAnalyzed"
  shows "analysis_inv d'"
proof -
  obtain t where t: "tbl_create mm_ID (mediaModelFromDomain m) (t_media d) = Inr t" "d' = d\<lparr>t_media := t\<rparr>"
    using ins by (auto simp: media_insert_def split: if_splits sum.splits)
  have mt: "media_table d" using i by (simp add: analysis_inv_def)
  have fresh: "mm_ID (mediaModelFromDomain m) \<notin> mm_ID ` set (t_media d)"
    using t(1) by (auto simp: tbl_create_def split: if_splits)
  have put: "media_put m d = d'"
    using fresh tbl_create_rows [OF t(1)] by (simp add: t media_put_def tbl_save_def)
  have k: "keys_distinct mm_ID (t_media d)" using mt by (simp add: media_table_def)
  have co: "contents_of j d' = contents_of j d" if "j \<noteq> m_ID m" for j
    using that media_row_put [OF k, of j m] by (simp add: put [symmetric] contents_of_def media_put_def cong: option.case_cong)
  have mg: "media_get j d' = (if j = m_ID m then (if m_DeletedAt m = None then Some (media_stored m) else None) else media_get j d)" for j
    unfolding put [symmetric] by (rule media_get_put [OF mt])
  have "verdict_sound d'"
    using i m co unfolding verdict_sound_def analysis_inv_def mg by (auto simp: media_stored_def verdict_sound_def)
  then show ?thesis using i media_table_put [OF mt, of m] by (simp add: put analysis_inv_def t content_table_def)
qed

section \<open>Uploads\<close>

lemma sound_process_fail: "keeps (\<lambda>r. sound) (process_fail m key e)"
  unfolding process_fail_def
proof (intro keeps_intros holds_withTx, goal_cases)
  case 1
  show ?case by (intro tx_safe_intros)
next
  case (2 r w)
  then show ?case
    by (auto simp: handler_defs media_op_events split: option.splits intro!: analysis_inv_kept intro: media_kept_ops(1))
qed

lemma StartProcessing_status: "StartProcessing now eid1 eid2 m = Inr m' \<Longrightarrow> m_Status m' = StatusProcessing"
  by (auto simp: StartProcessing_ok)

lemma NewFromMedia_facts: "NewFromMedia now nid eid1 eid2 mid cpid clid key fi ts sz thumb = Inr c \<Longrightarrow>
    c_MediaID c = mid \<and> c_CampaignID c = cpid \<and> c_ClientID c = clid \<and> c_Status c = ContentStUploaded \<and>
    c_ID c = nid \<and> c_FrameIndex c = fi"
  by (auto simp: NewFromMedia_cases split: if_splits)

lemma sound_image_tx: "keeps (\<lambda>r. sound) (image_tx m key ct sz thumb)"
  unfolding image_tx_def accept_upload_def new_content_def
proof (intro holds_withTx, goal_cases)
  case 1
  show ?case by (intro tx_safe_intros)
next
  case (2 r w)
  have step: "analysis_inv d'"
    if g: "media_get (m_ID m) (wd_db w) = Some x" and u: "MarkUploaded n1 e1 sz ct x = Inr y"
      and s: "StartProcessing n2 e2 e3 y = Inr z"
      and c: "NewFromMedia n3 i4 e4 e5 (m_ID z) (m_CampaignID z) (m_ClientID z) (m_ObjectKey z) None None sz thumb = Inr c"
      and ins: "content_insert c (media_put z (wd_db w)) = Inr d'" for x y z c d' n1 e1 n2 e2 e3 n3 i4 e4 e5
  proof (rule analysis_inv_content_insert [OF _ ins])
    have k: "media_kept x z" using media_kept_ops(2) [OF u] media_kept_ops(3) [OF s] media_kept_trans by blast
    show i: "analysis_inv (media_put z (wd_db w))" by (rule analysis_inv_kept [OF 2(2) g k])
    have "media_table (wd_db w)" using 2(2) by (simp add: analysis_inv_def)
    then show "m_Status x' \<noteq> StatusAnalyzed" if "media_get (c_MediaID c) (media_put z (wd_db w)) = Some x'" for x'
      using that NewFromMedia_facts [OF c] StartProcessing_status [OF s]
      by (auto simp: media_get_put media_stored_def split: if_splits)
  qed
  show ?case
    using 2 by (auto simp: handler_defs content_Save_def split: option.splits intro: step)
qed

lemma sound_handleVideo: "keeps (\<lambda>r. sound) (handleVideo m key ct sz)"
  unfolding handleVideo_def accept_upload_def
proof (intro holds_withTx, goal_cases)
  case 1
  show ?case by (intro tx_safe_intros)
next
  case (2 r w)
  then show ?case
    by (auto simp: handler_defs split: option.splits
        intro!: analysis_inv_kept intro: media_kept_trans [OF media_kept_ops(2) media_kept_ops(3)])
qed

lemma sound_handleImage: "keeps (\<lambda>r. sound) (handleImage m key ct sz raw)"
  unfolding handleImage_def by (intro keeps_intros sound_process_fail sound_image_tx)

lemma sound_ProcessUpload: "keeps (\<lambda>r. sound) (ProcessUpload quota key ct sz)"
proof -
  have "keeps (\<lambda>r. sound) (case m_MediaType m of MediaTypeImage \<Rightarrow> handleImage m k ct sz raw
      | MediaTypeVideo \<Rightarrow> handleVideo m k ct sz)" for m k ct sz raw
    by (cases "m_MediaType m") (simp_all add: sound_handleImage sound_handleVideo)
  then have "keeps (\<lambda>r. sound) (process_stored quota m k ct sz raw)" for m k ct sz raw
    unfolding process_stored_def stored_quota_def by (intro keeps_intros sound_process_fail)
  then show ?thesis
    unfolding ProcessUpload_def announced_quota_def media_GetByObjectKey_def
    by (intro keeps_intros sound_process_fail)
qed

lemma NewPendingUpload_status: "NewPendingUpload us now nid eid cp cl fn ct = Inr m \<Longrightarrow>
    m_Status m = StatusPendingUpload \<and> m_CampaignID m = cp \<and> m_ClientID m = cl \<and> m_ID m = nid"
  by (auto simp: NewPendingUpload_def Let_def recordEvent_def split: if_splits sum.splits)

lemma sound_PresignMedia: "keeps (\<lambda>r. sound) (PresignMedia quota cp cl files)"
proof -
  have files: "wp (foldC (create_upload c l) fs st) (\<lambda>_ w'. wd_tx w' \<and> analysis_inv (wd_db w')) (\<lambda>_ _. True) r w"
    if "wd_tx w" "analysis_inv (wd_db w)" for c l fs st r w
  proof (rule wp_foldC [where I = "\<lambda>_ _ w. wd_tx w \<and> analysis_inv (wd_db w)"])
    fix x ys t and v :: world assume v: "wd_tx v \<and> analysis_inv (wd_db v)"
    have ins: "analysis_inv d'" if "NewPendingUpload us now nid eid c l fn ct = Inr m" "media_insert m (wd_db v) = Inr d'"
      for us now nid eid fn ct m d'
      using analysis_inv_media_insert [OF _ that(2)] NewPendingUpload_status [OF that(1)] v by simp
    show "wp (create_upload c l x t) (\<lambda>_ w'. wd_tx w' \<and> analysis_inv (wd_db w')) (\<lambda>_ _. True) r v"
      using v by (auto simp: create_upload_def media_Save_def split: prod.splits intro: ins)
  qed (use that in simp)
  have "keeps (\<lambda>r. sound) (presign_tx cp cl fs)" for fs
    unfolding presign_tx_def
  proof (intro holds_withTx, goal_cases)
    case 1
    show ?case unfolding resolveCampaign_def create_upload_def by (intro tx_safe_intros)
  next
    case (2 r w)
    then show ?case
      by (auto simp: resolveCampaign_def GetDefaultByClientID_def campaign_GetByID_def split: option.splits prod.splits
          intro!: wp_mono [OF files])
  qed
  then show ?thesis
    unfolding PresignMedia_def normalize_file_def presign_item_of_def by (intro keeps_intros)
qed

section \<open>Frames\<close>

lemma wp_value: "wp c (\<lambda>a _. P a) (\<lambda>_ _. True) r w \<Longrightarrow> fst (c r w) = Inr a \<Longrightarrow> P a"
  by (auto simp: wp_def split: prod.splits)

lemma sound_extract_fail: "keeps (\<lambda>r. sound) (extract_fail m e)"
  unfolding extract_fail_def
proof (intro keeps_intros holds_withTx, goal_cases)
  case 1
  show ?case by (intro tx_safe_intros)
next
  case (2 r w)
  then show ?case
    by (auto simp: handler_defs split: option.splits intro!: analysis_inv_kept intro: media_kept_ops(1))
qed

definition frame_of :: "media \<Rightarrow> content \<Rightarrow> bool" where
  "frame_of m c \<longleftrightarrow> c_MediaID c = m_ID m \<and> c_CampaignID c = m_CampaignID m \<and> c_ClientID c = m_ClientID m \<and>
     c_Status c = ContentStUploaded"

lemma wp_callC_True [simp]: "wp callC (\<lambda>_ _. True) (\<lambda>_ _. True) r w"
  by simp

lemma frame_of_thumbnail: "frame_of m (SetThumbnailKey now key c) = frame_of m c"
  by (simp add: frame_of_def SetThumbnailKey_def Let_def)

lemma store_frames_value:
  "\<forall>c \<in> set acc. frame_of m c \<Longrightarrow>
    wp (foldC (store_frame m) fs acc) (\<lambda>cs _. \<forall>c \<in> set cs. frame_of m c) (\<lambda>_ _. True) r w"
proof (rule wp_foldC [where I = "\<lambda>_ cs _. \<forall>c \<in> set cs. frame_of m c"], goal_cases)
  case (2 x ys t v)
  have new: "frame_of m c" if "NewFromMedia now nid e1 e2 (m_ID m) (m_CampaignID m) (m_ClientID m) key fi ts sz thumb = Inr c"
    for now nid e1 e2 key fi ts sz thumb c
    using NewFromMedia_facts [OF that] by (simp add: frame_of_def)
  show ?case
    using 2(2) by (auto simp: store_frame_def storage_Put_def storage_PutThumbnail_def new_content_def Let_def
        frame_of_thumbnail dest: new)
qed simp

lemma sound_frames_tx:
  assumes cs: "\<forall>c \<in> set cs. frame_of m c"
  shows "keeps (\<lambda>r. sound) (frames_tx m cs)"
  unfolding frames_tx_def
proof (intro holds_withTx, goal_cases)
  case 1
  show ?case unfolding save_frame_def by (intro tx_safe_intros)
next
  case (2 r w)
  let ?I = "\<lambda>cs w. wd_tx w \<and> analysis_inv (wd_db w) \<and> (\<forall>c \<in> set cs. frame_of m c) \<and>
      (\<forall>x. media_get (m_ID m) (wd_db w) = Some x \<longrightarrow> m_Status x \<noteq> StatusAnalyzed)"
  have save: "wp (foldC save_frame cs es) (\<lambda>_ w'. ?I [] w') (\<lambda>_ _. True) r v" if "?I cs v" for cs es v
  proof (rule wp_foldC [where I = "\<lambda>cs _ w. ?I cs w"])
    fix c cs t and v :: world assume v: "?I (c # cs) v"
    have "media_get i d' = media_get i (wd_db v)" if "content_insert c (wd_db v) = Inr d'" for i d'
      using that by (auto simp: content_insert_def media_get_def media_row_def split: if_splits sum.splits)
    then show "wp (save_frame c t) (\<lambda>_ w'. ?I cs w') (\<lambda>_ _. True) r v"
      using v by (auto simp: save_frame_def content_Save_def frame_of_def intro: analysis_inv_content_insert)
  qed (use that in simp)
  have na: "m_Status x \<noteq> StatusAnalyzed" if "media_get (m_ID m) (wd_db w) = Some x" "contents_of (m_ID x) (wd_db w) = []" for x
    using 2(2) that media_get_ID [OF that(1)] by (auto simp: analysis_inv_def verdict_sound_def)
  show ?case
    using 2 cs by (auto simp: handler_defs split: option.splits dest: na intro!: wp_mono [OF save])
qed

lemma sound_store_frames: "keeps (\<lambda>r. sound) (bindC (foldC (store_frame m) frames []) (frames_tx m))"
proof (rule keeps_bind_value)
  show "keeps (\<lambda>r. sound) (foldC (store_frame m) frames [])"
    unfolding store_frame_def new_content_def by (intro keeps_intros)
  fix r w cs assume "fst (foldC (store_frame m) frames [] r w) = Inr cs"
  then have "\<forall>c \<in> set cs. frame_of m c" by (rule wp_value [OF store_frames_value, rotated]) simp
  then show "keeps (\<lambda>r. sound) (frames_tx m cs)" by (rule sound_frames_tx)
qed

lemma sound_extract_and_store: "keeps (\<lambda>r. sound) (extract_and_store quota m)"
  unfolding extract_and_store_def resolveMaxFrames_def downloadToTemp_def
  by (intro keeps_intros sound_extract_fail sound_store_frames)

lemma wp_ensure_processing:
  assumes "sound w" "media_get i (wd_committed w) = Some m"
  shows "wp (ensure_processing m) (\<lambda>_. sound) (\<lambda>_. sound) r w"
proof -
  have b: "wp (withTx (thenC (media_Update m') (StoreEvents (List.map EvMedia (m_events m')))))
      (\<lambda>_. sound) (\<lambda>_. sound) r v"
    if v: "sound v" "media_get i (wd_committed v) = Some m" and k: "StartProcessing now e1 e2 m = Inr m'" for v m' now e1 e2
  proof -
    have "wp (withTx (thenC (media_Update m') (StoreEvents (List.map EvMedia (m_events m')))))
      (\<lambda>_ w'. idle w' \<and> analysis_inv (wd_committed w')) (\<lambda>_ w'. idle w' \<and> wd_committed w' = wd_committed v) r v"
      by (rule wp_withTx_rel, intro tx_safe_intros)
        (use v analysis_inv_kept [OF _ v(2) media_kept_ops(3) [OF k]] in \<open>auto simp: handler_defs beginTx_def holds_def\<close>)
    then show ?thesis by (rule wp_mono) (use v in \<open>auto simp: holds_def\<close>)
  qed
  show ?thesis
    unfolding ensure_processing_def using assms by (auto intro!: wp_mono [OF b])
qed

lemma sound_ExtractFrames: "keeps (\<lambda>r. sound) (ExtractFrames quota i)"
proof -
  have rest: "wp (extract_and_store quota m) (\<lambda>_. sound) (\<lambda>_. sound) r v" if "sound v" for m r v
    using that sound_extract_and_store [of quota m] by (simp add: keeps_wp)
  have go: "wp (ensure_processing m) (\<lambda>m. wp (bindC (ListByMediaID (m_ID m)) (\<lambda>existing.
      if existing \<noteq> [] then returnC () else extract_and_store quota m)) (\<lambda>_. sound) (\<lambda>_. sound) r) (\<lambda>_. sound) r v"
    if "sound v" "media_get i (wd_committed v) = Some m" for m r v
    by (rule wp_mono [OF wp_ensure_processing [OF that]]) (auto simp: ListByMediaID_def intro!: rest)
  show ?thesis
    unfolding keeps_wp ExtractFrames_def media_GetByID_def
    by (auto simp: holds_def idle_def split: option.splits intro!: go)
qed

section \<open>Recovery\<close>

lemma mset_frame_order: "mset (frame_order rows) = mset rows"
proof -
  have "mset (List.filter (\<lambda>r. cm_FrameIndex r = None) xs) + mset (List.filter (\<lambda>r. cm_FrameIndex r \<noteq> None) xs) = mset xs" for xs
    by (induction xs) auto
  then show ?thesis by (simp add: frame_order_def Let_def)
qed

lemma contents_of_distinct: "content_table d \<Longrightarrow> distinct (List.map c_ID (contents_of i d))"
proof -
  assume "content_table d"
  then have "distinct (List.map cm_ID (List.filter (\<lambda>r. cm_MediaID r = i) (t_contents d)))"
    by (simp add: content_table_def keys_distinct_def distinct_map_filter)
  then have "distinct (List.map cm_ID (frame_order (List.filter (\<lambda>r. cm_MediaID r = i) (t_contents d))))"
    by (metis mset_eq_imp_distinct_iff mset_frame_order mset_map)
  then show ?thesis by (simp add: contents_of_def o_def split: option.splits)
qed

lemma contents_of_get: "content_table d \<Longrightarrow> c \<in> set (contents_of i d) \<Longrightarrow> content_get (c_ID c) d = Some c"
proof -
  assume t: "content_table d" and c: "c \<in> set (contents_of i d)"
  then obtain m r where m: "media_row i d = Some m" and r: "r \<in> set (t_contents d)" "cm_MediaID r = i"
      "c = contentDomainFromModel r (mm_CampaignID m) (mm_ClientID m)"
    by (auto simp: set_contents_of split: option.splits)
  have "tbl_first cm_ID (\<lambda>q. cm_ID q = cm_ID r \<and> media_row (cm_MediaID q) d \<noteq> None) (t_contents d) = Some r"
    by (rule tbl_first_key) (use t r m in \<open>auto simp: content_table_def\<close>)
  then show ?thesis using r m by (simp add: content_get_def content_join_def)
qed

text \<open>Contents that are still as the loop has read them.\<close>

definition as_read :: "content list \<Rightarrow> db \<Rightarrow> bool" where
  "as_read cs d \<longleftrightarrow> distinct (List.map c_ID cs) \<and> (\<forall>c \<in> set cs. content_get (c_ID c) d = Some c)"

lemma as_read_contents: "analysis_inv d \<Longrightarrow> as_read (contents_of i d) d"
  by (auto simp: as_read_def analysis_inv_def contents_of_distinct contents_of_get)

lemma as_read_put:
  assumes "as_read (c # cs) d" "content_table d" "same_content c c'" "label_stored c'"
  shows "as_read cs (content_put c' d)"
proof -
  have "content_get (c_ID c) d = Some c" using assms by (simp add: as_read_def)
  note p = content_get_put [OF assms(2) this assms(3,4)]
  have "content_get (c_ID x) (content_put c' d) = Some x" if "x \<in> set cs" for x
  proof -
    have "c_ID x \<noteq> c_ID c" "content_get (c_ID x) d = Some x"
      using assms(1) that by (auto simp: as_read_def image_iff)
    then show ?thesis using p [of "c_ID x"] by simp
  qed
  then show ?thesis using assms(1) by (simp add: as_read_def)
qed

lemma RequeueAnalysis_facts: "same_content c (RequeueAnalysis now eid c)"
    "label_stored (RequeueAnalysis now eid c) = label_stored c"
    "IsTerminal (RequeueAnalysis now eid c) = IsTerminal c"
  by (simp_all add: RequeueAnalysis_def content_recordEvent_def same_content_def label_stored_def IsTerminal_def)

text \<open>The database of \<open>recover_failMedia\<close> after its last step.\<close>

definition stale_failed :: "uuid \<Rightarrow> db \<Rightarrow> bool" where
  "stale_failed i d \<longleftrightarrow> analysis_inv d \<and> (\<forall>c \<in> set (contents_of i d). IsTerminal c) \<and>
     (\<exists>m. media_get i d = Some m \<and> m_Status m = StatusFailed \<and> m_FailureReason m = StaleFailReason)"

lemma StaleFailReason_trim [simp]: "TrimSpace StaleFailReason = StaleFailReason"
  by (simp add: StaleFailReason_def TrimSpace_def is_space_def)

lemma stale_failed_put:
  assumes d: "analysis_inv d" "media_get i d = Some m" "\<forall>c \<in> set (contents_of i d). IsTerminal c"
    and f: "MarkFailed now eid StaleFailReason m = Inr m'"
  shows "stale_failed i (outbox_put es (media_put m' d))"
proof -
  have t: "media_table d" "keys_distinct mm_ID (t_media d)"
    using d(1) by (simp_all add: analysis_inv_def media_table_def)
  have i: "m_ID m = i" "m_DeletedAt m = None" using media_get_stored [OF t(1) d(2)] by auto
  have m': "m_ID m' = i" "m_DeletedAt m' = None" "m_Status m' = StatusFailed"
      "m_FailureReason m' = StaleFailReason" "m_CampaignID m' = m_CampaignID m" "m_ClientID m' = m_ClientID m"
    using f i by (simp_all add: MarkFailed_ok)
  have "contents_of i (media_put m' d) = contents_of i d"
    by (rule contents_of_media_put [OF t(2)]) (use d m' in simp_all)
  moreover have "media_get i (media_put m' d) = Some (media_stored m')"
    using m' by (simp add: media_get_put [OF t(1)])
  ultimately show ?thesis
    using analysis_inv_kept [OF d(1,2) media_kept_ops(1) [OF f]] d(3) m'
    by (simp add: stale_failed_def media_stored_def)
qed

text \<open>The loop that fails the contents: those already seen are terminal.\<close>

definition failing :: "uuid \<Rightarrow> media \<Rightarrow> content list \<Rightarrow> db \<Rightarrow> bool" where
  "failing i m cs d \<longleftrightarrow> analysis_inv d \<and> media_get i d = Some m \<and> as_read cs d \<and>
     (\<forall>c \<in> set cs. c_MediaID c = i) \<and> (\<forall>c \<in> set (contents_of i d). IsTerminal c \<or> c \<in> set cs)"

lemma failing_start: "analysis_inv d \<Longrightarrow> media_get i d = Some m \<Longrightarrow> failing i m (contents_of i d) d"
  using as_read_contents [of d i] contents_of_media [of _ i d] by (auto simp: failing_def)

lemma failing_skip: "failing i m (c # cs) d \<Longrightarrow> IsTerminal c \<Longrightarrow> failing i m cs d"
  by (auto simp: failing_def as_read_def)

lemma failing_put:
  assumes v: "failing i m (c # cs) d" and f: "content_MarkFailed now eid c = Inr c'"
  shows "failing i m cs (content_put c' d)"
proof -
  have t: "content_table d" and g: "content_get (c_ID c) d = Some c" "c_MediaID c = i"
    using v by (auto simp: failing_def analysis_inv_def as_read_def)
  have c': "\<not> IsTerminal c" "same_content c c'" "label_stored c'"
    using content_op_facts(2) [OF f content_get_label [OF g(1)]] by auto
  have "IsTerminal (c'\<lparr>c_events := []\<rparr>)" using f by (auto simp: content_MarkFailed_ok IsTerminal_def)
  then have "\<forall>x \<in> set (contents_of i (content_put c' d)). IsTerminal x \<or> x \<in> set cs"
    using contents_of_put [OF t g(1) c'(2,3), of i] v g(2) by (auto simp: failing_def)
  moreover have "as_read cs (content_put c' d)"
    using as_read_put [OF _ t c'(2,3)] v by (simp add: failing_def)
  moreover have "analysis_inv (content_put c' d)"
    using analysis_inv_content [OF _ g(1) c'] v by (simp add: failing_def)
  ultimately show ?thesis using v by (simp add: failing_def)
qed

lemma wp_fail_contents:
  assumes "wd_tx w" "failing i m cs (wd_db w)"
  shows "wp (foldC fail_content cs es) (\<lambda>_ w'. wd_tx w' \<and> failing i m [] (wd_db w')) (\<lambda>_ _. True) r w"
proof (rule wp_foldC [where I = "\<lambda>cs _ v. wd_tx v \<and> failing i m cs (wd_db v)"])
  fix c cs es and v :: world assume v: "wd_tx v \<and> failing i m (c # cs) (wd_db v)"
  show "wp (fail_content c es) (\<lambda>_ v'. wd_tx v' \<and> failing i m cs (wd_db v')) (\<lambda>_ _. True) r v"
    using v failing_skip by (auto simp: fail_content_def content_Update_def intro: failing_put)
qed (use assms in simp)

lemma wp_fail_stale:
  assumes "wd_tx w" "analysis_inv (wd_db w)" "media_get i (wd_db w) = Some m"
    "\<forall>c \<in> set (contents_of i (wd_db w)). IsTerminal c"
  shows "wp (fail_stale m es) (\<lambda>_ w'. stale_failed i (wd_db w')) (\<lambda>_ _. True) r w"
  using assms by (auto simp: fail_stale_def save_media_def media_Update_def media_op_events(2)
      intro: stale_failed_put)

text \<open>Either nothing was to be done, or the media is failed and its contents are terminal.\<close>

lemma wp_recover_failMedia: "sound w \<Longrightarrow> wp (recover_failMedia i)
    (\<lambda>_ w'. idle w' \<and> (stale_failed i (wd_committed w') \<or> wd_committed w' = wd_committed w \<and>
      (\<forall>m. media_get i (wd_committed w) = Some m \<longrightarrow> m_Status m \<noteq> StatusProcessing)))
    (\<lambda>_ w'. idle w' \<and> wd_committed w' = wd_committed w) r w"
  unfolding recover_failMedia_def
proof (rule wp_withTx_rel, goal_cases)
  case 1
  show ?case unfolding fail_content_def fail_stale_def save_media_def by (intro tx_safe_intros)
next
  case 2
  have go: "wp (foldC fail_content (contents_of (m_ID m) d) []) (\<lambda>es. wp (fail_stale m es)
      (\<lambda>_ w'. stale_failed i (wd_db w')) (\<lambda>_ _. True) r) (\<lambda>_ _. True) r v"
    if "wd_tx v" "wd_db v = d" "analysis_inv d" "media_get i d = Some m" for v m d
  proof (rule wp_mono [OF wp_fail_contents [of v i m]])
    fix es and v' :: world assume "wd_tx v' \<and> failing i m [] (wd_db v')"
    then show "wp (fail_stale m es) (\<lambda>_ w'. stale_failed i (wd_db w')) (\<lambda>_ _. True) r v'"
      by (intro wp_fail_stale) (auto simp: failing_def)
  qed (use that media_get_ID [OF that(4)] failing_start in auto)
  show ?case
    using 2 by (auto simp: media_GetByID_def ListByMediaID_def beginTx_def holds_def split: option.splits
        intro!: go)
qed

lemma sound_recover_failMedia: "keeps (\<lambda>r. sound) (recover_failMedia i)"
  unfolding keeps_wp
  by (intro allI impI, rule wp_mono [OF wp_recover_failMedia]) (auto simp: holds_def stale_failed_def)

text \<open>The loop that requeues contents: as long as all were terminal nothing has changed.\<close>

definition requeuing :: "uuid \<Rightarrow> media \<Rightarrow> db \<Rightarrow> content list \<Rightarrow> bool \<times> bool \<times> domain_event list \<Rightarrow> db \<Rightarrow> bool" where
  "requeuing i m d0 cs st d \<longleftrightarrow> analysis_inv d \<and> media_get i d = Some m \<and> as_read cs d \<and>
     (\<exists>seen. contents_of i d0 = seen @ cs \<and> (fst st \<longrightarrow> d = d0 \<and> (\<forall>c \<in> set seen. IsTerminal c)) \<and>
       (\<not> fst st \<longrightarrow> (\<exists>c \<in> set seen. \<not> IsTerminal c)))"

lemma requeuing_skip: "requeuing i m d0 (c # cs) (a, w, es) d \<Longrightarrow> IsTerminal c \<Longrightarrow> requeuing i m d0 cs (a, w, es) d"
  by (fastforce simp: requeuing_def as_read_def intro: exI [of _ "_ @ [c]"])

lemma requeuing_leave: "requeuing i m d0 (c # cs) (a, w, es) d \<Longrightarrow> \<not> IsTerminal c \<Longrightarrow> requeuing i m d0 cs (False, w', es') d"
  by (fastforce simp: requeuing_def as_read_def intro: exI [of _ "_ @ [c]"])

lemma requeuing_put:
  assumes v: "requeuing i m d0 (c # cs) (a, w, es) d" and c: "\<not> IsTerminal c"
  shows "requeuing i m d0 cs (False, w', es') (content_put (RequeueAnalysis now eid c) d)"
proof -
  let ?c = "RequeueAnalysis now eid c"
  have t: "content_table d" and g: "content_get (c_ID c) d = Some c"
    using v by (auto simp: requeuing_def analysis_inv_def as_read_def)
  have c': "same_content c ?c" "label_stored ?c"
    using content_get_label [OF g] by (simp_all add: RequeueAnalysis_facts)
  have "as_read cs (content_put ?c d)" using as_read_put [OF _ t c'] v by (simp add: requeuing_def)
  moreover have "analysis_inv (content_put ?c d)"
    using analysis_inv_content [OF _ g c c'] v by (simp add: requeuing_def)
  moreover obtain seen where "contents_of i d0 = seen @ c # cs" using v by (auto simp: requeuing_def)
  ultimately show ?thesis using v c by (auto simp: requeuing_def intro!: exI [of _ "seen @ [c]"])
qed

lemma wp_requeue_contents:
  assumes "wd_tx w" "analysis_inv (wd_db w)" "media_get i (wd_db w) = Some m"
  shows "wp (foldC (requeue_content sb) (contents_of i (wd_db w)) (True, False, []))
    (\<lambda>st w'. wd_tx w' \<and> requeuing i m (wd_db w) [] st (wd_db w')) (\<lambda>_ _. True) r w"
proof (rule wp_foldC [where I = "\<lambda>cs st v. wd_tx v \<and> requeuing i m (wd_db w) cs st (wd_db v)"])
  show "wd_tx w \<and> requeuing i m (wd_db w) (contents_of i (wd_db w)) (True, False, []) (wd_db w)"
    using assms as_read_contents by (simp add: requeuing_def)
next
  fix c cs st and v :: world assume v: "wd_tx v \<and> requeuing i m (wd_db w) (c # cs) st (wd_db v)"
  obtain a b es where st: "st = (a, b, es)" by (cases st)
  show "wp (requeue_content sb c st) (\<lambda>st v'. wd_tx v' \<and> requeuing i m (wd_db w) cs st (wd_db v')) (\<lambda>_ _. True) r v"
    using v by (auto simp: requeue_content_def st content_Update_def Let_def
        intro: requeuing_skip requeuing_leave requeuing_put)
qed

definition settled :: "uuid \<Rightarrow> db \<Rightarrow> db \<Rightarrow> bool" where
  "settled i d d' \<longleftrightarrow> analysis_inv d' \<and> (contents_of i d \<noteq> [] \<and> (\<forall>c \<in> set (contents_of i d). IsTerminal c) \<longrightarrow>
     (\<exists>m. media_get i d' = Some m \<and> m_Status m = StatusAnalyzed))"

lemma settled_kept:
  "analysis_inv d \<Longrightarrow> media_get i d = Some m \<Longrightarrow> contents_of i d0 = [] \<or> (\<exists>c \<in> set (contents_of i d0). \<not> IsTerminal c) \<Longrightarrow>
    media_kept m m' \<Longrightarrow> settled i d0 (media_put m' d)"
  by (auto simp: settled_def analysis_inv_kept)

lemma settled_verdict:
  assumes "analysis_inv d" "media_get i d = Some m" "contents_of i d \<noteq> []" "\<forall>c \<in> set (contents_of i d). IsTerminal c"
    "RenderGlobalVerdict now eid (AggregateMediaVerdict (contents_of i d)) m = Inr m'"
  shows "settled i d (media_put m' d)"
proof -
  have t: "media_table d" using assms(1) by (simp add: analysis_inv_def)
  have "m_ID m = i" "m_DeletedAt m = None" using media_get_stored [OF t assms(2)] by auto
  then have "media_get i (media_put m' d) = Some (media_stored m')" "m_Status m' = StatusAnalyzed"
    using assms(5) by (auto simp: media_get_put [OF t] RenderGlobalVerdict_ok)
  then show ?thesis using analysis_inv_verdict [OF assms] by (simp add: settled_def media_stored_def)
qed

lemma settled_outbox [simp]: "settled i d0 (outbox_put es d) = settled i d0 d"
  by (simp add: settled_def)

lemma settled_not_processing: "analysis_inv d \<Longrightarrow> contents_of i d = [] \<or> (\<exists>c \<in> set (contents_of i d). \<not> IsTerminal c) \<Longrightarrow> settled i d d"
  by (auto simp: settled_def)

definition requeue_result :: "uuid \<Rightarrow> db \<Rightarrow> db \<Rightarrow> bool" where
  "requeue_result i d d' \<longleftrightarrow> (if \<exists>m. media_get i d = Some m \<and> m_Status m = StatusProcessing then settled i d d'
     else d' = d)"

lemma wp_requeueMedia: "sound w \<Longrightarrow> wp (requeueMedia i sb now)
    (\<lambda>_ w'. idle w' \<and> requeue_result i (wd_committed w) (wd_committed w'))
    (\<lambda>_ w'. idle w' \<and> wd_committed w' = wd_committed w) r w"
  unfolding requeueMedia_def
proof (rule wp_withTx_rel, goal_cases)
  case 1
  show ?case unfolding requeue_content_def fail_stale_def save_media_def by (intro tx_safe_intros)
next
  case 2
  let ?d = "wd_committed w"
  let ?finish = "\<lambda>m cs (allTerminal, didWork, events).
       if allTerminal then
         bindC nowC (\<lambda>t. bindC uuidC (\<lambda>eid.
         bindC (liftC (RenderGlobalVerdict t eid (AggregateMediaVerdict cs) m)) (\<lambda>fresh.
         thenC (save_media fresh events) (returnC True))))
       else if \<not> didWork then returnC False
       else bindC nowC (\<lambda>t. thenC (media_Update (Touch t now m)) (thenC (StoreEvents events) (returnC True)))"
  have fin: "wp (?finish m (contents_of (m_ID m) ?d) st) (\<lambda>_ w'. requeue_result i ?d (wd_db w')) (\<lambda>_ _. True) r v"
    if q: "requeuing i m ?d [] st (wd_db v)" and v: "wd_tx v" and m: "media_get i ?d = Some m" "m_Status m = StatusProcessing"
      and ne: "contents_of i ?d \<noteq> []" for m st v
  proof -
    have i: "m_ID m = i" using media_get_ID [OF m(1)] .
    have R: "requeue_result i ?d d' = settled i ?d d'" for d' using m by (simp add: requeue_result_def)
    obtain a b es where st: "st = (a, b, es)" by (cases st)
    show ?thesis
    proof (cases a)
      case True
      then have "wd_db v = ?d" "\<forall>c \<in> set (contents_of i ?d). IsTerminal c" "analysis_inv ?d"
        using q by (auto simp: requeuing_def st)
      then show ?thesis
        using True v m ne by (auto simp: st R i save_media_def media_Update_def media_op_events(1) intro: settled_verdict)
    next
      case False
      then have "analysis_inv (wd_db v)" "media_get i (wd_db v) = Some m" "\<exists>c \<in> set (contents_of i ?d). \<not> IsTerminal c"
        using q by (auto simp: requeuing_def st)
      then have "settled i ?d (media_put (Touch t now m) (wd_db v))" "settled i ?d (wd_db v)" for t
        using settled_kept [OF _ _ _ media_kept_ops(5)] by (blast, auto simp: settled_def)
      then show ?thesis using False v by (simp add: st R media_Update_def)
    qed
  qed
  have go: "wp (foldC (requeue_content sb) cs1 (True, False, []))
      (\<lambda>st. wp (?finish m cs2 st) (\<lambda>_ w'. requeue_result i ?d (wd_db w')) (\<lambda>_ _. True) r) (\<lambda>_ _. True) r v"
    if "wd_tx v" "wd_db v = ?d" "analysis_inv ?d" "media_get i ?d = Some m" "m_Status m = StatusProcessing"
      "cs1 = contents_of (m_ID m) ?d" "cs2 = contents_of (m_ID m) ?d" "cs1 \<noteq> []" for v m cs1 cs2
  proof -
    have i: "m_ID m = i" using media_get_ID [OF that(4)] .
    have "wp (foldC (requeue_content sb) cs1 (True, False, []))
        (\<lambda>st w'. wd_tx w' \<and> requeuing i m ?d [] st (wd_db w')) (\<lambda>_ _. True) r v"
      using wp_requeue_contents [of v i m sb r] that i by simp
    then show ?thesis
    proof (rule wp_mono)
      fix st and v' :: world assume "wd_tx v' \<and> requeuing i m ?d [] st (wd_db v')"
      then show "wp (?finish m cs2 st) (\<lambda>_ w'. requeue_result i ?d (wd_db w')) (\<lambda>_ _. True) r v'"
        unfolding that(7) by (intro fin) (use that i in simp_all)
    qed
  qed
  have empty: "requeue_result i ?d (media_put m' ?d)"
    if "analysis_inv ?d" "media_get i ?d = Some m" "m_Status m = StatusProcessing"
      "contents_of (m_ID m) ?d = []" "media_kept m m'" for m m'
    using that media_get_ID [OF that(2)] settled_kept [OF that(1,2) _ that(5), of ?d]
    by (auto simp: requeue_result_def)
  have other: "requeue_result i ?d ?d" if "\<And>m. media_get i ?d = Some m \<Longrightarrow> m_Status m \<noteq> StatusProcessing"
    using that by (auto simp: requeue_result_def)
  have outbox: "requeue_result i d (outbox_put es d') = requeue_result i d d'" if "media_get i d = Some m" "m_Status m = StatusProcessing" for d es d' m
    using that by (simp add: requeue_result_def)
  show ?case
    using 2 by (auto simp: media_GetByID_def ListByMediaID_def beginTx_def holds_def outbox fail_stale_def save_media_def
        media_Update_def split: option.splits intro!: go other empty intro: media_kept_ops)
qed

lemma sound_requeueMedia: "keeps (\<lambda>r. sound) (requeueMedia i sb now)"
  unfolding keeps_wp
proof (intro allI impI)
  fix r :: env and w assume w: "sound w"
  have "analysis_inv d'" if "requeue_result i (wd_committed w) d'" for d'
    using w that by (auto simp: holds_def requeue_result_def settled_def split: if_splits)
  then show "wp (requeueMedia i sb now) (\<lambda>_. sound) (\<lambda>_. sound) r w"
    using w by (intro wp_mono [OF wp_requeueMedia [OF w]]) (auto simp: holds_def)
qed

lemma sound_RecoverStale: "keeps (\<lambda>r. sound) (RecoverStale h now)"
  unfolding RecoverStale_def recover_one_def ListProcessingUpdatedBefore_def
  by (intro keeps_intros sound_recover_failMedia sound_requeueMedia)

text \<open>Every scanned media is counted at most once.\<close>

lemma recover_one_counts:
  "wp (recover_one h now m res) (\<lambda>res' _. rr_Scanned res' = rr_Scanned res \<and>
      rr_Requeued res' + rr_Failed res' + rr_Errors res' \<le> rr_Requeued res + rr_Failed res + rr_Errors res + 1)
    (\<lambda>_ _. False) r w"
  by (auto simp: wp_def recover_one_def comp_simps split: prod.splits sum.splits)

lemma recover_counts:
  "wp (foldC (recover_one h now) ms res) (\<lambda>res' _. rr_Scanned res' = rr_Scanned res \<and>
      rr_Requeued res' + rr_Failed res' + rr_Errors res' \<le>
        rr_Requeued res + rr_Failed res + rr_Errors res + int (length ms)) (\<lambda>_ _. False) r w"
proof (induction ms arbitrary: res w)
  case Nil
  then show ?case by simp
next
  case (Cons m ms)
  show ?case
    by (simp, rule wp_mono [OF recover_one_counts], rule wp_mono [OF Cons]) auto
qed

lemma stale_medias_length: "0 < n \<Longrightarrow> int (length (stale_medias t n d)) \<le> n"
  by (simp add: stale_medias_def Let_def)

lemma stale_medias_processing: "m \<in> set (stale_medias t n d) \<Longrightarrow> m_Status m = StatusProcessing \<and> m_UpdatedAt m < t"
  by (auto simp: stale_medias_def Let_def mediaDomainFromModel_def dest!: in_set_takeD)

lemma wp_RecoverStale_counts:
  assumes "0 < rh_batchSize h"
  shows "wp (RecoverStale h now) (\<lambda>res _. rr_Requeued res + rr_Failed res + rr_Errors res \<le> rr_Scanned res \<and>
    rr_Scanned res \<le> rh_batchSize h) (\<lambda>_ _. True) r w"
  using stale_medias_length [OF assms]
  by (auto simp: RecoverStale_def ListProcessingUpdatedBefore_def Let_def intro!: wp_mono [OF recover_counts])
end
