(* ===== verification/Messaging.thy ===== *)
theory Messaging
  imports Soundness
begin

text \<open>
  From the outbox to a handler and back: \<open>outbox/relay.go\<close> publishes what the transactions stored,
  \<open>rabbitmq/consumer.go\<close> decides what becomes of a delivery, \<open>registry\<close> calls the handlers of an event
  type and \<open>dedup.With\<close> lets each of them run once per event. The body of a message is the event, or
  bytes without one.
\<close>

section \<open>Handlers and the registry\<close>

datatype payload = InvalidJSON | NoEventID | Payload domain_event

type_synonym event_handler = "payload \<Rightarrow> unit app"

type_synonym handler_registry = "(string \<times> event_handler) list"

definition Register :: "string \<Rightarrow> event_handler \<Rightarrow> handler_registry \<Rightarrow> handler_registry" where
  "Register eventType h reg = reg @ [(eventType, h)]"

definition handlers_of :: "handler_registry \<Rightarrow> string \<Rightarrow> event_handler list" where
  "handlers_of reg eventType = List.map snd (List.filter (\<lambda>e. fst e = eventType) reg)"

fun run_handlers :: "string \<Rightarrow> payload \<Rightarrow> event_handler list \<Rightarrow> unit app" where
  "run_handlers eventType p [] = returnC ()"
| "run_handlers eventType p (h # hs) =
     thenC (mapErrC (Wrapped (''handler failed for '' @ eventType)) (h p)) (run_handlers eventType p hs)"

definition Dispatch :: "handler_registry \<Rightarrow> string \<Rightarrow> payload \<Rightarrow> unit app" where
  "Dispatch reg eventType p = (let hs = handlers_of reg eventType in
     if hs = [] then returnC () else run_handlers eventType p hs)"

section \<open>Each handler once per event\<close>

definition Retryable :: "go_error \<Rightarrow> go_error" where "Retryable e = RetryableError (Some e)"
definition Deferred :: "go_error \<Rightarrow> go_error" where "Deferred e = DeferredError (Some e)"
definition NonRetryable :: "go_error \<Rightarrow> go_error" where "NonRetryable e = NonRetryableError (Some e)"

lemmas classify_defs = Retryable_def Deferred_def NonRetryable_def

definition with_dedup :: "string \<Rightarrow> event_handler \<Rightarrow> event_handler" where
  "with_dedup handlerName nxt = (\<lambda>p. case p of
      InvalidJSON \<Rightarrow> failC (NonRetryable (Err ''invalid json''))
    | NoEventID \<Rightarrow> failC (NonRetryable (Err ''missing eventId in payload''))
    | Payload e \<Rightarrow>
      bindC (mapErrC Retryable (MarkProcessed (EventID e) handlerName)) (\<lambda>inserted.
      if \<not> inserted then returnC () else
      tryC (nxt p)
        (\<lambda>err. if as_retryable err \<or> as_deferred err
          then attemptC (UnmarkProcessed (EventID e) handlerName) (failC err)
          else failC err)
        returnC))"

section \<open>The consumer\<close>

datatype amqp_value = AmqpInt64 int | AmqpInt32 int | AmqpInt int | AmqpFloat rat | AmqpOther

text \<open>The first entry of the header \<open>x-death\<close>: its \<open>count\<close>, if it is a table that has one.\<close>

record delivery =
  dl_envelope :: "(envelope \<times> payload) option"
  dl_xdeath :: "amqp_value option list option"

record consumer =
  co_registry :: handler_registry
  co_maxRetries :: int

datatype delivery_action = Ack | Nack

definition NewConsumer :: "handler_registry \<Rightarrow> int \<Rightarrow> consumer" where
  "NewConsumer reg maxRetries = \<lparr>co_registry = reg,
     co_maxRetries = (if maxRetries \<le> 0 then 3 else maxRetries)\<rparr>"

definition retryCount :: "delivery \<Rightarrow> int" where
  "retryCount m = (case dl_xdeath m of
      Some (Some (AmqpInt64 n) # _) \<Rightarrow> n
    | Some (Some (AmqpInt32 n) # _) \<Rightarrow> n
    | Some (Some (AmqpInt n) # _) \<Rightarrow> n
    | Some (Some (AmqpFloat x) # _) \<Rightarrow> (if 0 \<le> x then \<lfloor>x\<rfloor> else \<lceil>x\<rceil>)
    | _ \<Rightarrow> 0)"

text \<open>A failed publication to the dead-letter queue is only logged.\<close>

definition sendToDLQ :: "delivery \<Rightarrow> string \<Rightarrow> unit app" where
  "sendToDLQ m reason = tryC (thenC callC (stateC (\<lambda>w. (Inr (),
       w\<lparr>wd_dlq := wd_dlq w @ [(map_option fst (dl_envelope m), reason)]\<rparr>))))
     (\<lambda>e. returnC ()) returnC"

definition handleDelivery :: "consumer \<Rightarrow> delivery \<Rightarrow> delivery_action app" where
  "handleDelivery c m = (case dl_envelope m of
      None \<Rightarrow> thenC (sendToDLQ m ''invalid_envelope'') (returnC Ack)
    | Some (envelope, p) \<Rightarrow>
      tryC (Dispatch (co_registry c) (ev_Type envelope) p)
        (\<lambda>err. if as_deferred err then returnC Nack
          else if as_non_retryable err \<or> co_maxRetries c \<le> retryCount m
          then thenC (sendToDLQ m ''handler_failed'') (returnC Ack)
          else returnC Nack)
        (\<lambda>_. returnC Ack))"

section \<open>The topology\<close>

record topology =
  tp_Exchange :: string
  tp_Queue :: string
  tp_RoutingKey :: string
  tp_RetryQueue :: string
  tp_DLQ :: string
  tp_DLX :: string
  tp_RetryTTLMillis :: "32 word"

definition DefaultTopology :: "string \<Rightarrow> string \<Rightarrow> string \<Rightarrow> int \<Rightarrow> topology" where
  "DefaultTopology exchange queue routingKey retryTTLMillis =
    (let ttl = (if retryTTLMillis \<le> 0 then 30000 else retryTTLMillis) in
     \<lparr>tp_Exchange = exchange, tp_Queue = queue, tp_RoutingKey = routingKey,
      tp_RetryQueue = queue @ ''.retry'', tp_DLQ = queue @ ''.dlq'', tp_DLX = queue @ ''.dlx'',
      tp_RetryTTLMillis = of_int ttl\<rparr>)"

text \<open>\<open>strings.Split\<close> at the commas.\<close>

fun split_comma :: "string \<Rightarrow> string \<Rightarrow> string list" where
  "split_comma [] part = [part]"
| "split_comma (c # s) part = (if c = CHR '','' then part # split_comma s [] else split_comma s (part @ [c]))"

definition splitRoutingKeys :: "string \<Rightarrow> string list" where
  "splitRoutingKeys raw =
    (let keys = List.filter (\<lambda>k. k \<noteq> []) (List.map TrimSpace (split_comma raw [])) in
     if keys = [] then [''#''] else keys)"

datatype amqp_declaration =
    ExchangeDeclare string string
  | QueueDeclare string "(string \<times> string) option" "32 word option"
  | QueueBind string string string

text \<open>\<open>QueueDeclare queue dead_letter ttl\<close>, where \<open>dead_letter\<close> is the exchange and the routing key of
  the messages that the queue rejects or lets expire.\<close>

definition topology_declare :: "topology \<Rightarrow> amqp_declaration list" where
  "topology_declare t =
    [ExchangeDeclare (tp_Exchange t) ''topic'', ExchangeDeclare (tp_DLX t) ''direct'',
     QueueDeclare (tp_Queue t) (Some (tp_DLX t, ''retry'')) None] @
    List.map (\<lambda>k. QueueBind (tp_Queue t) k (tp_Exchange t)) (splitRoutingKeys (tp_RoutingKey t)) @
    [QueueBind (tp_Queue t) ''main'' (tp_DLX t),
     QueueDeclare (tp_RetryQueue t) (Some (tp_DLX t, ''main'')) (Some (tp_RetryTTLMillis t)),
     QueueBind (tp_RetryQueue t) ''retry'' (tp_DLX t),
     QueueDeclare (tp_DLQ t) None None,
     QueueBind (tp_DLQ t) ''dlq'' (tp_DLX t)]"

section \<open>The relay\<close>

definition Publish :: "envelope \<Rightarrow> unit app" where
  "Publish ev = mapErrC (Wrapped (''publish '' @ ev_Type ev)) (thenC callC (stateC (\<lambda>w.
     (Inr (), w\<lparr>wd_published := wd_published w @ [ev]\<rparr>))))"

definition envelope_of :: "outbox_event \<Rightarrow> envelope" where
  "envelope_of msg = \<lparr>ev_EventID = o_ID msg, ev_Type = o_EventType msg, ev_AggregateID = o_AggregateID msg,
     ev_OccurredAt = UTC (o_CreatedAt msg), ev_Payload = o_Payload msg\<rparr>"

fun publish_loop :: "outbox_event list \<Rightarrow> uuid list \<Rightarrow> uuid list app" where
  "publish_loop [] publishedIDs = returnC publishedIDs"
| "publish_loop (msg # msgs) publishedIDs =
     tryC (Publish (envelope_of msg))
       (\<lambda>e. returnC publishedIDs)
       (\<lambda>_. publish_loop msgs (publishedIDs @ [o_ID msg]))"

definition publishBatch :: "int \<Rightarrow> unit app" where
  "publishBatch batchSize =
    bindC (FetchUnpublished batchSize) (\<lambda>messages.
    if messages = [] then returnC () else
    bindC (publish_loop messages []) (\<lambda>publishedIDs.
    if publishedIDs = [] then returnC () else MarkPublished publishedIDs))"

definition NewRelay_batchSize :: "int \<Rightarrow> int" where
  "NewRelay_batchSize n = (if n \<le> 0 then 50 else n)"

section \<open>What becomes of a delivery\<close>

text \<open>The decision of the consumer for an error of the handlers.\<close>

definition to_dlq :: "consumer \<Rightarrow> delivery \<Rightarrow> go_error \<Rightarrow> bool" where
  "to_dlq c m err \<longleftrightarrow> \<not> as_deferred err \<and> (as_non_retryable err \<or> co_maxRetries c \<le> retryCount m)"

definition action_for :: "consumer \<Rightarrow> delivery \<Rightarrow> go_error \<Rightarrow> delivery_action" where
  "action_for c m err = (if to_dlq c m err then Ack else Nack)"

lemma sendToDLQ_run: "sendToDLQ m reason r w =
    (Inr (), if en_fault r (wd_tick w) = None
       then w\<lparr>wd_tick := Suc (wd_tick w), wd_dlq := wd_dlq w @ [(map_option fst (dl_envelope m), reason)]\<rparr>
       else w\<lparr>wd_tick := Suc (wd_tick w)\<rparr>)"
  by (auto simp: sendToDLQ_def callC_def tickC_def comp_simps split: option.splits)

lemma handleDelivery_invalid:
  "dl_envelope m = None \<Longrightarrow> handleDelivery c m r w = (Inr Ack, snd (sendToDLQ m ''invalid_envelope'' r w))"
  by (simp add: handleDelivery_def comp_simps sendToDLQ_run)

lemma handleDelivery_ok:
  "dl_envelope m = Some (ev, p) \<Longrightarrow> Dispatch (co_registry c) (ev_Type ev) p r w = (Inr u, w') \<Longrightarrow>
    handleDelivery c m r w = (Inr Ack, w')"
  by (simp add: handleDelivery_def comp_simps)

lemma handleDelivery_error:
  "dl_envelope m = Some (ev, p) \<Longrightarrow> Dispatch (co_registry c) (ev_Type ev) p r w = (Inl err, w') \<Longrightarrow>
    handleDelivery c m r w = (Inr (action_for c m err),
      if to_dlq c m err then snd (sendToDLQ m ''handler_failed'' r w') else w')"
  by (auto simp: handleDelivery_def comp_simps sendToDLQ_run action_for_def to_dlq_def)

text \<open>A handler list stops at its first error, which keeps its class.\<close>

lemma run_handlers_append: "run_handlers t p (hs @ hs') r w =
    (case run_handlers t p hs r w of (Inl e, w') \<Rightarrow> (Inl e, w') | (Inr a, w') \<Rightarrow> run_handlers t p hs' r w')"
  by (induction hs arbitrary: w) (auto simp: comp_simps split: prod.splits sum.splits)

lemma Dispatch_run: "Dispatch reg t p = run_handlers t p (handlers_of reg t)"
  by (simp add: Dispatch_def Let_def)

lemma handlers_of_Register: "handlers_of (Register t h reg) t' = handlers_of reg t' @ (if t = t' then [h] else [])"
  by (simp add: handlers_of_def Register_def)

lemma run_handlers_error:
  "run_handlers t p hs r w = (Inl err, w') \<Longrightarrow>
    \<exists>before h rest v err'. hs = before @ h # rest \<and> run_handlers t p before r w = (Inr (), v) \<and>
      h p r v = (Inl err', w') \<and> err = Wrapped (''handler failed for '' @ t) err'"
proof (induction hs arbitrary: w)
  case Nil
  then show ?case by (simp add: comp_simps)
next
  case (Cons h hs)
  obtain x v where x: "h p r w = (x, v)" by (cases "h p r w")
  show ?case
  proof (cases x)
    case (Inl e)
    then show ?thesis using Cons.prems x
      by (intro exI [of _ "[]"] exI [of _ h] exI [of _ hs]) (auto simp: comp_simps)
  next
    case (Inr u)
    then have "run_handlers t p hs r v = (Inl err, w')" using Cons.prems x by (simp add: comp_simps)
    from Cons.IH [OF this] obtain before h' rest v' err' where
      "hs = before @ h' # rest" "run_handlers t p before r v = (Inr (), v')"
      "h' p r v' = (Inl err', w')" "err = Wrapped (''handler failed for '' @ t) err'" by blast
    then show ?thesis using x Inr
      by (intro exI [of _ "h # before"] exI [of _ h'] exI [of _ rest]) (auto simp: comp_simps)
  qed
qed

section \<open>Once per event\<close>

lemma wp_return_eta: "wp (returnC a) Q E r = Q a"
  by (rule ext) simp

definition has_mark :: "uuid \<Rightarrow> string \<Rightarrow> db \<Rightarrow> bool" where
  "has_mark i name d \<longleftrightarrow> (\<exists>p \<in> set (t_processed d). pe_EventID p = i \<and> pe_HandlerName p = name)"

text \<open>The event is marked, outside and inside a transaction.\<close>

definition marked_tx :: "bool \<Rightarrow> uuid \<Rightarrow> string \<Rightarrow> world \<Rightarrow> bool" where
  "marked_tx tx i name w \<longleftrightarrow> wd_tx w = tx \<and> has_mark i name (wd_db w) \<and> has_mark i name (wd_committed w) \<and>
     (tx \<or> wd_db w = wd_committed w)"

abbreviation marked :: "uuid \<Rightarrow> string \<Rightarrow> world \<Rightarrow> bool" where
  "marked \<equiv> marked_tx False"

lemma marked_idle: "marked i name w \<longleftrightarrow> idle w \<and> has_mark i name (wd_committed w)"
  by (auto simp: marked_tx_def idle_def)

lemma marked_steps [simp]:
  "marked_tx tx i name (w\<lparr>wd_tick := n\<rparr>) = marked_tx tx i name w"
  "marked_tx tx i name (w\<lparr>wd_objects := ob\<rparr>) = marked_tx tx i name w"
  "marked_tx tx i name (w\<lparr>wd_thumbnails := ob\<rparr>) = marked_tx tx i name w"
  "marked_tx tx i name (w\<lparr>wd_rulesets := vs\<rparr>) = marked_tx tx i name w"
  "marked_tx tx i name (w\<lparr>wd_locks := ls\<rparr>) = marked_tx tx i name w"
  "marked_tx tx i name (w\<lparr>wd_realtime := ms\<rparr>) = marked_tx tx i name w"
  by (simp_all add: marked_tx_def)

text \<open>A fault of the database that is not a duplicate key.\<close>

definition honest_duplicates :: "env \<Rightarrow> bool" where
  "honest_duplicates r \<longleftrightarrow> (\<forall>t err. en_fault r t = Some err \<longrightarrow> \<not> errors_is err GormErrDuplicatedKey)"

lemma MarkProcessed_again:
  assumes "marked i name w"
  shows "wp (MarkProcessed i name) (\<lambda>ins w'. \<not> ins \<and> w' = w\<lparr>wd_tick := wd_tick w + 2\<rparr>)
    (\<lambda>_ w'. w' = w\<lparr>wd_tick := wd_tick w + 2\<rparr>) r w"
  using assms by (auto simp: MarkProcessed_def marked_idle idle_def has_mark_def)

text \<open>What a marking or unmarking step does to the marks of another handler: nothing.\<close>

definition keeps_all :: "uuid \<Rightarrow> string \<Rightarrow> world \<Rightarrow> world \<Rightarrow> bool" where
  "keeps_all i name w w' \<longleftrightarrow> (\<forall>n'. n' \<noteq> name \<and> marked i n' w \<longrightarrow> marked i n' w')"

lemma wp_MarkProcessed:
  fixes w :: world
  assumes "honest_duplicates r" and "idle w"
  shows "wp (MarkProcessed i name) (\<lambda>ins w'. marked i name w' \<and> ins = (\<not> marked i name w) \<and>
      keeps_all i name w w') (\<lambda>_ w'. idle w' \<and> keeps_all i name w w' \<and> marked i name w' = marked i name w) r w"
  using assms by (auto simp: keeps_all_def MarkProcessed_def marked_idle has_mark_def set_db_def honest_duplicates_def idle_def)

lemma wp_UnmarkProcessed:
  fixes w :: world
  assumes "idle w"
  shows "wp (UnmarkProcessed i name) (\<lambda>_ w'. idle w' \<and> \<not> marked i name w' \<and> keeps_all i name w w')
    (\<lambda>_ w'. w' = w\<lparr>wd_tick := Suc (wd_tick w)\<rparr>) r w"
  using assms by (auto simp: keeps_all_def UnmarkProcessed_def marked_idle has_mark_def set_db_def tbl_delete_def idle_def)

text \<open>Where the event is marked, the handler does not run: nothing but ticks happens.\<close>

lemma wp_with_dedup_skips:
  fixes w :: world
  assumes "marked (EventID e) name w"
  shows "wp (with_dedup name nxt (Payload e)) (\<lambda>_ w'. w' = w\<lparr>wd_tick := wd_tick w + 2\<rparr>)
    (\<lambda>err w'. as_retryable err \<and> w' = w\<lparr>wd_tick := wd_tick w + 2\<rparr>) r w"
  unfolding with_dedup_def
  by (simp, rule wp_mono [OF MarkProcessed_again [OF assms]]) (auto simp: Retryable_def)

definition skipped :: "string \<Rightarrow> event_handler \<Rightarrow> domain_event \<Rightarrow> env \<Rightarrow> world \<Rightarrow> bool" where
  "skipped name nxt e r w \<longleftrightarrow> wp (with_dedup name nxt (Payload e)) (\<lambda>_ w'. w' = w\<lparr>wd_tick := wd_tick w + 2\<rparr>)
     (\<lambda>err w'. as_retryable err \<and> w' = w\<lparr>wd_tick := wd_tick w + 2\<rparr>) r w"

lemma marked_skipped: "marked (EventID e) name w \<Longrightarrow> skipped name nxt e r w"
  unfolding skipped_def by (rule wp_with_dedup_skips)

text \<open>A handler that leaves the marks of its event alone.\<close>

definition keeps_marks :: "domain_event \<Rightarrow> event_handler \<Rightarrow> bool" where
  "keeps_marks e h \<longleftrightarrow> (\<forall>name. keeps (\<lambda>r. marked (EventID e) name) (h (Payload e)))"

text \<open>An error whose mark is released.\<close>

definition released :: "go_error \<Rightarrow> bool" where
  "released err \<longleftrightarrow> as_retryable err \<or> as_deferred err"

lemma released_retryable [simp]: "released (RetryableError c)" "released (DeferredError c)"
  by (simp_all add: released_def)

text \<open>After a success, and after an error of no class, the mark is there; the marks of the other handlers
  stay in any case.\<close>

lemma wp_with_dedup_marks:
  fixes w :: world
  assumes nxt: "keeps_marks e nxt" and r: "honest_duplicates r" and w: "idle w"
  shows "wp (with_dedup name nxt (Payload e)) (\<lambda>_ w'. marked (EventID e) name w' \<and> keeps_all (EventID e) name w w')
    (\<lambda>err w'. idle w' \<and> (released err \<or> marked (EventID e) name w') \<and> keeps_all (EventID e) name w w') r w"
proof -
  let ?i = "EventID e"
  let ?E = "\<lambda>err w'. idle w' \<and> (released err \<or> marked ?i name w') \<and> keeps_all ?i name w w'"
  have run: "wp (nxt (Payload e)) (\<lambda>_ w'. marked ?i name w' \<and> keeps_all ?i name w w')
      (\<lambda>_ w'. marked ?i name w' \<and> keeps_all ?i name w w') r v"
    if "marked ?i name v" "keeps_all ?i name w v" for v
  proof -
    have "marked ?i n' (snd (nxt (Payload e) r v))" if "marked ?i n' v" for n'
      using nxt that unfolding keeps_marks_def by (blast dest: keepsD)
    then show ?thesis using that by (auto simp: wp_both keeps_all_def)
  qed
  have unmark: "wp (UnmarkProcessed ?i name) (\<lambda>_ w'. idle w' \<and> keeps_all ?i name w w')
      (\<lambda>_ w'. idle w' \<and> keeps_all ?i name w w') r v" if "marked ?i name v" "keeps_all ?i name w v" for v
    using that by (intro wp_mono [OF wp_UnmarkProcessed]) (auto simp: marked_idle keeps_all_def)
  have body: "wp (nxt (Payload e)) (\<lambda>_ w'. marked ?i name w' \<and> keeps_all ?i name w w')
      (\<lambda>err. wp (if as_retryable err \<or> as_deferred err
          then attemptC (UnmarkProcessed ?i name) (failC err) else failC err)
        (\<lambda>_ w'. marked ?i name w' \<and> keeps_all ?i name w w') ?E r) r v"
    if "marked ?i name v" "keeps_all ?i name w v" for v
  proof (rule wp_mono [OF run [OF that]], goal_cases)
    case (2 err v')
    then have "wp (attemptC (UnmarkProcessed ?i name) (failC err))
        (\<lambda>_ w'. marked ?i name w' \<and> keeps_all ?i name w w') ?E r v'" if "released err"
      using that unmark [of v'] by (auto elim!: wp_mono)
    then show ?case using 2 by (auto simp: released_def marked_idle)
  qed auto
  show ?thesis
    unfolding with_dedup_def
    by (simp, rule wp_mono [OF wp_MarkProcessed [OF r w]])
      (auto simp: Retryable_def wp_return_eta intro: body)
qed

text \<open>A retryable or deferred error releases it, if the database answers.\<close>

lemma wp_with_dedup_releases:
  fixes w :: world
  assumes f: "\<And>t. en_fault r t = None" and w: "idle w" "\<not> marked (EventID e) name w" and nxt: "keeps_marks e nxt"
  shows "wp (with_dedup name nxt (Payload e)) (\<lambda>_ _. True)
    (\<lambda>err w'. released err \<longrightarrow> \<not> marked (EventID e) name w') r w"
proof -
  have body: "wp (nxt (Payload e)) (\<lambda>_ _. True)
      (\<lambda>err. wp (if as_retryable err \<or> as_deferred err
          then attemptC (UnmarkProcessed (EventID e) name) (failC err) else failC err) (\<lambda>_ _. True)
        (\<lambda>err w'. released err \<longrightarrow> \<not> marked (EventID e) name w') r) r v" if "marked (EventID e) name v" for v
  proof -
    have "wp (nxt (Payload e)) (\<lambda>_. marked (EventID e) name) (\<lambda>_. marked (EventID e) name) r v"
      using nxt that by (simp add: keeps_marks_def keeps_wp)
    then show ?thesis
      by (rule wp_mono) (auto simp: UnmarkProcessed_def marked_idle idle_def has_mark_def set_db_def
          tbl_delete_def f released_def)
  qed
  have "honest_duplicates r" by (simp add: honest_duplicates_def f)
  then show ?thesis
    using w(2) unfolding with_dedup_def
    by (simp, intro wp_mono [OF wp_MarkProcessed [OF _ w(1)], of r])
      (auto simp: wp_return_eta body Retryable_def)
qed

section \<open>The relay\<close>

text \<open>The messages that a batch published: the longest prefix that no fault interrupts.\<close>

lemma wp_Publish: "wp (Publish ev)
    (\<lambda>_ w'. w' = w\<lparr>wd_tick := Suc (wd_tick w), wd_published := wd_published w @ [ev]\<rparr>)
    (\<lambda>_ w'. w' = w\<lparr>wd_tick := Suc (wd_tick w)\<rparr>) r w"
  by (simp add: Publish_def)

lemma wp_publish_loop:
  fixes w :: world
  shows "wp (publish_loop msgs ids)
    (\<lambda>ids' w'. \<exists>k n. k \<le> length msgs \<and> ids' = ids @ List.map o_ID (take k msgs) \<and>
      w' = w\<lparr>wd_tick := n, wd_published := wd_published w @ List.map envelope_of (take k msgs)\<rparr>)
    (\<lambda>_ _. False) r w"
proof (induction msgs arbitrary: ids w)
  case Nil
  then show ?case by (auto intro: exI [of _ "wd_tick w"])
next
  case (Cons msg msgs)
  let ?Q = "\<lambda>ids' w'. \<exists>k n. k \<le> length (msg # msgs) \<and> ids' = ids @ List.map o_ID (take k (msg # msgs)) \<and>
      w' = w\<lparr>wd_tick := n, wd_published := wd_published w @ List.map envelope_of (take k (msg # msgs))\<rparr>"
  have stop: "?Q ids (w\<lparr>wd_tick := Suc (wd_tick w)\<rparr>)"
    by (intro exI [of _ 0] exI [of _ "Suc (wd_tick w)"]) simp
  have go: "wp (publish_loop msgs (ids @ [o_ID msg])) ?Q (\<lambda>_ _. False) r
      (w\<lparr>wd_tick := Suc (wd_tick w), wd_published := wd_published w @ [envelope_of msg]\<rparr>)"
    by (rule wp_mono [OF Cons.IH], clarify)
      (rule_tac x = "Suc k" in exI, rule_tac x = n in exI, auto)
  show ?case
    unfolding publish_loop.simps wp_try
    by (rule wp_mono [OF wp_Publish]) (use stop go in \<open>auto simp only: wp_return\<close>)
qed

lemma unpublished_set: "o' \<in> set (unpublished n d) \<Longrightarrow> o' \<in> set (t_outbox d) \<and> o_PublishedAt o' = None"
  unfolding unpublished_def by (auto dest: in_set_takeD)

lemma unpublished_sorted: "sorted (List.map o_CreatedAt (unpublished n d))"
  unfolding unpublished_def by (simp add: sorted_wrt_take flip: take_map)

lemma unpublished_length: "length (unpublished n d) \<le> nat n"
  by (simp add: unpublished_def)

text \<open>A batch publishes a prefix of what it read, oldest first, then marks it, exactly; if the mark
  fails the messages will be published again, and never the other way round.\<close>

definition batch_published :: "nat \<Rightarrow> int \<Rightarrow> world \<Rightarrow> world \<Rightarrow> bool" where
  "batch_published k n w w' \<longleftrightarrow> wd_published w' = wd_published w @
     List.map envelope_of (take k (unpublished n (wd_committed w)))"

definition batch_done :: "int \<Rightarrow> world \<Rightarrow> world \<Rightarrow> bool" where
  "batch_done n w w' \<longleftrightarrow> idle w' \<and> (\<exists>k now. batch_published k n w w' \<and>
     wd_committed w' = outbox_mark now (List.map o_ID (take k (unpublished n (wd_committed w)))) (wd_committed w))"

definition batch_failed :: "int \<Rightarrow> world \<Rightarrow> world \<Rightarrow> bool" where
  "batch_failed n w w' \<longleftrightarrow> idle w' \<and> (\<exists>k. batch_published k n w w') \<and> wd_committed w' = wd_committed w"

lemma outbox_mark_Nil: "outbox_mark now [] d = d"
  by (simp add: outbox_mark_def)

lemma wp_mark_batch:
  fixes w v :: world
  assumes "idle w" and "ids = List.map o_ID (take k (unpublished n (wd_committed w)))"
    and "v = w\<lparr>wd_tick := m, wd_published := wd_published w @
     List.map envelope_of (take k (unpublished n (wd_committed w)))\<rparr>"
  shows "wp (if ids = [] then returnC () else MarkPublished ids)
    (\<lambda>_. batch_done n w) (\<lambda>_. batch_failed n w) r v"
proof -
  have pub: "batch_published k n w v" and "wd_committed v = wd_committed w" "idle v"
    using assms by (auto simp: batch_published_def idle_def)
  then show ?thesis
    using assms(2) by (auto simp: MarkPublished_def set_db_def batch_done_def batch_failed_def
        batch_published_def idle_def intro!: exI [of _ k] simp flip: outbox_mark_Nil)
qed

lemma wp_publishBatch:
  fixes w :: world
  assumes "idle w"
  shows "wp (publishBatch n) (\<lambda>_. batch_done n w) (\<lambda>_. batch_failed n w) r w"
proof -
  have idle_batch: "batch_done n w (w\<lparr>wd_tick := Suc (wd_tick w)\<rparr>)" "batch_failed n w (w\<lparr>wd_tick := Suc (wd_tick w)\<rparr>)"
    using assms by (auto simp: batch_done_def batch_failed_def batch_published_def outbox_mark_Nil idle_def
        intro: exI [of _ 0])
  have loop: "wp (publish_loop (unpublished n (wd_committed w)) [])
      (\<lambda>ids. wp (if ids = [] then returnC () else MarkPublished ids)
        (\<lambda>_. batch_done n w) (\<lambda>_. batch_failed n w) r) (\<lambda>_. batch_failed n w) r
      (w\<lparr>wd_tick := Suc (wd_tick w)\<rparr>)"
    by (rule wp_mono [OF wp_publish_loop], clarify)
      (rule wp_mark_batch [OF assms], auto)
  show ?thesis
    unfolding publishBatch_def FetchUnpublished_def by (auto simp: loop idle_batch)
qed

text \<open>What a batch marks it has published, now.\<close>

lemma batch_done_no_loss:
  assumes "batch_done n w w'" and "o' \<in> set (t_outbox (wd_committed w'))" and "o_PublishedAt o' \<noteq> None"
  shows "(\<exists>o0 \<in> set (t_outbox (wd_committed w)). o_ID o0 = o_ID o' \<and> o_PublishedAt o0 \<noteq> None) \<or>
    (\<exists>ev \<in> set (wd_published w'). ev_EventID ev = o_ID o')"
  using assms
  by (auto simp: batch_done_def batch_published_def outbox_mark_def envelope_of_def image_Un split: if_splits)
     (metis (no_types, lifting) UnCI envelope.select_convs(1) imageI)+

section \<open>Routing keys and dead letters\<close>

lemma split_comma_no_comma: "CHR '','' \<notin> set part \<Longrightarrow> k \<in> set (split_comma s part) \<Longrightarrow> CHR '','' \<notin> set k"
  by (induction s part rule: split_comma.induct) (auto split: if_splits)

lemma set_TrimSpace: "set (TrimSpace s) \<subseteq> set s"
  unfolding TrimSpace_def by (auto dest!: set_dropWhileD)

lemma splitRoutingKeys_nonempty: "splitRoutingKeys raw \<noteq> []"
  by (simp add: splitRoutingKeys_def Let_def)

lemma splitRoutingKeys_keys:
  "k \<in> set (splitRoutingKeys raw) \<Longrightarrow> k \<noteq> [] \<and> TrimSpace k = k \<and> CHR '','' \<notin> set k"
proof -
  assume k: "k \<in> set (splitRoutingKeys raw)"
  have hash: "TrimSpace ''#'' = ''#''" by (simp add: TrimSpace_def is_space_def)
  from k consider "k = ''#''" | part where "k = TrimSpace part" "part \<in> set (split_comma raw [])" "k \<noteq> []"
    by (auto simp: splitRoutingKeys_def Let_def split: if_splits)
  then show ?thesis
  proof cases
    case 1
    then show ?thesis using hash by simp
  next
    case (2 part)
    then have "CHR '','' \<notin> set part" using split_comma_no_comma [of "[]" part raw] by simp
    then show ?thesis using 2 set_TrimSpace [of part] by auto
  qed
qed

text \<open>What the declarations make of a message: a direct exchange hands it to the queues bound with its
  key, and a queue hands what it rejects or lets expire to its dead-letter exchange.\<close>

definition direct_route :: "amqp_declaration list \<Rightarrow> string \<Rightarrow> string \<Rightarrow> string list" where
  "direct_route ds ex key = List.concat (List.map (\<lambda>d. case d of
     QueueBind q k ex' \<Rightarrow> (if ex' = ex \<and> k = key then [q] else []) | _ \<Rightarrow> []) ds)"

definition dead_letter :: "amqp_declaration list \<Rightarrow> string \<Rightarrow> string list" where
  "dead_letter ds q = List.concat (List.map (\<lambda>d. case d of
     QueueDeclare q' (Some (ex, key)) ttl \<Rightarrow> (if q' = q then direct_route ds ex key else []) | _ \<Rightarrow> []) ds)"

definition topology_wf :: "topology \<Rightarrow> bool" where
  "topology_wf t \<longleftrightarrow> tp_Exchange t \<noteq> tp_DLX t \<and> distinct [tp_Queue t, tp_RetryQueue t, tp_DLQ t]"

lemma DefaultTopology_wf: "exchange \<noteq> queue @ ''.dlx'' \<Longrightarrow> topology_wf (DefaultTopology exchange queue keys ttl)"
  by (simp add: topology_wf_def DefaultTopology_def Let_def)

lemma direct_route_append: "direct_route (ds @ ds') ex key = direct_route ds ex key @ direct_route ds' ex key"
  by (simp add: direct_route_def)

lemma direct_route_binds: "ex \<noteq> ex' \<Longrightarrow> direct_route (List.map (\<lambda>k. QueueBind q k ex') ks) ex key = []"
  by (induction ks) (simp_all add: direct_route_def)

lemma direct_route_dlx:
  assumes "topology_wf t"
  shows "direct_route (topology_declare t) (tp_DLX t) key =
    (if key = ''main'' then [tp_Queue t] else []) @ (if key = ''retry'' then [tp_RetryQueue t] else []) @
    (if key = ''dlq'' then [tp_DLQ t] else [])"
proof -
  have "tp_DLX t \<noteq> tp_Exchange t" using assms by (auto simp: topology_wf_def)
  then show ?thesis
    unfolding topology_declare_def direct_route_append direct_route_binds
    by (auto simp: direct_route_def)
qed

lemma dead_letter_topology:
  assumes "topology_wf t"
  shows "dead_letter (topology_declare t) (tp_Queue t) = [tp_RetryQueue t]"
    and "dead_letter (topology_declare t) (tp_RetryQueue t) = [tp_Queue t]"
    and "dead_letter (topology_declare t) (tp_DLQ t) = []"
proof -
  have binds: "List.concat (List.map (\<lambda>d. case d of QueueDeclare q' (Some (ex, key)) ttl \<Rightarrow>
      (if q' = q then f ex key else []) | _ \<Rightarrow> []) (List.map (\<lambda>k. QueueBind a k b) ks)) = []"
    for q a b ks and f :: "string \<Rightarrow> string \<Rightarrow> string list"
    by (induction ks) simp_all
  have all: "dead_letter (topology_declare t) q =
      (if q = tp_Queue t then [tp_RetryQueue t] else []) @ (if q = tp_RetryQueue t then [tp_Queue t] else [])" for q
    unfolding dead_letter_def
    by (subst (2) topology_declare_def) (simp add: binds direct_route_dlx [OF assms])
  show "dead_letter (topology_declare t) (tp_Queue t) = [tp_RetryQueue t]"
    and "dead_letter (topology_declare t) (tp_RetryQueue t) = [tp_Queue t]"
    and "dead_letter (topology_declare t) (tp_DLQ t) = []"
    using assms by (auto simp: all topology_wf_def)
qed

end
