(* ===== verification/Realtime.thy ===== *)
theory Realtime
  imports Messaging
begin

text \<open>
  \<open>src/internal/application/realtime\<close> and the channels of \<open>src/internal/infrastructure/centrifugo\<close>:
  which user channel a message of an entity goes to. The transport is a call that may fail; what it
  accepts is kept in \<open>wd_realtime\<close>.
\<close>

section \<open>Channels\<close>

definition UserChannel :: "(uuid \<Rightarrow> string) \<Rightarrow> uuid \<Rightarrow> string" where
  "UserChannel us u = ''users:'' @ us u @ ''#'' @ us u"

definition UserMediaChannel :: "(uuid \<Rightarrow> string) \<Rightarrow> uuid \<Rightarrow> string" where
  "UserMediaChannel us u = ''users:'' @ us u @ '':media#'' @ us u"

definition UserContentChannel :: "(uuid \<Rightarrow> string) \<Rightarrow> uuid \<Rightarrow> string" where
  "UserContentChannel us u = ''users:'' @ us u @ '':content#'' @ us u"

definition UserActivityChannel :: "(uuid \<Rightarrow> string) \<Rightarrow> uuid \<Rightarrow> string" where
  "UserActivityChannel us u = ''users:'' @ us u @ '':activity#'' @ us u"

lemmas channel_defs = UserChannel_def UserMediaChannel_def UserContentChannel_def UserActivityChannel_def

definition UserInterestChannel :: "(uuid \<Rightarrow> string) \<Rightarrow> uuid \<Rightarrow> string \<Rightarrow> string res" where
  "UserInterestChannel us u interest =
    (if interest = [] \<or> interest = ''account'' then Inr (UserChannel us u)
     else if interest = ''media'' then Inr (UserMediaChannel us u)
     else if interest = ''content'' then Inr (UserContentChannel us u)
     else if interest = ''activity'' then Inr (UserActivityChannel us u)
     else Inl (Err ''unknown realtime channel interest''))"

definition UserSubscribeChannels :: "(uuid \<Rightarrow> string) \<Rightarrow> uuid \<Rightarrow> string list" where
  "UserSubscribeChannels us u =
     [UserChannel us u, UserMediaChannel us u, UserContentChannel us u, UserActivityChannel us u]"

section \<open>Publishing\<close>

definition PublishToUserInterest :: "uuid \<Rightarrow> string \<Rightarrow> string \<Rightarrow> rt_payload \<Rightarrow> unit app" where
  "PublishToUserInterest userID interest eventType payload =
    bindC (askC en_uuid_string) (\<lambda>us.
    bindC (mapErrC (Wrapped ''failed to resolve centrifugo channel'') (liftC (UserInterestChannel us userID interest)))
      (\<lambda>channel.
    mapErrC (Wrapped ''failed to publish to centrifugo channel'') (thenC callC (stateC (\<lambda>w.
      (Inr (), w\<lparr>wd_realtime := wd_realtime w @
        [\<lparr>rt_Channel = channel, rt_EventType = eventType, rt_Payload = payload\<rparr>]\<rparr>))))))"

definition realtime_EventType :: "string \<Rightarrow> string \<Rightarrow> string" where
  "realtime_EventType entity action = entity @ ''.'' @ action"

definition interestForEntity :: "string \<Rightarrow> string" where
  "interestForEntity entity = (if entity = ''media'' then ''media'' else if entity = ''content'' then ''content''
     else if entity = ''activity'' then ''activity'' else ''account'')"

definition ToUser :: "string \<Rightarrow> string \<Rightarrow> rt_payload \<Rightarrow> uuid \<Rightarrow> unit app" where
  "ToUser entity action payload userID = mapErrC Retryable
     (PublishToUserInterest userID (interestForEntity entity) (realtime_EventType entity action) payload)"

text \<open>\<open>ToMembers\<close> and \<open>ToUsers\<close>: one user after the other, up to the first error.\<close>

fun ToMembers :: "string \<Rightarrow> string \<Rightarrow> uuid list \<Rightarrow> rt_payload \<Rightarrow> unit app" where
  "ToMembers entity action [] payload = returnC ()"
| "ToMembers entity action (u # us) payload =
     thenC (ToUser entity action payload u) (ToMembers entity action us payload)"

section \<open>Who gets what\<close>

text \<open>A channel belongs to one user: it is one of the channels of that user's token, and of nobody else's.\<close>

lemma interest_channel_subscribed:
  "UserInterestChannel us u (interestForEntity entity) = Inr ch \<Longrightarrow> ch \<in> set (UserSubscribeChannels us u)"
  by (auto simp: UserInterestChannel_def UserSubscribeChannels_def interestForEntity_def split: if_splits)

lemma interest_channel_total: "\<exists>ch. UserInterestChannel us u (interestForEntity entity) = Inr ch"
  by (simp add: UserInterestChannel_def interestForEntity_def)

lemma channel_user: "ch \<in> set (UserSubscribeChannels us u) \<Longrightarrow> \<exists>rest. ch = ''users:'' @ us u @ rest"
  by (auto simp: UserSubscribeChannels_def channel_defs)

lemma channels_disjoint:
  assumes "uuid_text us" and "us u \<noteq> us v"
  shows "set (UserSubscribeChannels us u) \<inter> set (UserSubscribeChannels us v) = {}"
proof (rule ccontr)
  assume "\<not> ?thesis"
  then obtain ch where "ch \<in> set (UserSubscribeChannels us u)" "ch \<in> set (UserSubscribeChannels us v)" by blast
  then obtain a b where "us u @ a = us v @ b" using channel_user by (metis append_eq_append_conv)
  moreover have "length (us u) = length (us v)" using uuid_text_length [OF assms(1)] by simp
  ultimately show False using assms(2) by simp
qed

text \<open>The channel of a message, where the interest is known.\<close>

definition channel_of :: "env \<Rightarrow> string \<Rightarrow> uuid \<Rightarrow> string" where
  "channel_of r entity u = (case UserInterestChannel (en_uuid_string r) u (interestForEntity entity) of
     Inr ch \<Rightarrow> ch | Inl e \<Rightarrow> [])"

definition realtime_to :: "env \<Rightarrow> string \<Rightarrow> string \<Rightarrow> rt_payload \<Rightarrow> uuid \<Rightarrow> realtime_message" where
  "realtime_to r entity action payload u = \<lparr>rt_Channel = channel_of r entity u,
     rt_EventType = realtime_EventType entity action, rt_Payload = payload\<rparr>"

lemma channel_of_subscribed: "channel_of r entity u \<in> set (UserSubscribeChannels (en_uuid_string r) u)"
  using interest_channel_total [of "en_uuid_string r" u entity] interest_channel_subscribed
  by (auto simp: channel_of_def)

lemma wp_ToUser: "wp (ToUser entity action payload u)
    (\<lambda>_ w'. w' = w\<lparr>wd_tick := Suc (wd_tick w), wd_realtime := wd_realtime w @ [realtime_to r entity action payload u]\<rparr>)
    (\<lambda>err w'. as_retryable err \<and> w' = w\<lparr>wd_tick := Suc (wd_tick w)\<rparr>) r w"
  using interest_channel_total [of "en_uuid_string r" u entity]
  by (auto simp: ToUser_def PublishToUserInterest_def Retryable_def realtime_to_def channel_of_def)

text \<open>A run of \<open>ToMembers\<close> reaches a prefix of the members, all of them on success.\<close>

lemma wp_ToMembers:
  fixes w :: world
  shows "wp (ToMembers entity action us payload)
    (\<lambda>_ w'. \<exists>n. w' = w\<lparr>wd_tick := n, wd_realtime := wd_realtime w @ List.map (realtime_to r entity action payload) us\<rparr>)
    (\<lambda>err w'. as_retryable err \<and> (\<exists>n k. k < length us \<and> w' = w\<lparr>wd_tick := n,
      wd_realtime := wd_realtime w @ List.map (realtime_to r entity action payload) (take k us)\<rparr>)) r w"
proof (induction us arbitrary: w)
  case Nil
  then show ?case by (auto intro: exI [of _ "wd_tick w"])
next
  case (Cons u us)
  let ?m = "realtime_to r entity action payload"
  have stop: "\<exists>n k. k < length (u # us) \<and> w\<lparr>wd_tick := Suc (wd_tick w)\<rparr> =
      w\<lparr>wd_tick := n, wd_realtime := wd_realtime w @ List.map ?m (take k (u # us))\<rparr>"
    by (intro exI [of _ "Suc (wd_tick w)"] exI [of _ 0]) simp
  have go: "wp (ToMembers entity action us payload)
      (\<lambda>_ w'. \<exists>n. w' = w\<lparr>wd_tick := n, wd_realtime := wd_realtime w @ List.map ?m (u # us)\<rparr>)
      (\<lambda>err w'. as_retryable err \<and> (\<exists>n k. k < length (u # us) \<and> w' = w\<lparr>wd_tick := n,
        wd_realtime := wd_realtime w @ List.map ?m (take k (u # us))\<rparr>)) r
      (w\<lparr>wd_tick := Suc (wd_tick w), wd_realtime := wd_realtime w @ [?m u]\<rparr>)"
  proof (rule wp_mono [OF Cons.IH], goal_cases)
    case (1 a w')
    then show ?case by auto
  next
    case (2 e w')
    then obtain n k where "as_retryable e" "k < length us" "w' = w\<lparr>wd_tick := n, wd_realtime :=
        (wd_realtime w @ [?m u]) @ List.map ?m (take k us)\<rparr>" by auto
    then show ?case by (intro conjI exI [of _ n] exI [of _ "Suc k"]) auto
  qed
  show ?case
    unfolding ToMembers.simps wp_then
    by (rule wp_mono [OF wp_ToUser]) (use go stop in auto)
qed

end
