(* ===== verification/Activity.thy ===== *)
theory Activity
  imports Realtime
begin

text \<open>
  \<open>src/internal/application/event/activity/project.go\<close>: the projector turns selected events into rows
  of the activity feed, one per event, and announces a new row to the members of the client. The
  quotation marks of the messages are the UTF-8 bytes of U+201C and U+201D.
\<close>

section \<open>Rows\<close>

definition quoted :: "string \<Rightarrow> string" where
  "quoted s = [CHR 0xE2, CHR 0x80, CHR 0x9C] @ s @ [CHR 0xE2, CHR 0x80, CHR 0x9D]"

definition system_activity :: "uuid \<Rightarrow> uuid \<Rightarrow> string \<Rightarrow> string \<Rightarrow> (string \<times> json) list \<Rightarrow> gotime \<Rightarrow> activity" where
  "system_activity eventID clientID ty message payload occurredAt =
     \<lparr>a_ID = eventID, a_ClientID = clientID, a_Type = ty, a_ActorType = ''system'', a_ActorUserID = None,
      a_ActorName = ''System'', a_Message = message, a_Payload = payload, a_OccurredAt = occurredAt,
      a_CreatedAt = 0\<rparr>"

definition displayName :: "string \<Rightarrow> string \<Rightarrow> string \<Rightarrow> string" where
  "displayName firstName lastName email =
    (let name = TrimSpace (TrimSpace firstName @ '' '' @ TrimSpace lastName) in
     if name \<noteq> [] then name else let email = TrimSpace email in
     if email \<noteq> [] then email else ''A member'')"

section \<open>The repository\<close>

text \<open>\<open>activityEventWriteRepository.Insert\<close>: the row is written unless its identifier exists.\<close>

definition activity_insert :: "gotime \<Rightarrow> activity \<Rightarrow> db \<Rightarrow> db" where
  "activity_insert now a d = (if a_ID a \<in> a_ID ` set (t_activities d) then d
     else d\<lparr>t_activities := t_activities d @
       [a\<lparr>a_OccurredAt := UTC (a_OccurredAt a),
          a_CreatedAt := UTC (if IsZero (a_CreatedAt a) then now else a_CreatedAt a)\<rparr>]\<rparr>)"

definition activity_Insert :: "activity \<Rightarrow> bool app" where
  "activity_Insert a = bindC nowC (\<lambda>now. thenC callC (stateC (\<lambda>w.
     (Inr (a_ID a \<notin> a_ID ` set (t_activities (wd_db w))), set_db (activity_insert now a (wd_db w)) w))))"

definition mediaRead_FindByID :: "uuid \<Rightarrow> media option app" where
  "mediaRead_FindByID i = poolRead (media_get i)"

definition userRead_FindByID :: "uuid \<Rightarrow> user option app" where
  "userRead_FindByID i = poolRead (user_get i)"

section \<open>The projector\<close>

definition publishCreated :: "activity \<Rightarrow> unit app" where
  "publishCreated a = bindC (mapErrC Retryable (clientRead_FindByID (a_ClientID a))) (\<lambda>view.
     case view of None \<Rightarrow> returnC () | Some view \<Rightarrow>
     if cl_MemberIDs view = [] then returnC () else
     ToMembers ''activity'' ''created'' (cl_MemberIDs view) (RtActivity a))"

definition project_insert :: "activity \<Rightarrow> unit app" where
  "project_insert a =
    bindC (if IsZero (a_OccurredAt a) then bindC nowC (\<lambda>now. returnC (a\<lparr>a_OccurredAt := now\<rparr>)) else returnC a) (\<lambda>a.
    bindC (mapErrC Retryable (activity_Insert a)) (\<lambda>inserted.
    if \<not> inserted then returnC () else publishCreated a))"

definition media_filename :: "uuid \<Rightarrow> string app" where
  "media_filename mediaID = bindC (askC en_uuid_string) (\<lambda>us.
     bindC (mapErrC Retryable (mediaRead_FindByID mediaID)) (\<lambda>view. returnC (case view of
       None \<Rightarrow> us mediaID | Some m \<Rightarrow> if m_Filename m \<noteq> [] then m_Filename m else us mediaID)))"

text \<open>A body that does not decode to the event a handler wants.\<close>

definition undecodable :: "unit app" where
  "undecodable = failC (NonRetryable (Err ''invalid json''))"

definition verdict_message :: "string \<Rightarrow> string \<Rightarrow> int \<Rightarrow> int \<Rightarrow> (string \<times> string) option" where
  "verdict_message lab filename flagged total_count =
    (if lab = ''ai_generated'' then Some (''media.ai_flagged'', quoted filename @ '' flagged as AI-generated ('' @
        int_string flagged @ ''/'' @ int_string total_count @ '' frames)'')
     else if lab = ''uncertain'' then Some (''media.manual_review'', quoted filename @
        '' placed under manual review ('' @ int_string flagged @ ''/'' @ int_string total_count @ '' units)'')
     else if lab = ''human'' then Some (''media.human_verified'', quoted filename @ '' verified as human content'')
     else None)"

definition OnMediaVerdictRendered :: event_handler where
  "OnMediaVerdictRendered p = (case p of
     Payload (EvMedia (MediaVerdictRendered eid mid cid clid lab flagged tot failed st reason ts)) \<Rightarrow>
       bindC (media_filename mid) (\<lambda>filename.
       if st = media_status_string StatusFailed then
         project_insert (system_activity eid clid ''media.failed''
           (if reason \<noteq> [] then quoted filename @ '' failed: '' @ reason else quoted filename @ '' failed during processing'')
           ([(''mediaId'', JUuid mid), (''campaignId'', JUuid cid), (''filename'', JString filename),
             (''status'', JString st)] @ (if reason \<noteq> [] then [(''reason'', JString reason)] else [])) ts)
       else case verdict_message lab filename flagged tot of
           None \<Rightarrow> returnC ()
         | Some (ty, message) \<Rightarrow> project_insert (system_activity eid clid ty message
             [(''mediaId'', JUuid mid), (''campaignId'', JUuid cid), (''filename'', JString filename),
              (''label'', JString lab), (''flaggedCount'', JInt flagged), (''totalCount'', JInt tot),
              (''failedCount'', JInt failed)] ts))
   | _ \<Rightarrow> undecodable)"

definition OnMediaStatusChanged :: event_handler where
  "OnMediaStatusChanged p = (case p of
     Payload (EvMedia (MediaStatusChanged eid mid cid clid st lab ts)) \<Rightarrow>
       if st \<noteq> media_status_string StatusFailed then returnC () else
       bindC (media_filename mid) (\<lambda>filename.
       project_insert (system_activity eid clid ''media.failed'' (quoted filename @ '' failed during processing'')
         [(''mediaId'', JUuid mid), (''campaignId'', JUuid cid), (''filename'', JString filename),
          (''status'', JString st)] ts))
   | _ \<Rightarrow> undecodable)"

definition OnCampaignCreated :: event_handler where
  "OnCampaignCreated p = (case p of
     Payload (EvCampaign (CampaignCreated eid cid clid name isDefault sa ea ts)) \<Rightarrow>
       if isDefault then returnC () else
       bindC (mapErrC Retryable (clientRead_FindByID clid)) (\<lambda>view.
       let clientName = (case view of None \<Rightarrow> ''the client''
             | Some c \<Rightarrow> if cl_Name c \<noteq> [] then cl_Name c else ''the client'') in
       project_insert (system_activity eid clid ''campaign.created''
         (''New campaign '' @ quoted name @ '' created for '' @ clientName)
         [(''campaignId'', JUuid cid), (''name'', JString name), (''clientName'', JString clientName)] ts))
   | _ \<Rightarrow> undecodable)"

definition OnClientMemberAdded :: event_handler where
  "OnClientMemberAdded p = (case p of
     Payload (EvClient (ClientMemberAdded eid clid uid ts)) \<Rightarrow>
       bindC (mapErrC Retryable (userRead_FindByID uid)) (\<lambda>view.
       let memberName = (case view of None \<Rightarrow> ''A member''
             | Some u \<Rightarrow> displayName (u_FirstName u) (u_LastName u) (u_Email u)) in
       project_insert (system_activity eid clid ''client.member_added'' (memberName @ '' joined the team'')
         [(''userId'', JUuid uid), (''memberName'', JString memberName)] ts))
   | _ \<Rightarrow> undecodable)"

text \<open>The content events are read and ignored: the feed speaks of media.\<close>

definition OnContentVerdictRendered :: event_handler where
  "OnContentVerdictRendered p = returnC ()"

definition OnContentStatusChanged :: event_handler where
  "OnContentStatusChanged p = returnC ()"

lemmas projector_defs = OnMediaVerdictRendered_def OnMediaStatusChanged_def OnCampaignCreated_def
  OnClientMemberAdded_def OnContentVerdictRendered_def OnContentStatusChanged_def undecodable_def

end
