(* ===== verification/Pages.thy ===== *)
theory Pages
  imports Activity "HOL-Library.Product_Lexorder"
begin

text \<open>
  \<open>src/internal/domain/paginate\<close>, the list queries of \<open>src/internal/infrastructure/persistence/read\<close>
  and their handlers in \<open>src/internal/application/query\<close>. Rows with equal sort keys keep the order of the
  table, which the database leaves open. A collation ranks the texts of a column.
\<close>

section \<open>Pagination\<close>

record paginate_query =
  pq_Page :: int
  pq_Limit :: int
  pq_SortBy :: string
  pq_OrderBy :: string
  pq_Search :: string

definition DefaultLimit :: int where "DefaultLimit = 20"

definition MaxLimit :: int where "MaxLimit = 200"

definition Normalize :: "paginate_query \<Rightarrow> paginate_query" where
  "Normalize p = (let lim = (if pq_Limit p \<le> 0 then DefaultLimit else pq_Limit p) in
     p\<lparr>pq_Page := (if pq_Page p \<le> 0 then 1 else pq_Page p),
       pq_Limit := (if MaxLimit < lim then MaxLimit else lim),
       pq_OrderBy := (if pq_OrderBy p \<noteq> ''asc'' \<and> pq_OrderBy p \<noteq> ''desc'' then ''asc'' else pq_OrderBy p)\<rparr>)"

definition Offset :: "paginate_query \<Rightarrow> int" where
  "Offset p = (pq_Page p - 1) * pq_Limit p"

definition TotalPages :: "int \<Rightarrow> paginate_query \<Rightarrow> int" where
  "TotalPages n p = \<lceil>(of_int n / of_int (pq_Limit p) :: rat)\<rceil>"

text \<open>A sort key; a missing value comes last in ascending order and first in descending order.\<close>

type_synonym 'a sort = "'a \<Rightarrow> int option"

definition asc_key :: "int option \<Rightarrow> bool \<times> int" where
  "asc_key k = (case k of None \<Rightarrow> (True, 0) | Some x \<Rightarrow> (False, x))"

definition desc_key :: "int option \<Rightarrow> bool \<times> int" where
  "desc_key k = (case k of None \<Rightarrow> (False, 0) | Some x \<Rightarrow> (True, - x))"

definition order_by :: "string \<Rightarrow> 'a sort \<Rightarrow> 'a list \<Rightarrow> 'a list" where
  "order_by dir key rows = sort_key (if dir = ''asc'' then asc_key \<circ> key else desc_key \<circ> key) rows"

definition Paginate :: "'a sort \<Rightarrow> paginate_query \<Rightarrow> 'a list \<Rightarrow> 'a list \<times> int" where
  "Paginate key q rows = (take (nat (pq_Limit q)) (drop (nat (Offset q)) (order_by (pq_OrderBy q) key rows)),
     int (length rows))"

section \<open>Search\<close>

text \<open>\<open>ILIKE\<close>: a percent sign stands for any text, an underscore for any character, a backslash quotes.\<close>

fun like :: "string \<Rightarrow> string \<Rightarrow> bool" where
  "like [] s = (s = [])"
| "like (p # ps) s =
    (if p = CHR ''%'' then like ps s \<or> (case s of [] \<Rightarrow> False | c # cs \<Rightarrow> like (p # ps) cs)
     else if p = CHR 0x5C then (case ps of [] \<Rightarrow> False | q # qs \<Rightarrow> (case s of [] \<Rightarrow> False | c # cs \<Rightarrow> c = q \<and> like qs cs))
     else (case s of [] \<Rightarrow> False | c # cs \<Rightarrow> (p = CHR ''_'' \<or> p = c) \<and> like ps cs))"

definition search_matches :: "string \<Rightarrow> string \<Rightarrow> bool" where
  "search_matches search s \<longleftrightarrow> search = [] \<or> like (ToLower ([CHR ''%''] @ search @ [CHR ''%''])) (ToLower s)"

definition within_period :: "gotime option \<Rightarrow> gotime option \<Rightarrow> gotime \<Rightarrow> bool" where
  "within_period from to t \<longleftrightarrow> (case from of None \<Rightarrow> True | Some a \<Rightarrow> a \<le> t) \<and> (case to of None \<Rightarrow> True | Some b \<Rightarrow> t \<le> b)"

section \<open>Campaigns\<close>

record campaign_counts =
  cc_PendingUpload :: int
  cc_Uploaded :: int
  cc_Analyzing :: int
  cc_Analyzed :: int
  cc_Failed :: int
  cc_Human :: int
  cc_AIGenerated :: int
  cc_Uncertain :: int

definition count_rows :: "('a \<Rightarrow> bool) \<Rightarrow> 'a list \<Rightarrow> int" where
  "count_rows P rows = int (length (List.filter P rows))"

definition has_label :: "label \<Rightarrow> media_model \<Rightarrow> bool" where
  "has_label l r \<longleftrightarrow> (case mm_Verdict r of None \<Rightarrow> False | Some v \<Rightarrow> mv_Label v = l)"

definition status_counts :: "media_model list \<Rightarrow> campaign_counts" where
  "status_counts rows = \<lparr>cc_PendingUpload = count_rows (\<lambda>r. mm_Status r = StatusPendingUpload) rows,
     cc_Uploaded = count_rows (\<lambda>r. mm_Status r = StatusUploaded) rows,
     cc_Analyzing = count_rows (\<lambda>r. mm_Status r = StatusProcessing) rows,
     cc_Analyzed = count_rows (\<lambda>r. mm_Status r = StatusAnalyzed) rows,
     cc_Failed = count_rows (\<lambda>r. mm_Status r = StatusFailed) rows,
     cc_Human = count_rows (has_label LabelHuman) rows, cc_AIGenerated = count_rows (has_label LabelAIGenerated) rows,
     cc_Uncertain = count_rows (has_label LabelUncertain) rows\<rparr>"

definition content_counts :: "uuid \<Rightarrow> db \<Rightarrow> campaign_counts" where
  "content_counts i d = status_counts (List.filter (\<lambda>r. mm_CampaignID r = i \<and> mm_DeletedAt r = None) (t_media d))"

text \<open>A campaign view: the campaign and its counts, which the bulk query leaves at zero.\<close>

type_synonym campaign_view = "campaign \<times> campaign_counts"

definition no_counts :: campaign_counts where
  "no_counts = status_counts []"

definition attachContentCounts :: "campaign list \<Rightarrow> campaign_view list app" where
  "attachContentCounts cs = (if cs = [] then returnC [] else
     poolRead (\<lambda>d. List.map (\<lambda>c. (c, content_counts (cp_ID c) d)) cs))"

definition attach_one :: "campaign option \<Rightarrow> campaign_view option app" where
  "attach_one c = (case c of None \<Rightarrow> returnC None
     | Some c \<Rightarrow> bindC (attachContentCounts [c]) (\<lambda>vs. returnC (case vs of [] \<Rightarrow> None | v # _ \<Rightarrow> Some v)))"

definition campaignRead_FindByID :: "uuid \<Rightarrow> campaign_view option app" where
  "campaignRead_FindByID i = bindC (poolRead (campaign_get i)) attach_one"

definition campaignRead_FindByIDs :: "uuid list \<Rightarrow> campaign_view list app" where
  "campaignRead_FindByIDs ids = (if ids = [] then returnC [] else poolRead (\<lambda>d.
     List.map (\<lambda>r. (campaignDomainFromModel r, no_counts))
       (List.filter (\<lambda>r. cpm_DeletedAt r = None \<and> cpm_ID r \<in> set ids) (t_campaigns d))))"

definition FindDefaultByClientID :: "uuid \<Rightarrow> campaign_view option app" where
  "FindDefaultByClientID clientID = bindC (poolRead (\<lambda>d. map_option campaignDomainFromModel
     (tbl_first cpm_ID (\<lambda>r. cpm_DeletedAt r = None \<and> cpm_ClientID r = clientID \<and> cpm_IsDefault r) (t_campaigns d))))
     attach_one"

definition campaign_sort :: "(string \<Rightarrow> int) \<Rightarrow> string \<Rightarrow> campaign_model sort" where
  "campaign_sort coll by r =
    (if by = ''updated_at'' then Some (cpm_UpdatedAt r) else if by = ''name'' then Some (coll (cpm_Name r))
     else if by = ''start_at'' then cpm_StartAt r else if by = ''end_at'' then cpm_EndAt r else Some (cpm_CreatedAt r))"

definition campaign_rows :: "uuid \<Rightarrow> string \<Rightarrow> db \<Rightarrow> campaign_model list" where
  "campaign_rows clientID search d = List.filter (\<lambda>r. cpm_ClientID r = clientID \<and> \<not> cpm_IsDefault r \<and>
     cpm_DeletedAt r = None \<and> search_matches search (cpm_Name r)) (t_campaigns d)"

definition campaignRead_FindPageByClientID :: "(string \<Rightarrow> int) \<Rightarrow> uuid \<Rightarrow> paginate_query \<Rightarrow> (campaign_view list \<times> int) app" where
  "campaignRead_FindPageByClientID coll clientID q =
    bindC (poolRead (\<lambda>d. Paginate (campaign_sort coll (pq_SortBy q)) q (campaign_rows clientID (pq_Search q) d))) (\<lambda>(rows, total_count).
    bindC (attachContentCounts (List.map campaignDomainFromModel rows)) (\<lambda>views. returnC (views, total_count)))"

section \<open>Medias\<close>

definition media_sort :: "(string \<Rightarrow> int) \<Rightarrow> string \<Rightarrow> media_model sort" where
  "media_sort coll by r =
    (if by = ''updated_at'' then Some (mm_UpdatedAt r) else if by = ''filename'' then Some (coll (mm_Filename r))
     else if by = ''status'' then Some (coll (media_status_string (mm_Status r))) else Some (mm_CreatedAt r))"

definition label_in :: "string list \<Rightarrow> media_model \<Rightarrow> bool" where
  "label_in verdicts r \<longleftrightarrow> (case mm_Verdict r of None \<Rightarrow> False | Some v \<Rightarrow> label_string (mv_Label v) \<in> set verdicts)"

text \<open>The chips of the two filters add up.\<close>

definition chips_match :: "string list \<Rightarrow> string list \<Rightarrow> media_model \<Rightarrow> bool" where
  "chips_match statuses verdicts r \<longleftrightarrow>
    (if statuses \<noteq> [] \<and> verdicts \<noteq> [] then media_status_string (mm_Status r) \<in> set statuses \<or> label_in verdicts r
     else if statuses \<noteq> [] then media_status_string (mm_Status r) \<in> set statuses
     else verdicts = [] \<or> label_in verdicts r)"

record media_filter =
  mf_CampaignIDs :: "uuid list"
  mf_Statuses :: "string list"
  mf_Verdicts :: "string list"
  mf_From :: "gotime option"
  mf_To :: "gotime option"

definition media_rows :: "uuid \<Rightarrow> media_filter \<Rightarrow> string \<Rightarrow> db \<Rightarrow> media_model list" where
  "media_rows clientID f search d = List.filter (\<lambda>r. mm_ClientID r = clientID \<and> mm_DeletedAt r = None \<and>
     (mf_CampaignIDs f = [] \<or> mm_CampaignID r \<in> set (mf_CampaignIDs f)) \<and>
     within_period (mf_From f) (mf_To f) (mm_CreatedAt r) \<and> search_matches search (mm_Filename r) \<and>
     chips_match (mf_Statuses f) (mf_Verdicts f) r) (t_media d)"

definition mediaRead_FindPageByClientID :: "(string \<Rightarrow> int) \<Rightarrow> uuid \<Rightarrow> media_filter \<Rightarrow> paginate_query \<Rightarrow> (media list \<times> int) app" where
  "mediaRead_FindPageByClientID coll clientID f q = poolRead (\<lambda>d.
     map_prod (List.map mediaDomainFromModel) id
       (Paginate (media_sort coll (pq_SortBy q)) q (media_rows clientID f (pq_Search q) d)))"

definition FindContentsByMediaID :: "uuid \<Rightarrow> content list app" where
  "FindContentsByMediaID mediaID = poolRead (contents_of mediaID)"

section \<open>Clients and activities\<close>

definition client_sort :: "(string \<Rightarrow> int) \<Rightarrow> string \<Rightarrow> client_model sort" where
  "client_sort coll by r = (if by = ''updated_at'' then Some (clm_UpdatedAt r) else if by = ''name'' then Some (coll (clm_Name r))
     else Some (clm_CreatedAt r))"

text \<open>The inner join: a row of a client for every membership row of the user.\<close>

definition client_rows :: "uuid \<Rightarrow> string \<Rightarrow> db \<Rightarrow> client_model list" where
  "client_rows userID search d = List.filter (\<lambda>r. search_matches search (clm_Name r)) (concat (List.map (\<lambda>r.
     List.map (\<lambda>_. r) (List.filter (\<lambda>m. ucm_ClientID m = clm_ID r \<and> ucm_UserID m = userID) (t_user_clients d))) (t_clients d)))"

fun load_members :: "client_model list \<Rightarrow> client list app" where
  "load_members [] = returnC []"
| "load_members (r # rows) = bindC (poolRead (members_of (clm_ID r))) (\<lambda>ids.
     bindC (load_members rows) (\<lambda>cs. returnC (clientDomainFromModel r ids # cs)))"

definition clientRead_FindPageByUserID :: "(string \<Rightarrow> int) \<Rightarrow> uuid \<Rightarrow> paginate_query \<Rightarrow> (client list \<times> int) app" where
  "clientRead_FindPageByUserID coll userID q =
    bindC (poolRead (\<lambda>d. Paginate (client_sort coll (pq_SortBy q)) q (client_rows userID (pq_Search q) d))) (\<lambda>(rows, total_count).
    bindC (load_members rows) (\<lambda>cs. returnC (cs, total_count)))"

definition payload_campaign :: "activity \<Rightarrow> uuid option" where
  "payload_campaign a = (case map_of (a_Payload a) ''campaignId'' of Some (JUuid i) \<Rightarrow> Some i | _ \<Rightarrow> None)"

definition activity_sort :: "string \<Rightarrow> activity sort" where
  "activity_sort by a = Some (if by = ''created_at'' then a_CreatedAt a else a_OccurredAt a)"

definition activity_rows :: "uuid \<Rightarrow> uuid list \<Rightarrow> gotime option \<Rightarrow> gotime option \<Rightarrow> string \<Rightarrow> db \<Rightarrow> activity list" where
  "activity_rows clientID campaignIDs from to search d = List.filter (\<lambda>a. a_ClientID a = clientID \<and>
     search_matches search (a_Message a) \<and> within_period from to (a_OccurredAt a) \<and>
     (campaignIDs = [] \<or> (case payload_campaign a of None \<Rightarrow> False | Some i \<Rightarrow> i \<in> set campaignIDs))) (t_activities d)"

definition activityRead_FindPageByClientID :: "uuid \<Rightarrow> uuid list \<Rightarrow> gotime option \<Rightarrow> gotime option \<Rightarrow> paginate_query
    \<Rightarrow> (activity list \<times> int) app" where
  "activityRead_FindPageByClientID clientID campaignIDs from to q = poolRead (\<lambda>d.
     Paginate (activity_sort (pq_SortBy q)) q (activity_rows clientID campaignIDs from to (pq_Search q) d))"

section \<open>Statistics\<close>

text \<open>\<open>math.Round\<close> rounds halves away from zero.\<close>

definition math_Round :: "rat \<Rightarrow> int" where
  "math_Round x = (if 0 \<le> x then \<lfloor>x + 1 / 2\<rfloor> else \<lceil>x - 1 / 2\<rceil>)"

definition round1 :: "rat \<Rightarrow> rat" where
  "round1 v = of_int (math_Round (v * 10)) / 10"

definition ratePercent :: "int \<Rightarrow> int \<Rightarrow> rat" where
  "ratePercent part total_count = (if total_count = 0 then 0 else round1 (of_int part / of_int total_count * 100))"

definition percentChange :: "int \<Rightarrow> int \<Rightarrow> rat option" where
  "percentChange current previous = (if previous = 0 then None
     else Some (round1 (of_int (current - previous) / of_int previous * 100)))"

definition pointsChange :: "rat \<Rightarrow> rat \<Rightarrow> int \<Rightarrow> rat option" where
  "pointsChange currentRate previousRate previousTotal = (if previousTotal = 0 then None
     else Some (round1 (currentRate - previousRate)))"

definition previousStatsPeriod :: "gotime \<Rightarrow> gotime \<Rightarrow> gotime \<times> gotime" where
  "previousStatsPeriod from to =
    (let monthStart = first_of_month from; monthEnd = AddDate monthStart 0 1 0 - 1 in
     if from = monthStart \<and> to = monthEnd then (AddDate monthStart 0 (- 1) 0, monthStart - 1)
     else let prevEnd = from - 1 in (prevEnd - (to - from), prevEnd))"

text \<open>The rows of the client, of one campaign or of all.\<close>

definition stats_rows :: "uuid \<Rightarrow> uuid option \<Rightarrow> db \<Rightarrow> media_model list" where
  "stats_rows clientID campaignID d = List.filter (\<lambda>r. mm_ClientID r = clientID \<and> mm_DeletedAt r = None \<and>
     (case campaignID of None \<Rightarrow> True | Some c \<Rightarrow> mm_CampaignID r = c)) (t_media d)"

definition created_in :: "gotime \<Rightarrow> gotime \<Rightarrow> media_model \<Rightarrow> bool" where
  "created_in from to r \<longleftrightarrow> from \<le> mm_CreatedAt r \<and> mm_CreatedAt r \<le> to"

definition verified_in :: "gotime \<Rightarrow> gotime \<Rightarrow> media_model \<Rightarrow> bool" where
  "verified_in from to r \<longleftrightarrow> mm_Status r = StatusAnalyzed \<and>
     (case mm_AnalyzedAt r of None \<Rightarrow> False | Some t \<Rightarrow> from \<le> t \<and> t \<le> to)"

text \<open>\<open>Format("2006-01")\<close> and \<open>Format("2006-01-02")\<close>, for the years 0 to 9999.\<close>

definition pad_digits :: "nat \<Rightarrow> int \<Rightarrow> string" where
  "pad_digits w n = (let ds = nat_digits (nat n) in replicate (w - length ds) (CHR ''0'') @ ds)"

definition FormatMonth :: "int \<Rightarrow> string" where
  "FormatMonth day = pad_digits 4 (year_of day) @ ''-'' @ pad_digits 2 (month_of day)"

definition FormatDate :: "int \<Rightarrow> string" where
  "FormatDate day = FormatMonth day @ ''-'' @ pad_digits 2 (mday_of day)"

record dashboard_kpis =
  dk_Month :: string
  dk_Verifications :: int
  dk_VerificationsChangePercent :: "rat option"
  dk_PlanIncluded :: "int option"
  dk_AuthenticityRatePercent :: rat
  dk_AuthenticityChangePoints :: "rat option"
  dk_ValidatedCount :: int
  dk_ToReviewCount :: int
  dk_ToReviewChangePercent :: "rat option"
  dk_AIGeneratedCount :: int
  dk_AIGeneratedSharePercent :: rat

record verification_counts =
  vn_Verifications :: int
  vn_Human :: int
  vn_AIGenerated :: int
  vn_Uncertain :: int

definition count_verifications :: "gotime \<Rightarrow> gotime \<Rightarrow> media_model list \<Rightarrow> verification_counts" where
  "count_verifications from to rows =
    (let n = (\<lambda>P. count_rows (\<lambda>r. verified_in from to r \<and> P r) rows) in
     \<lparr>vn_Verifications = n (\<lambda>r. True), vn_Human = n (has_label LabelHuman),
      vn_AIGenerated = n (has_label LabelAIGenerated), vn_Uncertain = n (has_label LabelUncertain)\<rparr>)"

text \<open>The verifications that the plan includes: 0 where a join finds no row.\<close>

definition plan_included :: "uuid \<Rightarrow> db \<Rightarrow> int" where
  "plan_included clientID d = (case client_get clientID d of None \<Rightarrow> 0 | Some c \<Rightarrow>
     case workspace_get (cl_WorkspaceID c) d of None \<Rightarrow> 0 | Some w \<Rightarrow>
     case w_SubscriptionID w of None \<Rightarrow> 0 | Some i \<Rightarrow>
     case subscription_get i d of None \<Rightarrow> 0 | Some s \<Rightarrow>
     case plan_get (s_PlanID s) d of None \<Rightarrow> 0 | Some p \<Rightarrow>
     case quota_get (p_QuotaID p) d of None \<Rightarrow> 0 | Some q \<Rightarrow> q_MaxVerificationsPerMonth q)"

definition kpis_of :: "string \<Rightarrow> verification_counts \<Rightarrow> verification_counts \<Rightarrow> int option \<Rightarrow> dashboard_kpis" where
  "kpis_of month this prev included =
    (let thisAuth = ratePercent (vn_Human this) (vn_Verifications this);
         prevAuth = ratePercent (vn_Human prev) (vn_Verifications prev) in
     \<lparr>dk_Month = month, dk_Verifications = vn_Verifications this,
      dk_VerificationsChangePercent = percentChange (vn_Verifications this) (vn_Verifications prev),
      dk_PlanIncluded = included, dk_AuthenticityRatePercent = thisAuth,
      dk_AuthenticityChangePoints = pointsChange thisAuth prevAuth (vn_Verifications prev),
      dk_ValidatedCount = vn_Human this, dk_ToReviewCount = vn_Uncertain this,
      dk_ToReviewChangePercent = percentChange (vn_Uncertain this) (vn_Uncertain prev),
      dk_AIGeneratedCount = vn_AIGenerated this,
      dk_AIGeneratedSharePercent = ratePercent (vn_AIGenerated this) (vn_Verifications this)\<rparr>)"

definition countDashboardKPIs :: "uuid \<Rightarrow> uuid option \<Rightarrow> gotime \<Rightarrow> gotime \<Rightarrow> dashboard_kpis app" where
  "countDashboardKPIs clientID campaignID from to =
    (let (prevStart, prevEnd) = previousStatsPeriod from to in
     bindC (poolRead (\<lambda>d. let rows = stats_rows clientID campaignID d in
       (count_verifications from to rows, count_verifications prevStart prevEnd rows))) (\<lambda>(this, prev).
     bindC (tryC (poolRead (plan_included clientID)) (\<lambda>_. returnC None) (\<lambda>n. returnC (Some n))) (\<lambda>included.
     returnC (kpis_of (FormatMonth (from div Day)) this prev included))))"

text \<open>The days with uploads, in order: a day is the number of days since the epoch.\<close>

definition countDailyControls :: "uuid \<Rightarrow> uuid option \<Rightarrow> gotime \<Rightarrow> gotime \<Rightarrow> db \<Rightarrow> (int \<times> campaign_counts) list" where
  "countDailyControls clientID campaignID from to d =
    (let rows = List.filter (created_in from to) (stats_rows clientID campaignID d) in
     concat (List.map (\<lambda>day. let today = List.filter (\<lambda>r. mm_CreatedAt r div Day = day) rows in
       if today = [] then [] else [(day, status_counts today)]) [from div Day..to div Day]))"

record media_stats =
  ms_Counts :: campaign_counts
  ms_From :: gotime
  ms_To :: gotime
  ms_Daily :: "(int \<times> campaign_counts) list"
  ms_KPIs :: dashboard_kpis

definition CountStatsByClientID :: "uuid \<Rightarrow> uuid option \<Rightarrow> gotime \<Rightarrow> gotime \<Rightarrow> media_stats app" where
  "CountStatsByClientID clientID campaignID from to =
    bindC (poolRead (\<lambda>d. status_counts (List.filter (created_in from to) (stats_rows clientID campaignID d)))) (\<lambda>counts.
    bindC (poolRead (countDailyControls clientID campaignID from to)) (\<lambda>daily.
    bindC (countDashboardKPIs clientID campaignID from to) (\<lambda>kpis.
    returnC \<lparr>ms_Counts = counts, ms_From = from, ms_To = to, ms_Daily = daily, ms_KPIs = kpis\<rparr>)))"

section \<open>Plans and invoices\<close>

text \<open>A plan with its quota; \<open>FindActive\<close> orders by price and then by age.\<close>

definition active_plans :: "db \<Rightarrow> plan list" where
  "active_plans d = sort_key (\<lambda>p. (p_Price p, p_CreatedAt p)) (List.filter p_IsActive (t_plans d))"

definition toPlanViewsWithQuota :: "plan list \<Rightarrow> (plan \<times> quota option) list app" where
  "toPlanViewsWithQuota plans = (if plans = [] then returnC [] else
     poolRead (\<lambda>d. List.map (\<lambda>p. (p, quota_get (p_QuotaID p) d)) plans))"

definition FindActive :: "(plan \<times> quota option) list app" where
  "FindActive = bindC (poolRead active_plans) toPlanViewsWithQuota"

definition ListActivePlans :: "(plan \<times> quota option) list app" where
  "ListActivePlans = mapErrC (failed_to ''list plans'') FindActive"

definition invoice_sort :: "(string \<Rightarrow> int) \<Rightarrow> string \<Rightarrow> invoice sort" where
  "invoice_sort coll by = (if by = ''total'' then Some \<circ> i_Total else if by = ''status'' then Some \<circ> coll \<circ> i_Status
     else if by = ''created_at'' then Some \<circ> i_CreatedAt else if by = ''amount_due'' then Some \<circ> i_AmountDue
     else if by = ''amount_paid'' then Some \<circ> i_AmountPaid else Some \<circ> i_StripeCreatedAt)"

definition invoice_rows :: "uuid \<Rightarrow> db \<Rightarrow> invoice list" where
  "invoice_rows workspaceID d = List.filter (\<lambda>i. i_WorkspaceID i = workspaceID) (t_invoices d)"

definition FindInvoicesByWorkspaceID :: "(string \<Rightarrow> int) \<Rightarrow> uuid \<Rightarrow> paginate_query \<Rightarrow> (invoice list \<times> int) app" where
  "FindInvoicesByWorkspaceID coll workspaceID q =
    (let q = q\<lparr>pq_OrderBy := (if pq_OrderBy q \<noteq> ''asc'' then ''desc'' else pq_OrderBy q)\<rparr> in
     poolRead (\<lambda>d. Paginate (invoice_sort coll (pq_SortBy q)) q (invoice_rows workspaceID d)))"

definition ListInvoices :: "(string \<Rightarrow> int) \<Rightarrow> uuid \<Rightarrow> paginate_query \<Rightarrow> (invoice list \<times> int) app" where
  "ListInvoices coll workspaceID q = mapErrC (failed_to ''list invoices'') (FindInvoicesByWorkspaceID coll workspaceID q)"

section \<open>Query handlers\<close>

definition GetClientByID :: "uuid \<Rightarrow> client app" where
  "GetClientByID i = bindC (mapErrC (failed_to ''get client'') (clientRead_FindByID i)) (\<lambda>view.
     case view of None \<Rightarrow> failC (Err ''client not found'') | Some c \<Rightarrow> returnC c)"

definition ListClientsByUser :: "(string \<Rightarrow> int) \<Rightarrow> uuid \<Rightarrow> paginate_query \<Rightarrow> (client list \<times> int) app" where
  "ListClientsByUser coll userID q = (if userID = uuid_Nil then failC (Err ''userId is required'') else
     mapErrC (failed_to ''list clients'') (clientRead_FindPageByUserID coll userID q))"

definition GetCampaignByID :: "uuid \<Rightarrow> campaign_view app" where
  "GetCampaignByID i = bindC (mapErrC (failed_to ''get campaign'') (campaignRead_FindByID i)) (\<lambda>view.
     case view of None \<Rightarrow> failC (Err ''campaign not found'') | Some c \<Rightarrow> returnC c)"

definition ListCampaignsByClient :: "(string \<Rightarrow> int) \<Rightarrow> uuid \<Rightarrow> paginate_query \<Rightarrow> (campaign_view list \<times> int) app" where
  "ListCampaignsByClient coll clientID q = (if clientID = uuid_Nil then failC (Err ''clientId is required'') else
     mapErrC (failed_to ''list campaigns'') (campaignRead_FindPageByClientID coll clientID q))"

definition GetUserByID :: "uuid \<Rightarrow> user app" where
  "GetUserByID i = bindC (mapErrC (failed_to ''get user'') (userRead_FindByID i)) (\<lambda>view.
     case view of None \<Rightarrow> failC (Err ''user not found'') | Some u \<Rightarrow> returnC u)"

record media_detail =
  md_Media :: media
  md_Contents :: "content list"
  md_Campaign :: "campaign_view option"
  md_Analysis :: "(uuid \<times> result list) list"

definition GetMediaByID :: "uuid \<Rightarrow> uuid \<Rightarrow> media_detail app" where
  "GetMediaByID i clientID = (if i = uuid_Nil then failC (Err ''media not found'') else
    bindC (mediaRead_FindByID i) (\<lambda>view. case view of None \<Rightarrow> failC (Err ''media not found'') | Some m \<Rightarrow>
    if clientID \<noteq> uuid_Nil \<and> m_ClientID m \<noteq> clientID then failC (Err ''media not found'') else
    bindC (FindContentsByMediaID (m_ID m)) (\<lambda>contents.
    bindC (campaignRead_FindByID (m_CampaignID m)) (\<lambda>campaign.
    bindC (if contents = [] then returnC [] else
      dbRead (\<lambda>d. List.map (\<lambda>c. (c_ID c, results_of (c_ID c) d)) contents)) (\<lambda>analysis.
    returnC \<lparr>md_Media = m, md_Contents = contents, md_Campaign = campaign, md_Analysis = analysis\<rparr>)))))"

text \<open>Every campaign of a filter exists and belongs to the client.\<close>

definition own_campaigns :: "uuid \<Rightarrow> uuid list \<Rightarrow> campaign_view list \<Rightarrow> bool" where
  "own_campaigns clientID ids campaigns \<longleftrightarrow> list_all (\<lambda>i. case find (\<lambda>v. cp_ID (fst v) = i) campaigns of
     None \<Rightarrow> False | Some v \<Rightarrow> cp_ClientID (fst v) = clientID) ids"

definition check_campaigns :: "uuid \<Rightarrow> uuid list \<Rightarrow> unit app" where
  "check_campaigns clientID ids = (if ids = [] then returnC () else
    bindC (mapErrC (Wrapped ''failed to get campaigns'') (campaignRead_FindByIDs ids)) (\<lambda>campaigns.
    if own_campaigns clientID ids campaigns then returnC () else failC (Err ''campaign not found'')))"

definition period_reversed :: "gotime option \<Rightarrow> gotime option \<Rightarrow> bool" where
  "period_reversed from to \<longleftrightarrow> (case (from, to) of (Some a, Some b) \<Rightarrow> b < a | _ \<Rightarrow> False)"

definition ListMediaByClient :: "(string \<Rightarrow> int) \<Rightarrow> uuid \<Rightarrow> media_filter \<Rightarrow> paginate_query
    \<Rightarrow> (media list \<times> int \<times> campaign_view list) app" where
  "ListMediaByClient coll clientID f q = (if clientID = uuid_Nil then failC (Err ''clientId is required'') else
    thenC (check_campaigns clientID (mf_CampaignIDs f))
    (if period_reversed (mf_From f) (mf_To f) then failC (Err ''from must be before to'') else
    bindC (mapErrC (Wrapped ''failed to list media'') (mediaRead_FindPageByClientID coll clientID f q)) (\<lambda>(views, total_count).
    bindC (mapErrC (Wrapped ''failed to get campaigns'') (campaignRead_FindByIDs (remdups (List.map m_CampaignID views)))) (\<lambda>campaigns.
    returnC (views, total_count, campaigns)))))"

definition GetMediaStats :: "uuid \<Rightarrow> uuid option \<Rightarrow> gotime \<Rightarrow> gotime \<Rightarrow> media_stats app" where
  "GetMediaStats clientID campaignID from to =
    (if clientID = uuid_Nil then failC (Err ''clientId is required'')
     else if IsZero from \<or> IsZero to then failC (Err ''from and to are required'')
     else if to < from then failC (Err ''from must be before to'')
     else mapErrC (Wrapped ''failed to get media stats'') (CountStatsByClientID clientID campaignID from to))"

definition ListActivitiesByClient :: "uuid \<Rightarrow> uuid list \<Rightarrow> gotime option \<Rightarrow> gotime option \<Rightarrow> paginate_query
    \<Rightarrow> (activity list \<times> int) app" where
  "ListActivitiesByClient clientID campaignIDs from to q = (if clientID = uuid_Nil then failC (Err ''clientId is required'')
     else if period_reversed from to then failC (Err ''from must be before to'')
     else thenC (check_campaigns clientID campaignIDs)
       (mapErrC (failed_to ''list activity'') (activityRead_FindPageByClientID clientID campaignIDs from to q)))"

section \<open>What the pages hold\<close>

lemma pages_concat: "concat (List.map (\<lambda>p. take l (drop (p * l) xs)) [0..<n]) = take (n * l) xs"
proof (induction n)
  case 0
  then show ?case by simp
next
  case (Suc n)
  then show ?case using take_add [of "n * l" l xs] by (simp add: add.commute)
qed

lemma order_by_mset: "mset (order_by dir key rows) = mset rows"
  by (simp add: order_by_def)

lemma order_by_set [simp]: "set (order_by dir key rows) = set rows" "length (order_by dir key rows) = length rows"
  by (simp_all add: order_by_def)

lemma Paginate_rows: "set (fst (Paginate key q rows)) \<subseteq> set rows"
  unfolding Paginate_def fst_conv using order_by_set(1) set_take_subset set_drop_subset by (metis subset_trans)

lemma Paginate_length: "int (length (fst (Paginate key q rows))) \<le> max 0 (pq_Limit q)"
  by (simp add: Paginate_def)

lemma Normalize_bounds: "1 \<le> pq_Page (Normalize q)" "1 \<le> pq_Limit (Normalize q)" "pq_Limit (Normalize q) \<le> 200"
  "pq_OrderBy (Normalize q) \<in> {''asc'', ''desc''}" "Normalize (Normalize q) = Normalize q"
  by (simp_all add: Normalize_def Let_def DefaultLimit_def MaxLimit_def)

lemma TotalPages_enough:
  assumes "1 \<le> pq_Limit q" and "0 \<le> n"
  shows "n \<le> TotalPages n q * pq_Limit q" "(TotalPages n q - 1) * pq_Limit q < n"
proof -
  have c: "of_int n / of_int (pq_Limit q) \<le> (of_int (TotalPages n q) :: rat)"
    "of_int (TotalPages n q) - 1 < (of_int n / of_int (pq_Limit q) :: rat)"
    unfolding TotalPages_def by linarith+
  have "of_int n \<le> (of_int (TotalPages n q * pq_Limit q) :: rat)"
    using c(1) assms(1) by (simp add: pos_divide_le_eq)
  then show "n \<le> TotalPages n q * pq_Limit q" by (simp only: of_int_le_iff)
  have "of_int ((TotalPages n q - 1) * pq_Limit q) < (of_int n :: rat)"
    using c(2) assms(1) by (simp add: pos_less_divide_eq)
  then show "(TotalPages n q - 1) * pq_Limit q < n" by (simp only: of_int_less_iff)
qed

text \<open>The pages of a query, one after the other, are the whole sorted result.\<close>

lemma Paginate_partition:
  assumes "1 \<le> pq_Limit q"
  shows "concat (List.map (\<lambda>p. fst (Paginate key (q\<lparr>pq_Page := int p + 1\<rparr>) rows))
      [0..<nat (TotalPages (int (length rows)) q)]) = order_by (pq_OrderBy q) key rows"
proof -
  let ?l = "nat (pq_Limit q)" and ?n = "nat (TotalPages (int (length rows)) q)" and ?xs = "order_by (pq_OrderBy q) key rows"
  have pos: "0 \<le> TotalPages (int (length rows)) q"
  proof -
    have "(0 :: rat) \<le> of_int (int (length rows)) / of_int (pq_Limit q)" using assms by (intro divide_nonneg_nonneg) auto
    then show ?thesis unfolding TotalPages_def by linarith
  qed
  have "int (length rows) \<le> int (?n * ?l)"
    using TotalPages_enough(1) [OF assms, of "int (length rows)"] pos assms by simp
  then have "length rows \<le> ?n * ?l" by (simp only: of_nat_le_iff)
  then have "take (?n * ?l) ?xs = ?xs" by simp
  moreover have "fst (Paginate key (q\<lparr>pq_Page := int p + 1\<rparr>) rows) = take ?l (drop (p * ?l) ?xs)" for p
    using assms by (simp add: Paginate_def Offset_def nat_mult_distrib)
  ultimately show ?thesis using pages_concat [of ?l ?xs ?n] by simp
qed

text \<open>Rows of another client never show.\<close>

lemma rows_of_client:
  "r \<in> set (media_rows i f s d) \<Longrightarrow> mm_ClientID r = i \<and> mm_DeletedAt r = None"
  "c \<in> set (campaign_rows i s d) \<Longrightarrow> cpm_ClientID c = i \<and> cpm_DeletedAt c = None"
  "a \<in> set (activity_rows i cs from to s d) \<Longrightarrow> a_ClientID a = i"
  by (simp_all add: media_rows_def campaign_rows_def activity_rows_def)

lemma client_rows_member: "r \<in> set (client_rows u s d) \<Longrightarrow> r \<in> set (t_clients d) \<and> u \<in> set (members_of (clm_ID r) d)"
  by (auto simp: client_rows_def members_of_def)

section \<open>The statistics\<close>

lemma status_counts_total:
  "cc_PendingUpload (status_counts rows) + cc_Uploaded (status_counts rows) + cc_Analyzing (status_counts rows) +
   cc_Analyzed (status_counts rows) + cc_Failed (status_counts rows) = int (length rows)"
proof (induction rows)
  case Nil
  then show ?case by (simp add: status_counts_def count_rows_def)
next
  case (Cons r rows)
  then show ?case by (cases "mm_Status r") (simp_all add: status_counts_def count_rows_def)
qed

lemma math_Round_mono: "x \<le> y \<Longrightarrow> math_Round x \<le> math_Round y"
  unfolding math_Round_def by (auto; linarith)

lemma math_Round_int: "math_Round (of_int n) = n"
  unfolding math_Round_def by (auto; linarith)

lemma ratePercent_bounds:
  assumes "0 \<le> part" and "part \<le> n"
  shows "0 \<le> ratePercent part n \<and> ratePercent part n \<le> 100"
proof (cases "n = 0")
  case False
  then have x: "0 \<le> (of_int part / of_int n * 100 :: rat)" "(of_int part / of_int n * 100 :: rat) \<le> 100"
    using assms by (simp_all add: divide_le_eq)
  have "math_Round 0 \<le> math_Round (of_int part / of_int n * 100 * 10 :: rat)"
    "math_Round (of_int part / of_int n * 100 * 10 :: rat) \<le> math_Round (of_int 1000)"
    using x by (intro math_Round_mono; simp)+
  then have "0 \<le> math_Round (of_int part / of_int n * 100 * 10 :: rat)" "math_Round (of_int part / of_int n * 100 * 10 :: rat) \<le> 1000"
    unfolding math_Round_int using math_Round_int [of 0] by simp_all
  then show ?thesis using False by (simp add: ratePercent_def round1_def)
qed (simp add: ratePercent_def)

text \<open>The window before: it ends where the period starts, and is as long, or is the month before a month.\<close>

lemma previousStatsPeriod_window:
  assumes "previousStatsPeriod from to = (a, b)"
  shows "b = from - 1 \<and> (b - a = to - from \<or> from = first_of_month from \<and> a = AddDate from 0 (- 1) 0)"
  using assms by (auto simp: previousStatsPeriod_def Let_def split: if_splits)

end
