(* ===== verification/QueryParams.thy ===== *)
theory QueryParams
  imports Pages
begin

text \<open>
  The parameters of the list endpoints, \<open>src/internal/interfaces/http/handler/media_helpers.go\<close>: filters
  that are trimmed, checked and made distinct, and periods given as dates or RFC 3339 instants. The
  parser of instants is the part of \<open>time.Parse\<close> for the two layouts the code uses: it takes an hour
  of one digit, a fraction of a second after a dot or a comma, and a zone of up to 24:60.
\<close>

section \<open>Filters\<close>

definition trimQueryValues :: "string list \<Rightarrow> string list" where
  "trimQueryValues values = List.filter (\<lambda>v. v \<noteq> []) (List.map TrimSpace values)"

text \<open>The first occurrence of every value, unless a value is refused.\<close>

fun distinct_values :: "(string \<Rightarrow> 'a option) \<Rightarrow> (string \<Rightarrow> go_error) \<Rightarrow> 'a list \<Rightarrow> string list \<Rightarrow> 'a list res" where
  "distinct_values parse refuse acc [] = Inr acc"
| "distinct_values parse refuse acc (v # vs) = (case parse v of
     None \<Rightarrow> Inl (refuse v)
   | Some x \<Rightarrow> distinct_values parse refuse (if x \<in> set acc then acc else acc @ [x]) vs)"

definition quote_text :: "string \<Rightarrow> string" where
  "quote_text v = [CHR 0x22] @ v @ [CHR 0x22]"

definition media_statuses :: "string list" where
  "media_statuses = List.map media_status_string
     [StatusPendingUpload, StatusUploaded, StatusProcessing, StatusAnalyzed, StatusFailed]"

definition parseMediaStatusFilters :: "string list \<Rightarrow> string list res" where
  "parseMediaStatusFilters values = distinct_values (\<lambda>v. if v \<in> set media_statuses then Some v else None)
     (\<lambda>v. Err (''unsupported status '' @ quote_text v)) [] (trimQueryValues values)"

definition verdict_labels :: "string list" where
  "verdict_labels = List.map label_string [LabelHuman, LabelAIGenerated, LabelUncertain]"

definition parseMediaVerdictFilters :: "string list \<Rightarrow> string list res" where
  "parseMediaVerdictFilters values = distinct_values (\<lambda>v. if v \<in> set verdict_labels then Some v else None)
     (\<lambda>v. Err (''unsupported verdict '' @ quote_text v)) [] (trimQueryValues values)"

definition parseUUIDFilters :: "(string \<Rightarrow> uuid option) \<Rightarrow> string list \<Rightarrow> uuid list res" where
  "parseUUIDFilters parse values = distinct_values parse
     (\<lambda>v. Err (''invalid uuid '' @ quote_text v)) [] (trimQueryValues values)"

section \<open>Instants\<close>

type_synonym 'a parser = "string \<Rightarrow> ('a \<times> string) option"

definition digit_of :: "char \<Rightarrow> int option" where
  "digit_of c = (let n = (of_char c :: int) in if 48 \<le> n \<and> n \<le> 57 then Some (n - 48) else None)"

definition is_digit :: "char \<Rightarrow> bool" where
  "is_digit c \<longleftrightarrow> digit_of c \<noteq> None"

definition atoi_digits :: "string \<Rightarrow> int" where
  "atoi_digits ds = fold (\<lambda>c n. 10 * n + (case digit_of c of None \<Rightarrow> 0 | Some k \<Rightarrow> k)) ds 0"

definition skip_char :: "char \<Rightarrow> string \<Rightarrow> string option" where
  "skip_char c s = (case s of [] \<Rightarrow> None | x # xs \<Rightarrow> if x = c then Some xs else None)"

text \<open>\<open>getnum\<close>: one or two digits, or exactly two.\<close>

definition getnum :: "bool \<Rightarrow> int parser" where
  "getnum fixed s = (case s of [] \<Rightarrow> None | a # t \<Rightarrow>
     if \<not> is_digit a then None else
     case t of [] \<Rightarrow> if fixed then None else Some (atoi_digits [a], t)
     | b # u \<Rightarrow> if is_digit b then Some (atoi_digits [a, b], u)
                else if fixed then None else Some (atoi_digits [a], t))"

definition ranged :: "int \<Rightarrow> int \<Rightarrow> int parser \<Rightarrow> int parser" where
  "ranged lo hi p s = (case p s of None \<Rightarrow> None | Some (n, t) \<Rightarrow> if lo \<le> n \<and> n \<le> hi then Some (n, t) else None)"

definition parse_year :: "int parser" where
  "parse_year s = (if length s < 4 \<or> \<not> list_all is_digit (take 4 s) then None
     else Some (atoi_digits (take 4 s), drop 4 s))"

text \<open>\<open>2006-01-02\<close>: the number of the day, and what follows it.\<close>

definition parse_ymd :: "int parser" where
  "parse_ymd s =
    Option.bind (parse_year s) (\<lambda>(y, s). Option.bind (skip_char (CHR ''-'') s) (\<lambda>s.
    Option.bind (ranged 1 12 (getnum True) s) (\<lambda>(m, s). Option.bind (skip_char (CHR ''-'') s) (\<lambda>s.
    Option.bind (getnum True s) (\<lambda>(d, s).
    if 1 \<le> d \<and> d \<le> days_in_month y m then Some (date_days y m d, s) else None)))))"

text \<open>A fraction of a second has any number of digits; those beyond the ninth are dropped.\<close>

definition parse_fraction :: "int parser" where
  "parse_fraction s = Some (case s of a # b # t \<Rightarrow>
      if (a = CHR ''.'' \<or> a = CHR '','') \<and> is_digit b
      then (let ds = takeWhile is_digit (b # t); used = take 9 ds in
        (atoi_digits used * 10 ^ (9 - length used), dropWhile is_digit (b # t)))
      else (0, s)
    | _ \<Rightarrow> (0, s))"

text \<open>\<open>Z07:00\<close>: the offset from UTC in seconds.\<close>

definition parse_zone :: "int parser" where
  "parse_zone s = (case s of [] \<Rightarrow> None | c # t \<Rightarrow>
     if c = CHR ''Z'' then Some (0, t) else if c \<noteq> CHR ''+'' \<and> c \<noteq> CHR ''-'' then None else
     Option.bind (ranged 0 24 (getnum True) t) (\<lambda>(h, u). Option.bind (skip_char (CHR '':'') u) (\<lambda>u.
     Option.bind (ranged 0 60 (getnum True) u) (\<lambda>(m, u).
     Some ((if c = CHR ''-'' then -1 else 1) * (h * 3600 + m * 60), u)))))"

definition parse_rfc3339 :: "string \<Rightarrow> gotime option" where
  "parse_rfc3339 s =
    Option.bind (parse_ymd s) (\<lambda>(day, s). Option.bind (skip_char (CHR ''T'') s) (\<lambda>s.
    Option.bind (ranged 0 23 (getnum False) s) (\<lambda>(hh, s). Option.bind (skip_char (CHR '':'') s) (\<lambda>s.
    Option.bind (ranged 0 59 (getnum True) s) (\<lambda>(mm, s). Option.bind (skip_char (CHR '':'') s) (\<lambda>s.
    Option.bind (ranged 0 59 (getnum True) s) (\<lambda>(ss, s).
    Option.bind (parse_fraction s) (\<lambda>(ns, s).
    Option.bind (parse_zone s) (\<lambda>(offset, s).
    if s \<noteq> [] then None
    else Some (day * Day + hh * Hour + mm * Minute + (ss - offset) * Second + ns))))))))))"

definition parse_date :: "string \<Rightarrow> gotime option" where
  "parse_date s = Option.bind (parse_ymd s) (\<lambda>(day, s). if s \<noteq> [] then None else Some (day * Day))"

text \<open>A date stands for its first instant, or for its last one at the end of a period.\<close>

definition parseStatsQueryTime :: "string \<Rightarrow> bool \<Rightarrow> gotime res" where
  "parseStatsQueryTime raw isEnd = (case parse_rfc3339 raw of
      Some t \<Rightarrow> Inr (UTC t)
    | None \<Rightarrow> (case parse_date raw of
        Some day \<Rightarrow> Inr (if isEnd then AddDate day 0 0 1 - 1 else day)
      | None \<Rightarrow> Inl (Err ''use YYYY-MM-DD or RFC3339'')))"

section \<open>Periods\<close>

definition parse_bound :: "string \<Rightarrow> string \<Rightarrow> bool \<Rightarrow> gotime res" where
  "parse_bound label raw isEnd = (case parseStatsQueryTime raw isEnd of
     Inl e \<Rightarrow> Inl (Wrapped label e) | Inr t \<Rightarrow> Inr t)"

definition ordered_period :: "gotime option \<Rightarrow> gotime \<Rightarrow> (gotime option \<times> gotime option) res" where
  "ordered_period from to = (case from of
      Some a \<Rightarrow> if to < a then Inl (Err ''from must be before to'') else Inr (from, Some to)
    | None \<Rightarrow> Inr (from, Some to))"

text \<open>The optional period of the lists: no bound, or an end that is now unless it is given.\<close>

definition parseOptionalMediaPeriod :: "gotime \<Rightarrow> string \<Rightarrow> string \<Rightarrow> (gotime option \<times> gotime option) res" where
  "parseOptionalMediaPeriod now rawFrom rawTo =
    (let rawFrom = TrimSpace rawFrom; rawTo = TrimSpace rawTo in
     if rawFrom = [] \<and> rawTo = [] then Inr (None, None) else
     case (if rawFrom = [] then Inr None else map_sum id Some (parse_bound ''invalid from'' rawFrom False)) of
       Inl e \<Rightarrow> Inl e
     | Inr from \<Rightarrow> (case (if rawTo = [] then Inr now else parse_bound ''invalid to'' rawTo True) of
         Inl e \<Rightarrow> Inl e | Inr to \<Rightarrow> ordered_period from to))"

text \<open>The period of the dashboard: the current month when no bound is given.\<close>

definition parseMediaStatsPeriod :: "gotime \<Rightarrow> string \<Rightarrow> string \<Rightarrow> (gotime \<times> gotime) res" where
  "parseMediaStatsPeriod now rawFrom rawTo =
    (let rawFrom = TrimSpace rawFrom; rawTo = TrimSpace rawTo in
     if rawFrom = [] \<and> rawTo \<noteq> [] then Inl (Err ''from is required when to is provided'')
     else if rawFrom = [] \<and> rawTo = []
     then (let from = first_of_month now in Inr (from, AddDate from 0 1 0 - 1)) else
     case parse_bound ''invalid from'' rawFrom False of
       Inl e \<Rightarrow> Inl e
     | Inr from \<Rightarrow> (case (if rawTo = [] then Inr now else parse_bound ''invalid to'' rawTo True) of
         Inl e \<Rightarrow> Inl e
       | Inr to \<Rightarrow> if to < from then Inl (Err ''from must be before to'') else Inr (from, to)))"

end
