(* ===== verification/CampaignCommands.thy ===== *)
theory CampaignCommands
  imports MediaCommands
begin

text \<open>
  \<open>src/internal/application/command/campaign\<close>: the commands of a campaign and of its background image.
  The background of a campaign is uploaded by the browser to a key that the campaign waits for, and
  a notification of the object store hands that key to \<open>ProcessBackgroundUpload\<close>.
\<close>

section \<open>Campaigns\<close>

definition CreateCampaign :: "bool \<Rightarrow> string \<Rightarrow> uuid \<Rightarrow> gotime option \<Rightarrow> gotime option \<Rightarrow> campaign app" where
  "CreateCampaign quota name clientID startAt endAt =
    (if name = [] then failC (Err ''name is required'')
     else if clientID = uuid_Nil then failC (Err ''clientId is required'') else
     thenC (if quota then AssertCampaignCreate clientID else returnC ())
     (bindC nowC (\<lambda>now. bindC uuidC (\<lambda>nid. bindC uuidC (\<lambda>eid.
      bindC (liftC (NewCampaign now nid eid name clientID startAt endAt)) (\<lambda>campaign.
      thenC (mapErrC (\<lambda>_. Err ''failed to create campaign'') (withTx (
        thenC (campaign_Save campaign) (StoreEvents (List.map EvCampaign (cp_events campaign))))))
      (returnC (snd (campaign_PullEvents campaign)))))))))"

definition UpdateCampaign :: "uuid \<Rightarrow> string \<Rightarrow> gotime option \<Rightarrow> gotime option \<Rightarrow> unit app" where
  "UpdateCampaign i name startAt endAt =
    (if name = [] then failC (Err ''name is required'') else withTx (
     bindC (mapErrC (failed_to ''get campaign'') (campaign_GetByID i)) (\<lambda>campaign.
     case campaign of None \<Rightarrow> failC (Err ''campaign not found'') | Some campaign \<Rightarrow>
     bindC nowC (\<lambda>now. bindC uuidC (\<lambda>eid.
     bindC (liftC (campaign_ApplyUpdate now eid name startAt endAt campaign)) (\<lambda>campaign.
     thenC (mapErrC (failed_to ''update campaign'') (campaign_Update campaign))
     (StoreEvents (List.map EvCampaign (cp_events campaign)))))))))"

definition contentObjectRefs :: "uuid \<Rightarrow> (string \<times> string) list app" where
  "contentObjectRefs mediaID =
    bindC (mapErrC (failed_to ''list media contents'') (ListByMediaID mediaID)) (\<lambda>contents.
    returnC (List.map (\<lambda>c. (c_ObjectKey c, case c_ThumbnailKey c of None \<Rightarrow> [] | Some k \<Rightarrow> k)) contents))"

definition delete_media :: "media \<Rightarrow> domain_event list \<Rightarrow> domain_event list app" where
  "delete_media media events =
    bindC (contentObjectRefs (m_ID media)) (\<lambda>refs.
    bindC (askC en_uuid_string) (\<lambda>us. bindC nowC (\<lambda>now. bindC uuidC (\<lambda>eid.
    let media = SoftDelete us now eid refs True media in
    thenC (mapErrC (failed_to ''delete campaign medias'') (media_Update media))
    (returnC (events @ List.map EvMedia (m_events media)))))))"

definition DeleteCampaign :: "uuid \<Rightarrow> unit app" where
  "DeleteCampaign i = withTx (
    bindC (mapErrC (failed_to ''get campaign'') (campaign_GetByIDForUpdate i)) (\<lambda>campaign.
    case campaign of None \<Rightarrow> failC (Err ''campaign not found'') | Some campaign \<Rightarrow>
    bindC nowC (\<lambda>now. bindC uuidC (\<lambda>eid.
    bindC (liftC (campaign_SoftDelete now eid campaign)) (\<lambda>campaign.
    thenC (mapErrC (failed_to ''delete campaign'') (campaign_Update campaign))
    (bindC (mapErrC (failed_to ''list campaign medias'') (ListActiveByCampaignID (cp_ID campaign))) (\<lambda>medias.
    bindC (foldC delete_media medias (List.map EvCampaign (cp_events campaign))) StoreEvents)))))))"

section \<open>The background image\<close>

definition ClearBackground :: "uuid \<Rightarrow> uuid \<Rightarrow> unit app" where
  "ClearBackground campaignID clientID =
    bindC (withTx (
      bindC (mapErrC (failed_to ''get campaign'') (campaign_GetByID campaignID)) (\<lambda>campaign.
      case campaign of None \<Rightarrow> failC (Err ''campaign not found'') | Some campaign \<Rightarrow>
      if cp_ClientID campaign \<noteq> clientID then failC (Err ''campaign not found'') else
      let keys = (cp_BackgroundPendingKey campaign, cp_BackgroundThumbnailKey campaign) in
      bindC nowC (\<lambda>now. bindC uuidC (\<lambda>eid.
      let campaign = campaign_ClearBackground now eid campaign in
      thenC (mapErrC (failed_to ''update campaign'') (campaign_Update campaign))
      (thenC (StoreEvents (List.map EvCampaign (cp_events campaign))) (returnC keys)))))))
    (\<lambda>(pendingKey, thumbnailKey).
      attemptC (if pendingKey \<noteq> [] then storage_Delete pendingKey else returnC ())
      (attemptC (if thumbnailKey \<noteq> [] then storage_DeleteThumbnail thumbnailKey else returnC ())
      (returnC ())))"

definition PresignBackground :: "uuid \<Rightarrow> uuid \<Rightarrow> string \<Rightarrow> string \<Rightarrow> string app" where
  "PresignBackground campaignID clientID filename contentType =
    (let filename = filepath_Base (TrimSpace filename) in
     thenC (liftC (ValidateBackgroundFilename filename))
     (bindC (askC en_uuid_string) (\<lambda>us. bindC uuidC (\<lambda>nid.
     let pendingKey = NewBackgroundObjectKey us nid clientID campaignID filename;
         contentType = TrimSpace contentType in
     bindC (withTx (
       bindC (mapErrC (failed_to ''get campaign'') (campaign_GetByID campaignID)) (\<lambda>campaign.
       case campaign of None \<Rightarrow> failC (Err ''campaign not found'') | Some campaign \<Rightarrow>
       if cp_ClientID campaign \<noteq> clientID then failC (Err ''campaign not found'') else
       let previous = cp_BackgroundPendingKey campaign in
       bindC nowC (\<lambda>now. bindC uuidC (\<lambda>eid.
       let campaign = StartBackgroundUpload now eid pendingKey filename contentType campaign in
       thenC (mapErrC (failed_to ''update campaign'') (campaign_Update campaign))
       (thenC (StoreEvents (List.map EvCampaign (cp_events campaign))) (returnC previous)))))))
     (\<lambda>previous.
       attemptC (if previous \<noteq> [] \<and> previous \<noteq> pendingKey then storage_Delete previous else returnC ())
       (mapErrC (failed_to ''generate upload url'') (PresignedPutURL pendingKey)))))))"

definition background_fail :: "campaign \<Rightarrow> string \<Rightarrow> go_error \<Rightarrow> unit app" where
  "background_fail campaign objectKey cause = attemptC (storage_Delete objectKey)
    (thenC (withTx (
      bindC (campaign_GetByID (cp_ID campaign)) (\<lambda>fresh. case fresh of None \<Rightarrow> returnC () | Some fresh \<Rightarrow>
      if cp_BackgroundPendingKey fresh \<noteq> [] \<and> cp_BackgroundPendingKey fresh \<noteq> objectKey then returnC () else
      bindC nowC (\<lambda>now. bindC uuidC (\<lambda>eid.
      let fresh = MarkBackgroundFailed now eid fresh in
      thenC (campaign_Update fresh) (StoreEvents (List.map EvCampaign (cp_events fresh))))))))
    (failC cause))"

definition background_ready :: "campaign \<Rightarrow> string \<Rightarrow> string \<Rightarrow> string \<Rightarrow> unit app" where
  "background_ready campaign objectKey thumbKey contentType = withTx (
    bindC (mapErrC (failed_to ''get campaign'') (campaign_GetByID (cp_ID campaign))) (\<lambda>fresh.
    case fresh of None \<Rightarrow> failC (Err ''campaign not found'') | Some fresh \<Rightarrow>
    if cp_BackgroundPendingKey fresh \<noteq> objectKey then returnC () else
    bindC nowC (\<lambda>now. bindC uuidC (\<lambda>eid.
    let fresh = ApplyBackgroundReady now eid thumbKey contentType fresh in
    thenC (mapErrC (failed_to ''update campaign'') (campaign_Update fresh))
    (StoreEvents (List.map EvCampaign (cp_events fresh)))))))"

definition background_content_type :: "campaign \<Rightarrow> string \<Rightarrow> string \<Rightarrow> string" where
  "background_content_type campaign objectKey given =
    (let contentType = TrimSpace given;
         contentType = (if contentType = [] then cp_BackgroundContentType campaign else contentType)
     in if contentType = [] then ''image/'' @ TrimPrefix (filepath_Ext objectKey) ''.'' else contentType)"

text \<open>The size is checked as announced and as read: \<open>LimitReader\<close> reads one byte more than allowed.\<close>

definition ProcessBackgroundUpload :: "string \<Rightarrow> string \<Rightarrow> int \<Rightarrow> unit app" where
  "ProcessBackgroundUpload key given size' =
    (let objectKey = TrimSpace key in
     if objectKey = [] \<or> IsThumbnailObjectKey objectKey then returnC () else
     if Contains objectKey ''/contents/'' \<or> Contains objectKey ''/media/'' then returnC () else
     bindC (mapErrC (failed_to ''get campaign'') (GetByBackgroundPendingKey objectKey)) (\<lambda>campaign.
     case campaign of None \<Rightarrow> returnC () | Some campaign \<Rightarrow>
     if MaxBackgroundBytes < size' then background_fail campaign objectKey (Err ''file too large'') else
     tryC (storage_Get objectKey) (background_fail campaign objectKey) (\<lambda>raw.
     let raw = take (nat (MaxBackgroundBytes + 1)) raw in
     if MaxBackgroundBytes < int (length raw) then background_fail campaign objectKey (Err ''file too large'') else
     tryC (GenerateJPEG raw ThumbnailMaxWidth) (background_fail campaign objectKey) (\<lambda>thumbBytes.
     bindC (askC en_uuid_string) (\<lambda>us.
     let thumbKey = NewBackgroundThumbnailKey us (cp_ClientID campaign) (cp_ID campaign) in
     tryC (storage_PutThumbnail thumbKey thumbBytes) (background_fail campaign objectKey) (\<lambda>_.
     attemptC (storage_Delete objectKey)
     (background_ready campaign objectKey thumbKey (background_content_type campaign objectKey given))))))))"

section \<open>Uploads that have arrived\<close>

text \<open>\<open>mediaupload/object_created_dispatcher.go\<close>: thumbnails and frames are written by the program itself.\<close>

definition ObjectCreated :: "bool \<Rightarrow> string \<Rightarrow> string \<Rightarrow> int \<Rightarrow> unit app" where
  "ObjectCreated quota objectKey contentType size' =
    (let key = TrimSpace objectKey in
     if key = [] then returnC ()
     else if IsThumbnailObjectKey key \<or> IsFrameObjectKey key then returnC ()
     else if IsMediaObjectKey key then ProcessUpload quota key contentType size'
     else ProcessBackgroundUpload key contentType size')"

end
