(* ===== verification/AccountCommands.thy ===== *)
theory AccountCommands
  imports CampaignCommands
begin

text \<open>
  \<open>src/internal/application/command/client\<close> and \<open>user\<close>: a new user gets a workspace on the free plan,
  a personal client of which he is the member, and its default campaign; members come and go; a user
  works in one of his clients.
\<close>

section \<open>Clients\<close>

definition new_client :: "string \<Rightarrow> uuid \<Rightarrow> uuid \<Rightarrow> client app" where
  "new_client name workspaceID creator =
    bindC nowC (\<lambda>now. bindC uuidC (\<lambda>nid. bindC uuidC (\<lambda>eid.
    bindC nowC (\<lambda>now'. bindC uuidC (\<lambda>eid'.
    returnC (snd (AddMember now' eid' creator (NewClient now nid eid name workspaceID creator))))))))"

definition default_campaign :: "uuid \<Rightarrow> campaign app" where
  "default_campaign clientID = bindC nowC (\<lambda>now. bindC uuidC (\<lambda>nid. bindC uuidC (\<lambda>eid.
     returnC (NewDefaultCampaign now nid eid clientID))))"

text \<open>The errors of the transaction that the caller sees as they are.\<close>

definition create_client_error :: "go_error \<Rightarrow> go_error" where
  "create_client_error err =
    (if Error err \<in> {''creator user not found'', ''failed to get creator user'', ''failed to set current client'',
        ''workspace not found'', ''failed to get workspace''}
     then err else Err ''failed to create client'')"

definition CreateClient :: "string \<Rightarrow> uuid \<Rightarrow> client app" where
  "CreateClient name creator =
    (if name = [] then failC (Err ''name is required'')
     else if creator = uuid_Nil then failC (Err ''creator user is required'') else
     mapErrC create_client_error (withTx (
       bindC (mapErrC (failed_to ''get workspace'') (workspace_GetByOwnerUserID creator)) (\<lambda>workspace.
       case workspace of None \<Rightarrow> failC (Err ''workspace not found'') | Some workspace \<Rightarrow>
       bindC (new_client name (w_ID workspace) creator) (\<lambda>client.
       thenC (client_Save client)
       (bindC (default_campaign (cl_ID client)) (\<lambda>defaultCampaign.
       thenC (campaign_Save defaultCampaign)
       (bindC (mapErrC (failed_to ''get creator user'') (user_GetByID creator)) (\<lambda>user.
       case user of None \<Rightarrow> failC (Err ''creator user not found'') | Some user \<Rightarrow>
       bindC nowC (\<lambda>now. bindC uuidC (\<lambda>eid.
       let user = snd (SetCurrentClient now eid (cl_ID client) user) in
       thenC (mapErrC (failed_to ''set current client'') (user_Update user))
       (thenC (StoreEvents (List.map EvClient (cl_events client) @ List.map EvCampaign (cp_events defaultCampaign) @
           List.map EvUser (u_events user)))
       (returnC (snd (client_PullEvents client)))))))))))))))"

definition UpdateClient :: "uuid \<Rightarrow> string \<Rightarrow> unit app" where
  "UpdateClient i name =
    (if name = [] then failC (Err ''name is required'') else withTx (
     bindC (mapErrC (failed_to ''get client'') (client_GetByID i)) (\<lambda>client.
     case client of None \<Rightarrow> failC (Err ''client not found'') | Some client \<Rightarrow>
     bindC nowC (\<lambda>now. bindC uuidC (\<lambda>eid.
     let client = client_ApplyUpdate now eid name client in
     thenC (mapErrC (failed_to ''update client'') (client_Update client))
     (StoreEvents (List.map EvClient (cl_events client))))))))"

definition DeleteClient :: "uuid \<Rightarrow> unit app" where
  "DeleteClient i = withTx (
    bindC (mapErrC (failed_to ''get client'') (client_GetByID i)) (\<lambda>client.
    case client of None \<Rightarrow> returnC () | Some client \<Rightarrow>
    bindC nowC (\<lambda>now. bindC uuidC (\<lambda>eid.
    let client = client_MarkDeleted now eid client in
    thenC (mapErrC (failed_to ''delete client'') (client_Delete (cl_ID client)))
    (StoreEvents (List.map EvClient (cl_events client)))))))"

definition AddClientMember :: "bool \<Rightarrow> uuid \<Rightarrow> uuid \<Rightarrow> uuid \<Rightarrow> unit app" where
  "AddClientMember quota clientID userID actorID =
    (if clientID = uuid_Nil \<or> userID = uuid_Nil \<or> actorID = uuid_Nil
     then failC (Err ''clientId, userId and actor are required'') else withTx (
     bindC (mapErrC (failed_to ''get client'') (client_GetByID clientID)) (\<lambda>client.
     case client of None \<Rightarrow> failC (Err ''client not found'') | Some client \<Rightarrow>
     if actorID \<notin> set (cl_MemberIDs client) then failC (Err ''client not found'') else
     bindC (mapErrC (failed_to ''get user'') (user_GetByID userID)) (\<lambda>user.
     case user of None \<Rightarrow> failC (Err ''user not found'') | Some user \<Rightarrow>
     if userID \<in> set (cl_MemberIDs client) then returnC () else
     thenC (if quota then AssertMemberCreate clientID else returnC ())
     (bindC nowC (\<lambda>now. bindC uuidC (\<lambda>eid.
     let (added, client) = AddMember now eid userID client in
     if \<not> added then returnC () else
     thenC (mapErrC (failed_to ''add client member'') (client_Update client))
     (StoreEvents (List.map EvClient (cl_events client))))))))))"

definition RemoveClientMember :: "uuid \<Rightarrow> uuid \<Rightarrow> unit app" where
  "RemoveClientMember clientID userID = withTx (
    bindC (mapErrC (failed_to ''get client'') (client_GetByID clientID)) (\<lambda>client.
    case client of None \<Rightarrow> failC (Err ''client not found'') | Some client \<Rightarrow>
    bindC nowC (\<lambda>now. bindC uuidC (\<lambda>eid.
    let (removed, client) = RemoveMember now eid userID client in
    if \<not> removed then returnC () else
    thenC (mapErrC (failed_to ''remove client member'') (client_Update client))
    (bindC (mapErrC (failed_to ''get user'') (user_GetByID userID)) (\<lambda>user.
     case user of None \<Rightarrow> StoreEvents (List.map EvClient (cl_events client)) | Some user \<Rightarrow>
     if u_CurrentClientID user \<noteq> Some clientID then StoreEvents (List.map EvClient (cl_events client)) else
     bindC nowC (\<lambda>now. bindC uuidC (\<lambda>eid.
     let user = snd (ClearCurrentClient now eid user) in
     thenC (mapErrC (failed_to ''clear current client'') (user_Update user))
     (StoreEvents (List.map EvClient (cl_events client) @ List.map EvUser (u_events user)))))))))))"

section \<open>Users\<close>

definition personalClientName :: "string \<Rightarrow> string \<Rightarrow> string" where
  "personalClientName firstName lastName =
    (let firstName = TrimSpace firstName; lastName = TrimSpace lastName in
     if firstName \<noteq> [] \<and> lastName \<noteq> [] then firstName @ '' '' @ lastName
     else if firstName \<noteq> [] then firstName @ [CHR 0x27] @ ''s Client''
     else ''Personal Client'')"

text \<open>The plan is looked up in the transaction; an error of that query and a missing plan are one error.\<close>

definition free_subscription :: "subscription app" where
  "free_subscription = tryC (plan_GetBySlug FreePlanSlug) (\<lambda>_. failC (Err ''free plan not found'')) (\<lambda>plan.
     case plan of None \<Rightarrow> failC (Err ''free plan not found'') | Some plan \<Rightarrow>
     bindC nowC (\<lambda>now. bindC nowC (\<lambda>now'. bindC uuidC (\<lambda>nid. bindC uuidC (\<lambda>eid.
     let sub = NewFreeSubscription now now' nid eid (p_ID plan) in
     thenC (mapErrC (\<lambda>_. Err ''failed to create free subscription'') (subscription_Save sub)) (returnC sub))))))"

definition CreateUser :: "string \<Rightarrow> string \<Rightarrow> string \<Rightarrow> string \<Rightarrow> bool \<Rightarrow> user app" where
  "CreateUser clerkID firstName lastName email banned =
    bindC nowC (\<lambda>now. bindC uuidC (\<lambda>nid. bindC uuidC (\<lambda>eid.
    let u = NewUser now nid eid clerkID firstName lastName email banned in
    mapErrC (\<lambda>_. Err ''failed to create user'') (withTx (
      thenC (user_Save u)
      (bindC nowC (\<lambda>now. bindC uuidC (\<lambda>nid. bindC uuidC (\<lambda>eid.
      let workspace = NewWorkspace now nid eid (u_ID u) in
      bindC free_subscription (\<lambda>sub.
      bindC nowC (\<lambda>now. bindC uuidC (\<lambda>eid.
      let workspace = AssignSubscription now eid (s_ID sub) workspace in
      thenC (workspace_Save workspace)
      (bindC (new_client (personalClientName firstName lastName) (w_ID workspace) (u_ID u)) (\<lambda>client.
      thenC (client_Save client)
      (bindC (default_campaign (cl_ID client)) (\<lambda>defaultCampaign.
      thenC (campaign_Save defaultCampaign)
      (bindC nowC (\<lambda>now. bindC uuidC (\<lambda>eid.
      let u = snd (SetCurrentClient now eid (cl_ID client) u) in
      thenC (user_Update u)
      (thenC (StoreEvents (List.map EvUser (u_events u) @ List.map EvWorkspace (w_events workspace) @
          List.map EvClient (cl_events client) @ List.map EvCampaign (cp_events defaultCampaign) @
          List.map EvSubscription (s_events sub)))
      (returnC (snd (user_PullEvents u)))))))))))))))))))))))"

definition user_Delete :: "uuid \<Rightarrow> unit app" where
  "user_Delete i = dbWrite (cascade_user i)"

definition DeleteUserByExternalID :: "string \<Rightarrow> unit app" where
  "DeleteUserByExternalID externalID = withTx (
    bindC (mapErrC (failed_to ''get user by external ID'') (user_GetByClerkID externalID)) (\<lambda>user.
    case user of None \<Rightarrow> returnC () | Some user \<Rightarrow>
    bindC nowC (\<lambda>now. bindC uuidC (\<lambda>eid.
    let user = user_MarkDeleted now eid user in
    thenC (mapErrC (failed_to ''delete user by external ID'') (user_Delete (u_ID user)))
    (StoreEvents (List.map EvUser (u_events user)))))))"

definition GetUserByExternalID :: "string \<Rightarrow> user option app" where
  "GetUserByExternalID externalID =
     mapErrC (failed_to ''get user by external ID'') (user_GetByClerkID externalID)"

text \<open>The user comes from an earlier read, outside the transaction.\<close>

definition UpdateUser :: "user option \<Rightarrow> string \<Rightarrow> string \<Rightarrow> string \<Rightarrow> bool \<Rightarrow> unit app" where
  "UpdateUser user firstName lastName email banned = (case user of
      None \<Rightarrow> failC (Err ''user is required'')
    | Some user \<Rightarrow>
      bindC nowC (\<lambda>now. bindC uuidC (\<lambda>eid.
      let user = user_ApplyUpdate now eid firstName lastName email banned user in
      withTx (thenC (mapErrC (failed_to ''update user'') (user_Update user))
        (StoreEvents (List.map EvUser (u_events user)))))))"

definition SetCurrentClientOf :: "uuid \<Rightarrow> uuid \<Rightarrow> unit app" where
  "SetCurrentClientOf userID clientID =
    (if userID = uuid_Nil \<or> clientID = uuid_Nil then failC (Err ''userId and clientId are required'') else withTx (
     bindC (mapErrC (failed_to ''get client'') (client_GetByID clientID)) (\<lambda>client.
     case client of None \<Rightarrow> failC (Err ''client not found'') | Some client \<Rightarrow>
     if userID \<notin> set (cl_MemberIDs client) then failC (Err ''client not found'') else
     bindC (mapErrC (failed_to ''get user'') (user_GetByID userID)) (\<lambda>user.
     case user of None \<Rightarrow> failC (Err ''user not found'') | Some user \<Rightarrow>
     bindC nowC (\<lambda>now. bindC uuidC (\<lambda>eid.
     let (changed, user) = SetCurrentClient now eid clientID user in
     if \<not> changed then returnC () else
     thenC (mapErrC (failed_to ''set current client'') (user_Update user))
     (StoreEvents (List.map EvUser (u_events user)))))))))"

end
