(* ===== verification/BillingCommands.thy ===== *)
theory BillingCommands
  imports AccountCommands Invariants
begin

text \<open>
  \<open>src/internal/application/command/subscription\<close> and the two queries of \<open>query/subscription\<close> on which
  it relies: checkout, plan changes, and what the webhooks of Stripe report. The gateways of
  \<open>domain/port/billing.go\<close> are parameters: records of computations whose only effect here is time.
\<close>

section \<open>The gateways\<close>

record subscription_data =
  sd_ID :: string
  sd_ItemID :: string
  sd_CustomerID :: string
  sd_PriceID :: string
  sd_Status :: string
  sd_CancelAtPeriodEnd :: bool
  sd_CurrentPeriodStart :: gotime
  sd_CurrentPeriodEnd :: gotime

record invoice_data =
  id_ID :: string
  id_CustomerID :: string
  id_SubscriptionID :: string
  id_Number :: string
  id_Status :: string
  id_Currency :: string
  id_AmountDue :: int
  id_AmountPaid :: int
  id_Total :: int
  id_HostedInvoiceURL :: string
  id_InvoicePDF :: string
  id_BillingReason :: string
  id_Description :: string
  id_AttemptCount :: int
  id_PeriodStart :: gotime
  id_PeriodEnd :: gotime
  id_PaidAt :: "gotime option"
  id_CreatedAt :: gotime

record proration_preview =
  pv_Currency :: string
  pv_AmountDue :: int
  pv_Subtotal :: int
  pv_Total :: int
  pv_ProrationDate :: int
  pv_PeriodStart :: gotime
  pv_PeriodEnd :: gotime
  pv_Lines :: "(string \<times> int \<times> bool) list"

record subscription_gateway =
  sg_Retrieve :: "string \<Rightarrow> subscription_data app"
  sg_RetrieveLatestInvoice :: "string \<Rightarrow> invoice_data option app"
  sg_UpdatePrice :: "string \<Rightarrow> string \<Rightarrow> string \<Rightarrow> int option \<Rightarrow> subscription_data app"
  sg_PreviewPriceChange :: "string \<Rightarrow> string \<Rightarrow> string \<Rightarrow> proration_preview app"

record checkout_request =
  cr_Plan :: plan
  cr_WorkspaceID :: uuid
  cr_UserID :: uuid
  cr_FirstName :: string
  cr_LastName :: string
  cr_Email :: string
  cr_StripeCustomerID :: string

definition gateway_quiet :: "subscription_gateway \<Rightarrow> bool" where
  "gateway_quiet g \<longleftrightarrow> (\<forall>i. readonly (sg_Retrieve g i)) \<and> (\<forall>i. readonly (sg_RetrieveLatestInvoice g i)) \<and>
     (\<forall>i it p d. readonly (sg_UpdatePrice g i it p d)) \<and> (\<forall>i it p. readonly (sg_PreviewPriceChange g i it p))"

section \<open>Finding and saving a subscription\<close>

definition findSubscriptionByStripeIDs :: "string \<Rightarrow> string \<Rightarrow> subscription option app" where
  "findSubscriptionByStripeIDs stripeSubscriptionID stripeCustomerID =
    bindC (if stripeSubscriptionID \<noteq> []
        then mapErrC (failed_to ''get subscription'') (GetByStripeSubscriptionID stripeSubscriptionID)
        else returnC None) (\<lambda>found.
    case found of Some s \<Rightarrow> returnC (Some s) | None \<Rightarrow>
    if stripeCustomerID = [] then returnC None else
    bindC (mapErrC (failed_to ''get subscription by customer'') (GetByStripeCustomerID stripeCustomerID)) (\<lambda>found.
    case found of None \<Rightarrow> returnC None | Some s \<Rightarrow>
    if s_StripeSubscriptionID s \<noteq> [] \<and> stripeSubscriptionID \<noteq> [] \<and> s_StripeSubscriptionID s \<noteq> stripeSubscriptionID
    then returnC None else returnC (Some s)))"

definition save_subscription :: "subscription \<Rightarrow> unit app" where
  "save_subscription s = withTx (thenC (mapErrC (failed_to ''update subscription'') (subscription_Update s))
     (StoreEvents (List.map EvSubscription (s_events s))))"

definition apply_update :: "uuid \<Rightarrow> sub_status \<Rightarrow> string \<Rightarrow> string \<Rightarrow> gotime \<Rightarrow> gotime \<Rightarrow> bool \<Rightarrow> gotime \<Rightarrow> subscription
    \<Rightarrow> subscription app" where
  "apply_update planID status customerID subID startDate endDate cancel quotaStart s =
    bindC nowC (\<lambda>now. bindC uuidC (\<lambda>eid1. bindC uuidC (\<lambda>eid2.
    returnC (ApplyUpdate now eid1 eid2 planID status customerID subID startDate endDate cancel quotaStart s))))"

text \<open>A value that the notification may leave empty.\<close>

definition given_time :: "gotime \<Rightarrow> gotime \<Rightarrow> gotime" where
  "given_time given old = (if \<not> IsZero given then given else old)"

definition given_string :: "string \<Rightarrow> string \<Rightarrow> string" where
  "given_string given old = (if given \<noteq> [] then given else old)"

section \<open>What the webhooks report\<close>

definition InvoicePaymentFailedHandler :: "string \<Rightarrow> string \<Rightarrow> unit app" where
  "InvoicePaymentFailedHandler subID customerID =
    (if subID = [] then returnC () else
     bindC (findSubscriptionByStripeIDs subID customerID) (\<lambda>found. case found of
       None \<Rightarrow> failC (Sentinel ErrStripeSubscriptionNotLinked)
     | Some s \<Rightarrow>
       bindC (apply_update (s_PlanID s) SubPastDue (given_string customerID (s_StripeCustomerID s)) subID
           (s_StartDate s) (s_EndDate s) (s_CancelAtPeriodEnd s) (s_QuotaPeriodStart s) s) save_subscription))"

definition InvoicePaymentSucceededHandler :: "string \<Rightarrow> string \<Rightarrow> gotime \<Rightarrow> gotime \<Rightarrow> unit app" where
  "InvoicePaymentSucceededHandler subID customerID periodStart periodEnd =
    (if subID = [] then returnC () else
     bindC (findSubscriptionByStripeIDs subID customerID) (\<lambda>found. case found of
       None \<Rightarrow> failC (Sentinel ErrStripeSubscriptionNotLinked)
     | Some s \<Rightarrow>
       bindC (apply_update (s_PlanID s) SubActive (given_string customerID (s_StripeCustomerID s)) subID
           (given_time periodStart (s_StartDate s)) (given_time periodEnd (s_EndDate s))
           (s_CancelAtPeriodEnd s) (s_QuotaPeriodStart s) s) save_subscription))"

definition PaymentMethodExpiring :: "string \<Rightarrow> string \<Rightarrow> string \<Rightarrow> string \<Rightarrow> string \<Rightarrow> int \<Rightarrow> int \<Rightarrow> unit app" where
  "PaymentMethodExpiring stripeEventID customerID subID brand last4 expMonth expYear =
    (if customerID = [] \<and> subID = [] then returnC () else
     bindC (findSubscriptionByStripeIDs subID customerID) (\<lambda>found. case found of
       None \<Rightarrow> failC (Sentinel ErrStripeSubscriptionNotLinked)
     | Some s \<Rightarrow>
       bindC (askC en_deterministic_id) (\<lambda>did. bindC nowC (\<lambda>now. bindC uuidC (\<lambda>fresh.
       save_subscription (RecordPaymentMethodExpiring now fresh
         (Some (did [''stripe'', stripeEventID, ''subscription.paymentMethodExpiring.v1''])) brand last4
         expMonth expYear s))))))"

definition SubscriptionRenewalUpcomingHandler :: "string \<Rightarrow> string \<Rightarrow> string \<Rightarrow> int \<Rightarrow> string \<Rightarrow> gotime \<Rightarrow> unit app" where
  "SubscriptionRenewalUpcomingHandler stripeEventID subID customerID amountDue currency periodEnd =
    (if subID = [] \<and> customerID = [] then returnC () else
     bindC (findSubscriptionByStripeIDs subID customerID) (\<lambda>found. case found of
       None \<Rightarrow> failC (Sentinel ErrStripeSubscriptionNotLinked)
     | Some s \<Rightarrow>
       bindC (askC en_deterministic_id) (\<lambda>did. bindC nowC (\<lambda>now. bindC uuidC (\<lambda>fresh.
       save_subscription (RecordRenewalUpcoming now fresh
         (Some (did [''stripe'', stripeEventID, ''subscription.renewalUpcoming.v1''])) amountDue currency
         periodEnd s))))))"

definition SubscriptionDeletedHandler :: "string \<Rightarrow> unit app" where
  "SubscriptionDeletedHandler subID =
    (if subID = [] then failC (Err ''stripe subscription id is required'') else
     bindC (mapErrC (failed_to ''get subscription'') (GetByStripeSubscriptionID subID)) (\<lambda>found.
     case found of None \<Rightarrow> returnC () | Some s \<Rightarrow>
     bindC (mapErrC (failed_to ''get free plan'') (plan_GetBySlug FreePlanSlug)) (\<lambda>plan.
     case plan of None \<Rightarrow> failC (Err ''free plan not found'') | Some plan \<Rightarrow>
     bindC nowC (\<lambda>now. bindC nowC (\<lambda>now'. bindC uuidC (\<lambda>eid1. bindC uuidC (\<lambda>eid2.
     save_subscription (DowngradeToFree now now' eid1 eid2 (p_ID plan) s))))))))"

definition SubscriptionUpdatedHandler :: "subscription_data \<Rightarrow> unit app" where
  "SubscriptionUpdatedHandler cmd =
    (if sd_ID cmd = [] then failC (Err ''stripe subscription id is required'') else
     bindC (mapErrC (failed_to ''get subscription'') (GetByStripeSubscriptionID (sd_ID cmd))) (\<lambda>found.
     case found of None \<Rightarrow> failC (Sentinel ErrStripeSubscriptionNotLinked) | Some s \<Rightarrow>
     bindC (if sd_PriceID cmd \<noteq> []
         then bindC (mapErrC (failed_to ''get plan'') (plan_GetByStripePriceID (sd_PriceID cmd))) (\<lambda>plan.
           returnC (case plan of None \<Rightarrow> s_PlanID s | Some p \<Rightarrow> p_ID p))
         else returnC (s_PlanID s)) (\<lambda>planID.
     bindC (apply_update planID (MapBillingStatus (sd_Status cmd))
         (given_string (sd_CustomerID cmd) (s_StripeCustomerID s)) (sd_ID cmd)
         (given_time (sd_CurrentPeriodStart cmd) (s_StartDate s)) (given_time (sd_CurrentPeriodEnd cmd) (s_EndDate s))
         (sd_CancelAtPeriodEnd cmd) (s_QuotaPeriodStart s) s) save_subscription)))"

section \<open>Invoices\<close>

datatype payment_outcome = NoPayment | PaymentSucceeded | PaymentFailed

record invoice_command =
  ic_Data :: invoice_data
  ic_StripeEventID :: string
  ic_PaymentOutcome :: payment_outcome

text \<open>The workspace and the subscription an invoice belongs to, when they are known.\<close>

definition resolveOwner :: "string \<Rightarrow> string \<Rightarrow> (uuid \<times> uuid option) app" where
  "resolveOwner subID customerID =
    bindC (findSubscriptionByStripeIDs subID customerID) (\<lambda>found. case found of
      None \<Rightarrow> returnC (uuid_Nil, None)
    | Some s \<Rightarrow> bindC (mapErrC (failed_to ''get workspace by subscription'') (workspace_GetBySubscriptionID (s_ID s)))
        (\<lambda>workspace. case workspace of None \<Rightarrow> returnC (uuid_Nil, None) | Some ws \<Rightarrow> returnC (w_ID ws, Some (s_ID s))))"

definition snapshot :: "invoice_data \<Rightarrow> invoice \<Rightarrow> invoice app" where
  "snapshot d iv = bindC nowC (\<lambda>now. returnC (ApplyStripeSnapshot now (id_CustomerID d) (id_SubscriptionID d)
     (id_Number d) (id_Status d) (id_Currency d) (id_AmountDue d) (id_AmountPaid d) (id_Total d)
     (id_HostedInvoiceURL d) (id_InvoicePDF d) (id_BillingReason d) (id_Description d) (id_AttemptCount d)
     (id_PeriodStart d) (id_PeriodEnd d) (id_PaidAt d) (id_CreatedAt d) iv))"

definition raise_payment :: "string \<Rightarrow> payment_outcome \<Rightarrow> invoice \<Rightarrow> invoice app" where
  "raise_payment stripeEventID outcome iv =
    bindC (askC en_deterministic_id) (\<lambda>did. bindC uuidC (\<lambda>fresh. returnC (case outcome of
      NoPayment \<Rightarrow> iv
    | PaymentSucceeded \<Rightarrow> RaisePaymentSucceeded fresh (Some (did [''stripe'', stripeEventID, ''invoice.paymentSucceeded''])) iv
    | PaymentFailed \<Rightarrow> RaisePaymentFailed fresh (Some (did [''stripe'', stripeEventID, ''invoice.paymentFailed''])) iv)))"

text \<open>The upsert writes its identifier back into the entity; the events it has recorded keep theirs.\<close>

definition UpsertInvoice :: "invoice_command \<Rightarrow> unit app" where
  "UpsertInvoice cmd = (let d = ic_Data cmd in
    if id_ID d = [] then returnC () else
    bindC (resolveOwner (id_SubscriptionID d) (id_CustomerID d)) (\<lambda>(workspaceID, subscriptionID).
    if workspaceID = uuid_Nil then failC (Sentinel ErrStripeSubscriptionNotLinked) else
    bindC (mapErrC (failed_to ''get invoice'') (GetByStripeInvoiceID (id_ID d))) (\<lambda>found.
    bindC (case found of
        None \<Rightarrow> bindC nowC (\<lambda>now. bindC uuidC (\<lambda>nid. returnC (NewInvoice now nid workspaceID subscriptionID (id_ID d))))
      | Some iv \<Rightarrow> returnC (iv\<lparr>i_WorkspaceID := workspaceID, i_SubscriptionID := subscriptionID\<rparr>)) (\<lambda>iv.
    bindC (snapshot d iv) (\<lambda>iv.
    bindC uuidC (\<lambda>eid.
    bindC (raise_payment (ic_StripeEventID cmd) (ic_PaymentOutcome cmd)
        (if found = None then RaiseCreated eid iv else RaiseUpdated eid iv)) (\<lambda>iv.
    mapErrC (\<lambda>_. Err ''failed to upsert invoice'') (withTx (bindC (UpsertByStripeInvoiceID iv) (\<lambda>iv.
      StoreEvents (List.map EvInvoice (i_events iv))))))))))))"

section \<open>Checkout\<close>

definition invoice_command_of :: "string \<Rightarrow> invoice_data \<Rightarrow> invoice_command" where
  "invoice_command_of subID d =
    \<lparr>ic_Data = d\<lparr>id_SubscriptionID := (if id_SubscriptionID d = [] then subID else id_SubscriptionID d)\<rparr>,
     ic_StripeEventID = ''checkout.session.completed:'' @ subID,
     ic_PaymentOutcome = (if id_Status d = ''paid'' then PaymentSucceeded else NoPayment)\<rparr>"

definition syncLatestInvoice :: "subscription_gateway \<Rightarrow> string \<Rightarrow> unit app" where
  "syncLatestInvoice g subID =
    bindC (sg_RetrieveLatestInvoice g subID) (\<lambda>found. case found of
      None \<Rightarrow> returnC ()
    | Some d \<Rightarrow> if id_ID d = [] then returnC () else UpsertInvoice (invoice_command_of subID d))"

definition linked_subscription :: "workspace \<Rightarrow> subscription option app" where
  "linked_subscription workspace = (case w_SubscriptionID workspace of None \<Rightarrow> returnC None
     | Some i \<Rightarrow> mapErrC (failed_to ''get subscription'') (subscription_GetByID i))"

text \<open>Whether the quota period starts anew: the workspace was on no plan that is paid for.\<close>

definition was_free :: "subscription option \<Rightarrow> bool app" where
  "was_free current = (case current of None \<Rightarrow> returnC True | Some s \<Rightarrow>
     bindC (mapErrC (failed_to ''get current plan'') (plan_GetByID (s_PlanID s))) (\<lambda>plan. returnC (case plan of
       None \<Rightarrow> True | Some p \<Rightarrow> p_Slug p = FreePlanSlug \<or> s_StripeSubscriptionID s = [])))"

definition checkout_tx :: "workspace \<Rightarrow> subscription option \<Rightarrow> uuid \<Rightarrow> sub_status \<Rightarrow> string \<Rightarrow> subscription_data
    \<Rightarrow> gotime \<Rightarrow> gotime \<Rightarrow> gotime \<Rightarrow> unit app" where
  "checkout_tx workspace current planID status customerID subData startDate endDate quotaStart = withTx (
    bindC (case current of
        None \<Rightarrow>
          bindC nowC (\<lambda>now. bindC uuidC (\<lambda>nid. bindC uuidC (\<lambda>eid.
          bindC (apply_update planID status customerID (sd_ID subData) startDate endDate
            (sd_CancelAtPeriodEnd subData) quotaStart (NewSubscription now nid eid planID status startDate endDate)) (\<lambda>s.
          thenC (mapErrC (failed_to ''create subscription'') (subscription_Save s)) (returnC s)))))
      | Some s \<Rightarrow>
          bindC (apply_update planID status customerID (sd_ID subData) startDate endDate
            (sd_CancelAtPeriodEnd subData) (if IsZero quotaStart then s_QuotaPeriodStart s else quotaStart) s) (\<lambda>s.
          thenC (mapErrC (failed_to ''update subscription'') (subscription_Update s)) (returnC s))) (\<lambda>s.
    let events = List.map EvSubscription (s_events s) in
    if w_SubscriptionID workspace \<noteq> Some (s_ID s)
    then bindC nowC (\<lambda>now. bindC uuidC (\<lambda>eid.
      let workspace = AssignSubscription now eid (s_ID s) workspace in
      thenC (mapErrC (failed_to ''link subscription to workspace'') (workspace_Update workspace))
      (StoreEvents (events @ List.map EvWorkspace (w_events workspace)))))
    else StoreEvents events))"

text \<open>What is known before the transaction: the workspace, its subscription and what Stripe says.\<close>

definition CheckoutCompleted :: "subscription_gateway \<Rightarrow> uuid \<Rightarrow> string \<Rightarrow> string \<Rightarrow> unit app" where
  "CheckoutCompleted g workspaceID customerID subID =
    (if subID = [] then failC (Err ''stripe subscription id is required'') else
     bindC (mapErrC (failed_to ''get workspace'') (workspace_GetByID workspaceID)) (\<lambda>workspace.
     case workspace of None \<Rightarrow> failC (Err ''workspace not found'') | Some workspace \<Rightarrow>
     bindC (sg_Retrieve g subID) (\<lambda>subData.
     bindC (mapErrC (failed_to ''get plan'') (plan_GetByStripePriceID (sd_PriceID subData))) (\<lambda>plan.
     case plan of None \<Rightarrow> failC (Err ''plan not found for stripe price id'') | Some plan \<Rightarrow>
     bindC (linked_subscription workspace) (\<lambda>current.
     bindC (was_free current) (\<lambda>wasFree.
     bindC nowC (\<lambda>now. bindC nowC (\<lambda>now'.
     let startDate = given_time (sd_CurrentPeriodStart subData) now;
         endDate = given_time (sd_CurrentPeriodEnd subData) now;
         quotaStart = (if wasFree then given_time (sd_CurrentPeriodStart subData) now' else 0) in
     thenC (checkout_tx workspace current (p_ID plan) (MapBillingStatus (sd_Status subData))
         (given_string customerID (sd_CustomerID subData)) subData startDate endDate quotaStart)
     (syncLatestInvoice g subID)))))))))"

section \<open>Changing the plan\<close>

definition CanUpdateStripeSubscription :: "subscription option \<Rightarrow> bool" where
  "CanUpdateStripeSubscription current = (case current of None \<Rightarrow> False | Some s \<Rightarrow>
     s_StripeSubscriptionID s \<noteq> [] \<and> s_Status s \<in> {SubActive, SubPastDue, SubPending})"

text \<open>A plan that can be bought.\<close>

definition saleable :: "(plan \<times> quota option) option \<Rightarrow> plan res" where
  "saleable found = (case found of None \<Rightarrow> Inl (Sentinel QueryErrPlanNotFound) | Some (p, _) \<Rightarrow>
     if \<not> p_IsActive p then Inl (Sentinel ErrPlanInactive)
     else if p_Slug p = FreePlanSlug then Inl (Sentinel ErrFreePlanCheckout)
     else if p_StripePriceID p = [] then Inl (Sentinel ErrMissingStripePrice)
     else Inr p)"

definition current_subscription :: "workspace \<Rightarrow> (subscription \<times> (plan \<times> quota option) option) option app" where
  "current_subscription workspace = (case w_SubscriptionID workspace of None \<Rightarrow> returnC None
     | Some i \<Rightarrow> mapErrC (failed_to ''get subscription'') (subscriptionRead_FindByID i))"

definition already_on :: "plan \<Rightarrow> subscription option \<Rightarrow> bool" where
  "already_on p current = (case current of None \<Rightarrow> False | Some s \<Rightarrow> s_PlanID s = p_ID p \<and> s_StripeSubscriptionID s \<noteq> [])"

record plan_change_preview =
  pc_RequiresCheckout :: bool
  pc_CurrentPlanID :: "uuid option"
  pc_CurrentPlanSlug :: string
  pc_TargetPlan :: plan
  pc_Proration :: "proration_preview option"

definition PreviewPlanChange :: "subscription_gateway \<Rightarrow> uuid \<Rightarrow> uuid \<Rightarrow> plan_change_preview app" where
  "PreviewPlanChange g workspaceID planID =
    bindC (mapErrC (failed_to ''get plan'') (planRead_FindByID planID)) (\<lambda>found.
    bindC (liftC (saleable found)) (\<lambda>target.
    bindC (mapErrC (failed_to ''get workspace'') (workspaceRead_FindByID workspaceID)) (\<lambda>workspace.
    case workspace of None \<Rightarrow> failC (Err ''workspace not found'') | Some workspace \<Rightarrow>
    bindC (current_subscription workspace) (\<lambda>view.
    let current = map_option fst view;
        preview = \<lparr>pc_RequiresCheckout = False, pc_CurrentPlanID = map_option s_PlanID current,
          pc_CurrentPlanSlug = (case view of Some (_, Some (p, _)) \<Rightarrow> p_Slug p | _ \<Rightarrow> []),
          pc_TargetPlan = target, pc_Proration = None\<rparr> in
    if already_on target current then failC (Sentinel ErrAlreadyOnPlan) else
    case current of None \<Rightarrow> returnC (preview\<lparr>pc_RequiresCheckout := True\<rparr>) | Some s \<Rightarrow>
    if \<not> CanUpdateStripeSubscription current then returnC (preview\<lparr>pc_RequiresCheckout := True\<rparr>) else
    bindC (sg_Retrieve g (s_StripeSubscriptionID s)) (\<lambda>stripeSub.
    if sd_ItemID stripeSub = [] then failC (Sentinel ErrMissingStripeSub)
    else if sd_PriceID stripeSub = p_StripePriceID target then failC (Sentinel ErrAlreadyOnPlan)
    else bindC (sg_PreviewPriceChange g (s_StripeSubscriptionID s) (sd_ItemID stripeSub) (p_StripePriceID target))
      (\<lambda>pv. returnC (preview\<lparr>pc_Proration := Some pv\<rparr>)))))))"

definition updateExistingSubscription :: "subscription_gateway \<Rightarrow> uuid \<Rightarrow> plan \<Rightarrow> int option \<Rightarrow> unit app" where
  "updateExistingSubscription g subscriptionID target prorationDate =
    bindC (mapErrC (failed_to ''get subscription'') (subscription_GetByID subscriptionID)) (\<lambda>found.
    case found of None \<Rightarrow> failC (Sentinel ErrSubscriptionNotFound) | Some s \<Rightarrow>
    if s_StripeSubscriptionID s = [] then failC (Sentinel ErrMissingStripeSub) else
    bindC (sg_Retrieve g (s_StripeSubscriptionID s)) (\<lambda>stripeSub.
    if sd_ItemID stripeSub = [] then failC (Sentinel ErrMissingStripeSub)
    else if sd_PriceID stripeSub = p_StripePriceID target then failC (Sentinel ErrAlreadyOnPlan) else
    bindC (sg_UpdatePrice g (s_StripeSubscriptionID s) (sd_ItemID stripeSub) (p_StripePriceID target) prorationDate)
      (\<lambda>updated.
    bindC (apply_update (p_ID target) (MapBillingStatus (sd_Status updated))
        (given_string (sd_CustomerID updated) (s_StripeCustomerID s)) (s_StripeSubscriptionID s)
        (given_time (sd_CurrentPeriodStart updated) (s_StartDate s))
        (given_time (sd_CurrentPeriodEnd updated) (s_EndDate s))
        (sd_CancelAtPeriodEnd updated) (s_QuotaPeriodStart s) s) (\<lambda>s.
    mapErrC (\<lambda>_. Err ''failed to update subscription'') (withTx (thenC (subscription_Update s)
      (StoreEvents (List.map EvSubscription (s_events s)))))))))"

text \<open>The result is the address of a checkout page, or none when the subscription was changed in place.\<close>

definition CreateSubscription :: "subscription_gateway \<Rightarrow> (string \<Rightarrow> string app) \<Rightarrow> (checkout_request \<Rightarrow> string app)
    \<Rightarrow> uuid \<Rightarrow> uuid \<Rightarrow> uuid \<Rightarrow> int option \<Rightarrow> string option app" where
  "CreateSubscription g fetchEmail checkout workspaceID userID planID prorationDate =
    bindC (mapErrC (failed_to ''get workspace'') (workspaceRead_FindByID workspaceID)) (\<lambda>workspace.
    case workspace of None \<Rightarrow> failC (Err ''workspace not found'') | Some workspace \<Rightarrow>
    if w_OwnerUserID workspace \<noteq> userID then failC (Sentinel ErrNotWorkspaceOwner) else
    bindC (mapErrC (failed_to ''get user'') (poolRead (user_get userID))) (\<lambda>user.
    case user of None \<Rightarrow> failC (Err ''user not found'') | Some user \<Rightarrow>
    bindC (mapErrC (failed_to ''get plan'') (planRead_FindByID planID)) (\<lambda>found.
    bindC (liftC (saleable found)) (\<lambda>target.
    bindC (current_subscription workspace) (\<lambda>view.
    let current = map_option fst view in
    if already_on target current then failC (Sentinel ErrAlreadyOnPlan) else
    case (current, CanUpdateStripeSubscription current) of
      (Some s, True) \<Rightarrow> thenC (updateExistingSubscription g (s_ID s) target prorationDate) (returnC None)
    | _ \<Rightarrow>
      bindC (mapErrC (failed_to ''get user email'') (fetchEmail (u_ClerkID user))) (\<lambda>email.
      bindC (checkout \<lparr>cr_Plan = target, cr_WorkspaceID = w_ID workspace, cr_UserID = u_ID user,
        cr_FirstName = u_FirstName user, cr_LastName = u_LastName user, cr_Email = email,
        cr_StripeCustomerID = (case current of None \<Rightarrow> [] | Some s \<Rightarrow> s_StripeCustomerID s)\<rparr>)
      (\<lambda>url. returnC (Some url))))))))"

definition GetCurrentSubscription :: "uuid \<Rightarrow> (subscription \<times> (plan \<times> quota option) option) app" where
  "GetCurrentSubscription workspaceID =
    bindC (mapErrC (failed_to ''get workspace'') (workspaceRead_FindByID workspaceID)) (\<lambda>workspace.
    case workspace of None \<Rightarrow> failC (Sentinel ErrSubscriptionNotFound) | Some workspace \<Rightarrow>
    case w_SubscriptionID workspace of None \<Rightarrow> failC (Sentinel ErrSubscriptionNotFound) | Some i \<Rightarrow>
    bindC (mapErrC (failed_to ''get subscription'') (subscriptionRead_FindByID i)) (\<lambda>view.
    case view of None \<Rightarrow> failC (Sentinel ErrSubscriptionNotFound) | Some view \<Rightarrow> returnC view))"

definition CreateBillingPortal :: "(string \<Rightarrow> string app) \<Rightarrow> uuid \<Rightarrow> uuid \<Rightarrow> string app" where
  "CreateBillingPortal portal workspaceID userID =
    bindC (mapErrC (failed_to ''get workspace'') (workspaceRead_FindByID workspaceID)) (\<lambda>workspace.
    case workspace of None \<Rightarrow> failC (Sentinel ErrSubscriptionNotFound) | Some workspace \<Rightarrow>
    case w_SubscriptionID workspace of None \<Rightarrow> failC (Sentinel ErrSubscriptionNotFound) | Some i \<Rightarrow>
    if w_OwnerUserID workspace \<noteq> userID then failC (Sentinel ErrNotWorkspaceOwner) else
    bindC (mapErrC (failed_to ''get subscription'') (subscriptionRead_FindByID i)) (\<lambda>view.
    case view of None \<Rightarrow> failC (Sentinel ErrSubscriptionNotFound) | Some (s, plan) \<Rightarrow>
    if s_StripeCustomerID s = [] then
      (case plan of Some (p, _) \<Rightarrow> if p_Slug p = FreePlanSlug then failC (Sentinel ErrFreePlanBillingPortal)
           else failC (Sentinel ErrMissingStripeCustomer)
        | None \<Rightarrow> failC (Sentinel ErrMissingStripeCustomer))
    else portal (s_StripeCustomerID s)))"

end
