(* ===== verification/Http.thy ===== *)
theory Http
  imports QueryParams BillingCommands
begin

text \<open>
  What the handlers of \<open>src/internal/interfaces/http\<close> share: the request, the response, the user whom the
  authentication has put into the context, the errors of the quotas, the workspace of the current
  client, and the middlewares. A request gives what the framework hands over: path parameters and
  query parameters as texts, a query and a body that were bound or not. The body of a response is the
  view; the presenters that render it are theory Presenter. A handler answers in every case, so
  its computation never yields an error; a refused validation is an answer too, since the error
  handler of the application keeps the response that is written already.
\<close>

section \<open>Requests and responses\<close>

datatype 'a reply =
    Json 'a
  | Message string
  | Coded string "(string \<times> string) list"
  | Invalid
  | NoBody

record 'a response =
  rs_Status :: int
  rs_Body :: "'a reply"

record 'b request =
  rq_User :: "user option"
  rq_Param :: "string \<Rightarrow> string"
  rq_Query :: "string \<Rightarrow> string"
  rq_List :: "string \<Rightarrow> string list"
  rq_Page :: "paginate_query option"
  rq_Body :: "'b option"

text \<open>The libraries the handlers are built with: the parser of UUIDs and the validator's check of
  one, the collation of the database, and whether the quota service is wired.\<close>

record libs =
  lb_ParseUUID :: "string \<Rightarrow> uuid option"
  lb_IsUUID :: "string \<Rightarrow> bool"
  lb_Collation :: "string \<Rightarrow> int"
  lb_Quota :: bool

definition respond :: "int \<Rightarrow> 'a reply \<Rightarrow> 'a response app" where
  "respond st b = returnC \<lparr>rs_Status = st, rs_Body = b\<rparr>"

abbreviation message :: "int \<Rightarrow> string \<Rightarrow> 'a response app" where
  "message st m \<equiv> respond st (Message m)"

abbreviation sendStatus :: "int \<Rightarrow> 'a response app" where
  "sendStatus st \<equiv> respond st NoBody"

text \<open>\<open>httpctx.GetUser\<close> and \<open>GetCurrentClientID\<close>.\<close>

definition GetUser :: "'b request \<Rightarrow> user res" where
  "GetUser rq = (case rq_User rq of None \<Rightarrow> Inl (Err ''user not found'') | Some u \<Rightarrow> Inr u)"

definition GetCurrentClientID :: "'b request \<Rightarrow> uuid res" where
  "GetCurrentClientID rq = (case GetUser rq of Inl e \<Rightarrow> Inl e | Inr u \<Rightarrow>
     (case u_CurrentClientID u of None \<Rightarrow> Inl (Err ''current client is required'')
      | Some c \<Rightarrow> if c = uuid_Nil then Inl (Err ''current client is required'') else Inr c))"

definition with_user :: "'b request \<Rightarrow> (user \<Rightarrow> 'a response app) \<Rightarrow> 'a response app" where
  "with_user rq f = (case GetUser rq of Inl _ \<Rightarrow> message 401 ''Unauthorized'' | Inr u \<Rightarrow> f u)"

definition with_client :: "'b request \<Rightarrow> (uuid \<Rightarrow> 'a response app) \<Rightarrow> 'a response app" where
  "with_client rq f = (case GetCurrentClientID rq of
     Inl _ \<Rightarrow> message 400 ''Current client is required'' | Inr c \<Rightarrow> f c)"

definition with_uuid :: "libs \<Rightarrow> string \<Rightarrow> 'a response app \<Rightarrow> (uuid \<Rightarrow> 'a response app) \<Rightarrow> 'a response app" where
  "with_uuid lb raw bad f = (case lb_ParseUUID lb raw of None \<Rightarrow> bad | Some i \<Rightarrow> f i)"

text \<open>\<open>validation.BindBody\<close>: a body that is not bound, and one that is not valid.\<close>

definition BindBody :: "'b request \<Rightarrow> ('b \<Rightarrow> bool) \<Rightarrow> ('b \<Rightarrow> 'a response app) \<Rightarrow> 'a response app" where
  "BindBody rq valid f = (case rq_Body rq of
     None \<Rightarrow> message 400 ''Invalid request body''
   | Some b \<Rightarrow> if valid b then f b else respond 400 Invalid)"

definition with_page :: "'b request \<Rightarrow> (paginate_query \<Rightarrow> 'a response app) \<Rightarrow> 'a response app" where
  "with_page rq f = (case rq_Page rq of None \<Rightarrow> message 400 ''Invalid query parameters'' | Some q \<Rightarrow> f q)"

text \<open>\<open>required,min=1,max=255\<close>.\<close>

definition valid_name :: "string \<Rightarrow> bool" where
  "valid_name s \<longleftrightarrow> s \<noteq> [] \<and> length s \<le> 255"

section \<open>Pages\<close>

record 'a page =
  pg_Total :: int
  pg_Page :: int
  pg_Limit :: int
  pg_TotalPages :: int
  pg_Members :: "'a list"

definition NewPaginateResponse :: "'a list \<Rightarrow> int \<Rightarrow> paginate_query \<Rightarrow> 'a page" where
  "NewPaginateResponse members n q = \<lparr>pg_Total = n, pg_Page = pq_Page q, pg_Limit = pq_Limit q,
     pg_TotalPages = TotalPages n q, pg_Members = members\<rparr>"

definition page_query :: "string \<Rightarrow> string \<Rightarrow> paginate_query \<Rightarrow> paginate_query" where
  "page_query by order q = (Normalize q)\<lparr>pq_SortBy := (if pq_SortBy q = [] then by else pq_SortBy q),
     pq_OrderBy := (if pq_OrderBy q = [] then order else pq_OrderBy (Normalize q))\<rparr>"

section \<open>Errors\<close>

definition is_error :: "go_error \<Rightarrow> string \<Rightarrow> bool" where
  "is_error e m \<longleftrightarrow> Error e = m"

text \<open>\<open>respondQuotaError\<close>: the answer to an error of the quota service, none to another one.\<close>

definition quota_sentinels :: "sentinel list" where
  "quota_sentinels = [ErrMemberQuotaExceeded, ErrCampaignQuotaExceeded, ErrVerificationQuotaExceeded,
     ErrConcurrentQuotaExceeded, ErrFileSizeQuotaExceeded, ErrVideoAnalysisNotAllowed,
     ErrBatchUploadQuotaExceeded, ErrStorageQuotaExceeded]"

definition respondQuotaError :: "go_error \<Rightarrow> 'a response app option" where
  "respondQuotaError err =
    (if errors_is err ErrSubscriptionNotFound then Some (message 403 ''No active subscription found'')
     else if list_ex (errors_is err) quota_sentinels then Some (message 403 (Error err))
     else None)"

definition or_quota :: "go_error \<Rightarrow> 'a response app \<Rightarrow> 'a response app" where
  "or_quota err f = (case respondQuotaError err of Some a \<Rightarrow> a | None \<Rightarrow> f)"

section \<open>The workspace of the current client\<close>

definition errActiveClientRequired :: go_error where
  "errActiveClientRequired = Err ''active client is required''"

definition resolveCurrentClientWorkspace :: "'b request \<Rightarrow> (uuid \<times> uuid) app" where
  "resolveCurrentClientWorkspace rq = (case GetCurrentClientID rq of
      Inl _ \<Rightarrow> failC errActiveClientRequired
    | Inr c \<Rightarrow> bindC (mapErrC (\<lambda>e. if is_error e ''client not found'' then e else Err ''failed to get client'')
        (GetClientByID c)) (\<lambda>client. returnC (cl_ID client, cl_WorkspaceID client)))"

definition respondResolveClientWorkspaceError :: "go_error \<Rightarrow> 'a response app" where
  "respondResolveClientWorkspaceError err =
    (if err = errActiveClientRequired then message 400 ''Active client is required''
     else if is_error err ''client not found'' then message 404 ''Client not found''
     else message 500 ''Failed to get client'')"

definition with_workspace :: "'b request \<Rightarrow> (uuid \<Rightarrow> uuid \<Rightarrow> 'a response app) \<Rightarrow> 'a response app" where
  "with_workspace rq f = tryC (resolveCurrentClientWorkspace rq) respondResolveClientWorkspaceError
     (\<lambda>(clientID, workspaceID). f clientID workspaceID)"

section \<open>Authentication\<close>

text \<open>\<open>verify\<close> is the JWT library with the keys and the issuer of the identity provider; a valid token
  yields the claims \<open>sub\<close> of the custom and of the registered claims. \<open>fetch\<close> asks the provider
  for the name, the address and the ban of a user.\<close>

record token_claims =
  tc_UserID :: string
  tc_Subject :: string

record clerk_user =
  ck_FirstName :: string
  ck_LastName :: string
  ck_Email :: string
  ck_Banned :: bool

definition claimed_id :: "token_claims \<Rightarrow> string" where
  "claimed_id c = (if tc_UserID c = [] then tc_Subject c else tc_UserID c)"

definition ValidateToken :: "(string \<Rightarrow> token_claims option) \<Rightarrow> string \<Rightarrow> (user option \<times> token_claims) app" where
  "ValidateToken verify token = (case verify token of
      None \<Rightarrow> failC (Err ''invalid token'')
    | Some claims \<Rightarrow> tryC (user_GetByClerkID (claimed_id claims)) (\<lambda>_. failC (Err ''user not found''))
        (\<lambda>u. returnC (u, claims)))"

fun split_blank :: "string \<Rightarrow> string \<Rightarrow> string list" where
  "split_blank [] part = [part]"
| "split_blank (c # s) part = (if c = CHR '' '' then part # split_blank s [] else split_blank s (part @ [c]))"

definition bearer_token :: "string \<Rightarrow> string + string" where
  "bearer_token header = (if header = [] then Inl ''Missing authorization header'' else
     case split_blank header [] of
       [scheme, raw] \<Rightarrow>
         (if scheme \<noteq> ''Bearer'' then Inl ''Authorization scheme must be Bearer''
          else if TrimSpace raw = [] then Inl ''Token cannot be empty'' else Inr (TrimSpace raw))
     | _ \<Rightarrow> Inl ''Invalid authorization header format'')"

text \<open>A user the provider knows and the database does not is created on the way.\<close>

definition known_or_created :: "(string \<Rightarrow> clerk_user app) \<Rightarrow> user option \<Rightarrow> token_claims \<Rightarrow> user app" where
  "known_or_created fetch found claims = (case found of Some u \<Rightarrow> returnC u | None \<Rightarrow>
     bindC (mapErrC (\<lambda>_. Err ''Failed to get user'') (fetch (claimed_id claims))) (\<lambda>ck.
     mapErrC (\<lambda>_. Err ''Failed to create user'')
       (CreateUser (claimed_id claims) (ck_FirstName ck) (ck_LastName ck) (ck_Email ck) (ck_Banned ck))))"

definition Authenticate :: "(string \<Rightarrow> token_claims option) \<Rightarrow> (string \<Rightarrow> clerk_user app) \<Rightarrow> string
    \<Rightarrow> ('b request \<Rightarrow> 'a response app) \<Rightarrow> 'b request \<Rightarrow> 'a response app" where
  "Authenticate verify fetch header next_handler rq = (case bearer_token header of
      Inl m \<Rightarrow> message 401 m
    | Inr token \<Rightarrow> tryC (ValidateToken verify token) (\<lambda>_. message 401 ''Invalid token'') (\<lambda>(found, claims).
        tryC (known_or_created fetch found claims) (\<lambda>e. message 401 (Error e)) (\<lambda>u.
        if u_Banned u then message 401 ''User is banned'' else next_handler (rq\<lparr>rq_User := Some u\<rparr>))))"

end
