(* ===== verification/Handlers.thy ===== *)
theory Handlers
  imports Http
begin

text \<open>
  The handlers of \<open>src/internal/interfaces/http/handler\<close> behind the authentication, in the order of
  \<open>src/cmd/api/routes.go\<close>: users, clients, campaigns, medias, the activity feed, realtime connections,
  subscriptions, invoices and plans.
\<close>

section \<open>Users\<close>

definition UserHandler_GetUser :: "'b request \<Rightarrow> user response app" where
  "UserHandler_GetUser rq = with_user rq (\<lambda>u.
     tryC (GetUserByID (u_ID u)) (\<lambda>_. message 500 ''Failed to get user'') (\<lambda>view. respond 200 (Json view)))"

definition UserHandler_SetCurrentClient :: "libs \<Rightarrow> string request \<Rightarrow> user response app" where
  "UserHandler_SetCurrentClient lb rq = with_user rq (\<lambda>u. BindBody rq (lb_IsUUID lb) (\<lambda>raw.
     with_uuid lb raw (message 400 ''Invalid client id'') (\<lambda>clientID.
     tryC (SetCurrentClientOf (u_ID u) clientID)
       (\<lambda>e. if is_error e ''client not found'' then message 404 ''Client not found''
            else message 500 ''Failed to set current client'')
       (\<lambda>_. tryC (GetUserByID (u_ID u)) (\<lambda>_. message 500 ''Failed to get user'') (\<lambda>view. respond 200 (Json view))))))"

section \<open>Clients\<close>

text \<open>The views carry the client the user works in, which marks the active one.\<close>

definition ClientHandler_List :: "libs \<Rightarrow> 'b request \<Rightarrow> (client \<times> uuid option) page response app" where
  "ClientHandler_List lb rq = with_user rq (\<lambda>u. with_page rq (\<lambda>q.
     let q = page_query ''created_at'' ''asc'' q in
     tryC (ListClientsByUser (lb_Collation lb) (u_ID u) q) (\<lambda>_. message 500 ''Failed to list clients'') (\<lambda>(views, n).
     respond 200 (Json (NewPaginateResponse (List.map (\<lambda>v. (v, u_CurrentClientID u)) views) n q)))))"

definition ClientHandler_Create :: "string request \<Rightarrow> (client \<times> uuid option) response app" where
  "ClientHandler_Create rq = with_user rq (\<lambda>u. BindBody (rq\<lparr>rq_Body := map_option TrimSpace (rq_Body rq)\<rparr>) valid_name (\<lambda>name.
     tryC (CreateClient name (u_ID u))
       (\<lambda>e. if is_error e ''workspace not found'' then message 404 ''Workspace not found''
            else message 500 ''Failed to create client'')
       (\<lambda>client. respond 201 (Json (client, Some (cl_ID client))))))"

definition ClientHandler_GetByID :: "libs \<Rightarrow> 'b request \<Rightarrow> (client \<times> uuid option) response app" where
  "ClientHandler_GetByID lb rq = with_user rq (\<lambda>u.
     with_uuid lb (rq_Param rq ''id'') (message 400 ''Invalid client id'') (\<lambda>i.
     tryC (GetClientByID i)
       (\<lambda>e. if is_error e ''client not found'' then message 404 ''Client not found''
            else message 500 ''Failed to get client'')
       (\<lambda>view. respond 200 (Json (view, u_CurrentClientID u)))))"

definition ClientHandler_Update :: "libs \<Rightarrow> string request \<Rightarrow> (client \<times> uuid option) response app" where
  "ClientHandler_Update lb rq = with_user rq (\<lambda>u.
     with_uuid lb (rq_Param rq ''id'') (message 400 ''Invalid client id'') (\<lambda>i.
     BindBody (rq\<lparr>rq_Body := map_option TrimSpace (rq_Body rq)\<rparr>) valid_name (\<lambda>name.
     tryC (UpdateClient i name)
       (\<lambda>e. if is_error e ''client not found'' then message 404 ''Client not found''
            else message 500 ''Failed to update client'')
       (\<lambda>_. tryC (GetClientByID i) (\<lambda>_. message 500 ''Failed to get client'')
         (\<lambda>view. respond 200 (Json (view, u_CurrentClientID u)))))))"

definition ClientHandler_Delete :: "libs \<Rightarrow> 'b request \<Rightarrow> unit response app" where
  "ClientHandler_Delete lb rq =
     with_uuid lb (rq_Param rq ''id'') (message 400 ''Invalid client id'') (\<lambda>i.
     tryC (DeleteClient i) (\<lambda>_. message 500 ''Failed to delete client'') (\<lambda>_. sendStatus 204))"

definition ClientHandler_AddMember :: "libs \<Rightarrow> string request \<Rightarrow> unit response app" where
  "ClientHandler_AddMember lb rq = with_user rq (\<lambda>actor.
     with_uuid lb (rq_Param rq ''id'') (message 400 ''Invalid client id'') (\<lambda>clientID.
     BindBody rq (lb_IsUUID lb) (\<lambda>raw. with_uuid lb raw (message 400 ''Invalid user id'') (\<lambda>userID.
     tryC (AddClientMember (lb_Quota lb) clientID userID (u_ID actor))
       (\<lambda>e. or_quota e (if is_error e ''client not found'' then message 404 ''Client not found''
            else if is_error e ''user not found'' then message 404 ''User not found''
            else message 500 ''Failed to add member''))
       (\<lambda>_. sendStatus 204)))))"

definition ClientHandler_RemoveMember :: "libs \<Rightarrow> 'b request \<Rightarrow> unit response app" where
  "ClientHandler_RemoveMember lb rq =
     with_uuid lb (rq_Param rq ''id'') (message 400 ''Invalid client id'') (\<lambda>clientID.
     with_uuid lb (rq_Param rq ''userId'') (message 400 ''Invalid user id'') (\<lambda>userID.
     tryC (RemoveClientMember clientID userID)
       (\<lambda>e. if is_error e ''client not found'' then message 404 ''Client not found''
            else message 500 ''Failed to remove member'')
       (\<lambda>_. sendStatus 204)))"

section \<open>Campaigns\<close>

record campaign_request =
  cq_Name :: string
  cq_StartAt :: "gotime option"
  cq_EndAt :: "gotime option"

definition trim_campaign :: "campaign_request \<Rightarrow> campaign_request" where
  "trim_campaign b = b\<lparr>cq_Name := TrimSpace (cq_Name b)\<rparr>"

definition valid_campaign :: "campaign_request \<Rightarrow> bool" where
  "valid_campaign b \<longleftrightarrow> valid_name (cq_Name b) \<and> cq_StartAt b \<noteq> None \<and> cq_EndAt b \<noteq> None"

definition with_campaign_body :: "campaign_request request \<Rightarrow> (campaign_request \<Rightarrow> 'a response app) \<Rightarrow> 'a response app" where
  "with_campaign_body rq = BindBody (rq\<lparr>rq_Body := map_option trim_campaign (rq_Body rq)\<rparr>) valid_campaign"

definition schedule_error :: "go_error \<Rightarrow> 'a response app \<Rightarrow> 'a response app" where
  "schedule_error e f =
    (if errors_is e CampaignErrMissingSchedule then message 400 ''startAt and endAt are required''
     else if errors_is e CampaignErrInvalidSchedule then message 400 ''startAt must be before or equal to endAt''
     else f)"

definition CampaignHandler_Create :: "libs \<Rightarrow> campaign_request request \<Rightarrow> campaign response app" where
  "CampaignHandler_Create lb rq = with_user rq (\<lambda>_. with_client rq (\<lambda>clientID. with_campaign_body rq (\<lambda>b.
     tryC (CreateCampaign (lb_Quota lb) (cq_Name b) clientID (cq_StartAt b) (cq_EndAt b))
       (\<lambda>e. or_quota e (schedule_error e (message 500 ''Failed to create campaign'')))
       (\<lambda>campaign. respond 201 (Json campaign)))))"

definition get_campaign_error :: "go_error \<Rightarrow> 'a response app" where
  "get_campaign_error e = (if is_error e ''campaign not found'' then message 404 ''Campaign not found''
     else message 500 ''Failed to get campaign'')"

text \<open>A member of the client that owns the campaign learns which client that is.\<close>

definition wrong_client :: "user \<Rightarrow> client \<Rightarrow> 'a response app" where
  "wrong_client u owner = (if u_ID u \<notin> set (cl_MemberIDs owner) then message 404 ''Campaign not found'' else
     bindC (askC en_uuid_string) (\<lambda>us. respond 409 (Coded ''WRONG_CLIENT''
       [(''message'', ''Campaign belongs to another client''), (''clientId'', us (cl_ID owner)), (''clientName'', cl_Name owner)])))"

definition CampaignHandler_GetByID :: "libs \<Rightarrow> 'b request \<Rightarrow> campaign_view response app" where
  "CampaignHandler_GetByID lb rq = with_user rq (\<lambda>u. with_client rq (\<lambda>clientID.
     with_uuid lb (rq_Param rq ''id'') (message 400 ''Invalid campaign id'') (\<lambda>i.
     tryC (GetCampaignByID i) get_campaign_error (\<lambda>view.
     if cp_ClientID (fst view) = clientID then respond 200 (Json view) else
     tryC (GetClientByID (cp_ClientID (fst view))) (\<lambda>_. message 404 ''Campaign not found'') (wrong_client u)))))"

definition CampaignHandler_List :: "libs \<Rightarrow> 'b request \<Rightarrow> campaign_view page response app" where
  "CampaignHandler_List lb rq = with_client rq (\<lambda>clientID. with_page rq (\<lambda>q.
     let q = page_query ''created_at'' ''desc'' q in
     tryC (ListCampaignsByClient (lb_Collation lb) clientID q) (\<lambda>_. message 500 ''Failed to list campaigns'') (\<lambda>(views, n).
     respond 200 (Json (NewPaginateResponse views n q)))))"

text \<open>\<open>Update\<close> and \<open>Delete\<close>: a campaign of the current client, to everybody else it does not exist.\<close>

definition with_own_campaign :: "libs \<Rightarrow> 'b request \<Rightarrow> (uuid \<Rightarrow> 'a response app) \<Rightarrow> 'a response app" where
  "with_own_campaign lb rq f = with_user rq (\<lambda>_. with_client rq (\<lambda>clientID.
     with_uuid lb (rq_Param rq ''id'') (message 400 ''Invalid campaign id'') (\<lambda>i.
     tryC (GetCampaignByID i) get_campaign_error (\<lambda>existing.
     if cp_ClientID (fst existing) \<noteq> clientID then message 404 ''Campaign not found'' else f i))))"

definition default_protected :: "go_error \<Rightarrow> 'a response app \<Rightarrow> 'a response app" where
  "default_protected e f = (if errors_is e CampaignErrDefaultProtected
     then respond 409 (Coded ''DEFAULT_CAMPAIGN_PROTECTED'' [(''message'', ''Default campaign cannot be modified'')]) else f)"

definition CampaignHandler_Update :: "libs \<Rightarrow> campaign_request request \<Rightarrow> campaign_view response app" where
  "CampaignHandler_Update lb rq = with_own_campaign lb rq (\<lambda>i. with_campaign_body rq (\<lambda>b.
     tryC (UpdateCampaign i (cq_Name b) (cq_StartAt b) (cq_EndAt b))
       (\<lambda>e. default_protected e (schedule_error e
          (if is_error e ''campaign not found'' then message 404 ''Campaign not found''
           else message 500 ''Failed to update campaign'')))
       (\<lambda>_. tryC (GetCampaignByID i) (\<lambda>_. message 500 ''Failed to get campaign'') (\<lambda>view. respond 200 (Json view)))))"

definition CampaignHandler_Delete :: "libs \<Rightarrow> 'b request \<Rightarrow> unit response app" where
  "CampaignHandler_Delete lb rq = with_own_campaign lb rq (\<lambda>i.
     tryC (DeleteCampaign i)
       (\<lambda>e. default_protected e (if is_error e ''campaign not found'' then message 404 ''Campaign not found''
          else message 500 ''Failed to delete campaign''))
       (\<lambda>_. sendStatus 204))"

record background_request =
  bq_Filename :: string
  bq_ContentType :: string

definition valid_background :: "background_request \<Rightarrow> bool" where
  "valid_background b \<longleftrightarrow> valid_name (bq_Filename b) \<and> length (bq_ContentType b) \<le> 127"

definition CampaignHandler_PresignBackground :: "libs \<Rightarrow> background_request request \<Rightarrow> string response app" where
  "CampaignHandler_PresignBackground lb rq = with_user rq (\<lambda>_. with_client rq (\<lambda>clientID.
     with_uuid lb (rq_Param rq ''id'') (message 400 ''Invalid campaign id'') (\<lambda>i. BindBody rq valid_background (\<lambda>b.
     tryC (PresignBackground i clientID (bq_Filename b) (bq_ContentType b))
       (\<lambda>e. if errors_is e CampaignErrUnsupportedBackgroundType then message 415 ''Unsupported media type''
            else if is_error e ''campaign not found'' then message 404 ''Campaign not found''
            else message 500 ''Failed to generate upload url'')
       (\<lambda>url. respond 201 (Json url))))))"

definition CampaignHandler_ClearBackground :: "libs \<Rightarrow> 'b request \<Rightarrow> unit response app" where
  "CampaignHandler_ClearBackground lb rq = with_user rq (\<lambda>_. with_client rq (\<lambda>clientID.
     with_uuid lb (rq_Param rq ''id'') (message 400 ''Invalid campaign id'') (\<lambda>i.
     tryC (ClearBackground i clientID)
       (\<lambda>e. if is_error e ''campaign not found'' then message 404 ''Campaign not found''
            else message 500 ''Failed to clear background'')
       (\<lambda>_. sendStatus 204))))"

section \<open>Thumbnails\<close>

text \<open>The object is opened and then read to its end, which are two calls that may fail.\<close>

definition storage_GetThumbnail :: "string \<Rightarrow> bytes app" where
  "storage_GetThumbnail key = mapErrC (Wrapped ''thumbnail not found'') (thenC callC (stateC (\<lambda>w.
     case wd_thumbnails w key of None \<Rightarrow> (Inl (Err ''NoSuchKey''), w) | Some b \<Rightarrow> (Inr b, w))))"

definition unix_epoch :: gotime where "unix_epoch = 719162 * Day"

definition etag :: "gotime \<Rightarrow> string" where
  "etag t = quote_text (int_string (t - unix_epoch))"

type_synonym picture = "bytes \<times> string"

definition send_thumbnail :: "string \<Rightarrow> gotime \<Rightarrow> picture response app" where
  "send_thumbnail key updatedAt = tryC (storage_GetThumbnail key) (\<lambda>_. sendStatus 404) (\<lambda>b.
     tryC callC (\<lambda>_. sendStatus 500) (\<lambda>_. respond 200 (Json (b, etag updatedAt))))"

definition CampaignHandler_GetThumbnail :: "libs \<Rightarrow> 'b request \<Rightarrow> picture response app" where
  "CampaignHandler_GetThumbnail lb rq = with_user rq (\<lambda>_. with_client rq (\<lambda>clientID.
     with_uuid lb (rq_Param rq ''id'') (sendStatus 404) (\<lambda>i.
     tryC (GetCampaignByID i) (\<lambda>e. sendStatus (if is_error e ''campaign not found'' then 404 else 500)) (\<lambda>(view, _).
     if cp_ClientID view \<noteq> clientID then sendStatus 404
     else if cp_BackgroundThumbnailKey view = [] then sendStatus 404
     else if cp_BackgroundStatus view \<noteq> BackgroundStatusReady \<and> cp_BackgroundStatus view \<noteq> BackgroundStatusPending
     then sendStatus 404
     else send_thumbnail (cp_BackgroundThumbnailKey view) (cp_UpdatedAt view)))))"

section \<open>Medias\<close>

record presign_request =
  pr_CampaignID :: string
  pr_Files :: "presign_file list"

definition valid_presign :: "libs \<Rightarrow> presign_request \<Rightarrow> bool" where
  "valid_presign lb b \<longleftrightarrow> (pr_CampaignID b = [] \<or> lb_IsUUID lb (pr_CampaignID b)) \<and>
     1 \<le> length (pr_Files b) \<and> length (pr_Files b) \<le> 20 \<and>
     list_all (\<lambda>f. valid_name (pf_Filename f) \<and> pf_ContentType f \<noteq> [] \<and> length (pf_ContentType f) \<le> 127) (pr_Files b)"

definition presign_error :: "go_error \<Rightarrow> 'a response app" where
  "presign_error e = or_quota e
    (if errors_is e MediaErrUnsupportedContentType then message 415 ''Unsupported media type''
     else if errors_is e MediaErrTooManyFiles then message 400 ''At most 20 files can be uploaded at once''
     else if errors_is e MediaErrEmptyFileList \<or> errors_is e MediaErrInvalidFilename then message 400 ''Invalid files payload''
     else if is_error e ''campaign not found'' then message 404 ''Campaign not found''
     else message 500 ''Failed to generate upload urls'')"

definition MediaHandler_Presign :: "libs \<Rightarrow> presign_request request \<Rightarrow> (uuid \<times> presign_item list) response app" where
  "MediaHandler_Presign lb rq = with_user rq (\<lambda>_. with_client rq (\<lambda>clientID. BindBody rq (valid_presign lb) (\<lambda>b.
     (if pr_CampaignID b = [] then (\<lambda>f. f uuid_Nil)
      else with_uuid lb (pr_CampaignID b) (message 400 ''Invalid campaign id'')) (\<lambda>campaignID.
     tryC (PresignMedia (lb_Quota lb) campaignID clientID (pr_Files b)) presign_error
       (\<lambda>items. respond 201 (Json items))))))"

text \<open>A filter that is refused: the message, and the reason under the name of the parameter.\<close>

definition with_filter :: "string \<Rightarrow> string \<Rightarrow> 'c res \<Rightarrow> ('c \<Rightarrow> 'a response app) \<Rightarrow> 'a response app" where
  "with_filter m field parsed f = (case parsed of
     Inl e \<Rightarrow> respond 400 (Coded [] [(''message'', m), (field, Error e)]) | Inr x \<Rightarrow> f x)"

definition with_period :: "'c res \<Rightarrow> ('c \<Rightarrow> 'a response app) \<Rightarrow> 'a response app" where
  "with_period parsed f = (case parsed of Inl e \<Rightarrow> message 400 (Error e) | Inr p \<Rightarrow> f p)"

definition optional_period :: "'b request \<Rightarrow> (gotime option \<Rightarrow> gotime option \<Rightarrow> 'a response app) \<Rightarrow> 'a response app" where
  "optional_period rq f = bindC nowC (\<lambda>now.
     with_period (parseOptionalMediaPeriod now (rq_Query rq ''from'') (rq_Query rq ''to'')) (\<lambda>(from, to). f from to))"

definition list_error :: "string \<Rightarrow> go_error \<Rightarrow> 'a response app" where
  "list_error m e = (if is_error e ''campaign not found'' then message 404 ''Campaign not found'' else message 500 m)"

definition MediaHandler_List :: "libs \<Rightarrow> 'b request \<Rightarrow> (media \<times> campaign_view list) page response app" where
  "MediaHandler_List lb rq = with_user rq (\<lambda>_. with_client rq (\<lambda>clientID. with_page rq (\<lambda>q.
     with_filter ''Invalid campaign ids'' ''campaignIds'' (parseUUIDFilters (lb_ParseUUID lb) (rq_List rq ''campaignIds'')) (\<lambda>campaignIDs.
     with_filter ''Invalid status filter'' ''status'' (parseMediaStatusFilters (rq_List rq ''status'')) (\<lambda>statuses.
     with_filter ''Invalid verdict filter'' ''verdict'' (parseMediaVerdictFilters (rq_List rq ''verdict'')) (\<lambda>verdicts.
     optional_period rq (\<lambda>from to.
     let q = page_query ''created_at'' ''desc'' q in
     tryC (ListMediaByClient (lb_Collation lb) clientID \<lparr>mf_CampaignIDs = campaignIDs, mf_Statuses = statuses,
         mf_Verdicts = verdicts, mf_From = from, mf_To = to\<rparr> q) (list_error ''Failed to list media'')
       (\<lambda>(views, n, campaigns).
     respond 200 (Json (NewPaginateResponse (List.map (\<lambda>v. (v, campaigns)) views) n q))))))))))"

definition MediaHandler_Stats :: "libs \<Rightarrow> 'b request \<Rightarrow> media_stats response app" where
  "MediaHandler_Stats lb rq = with_user rq (\<lambda>_. with_client rq (\<lambda>clientID.
     let raw = TrimSpace (rq_Query rq ''campaignId'') in
     (if raw = [] then (\<lambda>f. f None) else (\<lambda>f. with_uuid lb raw (message 400 ''Invalid campaign id'') (f \<circ> Some)))
       (\<lambda>campaignID.
     bindC nowC (\<lambda>now.
     with_period (parseMediaStatsPeriod now (rq_Query rq ''from'') (rq_Query rq ''to'')) (\<lambda>(from, to).
     tryC (GetMediaStats clientID campaignID from to) (\<lambda>_. message 500 ''Failed to get media stats'')
       (\<lambda>stats. respond 200 (Json stats)))))))"

definition MediaHandler_GetByID :: "libs \<Rightarrow> 'b request \<Rightarrow> media_detail response app" where
  "MediaHandler_GetByID lb rq = with_user rq (\<lambda>_. with_client rq (\<lambda>clientID.
     with_uuid lb (rq_Param rq ''id'') (message 400 ''Invalid media id'') (\<lambda>i.
     tryC (GetMediaByID i clientID)
       (\<lambda>e. if is_error e ''media not found'' then message 404 ''Media not found'' else message 500 ''Failed to get media'')
       (\<lambda>view. respond 200 (Json view)))))"

definition media_status_error :: "go_error \<Rightarrow> 'a response app" where
  "media_status_error e = sendStatus (if is_error e ''media not found'' then 404 else 500)"

definition MediaHandler_GetThumbnail :: "libs \<Rightarrow> 'b request \<Rightarrow> picture response app" where
  "MediaHandler_GetThumbnail lb rq = with_user rq (\<lambda>_. with_client rq (\<lambda>clientID.
     with_uuid lb (rq_Param rq ''id'') (sendStatus 404) (\<lambda>i.
     tryC (GetMediaByID i clientID) media_status_error (\<lambda>view. let m = md_Media view in
     bindC (askC en_uuid_string) (\<lambda>us.
     send_thumbnail (NewThumbnailKey us (m_ClientID m) (m_CampaignID m) (m_ID m)) (m_UpdatedAt m))))))"

text \<open>The first content with the identifier decides.\<close>

definition content_picture :: "uuid \<Rightarrow> content list \<Rightarrow> (string \<times> gotime) option" where
  "content_picture contentID contents = (case find (\<lambda>c. c_ID c = contentID) contents of None \<Rightarrow> None
     | Some c \<Rightarrow> (case c_ThumbnailKey c of None \<Rightarrow> None
        | Some key \<Rightarrow> if key = [] then None else Some (key, c_UpdatedAt c)))"

definition MediaHandler_GetContentThumbnail :: "libs \<Rightarrow> 'b request \<Rightarrow> picture response app" where
  "MediaHandler_GetContentThumbnail lb rq = with_user rq (\<lambda>_. with_client rq (\<lambda>clientID.
     with_uuid lb (rq_Param rq ''id'') (sendStatus 404) (\<lambda>mediaID.
     with_uuid lb (rq_Param rq ''contentId'') (sendStatus 404) (\<lambda>contentID.
     tryC (GetMediaByID mediaID clientID) media_status_error (\<lambda>view.
     case content_picture contentID (md_Contents view) of None \<Rightarrow> sendStatus 404
     | Some (key, updatedAt) \<Rightarrow> send_thumbnail key updatedAt)))))"

section \<open>Activity, realtime, plans\<close>

definition ActivityHandler_List :: "libs \<Rightarrow> 'b request \<Rightarrow> activity page response app" where
  "ActivityHandler_List lb rq = with_user rq (\<lambda>_. with_client rq (\<lambda>clientID. with_page rq (\<lambda>q.
     with_filter ''Invalid campaign ids'' ''campaignIds'' (parseUUIDFilters (lb_ParseUUID lb) (rq_List rq ''campaignIds'')) (\<lambda>campaignIDs.
     optional_period rq (\<lambda>from to.
     let q = page_query ''occurred_at'' ''desc'' q in
     tryC (ListActivitiesByClient clientID campaignIDs from to q) (list_error ''Failed to list activity'') (\<lambda>(views, n).
     respond 200 (Json (NewPaginateResponse views n q))))))))"

text \<open>\<open>NewConnectionInfo\<close>: the channels of the user, and a token that \<open>sign\<close> makes for his identifier,
  the end of its validity in seconds and these channels.\<close>

record connection_info =
  ci_Token :: string
  ci_Channel :: string
  ci_Channels :: "(string \<times> string) list"

definition unix_seconds :: "gotime \<Rightarrow> int" where
  "unix_seconds t = (t - unix_epoch) div Second"

definition NewConnectionInfo :: "(string \<Rightarrow> int \<Rightarrow> string list \<Rightarrow> string res) \<Rightarrow> uuid \<Rightarrow> connection_info app" where
  "NewConnectionInfo sign userID = bindC (askC en_uuid_string) (\<lambda>us. bindC nowC (\<lambda>now.
     bindC (mapErrC (Wrapped ''failed to sign centrifugo token'')
        (liftC (sign (us userID) (unix_seconds (now + 24 * Hour)) (UserSubscribeChannels us userID)))) (\<lambda>token.
     returnC \<lparr>ci_Token = token, ci_Channel = UserChannel us userID,
       ci_Channels = [(''account'', UserChannel us userID), (''media'', UserMediaChannel us userID),
         (''content'', UserContentChannel us userID), (''activity'', UserActivityChannel us userID)]\<rparr>)))"

definition RealtimeHandler_GetConnection :: "(string \<Rightarrow> int \<Rightarrow> string list \<Rightarrow> string res) \<Rightarrow> 'b request \<Rightarrow> connection_info response app" where
  "RealtimeHandler_GetConnection sign rq = with_user rq (\<lambda>u.
     tryC (NewConnectionInfo sign (u_ID u)) (\<lambda>_. message 500 ''Failed to create realtime connection'')
       (\<lambda>connection. respond 200 (Json connection)))"

definition PlanHandler_List :: "'b request \<Rightarrow> (plan \<times> quota option) list response app" where
  "PlanHandler_List rq = tryC ListActivePlans (\<lambda>_. message 500 ''Failed to list plans'') (\<lambda>views. respond 200 (Json views))"

section \<open>Subscriptions and invoices\<close>

type_synonym subscription_view = "subscription \<times> (plan \<times> quota option) option"

definition subscription_error :: "string \<Rightarrow> go_error \<Rightarrow> 'a response app" where
  "subscription_error m e = (if errors_is e ErrSubscriptionNotFound then message 404 ''Subscription not found''
     else message 500 m)"

definition SubscriptionHandler_GetSubscription :: "'b request \<Rightarrow> subscription_view response app" where
  "SubscriptionHandler_GetSubscription rq = with_user rq (\<lambda>_. with_workspace rq (\<lambda>_ workspaceID.
     tryC (GetCurrentSubscription workspaceID) (subscription_error ''Failed to get subscription'')
       (\<lambda>view. respond 200 (Json view))))"

definition SubscriptionHandler_GetQuota :: "'b request \<Rightarrow> quota_usage response app" where
  "SubscriptionHandler_GetQuota rq = with_user rq (\<lambda>_. with_workspace rq (\<lambda>clientID _.
     tryC (GetQuotaUsage clientID) (subscription_error ''Failed to get quota usage'')
       (\<lambda>usage. respond 200 (Json usage))))"

definition not_for_sale :: "sentinel list" where
  "not_for_sale = [ErrPlanInactive, ErrFreePlanCheckout, ErrMissingStripePrice, ErrAlreadyOnPlan]"

definition SubscriptionHandler_PreviewSubscription :: "libs \<Rightarrow> subscription_gateway \<Rightarrow> string request
    \<Rightarrow> plan_change_preview response app" where
  "SubscriptionHandler_PreviewSubscription lb g rq = with_user rq (\<lambda>_. with_workspace rq (\<lambda>_ workspaceID.
     BindBody rq (lb_IsUUID lb) (\<lambda>raw. with_uuid lb raw (message 400 ''Invalid planId'') (\<lambda>planID.
     tryC (PreviewPlanChange g workspaceID planID)
       (\<lambda>e. if errors_is e QueryErrPlanNotFound then message 404 ''Plan not found''
            else if list_ex (errors_is e) not_for_sale then message 400 (Error e)
            else message 500 ''Failed to preview plan change'')
       (\<lambda>preview. respond 200 (Json preview))))))"

record subscribe_request =
  sq_PlanID :: string
  sq_ProrationDate :: "int option"

definition valid_subscribe :: "libs \<Rightarrow> subscribe_request \<Rightarrow> bool" where
  "valid_subscribe lb b \<longleftrightarrow> lb_IsUUID lb (sq_PlanID b) \<and>
     (case sq_ProrationDate b of None \<Rightarrow> True | Some t \<Rightarrow> 0 \<le> t)"

definition SubscriptionHandler_CreateSubscription :: "libs \<Rightarrow> subscription_gateway \<Rightarrow> (string \<Rightarrow> string app)
    \<Rightarrow> (checkout_request \<Rightarrow> string app) \<Rightarrow> subscribe_request request \<Rightarrow> string option response app" where
  "SubscriptionHandler_CreateSubscription lb g fetchEmail checkout rq = with_user rq (\<lambda>u. with_workspace rq (\<lambda>_ workspaceID.
     BindBody rq (valid_subscribe lb) (\<lambda>b. with_uuid lb (sq_PlanID b) (message 400 ''Invalid planId'') (\<lambda>planID.
     tryC (CreateSubscription g fetchEmail checkout workspaceID (u_ID u) planID (sq_ProrationDate b))
       (\<lambda>e. if errors_is e QueryErrPlanNotFound \<or> errors_is e ErrSubscriptionNotFound then message 404 (Error e)
            else if errors_is e ErrNotWorkspaceOwner then message 403 ''Only the workspace owner can manage billing''
            else if list_ex (errors_is e) not_for_sale then message 400 (Error e)
            else message 500 ''Internal server error'')
       (\<lambda>result. respond 200 (Json result))))))"

definition SubscriptionHandler_CreateBillingPortal :: "(string \<Rightarrow> string app) \<Rightarrow> 'b request \<Rightarrow> string response app" where
  "SubscriptionHandler_CreateBillingPortal portal rq = with_user rq (\<lambda>u. with_workspace rq (\<lambda>_ workspaceID.
     tryC (CreateBillingPortal portal workspaceID (u_ID u))
       (\<lambda>e. if errors_is e ErrSubscriptionNotFound then message 404 ''Subscription not found''
            else if errors_is e ErrNotWorkspaceOwner then message 403 ''Only the workspace owner can manage billing''
            else if errors_is e ErrMissingStripeCustomer then message 400 ''Workspace has no Stripe customer''
            else if errors_is e ErrFreePlanBillingPortal then message 400 (Error e)
            else message 500 ''Internal server error'')
       (\<lambda>url. respond 200 (Json url))))"

definition InvoiceHandler_GetInvoices :: "libs \<Rightarrow> 'b request \<Rightarrow> invoice page response app" where
  "InvoiceHandler_GetInvoices lb rq = with_user rq (\<lambda>_. with_workspace rq (\<lambda>_ workspaceID. with_page rq (\<lambda>q.
     let q = page_query ''stripe_created_at'' ''desc'' q in
     tryC (ListInvoices (lb_Collation lb) workspaceID q) (\<lambda>_. message 500 ''Failed to list invoices'') (\<lambda>(invoices, n).
     respond 200 (Json (NewPaginateResponse invoices n q))))))"

end
