(* ===== verification/Presenter.thy ===== *)
theory Presenter
  imports Handlers
begin

text \<open>
  The views as they are rendered (\<open>src/internal/interfaces/http/presenter\<close>): a record per response, whose
  fields are the members of the JSON object. A pointer that may be nil is an option; \<open>us\<close> writes a
  UUID out. The list of JSON members that are left out when they are empty is not part of the model.
\<close>

section \<open>Helpers\<close>

definition optionalNonEmptyString :: "string \<Rightarrow> string option" where
  "optionalNonEmptyString value = (if value = [] then None else Some value)"

definition optionalTime :: "gotime \<Rightarrow> gotime option" where
  "optionalTime value = (if IsZero value then None else Some value)"

definition optionalUUIDString :: "(uuid \<Rightarrow> string) \<Rightarrow> uuid option \<Rightarrow> string option" where
  "optionalUUIDString us i = map_option us i"

text \<open>The query of a picture's URL: the time of the last change in nanoseconds.\<close>

definition versioned :: "string \<Rightarrow> int \<Rightarrow> string" where
  "versioned path v = path @ ''/thumbnail?v='' @ int_string v"

section \<open>Campaigns\<close>

record campaign_response =
  cr_ID :: string
  cr_ClientID :: string
  cr_Name :: string
  cr_IsDefault :: bool
  cr_BackgroundStatus :: string
  cr_BackgroundThumbnailURL :: string
  cr_StartAt :: "gotime option"
  cr_EndAt :: "gotime option"
  cr_MediaCounts :: campaign_counts
  cr_CreatedAt :: gotime
  cr_UpdatedAt :: gotime

definition backgroundStatusOrNone :: "string \<Rightarrow> string" where
  "backgroundStatusOrNone status = (if status = [] then BackgroundStatusNone else status)"

definition backgroundThumbnailURL :: "string \<Rightarrow> string \<Rightarrow> string \<Rightarrow> gotime \<Rightarrow> string" where
  "backgroundThumbnailURL campaignID status thumbnailKey updatedAt =
    (if thumbnailKey = [] then []
     else if status \<noteq> BackgroundStatusReady \<and> status \<noteq> BackgroundStatusPending then []
     else versioned (''/api/campaigns/'' @ campaignID) (unix_seconds updatedAt))"

definition render_campaign :: "(uuid \<Rightarrow> string) \<Rightarrow> campaign_counts \<Rightarrow> campaign \<Rightarrow> campaign_response" where
  "render_campaign us counts c = \<lparr>cr_ID = us (cp_ID c), cr_ClientID = us (cp_ClientID c), cr_Name = cp_Name c,
     cr_IsDefault = cp_IsDefault c, cr_BackgroundStatus = backgroundStatusOrNone (cp_BackgroundStatus c),
     cr_BackgroundThumbnailURL = backgroundThumbnailURL (us (cp_ID c)) (cp_BackgroundStatus c)
       (cp_BackgroundThumbnailKey c) (cp_UpdatedAt c),
     cr_StartAt = cp_StartAt c, cr_EndAt = cp_EndAt c, cr_MediaCounts = counts, cr_CreatedAt = cp_CreatedAt c,
     cr_UpdatedAt = cp_UpdatedAt c\<rparr>"

definition NewCampaignDetailResponseFromView :: "(uuid \<Rightarrow> string) \<Rightarrow> campaign_view \<Rightarrow> campaign_response" where
  "NewCampaignDetailResponseFromView us v = render_campaign us (snd v) (fst v)"

definition NewCampaignDetailResponseFromEntity :: "(uuid \<Rightarrow> string) \<Rightarrow> campaign \<Rightarrow> campaign_response" where
  "NewCampaignDetailResponseFromEntity us c = render_campaign us no_counts c"

definition NewCampaignListResponseFromViews :: "(uuid \<Rightarrow> string) \<Rightarrow> campaign_view list \<Rightarrow> campaign_response list" where
  "NewCampaignListResponseFromViews us = List.map (NewCampaignDetailResponseFromView us)"

section \<open>Medias\<close>

record media_verdict_response =
  vr_Label :: string
  vr_FlaggedCount :: int
  vr_TotalCount :: int
  vr_FailedCount :: int

record media_campaign_response =
  mc_ID :: string
  mc_Name :: string
  mc_BackgroundStatus :: string
  mc_BackgroundThumbnailURL :: string
  mc_StartAt :: "gotime option"
  mc_EndAt :: "gotime option"

record media_item_response =
  mi_ID :: string
  mi_CampaignID :: string
  mi_Filename :: string
  mi_MediaType :: string
  mi_Status :: string
  mi_FailureReason :: string
  mi_Verdict :: "media_verdict_response option"
  mi_ThumbnailURL :: "string option"
  mi_Campaign :: "media_campaign_response option"
  mi_CreatedAt :: gotime
  mi_UpdatedAt :: gotime
  mi_AnalyzedAt :: "gotime option"

definition verdict_response :: "media_verdict \<Rightarrow> media_verdict_response" where
  "verdict_response v = \<lparr>vr_Label = label_string (mv_Label v), vr_FlaggedCount = mv_FlaggedCount v,
     vr_TotalCount = mv_TotalCount v, vr_FailedCount = mv_FailedCount v\<rparr>"

text \<open>Only an image has a picture of its own.\<close>

definition media_thumbnail_url :: "(uuid \<Rightarrow> string) \<Rightarrow> media \<Rightarrow> string option" where
  "media_thumbnail_url us v = (if m_MediaType v = MediaTypeImage
     then Some (versioned (''/api/medias/'' @ us (m_ID v)) (m_UpdatedAt v - unix_epoch)) else None)"

definition mediaCampaignResponse :: "(uuid \<Rightarrow> string) \<Rightarrow> campaign option \<Rightarrow> media_campaign_response option" where
  "mediaCampaignResponse us campaign = (case campaign of None \<Rightarrow> None | Some c \<Rightarrow>
     if cp_IsDefault c then None else Some \<lparr>mc_ID = us (cp_ID c), mc_Name = cp_Name c,
       mc_BackgroundStatus = backgroundStatusOrNone (cp_BackgroundStatus c),
       mc_BackgroundThumbnailURL = backgroundThumbnailURL (us (cp_ID c)) (cp_BackgroundStatus c)
         (cp_BackgroundThumbnailKey c) (cp_UpdatedAt c),
       mc_StartAt = cp_StartAt c, mc_EndAt = cp_EndAt c\<rparr>)"

text \<open>The campaigns of a list, keyed by their identifier.\<close>

definition render_media_item :: "(uuid \<Rightarrow> string) \<Rightarrow> (uuid \<Rightarrow> campaign option) \<Rightarrow> media \<Rightarrow> media_item_response" where
  "render_media_item us campaigns v = \<lparr>mi_ID = us (m_ID v), mi_CampaignID = us (m_CampaignID v),
     mi_Filename = m_Filename v, mi_MediaType = media_type_string (m_MediaType v),
     mi_Status = media_status_string (m_Status v), mi_FailureReason = m_FailureReason v,
     mi_Verdict = map_option verdict_response (m_Verdict v), mi_ThumbnailURL = media_thumbnail_url us v,
     mi_Campaign = mediaCampaignResponse us (campaigns (m_CampaignID v)), mi_CreatedAt = m_CreatedAt v,
     mi_UpdatedAt = m_UpdatedAt v, mi_AnalyzedAt = m_AnalyzedAt v\<rparr>"

definition NewMediaListResponseFromViews :: "(uuid \<Rightarrow> string) \<Rightarrow> media list \<Rightarrow> (uuid \<Rightarrow> campaign option) \<Rightarrow> media_item_response list" where
  "NewMediaListResponseFromViews us views campaigns = List.map (render_media_item us campaigns) views"

record content_verdict_response =
  cv_Label :: string
  cv_Confidence :: rat
  cv_Signals :: "signal list"

record analysis_response =
  ar_ID :: string
  ar_DetectorName :: string
  ar_Status :: result_status
  ar_Error :: string
  ar_Signals :: "signal list"
  ar_StartedAt :: gotime
  ar_CompletedAt :: gotime
  ar_RulesetVersion :: "int option"

record content_child_response =
  cc_ID :: string
  cc_MediaID :: string
  cc_FrameIndex :: "int option"
  cc_TimestampMs :: "int option"
  cc_ObjectKey :: string
  cc_SizeBytes :: "int option"
  cc_Status :: string
  cc_ThumbnailURL :: "string option"
  cc_CreatedAt :: gotime
  cc_UpdatedAt :: gotime
  cc_Verdict :: "content_verdict_response option"
  cc_Analysis :: "analysis_response list"

definition render_analysis :: "(uuid \<Rightarrow> string) \<Rightarrow> result \<Rightarrow> analysis_response" where
  "render_analysis us ar = \<lparr>ar_ID = us (r_ID ar), ar_DetectorName = r_DetectorName ar, ar_Status = r_Status ar,
     ar_Error = r_Error ar, ar_Signals = r_Signals ar, ar_StartedAt = r_StartedAt ar,
     ar_CompletedAt = r_CompletedAt ar, ar_RulesetVersion = r_RulesetVersion ar\<rparr>"

definition content_thumbnail_url :: "(uuid \<Rightarrow> string) \<Rightarrow> uuid \<Rightarrow> content \<Rightarrow> string option" where
  "content_thumbnail_url us mediaID c = (case c_ThumbnailKey c of None \<Rightarrow> None
     | Some key \<Rightarrow> if key = [] then None else Some (versioned (''/api/medias/'' @ us mediaID @ ''/contents/'' @ us (c_ID c))
         (c_UpdatedAt c - unix_epoch)))"

text \<open>The verdict of a content carries the signals of all its detectors, in their order.\<close>

definition content_child :: "(uuid \<Rightarrow> string) \<Rightarrow> uuid \<Rightarrow> result list \<Rightarrow> content \<Rightarrow> content_child_response" where
  "content_child us mediaID results c = \<lparr>cc_ID = us (c_ID c), cc_MediaID = us (c_MediaID c),
     cc_FrameIndex = c_FrameIndex c, cc_TimestampMs = c_TimestampMs c, cc_ObjectKey = c_ObjectKey c,
     cc_SizeBytes = c_SizeBytes c, cc_Status = content_status_string (c_Status c),
     cc_ThumbnailURL = content_thumbnail_url us mediaID c, cc_CreatedAt = c_CreatedAt c, cc_UpdatedAt = c_UpdatedAt c,
     cc_Verdict = (case c_Label c of None \<Rightarrow> None | Some l \<Rightarrow> if label_string l = [] then None else
       Some \<lparr>cv_Label = label_string l, cv_Confidence = (case c_Confidence c of None \<Rightarrow> 0 | Some x \<Rightarrow> x),
         cv_Signals = concat (List.map r_Signals results)\<rparr>),
     cc_Analysis = List.map (render_analysis us) results\<rparr>"

record media_detail_response =
  dr_ID :: string
  dr_CampaignID :: string
  dr_ClientID :: string
  dr_Filename :: string
  dr_ContentType :: string
  dr_MediaType :: string
  dr_ObjectKey :: string
  dr_SizeBytes :: "int option"
  dr_Status :: string
  dr_FailureReason :: string
  dr_Verdict :: "media_verdict_response option"
  dr_ThumbnailURL :: "string option"
  dr_Campaign :: "media_campaign_response option"
  dr_Contents :: "content_child_response list"
  dr_CreatedAt :: gotime
  dr_UpdatedAt :: gotime
  dr_AnalyzedAt :: "gotime option"

definition results_for :: "(uuid \<times> result list) list \<Rightarrow> uuid \<Rightarrow> result list" where
  "results_for analysis i = (case map_of analysis i of None \<Rightarrow> [] | Some rs \<Rightarrow> rs)"

definition NewMediaDetailResponse :: "(uuid \<Rightarrow> string) \<Rightarrow> media_detail \<Rightarrow> media_detail_response" where
  "NewMediaDetailResponse us d = (let v = md_Media d in
     \<lparr>dr_ID = us (m_ID v), dr_CampaignID = us (m_CampaignID v), dr_ClientID = us (m_ClientID v),
      dr_Filename = m_Filename v, dr_ContentType = m_ContentType v, dr_MediaType = media_type_string (m_MediaType v),
      dr_ObjectKey = m_ObjectKey v, dr_SizeBytes = m_SizeBytes v, dr_Status = media_status_string (m_Status v),
      dr_FailureReason = m_FailureReason v, dr_Verdict = map_option verdict_response (m_Verdict v),
      dr_ThumbnailURL = media_thumbnail_url us v, dr_Campaign = mediaCampaignResponse us (map_option fst (md_Campaign d)),
      dr_Contents = List.map (\<lambda>c. content_child us (m_ID v) (results_for (md_Analysis d) (c_ID c)) c) (md_Contents d),
      dr_CreatedAt = m_CreatedAt v, dr_UpdatedAt = m_UpdatedAt v, dr_AnalyzedAt = m_AnalyzedAt v\<rparr>)"

record presign_item_response =
  ps_MediaID :: string
  ps_URL :: string
  ps_ObjectKey :: string
  ps_Filename :: string
  ps_MediaType :: string

definition render_presign_item :: "(uuid \<Rightarrow> string) \<Rightarrow> presign_item \<Rightarrow> presign_item_response" where
  "render_presign_item us i = \<lparr>ps_MediaID = us (pi_MediaID i), ps_URL = pi_URL i, ps_ObjectKey = pi_ObjectKey i,
     ps_Filename = pi_Filename i, ps_MediaType = media_type_string (pi_MediaType i)\<rparr>"

definition NewPresignMediaResponse :: "(uuid \<Rightarrow> string) \<Rightarrow> uuid \<times> presign_item list \<Rightarrow> string \<times> presign_item_response list" where
  "NewPresignMediaResponse us = (\<lambda>(campaignID, items). (us campaignID, List.map (render_presign_item us) items))"

text \<open>The statistics: the day of a row is written out, the rest is copied.\<close>

record daily_response =
  dd_Day :: string
  dd_Counts :: campaign_counts

record media_stats_response =
  sr_Counts :: campaign_counts
  sr_From :: gotime
  sr_To :: gotime
  sr_DailyControls :: "daily_response list"
  sr_KPIs :: dashboard_kpis

definition NewMediaStatsResponse :: "media_stats \<Rightarrow> media_stats_response" where
  "NewMediaStatsResponse stats = \<lparr>sr_Counts = ms_Counts stats, sr_From = ms_From stats, sr_To = ms_To stats,
     sr_DailyControls = List.map (\<lambda>(day, counts). \<lparr>dd_Day = FormatDate day, dd_Counts = counts\<rparr>) (ms_Daily stats),
     sr_KPIs = ms_KPIs stats\<rparr>"

section \<open>Clients, users and activities\<close>

record client_response =
  clr_ID :: string
  clr_Name :: string
  clr_WorkspaceID :: string
  clr_IsActive :: bool
  clr_MemberIDs :: "string list"
  clr_CreatedAt :: gotime
  clr_UpdatedAt :: gotime

definition isCurrentClient :: "uuid \<Rightarrow> uuid option \<Rightarrow> bool" where
  "isCurrentClient clientID currentClientID \<longleftrightarrow> currentClientID = Some clientID"

definition NewClientDetailResponse :: "(uuid \<Rightarrow> string) \<Rightarrow> client \<times> uuid option \<Rightarrow> client_response" where
  "NewClientDetailResponse us = (\<lambda>(c, current). \<lparr>clr_ID = us (cl_ID c), clr_Name = cl_Name c,
     clr_WorkspaceID = us (cl_WorkspaceID c), clr_IsActive = isCurrentClient (cl_ID c) current,
     clr_MemberIDs = List.map us (cl_MemberIDs c), clr_CreatedAt = cl_CreatedAt c, clr_UpdatedAt = cl_UpdatedAt c\<rparr>)"

definition NewClientListResponseFromViews :: "(uuid \<Rightarrow> string) \<Rightarrow> client list \<Rightarrow> uuid option \<Rightarrow> client_response list" where
  "NewClientListResponseFromViews us views current = List.map (\<lambda>v. NewClientDetailResponse us (v, current)) views"

record user_response =
  ur_ID :: string
  ur_ClerkID :: string
  ur_FirstName :: "string option"
  ur_LastName :: "string option"
  ur_Email :: string
  ur_CurrentClientID :: "string option"
  ur_CreatedAt :: gotime
  ur_UpdatedAt :: gotime

definition NewUserDetailResponse :: "(uuid \<Rightarrow> string) \<Rightarrow> user \<Rightarrow> user_response" where
  "NewUserDetailResponse us u = \<lparr>ur_ID = us (u_ID u), ur_ClerkID = u_ClerkID u,
     ur_FirstName = optionalNonEmptyString (u_FirstName u), ur_LastName = optionalNonEmptyString (u_LastName u),
     ur_Email = u_Email u, ur_CurrentClientID = optionalUUIDString us (u_CurrentClientID u),
     ur_CreatedAt = u_CreatedAt u, ur_UpdatedAt = u_UpdatedAt u\<rparr>"

record activity_response =
  acr_ID :: string
  acr_Type :: string
  acr_Message :: string
  acr_ActorType :: string
  acr_ActorName :: string
  acr_ActorUserID :: string
  acr_Payload :: "(string \<times> json) list"
  acr_OccurredAt :: gotime

definition render_activity :: "(uuid \<Rightarrow> string) \<Rightarrow> activity \<Rightarrow> activity_response" where
  "render_activity us a = \<lparr>acr_ID = us (a_ID a), acr_Type = a_Type a, acr_Message = a_Message a,
     acr_ActorType = a_ActorType a, acr_ActorName = a_ActorName a,
     acr_ActorUserID = (case a_ActorUserID a of None \<Rightarrow> [] | Some i \<Rightarrow> us i), acr_Payload = a_Payload a,
     acr_OccurredAt = a_OccurredAt a\<rparr>"

definition NewActivityListResponseFromViews :: "(uuid \<Rightarrow> string) \<Rightarrow> activity list \<Rightarrow> activity_response list" where
  "NewActivityListResponseFromViews us = List.map (render_activity us)"

text \<open>The address of the realtime server is configuration.\<close>

record realtime_response =
  rr_Token :: string
  rr_Channel :: string
  rr_Channels :: "(string \<times> string) list"
  rr_WSURL :: string

definition NewRealtimeConnectionResponse :: "string \<Rightarrow> connection_info \<Rightarrow> realtime_response" where
  "NewRealtimeConnectionResponse wsURL c = \<lparr>rr_Token = ci_Token c, rr_Channel = ci_Channel c,
     rr_Channels = ci_Channels c, rr_WSURL = wsURL\<rparr>"

section \<open>Quotas and plans\<close>

record quota_limits_response =
  ql_MaxFileSizeMB :: int
  ql_ReportRetentionDays :: int
  ql_AllowsVideoAnalysis :: bool
  ql_AllowsPDFExport :: bool
  ql_AllowsCSVExport :: bool
  ql_AllowsAPIAccess :: bool
  ql_OveragePriceCents :: int
  ql_AnalysisPriority :: int
  ql_MaxDetectorsPerAnalysis :: int
  ql_MaxFramesPerVideo :: int
  ql_AllowsReanalysis :: bool
  ql_MaxStorageGB :: int
  ql_MaxBatchUploadSize :: int
  ql_FrameRetentionDays :: int
  ql_AllowsCustomRuleset :: bool
  ql_AllowsWhiteLabelReport :: bool
  ql_AllowsWebhooks :: bool
  ql_QuotaOverageGraceVerifications :: int

definition render_limits :: "quota \<Rightarrow> quota_limits_response" where
  "render_limits q = \<lparr>ql_MaxFileSizeMB = q_MaxFileSizeMB q, ql_ReportRetentionDays = q_ReportRetentionDays q,
     ql_AllowsVideoAnalysis = q_AllowsVideoAnalysis q, ql_AllowsPDFExport = q_AllowsPDFExport q,
     ql_AllowsCSVExport = q_AllowsCSVExport q, ql_AllowsAPIAccess = q_AllowsAPIAccess q,
     ql_OveragePriceCents = q_OveragePriceCents q, ql_AnalysisPriority = q_AnalysisPriority q,
     ql_MaxDetectorsPerAnalysis = q_MaxDetectorsPerAnalysis q,
     ql_MaxFramesPerVideo = q_MaxFramesPerVideo q, ql_AllowsReanalysis = q_AllowsReanalysis q,
     ql_MaxStorageGB = q_MaxStorageGB q, ql_MaxBatchUploadSize = q_MaxBatchUploadSize q,
     ql_FrameRetentionDays = q_FrameRetentionDays q, ql_AllowsCustomRuleset = q_AllowsCustomRuleset q,
     ql_AllowsWhiteLabelReport = q_AllowsWhiteLabelReport q, ql_AllowsWebhooks = q_AllowsWebhooks q,
     ql_QuotaOverageGraceVerifications = q_QuotaOverageGraceVerifications q\<rparr>"

record quota_usage_response =
  qur_Members :: quota_counter
  qur_Campaigns :: quota_counter
  qur_Verifications :: "gotime \<times> gotime \<times> quota_counter"
  qur_ConcurrentAnalyses :: quota_counter
  qur_Storage :: quota_counter
  qur_Limits :: quota_limits_response
  qur_PeriodStart :: gotime
  qur_PeriodEnd :: gotime

definition NewQuotaUsageResponse :: "quota_usage \<Rightarrow> quota_usage_response" where
  "NewQuotaUsageResponse u = \<lparr>qur_Members = qu_Members u, qur_Campaigns = qu_Campaigns u,
     qur_Verifications = (qu_PeriodStart u, qu_PeriodEnd u, qu_Verifications u),
     qur_ConcurrentAnalyses = qu_ConcurrentAnalyses u, qur_Storage = qu_Storage u,
     qur_Limits = render_limits (qu_Limits u), qur_PeriodStart = qu_PeriodStart u, qur_PeriodEnd = qu_PeriodEnd u\<rparr>"

record quota_response =
  qr_ID :: string
  qr_Name :: string
  qr_MaxClientMembers :: int
  qr_MaxCampaigns :: int
  qr_MaxVerificationsPerMonth :: int
  qr_MaxConcurrentAnalyses :: int
  qr_Limits :: quota_limits_response
  qr_CreatedAt :: gotime
  qr_UpdatedAt :: gotime

text \<open>The response repeats the members of the limits; a plan without a quota shows one of zeros.\<close>

definition NewQuotaResponseFromView :: "(uuid \<Rightarrow> string) \<Rightarrow> quota \<Rightarrow> quota_response" where
  "NewQuotaResponseFromView us q = \<lparr>qr_ID = us (q_ID q), qr_Name = q_Name q, qr_MaxClientMembers = q_MaxClientMembers q,
     qr_MaxCampaigns = q_MaxCampaigns q, qr_MaxVerificationsPerMonth = q_MaxVerificationsPerMonth q,
     qr_MaxConcurrentAnalyses = q_MaxConcurrentAnalyses q, qr_Limits = render_limits q,
     qr_CreatedAt = q_CreatedAt q, qr_UpdatedAt = q_UpdatedAt q\<rparr>"

definition no_quota :: quota_response where
  "no_quota = \<lparr>qr_ID = [], qr_Name = [], qr_MaxClientMembers = 0, qr_MaxCampaigns = 0, qr_MaxVerificationsPerMonth = 0,
     qr_MaxConcurrentAnalyses = 0, qr_Limits = \<lparr>ql_MaxFileSizeMB = 0, ql_ReportRetentionDays = 0, ql_AllowsVideoAnalysis = False,
     ql_AllowsPDFExport = False, ql_AllowsCSVExport = False, ql_AllowsAPIAccess = False,
     ql_OveragePriceCents = 0, ql_AnalysisPriority = 0, ql_MaxDetectorsPerAnalysis = 0,
     ql_MaxFramesPerVideo = 0, ql_AllowsReanalysis = False, ql_MaxStorageGB = 0,
     ql_MaxBatchUploadSize = 0, ql_FrameRetentionDays = 0, ql_AllowsCustomRuleset = False,
     ql_AllowsWhiteLabelReport = False, ql_AllowsWebhooks = False, ql_QuotaOverageGraceVerifications = 0\<rparr>,
     qr_CreatedAt = 0, qr_UpdatedAt = 0\<rparr>"

record plan_response =
  pl_ID :: string
  pl_Name :: string
  pl_Description :: "string option"
  pl_Slug :: string
  pl_StripePriceID :: "string option"
  pl_IsActive :: bool
  pl_BillingInterval :: billing_interval
  pl_Price :: rat
  pl_Currency :: currency
  pl_QuotaID :: string
  pl_Quota :: quota_response
  pl_CreatedAt :: gotime
  pl_UpdatedAt :: gotime

definition NewPlanResponseFromView :: "(uuid \<Rightarrow> string) \<Rightarrow> plan \<times> quota option \<Rightarrow> plan_response" where
  "NewPlanResponseFromView us = (\<lambda>(p, q). \<lparr>pl_ID = us (p_ID p), pl_Name = p_Name p,
     pl_Description = optionalNonEmptyString (p_Description p), pl_Slug = p_Slug p,
     pl_StripePriceID = optionalNonEmptyString (p_StripePriceID p), pl_IsActive = p_IsActive p,
     pl_BillingInterval = p_BillingInterval p, pl_Price = p_Price p, pl_Currency = p_Currency p,
     pl_QuotaID = us (p_QuotaID p),
     pl_Quota = (case q of None \<Rightarrow> no_quota | Some q \<Rightarrow> NewQuotaResponseFromView us q),
     pl_CreatedAt = p_CreatedAt p, pl_UpdatedAt = p_UpdatedAt p\<rparr>)"

definition NewPlanListResponseFromViews :: "(uuid \<Rightarrow> string) \<Rightarrow> (plan \<times> quota option) list \<Rightarrow> plan_response list" where
  "NewPlanListResponseFromViews us = List.map (NewPlanResponseFromView us)"

section \<open>Subscriptions and invoices\<close>

record subscription_response =
  sur_ID :: string
  sur_Status :: string
  sur_StripeCustomerID :: "string option"
  sur_StripeSubscriptionID :: "string option"
  sur_StartDate :: gotime
  sur_EndDate :: "gotime option"
  sur_CancelAtPeriodEnd :: bool
  sur_QuotaPeriodStart :: gotime
  sur_Plan :: "plan_response option"
  sur_CreatedAt :: gotime
  sur_UpdatedAt :: gotime

definition NewSubscriptionResponse :: "(uuid \<Rightarrow> string) \<Rightarrow> subscription_view \<Rightarrow> subscription_response" where
  "NewSubscriptionResponse us = (\<lambda>(s, plan). \<lparr>sur_ID = us (s_ID s), sur_Status = sub_status_string (s_Status s),
     sur_StripeCustomerID = optionalNonEmptyString (s_StripeCustomerID s),
     sur_StripeSubscriptionID = optionalNonEmptyString (s_StripeSubscriptionID s), sur_StartDate = s_StartDate s,
     sur_EndDate = optionalTime (s_EndDate s), sur_CancelAtPeriodEnd = s_CancelAtPeriodEnd s,
     sur_QuotaPeriodStart = s_QuotaPeriodStart s, sur_Plan = map_option (NewPlanResponseFromView us) plan,
     sur_CreatedAt = s_CreatedAt s, sur_UpdatedAt = s_UpdatedAt s\<rparr>)"

record invoice_response =
  ir_ID :: string
  ir_WorkspaceID :: string
  ir_SubscriptionID :: "string option"
  ir_StripeInvoiceID :: "string option"
  ir_Number :: "string option"
  ir_Status :: "string option"
  ir_Currency :: "string option"
  ir_AmountDue :: int
  ir_AmountPaid :: int
  ir_Total :: int
  ir_HostedInvoiceURL :: "string option"
  ir_InvoicePDF :: "string option"
  ir_BillingReason :: "string option"
  ir_Description :: "string option"
  ir_AttemptCount :: int
  ir_PeriodStart :: gotime
  ir_PeriodEnd :: gotime
  ir_PaidAt :: "gotime option"
  ir_StripeCreatedAt :: gotime
  ir_CreatedAt :: gotime
  ir_UpdatedAt :: gotime

definition NewInvoiceResponse :: "(uuid \<Rightarrow> string) \<Rightarrow> invoice \<Rightarrow> invoice_response" where
  "NewInvoiceResponse us i = \<lparr>ir_ID = us (i_ID i), ir_WorkspaceID = us (i_WorkspaceID i),
     ir_SubscriptionID = map_option us (i_SubscriptionID i), ir_StripeInvoiceID = optionalNonEmptyString (i_StripeInvoiceID i),
     ir_Number = optionalNonEmptyString (i_Number i), ir_Status = optionalNonEmptyString (i_Status i),
     ir_Currency = optionalNonEmptyString (i_Currency i), ir_AmountDue = i_AmountDue i, ir_AmountPaid = i_AmountPaid i,
     ir_Total = i_Total i, ir_HostedInvoiceURL = optionalNonEmptyString (i_HostedInvoiceURL i),
     ir_InvoicePDF = optionalNonEmptyString (i_InvoicePDF i), ir_BillingReason = optionalNonEmptyString (i_BillingReason i),
     ir_Description = optionalNonEmptyString (i_Description i), ir_AttemptCount = i_AttemptCount i,
     ir_PeriodStart = i_PeriodStart i, ir_PeriodEnd = i_PeriodEnd i, ir_PaidAt = i_PaidAt i,
     ir_StripeCreatedAt = i_StripeCreatedAt i, ir_CreatedAt = i_CreatedAt i, ir_UpdatedAt = i_UpdatedAt i\<rparr>"

definition NewInvoiceResponses :: "(uuid \<Rightarrow> string) \<Rightarrow> invoice list \<Rightarrow> invoice_response list" where
  "NewInvoiceResponses us = List.map (NewInvoiceResponse us)"

text \<open>A preview without a proration shows the currency of the target plan and no amounts.\<close>

record plan_change_response =
  pcr_RequiresCheckout :: bool
  pcr_Currency :: "string option"
  pcr_AmountDue :: int
  pcr_Subtotal :: int
  pcr_Total :: int
  pcr_ProrationDate :: "int option"
  pcr_PeriodStart :: gotime
  pcr_PeriodEnd :: gotime
  pcr_Lines :: "(string option \<times> int \<times> bool) list"
  pcr_CurrentPlanID :: "string option"
  pcr_CurrentPlanSlug :: "string option"
  pcr_TargetPlanID :: string
  pcr_TargetPlanSlug :: string
  pcr_TargetPlanName :: string
  pcr_TargetPlanPrice :: rat

fun currency_string :: "currency \<Rightarrow> string" where
  "currency_string CurrencyEUR = ''EUR''"
| "currency_string CurrencyUSD = ''USD''"
| "currency_string (CurrencyOther s) = s"

definition NewPlanChangePreviewResponse :: "(uuid \<Rightarrow> string) \<Rightarrow> plan_change_preview \<Rightarrow> plan_change_response" where
  "NewPlanChangePreviewResponse us pc =
    (let t = pc_TargetPlan pc; amounts = (case pc_Proration pc of Some pv \<Rightarrow> pv
       | None \<Rightarrow> \<lparr>pv_Currency = currency_string (p_Currency t), pv_AmountDue = 0, pv_Subtotal = 0, pv_Total = 0,
           pv_ProrationDate = 0, pv_PeriodStart = 0, pv_PeriodEnd = 0, pv_Lines = []\<rparr>) in
     \<lparr>pcr_RequiresCheckout = pc_RequiresCheckout pc, pcr_Currency = optionalNonEmptyString (pv_Currency amounts),
      pcr_AmountDue = pv_AmountDue amounts, pcr_Subtotal = pv_Subtotal amounts, pcr_Total = pv_Total amounts,
      pcr_ProrationDate = (if pv_ProrationDate amounts \<noteq> 0 then Some (pv_ProrationDate amounts) else None),
      pcr_PeriodStart = pv_PeriodStart amounts, pcr_PeriodEnd = pv_PeriodEnd amounts,
      pcr_Lines = List.map (\<lambda>(description, amount, proration). (optionalNonEmptyString description, amount, proration))
        (pv_Lines amounts),
      pcr_CurrentPlanID = optionalUUIDString us (pc_CurrentPlanID pc),
      pcr_CurrentPlanSlug = optionalNonEmptyString (pc_CurrentPlanSlug pc), pcr_TargetPlanID = us (p_ID t),
      pcr_TargetPlanSlug = p_Slug t, pcr_TargetPlanName = p_Name t, pcr_TargetPlanPrice = p_Price t\<rparr>)"

text \<open>A change either leads to a checkout page or is done.\<close>

definition NewChangeSubscriptionResponse :: "string option \<Rightarrow> string option \<times> bool" where
  "NewChangeSubscriptionResponse result = (case result of None \<Rightarrow> (None, True) | Some url \<Rightarrow> (optionalNonEmptyString url, False))"

section \<open>The links of a response\<close>

lemma backgroundThumbnailURL_shown: "backgroundThumbnailURL u st key t \<noteq> [] \<longleftrightarrow>
    key \<noteq> [] \<and> (st = BackgroundStatusReady \<or> st = BackgroundStatusPending)"
  by (auto simp: backgroundThumbnailURL_def versioned_def)

lemma find_distinct: "distinct (List.map f xs) \<Longrightarrow> x \<in> set xs \<Longrightarrow> find (\<lambda>y. f y = f x) xs = Some x"
  by (induction xs) auto

text \<open>The URL of a content is shown exactly when the handler finds a picture for it.\<close>

lemma content_thumbnail_url_shown:
  assumes "distinct (List.map c_ID contents)" and "c \<in> set contents"
  shows "content_thumbnail_url us i c \<noteq> None \<longleftrightarrow> content_picture (c_ID c) contents \<noteq> None"
  using find_distinct [OF assms] by (auto simp: content_thumbnail_url_def content_picture_def split: option.splits)

section \<open>Days\<close>

lemma digit_of_char: "k < 10 \<Longrightarrow> digit_of (char_of (48 + k :: nat)) = Some (int k)"
proof -
  assume k: "k < 10"
  have "(of_char (char_of (48 + k) :: char) :: int) = int (of_char (char_of (48 + k) :: char))" by (simp only: of_nat_of_char)
  then have "(of_char (char_of (48 + k) :: char) :: int) = 48 + int k" using k by (simp add: of_char_of)
  then show ?thesis using k by (simp add: digit_of_def Let_def)
qed

lemma digits_snoc: "atoi_digits (ds @ [c]) = 10 * atoi_digits ds + (case digit_of c of None \<Rightarrow> 0 | Some k \<Rightarrow> k)"
  by (simp add: atoi_digits_def)

lemma nat_digits_read: "atoi_digits (nat_digits n) = int n \<and> list_all is_digit (nat_digits n)"
proof (induction n rule: nat_digits.induct)
  case (1 n)
  show ?case
  proof (cases "n < 10")
    case True
    then show ?thesis
      by (simp add: nat_digits.simps [of n] atoi_digits_def digit_of_char is_digit_def)
  next
    case False
    have "10 * int (n div 10) + int (n mod 10) = int n" by presburger
    then show ?thesis
      using 1 [OF False] False
      by (simp add: nat_digits.simps [of n] digits_snoc digit_of_char is_digit_def)
  qed
qed

lemma nat_digits_length: "n < 10 ^ Suc w \<Longrightarrow> length (nat_digits n) \<le> Suc w"
proof (induction w arbitrary: n)
  case 0
  then show ?case by (simp add: nat_digits.simps [of n])
next
  case (Suc w)
  have "n div 10 < 10 ^ Suc w" using Suc.prems by (simp add: less_mult_imp_div_less)
  then show ?case using Suc.IH by (simp add: nat_digits.simps [of n])
qed

lemma zeros_read: "atoi_digits (replicate k (CHR ''0'') @ ds) = atoi_digits ds"
proof (induction k)
  case (Suc k)
  have "digit_of (CHR ''0'') = Some 0" by (simp add: digit_of_def)
  then show ?case using Suc by (simp add: atoi_digits_def)
qed simp

lemma pad_digits_read:
  assumes "0 \<le> n" and "n < 10 ^ Suc w"
  shows "atoi_digits (pad_digits (Suc w) n) = n" "list_all is_digit (pad_digits (Suc w) n)" "length (pad_digits (Suc w) n) = Suc w"
proof -
  have "nat n < 10 ^ Suc w" using assms by (simp add: nat_less_iff)
  then have "length (nat_digits (nat n)) \<le> Suc w" by (rule nat_digits_length)
  moreover have "is_digit (CHR ''0'')" by (simp add: is_digit_def digit_of_def)
  ultimately show "atoi_digits (pad_digits (Suc w) n) = n" "list_all is_digit (pad_digits (Suc w) n)"
    "length (pad_digits (Suc w) n) = Suc w"
    using nat_digits_read [of "nat n"] assms(1) by (auto simp: pad_digits_def Let_def zeros_read list_all_iff)
qed

lemma two_digits: "0 \<le> n \<Longrightarrow> n < 100 \<Longrightarrow> getnum True (pad_digits 2 n @ rest) = Some (n, rest)"
proof -
  assume n: "0 \<le> n" "n < 100"
  note r = pad_digits_read [of n 1, simplified, folded numeral_2_eq_2, OF n]
  then obtain a b where "pad_digits 2 n = [a, b]" by (auto simp: length_Suc_conv numeral_2_eq_2)
  with r show ?thesis by (simp add: getnum_def)
qed

text \<open>A day that is written out is read back as the first instant of that day.\<close>

lemma FormatDate_read_back:
  assumes "0 \<le> year_of day" and "year_of day \<le> 9999"
  shows "parse_date (FormatDate day) = Some (day * Day)"
proof -
  let ?y = "year_of day" and ?m = "month_of day" and ?d = "mday_of day"
  note year = pad_digits_read [of ?y 3, simplified]
  have m: "0 \<le> ?m" "?m < 100" "1 \<le> ?m" "?m \<le> 12" using month_range [of day] by simp_all
  have "days_in_month ?y ?m \<le> 31"
    by (auto simp: days_in_month_def days_before_month_def leap_day_def Let_def)
  then have d: "0 \<le> ?d" "?d < 100" "1 \<le> ?d" "?d \<le> days_in_month ?y ?m" using mday_range [of day] by simp_all
  have read: "parse_year (FormatDate day) = Some (?y, ''-'' @ pad_digits 2 ?m @ ''-'' @ pad_digits 2 ?d)"
    using year assms by (simp add: parse_year_def FormatDate_def FormatMonth_def)
  have "parse_ymd (FormatDate day) = Some (date_days ?y ?m ?d, [])"
    unfolding parse_ymd_def read
    using m d two_digits [OF m(1,2), of "''-'' @ pad_digits 2 ?d"] two_digits [OF d(1,2), of "[]"]
    by (simp add: skip_char_def ranged_def)
  then show ?thesis by (simp add: parse_date_def date_days_of_day)
qed

end
