(* ===== verification/Webhooks.thy ===== *)
theory Webhooks
  imports Handlers
begin

text \<open>
  The three webhooks of \<open>src/internal/interfaces/http\<close>: the identity provider reports users, the object
  store reports uploads, Stripe reports payments. Each has a middleware that checks the sender and a
  handler that maps what is reported to a command. The signature checks are the libraries': parameters
  that say whether a payload is accepted. A payload is what its JSON decodes to, or not at all.
\<close>

section \<open>Users of the identity provider\<close>

datatype 'd decoded = Undecodable | Decoded 'd

record clerk_data =
  kd_ID :: string
  kd_FirstName :: string
  kd_LastName :: string
  kd_Banned :: "bool option"
  kd_EmailAddresses :: "string list"

record clerk_event =
  ke_Type :: string
  ke_Data :: "clerk_data decoded"

text \<open>\<open>UnmarshalJSON\<close>: the address is the first one of the list.\<close>

definition kd_Email :: "clerk_data \<Rightarrow> string" where
  "kd_Email d = (case kd_EmailAddresses d of [] \<Rightarrow> [] | e # _ \<Rightarrow> e)"

definition valid_clerk_user :: "clerk_data \<Rightarrow> bool" where
  "valid_clerk_user d \<longleftrightarrow> kd_ID d \<noteq> [] \<and> kd_Banned d \<noteq> None"

definition valid_clerk_deleted :: "clerk_data \<Rightarrow> bool" where
  "valid_clerk_deleted d \<longleftrightarrow> kd_ID d \<noteq> []"

text \<open>The middleware: a bad signature and a payload that does not decode are both refused.\<close>

definition UserWebhook_Protected :: "bool \<Rightarrow> clerk_event decoded \<Rightarrow> (clerk_event \<Rightarrow> unit response app) \<Rightarrow> unit response app" where
  "UserWebhook_Protected verified payload next_handler =
    (if \<not> verified then message 401 ''invalid signature'' else case payload of
       Undecodable \<Rightarrow> message 401 ''invalid payload'' | Decoded event \<Rightarrow> next_handler event)"

definition webhook_createUser :: "clerk_data \<Rightarrow> unit app" where
  "webhook_createUser d = bindC (GetUserByExternalID (kd_ID d)) (\<lambda>existing. case existing of
      Some _ \<Rightarrow> returnC ()
    | None \<Rightarrow> bindC (CreateUser (kd_ID d) (kd_FirstName d) (kd_LastName d) (kd_Email d) (kd_Banned d = Some True))
        (\<lambda>_. returnC ()))"

text \<open>The result says whether there is such a user; \<open>errUserNotFound\<close> is the value \<open>False\<close>.\<close>

definition webhook_updateUser :: "clerk_data \<Rightarrow> bool app" where
  "webhook_updateUser d = bindC (GetUserByExternalID (kd_ID d)) (\<lambda>found. case found of
      None \<Rightarrow> returnC False
    | Some u \<Rightarrow> thenC (UpdateUser (Some u) (kd_FirstName d) (kd_LastName d) (kd_Email d) (kd_Banned d = Some True))
        (returnC True))"

definition webhook_deleteUser :: "clerk_data \<Rightarrow> unit app" where
  "webhook_deleteUser d = DeleteUserByExternalID (kd_ID d)"

definition with_clerk_data :: "clerk_event \<Rightarrow> (clerk_data \<Rightarrow> bool) \<Rightarrow> (clerk_data \<Rightarrow> unit response app) \<Rightarrow> unit response app" where
  "with_clerk_data event valid f = (case ke_Data event of
      Undecodable \<Rightarrow> message 400 ''Invalid request body''
    | Decoded d \<Rightarrow> if valid d then f d else respond 400 Invalid)"

definition UserWebhook_Execute :: "clerk_event \<Rightarrow> unit response app" where
  "UserWebhook_Execute event =
    (if ke_Type event = ''user.created'' then with_clerk_data event valid_clerk_user (\<lambda>d.
       tryC (webhook_createUser d) (\<lambda>_. message 500 ''Failed to create user'') (\<lambda>_. sendStatus 201))
     else if ke_Type event = ''user.updated'' then with_clerk_data event valid_clerk_user (\<lambda>d.
       tryC (webhook_updateUser d) (\<lambda>_. message 500 ''Failed to update user'')
         (\<lambda>found. if found then sendStatus 204 else message 404 ''User not found''))
     else if ke_Type event = ''user.deleted'' then with_clerk_data event valid_clerk_deleted (\<lambda>d.
       tryC (webhook_deleteUser d) (\<lambda>_. message 500 ''Failed to delete user'') (\<lambda>_. sendStatus 204))
     else sendStatus 200)"

section \<open>Uploads\<close>

record object_record =
  or_EventName :: string
  or_Bucket :: string
  or_Key :: string
  or_Size :: int
  or_ContentType :: string

definition valid_object_record :: "object_record \<Rightarrow> bool" where
  "valid_object_record r \<longleftrightarrow> or_EventName r \<noteq> [] \<and> or_Bucket r \<noteq> [] \<and> or_Key r \<noteq> [] \<and> length (or_Key r) \<le> 1024 \<and>
     0 \<le> or_Size r \<and> length (or_ContentType r) \<le> 127"

definition valid_object_event :: "object_record list \<Rightarrow> bool" where
  "valid_object_event rs \<longleftrightarrow> rs \<noteq> [] \<and> list_all valid_object_record rs"

text \<open>\<open>url.QueryUnescape\<close>: a plus sign is a blank, a percent sign starts a byte of two hexadecimal digits.\<close>

definition digit16 :: "char \<Rightarrow> nat option" where
  "digit16 c = (let n = (of_char c :: nat) in
     if 48 \<le> n \<and> n \<le> 57 then Some (n - 48) else if 65 \<le> n \<and> n \<le> 70 then Some (n - 55)
     else if 97 \<le> n \<and> n \<le> 102 then Some (n - 87) else None)"

fun QueryUnescape :: "string \<Rightarrow> string option" where
  "QueryUnescape [] = Some []"
| "QueryUnescape (c # s) =
    (if c = CHR ''+'' then map_option (\<lambda>t. CHR '' '' # t) (QueryUnescape s)
     else if c = CHR 0x25 then (case s of
         a # b # t \<Rightarrow> (case (digit16 a, digit16 b) of
             (Some x, Some y) \<Rightarrow> map_option (\<lambda>u. char_of (16 * x + y :: nat) # u) (QueryUnescape t)
           | _ \<Rightarrow> None)
       | _ \<Rightarrow> None)
     else map_option (\<lambda>t. c # t) (QueryUnescape s))"

definition DecodeObjectKey :: "string \<Rightarrow> string res" where
  "DecodeObjectKey raw = (case QueryUnescape raw of None \<Rightarrow> Inl (Err ''invalid URL escape'') | Some k \<Rightarrow> Inr k)"

text \<open>One record after the other; a record that fails is logged and the next one follows.\<close>

definition process_record :: "bool \<Rightarrow> string \<Rightarrow> object_record \<Rightarrow> unit app" where
  "process_record quota mediaBucket r =
    (if or_Bucket r \<noteq> mediaBucket then returnC () else case DecodeObjectKey (or_Key r) of
       Inl _ \<Rightarrow> returnC ()
     | Inr key \<Rightarrow> if IsThumbnailObjectKey key then returnC () else
         tryC (ObjectCreated quota key (or_ContentType r) (or_Size r)) (\<lambda>_. returnC ()) returnC)"

fun process_records :: "bool \<Rightarrow> string \<Rightarrow> object_record list \<Rightarrow> unit app" where
  "process_records quota mediaBucket [] = returnC ()"
| "process_records quota mediaBucket (r # rs) =
     thenC (process_record quota mediaBucket r) (process_records quota mediaBucket rs)"

text \<open>The answer is given at once; the records are processed after it, by a goroutine of their own.\<close>

definition MediaUpload_ObjectCreated :: "bool \<Rightarrow> string \<Rightarrow> object_record list decoded \<Rightarrow> unit response app" where
  "MediaUpload_ObjectCreated quota mediaBucket payload = (case payload of
      Undecodable \<Rightarrow> message 400 ''Invalid payload''
    | Decoded rs \<Rightarrow> if \<not> valid_object_event rs then respond 400 Invalid
        else thenC (process_records quota mediaBucket rs) (sendStatus 200))"

text \<open>An empty secret switches the check off.\<close>

definition MediaUpload_Protected :: "string \<Rightarrow> string \<Rightarrow> unit response app \<Rightarrow> unit response app" where
  "MediaUpload_Protected secret header next_handler =
    (if secret = [] then next_handler
     else if header \<noteq> ''Bearer '' @ secret \<and> header \<noteq> secret then message 401 ''Unauthorized''
     else next_handler)"

section \<open>Stripe\<close>

text \<open>The objects of an event as far as the handlers read them. The lines of an invoice hold no null.\<close>

record stripe_line =
  ln_Description :: string
  ln_Subscription :: "string option"

record stripe_invoice =
  si_ID :: string
  si_Customer :: "string option"
  si_Parent :: "string option option"
  si_Lines :: "stripe_line list option"
  si_Number :: string
  si_Status :: string
  si_Currency :: string
  si_AmountDue :: int
  si_AmountPaid :: int
  si_Total :: int
  si_HostedInvoiceURL :: string
  si_InvoicePDF :: string
  si_BillingReason :: string
  si_AttemptCount :: int
  si_PeriodStart :: int
  si_PeriodEnd :: int
  si_Created :: int
  si_PaidAt :: "int option"

record stripe_item =
  it_ID :: string
  it_Price :: "string option"
  it_CurrentPeriodStart :: int
  it_CurrentPeriodEnd :: int

record stripe_subscription =
  ss_ID :: string
  ss_Status :: string
  ss_CancelAtPeriodEnd :: bool
  ss_Customer :: "string option"
  ss_Items :: "stripe_item list"

record stripe_card =
  sc_Customer :: "string option"
  sc_Brand :: string
  sc_Last4 :: string
  sc_ExpMonth :: int
  sc_ExpYear :: int

datatype stripe_object =
    CheckoutSession string "string option" "string option"
  | SubscriptionObject stripe_subscription
  | InvoiceObject stripe_invoice
  | CardObject stripe_card

record stripe_event =
  se_ID :: string
  se_Type :: string
  se_Object :: "stripe_object decoded"

definition unixToTime :: "int \<Rightarrow> gotime" where
  "unixToTime ts = (if ts \<le> 0 then 0 else UTC (unix_epoch + ts * Second))"

definition invoiceDescription :: "stripe_invoice \<Rightarrow> string" where
  "invoiceDescription i = (case si_Lines i of Some (l # _) \<Rightarrow> ln_Description l | _ \<Rightarrow> [])"

text \<open>The subscription of the parent, else the first one that a line names.\<close>

definition line_subscription :: "stripe_invoice \<Rightarrow> string" where
  "line_subscription i = (case si_Lines i of None \<Rightarrow> [] | Some ls \<Rightarrow>
     (case find (\<lambda>l. ln_Subscription l \<notin> {None, Some []}) ls of None \<Rightarrow> []
      | Some l \<Rightarrow> (case ln_Subscription l of None \<Rightarrow> [] | Some s \<Rightarrow> s)))"

definition subscriptionIDFromInvoice :: "stripe_invoice \<Rightarrow> string" where
  "subscriptionIDFromInvoice i = (case si_Parent i of
      Some (Some s) \<Rightarrow> if s \<noteq> [] then s else line_subscription i
    | _ \<Rightarrow> line_subscription i)"

definition customerIDFromInvoice :: "stripe_invoice \<Rightarrow> string" where
  "customerIDFromInvoice i = (case si_Customer i of None \<Rightarrow> [] | Some c \<Rightarrow> c)"

definition MapInvoiceData :: "stripe_invoice \<Rightarrow> invoice_data" where
  "MapInvoiceData i = \<lparr>id_ID = si_ID i, id_CustomerID = customerIDFromInvoice i,
     id_SubscriptionID = subscriptionIDFromInvoice i, id_Number = si_Number i, id_Status = si_Status i,
     id_Currency = si_Currency i, id_AmountDue = si_AmountDue i, id_AmountPaid = si_AmountPaid i,
     id_Total = si_Total i, id_HostedInvoiceURL = si_HostedInvoiceURL i, id_InvoicePDF = si_InvoicePDF i,
     id_BillingReason = si_BillingReason i, id_Description = invoiceDescription i,
     id_AttemptCount = si_AttemptCount i, id_PeriodStart = unixToTime (si_PeriodStart i),
     id_PeriodEnd = unixToTime (si_PeriodEnd i),
     id_PaidAt = (case si_PaidAt i of None \<Rightarrow> None
        | Some t \<Rightarrow> if IsZero (unixToTime t) then None else Some (unixToTime t)),
     id_CreatedAt = unixToTime (si_Created i)\<rparr>"

definition upsertInvoiceCommandFromStripe :: "stripe_invoice \<Rightarrow> invoice_command" where
  "upsertInvoiceCommandFromStripe i = \<lparr>ic_Data = MapInvoiceData i, ic_StripeEventID = [], ic_PaymentOutcome = NoPayment\<rparr>"

definition ExtractSubscriptionData :: "stripe_subscription \<Rightarrow> subscription_data" where
  "ExtractSubscriptionData s = (let item = (case ss_Items s of [] \<Rightarrow> None | i # _ \<Rightarrow> Some i) in
     \<lparr>sd_ID = ss_ID s, sd_ItemID = (case item of None \<Rightarrow> [] | Some i \<Rightarrow> it_ID i),
      sd_CustomerID = (case ss_Customer s of None \<Rightarrow> [] | Some c \<Rightarrow> c),
      sd_PriceID = (case item of None \<Rightarrow> [] | Some i \<Rightarrow> (case it_Price i of None \<Rightarrow> [] | Some p \<Rightarrow> p)),
      sd_Status = ss_Status s, sd_CancelAtPeriodEnd = ss_CancelAtPeriodEnd s,
      sd_CurrentPeriodStart = (case item of None \<Rightarrow> 0 | Some i \<Rightarrow> unixToTime (it_CurrentPeriodStart i)),
      sd_CurrentPeriodEnd = (case item of None \<Rightarrow> 0 | Some i \<Rightarrow> unixToTime (it_CurrentPeriodEnd i))\<rparr>)"

text \<open>An event whose object does not decode as the type it announces is refused.\<close>

definition undecodable :: "'a app" where
  "undecodable = failC (Err ''json: cannot unmarshal'')"

definition with_invoice :: "stripe_event \<Rightarrow> (stripe_invoice \<Rightarrow> unit app) \<Rightarrow> unit app" where
  "with_invoice ev f = (case se_Object ev of Decoded (InvoiceObject i) \<Rightarrow> f i | _ \<Rightarrow> undecodable)"

definition handleCheckoutCompleted :: "libs \<Rightarrow> subscription_gateway \<Rightarrow> stripe_event \<Rightarrow> unit app" where
  "handleCheckoutCompleted lb g ev = (case se_Object ev of
      Decoded (CheckoutSession reference customer sub) \<Rightarrow> (case lb_ParseUUID lb reference of
          None \<Rightarrow> failC (Err ''invalid UUID'')
        | Some workspaceID \<Rightarrow> CheckoutCompleted g workspaceID (case customer of None \<Rightarrow> [] | Some c \<Rightarrow> c)
            (case sub of None \<Rightarrow> [] | Some s \<Rightarrow> s))
    | _ \<Rightarrow> undecodable)"

definition handleSubscriptionUpdated :: "stripe_event \<Rightarrow> unit app" where
  "handleSubscriptionUpdated ev = (case se_Object ev of
      Decoded (SubscriptionObject s) \<Rightarrow> SubscriptionUpdatedHandler (ExtractSubscriptionData s) | _ \<Rightarrow> undecodable)"

definition handleSubscriptionDeleted :: "stripe_event \<Rightarrow> unit app" where
  "handleSubscriptionDeleted ev = (case se_Object ev of
      Decoded (SubscriptionObject s) \<Rightarrow> SubscriptionDeletedHandler (ss_ID s) | _ \<Rightarrow> undecodable)"

text \<open>A payment is stored as an invoice first; only then the subscription hears of it.\<close>

definition payment_command :: "stripe_event \<Rightarrow> payment_outcome \<Rightarrow> stripe_invoice \<Rightarrow> invoice_command" where
  "payment_command ev outcome i =
     (upsertInvoiceCommandFromStripe i)\<lparr>ic_StripeEventID := se_ID ev, ic_PaymentOutcome := outcome\<rparr>"

definition handleInvoicePaymentSucceeded :: "stripe_event \<Rightarrow> unit app" where
  "handleInvoicePaymentSucceeded ev = with_invoice ev (\<lambda>i.
     thenC (UpsertInvoice (payment_command ev PaymentSucceeded i))
     (InvoicePaymentSucceededHandler (subscriptionIDFromInvoice i) (customerIDFromInvoice i)
        (unixToTime (si_PeriodStart i)) (unixToTime (si_PeriodEnd i))))"

definition handleInvoicePaymentFailed :: "stripe_event \<Rightarrow> unit app" where
  "handleInvoicePaymentFailed ev = with_invoice ev (\<lambda>i.
     thenC (UpsertInvoice (payment_command ev PaymentFailed i))
     (InvoicePaymentFailedHandler (subscriptionIDFromInvoice i) (customerIDFromInvoice i)))"

definition handleInvoiceUpcoming :: "stripe_event \<Rightarrow> unit app" where
  "handleInvoiceUpcoming ev = with_invoice ev (\<lambda>i.
     SubscriptionRenewalUpcomingHandler (se_ID ev) (subscriptionIDFromInvoice i) (customerIDFromInvoice i)
       (si_AmountDue i) (si_Currency i) (unixToTime (si_PeriodEnd i)))"

text \<open>The command leaves the Stripe subscription empty: the card is known by its customer.\<close>

definition handlePaymentMethodExpiring :: "stripe_event \<Rightarrow> unit app" where
  "handlePaymentMethodExpiring ev = (case se_Object ev of
      Decoded (CardObject c) \<Rightarrow> PaymentMethodExpiring (se_ID ev) (case sc_Customer c of None \<Rightarrow> [] | Some k \<Rightarrow> k) []
        (sc_Brand c) (sc_Last4 c) (sc_ExpMonth c) (sc_ExpYear c)
    | _ \<Rightarrow> undecodable)"

definition billing_dispatch :: "libs \<Rightarrow> subscription_gateway \<Rightarrow> stripe_event \<Rightarrow> unit app" where
  "billing_dispatch lb g ev =
    (if se_Type ev = ''checkout.session.completed'' then handleCheckoutCompleted lb g ev
     else if se_Type ev = ''customer.subscription.updated'' then handleSubscriptionUpdated ev
     else if se_Type ev = ''customer.subscription.deleted'' then handleSubscriptionDeleted ev
     else if se_Type ev = ''invoice.payment_succeeded'' then handleInvoicePaymentSucceeded ev
     else if se_Type ev = ''invoice.payment_failed'' then handleInvoicePaymentFailed ev
     else if se_Type ev = ''invoice.upcoming'' then handleInvoiceUpcoming ev
     else if se_Type ev = ''customer.source.expiring'' then handlePaymentMethodExpiring ev
     else returnC ())"

text \<open>An event that comes before the checkout has linked its subscription is to be sent again.\<close>

definition BillingWebhook_Execute :: "libs \<Rightarrow> subscription_gateway \<Rightarrow> stripe_event \<Rightarrow> unit response app" where
  "BillingWebhook_Execute lb g ev = tryC (billing_dispatch lb g ev)
     (\<lambda>e. if errors_is e ErrStripeSubscriptionNotLinked then message 503 ''subscription not linked yet''
          else message 500 ''failed to process event'')
     (\<lambda>_. sendStatus 200)"

text \<open>Without a secret nothing is accepted.\<close>

definition BillingWebhook_Protected :: "string \<Rightarrow> string \<Rightarrow> bool \<Rightarrow> stripe_event decoded
    \<Rightarrow> (stripe_event \<Rightarrow> unit response app) \<Rightarrow> unit response app" where
  "BillingWebhook_Protected secret signature verified payload next_handler =
    (if secret = [] then message 401 ''stripe webhook secret is not configured''
     else if signature = [] then message 401 ''missing stripe signature''
     else if \<not> verified then message 401 ''invalid signature''
     else case payload of Undecodable \<Rightarrow> message 401 ''invalid payload'' | Decoded ev \<Rightarrow> next_handler ev)"

end
