(* ===== verification/StripeGateway.thy ===== *)
theory StripeGateway
  imports Presenter Webhooks
begin

text \<open>
  The gateways to Stripe, \<open>src/internal/infrastructure/stripe\<close>: subscriptions and their price changes, the checkout pages and
  the billing portal. The SDK is a parameter, a function per endpoint that takes the secret key and the
  parameters the code fills in, and yields the object Stripe answers with. The price in the metadata of
  a checkout is the number; the SDK's text for it is left out.
\<close>

section \<open>The endpoints\<close>

record price_change =
  ch_Subscription :: string
  ch_Item :: string
  ch_Price :: string
  ch_ProrationBehavior :: string
  ch_ProrationDate :: "int option"

record preview_line =
  vl_Description :: string
  vl_Amount :: int
  vl_Parent :: "bool option option"

record stripe_preview =
  vi_Currency :: string
  vi_AmountDue :: int
  vi_Subtotal :: int
  vi_Total :: int
  vi_PeriodStart :: int
  vi_PeriodEnd :: int
  vi_Lines :: "preview_line option list option"

record checkout_params =
  ck_ClientReferenceID :: string
  ck_SuccessURL :: string
  ck_CancelURL :: string
  ck_Mode :: string
  ck_LineItems :: "(string \<times> int) list"
  ck_Metadata :: "(string \<times> string) list"
  ck_PlanPrice :: rat
  ck_Customer :: "string option"
  ck_CustomerEmail :: "string option"

record stripe_api =
  sa_GetSubscription :: "string \<Rightarrow> string \<Rightarrow> stripe_subscription app"
  sa_ListInvoices :: "string \<Rightarrow> string \<Rightarrow> int \<Rightarrow> stripe_invoice list app"
  sa_UpdateSubscription :: "string \<Rightarrow> price_change \<Rightarrow> stripe_subscription app"
  sa_CreatePreview :: "string \<Rightarrow> price_change \<Rightarrow> stripe_preview app"
  sa_NewCheckout :: "string \<Rightarrow> checkout_params \<Rightarrow> string app"
  sa_NewPortal :: "string \<Rightarrow> string \<Rightarrow> string \<Rightarrow> string app"

section \<open>Subscriptions\<close>

definition with_secret :: "string \<Rightarrow> 'a app \<Rightarrow> 'a app" where
  "with_secret key c = (if key = [] then failC (Err ''stripe secret key is not configured'') else c)"

definition Retrieve :: "string \<Rightarrow> stripe_api \<Rightarrow> string \<Rightarrow> subscription_data app" where
  "Retrieve key api subscriptionID = with_secret key
     (bindC (mapErrC (Wrapped ''failed to retrieve subscription'') (sa_GetSubscription api key subscriptionID))
       (\<lambda>sub. returnC (ExtractSubscriptionData sub)))"

text \<open>The iterator over the first page: its first invoice, or the error of the listing.\<close>

definition RetrieveLatestInvoice :: "string \<Rightarrow> stripe_api \<Rightarrow> string \<Rightarrow> invoice_data option app" where
  "RetrieveLatestInvoice key api subscriptionID = with_secret key
     (if subscriptionID = [] then returnC None else
      bindC (mapErrC (Wrapped ''failed to list subscription invoices'') (sa_ListInvoices api key subscriptionID 1))
        (\<lambda>page. returnC (case page of [] \<Rightarrow> None | i # _ \<Rightarrow> Some (MapInvoiceData i))))"

definition requested_change :: "string \<Rightarrow> string \<Rightarrow> string \<Rightarrow> int option \<Rightarrow> price_change" where
  "requested_change subscriptionID itemID priceID date =
     \<lparr>ch_Subscription = subscriptionID, ch_Item = itemID, ch_Price = priceID,
      ch_ProrationBehavior = ''always_invoice'', ch_ProrationDate = date\<rparr>"

definition UpdatePrice :: "string \<Rightarrow> stripe_api \<Rightarrow> string \<Rightarrow> string \<Rightarrow> string \<Rightarrow> int option \<Rightarrow> subscription_data app" where
  "UpdatePrice key api subscriptionID itemID priceID prorationDate = with_secret key
     (if subscriptionID = [] \<or> itemID = [] \<or> priceID = []
      then failC (Err ''subscription id, item id and price id are required'') else
      let date = (case prorationDate of Some d \<Rightarrow> if 0 < d then Some d else None | None \<Rightarrow> None) in
      bindC (mapErrC (Wrapped ''failed to update subscription price'')
          (sa_UpdateSubscription api key (requested_change subscriptionID itemID priceID date)))
        (\<lambda>sub. returnC (ExtractSubscriptionData sub)))"

definition lineIsProration :: "preview_line \<Rightarrow> bool" where
  "lineIsProration l = (case vl_Parent l of Some (Some p) \<Rightarrow> p | _ \<Rightarrow> False)"

text \<open>The lines of a preview; a null line is passed over.\<close>

definition preview_lines :: "stripe_preview \<Rightarrow> (string \<times> int \<times> bool) list" where
  "preview_lines shown = (case vi_Lines shown of None \<Rightarrow> [] | Some ls \<Rightarrow>
     List.map_filter (map_option (\<lambda>l. (vl_Description l, vl_Amount l, lineIsProration l))) ls)"

definition preview_of :: "int \<Rightarrow> stripe_preview \<Rightarrow> proration_preview" where
  "preview_of date shown = \<lparr>pv_Currency = vi_Currency shown, pv_AmountDue = vi_AmountDue shown,
     pv_Subtotal = vi_Subtotal shown, pv_Total = vi_Total shown, pv_ProrationDate = date,
     pv_PeriodStart = unixToTime (vi_PeriodStart shown), pv_PeriodEnd = unixToTime (vi_PeriodEnd shown),
     pv_Lines = preview_lines shown\<rparr>"

definition PreviewPriceChange :: "string \<Rightarrow> stripe_api \<Rightarrow> string \<Rightarrow> string \<Rightarrow> string \<Rightarrow> proration_preview app" where
  "PreviewPriceChange key api subscriptionID itemID priceID = with_secret key
     (if subscriptionID = [] \<or> itemID = [] \<or> priceID = []
      then failC (Err ''subscription id, item id and price id are required'') else
      bindC nowC (\<lambda>now. let prorationDate = unix_seconds now in
      bindC (mapErrC (Wrapped ''failed to preview subscription price change'')
          (sa_CreatePreview api key (requested_change subscriptionID itemID priceID (Some prorationDate))))
        (\<lambda>shown. returnC (preview_of prorationDate shown))))"

definition SubscriptionGateway :: "string \<Rightarrow> stripe_api \<Rightarrow> subscription_gateway" where
  "SubscriptionGateway key api = \<lparr>sg_Retrieve = Retrieve key api,
     sg_RetrieveLatestInvoice = RetrieveLatestInvoice key api, sg_UpdatePrice = UpdatePrice key api,
     sg_PreviewPriceChange = PreviewPriceChange key api\<rparr>"

section \<open>Checkout and billing portal\<close>

fun interval_string :: "billing_interval \<Rightarrow> string" where
  "interval_string BillingIntervalMonth = ''month''"
| "interval_string BillingIntervalYear = ''year''"
| "interval_string (BillingIntervalOther s) = s"

record redirects =
  rd_SuccessURL :: string
  rd_CancelURL :: string
  rd_PortalURL :: string

definition checkout_metadata :: "(uuid \<Rightarrow> string) \<Rightarrow> checkout_request \<Rightarrow> (string \<times> string) list" where
  "checkout_metadata us c = (let p = cr_Plan c in
     [(''plan_id'', us (p_ID p)), (''plan_name'', p_Name p), (''currency'', currency_string (p_Currency p)),
      (''plan_interval'', interval_string (p_BillingInterval p)), (''workspace_id'', us (cr_WorkspaceID c)),
      (''user_id'', us (cr_UserID c)), (''user_email'', cr_Email c),
      (''user_name'', cr_FirstName c @ '' '' @ cr_LastName c)])"

text \<open>A known customer is named; else Stripe is told the address.\<close>

definition checkout_session :: "(uuid \<Rightarrow> string) \<Rightarrow> redirects \<Rightarrow> checkout_request \<Rightarrow> checkout_params" where
  "checkout_session us rd c = \<lparr>ck_ClientReferenceID = us (cr_WorkspaceID c), ck_SuccessURL = rd_SuccessURL rd,
     ck_CancelURL = rd_CancelURL rd, ck_Mode = ''subscription'', ck_LineItems = [(p_StripePriceID (cr_Plan c), 1)],
     ck_Metadata = checkout_metadata us c, ck_PlanPrice = p_Price (cr_Plan c),
     ck_Customer = (if cr_StripeCustomerID c \<noteq> [] then Some (cr_StripeCustomerID c) else None),
     ck_CustomerEmail = (if cr_StripeCustomerID c = [] \<and> cr_Email c \<noteq> [] then Some (cr_Email c) else None)\<rparr>"

definition address_or :: "string \<Rightarrow> string \<Rightarrow> string app" where
  "address_or complaint url = (if url = [] then failC (Err complaint) else returnC url)"

definition Checkout_Create :: "string \<Rightarrow> stripe_api \<Rightarrow> redirects \<Rightarrow> checkout_request \<Rightarrow> string app" where
  "Checkout_Create key api rd c = with_secret key
     (if p_StripePriceID (cr_Plan c) = [] then failC (Err ''plan has no stripe price id'') else
      bindC (askC en_uuid_string) (\<lambda>us.
      bindC (mapErrC (Wrapped ''failed to create checkout session'') (sa_NewCheckout api key (checkout_session us rd c)))
        (address_or ''checkout session URL is required'')))"

definition BillingPortal_Create :: "string \<Rightarrow> stripe_api \<Rightarrow> redirects \<Rightarrow> string \<Rightarrow> string app" where
  "BillingPortal_Create key api rd stripeCustomerID = with_secret key
     (if stripeCustomerID = [] then failC (Err ''stripe customer id is required'')
      else if rd_PortalURL rd = [] then failC (Err ''stripe portal return url is not configured'') else
      bindC (mapErrC (Wrapped ''failed to create billing portal session'')
          (sa_NewPortal api key stripeCustomerID (rd_PortalURL rd)))
        (address_or ''billing portal session URL is required''))"

section \<open>What the commands rely on\<close>

text \<open>The endpoints leave this process alone: what they change at Stripe comes back as events.\<close>

definition api_quiet :: "stripe_api \<Rightarrow> bool" where
  "api_quiet api \<longleftrightarrow> (\<forall>k i. readonly (sa_GetSubscription api k i)) \<and> (\<forall>k i n. readonly (sa_ListInvoices api k i n)) \<and>
     (\<forall>k c. readonly (sa_UpdateSubscription api k c)) \<and> (\<forall>k c. readonly (sa_CreatePreview api k c)) \<and>
     (\<forall>k c. readonly (sa_NewCheckout api k c)) \<and> (\<forall>k i u. readonly (sa_NewPortal api k i u))"

lemmas gateway_defs = Retrieve_def RetrieveLatestInvoice_def UpdatePrice_def PreviewPriceChange_def
  Checkout_Create_def BillingPortal_Create_def

lemma readonly_secret [readonly_intros]: "readonly c \<Longrightarrow> readonly (with_secret key c)"
  unfolding with_secret_def by (intro readonly_intros)

lemma readonly_address [readonly_intros]: "readonly (address_or m u)"
  unfolding address_or_def by (intro readonly_intros)

lemma readonly_gateways:
  assumes "api_quiet api"
  shows "readonly (Retrieve key api i)" "readonly (RetrieveLatestInvoice key api i)" "readonly (UpdatePrice key api i it p d)"
    "readonly (PreviewPriceChange key api i it p)" "readonly (Checkout_Create key api rd c)" "readonly (BillingPortal_Create key api rd i)"
  using assms unfolding gateway_defs api_quiet_def Let_def by (auto intro!: readonly_intros)

lemma SubscriptionGateway_quiet: "api_quiet api \<Longrightarrow> gateway_quiet (SubscriptionGateway key api)"
  by (simp add: gateway_quiet_def SubscriptionGateway_def readonly_gateways)

text \<open>Without a secret key no gateway contacts Stripe.\<close>

lemma no_secret:
  "Retrieve [] api i = Retrieve [] api' i" "RetrieveLatestInvoice [] api i = RetrieveLatestInvoice [] api' i"
  "UpdatePrice [] api i it p d = UpdatePrice [] api' i it p d" "PreviewPriceChange [] api i it p = PreviewPriceChange [] api' i it p"
  "Checkout_Create [] api rd c = Checkout_Create [] api' rd c" "BillingPortal_Create [] api rd i = BillingPortal_Create [] api' rd i"
  by (simp_all add: gateway_defs with_secret_def)

section \<open>The bill that was shown\<close>

text \<open>The instant of a preview, handed back, makes Stripe compute the same change.\<close>

lemma PreviewPriceChange_yields:
  "wp (PreviewPriceChange key api i it p) (\<lambda>pv _. key \<noteq> [] \<and> i \<noteq> [] \<and> it \<noteq> [] \<and> p \<noteq> [] \<and>
     (\<exists>v shown. fst (sa_CreatePreview api key (requested_change i it p (Some (pv_ProrationDate pv))) r v) = Inr shown \<and>
        pv = preview_of (pv_ProrationDate pv) shown)) (\<lambda>_ _. True) r w"
proof -
  have any: "wp (sa_CreatePreview api key ch) (\<lambda>a _. \<exists>v. fst (sa_CreatePreview api key ch r v) = Inr a) (\<lambda>_ _. True) r v"
    for ch and v
    by (auto simp: wp_def split: prod.split sum.split intro!: exI [of _ v])
  have date: "pv_ProrationDate (preview_of d x) = d" for d x
    by (simp add: preview_of_def)
  show ?thesis
    unfolding PreviewPriceChange_def with_secret_def Let_def
    by (auto intro!: wp_mono [OF any] simp: date) blast
qed

lemma UpdatePrice_as_previewed:
  assumes "key \<noteq> []" "i \<noteq> []" "it \<noteq> []" "p \<noteq> []" and "0 < d"
  shows "UpdatePrice key api i it p (Some d) =
    bindC (mapErrC (Wrapped ''failed to update subscription price'')
      (sa_UpdateSubscription api key (requested_change i it p (Some d)))) (\<lambda>sub. returnC (ExtractSubscriptionData sub))"
  using assms by (simp add: UpdatePrice_def with_secret_def)

lemma PreviewPriceChange_as_updated:
  assumes "\<And>t. 0 < unix_seconds (en_clock r t)"
  shows "wp (PreviewPriceChange key api i it p) (\<lambda>pv _. \<exists>change shown v.
     fst (sa_CreatePreview api key change r v) = Inr shown \<and> pv = preview_of (pv_ProrationDate pv) shown \<and>
     UpdatePrice key api i it p (Some (pv_ProrationDate pv)) =
       bindC (mapErrC (Wrapped ''failed to update subscription price'') (sa_UpdateSubscription api key change))
         (\<lambda>sub. returnC (ExtractSubscriptionData sub))) (\<lambda>_ _. True) r w"
proof (cases "key \<noteq> [] \<and> i \<noteq> [] \<and> it \<noteq> [] \<and> p \<noteq> []")
  case True
  have any: "wp (sa_CreatePreview api key ch) (\<lambda>a _. \<exists>v. fst (sa_CreatePreview api key ch r v) = Inr a) (\<lambda>_ _. True) r v"
    for ch and v
    by (auto simp: wp_def split: prod.split sum.split intro!: exI [of _ v])
  have date: "pv_ProrationDate (preview_of d x) = d" for d x by (simp add: preview_of_def)
  have go: "\<exists>change shown. (\<exists>v. fst (sa_CreatePreview api key change r v) = Inr shown) \<and>
      preview_of d x = preview_of (pv_ProrationDate (preview_of d x)) shown \<and>
      UpdatePrice key api i it p (Some (pv_ProrationDate (preview_of d x))) =
        bindC (mapErrC (Wrapped ''failed to update subscription price'') (sa_UpdateSubscription api key change))
          (\<lambda>sub. returnC (ExtractSubscriptionData sub))"
    if "fst (sa_CreatePreview api key (requested_change i it p (Some d)) r v) = Inr x" "0 < d" for d x v
    using that True by (intro exI [of _ "requested_change i it p (Some d)"] exI [of _ x])
      (auto simp: date UpdatePrice_as_previewed)
  show ?thesis
    using True assms unfolding PreviewPriceChange_def with_secret_def Let_def
    by (auto intro!: wp_mono [OF any]) (erule go, simp)
qed (auto simp: PreviewPriceChange_def with_secret_def)

lemma checkout_comes_back:
  assumes "lb_ParseUUID lb (us (cr_WorkspaceID c)) = Some (cr_WorkspaceID c)"
    and "se_Object ev = Decoded (CheckoutSession (ck_ClientReferenceID (checkout_session us rd c)) cu sub)"
  shows "handleCheckoutCompleted lb g ev =
    CheckoutCompleted g (cr_WorkspaceID c) (case cu of None \<Rightarrow> [] | Some x \<Rightarrow> x) (case sub of None \<Rightarrow> [] | Some x \<Rightarrow> x)"
  using assms by (simp add: handleCheckoutCompleted_def checkout_session_def)

end
