(* ===== verification/Scenario.thy ===== *)
theory Scenario
  imports Messaging
begin

text \<open>
  A small installation on which the theorems with hypotheses are applied: one media with one content
  that waits for its analysis, an environment in which no call fails, and a handler with one
  detector and no quota service.
\<close>

section \<open>The installation\<close>

definition sample_content :: content where
  "sample_content = \<lparr>c_ID = 20, c_MediaID = 10, c_FrameIndex = None, c_TimestampMs = None,
     c_ObjectKey = ''contents/k.jpg'', c_ThumbnailKey = None, c_SizeBytes = Some 7, c_Label = None,
     c_Confidence = None, c_Status = ContentStUploaded, c_CreatedAt = 100, c_UpdatedAt = 100,
     c_CampaignID = 5, c_ClientID = 3, c_events = []\<rparr>"

definition sample_media :: media where
  "sample_media = \<lparr>m_ID = 10, m_CampaignID = 5, m_ClientID = 3, m_Filename = ''k.jpg'',
     m_ContentType = ''image/jpeg'', m_MediaType = MediaTypeImage, m_ObjectKey = ''media/k.jpg'',
     m_SizeBytes = Some 7, m_Status = StatusProcessing, m_Verdict = None, m_FailureReason = [],
     m_AnalyzedAt = None, m_CreatedAt = 100, m_UpdatedAt = 100, m_DeletedAt = None, m_events = []\<rparr>"

definition empty_db :: db where
  "empty_db = \<lparr>t_media = [], t_contents = [], t_results = [], t_campaigns = [], t_clients = [],
     t_user_clients = [], t_users = [], t_workspaces = [], t_subscriptions = [], t_plans = [],
     t_quotas = [], t_invoices = [], t_outbox = [], t_processed = [], t_activities = []\<rparr>"

definition sample_db :: db where
  "sample_db = empty_db\<lparr>t_media := [mediaModelFromDomain sample_media],
     t_contents := [contentModelFromDomain sample_content]\<rparr>"

text \<open>The same, once the content is analysed.\<close>

definition done_content :: content where
  "done_content = sample_content\<lparr>c_Status := ContentAnalyzed, c_Label := Some LabelHuman, c_Confidence := Some 1\<rparr>"

definition done_db :: db where
  "done_db = sample_db\<lparr>t_contents := [contentModelFromDomain done_content]\<rparr>"

definition world_on :: "db \<Rightarrow> world" where
  "world_on d = \<lparr>wd_db = d, wd_committed = d, wd_tx = False, wd_locks = [], wd_tick = 0,
     wd_objects = (\<lambda>_. None), wd_thumbnails = (\<lambda>_. None), wd_published = [], wd_dlq = [],
     wd_realtime = [], wd_rulesets = (\<lambda>_. None)\<rparr>"

definition calm_env :: env where
  "calm_env = \<lparr>en_fault = (\<lambda>_. None), en_clock = (\<lambda>t. 1000 + int t), en_uuid = (\<lambda>t. 100 + t),
     en_uuid_string = (\<lambda>i. replicate 36 (CHR ''0'')), en_deterministic_id = (\<lambda>ss. length (concat ss)),
     en_thumbnail = (\<lambda>b n. Inr b), en_extract = (\<lambda>b n. Inr []), en_presigned_url = (\<lambda>k. Inr k)\<rparr>"

definition exif_detector :: detector where
  "exif_detector = \<lparr>det_Name = ''exif'', det_ExpectedWeight = 1, det_ExternalDetector = None,
     det_Analyze = (\<lambda>cancelled i key. returnC [\<lparr>sg_Type = ''metadata'', sg_Code = ''generator_tag'',
        sg_Description = ''software tag'', sg_Weight = 9 / 10\<rparr>]),
     det_TakeRulesetVersion = None\<rparr>"

definition sample_handler :: analyze_handler where
  "sample_handler = \<lparr>ah_detectors = [exif_detector], ah_quota = False, ah_schedule = (\<lambda>ds. ds)\<rparr>"

definition failed_result :: result where
  "failed_result = \<lparr>r_ID = 30, r_ContentID = 20, r_DetectorName = ''exif'', r_Status = ResultFailed,
     r_Signals = [], r_Error = ''timeout'', r_StartedAt = 100, r_CompletedAt = 101, r_Weight = 1,
     r_RulesetVersion = None\<rparr>"

definition sample_verdict :: domain_event where
  "sample_verdict = EvMedia (MediaVerdictRendered 41 10 5 3 ''human'' 0 1 0 ''analyzed'' [] 100)"

definition sample_event :: domain_event where
  "sample_event = EvMedia (MediaProcessingStarted 40 10 5 3 100)"

definition sample_envelope :: envelope where
  "sample_envelope = \<lparr>ev_EventID = 40, ev_Type = ''media.uploaded.v1'', ev_AggregateID = 10, ev_OccurredAt = 100,
     ev_Payload = sample_event\<rparr>"

definition sample_delivery :: delivery where
  "sample_delivery = \<lparr>dl_envelope = Some (sample_envelope, NoEventID), dl_xdeath = None\<rparr>"

definition sample_consumer :: consumer where
  "sample_consumer = NewConsumer (Register ''media.uploaded.v1'' (\<lambda>p. failC (Deferred (Err ''busy''))) []) 0"

definition sample_client :: client where
  "sample_client = \<lparr>cl_ID = 3, cl_Name = ''acme'', cl_WorkspaceID = 2, cl_CreatedAt = 1, cl_UpdatedAt = 1,
     cl_MemberIDs = [1], cl_events = []\<rparr>"

definition sample_plan_params :: plan_params where
  "sample_plan_params = \<lparr>pp_Name = ''Free'', pp_Description = [], pp_Slug = ''free'', pp_StripePriceID = ''p'',
     pp_IsActive = True, pp_BillingInterval = BillingIntervalMonth, pp_Price = 0, pp_Currency = CurrencyEUR,
     pp_QuotaID = 4\<rparr>"

definition sample_plan :: plan where
  "sample_plan = \<lparr>p_ID = 8, p_Name = ''Free'', p_Description = [], p_Slug = ''free'', p_StripePriceID = ''p'',
     p_IsActive = True, p_BillingInterval = BillingIntervalMonth, p_Price = 0, p_Currency = CurrencyEUR,
     p_QuotaID = 4, p_CreatedAt = 7, p_UpdatedAt = 7\<rparr>"

section \<open>Its hypotheses hold\<close>

lemma sample_plan_new: "NewPlan 7 8 sample_plan_params = Inr sample_plan"
  by (simp add: NewPlan_def sample_plan_params_def sample_plan_def validatePlanInput_def TrimSpace_def
      is_space_def uuid_Nil_def)

lemmas sample_defs = sample_db_def empty_db_def sample_media_def sample_content_def

lemma sample_media_wf: "media_wf sample_media"
  by (simp add: media_wf_def sample_media_def)

lemma sample_content_wf: "content_wf sample_content"
  by (simp add: content_wf_def sample_content_def)

lemma sample_media_get: "media_get i sample_db = (if i = 10 then Some sample_media else None)"
  by (simp add: media_get_def media_row_def tbl_first_def sample_defs mediaModelFromDomain_def
      mediaDomainFromModel_def TrimSpace_def)

lemma sample_contents_of: "contents_of i sample_db = (if i = 10 then [sample_content] else [])"
  by (auto simp: contents_of_def content_join_def media_row_def tbl_first_def sample_defs
      mediaModelFromDomain_def contentModelFromDomain_def contentDomainFromModel_def frame_order_def
      labelStringPtr_def labelFromStringPtr_def)

lemma sample_content_get: "content_get i sample_db = (if i = 20 then Some sample_content else None)"
  by (auto simp: content_get_def content_join_def media_row_def tbl_first_def sample_defs
      mediaModelFromDomain_def contentModelFromDomain_def contentDomainFromModel_def
      labelStringPtr_def labelFromStringPtr_def)

lemma sample_tables: "media_table sample_db" "content_table sample_db"
  by (auto simp: media_table_def content_table_def keys_distinct_def sample_db_def empty_db_def
      contentModelFromDomain_def sample_content_def labelStringPtr_def)

lemma sample_inv: "analysis_inv sample_db"
  by (auto simp: analysis_inv_def sample_tables verdict_sound_def sample_media_get sample_media_def
      split: if_splits)

lemma sample_sound: "sound (world_on sample_db)"
  by (simp add: holds_def sample_inv idle_def world_on_def)

lemma done_content_get: "content_get i done_db = (if i = 20 then Some done_content else None)"
  by (auto simp: content_get_def content_join_def media_row_def tbl_first_def sample_defs done_db_def
      done_content_def mediaModelFromDomain_def contentModelFromDomain_def contentDomainFromModel_def
      labelStringPtr_def labelFromStringPtr_def label_of_string_def)

lemma done_media_get: "media_get i done_db = media_get i sample_db"
  by (simp add: media_get_def media_row_def done_db_def)

lemma done_sound: "sound (world_on done_db)"
proof -
  have "media_table done_db" "content_table done_db"
    using sample_tables(1) by (auto simp: media_table_def content_table_def done_db_def keys_distinct_def)
  then show ?thesis
    by (auto simp: holds_def analysis_inv_def verdict_sound_def done_media_get sample_media_get
        sample_media_def idle_def world_on_def split: if_splits)
qed

lemma world_on_idle: "idle (world_on d)"
  by (simp add: idle_def world_on_def)

lemma world_on_committed [simp]: "wd_committed (world_on d) = d" "wd_db (world_on d) = d"
  by (simp_all add: world_on_def)

lemma calm_env_sel [simp]: "en_fault calm_env t = None" "en_clock calm_env t = 1000 + int t"
  by (simp_all add: calm_env_def)

lemma quiet_return: "quiet (returnC a)"
proof -
  have "w = w\<lparr>wd_tick := wd_tick w, wd_rulesets := wd_rulesets w\<rparr>" for w :: world by simp
  then show ?thesis unfolding quiet_def comp_simps snd_conv by blast
qed

lemma sample_handler_ok: "handler_ok sample_handler"
  by (simp add: handler_ok_def sample_handler_def exif_detector_def detector_quiet_def quiet_return)

end
