(* ===== verification/AccountInvariant.thy ===== *)
theory AccountInvariant
  imports AccountCommands Invariants
begin

text \<open>
  What the account commands keep: the client a user works in exists and has the user as a member, and
  every client has a default campaign that is not deleted.
\<close>

section \<open>The invariant\<close>

definition client_exists :: "db \<Rightarrow> uuid \<Rightarrow> bool" where
  "client_exists d i \<longleftrightarrow> i \<in> clm_ID ` set (t_clients d)"

definition current_ok :: "db \<Rightarrow> user \<Rightarrow> bool" where
  "current_ok d u \<longleftrightarrow> (\<forall>c. u_CurrentClientID u = Some c \<longrightarrow>
     client_exists d c \<and> u_ID u \<in> set (members_of c d))"

definition has_default :: "db \<Rightarrow> uuid \<Rightarrow> bool" where
  "has_default d i \<longleftrightarrow> (\<exists>q \<in> set (t_campaigns d). cpm_ClientID q = i \<and> cpm_IsDefault q \<and> cpm_DeletedAt q = None)"

text \<open>All users but those in \<open>us\<close>, all clients but those in \<open>cs\<close>.\<close>

definition accounts_but :: "uuid set \<Rightarrow> uuid set \<Rightarrow> db \<Rightarrow> bool" where
  "accounts_but us cs d \<longleftrightarrow>
     keys_distinct u_ID (t_users d) \<and> keys_distinct clm_ID (t_clients d) \<and> keys_distinct cpm_ID (t_campaigns d) \<and>
     (\<forall>u \<in> set (t_users d). u_ID u \<notin> us \<longrightarrow> current_ok d u) \<and>
     (\<forall>r \<in> set (t_clients d). clm_ID r \<notin> cs \<longrightarrow> has_default d (clm_ID r))"

definition accounts_ok :: "db \<Rightarrow> bool" where
  "accounts_ok d \<longleftrightarrow> accounts_but {} {} d"

lemmas current_defs = current_ok_def client_exists_def

lemma accounts_frame:
  "t_users d' = t_users d \<Longrightarrow> t_clients d' = t_clients d \<Longrightarrow> t_user_clients d' = t_user_clients d \<Longrightarrow>
   t_campaigns d' = t_campaigns d \<Longrightarrow> accounts_but us cs d' = accounts_but us cs d"
  by (simp add: accounts_but_def current_defs has_default_def members_of_def)

lemma accounts_other_tables [simp]:
  "accounts_but us cs (outbox_put es d) = accounts_but us cs d"
  "accounts_but us cs (media_put m d) = accounts_but us cs d"
  "accounts_but us cs (d\<lparr>t_subscriptions := t1\<rparr>) = accounts_but us cs d"
  "accounts_but us cs (d\<lparr>t_workspaces := t2\<rparr>) = accounts_but us cs d"
  by (rule accounts_frame; simp add: outbox_put_def media_put_def)+

section \<open>Campaigns\<close>

lemma campaign_get_row: "campaign_get i d = Some c \<Longrightarrow>
    \<exists>r \<in> set (t_campaigns d). cpm_ID r = i \<and> cpm_DeletedAt r = None \<and> c = campaignDomainFromModel r"
  by (auto simp: campaign_get_def dest!: tbl_first_Some)

lemma campaign_model_sel [simp]:
  "cpm_ID (campaignModelFromDomain c) = cp_ID c" "cpm_ClientID (campaignModelFromDomain c) = cp_ClientID c"
  "cpm_IsDefault (campaignModelFromDomain c) = cp_IsDefault c"
  "cpm_DeletedAt (campaignModelFromDomain c) = cp_DeletedAt c"
  by (simp_all add: campaignModelFromDomain_def)

lemma campaign_domain_sel [simp]:
  "cp_ID (campaignDomainFromModel r) = cpm_ID r" "cp_ClientID (campaignDomainFromModel r) = cpm_ClientID r"
  "cp_IsDefault (campaignDomainFromModel r) = cpm_IsDefault r"
  "cp_DeletedAt (campaignDomainFromModel r) = cpm_DeletedAt r"
  by (simp_all add: campaignDomainFromModel_def)

lemma accounts_campaign_put:
  assumes "accounts_but us cs d" and "campaign_get i d = Some c"
    and "cp_ID c' = cp_ID c" "cp_ClientID c' = cp_ClientID c" "cp_IsDefault c' = cp_IsDefault c"
    and "cp_IsDefault c \<Longrightarrow> cp_DeletedAt c' = None"
  shows "accounts_but us cs (campaign_put c' d)"
proof -
  have k: "keys_distinct cpm_ID (t_campaigns d)" using assms(1) by (simp add: accounts_but_def)
  obtain r where r: "r \<in> set (t_campaigns d)" "cpm_ID r = i" "c = campaignDomainFromModel r"
    using campaign_get_row [OF assms(2)] by blast
  have "has_default (campaign_put c' d) j" if "has_default d j" for j
  proof -
    obtain q where q: "q \<in> set (t_campaigns d)" "cpm_ClientID q = j" "cpm_IsDefault q" "cpm_DeletedAt q = None"
      using \<open>has_default d j\<close> by (auto simp: has_default_def)
    show ?thesis
    proof (cases "cpm_ID q = i")
      case True
      then have "q = r" using keys_distinct_unique [OF k q(1) r(1)] r(2) by simp
      then show ?thesis using assms r q by (auto simp: has_default_def campaign_put_def set_tbl_save [OF k])
    next
      case False
      then show ?thesis using q assms r by (auto simp: has_default_def campaign_put_def set_tbl_save [OF k])
    qed
  qed
  moreover have "current_ok (campaign_put c' d) u = current_ok d u" for u
    by (simp add: current_defs campaign_put_def members_of_def)
  ultimately show ?thesis
    using assms(1) tbl_save_distinct [OF k] by (auto simp: accounts_but_def campaign_put_def)
qed

lemma accounts_campaign_insert:
  assumes "accounts_but us cs d" and "campaign_insert c d = Inr d'"
  shows "accounts_but us (if cp_IsDefault c \<and> cp_DeletedAt c = None then cs - {cp_ClientID c} else cs) d'"
proof -
  obtain t where t: "tbl_create cpm_ID (campaignModelFromDomain c) (t_campaigns d) = Inr t"
      "d' = d\<lparr>t_campaigns := t\<rparr>"
    using assms(2) by (auto simp: campaign_insert_def split: sum.splits)
  have "keys_distinct cpm_ID t" using assms(1) tbl_create_distinct [OF _ t(1)] by (simp add: accounts_but_def)
  then show ?thesis
    using assms(1) by (auto simp: accounts_but_def current_defs has_default_def members_of_def t(2)
        tbl_create_rows [OF t(1)])
qed

section \<open>Clients\<close>

text \<open>The row and the membership rows that \<open>Save\<close> and \<open>Update\<close> leave behind.\<close>

definition client_written :: "gotime \<Rightarrow> client \<Rightarrow> db \<Rightarrow> db" where
  "client_written now c d = d\<lparr>t_clients := tbl_save clm_ID (clientModelFromDomain c) (t_clients d),
     t_user_clients := tbl_delete (\<lambda>r. ucm_ClientID r = cl_ID c) (t_user_clients d) @
       List.map (\<lambda>u. \<lparr>ucm_UserID = u, ucm_ClientID = cl_ID c, ucm_CreatedAt = now\<rparr>) (cl_MemberIDs c)\<rparr>"

lemma members_of_written: "members_of i (client_written now c d) =
    (if i = cl_ID c then cl_MemberIDs c else members_of i d)"
proof (cases "i = cl_ID c")
  case True
  then show ?thesis by (simp add: members_of_def client_written_def tbl_delete_def comp_def filter_empty_conv)
next
  case False
  then have "List.filter (\<lambda>r. ucm_ClientID r \<noteq> cl_ID c \<and> ucm_ClientID r = i) (t_user_clients d) =
      List.filter (\<lambda>r. ucm_ClientID r = i) (t_user_clients d)"
    by (intro filter_cong) auto
  then show ?thesis using False
    by (simp add: members_of_def client_written_def tbl_delete_def comp_def filter_empty_conv conj_commute)
qed

lemma wp_client_Update_tx:
  assumes "wd_tx w" and "\<And>n now. Q () (w\<lparr>wd_tick := n, wd_db := client_written now c (wd_db w)\<rparr>)"
  shows "wp (client_Update c) Q (\<lambda>_ _. True) r w"
  using assms(1) assms(2) [of _ 0] assms(2)
  by (auto simp: client_Update_def ReplaceMembers_def drop_members_def add_members_def client_written_def Let_def
      clientModelFromDomain_def split: if_splits)

lemma wp_client_Save_tx:
  assumes "wd_tx w" and "\<not> client_exists (wd_db w) (cl_ID c) \<Longrightarrow>
      (\<And>n now. Q () (w\<lparr>wd_tick := n, wd_db := client_written now c (wd_db w)\<rparr>))"
  shows "wp (client_Save c) Q (\<lambda>_ _. True) r w"
  using assms(1) assms(2) [of _ 0] assms(2)
  by (auto simp: client_Save_def ReplaceMembers_def drop_members_def add_members_def client_written_def Let_def
      clientModelFromDomain_def client_exists_def tbl_create_def tbl_save_def split: if_splits sum.splits)

lemma accounts_client_written:
  assumes "accounts_but us cs d"
    and "\<And>u. u \<in> set (t_users d) \<Longrightarrow> u_CurrentClientID u = Some (cl_ID c) \<Longrightarrow> u_ID u \<notin> us \<union> us' \<Longrightarrow>
      current_ok d u \<Longrightarrow> u_ID u \<in> set (cl_MemberIDs c)"
    and "client_exists d (cl_ID c) \<or> cl_ID c \<in> cs'"
  shows "accounts_but (us \<union> us') (cs \<union> cs') (client_written now c d)"
proof -
  let ?d = "client_written now c d"
  have k: "keys_distinct clm_ID (t_clients d)" using assms(1) by (simp add: accounts_but_def)
  have ids: "clm_ID ` set (t_clients ?d) = insert (cl_ID c) (clm_ID ` set (t_clients d))"
    by (auto simp: client_written_def set_tbl_save [OF k] clientModelFromDomain_def image_def)
  have "current_ok ?d u" if u: "u \<in> set (t_users d)" "u_ID u \<notin> us \<union> us'" for u
  proof -
    have ok: "current_ok d u" using assms(1) u by (auto simp: accounts_but_def)
    then show ?thesis using assms(2) [OF u(1) _ u(2) ok] unfolding current_defs ids members_of_written by auto
  qed
  moreover have "has_default ?d i" if "i \<in> clm_ID ` set (t_clients ?d)" "i \<notin> cs \<union> cs'" for i
    using assms(1,3) that unfolding ids by (auto simp: accounts_but_def client_exists_def has_default_def client_written_def)
  ultimately show ?thesis
    using assms(1) tbl_save_distinct [OF k]
    by (auto simp: accounts_but_def client_written_def)
qed

section \<open>Users\<close>

lemma user_model_sel [simp]:
  "u_ID (userModel u) = u_ID u" "u_CurrentClientID (userModel u) = u_CurrentClientID u"
  by (simp_all add: userModel_def)

lemma current_ok_model [simp]: "current_ok d (userModel u) = current_ok d u"
  by (simp add: current_defs)

lemma accounts_user_put:
  assumes "accounts_but us cs d" and "current_ok d u"
  shows "accounts_but (us - {u_ID u}) cs (user_put u d)"
proof -
  have k: "keys_distinct u_ID (t_users d)" using assms(1) by (simp add: accounts_but_def)
  have c: "current_ok (user_put u d) v = current_ok d v" "has_default (user_put u d) i = has_default d i" for v i
    by (simp_all add: current_defs user_put_def members_of_def has_default_def)
  show ?thesis
    using assms tbl_save_distinct [OF k] unfolding accounts_but_def c
    by (auto simp: user_put_def set_tbl_save [OF k])
qed

lemma accounts_but_mono: "accounts_but us cs d \<Longrightarrow> us \<subseteq> us' \<Longrightarrow> cs \<subseteq> cs' \<Longrightarrow> accounts_but us' cs' d"
  by (auto simp: accounts_but_def)

lemma user_get_row: "user_get i d = Some u \<Longrightarrow> \<exists>v \<in> set (t_users d). u_ID v = i \<and> u = userModel v"
  by (auto simp: user_get_def dest!: tbl_first_Some)

lemma user_get_current_ok: "accounts_but us cs d \<Longrightarrow> user_get i d = Some u \<Longrightarrow> i \<notin> us \<Longrightarrow> current_ok d u \<and> u_ID u = i"
  by (auto simp: accounts_but_def dest!: user_get_row)

text \<open>A user that has no row, or whose current client is fine, is no exception any more.\<close>

lemma accounts_drop_exception:
  assumes "accounts_but (insert i us) cs d" and "\<And>u. user_get i d = Some u \<Longrightarrow> current_ok d u"
  shows "accounts_but us cs d"
proof -
  have k: "keys_distinct u_ID (t_users d)" using assms(1) by (simp add: accounts_but_def)
  have "current_ok d v" if v: "v \<in> set (t_users d)" "u_ID v = i" for v
  proof -
    have "tbl_first u_ID (\<lambda>u. u_ID u = i) (t_users d) = Some v" using tbl_first_key [OF k v(1)] v(2) by simp
    then show ?thesis using assms(2) by (simp add: user_get_def)
  qed
  then show ?thesis using assms(1) by (auto simp: accounts_but_def)
qed

lemma accounts_user_insert:
  assumes "accounts_ok d" and "tbl_create u_ID (userModel u) (t_users d) = Inr t" and "u_CurrentClientID u = None"
  shows "accounts_ok (d\<lparr>t_users := t\<rparr>)"
  using assms tbl_create_distinct [OF _ assms(2)]
  by (auto simp: accounts_ok_def accounts_but_def current_defs has_default_def members_of_def
      tbl_create_rows [OF assms(2)])

section \<open>Deletions\<close>

lemma members_of_cascade_client: "members_of c (cascade_client i d) = (if c = i then [] else members_of c d)"
  by (auto simp: members_of_def cascade_client_def Let_def tbl_delete_def filter_empty_conv
      intro!: arg_cong [where f = "List.map ucm_UserID"] filter_cong)

lemma accounts_cascade_client:
  assumes "accounts_ok d"
  shows "accounts_ok (cascade_client i d)"
proof -
  let ?d = "cascade_client i d"
  let ?f = "\<lambda>u. if u_CurrentClientID u = Some i then u\<lparr>u_CurrentClientID := None\<rparr> else u"
  have k: "keys_distinct u_ID (t_users ?d)" "keys_distinct clm_ID (t_clients ?d)" "keys_distinct cpm_ID (t_campaigns ?d)"
    using assms by (auto simp: accounts_ok_def accounts_but_def cascade_client_def Let_def keys_distinct_def comp_def
        tbl_delete_def distinct_map_filter if_distrib cong: if_cong)
  have "current_ok ?d (?f u)" if "current_ok d u" for u
    using that unfolding current_defs members_of_cascade_client
    by (auto simp: cascade_client_def Let_def set_tbl_delete)
  moreover have "has_default ?d j" if "has_default d j" "j \<noteq> i" for j
    using that by (auto simp: has_default_def cascade_client_def Let_def set_tbl_delete)
  moreover have "set (t_users ?d) = ?f ` set (t_users d)" "set (t_clients ?d) = {r \<in> set (t_clients d). clm_ID r \<noteq> i}"
    by (simp_all add: cascade_client_def Let_def set_tbl_delete)
  ultimately show ?thesis
    using assms k unfolding accounts_ok_def accounts_but_def by (simp only: image_iff Ball_def mem_Collect_eq) blast
qed

lemma accounts_cascade_user:
  assumes "accounts_ok d" and "cascade_user i d = Inr d'"
  shows "accounts_ok d'"
proof -
  have fold: "accounts_ok (fold cascade_client cls d)" for cls
    using assms(1) by (induction cls arbitrary: d) (simp_all add: accounts_cascade_client)
  define e where "e = fold cascade_client (List.map clm_ID (List.filter (\<lambda>r. clm_WorkspaceID r \<in>
      w_ID ` {w \<in> set (t_workspaces d). w_OwnerUserID w = i}) (t_clients d))) d"
  have e: "accounts_ok e" unfolding e_def by (rule fold)
  have tables: "t_users d' = tbl_delete (\<lambda>u. u_ID u = i) (t_users e)" "t_clients d' = t_clients e"
    "t_campaigns d' = t_campaigns e" "t_user_clients d' = tbl_delete (\<lambda>r. ucm_UserID r = i) (t_user_clients e)"
    using assms(2) by (auto simp: cascade_user_def Let_def e_def split: if_splits)
  have "current_ok d' u" if "current_ok e u" "u_ID u \<noteq> i" for u
    using that by (auto simp: current_defs members_of_def tables set_tbl_delete)
  moreover have "has_default d' j = has_default e j" for j by (simp add: has_default_def tables)
  moreover have "keys_distinct u_ID (t_users d')"
    using e by (simp add: tables accounts_ok_def accounts_but_def tbl_delete_distinct)
  ultimately show ?thesis
    using e unfolding accounts_ok_def accounts_but_def by (simp add: tables set_tbl_delete)
qed

section \<open>Every account command keeps the invariant\<close>

lemmas account_reads = campaign_GetByID_def campaign_GetByIDForUpdate_def campaign_Update_def user_GetByID_def
  user_Update_def user_GetByClerkID_def workspace_GetByOwnerUserID_def media_Update_def ListActiveByCampaignID_def
  ListByMediaID_def StoreEvents_def campaign_Save_def user_Save_def workspace_Save_def subscription_Save_def
  plan_GetBySlug_def

lemma client_GetByID_tx:
  assumes "\<And>n c. (\<forall>c'. c = Some c' \<longrightarrow> cl_ID c' = i \<and> client_exists (wd_db w) i \<and>
      cl_MemberIDs c' = members_of i (wd_db w)) \<Longrightarrow> Q c (w\<lparr>wd_tick := n\<rparr>)"
  shows "wp (client_GetByID i) Q (\<lambda>_ _. True) r w"
  using assms
  by (fastforce simp: client_GetByID_def client_exists_def clientDomainFromModel_def split: option.splits dest!: tbl_first_Some)

lemma accounts_campaign_step:
  assumes "accounts_ok d" and "campaign_get i d = Some c" and "campaign_step c c'"
  shows "accounts_ok (campaign_put c' d)"
  unfolding accounts_ok_def
proof (rule accounts_campaign_put [of "{}" "{}" d i c])
  show "cp_DeletedAt c' = None" if "cp_IsDefault c"
    using campaign_step_default [OF assms(3) that] campaign_get_row [OF assms(2)] by auto
qed (use assms campaign_step_identity [OF assms(3)] in \<open>auto simp: accounts_ok_def\<close>)

lemma accounts_ok_other [simp]:
  "accounts_ok (outbox_put es d) = accounts_ok d" "accounts_ok (media_put m d) = accounts_ok d"
  "accounts_ok (d\<lparr>t_subscriptions := t1\<rparr>) = accounts_ok d"
  "accounts_ok (d\<lparr>t_workspaces := t2\<rparr>) = accounts_ok d"
  by (simp_all add: accounts_ok_def)

text \<open>The campaign handlers are reads followed by the step of one campaign.\<close>

lemma accounts_UpdateCampaign: "keeps (\<lambda>r. holds accounts_ok) (UpdateCampaign i name s e)"
  unfolding UpdateCampaign_def
  by (intro keeps_intros holds_withTx, intro tx_safe_intros)
    (auto simp: account_reads split: option.splits intro: accounts_campaign_step [OF _ _ campaign_step.update])

lemma accounts_background_fail: "keeps (\<lambda>r. holds accounts_ok) (background_fail c key err)"
  unfolding background_fail_def Let_def
  by (intro keeps_intros holds_withTx, intro tx_safe_intros)
    (auto simp: account_reads split: option.splits intro: accounts_campaign_step [OF _ _ campaign_step.failed])

lemma accounts_background_ready: "keeps (\<lambda>r. holds accounts_ok) (background_ready c key tkey ct)"
  unfolding background_ready_def Let_def
  by (intro keeps_intros holds_withTx, intro tx_safe_intros)
    (auto simp: account_reads split: option.splits intro: accounts_campaign_step [OF _ _ campaign_step.ready])

lemma accounts_ProcessBackgroundUpload: "keeps (\<lambda>r. holds accounts_ok) (ProcessBackgroundUpload key ct sz)"
  unfolding ProcessBackgroundUpload_def GetByBackgroundPendingKey_def Let_def
  by (intro keeps_intros accounts_background_fail accounts_background_ready)

lemma accounts_ClearBackground: "keeps (\<lambda>r. holds accounts_ok) (ClearBackground i cl)"
  unfolding ClearBackground_def Let_def
  by (intro keeps_intros holds_withTx, intro tx_safe_intros)
    (auto simp: account_reads split: option.splits intro: accounts_campaign_step [OF _ _ campaign_step.cleared])

lemma accounts_PresignBackground: "keeps (\<lambda>r. holds accounts_ok) (PresignBackground i cl name ct)"
  unfolding PresignBackground_def Let_def
  by (intro keeps_intros holds_withTx, intro tx_safe_intros)
    (auto simp: account_reads split: option.splits intro: accounts_campaign_step [OF _ _ campaign_step.pending])

lemma keeps_wpI: "keeps I c \<Longrightarrow> I r w \<Longrightarrow> (\<And>a w'. I r w' \<Longrightarrow> Q a w') \<Longrightarrow> wp c Q (\<lambda>_ _. True) r w"
  unfolding keeps_wp by (blast intro: wp_mono)

lemma accounts_delete_media: "keeps (\<lambda>r. in_tx_holds accounts_ok) (delete_media m es)"
  unfolding delete_media_def contentObjectRefs_def Let_def account_reads
  by (intro keeps_intros in_tx_holds_write) auto

lemma accounts_StoreEvents: "keeps (\<lambda>r. in_tx_holds accounts_ok) (StoreEvents es)"
  unfolding StoreEvents_def by (intro keeps_intros in_tx_holds_write) auto

lemma accounts_DeleteCampaign: "keeps (\<lambda>r. holds accounts_ok) (DeleteCampaign i)"
  unfolding DeleteCampaign_def
proof (intro holds_withTx, goal_cases)
  case 1
  show ?case unfolding delete_media_def contentObjectRefs_def Let_def by (intro tx_safe_intros)
next
  case (2 r w)
  have rest: "wp (foldC delete_media ms es) (\<lambda>a. wp (StoreEvents a) (\<lambda>_ w'. accounts_ok (wd_db w')) (\<lambda>_ _. True) r)
      (\<lambda>_ _. True) r v" if "in_tx_holds accounts_ok v" for ms es and v :: world
    by (rule keeps_wpI [OF keeps_foldC [OF accounts_delete_media] that], rule keeps_wpI [OF accounts_StoreEvents])
      (simp_all add: in_tx_holds_def)
  have step: "in_tx_holds accounts_ok (w\<lparr>wd_db := campaign_put c' (wd_db w), wd_tick := n\<rparr>)"
    if "campaign_get i (wd_db w) = Some c" "campaign_SoftDelete now eid c = Inr c'" for c c' n now eid
    using 2 accounts_campaign_step [OF _ that(1) campaign_step.delete [OF that(2)]] by (simp add: in_tx_holds_def)
  show ?case
    using 2 by (auto simp: campaign_GetByIDForUpdate_def campaign_Update_def ListActiveByCampaignID_def
        split: option.splits intro!: rest step)
qed

lemma accounts_CreateCampaign: "keeps (\<lambda>r. holds accounts_ok) (CreateCampaign quota name cl s e)"
  unfolding CreateCampaign_def
proof (intro keeps_intros holds_withTx, goal_cases)
  case 1
  show ?case by (intro tx_safe_intros)
next
  case (2 now nid eid c r w)
  have "accounts_ok d'" if "campaign_insert c (wd_db w) = Inr d'" for d'
    using accounts_campaign_insert [OF _ that, of "{}" "{}"] 2 by (auto simp: accounts_ok_def split: if_splits)
  then show ?case using 2 by (auto simp: account_reads)
qed

lemma accounts_client_update:
  assumes "accounts_ok d" and "client_exists d (cl_ID c)"
    and "set (members_of (cl_ID c) d) \<subseteq> set (cl_MemberIDs c)"
  shows "accounts_ok (client_written now c d)"
  using accounts_client_written [of "{}" "{}" d c "{}" "{}" now] assms by (auto simp: accounts_ok_def current_ok_def)

lemma accounts_UpdateClient: "keeps (\<lambda>r. holds accounts_ok) (UpdateClient i name)"
  unfolding UpdateClient_def Let_def
  by (intro keeps_intros holds_withTx, intro tx_safe_intros)
    (auto simp: account_reads client_ApplyUpdate_def client_recordEvent_def split: option.splits
      intro!: client_GetByID_tx wp_client_Update_tx accounts_client_update)

lemma accounts_AddClientMember: "keeps (\<lambda>r. holds accounts_ok) (AddClientMember quota i u actor)"
  unfolding AddClientMember_def
proof (intro keeps_intros holds_withTx, goal_cases)
  case 1
  show ?case by (intro tx_safe_intros readonly_tx_safe readonly_guards)
next
  case (2 r w)
  have ok: "wp (AssertMemberCreate i) Q (\<lambda>_ _. True) r v" if "\<And>n. Q () (v\<lparr>wd_tick := n\<rparr>)" for Q and v :: world
    by (rule wp_readonly [OF readonly_guards(1)]) (use that in auto)
  show ?case
    using 2 by (auto simp: account_reads AddMember_eq Let_def split: option.splits
      intro!: client_GetByID_tx wp_client_Update_tx accounts_client_update ok)
qed

text \<open>The member who leaves is the one exception until his current client is cleared.\<close>

lemma accounts_member_removed:
  assumes "accounts_ok d" and "client_exists d (cl_ID c)"
    and "cl_MemberIDs c = remove1 u (members_of (cl_ID c) d)"
  shows "accounts_but {u} {} (client_written now c d)"
  using accounts_client_written [of "{}" "{}" d c "{u}" "{}" now] assms
  by (auto simp: accounts_ok_def current_ok_def)

lemma accounts_member_settled:
  assumes "accounts_but {u} {} d" and "\<And>v. user_get u d = Some v \<Longrightarrow> current_ok d v"
  shows "accounts_ok d"
  using accounts_drop_exception [of u "{}" "{}" d] assms by (simp add: accounts_ok_def)

lemma user_get_written [simp]: "user_get u (client_written now c d) = user_get u d"
  by (simp add: user_get_def client_written_def)

lemma current_ok_written:
  assumes "accounts_ok d" "user_get u d = Some v" "u_CurrentClientID v \<noteq> Some (cl_ID c)"
    and "client_exists d (cl_ID c)"
  shows "current_ok (client_written now c d) v"
proof -
  have k: "keys_distinct clm_ID (t_clients d)" and ok: "current_ok d v"
    using assms(1,2) user_get_current_ok [of "{}" "{}" d u v] by (auto simp: accounts_ok_def accounts_but_def)
  have "clm_ID ` set (t_clients (client_written now c d)) = clm_ID ` set (t_clients d)"
    using assms(4) by (auto simp: client_exists_def client_written_def set_tbl_save [OF k] clientModelFromDomain_def image_def)
  then show ?thesis using ok assms(3) unfolding current_defs members_of_written by auto
qed

lemma accounts_RemoveClientMember: "keeps (\<lambda>r. holds accounts_ok) (RemoveClientMember i u)"
  unfolding RemoveClientMember_def Let_def
proof (intro holds_withTx, goal_cases)
  case 1
  show ?case by (intro tx_safe_intros)
next
  case (2 r w)
  have cleared: "accounts_ok (user_put (snd (ClearCurrentClient now eid v)) d)"
    if "accounts_but {u} {} d" "u_ID v = u" for v now eid d
    using accounts_user_put [OF that(1), of "snd (ClearCurrentClient now eid v)"] that(2)
    by (auto simp: accounts_ok_def ClearCurrentClient_def current_ok_def user_recordEvent_def Let_def)
  have uid: "user_get u d = Some v \<Longrightarrow> u_ID v = u" for d v by (auto dest!: user_get_row)
  show ?case
    using 2 by (auto simp: account_reads RemoveMember_eq split: option.splits
      intro!: client_GetByID_tx wp_client_Update_tx cleared uid accounts_member_removed
        accounts_member_settled [OF accounts_member_removed [where u = u]] current_ok_written [where u = u])
qed

lemma accounts_SetCurrentClientOf: "keeps (\<lambda>r. holds accounts_ok) (SetCurrentClientOf u i)"
  unfolding SetCurrentClientOf_def
proof (intro keeps_intros holds_withTx, goal_cases)
  case 1
  show ?case by (intro tx_safe_intros)
next
  case (2 r w)
  have put: "accounts_ok (user_put v' d)"
    if "accounts_ok d" "user_get u d = Some v" "client_exists d j" "u \<in> set (members_of j d)"
      "SetCurrentClient now eid j v = (True, v')" for v v' d now eid j
    using that accounts_user_put [of "{}" "{}" d v'] user_get_row [OF that(2)]
    by (auto simp: accounts_ok_def SetCurrentClient_def current_ok_def user_recordEvent_def Let_def split: if_splits)
  show ?case
    using 2 by (auto simp: account_reads split: option.splits prod.splits intro!: client_GetByID_tx)
      (metis put)+
qed

lemma accounts_DeleteClient: "keeps (\<lambda>r. holds accounts_ok) (DeleteClient i)"
  unfolding DeleteClient_def Let_def
proof (intro holds_withTx, goal_cases)
  case 1
  show ?case by (intro tx_safe_intros)
next
  case (2 r w)
  have "cascade_client i (drop_members i d) = cascade_client i d" for d
    by (auto simp: cascade_client_def drop_members_def Let_def tbl_delete_def)
  then show ?case
    using 2 by (auto simp: account_reads client_MarkDeleted_def client_recordEvent_def client_Delete_def
        accounts_cascade_client split: option.splits intro!: client_GetByID_tx)
qed

lemma accounts_DeleteUserByExternalID: "keeps (\<lambda>r. holds accounts_ok) (DeleteUserByExternalID x)"
  unfolding DeleteUserByExternalID_def Let_def
proof (intro holds_withTx, goal_cases)
  case 1
  show ?case unfolding user_Delete_def by (intro tx_safe_intros)
next
  case (2 r w)
  then show ?case
    by (auto simp: account_reads user_Delete_def split: option.splits intro: accounts_cascade_user)
qed

text \<open>A client with its first member and its default campaign.\<close>

lemma wp_new_client:
  assumes "\<And>c n. cl_MemberIDs c = [u] \<Longrightarrow> cl_WorkspaceID c = ws \<Longrightarrow> cl_Name c = name \<Longrightarrow> Q c (w\<lparr>wd_tick := n\<rparr>)"
  shows "wp (new_client name ws u) Q E r w"
  using assms by (simp add: new_client_def AddMember_eq NewClient_def client_recordEvent_def Let_def)

lemma wp_default_campaign:
  assumes "\<And>c n. cp_ClientID c = i \<Longrightarrow> cp_IsDefault c \<Longrightarrow> cp_DeletedAt c = None \<Longrightarrow> Q c (w\<lparr>wd_tick := n\<rparr>)"
  shows "wp (default_campaign i) Q E r w"
  using assms by (simp add: default_campaign_def NewDefaultCampaign_def campaign_recordEvent_def Let_def)

lemma bootstrap_facts:
  assumes "campaign_insert cp (client_written now c d) = Inr d'" and "keys_distinct clm_ID (t_clients d)"
  shows "client_exists d' (cl_ID c)" "members_of (cl_ID c) d' = cl_MemberIDs c"
proof -
  obtain t where d': "d' = (client_written now c d)\<lparr>t_campaigns := t\<rparr>"
    using assms(1) by (auto simp: campaign_insert_def split: sum.splits)
  show "client_exists d' (cl_ID c)"
    by (simp add: d' client_exists_def client_written_def set_tbl_save [OF assms(2)] clientModelFromDomain_def)
  have "members_of (cl_ID c) d' = members_of (cl_ID c) (client_written now c d)" by (simp add: d' members_of_def)
  then show "members_of (cl_ID c) d' = cl_MemberIDs c" by (simp add: members_of_written)
qed

lemma accounts_bootstrap:
  assumes "accounts_ok d" and "\<not> client_exists d (cl_ID c)"
    and "campaign_insert cp (client_written now c d) = Inr d'"
    and "cp_ClientID cp = cl_ID c" "cp_IsDefault cp" "cp_DeletedAt cp = None"
  shows "accounts_ok d'"
proof -
  have "accounts_but {} {cl_ID c} (client_written now c d)"
    using accounts_client_written [of "{}" "{}" d c "{}" "{cl_ID c}" now] assms(1,2)
    by (auto simp: accounts_ok_def current_ok_def)
  from accounts_campaign_insert [OF this assms(3)] show ?thesis using assms(4-6) by (simp add: accounts_ok_def)
qed

lemma accounts_set_current:
  assumes "accounts_ok d" and "client_exists d i" "u_ID u \<in> set (members_of i d)"
  shows "accounts_ok (user_put (snd (SetCurrentClient now eid i u)) d)"
  using accounts_user_put [of "{}" "{}" d "snd (SetCurrentClient now eid i u)"] assms
  by (auto simp: accounts_ok_def SetCurrentClient_def current_ok_def user_recordEvent_def Let_def)

lemma accounts_distinct: "accounts_ok d \<Longrightarrow> keys_distinct clm_ID (t_clients d)"
  by (simp add: accounts_ok_def accounts_but_def)

lemma accounts_bootstrap_current:
  assumes "accounts_ok d" and "\<not> client_exists d (cl_ID c)"
    and "campaign_insert cp (client_written now c d) = Inr d'"
    and "cp_ClientID cp = cl_ID c" "cp_IsDefault cp" "cp_DeletedAt cp = None"
    and "u_ID u \<in> set (cl_MemberIDs c)"
  shows "accounts_ok (user_put (snd (SetCurrentClient now' eid (cl_ID c) u)) d')"
  by (rule accounts_set_current)
    (use assms accounts_bootstrap [OF assms(1-6)] bootstrap_facts [OF assms(3) accounts_distinct [OF assms(1)]] in auto)

lemma accounts_CreateClient: "keeps (\<lambda>r. holds accounts_ok) (CreateClient name u)"
  unfolding CreateClient_def Let_def
proof (intro keeps_intros holds_withTx, goal_cases)
  case 1
  show ?case unfolding new_client_def default_campaign_def by (intro tx_safe_intros)
next
  case (2 r w)
  then show ?case
    by (auto simp: account_reads split: option.splits dest!: user_get_row
        intro!: wp_new_client wp_client_Save_tx wp_default_campaign accounts_bootstrap_current [where d = "wd_db w"])
qed


lemma NewFreeSubscription_sel [simp]:
  "s_PlanID (NewFreeSubscription now now' nid eid p) = p" "s_Status (NewFreeSubscription now now' nid eid p) = SubActive"
  by (simp_all add: NewFreeSubscription_def NewSubscription_def subscription_recordEvent_def Let_def)

lemma wp_free_subscription:
  assumes "wd_tx w" and "\<And>p s n t. plan_by_slug FreePlanSlug (wd_db w) = Some p \<Longrightarrow> s_PlanID s = p_ID p \<Longrightarrow>
      s_Status s = SubActive \<Longrightarrow> tbl_create s_ID (subscriptionModel s) (t_subscriptions (wd_db w)) = Inr t \<Longrightarrow>
      Q s (w\<lparr>wd_tick := n, wd_db := (wd_db w)\<lparr>t_subscriptions := t\<rparr>\<rparr>)"
  shows "wp free_subscription Q (\<lambda>_ _. True) r w"
  using assms(1) unfolding free_subscription_def account_reads Let_def
  by (auto split: option.splits sum.splits intro!: assms(2))

text \<open>What a new user finds: a workspace of his own on the free plan, a client of it whose only member he is and
  in which he works, and the default campaign of that client.\<close>

definition bootstrapped :: "user \<Rightarrow> db \<Rightarrow> bool" where
  "bootstrapped u d \<longleftrightarrow> (\<exists>c v s p. u_CurrentClientID u = Some (clm_ID c) \<and> userModel u \<in> set (t_users d) \<and>
     c \<in> set (t_clients d) \<and> members_of (clm_ID c) d = [u_ID u] \<and> has_default d (clm_ID c) \<and>
     v \<in> set (t_workspaces d) \<and> w_OwnerUserID v = u_ID u \<and> clm_WorkspaceID c = w_ID v \<and>
     w_SubscriptionID v = Some (s_ID s) \<and> s \<in> set (t_subscriptions d) \<and> s_Status s = SubActive \<and>
     plan_by_slug FreePlanSlug d = Some p \<and> s_PlanID s = p_ID p)"

text \<open>The database that the transaction builds, table by table.\<close>

lemma bootstrapped_result:
  assumes d: "accounts_ok d" and u: "tbl_create u_ID (userModel u) (t_users d) = Inr tu"
    and s: "tbl_create s_ID (subscriptionModel s) (t_subscriptions d) = Inr ts"
    and v: "tbl_create w_ID (workspaceModel v) (t_workspaces d) = Inr tw"
    and ins: "campaign_insert cp (client_written now c
      (d\<lparr>t_users := tu, t_subscriptions := ts, t_workspaces := tw\<rparr>)) = Inr d'"
    and u'_def: "u' = snd (SetCurrentClient now' eid (cl_ID c) u)"
    and none: "u_CurrentClientID u = None"
    and p: "plan_by_slug FreePlanSlug d = Some p" "s_PlanID s = p_ID p" "s_Status s = SubActive"
    and ws: "w_OwnerUserID v = u_ID u" "w_SubscriptionID v = Some (s_ID s)"
    and c: "cl_MemberIDs c = [u_ID u]" "cl_WorkspaceID c = w_ID v" "\<not> client_exists d (cl_ID c)"
    and cp: "cp_ClientID cp = cl_ID c" "cp_IsDefault cp" "cp_DeletedAt cp = None"
  shows "accounts_ok (user_put u' d')" "bootstrapped u' (user_put u' d')"
proof -
  let ?d = "d\<lparr>t_users := tu, t_subscriptions := ts, t_workspaces := tw\<rparr>"
  have ok: "accounts_ok ?d" using accounts_user_insert [OF d u none] by simp
  have fresh: "\<not> client_exists ?d (cl_ID c)" using c(3) by (simp add: client_exists_def)
  show "accounts_ok (user_put u' d')"
    unfolding u'_def by (rule accounts_bootstrap_current [OF ok fresh ins cp]) (simp add: c(1))
  have k: "keys_distinct u_ID tu" "keys_distinct clm_ID (t_clients d)"
    using ok by (simp_all add: accounts_ok_def accounts_but_def)
  obtain t where t: "tbl_create cpm_ID (campaignModelFromDomain cp) (t_campaigns d) = Inr t"
      "d' = (client_written now c ?d)\<lparr>t_campaigns := t\<rparr>"
    using ins by (auto simp: campaign_insert_def client_written_def split: sum.splits)
  have "members_of (cl_ID c) (user_put u' d') = members_of (cl_ID c) (client_written now c ?d)"
    by (simp add: members_of_def user_put_def t(2))
  then have m: "members_of (cl_ID c) (user_put u' d') = [u_ID u]" by (simp add: members_of_written c(1))
  have u': "u_CurrentClientID u' = Some (cl_ID c)" "u_ID u' = u_ID u"
    using none by (simp_all add: u'_def SetCurrentClient_def user_recordEvent_def Let_def)
  show "bootstrapped u' (user_put u' d')"
    unfolding bootstrapped_def
  proof (intro exI conjI)
    show "has_default (user_put u' d') (clm_ID (clientModelFromDomain c))"
      using cp by (auto simp: has_default_def user_put_def t(2) tbl_create_rows [OF t(1)] clientModelFromDomain_def)
    show "plan_by_slug FreePlanSlug (user_put u' d') = Some p"
      using p(1) by (simp add: plan_by_slug_def user_put_def t(2) client_written_def)
    show "userModel u' \<in> set (t_users (user_put u' d'))"
      by (simp add: user_put_def t(2) client_written_def set_tbl_save [OF k(1)])
    show "clientModelFromDomain c \<in> set (t_clients (user_put u' d'))"
      by (simp add: user_put_def t(2) client_written_def set_tbl_save [OF k(2)])
    show "workspaceModel v \<in> set (t_workspaces (user_put u' d'))"
      by (simp add: user_put_def t(2) client_written_def tbl_create_rows [OF v])
    show "subscriptionModel s \<in> set (t_subscriptions (user_put u' d'))"
      by (simp add: user_put_def t(2) client_written_def tbl_create_rows [OF s])
  qed (use u' m p ws c in \<open>simp_all add: clientModelFromDomain_def workspaceModel_def subscriptionModel_def\<close>)
qed


lemma bootstrapped_pulled [simp]: "bootstrapped (snd (user_PullEvents u)) d = bootstrapped u d"
  by (simp add: bootstrapped_def user_PullEvents_def userModel_def)

lemma bootstrapped_outbox [simp]: "bootstrapped u (outbox_put es d) = bootstrapped u d"
  by (simp add: bootstrapped_def outbox_put_def members_of_def has_default_def plan_by_slug_def)

lemma new_account_sel [simp]:
  "u_CurrentClientID (NewUser now nid eid ck f l em b) = None"
  "w_OwnerUserID (AssignSubscription now eid i v) = w_OwnerUserID v"
  "w_SubscriptionID (AssignSubscription now eid i v) = Some i"
  "w_OwnerUserID (NewWorkspace now nid eid i) = i"
  by (simp_all add: account_ops)

lemma frame_new_account [simp]:
  "plan_by_slug k (d\<lparr>t_users := tu\<rparr>) = plan_by_slug k d"
  "client_exists (d\<lparr>t_users := tu, t_subscriptions := ts, t_workspaces := tw\<rparr>) i = client_exists d i"
  by (simp_all add: plan_by_slug_def client_exists_def)

lemma tx_safe_CreateUser [tx_safe_intros]:
  "tx_safe (new_client name i u)" "tx_safe (default_campaign i)" "tx_safe free_subscription"
  unfolding new_client_def default_campaign_def free_subscription_def Let_def by (intro tx_safe_intros)+

text \<open>The whole command: all of it is committed, or nothing.\<close>

lemma wp_CreateUser:
  assumes "holds accounts_ok w"
  shows "wp (CreateUser ck f l em b) (\<lambda>u w'. holds accounts_ok w' \<and> bootstrapped u (wd_committed w'))
    (\<lambda>e w'. e = Err ''failed to create user'' \<and> idle w' \<and> wd_committed w' = wd_committed w) r w"
  unfolding CreateUser_def Let_def wp_bind wp_now wp_uuid wp_mapErr
proof (rule wp_mono [OF wp_withTx_val [where R = "\<lambda>u d. accounts_ok d \<and> bootstrapped u d"]], goal_cases)
  case 1
  show ?case by (intro tx_safe_intros)
next
  case 2
  show ?case
    using assms
    by (auto simp: account_reads beginTx_def holds_def split: option.splits sum.splits if_splits
        intro!: wp_free_subscription wp_new_client wp_client_Save_tx wp_default_campaign)
      ((rule bootstrapped_result, (assumption | rule refl | (simp; fail))+)+)
qed (auto simp: holds_def)

lemma accounts_CreateUser: "keeps (\<lambda>r. holds accounts_ok) (CreateUser ck f l em b)"
  unfolding keeps_wp
  by (intro allI impI, rule wp_mono [OF wp_CreateUser]) (auto simp: holds_def)

text \<open>An update of a user that is written back as it was read.\<close>

lemma accounts_UpdateUser:
  "keeps (\<lambda>r. holds accounts_ok) (bindC (GetUserByExternalID x) (\<lambda>u. UpdateUser u f l em b))"
proof -
  have put: "accounts_ok (user_put (user_ApplyUpdate now eid f l em b v) d)"
    if "accounts_ok d" "map_option userModel (tbl_first u_ID (\<lambda>u. u_ClerkID u = x) (t_users d)) = Some v" for v d now eid
    using that accounts_user_put [of "{}" "{}" d "user_ApplyUpdate now eid f l em b v"]
    by (auto simp: accounts_ok_def accounts_but_def current_ok_def account_ops userModel_def dest!: tbl_first_Some)
  show ?thesis
    unfolding keeps_wp
  proof (intro allI impI)
    fix r and w :: world
    assume w: "holds accounts_ok w"
    have tx: "wp (withTx (thenC (mapErrC (failed_to ''update user'') (user_Update v)) (StoreEvents es))) (\<lambda>_. holds accounts_ok)
        (\<lambda>_. holds accounts_ok) r u" if "accounts_ok (user_put v (wd_committed u))" "holds accounts_ok u" for v es and u :: world
      by (rule wp_mono [OF wp_withTx_rel [where R = accounts_ok]], intro tx_safe_intros)
        (use that in \<open>auto simp: account_reads beginTx_def holds_def\<close>)
    show "wp (bindC (GetUserByExternalID x) (\<lambda>u. UpdateUser u f l em b)) (\<lambda>_. holds accounts_ok) (\<lambda>_. holds accounts_ok) r w"
      unfolding GetUserByExternalID_def UpdateUser_def user_GetByClerkID_def Let_def
      using w by (auto simp: holds_def idle_def split: option.splits intro!: tx put)
  qed
qed

end
