(* ===== verification/CampaignLifecycle.thy ===== *)
theory CampaignLifecycle
  imports AccountInvariant
begin

text \<open>
  What the campaign commands achieve: a deleted campaign takes its medias along, the default campaign
  cannot be deleted, and the background image of a campaign answers to the last key that was asked for.
\<close>

section \<open>Deleting a campaign\<close>

definition live_medias :: "uuid \<Rightarrow> db \<Rightarrow> uuid set" where
  "live_medias i d = mm_ID ` {r \<in> set (t_media d). mm_CampaignID r = i \<and> mm_DeletedAt r = None}"

lemma campaign_medias_live: "m_ID ` set (campaign_medias i d) = live_medias i d"
  by (auto simp: campaign_medias_def live_medias_def mediaDomainFromModel_def image_image)

lemma live_medias_Nil: "campaign_medias i d = [] \<longleftrightarrow> live_medias i d = {}"
  by (simp add: campaign_medias_live [symmetric])

lemma campaign_medias_not_deleted: "m \<in> set (campaign_medias i d) \<Longrightarrow> \<not> IsDeleted m"
  by (auto simp: campaign_medias_def mediaDomainFromModel_def IsDeleted_def)

lemma live_medias_put:
  assumes "media_table d" and "m_DeletedAt m \<noteq> None"
  shows "live_medias i (media_put m d) = live_medias i d - {m_ID m}"
proof -
  have k: "keys_distinct mm_ID (t_media d)" using assms(1) by (simp add: media_table_def)
  show ?thesis
    using assms(2) by (auto simp: live_medias_def media_put_def set_tbl_save [OF k] mediaModelFromDomain_def Let_def)
qed

lemma SoftDelete_facts:
  "\<not> IsDeleted m \<Longrightarrow> m_DeletedAt (SoftDelete us now eid refs b m) = Some now"
  "m_ID (SoftDelete us now eid refs b m) = m_ID m"
  by (simp_all add: SoftDelete_def recordEvent_def)

definition campaign_emptied :: "uuid \<Rightarrow> db \<Rightarrow> db \<Rightarrow> uuid set \<Rightarrow> bool" where
  "campaign_emptied i d d' is \<longleftrightarrow> media_table d' \<and> t_campaigns d' = t_campaigns d \<and>
     live_medias i d' = live_medias i d - is"

lemma wp_delete_media:
  assumes "wd_tx w" and "\<And>us now eid refs es' n. Q es'
      (w\<lparr>wd_tick := n, wd_db := media_put (SoftDelete us now eid refs True m) (wd_db w)\<rparr>)"
  shows "wp (delete_media m es) Q (\<lambda>_ _. True) r w"
  using assms by (auto simp: delete_media_def contentObjectRefs_def account_reads Let_def)

lemma wp_delete_medias:
  fixes w :: world
  assumes "wd_tx w" "media_table (wd_db w)" "\<forall>m \<in> set ms. \<not> IsDeleted m"
  shows "wp (foldC delete_media ms es) (\<lambda>_ w'. wd_tx w' \<and> campaign_emptied i (wd_db w) (wd_db w') (m_ID ` set ms))
    (\<lambda>_ _. True) r w"
  using assms
proof (induction ms arbitrary: es w)
  case Nil
  then show ?case by (simp add: campaign_emptied_def)
next
  case (Cons m ms)
  have step: "wp (foldC delete_media ms es')
      (\<lambda>_ w'. wd_tx w' \<and> campaign_emptied i (wd_db w) (wd_db w') (m_ID ` set (m # ms))) (\<lambda>_ _. True) r
      (w\<lparr>wd_tick := n, wd_db := media_put (SoftDelete us now eid refs True m) (wd_db w)\<rparr>)" for us now eid refs es' n
  proof (rule wp_mono [OF Cons.IH], goal_cases)
    case 2
    show ?case using Cons.prems by (simp add: media_table_put)
  next
    case (4 a w')
    then show ?case
      using Cons.prems live_medias_put [OF Cons.prems(2), of "SoftDelete us now eid refs True m" i]
      by (auto simp: campaign_emptied_def SoftDelete_facts media_put_def)
  qed (use Cons.prems in auto)
  show ?case
    unfolding foldC.simps wp_bind by (rule wp_delete_media [OF Cons.prems(1)], rule step)
qed

text \<open>Success means that the campaign, which is not the default one, and all its medias are gone.\<close>

definition campaign_gone :: "uuid \<Rightarrow> db \<Rightarrow> db \<Rightarrow> bool" where
  "campaign_gone i d d' \<longleftrightarrow> (\<exists>c. campaign_get i d = Some c \<and> \<not> cp_IsDefault c) \<and>
     campaign_get i d' = None \<and> campaign_medias i d' = []"

lemma campaign_get_deleted:
  assumes "keys_distinct cpm_ID (t_campaigns d)" "cp_ID c = i" "cp_DeletedAt c \<noteq> None"
  shows "campaign_get i (campaign_put c d) = None"
  using assms(2,3) by (auto simp: campaign_get_def campaign_put_def tbl_first_None set_tbl_save [OF assms(1)])

lemma wp_DeleteCampaign:
  assumes "media_table (wd_committed w)" and "keys_distinct cpm_ID (t_campaigns (wd_committed w))"
  shows "wp (DeleteCampaign i) (\<lambda>_ w'. idle w' \<and> campaign_gone i (wd_committed w) (wd_committed w'))
    (\<lambda>_ w'. idle w' \<and> wd_committed w' = wd_committed w) r w"
  unfolding DeleteCampaign_def
proof (rule wp_withTx_rel, goal_cases)
  case 1
  show ?case unfolding delete_media_def contentObjectRefs_def Let_def by (intro tx_safe_intros)
next
  case 2
  let ?d = "wd_committed w"
  have deleted: "\<not> cp_IsDefault c" "cp_ID c' = i" "cp_DeletedAt c' \<noteq> None"
    if "campaign_get i ?d = Some c" "campaign_SoftDelete now eid c = Inr c'" for c c' now eid
    using that(2) media_get_campaign [OF that(1)] by (auto simp: campaign_ops split: if_splits)
  have gone: "campaign_gone i ?d (outbox_put es d2)" "campaign_gone i ?d d2"
    if c: "campaign_get i ?d = Some c" "campaign_SoftDelete now eid c = Inr c'"
      and e: "campaign_emptied i (campaign_put c' ?d) d2 (m_ID ` set (campaign_medias i (campaign_put c' ?d)))"
    for c now eid c' d2 es
  proof -
    have g: "campaign_get i d2 = None"
      using e campaign_get_deleted [OF assms(2) deleted(2,3) [OF c]] by (simp add: campaign_get_def campaign_emptied_def)
    have l: "live_medias i d2 = {}" using e by (simp add: campaign_emptied_def campaign_medias_live)
    show "campaign_gone i ?d d2" using g l c(1) deleted(1) [OF c] by (simp add: campaign_gone_def live_medias_Nil)
    then show "campaign_gone i ?d (outbox_put es d2)"
      by (simp add: campaign_gone_def campaign_get_def campaign_medias_def outbox_put_def)
  qed
  have rest: "wp (foldC delete_media (campaign_medias (cp_ID c') (campaign_put c' ?d)) es)
      (\<lambda>a. wp (StoreEvents a) (\<lambda>_ w'. campaign_gone i ?d (wd_db w')) (\<lambda>_ _. True) r) (\<lambda>_ _. True) r
      (w\<lparr>wd_tx := True, wd_db := campaign_put c' ?d, wd_tick := n\<rparr>)"
    if "campaign_get i ?d = Some c" "campaign_SoftDelete now eid c = Inr c'" for c c' now eid es n
    unfolding deleted(2) [OF that]
  proof (rule wp_mono [OF wp_delete_medias [where i = i]], goal_cases)
    case 2
    show ?case using assms(1) by (simp add: media_table_def campaign_put_def)
  next
    case (4 a v)
    then have "campaign_gone i ?d (outbox_put es' (wd_db v))" "campaign_gone i ?d (wd_db v)" "wd_tx v" for es'
      using gone [OF that] by auto
    then show ?case by (simp add: StoreEvents_def)
  qed (auto dest: campaign_medias_not_deleted)
  show ?case
    by (auto simp: campaign_GetByIDForUpdate_def campaign_Update_def ListActiveByCampaignID_def beginTx_def
        split: option.splits intro: rest)
qed


section \<open>The background image\<close>

lemma campaign_get_put:
  assumes "keys_distinct cpm_ID (t_campaigns d)" "cp_ID c = i" "cp_DeletedAt c = None"
  shows "campaign_get i (campaign_put c d) = Some (campaignDomainFromModel (campaignModelFromDomain c))"
proof -
  have "tbl_first cpm_ID (\<lambda>r. cpm_DeletedAt r = None \<and> cpm_ID r = i) (tbl_save cpm_ID (campaignModelFromDomain c) (t_campaigns d)) =
      Some (campaignModelFromDomain c)"
    by (rule tbl_first_key [OF tbl_save_distinct [OF assms(1)]]) (use assms in \<open>auto simp: set_tbl_save [OF assms(1)]\<close>)
  then show ?thesis by (simp add: campaign_get_def campaign_put_def)
qed

text \<open>The end of a processing run: only a campaign that still waits for this very key becomes ready.\<close>

definition background_settled :: "uuid \<Rightarrow> string \<Rightarrow> string \<Rightarrow> db \<Rightarrow> db \<Rightarrow> bool" where
  "background_settled i key thumbKey d d' \<longleftrightarrow> d' = d \<or>
     (\<exists>c c'. campaign_get i d = Some c \<and> cp_BackgroundPendingKey c = key \<and> campaign_get i d' = Some c' \<and>
       cp_BackgroundStatus c' = BackgroundStatusReady \<and> cp_BackgroundPendingKey c' = [] \<and>
       cp_BackgroundThumbnailKey c' = thumbKey)"

lemma campaign_get_outbox [simp]: "campaign_get i (outbox_put es d) = campaign_get i d"
  by (simp add: campaign_get_def outbox_put_def)

lemma wp_background_ready:
  assumes "keys_distinct cpm_ID (t_campaigns (wd_committed w))"
  shows "wp (background_ready c key thumbKey ct)
    (\<lambda>_ w'. idle w' \<and> background_settled (cp_ID c) key thumbKey (wd_committed w) (wd_committed w'))
    (\<lambda>_ w'. idle w' \<and> wd_committed w' = wd_committed w) r w"
  unfolding background_ready_def Let_def
proof (rule wp_withTx_rel, goal_cases)
  case 1
  show ?case by (intro tx_safe_intros)
next
  case 2
  have ready: "\<exists>c'. campaign_get i (campaign_put (ApplyBackgroundReady now eid thumbKey ct f) (wd_committed w)) = Some c' \<and>
      cp_BackgroundStatus c' = BackgroundStatusReady \<and> cp_BackgroundPendingKey c' = [] \<and>
      cp_BackgroundThumbnailKey c' = thumbKey"
    if "campaign_get i (wd_committed w) = Some f" for i f now eid
    using campaign_get_put [OF assms, of "ApplyBackgroundReady now eid thumbKey ct f" i]
      media_get_campaign [OF that] campaign_get_row [OF that]
    by (auto simp: ApplyBackgroundReady_def recordBackgroundUpdated_def campaign_recordEvent_def
        campaignDomainFromModel_def campaignModelFromDomain_def optionalNonEmpty_def derefString_def
        BackgroundStatusReady_def)
  show ?case
    using ready by (auto simp: account_reads beginTx_def background_settled_def split: option.splits)
qed

text \<open>A failure that comes in late is not recognised as such: a campaign that waits for no key, ready or
  cleared, is marked failed.\<close>

lemma wp_background_fail_late:
  assumes "keys_distinct cpm_ID (t_campaigns (wd_committed w))" and "idle w"
    and "campaign_get (cp_ID c) (wd_committed w) = Some f" "cp_BackgroundPendingKey f = []"
    and "\<And>t. en_fault r t = None"
  shows "wp (background_fail c key cause) (\<lambda>_ _. False) (\<lambda>err w'. err = cause \<and>
    (\<exists>c'. campaign_get (cp_ID c) (wd_committed w') = Some c' \<and> cp_BackgroundStatus c' = BackgroundStatusFailed)) r w"
proof -
  have failed: "\<exists>c'. campaign_get (cp_ID c) (campaign_put (MarkBackgroundFailed now eid f) (wd_committed w)) = Some c' \<and>
      cp_BackgroundStatus c' = BackgroundStatusFailed" for now eid
    using campaign_get_put [OF assms(1), of "MarkBackgroundFailed now eid f" "cp_ID c"]
      media_get_campaign [OF assms(3)] campaign_get_row [OF assms(3)]
    by (auto simp: MarkBackgroundFailed_def recordBackgroundUpdated_def campaign_recordEvent_def
        campaignDomainFromModel_def campaignModelFromDomain_def BackgroundStatusFailed_def)
  show ?thesis
    using assms failed
    by (simp add: background_fail_def storage_Delete_def account_reads wp_withTx beginTx_def commitTx_def Let_def)
qed

end
