(* ===== verification/BillingInvariant.thy ===== *)
theory BillingInvariant
  imports BillingCommands
begin

text \<open>
  What the billing commands keep and achieve: rows stay unique (one invoice per Stripe invoice), what
  Stripe reports never moves the anchor of a quota period, a completed checkout links the workspace to
  the plan that was bought, and the preview of a plan change decides as the change itself.
\<close>

section \<open>The invariant\<close>

definition billing_ok :: "db \<Rightarrow> bool" where
  "billing_ok d \<longleftrightarrow> keys_distinct s_ID (t_subscriptions d) \<and> keys_distinct w_ID (t_workspaces d) \<and>
     keys_distinct i_ID (t_invoices d) \<and> keys_distinct i_StripeInvoiceID (t_invoices d)"

text \<open>The anchors of the quota periods, by subscription.\<close>

definition anchors :: "db \<Rightarrow> (uuid \<times> gotime) list" where
  "anchors d = List.map (\<lambda>s. (s_ID s, s_QuotaPeriodStart s)) (t_subscriptions d)"

definition anchored :: "(uuid \<times> gotime) list \<Rightarrow> db \<Rightarrow> bool" where
  "anchored A d \<longleftrightarrow> billing_ok d \<and> anchors d = A"

lemma subscription_model_sel [simp]:
  "s_ID (subscriptionModel s) = s_ID s" "s_QuotaPeriodStart (subscriptionModel s) = s_QuotaPeriodStart s"
  "s_PlanID (subscriptionModel s) = s_PlanID s" "s_StripeSubscriptionID (subscriptionModel s) = s_StripeSubscriptionID s"
  "s_Status (subscriptionModel s) = s_Status s" "s_StripeCustomerID (subscriptionModel s) = s_StripeCustomerID s"
  by (simp_all add: subscriptionModel_def)

lemma billing_outbox [simp]:
  "billing_ok (outbox_put es d) = billing_ok d" "anchors (outbox_put es d) = anchors d"
  "anchored A (outbox_put es d) = anchored A d"
  by (simp_all add: billing_ok_def anchors_def anchored_def outbox_put_def)

text \<open>A subscription as a query returns it, and a revision of it.\<close>

definition stored_subscription :: "subscription \<Rightarrow> db \<Rightarrow> bool" where
  "stored_subscription s d \<longleftrightarrow> (\<exists>r \<in> set (t_subscriptions d). s = subscriptionModel r)"

definition revises :: "subscription \<Rightarrow> subscription \<Rightarrow> bool" where
  "revises s s' \<longleftrightarrow> s_ID s' = s_ID s \<and> s_QuotaPeriodStart s' = s_QuotaPeriodStart s"

lemma revises_ops:
  "revises s (ApplyUpdate now e1 e2 p st cu sb sd ed can (s_QuotaPeriodStart s) s)"
  "revises s (RecordRenewalUpcoming now fr eid am cur pe s)"
  "revises s (RecordPaymentMethodExpiring now fr eid br l4 em ey s)"
  "revises s (DowngradeToFree now now' e1 e2 fp s)"
  by (simp_all add: revises_def subscription_ops IsZero_def)

lemma anchored_put:
  assumes "anchored A d" and "stored_subscription s d" and "revises s s'"
  shows "anchored A (subscription_put s' d)"
proof -
  have k: "keys_distinct s_ID (t_subscriptions d)" using assms(1) by (simp add: anchored_def billing_ok_def)
  obtain r where r: "r \<in> set (t_subscriptions d)" "s = subscriptionModel r"
    using assms(2) by (auto simp: stored_subscription_def)
  have same: "s_QuotaPeriodStart q = s_QuotaPeriodStart s'" if "q \<in> set (t_subscriptions d)" "s_ID q = s_ID s'" for q
    using that r assms(3) keys_distinct_unique [OF k that(1) r(1)] by (simp add: revises_def)
  have "s_ID s' \<in> s_ID ` set (t_subscriptions d)" using r assms(3) by (auto simp: revises_def)
  then have "anchors (subscription_put s' d) = anchors d"
    using same by (auto simp: anchors_def subscription_put_def tbl_save_def)
  then show ?thesis
    using assms(1) tbl_save_distinct [OF k] by (simp add: anchored_def billing_ok_def subscription_put_def)
qed

section \<open>What the webhooks report\<close>

lemma keeps_save_subscription:
  assumes "holds (anchored A) w" and "stored_subscription s (wd_committed w)" and "revises s s'"
  shows "wp (save_subscription s') (\<lambda>_. holds (anchored A)) (\<lambda>_. holds (anchored A)) r w"
  unfolding save_subscription_def
  by (rule wp_mono [OF wp_withTx_rel [where R = "anchored A"]], intro tx_safe_intros)
    (use assms anchored_put [OF _ assms(2,3)] in
      \<open>auto simp: holds_def beginTx_def subscription_Update_def StoreEvents_def\<close>)

lemma subscription_found:
  "subscription_by_stripe k d = Some s \<Longrightarrow> stored_subscription s d"
  "subscription_by_customer k d = Some s \<Longrightarrow> stored_subscription s d"
  "subscription_get i d = Some s \<Longrightarrow> stored_subscription s d"
  by (auto simp: subscription_by_stripe_def subscription_by_customer_def subscription_get_def
      stored_subscription_def dest!: tbl_first_Some)

text \<open>The subscription a report is about.\<close>

definition subscription_for :: "string \<Rightarrow> string \<Rightarrow> db \<Rightarrow> subscription option" where
  "subscription_for subID customerID d =
    (case (if subID \<noteq> [] then subscription_by_stripe subID d else None) of Some s \<Rightarrow> Some s | None \<Rightarrow>
     if customerID = [] then None else
     case subscription_by_customer customerID d of None \<Rightarrow> None | Some s \<Rightarrow>
       if s_StripeSubscriptionID s \<noteq> [] \<and> subID \<noteq> [] \<and> s_StripeSubscriptionID s \<noteq> subID then None else Some s)"

lemma subscription_for_stored: "subscription_for a b d = Some s \<Longrightarrow> stored_subscription s d"
  by (auto simp: subscription_for_def intro: subscription_found split: option.splits if_splits)

lemma wp_findSubscription:
  assumes "idle w" and "\<And>n. Q (subscription_for a b (wd_committed w)) (w\<lparr>wd_tick := n\<rparr>)"
    and "\<And>e n. E e (w\<lparr>wd_tick := n\<rparr>)"
  shows "wp (findSubscriptionByStripeIDs a b) Q E r w"
  using assms assms(2) [of "wd_tick w"]
  by (auto simp: findSubscriptionByStripeIDs_def GetByStripeSubscriptionID_def GetByStripeCustomerID_def
      idle_def subscription_for_def cong: option.case_cong split: option.splits if_splits)


lemma holds_idle: "holds I w \<Longrightarrow> idle w"
  by (simp add: holds_def)

lemma holds_db: "holds I w \<Longrightarrow> wd_db w = wd_committed w"
  by (simp add: holds_def idle_def)

lemmas report_saved = keeps_save_subscription [where w = "w\<lparr>wd_tick := n\<rparr>" for w n, simplified]

lemma keeps_reportI:
  assumes "\<And>r (w :: world). holds I w \<Longrightarrow> wp c (\<lambda>_. holds I) (\<lambda>_. holds I) r w"
  shows "keeps (\<lambda>r. holds I) c"
  using assms by (simp add: keeps_wp)

lemma anchored_InvoicePaymentFailed: "keeps (\<lambda>r. holds (anchored A)) (InvoicePaymentFailedHandler a b)"
  by (rule keeps_reportI) (auto simp: InvoicePaymentFailedHandler_def apply_update_def holds_idle split: option.splits
      intro!: wp_findSubscription report_saved revises_ops subscription_for_stored)

lemma anchored_InvoicePaymentSucceeded: "keeps (\<lambda>r. holds (anchored A)) (InvoicePaymentSucceededHandler a b s e)"
  by (rule keeps_reportI) (auto simp: InvoicePaymentSucceededHandler_def apply_update_def holds_idle split: option.splits
      intro!: wp_findSubscription report_saved revises_ops subscription_for_stored)

lemma anchored_PaymentMethodExpiring: "keeps (\<lambda>r. holds (anchored A)) (PaymentMethodExpiring ev a b br l4 m y)"
  by (rule keeps_reportI) (auto simp: PaymentMethodExpiring_def holds_idle split: option.splits
      intro!: wp_findSubscription report_saved revises_ops subscription_for_stored)

lemma anchored_RenewalUpcoming: "keeps (\<lambda>r. holds (anchored A)) (SubscriptionRenewalUpcomingHandler ev a b am cu pe)"
  by (rule keeps_reportI) (auto simp: SubscriptionRenewalUpcomingHandler_def holds_idle split: option.splits
      intro!: wp_findSubscription report_saved revises_ops subscription_for_stored)

lemma anchored_SubscriptionDeleted: "keeps (\<lambda>r. holds (anchored A)) (SubscriptionDeletedHandler a)"
  by (rule keeps_reportI) (auto simp: SubscriptionDeletedHandler_def GetByStripeSubscriptionID_def plan_GetBySlug_def
      holds_db split: option.splits intro!: report_saved revises_ops subscription_found(1))

lemma anchored_SubscriptionUpdated: "keeps (\<lambda>r. holds (anchored A)) (SubscriptionUpdatedHandler cmd)"
  by (rule keeps_reportI) (auto simp: SubscriptionUpdatedHandler_def GetByStripeSubscriptionID_def apply_update_def
      plan_GetByStripePriceID_def holds_db split: option.splits intro!: report_saved revises_ops subscription_found(1))

section \<open>Invoices\<close>

lemma invoice_model_sel [simp]:
  "i_ID (invoiceModel i) = i_ID i" "i_StripeInvoiceID (invoiceModel i) = i_StripeInvoiceID i"
  "i_WorkspaceID (invoiceModel i) = i_WorkspaceID i" "i_Status (invoiceModel i) = i_Status i"
  "i_AmountPaid (invoiceModel i) = i_AmountPaid i"
  by (simp_all add: invoiceModel_def)

lemma invoice_by_stripe_row: "invoice_by_stripe k d = Some iv \<Longrightarrow>
    \<exists>r \<in> set (t_invoices d). i_StripeInvoiceID r = k \<and> iv = invoiceModel r"
  by (auto simp: invoice_by_stripe_def dest!: tbl_first_Some)

lemma invoice_by_stripe_unique:
  assumes "keys_distinct i_StripeInvoiceID (t_invoices d)" "r \<in> set (t_invoices d)" "i_StripeInvoiceID r = k"
  shows "invoice_by_stripe k d = Some (invoiceModel r)"
proof (cases "invoice_by_stripe k d")
  case None
  then show ?thesis using assms by (auto simp: invoice_by_stripe_def tbl_first_None)
next
  case (Some iv)
  then show ?thesis using invoice_by_stripe_row [OF Some] keys_distinct_unique [OF assms(1)] assms by fastforce
qed

text \<open>The two writes of the upsert: a new row, or the row of the stored invoice.\<close>

lemma invoice_created:
  assumes "billing_ok d" "invoice_by_stripe (i_StripeInvoiceID iv) d = None"
    and "tbl_create i_ID (invoiceModel iv) (t_invoices d) = Inr t"
  shows "billing_ok (d\<lparr>t_invoices := t\<rparr>)"
    "invoice_by_stripe (i_StripeInvoiceID iv) (d\<lparr>t_invoices := t\<rparr>) = Some (invoiceModel iv)"
proof -
  have t: "t = t_invoices d @ [invoiceModel iv]" using tbl_create_rows [OF assms(3)] .
  have k: "keys_distinct i_StripeInvoiceID t" "keys_distinct i_ID t"
    using assms(1,2) tbl_create_distinct [OF _ assms(3)]
    by (auto simp: billing_ok_def t keys_distinct_def invoice_by_stripe_def tbl_first_None)
  then show "billing_ok (d\<lparr>t_invoices := t\<rparr>)"
    using assms(1) by (simp_all add: billing_ok_def)
  show "invoice_by_stripe (i_StripeInvoiceID iv) (d\<lparr>t_invoices := t\<rparr>) = Some (invoiceModel iv)"
    using invoice_by_stripe_unique [of "d\<lparr>t_invoices := t\<rparr>" "invoiceModel iv"] k by (simp add: t invoiceModel_def)
qed

lemma invoice_saved:
  assumes "billing_ok d" "invoice_by_stripe (i_StripeInvoiceID iv) d = Some ex" "i_ID iv = i_ID ex"
  defines "t \<equiv> tbl_save i_ID (invoiceModel iv) (t_invoices d)"
  shows "billing_ok (d\<lparr>t_invoices := t\<rparr>)"
    "invoice_by_stripe (i_StripeInvoiceID iv) (d\<lparr>t_invoices := t\<rparr>) = Some (invoiceModel iv)"
proof -
  have k: "keys_distinct i_ID (t_invoices d)" "keys_distinct i_StripeInvoiceID (t_invoices d)"
    using assms(1) by (simp_all add: billing_ok_def)
  obtain r where r: "r \<in> set (t_invoices d)" "i_StripeInvoiceID r = i_StripeInvoiceID iv" "i_ID r = i_ID iv"
    using invoice_by_stripe_row [OF assms(2)] assms(3) by auto
  have same: "i_StripeInvoiceID q = i_StripeInvoiceID iv" if "q \<in> set (t_invoices d)" "i_ID q = i_ID iv" for q
    using keys_distinct_unique [OF k(1) that(1) r(1)] that(2) r by simp
  have "i_ID iv \<in> i_ID ` set (t_invoices d)" using r by (metis imageI)
  then have "List.map i_StripeInvoiceID t = List.map i_StripeInvoiceID (t_invoices d)"
    using same by (auto simp: t_def tbl_save_def)
  then have kt: "keys_distinct i_StripeInvoiceID t" using k(2) by (simp add: keys_distinct_def)
  show "billing_ok (d\<lparr>t_invoices := t\<rparr>)"
    using assms(1) kt tbl_save_distinct [OF k(1)] by (simp_all add: billing_ok_def t_def)
  show "invoice_by_stripe (i_StripeInvoiceID iv) (d\<lparr>t_invoices := t\<rparr>) = Some (invoiceModel iv)"
    using invoice_by_stripe_unique [of "d\<lparr>t_invoices := t\<rparr>" "invoiceModel iv"] kt
    by (simp add: t_def set_tbl_save [OF k(1)] invoiceModel_def)
qed

text \<open>An upsert writes invoices only.\<close>

definition billed :: "workspace list \<times> subscription list \<Rightarrow> db \<Rightarrow> bool" where
  "billed T d \<longleftrightarrow> billing_ok d \<and> (t_workspaces d, t_subscriptions d) = T"

lemma billed_outbox [simp]: "billed T (outbox_put es d) = billed T d"
  by (simp add: billed_def billing_ok_def outbox_put_def)

text \<open>What is left of an upsert: the stored invoice carries the snapshot, under the identifier it had.\<close>

definition invoice_synced :: "invoice_data \<Rightarrow> db \<Rightarrow> db \<Rightarrow> bool" where
  "invoice_synced x d d' \<longleftrightarrow> (\<exists>iv. invoice_by_stripe (id_ID x) d' = Some iv \<and> i_Status iv = id_Status x \<and>
     i_AmountPaid iv = id_AmountPaid x \<and> (\<forall>old. invoice_by_stripe (id_ID x) d = Some old \<longrightarrow> i_ID iv = i_ID old))"

lemma invoice_synced_outbox [simp]: "invoice_synced x d (outbox_put es d') = invoice_synced x d d'"
  by (simp add: invoice_synced_def invoice_by_stripe_def outbox_put_def)

lemma wp_upsert_tx:
  assumes "holds (billed T) w" and "i_StripeInvoiceID iv = id_ID x" "i_Status iv = id_Status x"
    and "i_AmountPaid iv = id_AmountPaid x"
  shows "wp (withTx (bindC (UpsertByStripeInvoiceID iv) (\<lambda>iv. StoreEvents (List.map EvInvoice (i_events iv)))))
    (\<lambda>_ w'. holds (billed T) w' \<and> invoice_synced x (wd_committed w) (wd_committed w'))
    (\<lambda>_. holds (billed T)) r w"
proof (rule wp_mono [OF wp_withTx_rel [where R = "\<lambda>d. billed T d \<and> invoice_synced x (wd_committed w) d"]], goal_cases)
  case 1
  show ?case by (intro tx_safe_intros)
next
  case 2
  let ?d = "wd_committed w"
  have ok: "billing_ok ?d" "(t_workspaces ?d, t_subscriptions ?d) = T" using assms(1) by (simp_all add: holds_def billed_def)
  have new: "billed T (?d\<lparr>t_invoices := t\<rparr>) \<and> invoice_synced x ?d (?d\<lparr>t_invoices := t\<rparr>)"
    if "invoice_by_stripe (id_ID x) ?d = None" "tbl_create i_ID (invoiceModel iv) (t_invoices ?d) = Inr t" for t
    using invoice_created [OF ok(1) _ that(2)] that(1) assms ok by (simp add: billed_def invoice_synced_def)
  have old: "billed T (?d\<lparr>t_invoices := tbl_save i_ID (invoiceModel iv') (t_invoices ?d)\<rparr>) \<and>
      invoice_synced x ?d (?d\<lparr>t_invoices := tbl_save i_ID (invoiceModel iv') (t_invoices ?d)\<rparr>)"
    if "invoice_by_stripe (id_ID x) ?d = Some ex" "iv' = iv\<lparr>i_ID := i_ID ex, i_CreatedAt := i_CreatedAt ex\<rparr>" for ex iv'
    using invoice_saved [OF ok(1), of iv' ex] that assms ok by (simp add: billed_def invoice_synced_def)
  show ?case
    using assms(2) new old
    by (auto simp: UpsertByStripeInvoiceID_def GetByStripeInvoiceID_def StoreEvents_def beginTx_def Let_def
        split: option.splits sum.splits)
qed (use assms(1) in \<open>auto simp: holds_def\<close>)

lemma wp_UpsertInvoice:
  assumes "holds (billed T) w"
  shows "wp (UpsertInvoice cmd)
    (\<lambda>_ w'. holds (billed T) w' \<and> (id_ID (ic_Data cmd) \<noteq> [] \<longrightarrow> invoice_synced (ic_Data cmd) (wd_committed w) (wd_committed w')))
    (\<lambda>_. holds (billed T)) r w"
proof -
  have tx: "wp (withTx (bindC (UpsertByStripeInvoiceID iv) (\<lambda>iv. StoreEvents (List.map EvInvoice (i_events iv)))))
      (\<lambda>_ w'. holds (billed T) w' \<and> invoice_synced (ic_Data cmd) (wd_committed w) (wd_committed w'))
      (\<lambda>_. holds (billed T)) r (w\<lparr>wd_tick := n\<rparr>)"
    if "i_StripeInvoiceID iv = id_ID (ic_Data cmd)" "i_Status iv = id_Status (ic_Data cmd)"
      "i_AmountPaid iv = id_AmountPaid (ic_Data cmd)" for iv n
    using wp_upsert_tx [of T "w\<lparr>wd_tick := n\<rparr>" iv "ic_Data cmd" r, OF _ that] assms by simp
  show ?thesis
    using assms invoice_by_stripe_row [of "id_ID (ic_Data cmd)" "wd_committed w"]
    by (auto simp: UpsertInvoice_def resolveOwner_def Let_def workspace_GetBySubscriptionID_def holds_idle holds_db
        GetByStripeInvoiceID_def snapshot_def raise_payment_def invoice_ops
        split: option.splits payment_outcome.splits intro!: wp_findSubscription tx)
qed

section \<open>A completed checkout\<close>

text \<open>The workspace is linked to a subscription for the Stripe subscription, on the plan that was bought.\<close>

definition linked :: "uuid \<Rightarrow> uuid \<Rightarrow> string \<Rightarrow> db \<Rightarrow> bool" where
  "linked workspaceID planID subID d \<longleftrightarrow> (\<exists>v \<in> set (t_workspaces d). \<exists>s \<in> set (t_subscriptions d).
     w_ID v = workspaceID \<and> w_SubscriptionID v = Some (s_ID s) \<and> s_PlanID s = planID \<and>
     s_StripeSubscriptionID s = subID)"

lemma linked_outbox [simp]: "linked a b c (outbox_put es d) = linked a b c d"
  by (simp add: linked_def outbox_put_def)

lemma linked_result:
  assumes "keys_distinct w_ID (t_workspaces d)" "s \<in> set (t_subscriptions d)"
    and "v' \<in> set (t_workspaces d)" "w_ID v' = w_ID v" "w_SubscriptionID v' = w_SubscriptionID v"
  shows "w_SubscriptionID v = Some (s_ID s) \<Longrightarrow> linked (w_ID v) (s_PlanID s) (s_StripeSubscriptionID s) d"
    "w_SubscriptionID u = Some (s_ID s) \<Longrightarrow> w_ID u = w_ID v \<Longrightarrow>
      linked (w_ID v) (s_PlanID s) (s_StripeSubscriptionID s) (workspace_put u d)"
  using assms
  by (auto simp: linked_def workspace_put_def set_tbl_save workspaceModel_def intro!: bexI [of _ s])

lemma AssignSubscription_sel [simp]:
  "w_SubscriptionID (AssignSubscription now eid i v) = Some i" "w_ID (AssignSubscription now eid i v) = w_ID v"
  by (simp_all add: account_ops)

lemma NewSubscription_quota: "revises (NewSubscription a b c p st sd ed) s \<Longrightarrow> s_ID s = b"
  by (simp add: revises_def subscription_ops)

lemma wp_checkout_tx:
  assumes ok: "billing_ok (wd_committed w)" and ws: "workspace_get i (wd_committed w) = Some v"
    and cur: "\<And>s. current = Some s \<Longrightarrow> stored_subscription s (wd_committed w)"
  shows "wp (checkout_tx v current planID st cu x sd ed q)
    (\<lambda>_ w'. idle w' \<and> billing_ok (wd_committed w') \<and> linked (w_ID v) planID (sd_ID x) (wd_committed w'))
    (\<lambda>_ w'. idle w' \<and> wd_committed w' = wd_committed w) r w"
  unfolding checkout_tx_def Let_def
proof (rule wp_withTx_rel [where R = "\<lambda>d. billing_ok d \<and> linked (w_ID v) planID (sd_ID x) d"], goal_cases)
  case 1
  show ?case unfolding apply_update_def by (intro tx_safe_intros)
next
  case 2
  let ?d = "wd_committed w"
  have kw: "keys_distinct w_ID (t_workspaces ?d)" and ks: "keys_distinct s_ID (t_subscriptions ?d)"
    using ok by (simp_all add: billing_ok_def)
  obtain v' where v': "v' \<in> set (t_workspaces ?d)" "w_ID v' = w_ID v" "w_SubscriptionID v' = w_SubscriptionID v"
    using ws by (auto simp: workspace_get_def workspaceModel_def dest!: tbl_first_Some)
  have bok: "billing_ok (?d\<lparr>t_subscriptions := t\<rparr>)" "billing_ok (workspace_put u (?d\<lparr>t_subscriptions := t\<rparr>))"
    if "keys_distinct s_ID t" for t u
    using ok that tbl_save_distinct [OF kw] by (simp_all add: billing_ok_def workspace_put_def)
  have link: "linked (w_ID v) planID (sd_ID x) (?d\<lparr>t_subscriptions := t\<rparr>)"
    if "subscriptionModel s \<in> set t" "s_PlanID s = planID" "s_StripeSubscriptionID s = sd_ID x"
      "w_SubscriptionID v = Some (s_ID s)" for s t
    using linked_result(1) [of "?d\<lparr>t_subscriptions := t\<rparr>" "subscriptionModel s" v' v] that kw v' by simp
  have link': "linked (w_ID v) planID (sd_ID x) (workspace_put u (?d\<lparr>t_subscriptions := t\<rparr>))"
    if "subscriptionModel s \<in> set t" "s_PlanID s = planID" "s_StripeSubscriptionID s = sd_ID x"
      "w_SubscriptionID u = Some (s_ID s)" "w_ID u = w_ID v" for s t u
    using linked_result(2) [of "?d\<lparr>t_subscriptions := t\<rparr>" "subscriptionModel s" v' v u] that kw v' by simp
  note facts = tbl_create_rows tbl_create_distinct [OF ks] tbl_save_distinct [OF ks]
  show ?case
  proof (cases current)
    case None
    have s: "keys_distinct s_ID t \<and> subscriptionModel s \<in> set t"
      if "tbl_create s_ID (subscriptionModel s) (t_subscriptions ?d) = Inr t" for s t
      using that facts(1) [OF that] facts(2) [OF that] by simp
    show ?thesis
      using None by (auto simp: apply_update_def subscription_Save_def workspace_Update_def StoreEvents_def beginTx_def
          ApplyUpdate_fields split: sum.splits dest!: s intro!: bok link link')
  next
    case (Some c)
    have s: "subscriptionModel s \<in> set (t_subscriptions (subscription_put s ?d))"
      "subscription_put s ?d = ?d\<lparr>t_subscriptions := tbl_save s_ID (subscriptionModel s) (t_subscriptions ?d)\<rparr>" for s
      by (simp_all add: subscription_put_def set_tbl_save [OF ks])
    show ?thesis
      using Some s by (auto simp: apply_update_def subscription_Update_def workspace_Update_def StoreEvents_def beginTx_def
          ApplyUpdate_fields facts(3) intro!: bok link link')
  qed
qed


text \<open>The whole handler: the invoice that follows does not touch the link.\<close>

lemma billed_linked: "billed (t_workspaces d, t_subscriptions d) d' \<Longrightarrow> linked a b c d \<Longrightarrow> linked a b c d'"
  by (simp add: billed_def linked_def)

lemma billed_ok: "holds (billed T) w \<Longrightarrow> holds billing_ok w \<and> billed T (wd_committed w)"
  by (simp add: holds_def billed_def)

lemma wp_syncLatestInvoice:
  assumes "gateway_quiet g" and "holds (billed T) w"
  shows "wp (syncLatestInvoice g subID) (\<lambda>_. holds (billed T)) (\<lambda>_. holds (billed T)) r w"
proof -
  have up: "wp (UpsertInvoice cmd) (\<lambda>_. holds (billed T)) (\<lambda>_. holds (billed T)) r (w\<lparr>wd_tick := n\<rparr>)" for cmd n
    by (rule wp_mono [OF wp_UpsertInvoice]) (use assms(2) in auto)
  have q: "readonly (sg_RetrieveLatestInvoice g subID)" using assms(1) by (simp add: gateway_quiet_def)
  show ?thesis
    unfolding syncLatestInvoice_def wp_bind
    by (rule wp_readonly [OF q]) (use assms(2) up in \<open>auto split: option.splits\<close>)
qed

lemma subscription_get_stored: "subscription_get i d = Some s \<Longrightarrow> stored_subscription s d"
  by (rule subscription_found(3))

lemma workspace_get_ID: "workspace_get i d = Some v \<Longrightarrow> w_ID v = i"
  by (auto simp: workspace_get_def workspaceModel_def dest!: tbl_first_Some)

text \<open>What Stripe said of the subscription, and the plan of its price, decide the link.\<close>

definition bought :: "subscription_gateway \<Rightarrow> string \<Rightarrow> env \<Rightarrow> world \<Rightarrow> uuid \<Rightarrow> db \<Rightarrow> bool" where
  "bought g subID r w i d \<longleftrightarrow> (\<exists>x p n. fst (sg_Retrieve g subID r (w\<lparr>wd_tick := n\<rparr>)) = Inr x \<and>
     plan_by_price (sd_PriceID x) (wd_committed w) = Some p \<and> linked i (p_ID p) (sd_ID x) d)"

lemma wp_CheckoutCompleted:
  assumes g: "gateway_quiet g" and w: "holds billing_ok w"
  shows "wp (CheckoutCompleted g i cu subID)
    (\<lambda>_ w'. holds billing_ok w' \<and> bought g subID r w i (wd_committed w')) (\<lambda>_. holds billing_ok) r w"
proof -
  let ?d = "wd_committed w"
  let ?Q = "\<lambda>_ w'. holds billing_ok w' \<and> bought g subID r w i (wd_committed w')"
  let ?E = "\<lambda>_. holds billing_ok"
  have sync: "wp (syncLatestInvoice g subID) ?Q ?E r v"
    if "idle v" "billing_ok (wd_committed v)" "bought g subID r w i (wd_committed v)" for v :: world
  proof (rule wp_mono [OF wp_syncLatestInvoice [OF g, of "(t_workspaces (wd_committed v), t_subscriptions (wd_committed v))"]], goal_cases)
    case 1
    show ?case using that by (simp add: holds_def billed_def)
  next
    case (2 a w')
    have "bought g subID r w i (wd_committed w')"
      using that(3) billed_linked [of "wd_committed v" "wd_committed w'"] billed_ok [OF 2] unfolding bought_def by blast
    then show ?case using billed_ok [OF 2] by simp
  qed (simp add: billed_ok)
  have tx: "wp (checkout_tx ws current (p_ID p) st c x sd ed q) (\<lambda>_. wp (syncLatestInvoice g subID) ?Q ?E r) ?E r
      (w\<lparr>wd_tick := n\<rparr>)"
    if "workspace_get i ?d = Some ws" "plan_by_price (sd_PriceID x) ?d = Some p"
      "\<And>s. current = Some s \<Longrightarrow> stored_subscription s ?d" "fst (sg_Retrieve g subID r (w\<lparr>wd_tick := m\<rparr>)) = Inr x"
    for ws current p st c x sd ed q n m
  proof (rule wp_mono [OF wp_checkout_tx [where w = "w\<lparr>wd_tick := n\<rparr>" and i = i and v = ws]], goal_cases)
    case (4 a v)
    then show ?case
      using that(2,4) workspace_get_ID [OF that(1)] by (intro sync) (auto simp: bought_def)
  qed (use w that in \<open>auto simp: holds_def\<close>)
  have reads: "readonly (sg_Retrieve g subID)" "readonly (was_free c)" for c
    using g unfolding gateway_quiet_def was_free_def plan_GetByID_def by (auto intro!: readonly_intros split: option.splits)
  have cur: "wp (linked_subscription ws) Q ?E r (w\<lparr>wd_tick := n\<rparr>)"
    if "\<And>c n. (\<And>s. c = Some s \<Longrightarrow> stored_subscription s ?d) \<Longrightarrow> Q c (w\<lparr>wd_tick := n\<rparr>)" for ws Q n
    unfolding linked_subscription_def subscription_GetByID_def
    using w by (auto simp: holds_db split: option.splits intro!: that dest: subscription_get_stored)
  have rest: "wp (linked_subscription ws) (\<lambda>current. wp (bindC (was_free current) (\<lambda>wasFree.
        bindC nowC (\<lambda>now. bindC nowC (\<lambda>now'. thenC (checkout_tx ws current (p_ID p) (MapBillingStatus (sd_Status x))
          (given_string cu (sd_CustomerID x)) x (given_time (sd_CurrentPeriodStart x) now)
          (given_time (sd_CurrentPeriodEnd x) now)
          (if wasFree then given_time (sd_CurrentPeriodStart x) now' else 0)) (syncLatestInvoice g subID))))) ?Q ?E r)
      ?E r (w\<lparr>wd_tick := n\<rparr>)"
    if "workspace_get i ?d = Some ws" "plan_by_price (sd_PriceID x) ?d = Some p"
      "fst (sg_Retrieve g subID r (w\<lparr>wd_tick := m\<rparr>)) = Inr x" for ws x p n m
    unfolding wp_bind wp_then wp_now
    by (rule cur, rule wp_readonly [OF reads(2)]) (use w that tx in auto)
  show ?thesis
    unfolding CheckoutCompleted_def workspace_GetByID_def plan_GetByStripePriceID_def Let_def wp_bind
    using w by (auto simp: holds_db split: option.splits intro!: wp_readonly [OF reads(1)] rest)
qed


section \<open>A report that comes late\<close>

lemma subscription_get_put:
  assumes "keys_distinct s_ID (t_subscriptions d)"
  shows "subscription_get (s_ID s) (subscription_put s d) = Some (subscriptionModel (subscriptionModel s))"
proof -
  have "tbl_first s_ID (\<lambda>q. s_ID q = s_ID s) (tbl_save s_ID (subscriptionModel s) (t_subscriptions d)) =
      Some (subscriptionModel s)"
    by (rule tbl_first_key [OF tbl_save_distinct [OF assms]]) (auto simp: set_tbl_save [OF assms])
  then show ?thesis by (simp add: subscription_get_def subscription_put_def)
qed

text \<open>A subscription that was ended is on the free plan with no Stripe subscription; the customer fallback
  hands it to any failed payment of that customer, which takes the old Stripe subscription up again.\<close>

lemma wp_late_payment_failed:
  assumes w: "holds billing_ok w" and f: "\<And>t. en_fault r t = None"
    and s: "subscription_by_stripe subID (wd_committed w) = None" "subscription_by_customer cu (wd_committed w) = Some s"
      "s_StripeSubscriptionID s = []" and ids: "subID \<noteq> []" "cu \<noteq> []"
  shows "wp (InvoicePaymentFailedHandler subID cu) (\<lambda>_ w'. \<exists>s'. subscription_get (s_ID s) (wd_committed w') = Some s' \<and>
      s_Status s' = SubPastDue \<and> s_StripeSubscriptionID s' = subID \<and> s_PlanID s' = s_PlanID s) (\<lambda>_ _. False) r w"
proof -
  have k: "keys_distinct s_ID (t_subscriptions (wd_committed w))" using w by (simp add: holds_def billing_ok_def)
  have found: "subscription_for subID cu (wd_committed w) = Some s" using s ids by (simp add: subscription_for_def)
  have out: "subscription_get i (outbox_put es d) = subscription_get i d" for i es d
    by (simp add: subscription_get_def outbox_put_def)
  have put: "subscription_get (s_ID s) (subscription_put s' (wd_committed w)) = Some (subscriptionModel (subscriptionModel s'))"
    if "s_ID s' = s_ID s" for s'
    using subscription_get_put [OF k, of s'] that by simp
  show ?thesis
    unfolding InvoicePaymentFailedHandler_def
    using ids holds_idle [OF w]
    by (auto simp: found apply_update_def save_subscription_def wp_withTx beginTx_def commitTx_def f out put
        subscription_Update_def StoreEvents_def ApplyUpdate_fields findSubscriptionByStripeIDs_def
        GetByStripeSubscriptionID_def GetByStripeCustomerID_def s idle_def)
qed

section \<open>The preview decides as the change\<close>

text \<open>Both handlers decide over the plan, the workspace and its subscription.\<close>

definition plan_view :: "uuid \<Rightarrow> db \<Rightarrow> (plan \<times> quota option) option" where
  "plan_view i d = map_option (\<lambda>p. (p, quota_get (p_QuotaID p) d)) (plan_get i d)"

definition workspace_subscription :: "workspace \<Rightarrow> db \<Rightarrow> subscription option" where
  "workspace_subscription v d = (case w_SubscriptionID v of None \<Rightarrow> None | Some i \<Rightarrow> subscription_get i d)"

definition change_decision :: "workspace \<Rightarrow> uuid \<Rightarrow> db \<Rightarrow> (plan \<times> subscription option) res" where
  "change_decision v planID d = (case saleable (plan_view planID d) of Inl e \<Rightarrow> Inl e | Inr p \<Rightarrow>
     let current = workspace_subscription v d in
     if already_on p current then Inl (Sentinel ErrAlreadyOnPlan)
     else Inr (p, if CanUpdateStripeSubscription current then current else None))"

lemma wp_planRead:
  assumes "\<And>t. en_fault r t = None" and "\<And>n. Q (plan_view i (wd_committed w)) (w\<lparr>wd_tick := n\<rparr>)"
  shows "wp (planRead_FindByID i) Q E r w"
  using assms by (auto simp: planRead_FindByID_def toPlanViewWithQuota_def plan_view_def split: option.splits)

lemma wp_current_subscription:
  assumes "\<And>t. en_fault r t = None"
    and "\<And>view n. map_option fst view = workspace_subscription v (wd_committed w) \<Longrightarrow> Q view (w\<lparr>wd_tick := n\<rparr>)"
  shows "wp (current_subscription v) Q E r w"
proof (cases "w_SubscriptionID v")
  case None
  then show ?thesis using assms(2) [of None "wd_tick w"] by (simp add: current_subscription_def workspace_subscription_def)
next
  case (Some i)
  then show ?thesis
    using assms by (auto simp: current_subscription_def workspace_subscription_def subscriptionRead_FindByID_def
        planRead_FindByID_def toPlanViewWithQuota_def split: option.splits)
qed

lemma wp_PreviewPlanChange:
  assumes f: "\<And>t. en_fault r t = None" and g: "gateway_quiet g" and v: "workspace_get i (wd_committed w) = Some v"
  shows "wp (PreviewPlanChange g i planID)
    (\<lambda>pv _. \<exists>p s. change_decision v planID (wd_committed w) = Inr (p, s) \<and> pc_TargetPlan pv = p \<and>
       (pc_RequiresCheckout pv \<longleftrightarrow> s = None))
    (\<lambda>e _. change_decision v planID (wd_committed w) = Inl e \<or>
       (\<exists>p s. change_decision v planID (wd_committed w) = Inr (p, Some s))) r w"
proof -
  have q: "readonly (sg_Retrieve g a)" "readonly (sg_PreviewPriceChange g a b c)" for a b c
    using g by (auto simp: gateway_quiet_def)
  show ?thesis
    unfolding PreviewPlanChange_def workspaceRead_FindByID_def Let_def wp_bind wp_mapErr
    by (rule wp_planRead [OF f], cases "saleable (plan_view planID (wd_committed w))")
      (auto simp: f v change_decision_def Let_def already_on_def CanUpdateStripeSubscription_def
        intro!: wp_current_subscription wp_readonly [OF q(1)] wp_readonly [OF q(2)] split: option.splits)
qed


text \<open>A subscription that is changed in place: the new plan is stored, the anchor stays.\<close>

definition plan_changed :: "uuid \<Rightarrow> uuid \<Rightarrow> db \<Rightarrow> bool" where
  "plan_changed i planID d \<longleftrightarrow> (\<exists>s. subscription_get i d = Some s \<and> s_PlanID s = planID)"

lemma wp_updateExisting:
  assumes g: "gateway_quiet g" and w: "holds (anchored A) w"
  shows "wp (updateExistingSubscription g i p pd)
    (\<lambda>_ w'. holds (anchored A) w' \<and> plan_changed i (p_ID p) (wd_committed w')) (\<lambda>_. holds (anchored A)) r w"
proof -
  have k: "keys_distinct s_ID (t_subscriptions (wd_committed w))"
    using w by (simp add: holds_def anchored_def billing_ok_def)
  have q: "readonly (sg_Retrieve g a)" "readonly (sg_UpdatePrice g a b c e)" for a b c e
    using g by (auto simp: gateway_quiet_def)
  have id: "s_ID s = i" if "subscription_get i (wd_committed w) = Some s" for s
    using that by (auto simp: subscription_get_def dest!: tbl_first_Some)
  have save: "wp (withTx (thenC (subscription_Update s') (StoreEvents es)))
      (\<lambda>_ w'. holds (anchored A) w' \<and> plan_changed i (p_ID p) (wd_committed w')) (\<lambda>_. holds (anchored A)) r (w\<lparr>wd_tick := n\<rparr>)"
    if "revises s s'" "subscription_get i (wd_committed w) = Some s" "s_PlanID s' = p_ID p" for s s' es n
  proof (rule wp_mono [OF wp_withTx_rel [where R = "\<lambda>d. anchored A d \<and> plan_changed i (p_ID p) d"]], goal_cases)
    case 1
    show ?case by (intro tx_safe_intros)
  next
    case 2
    have put: "anchored A (subscription_put s' (wd_committed w))" "plan_changed i (p_ID p) (subscription_put s' (wd_committed w))"
      using anchored_put [OF _ subscription_found(3) [OF that(2)] that(1)] w subscription_get_put [OF k, of s'] that id [OF that(2)]
      by (auto simp: holds_def plan_changed_def revises_def)
    moreover have "plan_changed a b (outbox_put es d) = plan_changed a b d" for a b es d
      by (simp add: plan_changed_def subscription_get_def outbox_put_def)
    ultimately show ?case by (auto simp: beginTx_def subscription_Update_def StoreEvents_def)
  qed (use w in \<open>auto simp: holds_def\<close>)
  note applied = save [OF revises_ops(1) _ ApplyUpdate_fields(2)]
  show ?thesis
    unfolding updateExistingSubscription_def apply_update_def subscription_GetByID_def wp_bind
    using w by (auto simp: holds_db split: option.splits
        intro!: wp_readonly [OF q(1)] wp_readonly [OF q(2)] applied)
qed

lemma wp_CreateSubscription:
  assumes f: "\<And>t. en_fault r t = None" and g: "gateway_quiet g" "\<And>c. readonly (fetchEmail c)" "\<And>q. readonly (checkout q)"
    and w: "holds (anchored A) w" and v: "workspace_get i (wd_committed w) = Some v" "w_OwnerUserID v = userID"
    and u: "user_get userID (wd_committed w) = Some u"
  shows "wp (CreateSubscription g fetchEmail checkout i userID planID pd)
    (\<lambda>res w'. \<exists>p s. change_decision v planID (wd_committed w) = Inr (p, s) \<and> (res = None \<longleftrightarrow> s \<noteq> None) \<and>
       holds (anchored A) w' \<and> (\<forall>s'. s = Some s' \<longrightarrow> plan_changed (s_ID s') (p_ID p) (wd_committed w')))
    (\<lambda>e _. change_decision v planID (wd_committed w) = Inl e \<or>
       (\<exists>p s. change_decision v planID (wd_committed w) = Inr (p, s))) r w"
proof -
  have upd: "wp (updateExistingSubscription g a p pd) Q E r (w\<lparr>wd_tick := n\<rparr>)"
    if "\<And>w'. holds (anchored A) w' \<Longrightarrow> plan_changed a (p_ID p) (wd_committed w') \<Longrightarrow> Q () w'" "\<And>e w'. E e w'" for a p Q E n
    by (rule wp_mono [OF wp_updateExisting [OF g(1)]]) (use w that in auto)
  show ?thesis
    unfolding CreateSubscription_def workspaceRead_FindByID_def Let_def wp_bind wp_mapErr
    by (simp add: f v u, rule wp_planRead [OF f], cases "saleable (plan_view planID (wd_committed w))")
      (use w in \<open>auto simp: f v change_decision_def Let_def already_on_def CanUpdateStripeSubscription_def
        intro!: wp_current_subscription wp_readonly [OF g(2)] wp_readonly [OF g(3)] upd split: option.splits bool.splits\<close>)
qed

end
