(* ===== verification/Office.thy ===== *)
theory Office
  imports Scenario CampaignLifecycle BillingInvariant
begin

text \<open>
  The installation of \<open>Scenario\<close> with an office around it: a user who owns a workspace on the free plan,
  a client with its default campaign and a second one, and a Stripe that answers the same to every call.
\<close>

section \<open>The office\<close>

definition office_user :: user where
  "office_user = \<lparr>u_ID = 1, u_ClerkID = ''clerk'', u_FirstName = ''Ada'', u_LastName = ''L'', u_Banned = False,
     u_Email = ''a@b'', u_CurrentClientID = Some 3, u_CreatedAt = 1, u_UpdatedAt = 1, u_events = []\<rparr>"

definition office_workspace :: workspace where
  "office_workspace = \<lparr>w_ID = 2, w_OwnerUserID = 1, w_SubscriptionID = Some 6, w_CreatedAt = 1, w_UpdatedAt = 1,
     w_events = []\<rparr>"

text \<open>Its subscription was ended: it has a Stripe customer, and no Stripe subscription.\<close>

definition office_subscription :: subscription where
  "office_subscription = \<lparr>s_ID = 6, s_PlanID = 8, s_StripeCustomerID = ''cus'', s_StripeSubscriptionID = [],
     s_Status = SubActive, s_StartDate = 1, s_EndDate = 2, s_CancelAtPeriodEnd = False, s_QuotaPeriodStart = 1,
     s_CreatedAt = 1, s_UpdatedAt = 1, s_events = []\<rparr>"

definition office_quota :: quota where
  "office_quota = \<lparr>q_ID = 4, q_Name = ''free'', q_MaxClientMembers = 2, q_MaxCampaigns = 2, q_MaxVerificationsPerMonth = 5,
     q_MaxConcurrentAnalyses = 1, q_MaxFileSizeMB = 10, q_ReportRetentionDays = 0,
     q_AllowsVideoAnalysis = False, q_AllowsPDFExport = False, q_AllowsCSVExport = False,
     q_AllowsAPIAccess = False, q_OveragePriceCents = 0, q_AnalysisPriority = 0, q_MaxDetectorsPerAnalysis = 0,
     q_MaxFramesPerVideo = 0, q_AllowsReanalysis = False, q_MaxStorageGB = 1, q_MaxBatchUploadSize = 3,
     q_FrameRetentionDays = 0, q_AllowsCustomRuleset = False, q_AllowsWhiteLabelReport = False,
     q_AllowsWebhooks = False, q_QuotaOverageGraceVerifications = 0, q_CreatedAt = 1, q_UpdatedAt = 1\<rparr>"

definition office_campaign :: "uuid \<Rightarrow> bool \<Rightarrow> campaign_model" where
  "office_campaign i dflt = \<lparr>cpm_ID = i, cpm_ClientID = 3, cpm_Name = ''c'', cpm_CreatedAt = 1, cpm_UpdatedAt = 1,
     cpm_DeletedAt = None, cpm_StartAt = None, cpm_EndAt = None, cpm_BackgroundStatus = ''none'',
     cpm_BackgroundPendingKey = None, cpm_BackgroundThumbnailKey = None, cpm_BackgroundFilename = None,
     cpm_BackgroundContentType = None, cpm_IsDefault = dflt\<rparr>"

definition office_db :: db where
  "office_db = sample_db\<lparr>t_users := [office_user], t_workspaces := [office_workspace],
     t_subscriptions := [office_subscription], t_plans := [sample_plan], t_quotas := [office_quota],
     t_clients := [clientModelFromDomain sample_client],
     t_user_clients := [\<lparr>ucm_UserID = 1, ucm_ClientID = 3, ucm_CreatedAt = 1\<rparr>],
     t_campaigns := [office_campaign 5 True, office_campaign 7 False]\<rparr>"

definition office_data :: subscription_data where
  "office_data = \<lparr>sd_ID = ''sub_1'', sd_ItemID = ''it'', sd_CustomerID = ''cus'', sd_PriceID = ''p'',
     sd_Status = ''active'', sd_CancelAtPeriodEnd = False, sd_CurrentPeriodStart = 10, sd_CurrentPeriodEnd = 20\<rparr>"

definition office_gateway :: subscription_gateway where
  "office_gateway = \<lparr>sg_Retrieve = (\<lambda>_. returnC office_data), sg_RetrieveLatestInvoice = (\<lambda>_. returnC None),
     sg_UpdatePrice = (\<lambda>_ _ _ _. returnC office_data),
     sg_PreviewPriceChange = (\<lambda>_ _ _. failC (Err ''no preview''))\<rparr>"

definition office_invoice :: invoice_command where
  "office_invoice = \<lparr>ic_Data = \<lparr>id_ID = ''in_1'', id_CustomerID = ''cus'', id_SubscriptionID = ''sub_1'',
     id_Number = ''1'', id_Status = ''paid'', id_Currency = ''eur'', id_AmountDue = 5, id_AmountPaid = 5, id_Total = 5,
     id_HostedInvoiceURL = [], id_InvoicePDF = [], id_BillingReason = [], id_Description = [], id_AttemptCount = 1,
     id_PeriodStart = 1, id_PeriodEnd = 2, id_PaidAt = None, id_CreatedAt = 1\<rparr>,
     ic_StripeEventID = ''evt'', ic_PaymentOutcome = PaymentSucceeded\<rparr>"

definition named_env :: env where
  "named_env = calm_env\<lparr>en_uuid_string := (\<lambda>i. replicate 36 (if i = 1 then CHR ''1'' else CHR ''0''))\<rparr>"

definition sample_activity :: activity where
  "sample_activity = \<lparr>a_ID = 90, a_ClientID = 3, a_Type = ''campaign.created'', a_ActorType = ''system'',
     a_ActorUserID = None, a_ActorName = ''System'', a_Message = ''hello'', a_Payload = [], a_OccurredAt = 5,
     a_CreatedAt = 0\<rparr>"

section \<open>Its hypotheses hold\<close>

lemmas office_defs = office_db_def sample_defs office_user_def office_workspace_def office_subscription_def
  office_campaign_def sample_client_def clientModelFromDomain_def sample_plan_def

lemma office_accounts: "holds accounts_ok (world_on office_db)"
  by (simp add: holds_def idle_def world_on_def accounts_ok_def accounts_but_def keys_distinct_def current_defs
      members_of_def has_default_def office_defs)

lemma office_billing: "holds billing_ok (world_on office_db)"
  by (simp add: holds_def idle_def world_on_def billing_ok_def keys_distinct_def office_defs)

lemma office_anchored: "holds (anchored [(6, 1)]) (world_on office_db)"
  using office_billing by (simp add: holds_def anchored_def anchors_def office_defs)

lemma office_tables: "media_table office_db" "content_table office_db"
  "keys_distinct cpm_ID (t_campaigns office_db)"
  using sample_tables by (simp_all add: media_table_def content_table_def office_db_def keys_distinct_def office_campaign_def)

lemma office_gets: "workspace_get 2 office_db = Some office_workspace" "user_get 1 office_db = Some office_user"
  "subscription_by_stripe ''sub_1'' office_db = None"
  "subscription_by_customer ''cus'' office_db = Some office_subscription"
  "\<exists>c. campaign_get 7 office_db = Some c \<and> cp_ID c = 7 \<and> cp_BackgroundPendingKey c = []"
  by (simp_all add: workspace_get_def user_get_def subscription_by_stripe_def subscription_by_customer_def
      campaign_get_def tbl_first_def office_defs workspaceModel_def userModel_def subscriptionModel_def
      campaignDomainFromModel_def derefString_def Let_def)

lemma office_gateway_quiet: "gateway_quiet office_gateway"
  unfolding gateway_quiet_def office_gateway_def by (auto intro!: readonly_intros)

lemma office_usage: "quota_usage_spec 3 office_db t = Some u \<Longrightarrow> qu_WorkspaceID u = 2 \<and>
    qc_Max (qu_ConcurrentAnalyses u) = 1"
  by (auto simp: quota_usage_spec_def client_get_def workspace_get_def subscription_get_def tbl_first_def office_defs
      workspaceModel_def subscriptionModel_def sub_quota_def plan_get_def quota_get_def clientDomainFromModel_def
      office_quota_def usage_of_def counter_def split: prod.splits if_splits)

end
