(* ===== verification/HttpFacts.thy ===== *)
theory HttpFacts
  imports Webhooks Office
begin

text \<open>
  What the HTTP layer sees to: a handler answers in every case, what it shows belongs to the client or
  the workspace of the user, campaigns of other clients are left alone, nobody gets past the
  authentication without a user who is not banned, and webhooks can be sent again. And what it does not
  see to: clients are read, renamed and deleted by anybody.
\<close>

section \<open>Every handler answers\<close>

definition answers :: "int set \<Rightarrow> 'a response app \<Rightarrow> bool" where
  "answers S c \<longleftrightarrow> (\<forall>r w. \<exists>a. fst (c r w) = Inr a \<and> rs_Status a \<in> S)"

named_theorems answers_intros "handlers that answer"

lemma answers_respond [answers_intros]: "st \<in> S \<Longrightarrow> answers S (respond st b)"
  by (simp add: answers_def respond_def comp_simps)

lemma answers_try [answers_intros]:
  "(\<And>e. answers S (h e)) \<Longrightarrow> (\<And>a. answers S (f a)) \<Longrightarrow> answers S (tryC c h f)"
  by (auto simp: answers_def comp_simps split: prod.splits sum.splits)

lemma answers_now [answers_intros]: "(\<And>a. answers S (f a)) \<Longrightarrow> answers S (bindC nowC f)"
  by (auto simp: answers_def comp_simps nowC_def tickC_def)

lemma answers_ask [answers_intros]: "(\<And>a. answers S (f a)) \<Longrightarrow> answers S (bindC (askC g) f)"
  by (auto simp: answers_def comp_simps)

lemma answers_if [answers_intros]: "answers S c \<Longrightarrow> answers S d \<Longrightarrow> answers S (if b then c else d)"
  by simp

lemma answers_if_fun [answers_intros]: "answers S (c f) \<Longrightarrow> answers S (d f) \<Longrightarrow> answers S ((if b then c else d) f)"
  by simp

lemma answers_option [answers_intros]:
  "answers S c \<Longrightarrow> (\<And>a. answers S (f a)) \<Longrightarrow> answers S (case x of None \<Rightarrow> c | Some a \<Rightarrow> f a)"
  by (cases x) auto

lemma answers_sum [answers_intros]:
  "(\<And>a. answers S (g a)) \<Longrightarrow> (\<And>a. answers S (f a)) \<Longrightarrow> answers S (case x of Inl a \<Rightarrow> g a | Inr a \<Rightarrow> f a)"
  by (cases x) auto

lemma answers_prod [answers_intros]: "(\<And>a b. answers S (f a b)) \<Longrightarrow> answers S (case x of (a, b) \<Rightarrow> f a b)"
  by (cases x) auto

lemma answers_decoded [answers_intros]:
  "answers S c \<Longrightarrow> (\<And>a. answers S (f a)) \<Longrightarrow> answers S (case x of Undecodable \<Rightarrow> c | Decoded a \<Rightarrow> f a)"
  by (cases x) auto

lemma answers_or_quota [answers_intros]: "403 \<in> S \<Longrightarrow> answers S f \<Longrightarrow> answers S (or_quota e f)"
  by (auto simp: or_quota_def respondQuotaError_def intro: answers_intros split: option.splits)

lemmas request_defs = with_user_def with_client_def with_uuid_def with_page_def BindBody_def with_workspace_def
  with_filter_def with_period_def optional_period_def

lemma answers_steps [answers_intros]:
  "401 \<in> S \<Longrightarrow> (\<And>u. answers S (f u)) \<Longrightarrow> answers S (with_user rq f)"
  "400 \<in> S \<Longrightarrow> (\<And>i. answers S (g i)) \<Longrightarrow> answers S (with_client rq g)"
  "answers S bad \<Longrightarrow> (\<And>i. answers S (g i)) \<Longrightarrow> answers S (with_uuid lb raw bad g)"
  "400 \<in> S \<Longrightarrow> (\<And>q. answers S (p q)) \<Longrightarrow> answers S (with_page rq p)"
  "400 \<in> S \<Longrightarrow> (\<And>b. answers S (k b)) \<Longrightarrow> answers S (BindBody rq' valid k)"
  "400 \<in> S \<Longrightarrow> 404 \<in> S \<Longrightarrow> 500 \<in> S \<Longrightarrow> (\<And>i j. answers S (ws i j)) \<Longrightarrow> answers S (with_workspace rq ws)"
  "400 \<in> S \<Longrightarrow> (\<And>x. answers S (fl x)) \<Longrightarrow> answers S (with_filter m field parsed fl)"
  "400 \<in> S \<Longrightarrow> (\<And>x. answers S (pe x)) \<Longrightarrow> answers S (with_period parsed' pe)"
  "400 \<in> S \<Longrightarrow> (\<And>x y. answers S (op x y)) \<Longrightarrow> answers S (optional_period rq op)"
  unfolding request_defs respondResolveClientWorkspaceError_def by (intro answers_intros; assumption)+

lemmas client_handlers = ClientHandler_List_def ClientHandler_Create_def ClientHandler_GetByID_def ClientHandler_Update_def
  ClientHandler_Delete_def ClientHandler_AddMember_def ClientHandler_RemoveMember_def UserHandler_GetUser_def
  UserHandler_SetCurrentClient_def

lemmas campaign_handlers = CampaignHandler_Create_def CampaignHandler_GetByID_def CampaignHandler_List_def
  CampaignHandler_Update_def CampaignHandler_Delete_def CampaignHandler_PresignBackground_def
  CampaignHandler_ClearBackground_def CampaignHandler_GetThumbnail_def with_own_campaign_def with_campaign_body_def
  schedule_error_def get_campaign_error_def wrong_client_def default_protected_def send_thumbnail_def

lemmas media_handlers = MediaHandler_Presign_def MediaHandler_List_def MediaHandler_Stats_def MediaHandler_GetByID_def
  MediaHandler_GetThumbnail_def MediaHandler_GetContentThumbnail_def presign_error_def list_error_def
  media_status_error_def send_thumbnail_def ActivityHandler_List_def Let_def

lemmas billing_handlers = SubscriptionHandler_GetSubscription_def SubscriptionHandler_GetQuota_def
  SubscriptionHandler_PreviewSubscription_def SubscriptionHandler_CreateSubscription_def
  SubscriptionHandler_CreateBillingPortal_def InvoiceHandler_GetInvoices_def subscription_error_def
  RealtimeHandler_GetConnection_def PlanHandler_List_def Let_def

lemma client_answers:
  "answers {200, 400, 401, 500} (ClientHandler_List lb rq)"
  "answers {201, 400, 401, 404, 500} (ClientHandler_Create rqs)"
  "answers {200, 400, 401, 404, 500} (ClientHandler_GetByID lb rq)"
  "answers {200, 400, 401, 404, 500} (ClientHandler_Update lb rqs)"
  "answers {204, 400, 500} (ClientHandler_Delete lb rq)"
  "answers {204, 400, 401, 403, 404, 500} (ClientHandler_AddMember lb rqs)"
  "answers {204, 400, 404, 500} (ClientHandler_RemoveMember lb rq)"
  "answers {200, 401, 500} (UserHandler_GetUser rq)"
  "answers {200, 400, 401, 404, 500} (UserHandler_SetCurrentClient lb rqs)"
  unfolding client_handlers Let_def by (intro answers_intros; simp)+

lemma campaign_answers:
  "answers {201, 400, 401, 403, 500} (CampaignHandler_Create lb rqc)"
  "answers {200, 400, 401, 404, 409, 500} (CampaignHandler_GetByID lb rq)"
  "answers {200, 400, 500} (CampaignHandler_List lb rq)"
  "answers {200, 400, 401, 404, 409, 500} (CampaignHandler_Update lb rqc)"
  "answers {204, 400, 401, 404, 409, 500} (CampaignHandler_Delete lb rq)"
  "answers {201, 400, 401, 404, 415, 500} (CampaignHandler_PresignBackground lb rqb)"
  "answers {204, 400, 401, 404, 500} (CampaignHandler_ClearBackground lb rq)"
  "answers {200, 400, 401, 404, 500} (CampaignHandler_GetThumbnail lb rq)"
  unfolding campaign_handlers Let_def by (intro answers_intros; simp)+

lemma media_answers:
  "answers {201, 400, 401, 403, 404, 415, 500} (MediaHandler_Presign lb rqp)"
  "answers {200, 400, 401, 404, 500} (MediaHandler_List lb rq)"
  "answers {200, 400, 401, 500} (MediaHandler_Stats lb rq)"
  "answers {200, 400, 401, 404, 500} (MediaHandler_GetByID lb rq)"
  "answers {200, 400, 401, 404, 500} (MediaHandler_GetThumbnail lb rq)"
  "answers {200, 400, 401, 404, 500} (MediaHandler_GetContentThumbnail lb rq)"
  "answers {200, 400, 401, 404, 500} (ActivityHandler_List lb rq)"
  unfolding media_handlers by (intro answers_intros; simp)+

lemma billing_answers:
  "answers {200, 400, 401, 404, 500} (SubscriptionHandler_GetSubscription rq)"
  "answers {200, 400, 401, 404, 500} (SubscriptionHandler_GetQuota rq)"
  "answers {200, 400, 401, 404, 500} (SubscriptionHandler_PreviewSubscription lb g rqs)"
  "answers {200, 400, 401, 403, 404, 500} (SubscriptionHandler_CreateSubscription lb g fetchEmail checkout rqu)"
  "answers {200, 400, 401, 403, 404, 500} (SubscriptionHandler_CreateBillingPortal portal rq)"
  "answers {200, 400, 401, 404, 500} (InvoiceHandler_GetInvoices lb rq)"
  "answers {200, 401, 500} (RealtimeHandler_GetConnection sign rq)"
  "answers {200, 500} (PlanHandler_List rq)"
  unfolding billing_handlers by (intro answers_intros; simp)+

lemma webhook_answers:
  "answers {200, 201, 204, 400, 404, 500} (UserWebhook_Execute kev)"
  "answers {200, 500, 503} (BillingWebhook_Execute lb g ev)"
  unfolding UserWebhook_Execute_def with_clerk_data_def BillingWebhook_Execute_def by (intro answers_intros; simp)+

section \<open>What is shown belongs to the tenant\<close>

text \<open>\<open>shows P a\<close>: a view in the body of the answer has \<open>P\<close>.\<close>

definition shows_only :: "('a \<Rightarrow> bool) \<Rightarrow> 'a response \<Rightarrow> bool" where
  "shows_only P a \<longleftrightarrow> (case rs_Body a of Json v \<Rightarrow> P v | _ \<Rightarrow> True)"

lemma shows_only_simps [simp]:
  "shows_only P \<lparr>rs_Status = st, rs_Body = Json v\<rparr> = P v" "shows_only P \<lparr>rs_Status = st, rs_Body = Message m\<rparr>"
  "shows_only P \<lparr>rs_Status = st, rs_Body = Coded co fs\<rparr>" "shows_only P \<lparr>rs_Status = st, rs_Body = Invalid\<rparr>"
  "shows_only P \<lparr>rs_Status = st, rs_Body = NoBody\<rparr>"
  by (simp_all add: shows_only_def)

lemma wp_respond [simp]: "wp (respond st b) Q E r w = Q \<lparr>rs_Status = st, rs_Body = b\<rparr> w"
  by (simp add: respond_def)

definition works_in :: "'b request \<Rightarrow> uuid \<Rightarrow> bool" where
  "works_in rq c \<longleftrightarrow> GetCurrentClientID rq = Inr c"

text \<open>Whatever fails, \<open>c\<close> answers; a view in the answer has \<open>P\<close>, and nothing is written.\<close>

definition shown_in :: "'a response app \<Rightarrow> ('a \<Rightarrow> bool) \<Rightarrow> env \<Rightarrow> world \<Rightarrow> bool" where
  "shown_in c P r w \<longleftrightarrow> wp c (\<lambda>a w'. shows_only P a \<and> wd_committed w' = wd_committed w) (\<lambda>_ _. False) r w"

lemma wp_request [simp]:
  "wp (with_user rq f) Q E r w = (case rq_User rq of None \<Rightarrow> Q \<lparr>rs_Status = 401, rs_Body = Message ''Unauthorized''\<rparr> w
     | Some u \<Rightarrow> wp (f u) Q E r w)"
  "wp (with_uuid lb raw bad g) Q E r w = (case lb_ParseUUID lb raw of None \<Rightarrow> wp bad Q E r w | Some i \<Rightarrow> wp (g i) Q E r w)"
  by (simp_all add: with_user_def GetUser_def with_uuid_def split: option.splits)

lemma wp_with_client:
  assumes "\<And>c. works_in rq c \<Longrightarrow> wp (g c) Q E r w"
    and "Q \<lparr>rs_Status = 400, rs_Body = Message ''Current client is required''\<rparr> w"
  shows "wp (with_client rq g) Q E r w"
  using assms by (auto simp: with_client_def works_in_def split: sum.splits)

text \<open>A query outside any transaction.\<close>

lemma wp_GetMediaByID:
  assumes "\<And>v n. m_ID (md_Media v) = i \<Longrightarrow> media_get i (wd_committed w) = Some (md_Media v) \<Longrightarrow> c \<noteq> uuid_Nil \<longrightarrow> m_ClientID (md_Media v) = c \<Longrightarrow>
      \<forall>x\<in>set (md_Contents v). c_MediaID x = i \<Longrightarrow> Q v (w\<lparr>wd_tick := n\<rparr>)"
    and "\<And>e n. E e (w\<lparr>wd_tick := n\<rparr>)"
  shows "wp (GetMediaByID i c) Q E r w"
proof -
  have c: "wp (campaignRead_FindByID j) (\<lambda>_ v. \<exists>n. v = w\<lparr>wd_tick := n\<rparr>) (\<lambda>_ v. \<exists>n. v = w\<lparr>wd_tick := n\<rparr>) r (w\<lparr>wd_tick := n\<rparr>)"
    for j n by (auto simp: campaignRead_FindByID_def attach_one_def attachContentCounts_def split: option.splits list.splits)
  have own: "m_ID m = i" if "media_get i d = Some m" for m d
    using that by (auto simp: media_get_def media_row_def mediaDomainFromModel_def dest!: tbl_first_Some)
  have cs: "\<forall>x\<in>set (contents_of j d). c_MediaID x = j" for j d
    by (auto simp: contents_of_def contentDomainFromModel_def frame_order_def Let_def split: option.splits)
  have "E e w" for e using assms(2) [of e "wd_tick w"] by simp
  then show ?thesis
    using assms by (auto simp: GetMediaByID_def mediaRead_FindByID_def FindContentsByMediaID_def own cs
        split: option.splits intro!: wp_mono [OF c])
qed

text \<open>A stored media of the client the user works in.\<close>

definition stored_media :: "'b request \<Rightarrow> world \<Rightarrow> media \<Rightarrow> bool" where
  "stored_media rq w m \<longleftrightarrow> media_get (m_ID m) (wd_committed w) = Some m \<and> works_in rq (m_ClientID m)"

definition media_of_tenant :: "'b request \<Rightarrow> world \<Rightarrow> media_detail \<Rightarrow> bool" where
  "media_of_tenant rq w v \<longleftrightarrow> stored_media rq w (md_Media v) \<and>
     (\<forall>x \<in> set (md_Contents v). c_MediaID x = m_ID (md_Media v))"

lemma works_in_not_Nil: "works_in rq c \<Longrightarrow> c \<noteq> uuid_Nil"
  by (auto simp: works_in_def GetCurrentClientID_def split: sum.splits option.splits if_splits)

lemma works_in_Nil [simp]: "\<not> works_in rq uuid_Nil"
  using works_in_not_Nil by blast

lemma shown_MediaHandler_GetByID: "shown_in (MediaHandler_GetByID lb rq) (media_of_tenant rq w) r w"
  unfolding shown_in_def MediaHandler_GetByID_def
  by (auto split: option.splits intro!: wp_with_client wp_GetMediaByID dest: works_in_not_Nil
      simp: media_of_tenant_def stored_media_def)

text \<open>The picture is the one that is stored for a media of the client, or for a content of it.\<close>

lemma wp_send_thumbnail:
  assumes "\<And>b n. wd_thumbnails w key = Some b \<Longrightarrow> Q \<lparr>rs_Status = 200, rs_Body = Json (b, etag t)\<rparr> (w\<lparr>wd_tick := n\<rparr>)"
    and "\<And>st n. st \<in> {404, 500} \<Longrightarrow> Q \<lparr>rs_Status = st, rs_Body = NoBody\<rparr> (w\<lparr>wd_tick := n\<rparr>)"
  shows "wp (send_thumbnail key t) Q E r w"
  using assms by (auto simp: send_thumbnail_def storage_GetThumbnail_def split: option.splits)

lemma shown_MediaHandler_GetThumbnail:
  "shown_in (MediaHandler_GetThumbnail lb rq) (\<lambda>(b, _). \<exists>m. stored_media rq w m \<and>
     wd_thumbnails w (NewThumbnailKey (en_uuid_string r) (m_ClientID m) (m_CampaignID m) (m_ID m)) = Some b) r w"
  unfolding shown_in_def MediaHandler_GetThumbnail_def Let_def
  by (auto split: option.splits intro!: wp_with_client wp_GetMediaByID wp_send_thumbnail
      simp: stored_media_def media_status_error_def) (metis works_in_not_Nil)

section \<open>The pages of a client\<close>

text \<open>At most 200 members, and each of them has \<open>P\<close>.\<close>

definition page_of :: "('a \<Rightarrow> bool) \<Rightarrow> 'a page \<Rightarrow> bool" where
  "page_of P p \<longleftrightarrow> length (pg_Members p) \<le> 200 \<and> (\<forall>x \<in> set (pg_Members p). P x)"

lemma page_query_limit: "nat (pq_Limit (page_query by dir q)) \<le> 200" "pq_Limit (page_query by dir q) \<le> 200"
  using Normalize_bounds(3) [of q] by (simp_all add: page_query_def)

lemma length_Paginate: "pq_Limit q \<le> 200 \<Longrightarrow> length (fst (Paginate key q rows)) \<le> 200"
  using Paginate_length [of key q rows] by linarith

lemma in_Paginate: "x \<in> set (fst (Paginate key q rows)) \<Longrightarrow> x \<in> set rows"
  using Paginate_rows by fastforce

lemma wp_with_page:
  assumes "\<And>q. wp (f q) Q E r w" and "Q \<lparr>rs_Status = 400, rs_Body = Message ''Invalid query parameters''\<rparr> w"
  shows "wp (with_page rq f) Q E r w"
  using assms by (auto simp: with_page_def split: option.splits)

lemma wp_with_filter:
  assumes "\<And>x. wp (f x) Q E r w" and "\<And>fs. Q \<lparr>rs_Status = 400, rs_Body = Coded [] fs\<rparr> w"
  shows "wp (with_filter m field parsed f) Q E r w"
  using assms by (auto simp: with_filter_def split: sum.splits)

lemma wp_optional_period:
  assumes "\<And>a b n. wp (f a b) Q E r (w\<lparr>wd_tick := n\<rparr>)"
    and "\<And>m n. Q \<lparr>rs_Status = 400, rs_Body = Message m\<rparr> (w\<lparr>wd_tick := n\<rparr>)"
  shows "wp (optional_period rq f) Q E r w"
  using assms by (auto simp: optional_period_def with_period_def nowC_def split: sum.splits)

lemma wp_list_error [simp]: "wp (list_error m e) Q E r w =
    (if is_error e ''campaign not found'' then Q \<lparr>rs_Status = 404, rs_Body = Message ''Campaign not found''\<rparr> w
     else Q \<lparr>rs_Status = 500, rs_Body = Message m\<rparr> w)"
  by (simp add: list_error_def)

definition campaign_of_tenant :: "'b request \<Rightarrow> world \<Rightarrow> campaign_view \<Rightarrow> bool" where
  "campaign_of_tenant rq w v \<longleftrightarrow> works_in rq (cp_ClientID (fst v)) \<and>
     snd v = content_counts (cp_ID (fst v)) (wd_committed w)"

text \<open>A query: it writes nothing, and a result has \<open>P\<close>.\<close>

definition reads :: "'a app \<Rightarrow> ('a \<Rightarrow> bool) \<Rightarrow> env \<Rightarrow> world \<Rightarrow> bool" where
  "reads c P r w \<longleftrightarrow> (\<forall>k. wp c (\<lambda>a w'. P a \<and> (\<exists>n. w' = w\<lparr>wd_tick := n\<rparr>)) (\<lambda>_ w'. \<exists>n. w' = w\<lparr>wd_tick := n\<rparr>) r (w\<lparr>wd_tick := k\<rparr>))"

lemma wp_reads:
  assumes "reads c P r w" and "\<And>a n. P a \<Longrightarrow> Q a (w\<lparr>wd_tick := n\<rparr>)" and "\<And>e n. E e (w\<lparr>wd_tick := n\<rparr>)"
  shows "wp c Q E r (w\<lparr>wd_tick := k\<rparr>)"
  by (rule wp_mono [OF spec [OF assms(1) [unfolded reads_def], of k]]) (use assms(2,3) in auto)

lemma reads_simple [simp]: "reads (returnC a) P r w = P a" "reads (failC e) P r w"
  by (auto simp: reads_def)

lemma reads_pool: "P (f (wd_committed w)) \<Longrightarrow> reads (poolRead f) P r w"
  by (auto simp: reads_def)

lemma reads_bind:
  assumes "reads c P r w" and "\<And>a. P a \<Longrightarrow> reads (f a) R r w"
  shows "reads (bindC c f) R r w"
  unfolding reads_def wp_bind
proof (intro allI, rule wp_reads [OF assms(1)], goal_cases)
  case (1 k a n)
  then show ?case using assms(2) unfolding reads_def by simp
next
  case (2 k e n)
  then show ?case by blast
qed

lemma reads_mapErr: "reads c P r w \<Longrightarrow> reads (mapErrC g c) P r w"
  by (auto simp: reads_def)

lemma reads_campaigns: "reads (campaignRead_FindByIDs ids) (\<lambda>_. True) r w"
  by (simp add: campaignRead_FindByIDs_def reads_pool)

lemma reads_check: "reads (check_campaigns c ids) (\<lambda>_. True) r w"
  unfolding check_campaigns_def by (auto intro!: reads_bind reads_mapErr reads_campaigns)

lemma reads_then: "reads c (\<lambda>_. True) r w \<Longrightarrow> reads d P r w \<Longrightarrow> reads (thenC c d) P r w"
  unfolding thenC_def by (rule reads_bind)

lemma reads_campaign_page:
  assumes "pq_Limit q \<le> 200"
  shows "reads (ListCampaignsByClient coll c q) (\<lambda>(vs, n). length vs \<le> 200 \<and>
    (\<forall>v \<in> set vs. cp_ClientID (fst v) = c \<and> snd v = content_counts (cp_ID (fst v)) (wd_committed w))) r w"
  using assms by (auto simp: reads_def ListCampaignsByClient_def campaignRead_FindPageByClientID_def attachContentCounts_def
      campaignDomainFromModel_def length_Paginate split: prod.splits
      dest!: in_Paginate rows_of_client) (metis fst_conv length_Paginate in_Paginate rows_of_client(2))+

lemma page_rows:
  assumes "pq_Limit q \<le> 200" and "\<And>x. x \<in> set rows \<Longrightarrow> P x"
  shows "case Paginate key q rows of (xs, n) \<Rightarrow> length xs \<le> 200 \<and> (\<forall>x \<in> set xs. P x)"
  using length_Paginate [OF assms(1), of key rows] in_Paginate [of _ key q rows] assms(2) by (auto split: prod.splits)

lemma reads_media_page:
  assumes "pq_Limit q \<le> 200"
  shows "reads (ListMediaByClient coll c f q) (\<lambda>(ms, n, vs). length ms \<le> 200 \<and> (\<forall>m \<in> set ms. m_ClientID m = c)) r w"
proof -
  have page: "reads (mediaRead_FindPageByClientID coll c f q) (\<lambda>(ms, n). length ms \<le> 200 \<and> (\<forall>m \<in> set ms. m_ClientID m = c)) r w"
    unfolding mediaRead_FindPageByClientID_def
    using page_rows [OF assms, of "media_rows c f (pq_Search q) (wd_committed w)" "\<lambda>x. mm_ClientID x = c" "media_sort coll (pq_SortBy q)",
        OF conjunct1 [OF rows_of_client(1)]]
    by (intro reads_pool) (auto simp: mediaDomainFromModel_def map_prod_def split: prod.splits)
  show ?thesis unfolding ListMediaByClient_def
    by (auto intro!: reads_then reads_check reads_bind [OF reads_mapErr [OF page]] reads_bind [OF reads_mapErr [OF reads_campaigns]])
qed

lemma reads_activity_page:
  assumes "pq_Limit q \<le> 200"
  shows "reads (ListActivitiesByClient c cs from to q) (\<lambda>(as, n). length as \<le> 200 \<and> (\<forall>a \<in> set as. a_ClientID a = c)) r w"
  unfolding ListActivitiesByClient_def activityRead_FindPageByClientID_def
  by (auto intro!: reads_then reads_check reads_mapErr reads_pool page_rows [OF assms] dest: rows_of_client(3))

lemma reads_invoice_page:
  assumes "pq_Limit q \<le> 200"
  shows "reads (ListInvoices coll c q) (\<lambda>(is, n). length is \<le> 200 \<and> (\<forall>i \<in> set is. i_WorkspaceID i = c)) r w"
  unfolding ListInvoices_def FindInvoicesByWorkspaceID_def Let_def
  by (intro reads_mapErr reads_pool page_rows) (use assms in \<open>auto simp: invoice_rows_def\<close>)

lemma wp_reads_now:
  assumes "reads c P r w" and "\<And>a n. P a \<Longrightarrow> Q a (w\<lparr>wd_tick := n\<rparr>)" and "\<And>e n. E e (w\<lparr>wd_tick := n\<rparr>)"
  shows "wp c Q E r w"
  using wp_reads [where k = "wd_tick w" and w = w, OF assms(1), of Q E] assms(2,3) by simp

lemmas shown_steps = wp_with_client wp_with_page wp_with_filter wp_optional_period

lemma shown_CampaignHandler_List: "shown_in (CampaignHandler_List lb rq) (page_of (campaign_of_tenant rq w)) r w"
  unfolding shown_in_def CampaignHandler_List_def Let_def
  by (auto intro!: shown_steps wp_reads_now [OF reads_campaign_page]
      simp: page_query_limit page_of_def NewPaginateResponse_def campaign_of_tenant_def)

lemma shown_MediaHandler_List:
  "shown_in (MediaHandler_List lb rq) (page_of (\<lambda>(m, _). works_in rq (m_ClientID m))) r w"
  unfolding shown_in_def MediaHandler_List_def Let_def
  by (auto intro!: shown_steps wp_reads [OF reads_media_page] split: option.splits
      simp: page_query_limit page_of_def NewPaginateResponse_def)

lemma shown_ActivityHandler_List:
  "shown_in (ActivityHandler_List lb rq) (page_of (\<lambda>a. works_in rq (a_ClientID a))) r w"
  unfolding shown_in_def ActivityHandler_List_def Let_def
  by (auto intro!: shown_steps wp_reads [OF reads_activity_page] split: option.splits
      simp: page_query_limit page_of_def NewPaginateResponse_def)

lemma reads_campaign: "reads (GetCampaignByID i) (\<lambda>v. cp_ID (fst v) = i \<and>
    campaign_get i (wd_committed w) = Some (fst v) \<and> snd v = content_counts i (wd_committed w)) r w"
proof -
  have own: "cp_ID c = i" if "campaign_get i d = Some c" for c d
    using that by (auto simp: campaign_get_def campaignDomainFromModel_def dest!: tbl_first_Some)
  show ?thesis
    by (auto simp: reads_def GetCampaignByID_def campaignRead_FindByID_def attach_one_def attachContentCounts_def own
        split: option.splits list.splits)
qed

lemma shown_CampaignHandler_GetByID: "shown_in (CampaignHandler_GetByID lb rq) (campaign_of_tenant rq w) r w"
  unfolding shown_in_def CampaignHandler_GetByID_def
  by (auto intro!: shown_steps wp_reads_now [OF reads_campaign] split: option.splits
      simp: campaign_of_tenant_def get_campaign_error_def wrong_client_def GetClientByID_def clientRead_FindByID_def)

definition invoice_of_tenant :: "'b request \<Rightarrow> world \<Rightarrow> invoice \<Rightarrow> bool" where
  "invoice_of_tenant rq w i \<longleftrightarrow> (\<exists>c cl. works_in rq c \<and> client_get c (wd_committed w) = Some cl \<and>
     i_WorkspaceID i = cl_WorkspaceID cl)"

lemma shown_InvoiceHandler_GetInvoices:
  "shown_in (InvoiceHandler_GetInvoices lb rq) (page_of (invoice_of_tenant rq w)) r w"
  unfolding shown_in_def InvoiceHandler_GetInvoices_def Let_def with_workspace_def resolveCurrentClientWorkspace_def
  by (auto intro!: shown_steps wp_reads [OF reads_invoice_page] split: option.splits sum.splits
      simp: page_query_limit page_of_def NewPaginateResponse_def invoice_of_tenant_def works_in_def
        GetClientByID_def clientRead_FindByID_def client_get_def respondResolveClientWorkspaceError_def)

section \<open>Who may delete a client\<close>

text \<open>Nothing of the client is left.\<close>

definition client_gone :: "uuid \<Rightarrow> db \<Rightarrow> bool" where
  "client_gone i d \<longleftrightarrow> client_get i d = None \<and> members_of i d = [] \<and> (\<forall>r \<in> set (t_campaigns d). cpm_ClientID r \<noteq> i) \<and>
     (\<forall>r \<in> set (t_media d). mm_ClientID r \<noteq> i) \<and> (\<forall>a \<in> set (t_activities d). a_ClientID a \<noteq> i)"

lemma cascade_client_gone: "client_gone i (cascade_client i d)"
proof -
  have "client_get i (cascade_client i d) = None"
    by (cases "client_get i (cascade_client i d)")
      (auto simp: client_get_def cascade_client_def Let_def tbl_delete_def dest!: tbl_first_Some)
  then show ?thesis
    by (auto simp: client_gone_def cascade_client_def Let_def tbl_delete_def members_of_def)
qed

lemma client_gone_outbox: "client_gone i (outbox_put es d) = client_gone i d"
  by (simp add: client_gone_def client_get_def members_of_def outbox_put_def)

lemma DeleteClient_calm:
  assumes "\<And>t. en_fault r t = None" and "idle w" and "client_get i (wd_committed w) \<noteq> None"
  shows "wp (DeleteClient i) (\<lambda>_ w'. client_gone i (wd_committed w')) (\<lambda>_ _. False) r w"
proof -
  obtain y where y: "tbl_first clm_ID (\<lambda>x. clm_ID x = i) (t_clients (wd_committed w)) = Some y"
    using assms(3) by (auto simp: client_get_def)
  then have "clm_ID y = i" by (auto dest: tbl_first_Some)
  with assms(1,2) y show ?thesis unfolding DeleteClient_def
    by (simp add: wp_withTx client_GetByID_def client_Delete_def StoreEvents_def Let_def idle_def nowC_def
      beginTx_def commitTx_def client_MarkDeleted_def client_recordEvent_def clientDomainFromModel_def
      client_gone_outbox cascade_client_gone set_db_def)
qed

lemma ClientHandler_Delete_calm:
  assumes "\<And>t. en_fault r t = None" and "idle w" and "lb_ParseUUID lb (rq_Param rq ''id'') = Some i"
    and "client_get i (wd_committed w) \<noteq> None"
  shows "wp (ClientHandler_Delete lb rq) (\<lambda>a w'. rs_Status a = 204 \<and> client_gone i (wd_committed w')) (\<lambda>_ _. False) r w"
  using DeleteClient_calm [OF assms(1,2,4)] assms(3)
  by (simp add: ClientHandler_Delete_def) (erule wp_mono; simp)

section \<open>Who is let in\<close>

text \<open>A result of \<open>c\<close> has \<open>P\<close>, whatever the world is.\<close>

definition yields :: "'a app \<Rightarrow> ('a \<Rightarrow> bool) \<Rightarrow> bool" where
  "yields c P \<longleftrightarrow> (\<forall>r w. wp c (\<lambda>a _. P a) (\<lambda>_ _. True) r w)"

lemma yields_bind: "(\<And>a. yields (f a) P) \<Longrightarrow> yields (bindC c f) P"
  unfolding yields_def wp_bind by (intro allI, rule wp_any) simp_all

lemma yields_then: "yields d P \<Longrightarrow> yields (thenC c d) P"
  unfolding thenC_def by (rule yields_bind)

lemma yields_mapErr: "yields c P \<Longrightarrow> yields (mapErrC f c) P"
  by (simp add: yields_def)

lemma yields_withTx: "yields c P \<Longrightarrow> yields (withTx c) P"
  unfolding yields_def wp_withTx by (intro allI, erule allE, erule allE, erule wp_mono) (auto intro: wp_any)

lemma yields_return: "P a \<Longrightarrow> yields (returnC a) P"
  by (simp add: yields_def)

lemma yields_wp: "yields c P \<Longrightarrow> (\<And>a w'. P a \<Longrightarrow> Q a w') \<Longrightarrow> (\<And>e w'. E e w') \<Longrightarrow> wp c Q E r w"
  unfolding yields_def by (erule allE, erule allE, erule wp_mono) simp_all

lemma yields_mono: "yields c P \<Longrightarrow> (\<And>a. P a \<Longrightarrow> R a) \<Longrightarrow> yields c R"
  unfolding yields_def by (intro allI, erule allE, erule allE, erule wp_mono) simp_all

lemmas yields_steps = yields_bind yields_then yields_mapErr yields_withTx yields_return

lemma yields_CreateUser: "yields (CreateUser ck f l em b) (\<lambda>u. u_ClerkID u = ck \<and> u_Banned u = b)"
  unfolding CreateUser_def Let_def
  by (intro yields_steps) (simp add: SetCurrentClient_def user_PullEvents_def NewUser_def user_recordEvent_def)

text \<open>The token is valid and names the user, who is not banned.\<close>

definition admitted :: "(string \<Rightarrow> token_claims option) \<Rightarrow> string \<Rightarrow> user \<Rightarrow> bool" where
  "admitted verify header u \<longleftrightarrow> (case bearer_token header of Inl _ \<Rightarrow> False | Inr token \<Rightarrow>
     (case verify token of None \<Rightarrow> False | Some claims \<Rightarrow> u_ClerkID u = claimed_id claims \<and> \<not> u_Banned u))"

lemma wp_Authenticate:
  assumes "\<And>u w'. admitted verify header u \<Longrightarrow> wp (nxt (rq\<lparr>rq_User := Some u\<rparr>)) Q E r w'"
    and "\<And>m w'. Q \<lparr>rs_Status = 401, rs_Body = Message m\<rparr> w'"
  shows "wp (Authenticate verify fetch header nxt rq) Q E r w"
proof (cases "bearer_token header")
  case (Inl m)
  then show ?thesis using assms(2) by (simp add: Authenticate_def)
next
  case (Inr token)
  have known: "yields (known_or_created fetch found claims) (\<lambda>u. u_ClerkID u = claimed_id claims)"
    if "\<And>u. found = Some u \<Longrightarrow> u_ClerkID u = claimed_id claims" for found claims
    unfolding known_or_created_def
    by (auto split: option.splits intro!: yields_steps yields_mono [OF yields_CreateUser] simp: that)
  have valid: "yields (ValidateToken verify token) (\<lambda>(found, claims). verify token = Some claims \<and>
      (\<forall>u. found = Some u \<longrightarrow> u_ClerkID u = claimed_id claims))"
    by (auto simp: ValidateToken_def user_GetByClerkID_def yields_def userModel_def split: option.splits dest!: tbl_first_Some)
  have go: "wp (tryC (known_or_created fetch found claims) (\<lambda>e. message 401 (Error e)) (\<lambda>u.
      if u_Banned u then message 401 ''User is banned'' else nxt (rq\<lparr>rq_User := Some u\<rparr>))) Q E r w'"
    if "verify token = Some claims" "\<forall>u. found = Some u \<longrightarrow> u_ClerkID u = claimed_id claims" for found claims w'
    unfolding wp_try
    by (rule yields_wp [OF known]) (use that assms Inr in \<open>auto simp: admitted_def\<close>)
  show ?thesis unfolding Authenticate_def Inr sum.case wp_try
    by (rule yields_wp [OF valid]) (use go assms(2) in auto)
qed

section \<open>Payments that come before their checkout\<close>

text \<open>An event about the payment of an invoice.\<close>

definition payment_event :: "stripe_invoice \<Rightarrow> stripe_event \<Rightarrow> bool" where
  "payment_event i ev \<longleftrightarrow> se_Type ev \<in> {''invoice.payment_succeeded'', ''invoice.payment_failed''} \<and>
     se_Object ev = Decoded (InvoiceObject i) \<and> si_ID i \<noteq> []"

text \<open>A call fails now or later.\<close>

definition disturbed :: "env \<Rightarrow> world \<Rightarrow> bool" where
  "disturbed r w \<longleftrightarrow> (\<exists>t \<ge> wd_tick w. en_fault r t \<noteq> None)"

lemma wp_findSubscription_none:
  assumes "idle w" and "subscription_for a b (wd_committed w) = None" and "\<And>n. Q None (w\<lparr>wd_tick := n\<rparr>)"
    and "\<And>e n. disturbed r w \<Longrightarrow> E e (w\<lparr>wd_tick := n\<rparr>)"
  shows "wp (findSubscriptionByStripeIDs a b) Q E r w"
proof (cases "disturbed r w")
  case True
  then show ?thesis using assms by (intro wp_findSubscription) auto
next
  case False
  then show ?thesis
    using assms(1-3) assms(3) [of "wd_tick w"]
    by (auto simp: findSubscriptionByStripeIDs_def GetByStripeSubscriptionID_def GetByStripeCustomerID_def
      idle_def subscription_for_def disturbed_def cong: option.case_cong split: option.splits if_splits)
qed

lemma early_payment:
  assumes "idle w" and "payment_event i ev"
    and "subscription_for (subscriptionIDFromInvoice i) (customerIDFromInvoice i) (wd_committed w) = None"
  shows "wp (BillingWebhook_Execute lb g ev) (\<lambda>a w'. wd_committed w' = wd_committed w \<and>
      (rs_Status a = 503 \<or> rs_Status a = 500 \<and> disturbed r w)) (\<lambda>_ _. False) r w"
proof -
  have upsert: "wp (UpsertInvoice (payment_command ev outcome i)) Q E r w"
    if "\<And>n. E (Sentinel ErrStripeSubscriptionNotLinked) (w\<lparr>wd_tick := n\<rparr>)"
      "\<And>e n. disturbed r w \<Longrightarrow> E e (w\<lparr>wd_tick := n\<rparr>)" for outcome Q E
    using assms(2,3) that
    by (auto simp: UpsertInvoice_def resolveOwner_def payment_command_def upsertInvoiceCommandFromStripe_def
        MapInvoiceData_def Let_def payment_event_def intro!: wp_findSubscription_none [OF assms(1)])
  show ?thesis
    using assms(2)
    by (auto simp: BillingWebhook_Execute_def billing_dispatch_def payment_event_def handleInvoicePaymentSucceeded_def
        handleInvoicePaymentFailed_def with_invoice_def thenC_def intro!: upsert)
qed

section \<open>Requests to the office\<close>

text \<open>Identifiers are written in unary; a request of the user of \<open>Office\<close> for the object in the path.\<close>

definition office_libs :: libs where
  "office_libs = \<lparr>lb_ParseUUID = (\<lambda>s. Some (length s)), lb_IsUUID = (\<lambda>_. True), lb_Collation = (\<lambda>_. 0), lb_Quota = False\<rparr>"

definition office_request :: "user option \<Rightarrow> uuid \<Rightarrow> 'b option \<Rightarrow> 'b request" where
  "office_request u i b = \<lparr>rq_User = u, rq_Param = (\<lambda>_. replicate i (CHR ''1'')), rq_Query = (\<lambda>_. []), rq_List = (\<lambda>_. []),
     rq_Page = None, rq_Body = b\<rparr>"

lemma office_works_in: "works_in (office_request (Some office_user) i b) 3"
  by (simp add: works_in_def office_request_def GetCurrentClientID_def GetUser_def office_user_def uuid_Nil_def)

text \<open>An invoice of a subscription that no workspace is linked to yet.\<close>

definition office_payment :: stripe_invoice where
  "office_payment = \<lparr>si_ID = ''in_9'', si_Customer = Some ''other'', si_Parent = Some (Some ''sub_9''), si_Lines = None,
     si_Number = ''9'', si_Status = ''paid'', si_Currency = ''eur'', si_AmountDue = 5, si_AmountPaid = 5, si_Total = 5,
     si_HostedInvoiceURL = [], si_InvoicePDF = [], si_BillingReason = [], si_AttemptCount = 1, si_PeriodStart = 1,
     si_PeriodEnd = 2, si_Created = 1, si_PaidAt = None\<rparr>"

definition office_payment_event :: stripe_event where
  "office_payment_event = \<lparr>se_ID = ''evt_9'', se_Type = ''invoice.payment_succeeded'',
     se_Object = Decoded (InvoiceObject office_payment)\<rparr>"

end
