(* ===== verification/Routes.thy ===== *)
theory Routes
  imports StripeGateway HttpFacts
begin

text \<open>
  The server as \<open>src/cmd/api\<close> assembles it: the routes in the order of their registration, the
  authentication in front of those of a user, and the handlers on the services of the deployment. How
  a pattern matches a path, how a body is bound and what an unknown route is answered are the
  framework's, and parameters here. Of an answer the status is kept.
\<close>

section \<open>Requests and the deployment\<close>

text \<open>A request with what the framework makes of its body: \<open>in_Text\<close> for the bodies of one text member.\<close>

record incoming =
  in_Method :: string
  in_Path :: string
  in_Authorization :: string
  in_StripeSignature :: string
  in_Query :: "string \<Rightarrow> string"
  in_List :: "string \<Rightarrow> string list"
  in_Page :: "paginate_query option"
  in_Text :: "string \<Rightarrow> string option"
  in_Campaign :: "campaign_request option"
  in_Background :: "background_request option"
  in_Presign :: "presign_request option"
  in_Subscribe :: "subscribe_request option"
  in_Verified :: bool
  in_Clerk :: "clerk_event decoded"
  in_Objects :: "object_record list decoded"
  in_Stripe :: "stripe_event decoded"

text \<open>\<open>fw_Match\<close> takes the method and the pattern of a route, and the method and the path of a request.\<close>

record framework =
  fw_Match :: "string \<Rightarrow> string \<Rightarrow> string \<Rightarrow> string \<Rightarrow> (string \<Rightarrow> string) option"
  fw_Under :: "string \<Rightarrow> string \<Rightarrow> bool"
  fw_NoRoute :: "string \<Rightarrow> string \<Rightarrow> int"
  fw_Liveness :: string
  fw_Readiness :: string
  fw_Startup :: string

record deployment =
  dp_Framework :: framework
  dp_Libs :: libs
  dp_Verify :: "string \<Rightarrow> token_claims option"
  dp_Fetch :: "string \<Rightarrow> clerk_user app"
  dp_Sign :: "string \<Rightarrow> int \<Rightarrow> string list \<Rightarrow> string res"
  dp_Gateway :: subscription_gateway
  dp_Checkout :: "checkout_request \<Rightarrow> string app"
  dp_Portal :: "string \<Rightarrow> string app"
  dp_Bucket :: string
  dp_MinIOSecret :: string
  dp_StripeSecret :: string

section \<open>The routes\<close>

datatype endpoint =
    Healthcheck | ClerkWebhook | MinIOWebhook | StripeWebhook | ListPlans
  | GetUser_route | PutCurrentClient
  | ListClients_route | PostClient | GetClient_route | PutClient | DeleteClient_route | PostMember | DeleteMember
  | ListCampaigns_route | PostCampaign | GetCampaign_route | PutCampaign | DeleteCampaign_route | PostBackground
  | DeleteBackground | GetCampaignThumbnail
  | ListMedias_route | PostPresign | GetStats_route | GetContentThumbnail_route | GetMedia_route | GetMediaThumbnail
  | ListActivity_route | GetConnection_route
  | GetSubscription_route | GetQuota_route | PostSubscription | PostPreview | GetPortal | ListInvoices_route

text \<open>A layer of the server's stack: a handler, or the authentication of everything below a prefix.\<close>

datatype layer = Route string string endpoint | Guard string

definition setupHealthChecks :: "framework \<Rightarrow> layer list" where
  "setupHealthChecks fw = [Route ''GET'' (fw_Liveness fw) Healthcheck, Route ''GET'' (fw_Readiness fw) Healthcheck,
     Route ''GET'' (fw_Startup fw) Healthcheck]"

definition setupWebhooks :: "layer list" where
  "setupWebhooks = [Route ''POST'' ''/webhooks/clerk'' ClerkWebhook,
     Route ''POST'' ''/webhooks/minio/object-created'' MinIOWebhook, Route ''POST'' ''/webhooks/stripe'' StripeWebhook]"

definition setupPlanRoutes :: "layer list" where
  "setupPlanRoutes = [Route ''GET'' ''/api/plans'' ListPlans]"

definition setupUserRoutes :: "layer list" where
  "setupUserRoutes = [Route ''GET'' ''/api/users/me'' GetUser_route,
     Route ''PUT'' ''/api/users/me/current-client'' PutCurrentClient]"

definition setupClientRoutes :: "layer list" where
  "setupClientRoutes = [Route ''GET'' ''/api/clients'' ListClients_route, Route ''POST'' ''/api/clients'' PostClient,
     Route ''GET'' ''/api/clients/:id'' GetClient_route, Route ''PUT'' ''/api/clients/:id'' PutClient,
     Route ''DELETE'' ''/api/clients/:id'' DeleteClient_route, Route ''POST'' ''/api/clients/:id/members'' PostMember,
     Route ''DELETE'' ''/api/clients/:id/members/:userId'' DeleteMember]"

definition setupCampaignRoutes :: "layer list" where
  "setupCampaignRoutes = [Route ''GET'' ''/api/campaigns'' ListCampaigns_route, Route ''POST'' ''/api/campaigns'' PostCampaign,
     Route ''GET'' ''/api/campaigns/:id'' GetCampaign_route, Route ''PUT'' ''/api/campaigns/:id'' PutCampaign,
     Route ''DELETE'' ''/api/campaigns/:id'' DeleteCampaign_route,
     Route ''POST'' ''/api/campaigns/:id/background/presign'' PostBackground,
     Route ''DELETE'' ''/api/campaigns/:id/background'' DeleteBackground,
     Route ''GET'' ''/api/campaigns/:id/thumbnail'' GetCampaignThumbnail]"

definition setupMediaRoutes :: "layer list" where
  "setupMediaRoutes = [Route ''GET'' ''/api/medias'' ListMedias_route, Route ''POST'' ''/api/medias/presign'' PostPresign,
     Route ''GET'' ''/api/medias/stats'' GetStats_route,
     Route ''GET'' ''/api/medias/:id/contents/:contentId/thumbnail'' GetContentThumbnail_route,
     Route ''GET'' ''/api/medias/:id'' GetMedia_route, Route ''GET'' ''/api/medias/:id/thumbnail'' GetMediaThumbnail]"

definition setupActivityRoutes :: "layer list" where
  "setupActivityRoutes = [Route ''GET'' ''/api/activity'' ListActivity_route]"

definition setupRealtimeRoutes :: "layer list" where
  "setupRealtimeRoutes = [Route ''GET'' ''/api/realtime/connection'' GetConnection_route]"

definition setupSubscriptionRoutes :: "layer list" where
  "setupSubscriptionRoutes = [Route ''GET'' ''/api/subscription'' GetSubscription_route, Route ''GET'' ''/api/quota'' GetQuota_route,
     Route ''POST'' ''/api/subscriptions'' PostSubscription, Route ''POST'' ''/api/subscriptions/preview'' PostPreview,
     Route ''GET'' ''/api/subscriptions/portal'' GetPortal]"

definition setupInvoiceRoutes :: "layer list" where
  "setupInvoiceRoutes = [Route ''GET'' ''/api/invoices'' ListInvoices_route]"

definition setupAPIRoutes :: "layer list" where
  "setupAPIRoutes = setupPlanRoutes @ Guard ''/api'' # setupUserRoutes @ setupClientRoutes @ setupCampaignRoutes @
     setupMediaRoutes @ setupActivityRoutes @ setupRealtimeRoutes @ setupSubscriptionRoutes @ setupInvoiceRoutes"

definition setupRoutes :: "framework \<Rightarrow> layer list" where
  "setupRoutes fw = setupHealthChecks fw @ setupWebhooks @ setupAPIRoutes"

section \<open>The handlers on the deployment\<close>

definition as_request :: "incoming \<Rightarrow> user option \<Rightarrow> (string \<Rightarrow> string) \<Rightarrow> 'b option \<Rightarrow> 'b request" where
  "as_request q u params body = \<lparr>rq_User = u, rq_Param = params, rq_Query = in_Query q, rq_List = in_List q,
     rq_Page = in_Page q, rq_Body = body\<rparr>"

definition status :: "'a response app \<Rightarrow> unit response app" where
  "status c = bindC c (\<lambda>a. respond (rs_Status a) NoBody)"

definition fetch_email :: "deployment \<Rightarrow> string \<Rightarrow> string app" where
  "fetch_email dp clerkID = bindC (dp_Fetch dp clerkID) (\<lambda>ck. returnC (ck_Email ck))"

fun run_endpoint :: "deployment \<Rightarrow> endpoint \<Rightarrow> incoming \<Rightarrow> user option \<Rightarrow> (string \<Rightarrow> string) \<Rightarrow> unit response app" where
  "run_endpoint dp Healthcheck q u ps = sendStatus 200"
| "run_endpoint dp ClerkWebhook q u ps = UserWebhook_Protected (in_Verified q) (in_Clerk q) UserWebhook_Execute"
| "run_endpoint dp MinIOWebhook q u ps = MediaUpload_Protected (dp_MinIOSecret dp) (in_Authorization q)
     (MediaUpload_ObjectCreated (lb_Quota (dp_Libs dp)) (dp_Bucket dp) (in_Objects q))"
| "run_endpoint dp StripeWebhook q u ps = BillingWebhook_Protected (dp_StripeSecret dp) (in_StripeSignature q)
     (in_Verified q) (in_Stripe q) (BillingWebhook_Execute (dp_Libs dp) (dp_Gateway dp))"
| "run_endpoint dp ListPlans q u ps = status (PlanHandler_List (as_request q u ps (Some ())))"
| "run_endpoint dp GetUser_route q u ps = status (UserHandler_GetUser (as_request q u ps (Some ())))"
| "run_endpoint dp PutCurrentClient q u ps =
     status (UserHandler_SetCurrentClient (dp_Libs dp) (as_request q u ps (in_Text q ''clientId'')))"
| "run_endpoint dp ListClients_route q u ps = status (ClientHandler_List (dp_Libs dp) (as_request q u ps (Some ())))"
| "run_endpoint dp PostClient q u ps = status (ClientHandler_Create (as_request q u ps (in_Text q ''name'')))"
| "run_endpoint dp GetClient_route q u ps = status (ClientHandler_GetByID (dp_Libs dp) (as_request q u ps (Some ())))"
| "run_endpoint dp PutClient q u ps = status (ClientHandler_Update (dp_Libs dp) (as_request q u ps (in_Text q ''name'')))"
| "run_endpoint dp DeleteClient_route q u ps = status (ClientHandler_Delete (dp_Libs dp) (as_request q u ps (Some ())))"
| "run_endpoint dp PostMember q u ps = status (ClientHandler_AddMember (dp_Libs dp) (as_request q u ps (in_Text q ''userId'')))"
| "run_endpoint dp DeleteMember q u ps = status (ClientHandler_RemoveMember (dp_Libs dp) (as_request q u ps (Some ())))"
| "run_endpoint dp ListCampaigns_route q u ps = status (CampaignHandler_List (dp_Libs dp) (as_request q u ps (Some ())))"
| "run_endpoint dp PostCampaign q u ps = status (CampaignHandler_Create (dp_Libs dp) (as_request q u ps (in_Campaign q)))"
| "run_endpoint dp GetCampaign_route q u ps = status (CampaignHandler_GetByID (dp_Libs dp) (as_request q u ps (Some ())))"
| "run_endpoint dp PutCampaign q u ps = status (CampaignHandler_Update (dp_Libs dp) (as_request q u ps (in_Campaign q)))"
| "run_endpoint dp DeleteCampaign_route q u ps = status (CampaignHandler_Delete (dp_Libs dp) (as_request q u ps (Some ())))"
| "run_endpoint dp PostBackground q u ps =
     status (CampaignHandler_PresignBackground (dp_Libs dp) (as_request q u ps (in_Background q)))"
| "run_endpoint dp DeleteBackground q u ps =
     status (CampaignHandler_ClearBackground (dp_Libs dp) (as_request q u ps (Some ())))"
| "run_endpoint dp GetCampaignThumbnail q u ps =
     status (CampaignHandler_GetThumbnail (dp_Libs dp) (as_request q u ps (Some ())))"
| "run_endpoint dp ListMedias_route q u ps = status (MediaHandler_List (dp_Libs dp) (as_request q u ps (Some ())))"
| "run_endpoint dp PostPresign q u ps = status (MediaHandler_Presign (dp_Libs dp) (as_request q u ps (in_Presign q)))"
| "run_endpoint dp GetStats_route q u ps = status (MediaHandler_Stats (dp_Libs dp) (as_request q u ps (Some ())))"
| "run_endpoint dp GetContentThumbnail_route q u ps =
     status (MediaHandler_GetContentThumbnail (dp_Libs dp) (as_request q u ps (Some ())))"
| "run_endpoint dp GetMedia_route q u ps = status (MediaHandler_GetByID (dp_Libs dp) (as_request q u ps (Some ())))"
| "run_endpoint dp GetMediaThumbnail q u ps =
     status (MediaHandler_GetThumbnail (dp_Libs dp) (as_request q u ps (Some ())))"
| "run_endpoint dp ListActivity_route q u ps = status (ActivityHandler_List (dp_Libs dp) (as_request q u ps (Some ())))"
| "run_endpoint dp GetConnection_route q u ps =
     status (RealtimeHandler_GetConnection (dp_Sign dp) (as_request q u ps (Some ())))"
| "run_endpoint dp GetSubscription_route q u ps =
     status (SubscriptionHandler_GetSubscription (as_request q u ps (Some ())))"
| "run_endpoint dp GetQuota_route q u ps = status (SubscriptionHandler_GetQuota (as_request q u ps (Some ())))"
| "run_endpoint dp PostSubscription q u ps = status (SubscriptionHandler_CreateSubscription (dp_Libs dp) (dp_Gateway dp)
     (fetch_email dp) (dp_Checkout dp) (as_request q u ps (in_Subscribe q)))"
| "run_endpoint dp PostPreview q u ps = status (SubscriptionHandler_PreviewSubscription (dp_Libs dp) (dp_Gateway dp)
     (as_request q u ps (in_Text q ''planId'')))"
| "run_endpoint dp GetPortal q u ps =
     status (SubscriptionHandler_CreateBillingPortal (dp_Portal dp) (as_request q u ps (Some ())))"
| "run_endpoint dp ListInvoices_route q u ps = status (InvoiceHandler_GetInvoices (dp_Libs dp) (as_request q u ps (Some ())))"

section \<open>Serving a request\<close>

text \<open>The layers are tried in order; the first handler that matches answers.\<close>

definition authenticated :: "deployment \<Rightarrow> incoming \<Rightarrow> (user option \<Rightarrow> unit response app) \<Rightarrow> unit response app" where
  "authenticated dp q f = Authenticate (dp_Verify dp) (dp_Fetch dp) (in_Authorization q) (\<lambda>rq. f (rq_User rq))
     (as_request q None (\<lambda>_. []) (Some ()))"

fun serve_layers :: "deployment \<Rightarrow> layer list \<Rightarrow> incoming \<Rightarrow> user option \<Rightarrow> unit response app" where
  "serve_layers dp [] q u = sendStatus (fw_NoRoute (dp_Framework dp) (in_Method q) (in_Path q))"
| "serve_layers dp (Route m pat e # ls) q u = (case fw_Match (dp_Framework dp) m pat (in_Method q) (in_Path q) of
      Some ps \<Rightarrow> run_endpoint dp e q u ps | None \<Rightarrow> serve_layers dp ls q u)"
| "serve_layers dp (Guard p # ls) q u = (if fw_Under (dp_Framework dp) p (in_Path q)
     then authenticated dp q (serve_layers dp ls q) else serve_layers dp ls q u)"

definition serve :: "deployment \<Rightarrow> incoming \<Rightarrow> unit response app" where
  "serve dp q = serve_layers dp (setupRoutes (dp_Framework dp)) q None"

section \<open>Who gets past the guard\<close>

text \<open>What answers without a user: health, the webhooks with their own checks, the plans.\<close>

definition open_endpoints :: "endpoint set" where
  "open_endpoints = {Healthcheck, ClerkWebhook, MinIOWebhook, StripeWebhook, ListPlans}"

definition open_layers :: "framework \<Rightarrow> layer list" where
  "open_layers fw = setupHealthChecks fw @ setupWebhooks @ setupPlanRoutes"

definition protected_layers :: "layer list" where
  "protected_layers = setupUserRoutes @ setupClientRoutes @ setupCampaignRoutes @ setupMediaRoutes @
     setupActivityRoutes @ setupRealtimeRoutes @ setupSubscriptionRoutes @ setupInvoiceRoutes"

lemmas route_defs = setupHealthChecks_def setupWebhooks_def setupPlanRoutes_def setupUserRoutes_def setupClientRoutes_def
  setupCampaignRoutes_def setupMediaRoutes_def setupActivityRoutes_def setupRealtimeRoutes_def
  setupSubscriptionRoutes_def setupInvoiceRoutes_def

lemma setupRoutes_guarded: "setupRoutes fw = open_layers fw @ Guard ''/api'' # protected_layers"
  by (simp add: setupRoutes_def setupAPIRoutes_def open_layers_def protected_layers_def)

lemma open_layers_open: "\<forall>l \<in> set (open_layers fw). \<exists>m pat e. l = Route m pat e \<and> e \<in> open_endpoints"
  by (simp add: open_layers_def route_defs open_endpoints_def)

lemma protected_layers_below:
  "\<forall>l \<in> set protected_layers. \<exists>m pat e. l = Route m pat e \<and> prefix ''/api'' pat \<and> e \<notin> open_endpoints"
  by (simp add: protected_layers_def route_defs open_endpoints_def)

text \<open>What the router does with patterns: those of a group match below its prefix only.\<close>

definition framework_ok :: "framework \<Rightarrow> bool" where
  "framework_ok fw \<longleftrightarrow> (\<forall>m pat m' path. prefix ''/api'' pat \<and> fw_Match fw m pat m' path \<noteq> None \<longrightarrow> fw_Under fw ''/api'' path)"

text \<open>An answer that needs no user: an open endpoint's, or that of an unknown route.\<close>

definition answered_openly :: "deployment \<Rightarrow> incoming \<Rightarrow> unit response app \<Rightarrow> bool" where
  "answered_openly dp q c \<longleftrightarrow> (\<exists>e ps. e \<in> open_endpoints \<and> c = run_endpoint dp e q None ps) \<or>
     c = sendStatus (fw_NoRoute (dp_Framework dp) (in_Method q) (in_Path q))"

lemma serve_layers_open:
  assumes "\<forall>l \<in> set ls. \<exists>m pat e. l = Route m pat e \<and> e \<in> open_endpoints"
  shows "answered_openly dp q (serve_layers dp (ls @ rest) q None) \<or>
    serve_layers dp (ls @ rest) q None = serve_layers dp rest q None"
  using assms
proof (induction ls)
  case (Cons l ls)
  then obtain m pat e where "l = Route m pat e" "e \<in> open_endpoints" by auto
  then show ?case using Cons by (auto simp: answered_openly_def split: option.split)
qed simp

lemma serve_layers_unmatched:
  assumes "\<forall>l \<in> set ls. \<exists>m pat e. l = Route m pat e \<and> fw_Match (dp_Framework dp) m pat (in_Method q) (in_Path q) = None"
  shows "serve_layers dp ls q u = sendStatus (fw_NoRoute (dp_Framework dp) (in_Method q) (in_Path q))"
  using assms by (induction ls) auto

lemma serve_guarded:
  assumes "framework_ok (dp_Framework dp)"
  shows "answered_openly dp q (serve dp q) \<or>
    serve dp q = authenticated dp q (serve_layers dp protected_layers q)"
proof (cases "fw_Under (dp_Framework dp) ''/api'' (in_Path q)")
  case True
  then show ?thesis
    using serve_layers_open [OF open_layers_open [of "dp_Framework dp"], where dp = dp and q = q and
        rest = "Guard ''/api'' # protected_layers"]
    unfolding serve_def setupRoutes_guarded by auto
next
  case False
  have "\<exists>m pat e. l = Route m pat e \<and> fw_Match (dp_Framework dp) m pat (in_Method q) (in_Path q) = None"
    if l: "l \<in> set protected_layers" for l
  proof -
    obtain m pat e where r: "l = Route m pat e" "prefix ''/api'' pat" using protected_layers_below l by blast
    have "fw_Match (dp_Framework dp) m pat (in_Method q) (in_Path q) = None"
      using assms r(2) False unfolding framework_ok_def by blast
    then show ?thesis using r(1) by blast
  qed
  then have "serve_layers dp protected_layers q None = sendStatus (fw_NoRoute (dp_Framework dp) (in_Method q) (in_Path q))"
    by (intro serve_layers_unmatched) blast
  then show ?thesis
    using False serve_layers_open [OF open_layers_open [of "dp_Framework dp"], where dp = dp and q = q and
        rest = "Guard ''/api'' # protected_layers"]
    unfolding serve_def setupRoutes_guarded by (auto simp: answered_openly_def)
qed

text \<open>Without a token that admits a user, the protected part answers 401.\<close>

lemma authenticated_refuses:
  assumes "\<And>u. \<not> admitted (dp_Verify dp) (in_Authorization q) u"
  shows "wp (authenticated dp q f) (\<lambda>a _. \<exists>m. a = \<lparr>rs_Status = 401, rs_Body = Message m\<rparr>) (\<lambda>_ _. False) r w"
  unfolding authenticated_def by (rule wp_Authenticate) (use assms in auto)

end
