(* ===== verification/EventHandlers.thy ===== *)
theory EventHandlers
  imports Activity
begin

text \<open>
  \<open>src/internal/application/event\<close>: the handlers of the queues and the registries of the three
  consumers (\<open>cmd/worker\<close>, \<open>cmd/analysis\<close>, \<open>cmd/frameextraction\<close>). An event reaches the handlers of its
  type only; a body of another shape counts as one that does not decode.
\<close>

section \<open>Commands started by events\<close>

definition AnalyzeOnUploaded :: "analyze_handler \<Rightarrow> event_handler" where
  "AnalyzeOnUploaded h p = (case p of
     Payload (EvContent (ContentUploaded eid contentID mid cid clid key tkey sz ts)) \<Rightarrow>
       mapErrC (\<lambda>err. if errors_is err ErrConcurrentQuotaExceeded then Deferred err
           else if errors_is err ErrVerificationQuotaExceeded \<or> errors_is err ErrVideoAnalysisNotAllowed \<or>
             errors_is err ErrFileSizeQuotaExceeded then NonRetryable err
           else Retryable err)
         (AnalyzeContent h contentID)
   | _ \<Rightarrow> undecodable)"

definition ExtractOnUploaded :: "bool \<Rightarrow> event_handler" where
  "ExtractOnUploaded quota p = (case p of
     Payload (EvMedia (MediaUploaded eid mid cid clid mty key sz st ts)) \<Rightarrow>
       if mty \<noteq> media_type_string MediaTypeVideo then returnC ()
       else mapErrC Retryable (ExtractFrames quota mid)
   | _ \<Rightarrow> undecodable)"

section \<open>Deleting objects\<close>

text \<open>The Go sets are iterated in an order of their own; here it is the order of first occurrence.\<close>

definition nonempty_keys :: "string list \<Rightarrow> string list" where
  "nonempty_keys ks = remdups (List.filter (\<lambda>k. k \<noteq> []) (List.map TrimSpace ks))"

fun delete_each :: "(string \<Rightarrow> unit app) \<Rightarrow> string list \<Rightarrow> unit app" where
  "delete_each del [] = returnC ()"
| "delete_each del (k # ks) = thenC (mapErrC Retryable (del k)) (delete_each del ks)"

definition DeleteMediaObjects :: event_handler where
  "DeleteMediaObjects p = (case p of
     Payload (EvMedia (MediaDeleted eid mid cid clid key tkey cs cascade ts)) \<Rightarrow>
       thenC (delete_each storage_Delete (nonempty_keys (key # List.map fst cs)))
         (delete_each storage_DeleteThumbnail (nonempty_keys (tkey # List.map snd cs)))
   | _ \<Rightarrow> undecodable)"

definition DeleteCampaignObjects :: event_handler where
  "DeleteCampaignObjects p = (case p of
     Payload (EvCampaign (CampaignDeleted eid cid clid pkey tkey ts)) \<Rightarrow>
       thenC (let key = TrimSpace pkey in if key \<noteq> [] then mapErrC Retryable (storage_Delete key) else returnC ())
         (let key = TrimSpace tkey in if key \<noteq> [] then mapErrC Retryable (storage_DeleteThumbnail key) else returnC ())
   | _ \<Rightarrow> undecodable)"

section \<open>Realtime messages\<close>

definition publishToClientMembers :: "string \<Rightarrow> string \<Rightarrow> uuid \<Rightarrow> domain_event \<Rightarrow> unit app" where
  "publishToClientMembers entity action clientID e =
    bindC (mapErrC Retryable (clientRead_FindByID clientID)) (\<lambda>view.
    case view of None \<Rightarrow> returnC () | Some view \<Rightarrow> ToMembers entity action (cl_MemberIDs view) (RtEvent e))"

definition realtime_OnUploadRequested :: event_handler where
  "realtime_OnUploadRequested p = (case p of
     Payload (EvMedia (MediaUploadRequested eid mid cid clid fname ct mty key st ts)) \<Rightarrow>
       publishToClientMembers ''media'' ''created'' clid
         (EvMedia (MediaUploadRequested eid mid cid clid fname ct mty key st ts))
   | _ \<Rightarrow> undecodable)"

definition realtime_OnUploaded :: event_handler where
  "realtime_OnUploaded p = (case p of
     Payload (EvMedia (MediaUploaded eid mid cid clid mty key sz st ts)) \<Rightarrow>
       publishToClientMembers ''media'' ''status_changed'' clid (EvMedia (MediaUploaded eid mid cid clid mty key sz st ts))
   | _ \<Rightarrow> undecodable)"

definition realtime_OnStatusChanged :: event_handler where
  "realtime_OnStatusChanged p = (case p of
     Payload (EvMedia (MediaStatusChanged eid mid cid clid st lab ts)) \<Rightarrow>
       if st \<noteq> media_status_string StatusProcessing then returnC () else
       publishToClientMembers ''media'' ''status_changed'' clid (EvMedia (MediaStatusChanged eid mid cid clid st lab ts))
   | _ \<Rightarrow> undecodable)"

definition realtime_OnVerdictRendered :: event_handler where
  "realtime_OnVerdictRendered p = (case p of
     Payload (EvMedia (MediaVerdictRendered eid mid cid clid lab fl tot fa st reason ts)) \<Rightarrow>
       publishToClientMembers ''media'' ''verdict_rendered'' clid
         (EvMedia (MediaVerdictRendered eid mid cid clid lab fl tot fa st reason ts))
   | _ \<Rightarrow> undecodable)"

definition realtime_OnMediaDeleted :: event_handler where
  "realtime_OnMediaDeleted p = (case p of
     Payload (EvMedia (MediaDeleted eid mid cid clid key tkey cs cascade ts)) \<Rightarrow>
       if cascade then returnC () else
       publishToClientMembers ''media'' ''deleted'' clid (EvMedia (MediaDeleted eid mid cid clid key tkey cs cascade ts))
   | _ \<Rightarrow> undecodable)"

definition realtime_OnContentVerdict :: event_handler where
  "realtime_OnContentVerdict p = (case p of
     Payload (EvContent (ContentVerdictRendered eid coid mid cid clid lab conf sg ts)) \<Rightarrow>
       publishToClientMembers ''content'' ''verdict_rendered'' clid
         (EvContent (ContentVerdictRendered eid coid mid cid clid lab conf sg ts))
   | _ \<Rightarrow> undecodable)"

text \<open>The four campaign events differ in their action only.\<close>

definition campaign_realtime :: "(campaign_event \<Rightarrow> bool) \<Rightarrow> string \<Rightarrow> event_handler" where
  "campaign_realtime decodes action p = (case p of
     Payload (EvCampaign e) \<Rightarrow> if decodes e
       then publishToClientMembers ''campaign'' action (cpev_ClientID e) (EvCampaign e) else undecodable
   | _ \<Rightarrow> undecodable)"

definition realtime_OnCampaignCreated :: event_handler where
  "realtime_OnCampaignCreated = campaign_realtime is_CampaignCreated ''created''"
definition realtime_OnCampaignUpdated :: event_handler where
  "realtime_OnCampaignUpdated = campaign_realtime is_CampaignUpdated ''updated''"
definition realtime_OnCampaignDeleted :: event_handler where
  "realtime_OnCampaignDeleted = campaign_realtime is_CampaignDeleted ''deleted''"
definition realtime_OnBackgroundUpdated :: event_handler where
  "realtime_OnBackgroundUpdated = campaign_realtime is_CampaignBackgroundUpdated ''background_updated''"

definition realtime_OnClientCreated :: event_handler where
  "realtime_OnClientCreated p = (case p of
     Payload (EvClient (ClientCreated eid clid name uid ts)) \<Rightarrow>
       ToUser ''client'' ''created'' (RtEvent (EvClient (ClientCreated eid clid name uid ts))) uid
   | _ \<Rightarrow> undecodable)"

definition realtime_OnClientUpdated :: event_handler where
  "realtime_OnClientUpdated p = (case p of
     Payload (EvClient (ClientUpdated eid clid name ms ts)) \<Rightarrow>
       ToMembers ''client'' ''updated'' ms (RtEvent (EvClient (ClientUpdated eid clid name ms ts)))
   | _ \<Rightarrow> undecodable)"

definition realtime_OnClientDeleted :: event_handler where
  "realtime_OnClientDeleted p = (case p of
     Payload (EvClient (ClientDeleted eid clid ms ts)) \<Rightarrow>
       ToMembers ''client'' ''deleted'' ms (RtEvent (EvClient (ClientDeleted eid clid ms ts)))
   | _ \<Rightarrow> undecodable)"

definition realtime_OnMemberAdded :: event_handler where
  "realtime_OnMemberAdded p = (case p of
     Payload (EvClient (ClientMemberAdded eid clid uid ts)) \<Rightarrow>
       ToUser ''client'' ''member_added'' (RtEvent (EvClient (ClientMemberAdded eid clid uid ts))) uid
   | _ \<Rightarrow> undecodable)"

definition realtime_OnMemberRemoved :: event_handler where
  "realtime_OnMemberRemoved p = (case p of
     Payload (EvClient (ClientMemberRemoved eid clid uid ts)) \<Rightarrow>
       ToUser ''client'' ''member_removed'' (RtEvent (EvClient (ClientMemberRemoved eid clid uid ts))) uid
   | _ \<Rightarrow> undecodable)"

definition user_realtime :: "(user_event \<Rightarrow> bool) \<Rightarrow> string \<Rightarrow> event_handler" where
  "user_realtime decodes action p = (case p of
     Payload (EvUser e) \<Rightarrow> if decodes e then ToUser ''user'' action (RtEvent (EvUser e)) (uev_UserID e) else undecodable
   | _ \<Rightarrow> undecodable)"

definition realtime_OnUserCreated :: event_handler where
  "realtime_OnUserCreated = user_realtime is_UserCreated ''created''"
definition realtime_OnUserUpdated :: event_handler where
  "realtime_OnUserUpdated = user_realtime is_UserUpdated ''updated''"
definition realtime_OnUserDeleted :: event_handler where
  "realtime_OnUserDeleted = user_realtime is_UserDeleted ''deleted''"
definition realtime_OnCurrentClientChanged :: event_handler where
  "realtime_OnCurrentClientChanged = user_realtime is_UserCurrentClientChanged ''current_client_changed''"

lemmas realtime_defs = realtime_OnUploadRequested_def realtime_OnUploaded_def realtime_OnStatusChanged_def
  realtime_OnVerdictRendered_def realtime_OnMediaDeleted_def realtime_OnContentVerdict_def campaign_realtime_def
  realtime_OnCampaignCreated_def realtime_OnCampaignUpdated_def realtime_OnCampaignDeleted_def
  realtime_OnBackgroundUpdated_def realtime_OnClientCreated_def realtime_OnClientUpdated_def
  realtime_OnClientDeleted_def realtime_OnMemberAdded_def realtime_OnMemberRemoved_def user_realtime_def
  realtime_OnUserCreated_def realtime_OnUserUpdated_def realtime_OnUserDeleted_def
  realtime_OnCurrentClientChanged_def

section \<open>Handlers that only log, and the notifier\<close>

definition log_only :: "(domain_event \<Rightarrow> bool) \<Rightarrow> event_handler" where
  "log_only decodes p = (case p of Payload e \<Rightarrow> if decodes e then returnC () else undecodable | _ \<Rightarrow> undecodable)"

definition on_user :: "(user_event \<Rightarrow> bool) \<Rightarrow> domain_event \<Rightarrow> bool" where
  "on_user f e = (case e of EvUser u \<Rightarrow> f u | _ \<Rightarrow> False)"
definition on_client :: "(client_event \<Rightarrow> bool) \<Rightarrow> domain_event \<Rightarrow> bool" where
  "on_client f e = (case e of EvClient u \<Rightarrow> f u | _ \<Rightarrow> False)"
definition on_campaign :: "(campaign_event \<Rightarrow> bool) \<Rightarrow> domain_event \<Rightarrow> bool" where
  "on_campaign f e = (case e of EvCampaign u \<Rightarrow> f u | _ \<Rightarrow> False)"
definition on_content :: "(content_event \<Rightarrow> bool) \<Rightarrow> domain_event \<Rightarrow> bool" where
  "on_content f e = (case e of EvContent u \<Rightarrow> f u | _ \<Rightarrow> False)"

definition log_user :: "(user_event \<Rightarrow> bool) \<Rightarrow> event_handler" where
  "log_user decodes = log_only (on_user decodes)"
definition log_client :: "(client_event \<Rightarrow> bool) \<Rightarrow> event_handler" where
  "log_client decodes = log_only (on_client decodes)"
definition log_campaign :: "(campaign_event \<Rightarrow> bool) \<Rightarrow> event_handler" where
  "log_campaign decodes = log_only (on_campaign decodes)"
definition log_content :: "(content_event \<Rightarrow> bool) \<Rightarrow> event_handler" where
  "log_content decodes = log_only (on_content decodes)"

lemmas log_defs = log_user_def log_client_def log_campaign_def log_content_def

text \<open>The notifier is a service of its own: a function of the user and the message.\<close>

definition NotifyUserOnCreated :: "(uuid \<Rightarrow> string \<Rightarrow> unit app) \<Rightarrow> event_handler" where
  "NotifyUserOnCreated send p = (case p of
     Payload (EvUser (UserCreated eid uid ck firstName lastName email bn ts)) \<Rightarrow>
       mapErrC Retryable (send uid (''User created: '' @ firstName @ '' '' @ lastName @ '' ('' @ email @ '')''))
   | _ \<Rightarrow> undecodable)"

section \<open>The registries\<close>

definition worker_handlers :: "(uuid \<Rightarrow> string \<Rightarrow> unit app) \<Rightarrow> (string \<times> string \<times> event_handler) list" where
  "worker_handlers send =
   [(''user.created.v1'', ''user_created'', log_user is_UserCreated),
    (''user.created.v1'', ''notify_user_on_created'', NotifyUserOnCreated send),
    (''user.created.v1'', ''publish_user_created_realtime'', realtime_OnUserCreated),
    (''user.updated.v1'', ''user_updated'', log_user is_UserUpdated),
    (''user.updated.v1'', ''publish_user_updated_realtime'', realtime_OnUserUpdated),
    (''user.deleted.v1'', ''user_deleted'', log_user is_UserDeleted),
    (''user.deleted.v1'', ''publish_user_deleted_realtime'', realtime_OnUserDeleted),
    (''user.current_client_changed.v1'', ''user_current_client_changed'', log_user is_UserCurrentClientChanged),
    (''user.current_client_changed.v1'', ''publish_user_current_client_changed_realtime'', realtime_OnCurrentClientChanged),
    (''client.created.v1'', ''client_created'', log_client is_ClientCreated),
    (''client.created.v1'', ''publish_client_created_realtime'', realtime_OnClientCreated),
    (''client.updated.v1'', ''client_updated'', log_client is_ClientUpdated),
    (''client.updated.v1'', ''publish_client_updated_realtime'', realtime_OnClientUpdated),
    (''client.deleted.v1'', ''client_deleted'', log_client is_ClientDeleted),
    (''client.deleted.v1'', ''publish_client_deleted_realtime'', realtime_OnClientDeleted),
    (''client.member_added.v1'', ''client_member_added'', log_client is_ClientMemberAdded),
    (''client.member_added.v1'', ''publish_client_member_added_realtime'', realtime_OnMemberAdded),
    (''client.member_added.v1'', ''project_activity_on_client_member_added'', OnClientMemberAdded),
    (''client.member_removed.v1'', ''client_member_removed'', log_client is_ClientMemberRemoved),
    (''client.member_removed.v1'', ''publish_client_member_removed_realtime'', realtime_OnMemberRemoved),
    (''campaign.created.v1'', ''campaign_created'', log_campaign is_CampaignCreated),
    (''campaign.created.v1'', ''publish_campaign_created_realtime'', realtime_OnCampaignCreated),
    (''campaign.created.v1'', ''project_activity_on_campaign_created'', OnCampaignCreated),
    (''campaign.updated.v1'', ''campaign_updated'', log_campaign is_CampaignUpdated),
    (''campaign.updated.v1'', ''publish_campaign_updated_realtime'', realtime_OnCampaignUpdated),
    (''campaign.deleted.v1'', ''campaign_deleted'', log_campaign is_CampaignDeleted),
    (''campaign.deleted.v1'', ''publish_campaign_deleted_realtime'', realtime_OnCampaignDeleted),
    (''campaign.deleted.v1'', ''delete_campaign_objects_on_deleted'', DeleteCampaignObjects),
    (''campaign.background_updated.v1'', ''campaign_background_updated'', log_campaign is_CampaignBackgroundUpdated),
    (''campaign.background_updated.v1'', ''publish_campaign_background_updated_realtime'', realtime_OnBackgroundUpdated),
    (''content.created.v1'', ''content_created'', log_content is_ContentCreated),
    (''content.uploaded.v1'', ''content_uploaded'', log_content is_ContentUploaded),
    (''content.status_changed.v1'', ''content_status_changed'', log_content is_ContentStatusChanged),
    (''content.verdict_rendered.v1'', ''content_verdict_rendered'', log_content is_ContentVerdictRendered),
    (''content.verdict_rendered.v1'', ''publish_content_verdict_rendered_realtime'', realtime_OnContentVerdict),
    (''media.upload_requested.v1'', ''publish_media_upload_requested_realtime'', realtime_OnUploadRequested),
    (''media.uploaded.v1'', ''publish_media_uploaded_realtime'', realtime_OnUploaded),
    (''media.status_changed.v1'', ''publish_media_status_changed_realtime'', realtime_OnStatusChanged),
    (''media.status_changed.v1'', ''project_activity_on_media_status_changed'', OnMediaStatusChanged),
    (''media.verdict_rendered.v1'', ''publish_media_verdict_rendered_realtime'', realtime_OnVerdictRendered),
    (''media.verdict_rendered.v1'', ''project_activity_on_media_verdict_rendered'', OnMediaVerdictRendered),
    (''media.deleted.v1'', ''delete_media_objects_on_deleted'', DeleteMediaObjects),
    (''media.deleted.v1'', ''publish_media_deleted_realtime'', realtime_OnMediaDeleted)]"

definition analysis_handlers :: "analyze_handler \<Rightarrow> (string \<times> string \<times> event_handler) list" where
  "analysis_handlers h = [(''content.uploaded.v1'', ''analysis_on_uploaded'', AnalyzeOnUploaded h)]"

definition frame_handlers :: "bool \<Rightarrow> (string \<times> string \<times> event_handler) list" where
  "frame_handlers quota = [(''media.uploaded.v1'', ''frame_extraction_on_uploaded'', ExtractOnUploaded quota)]"

text \<open>\<open>reg.Register(eventType, dedup.With(dedupRepo, name, handler))\<close>, one after the other.\<close>

definition register_all :: "(string \<times> string \<times> event_handler) list \<Rightarrow> handler_registry" where
  "register_all hs = fold (\<lambda>(t, name, h). Register t (with_dedup name h)) hs []"

definition handler_names :: "(string \<times> string \<times> event_handler) list \<Rightarrow> string list" where
  "handler_names hs = List.map (\<lambda>(t, name, h). name) hs"

end
