(* ===== verification/Deduplication.thy ===== *)
theory Deduplication
  imports EventHandlers
begin

text \<open>
  What the redelivery of an event does. Every handler of the registries leaves the marks of the
  processed events alone, so the handlers of an event that have run are skipped when it comes again,
  and a delivery that failed in the middle resumes where it stopped.
\<close>

section \<open>The marks are left alone\<close>

text \<open>The updates of the database that keep the table of processed events.\<close>

definition keeps_processed :: "(db \<Rightarrow> db res) \<Rightarrow> bool" where
  "keeps_processed f \<longleftrightarrow> (\<forall>d d'. f d = Inr d' \<longrightarrow> t_processed d' = t_processed d)"

lemma marked_set_db:
  "marked_tx tx i name w \<Longrightarrow> t_processed d = t_processed (wd_db w) \<Longrightarrow> marked_tx tx i name (set_db d w)"
  by (auto simp: marked_tx_def set_db_def has_mark_def)

lemma marks_calls [keeps_intros]:
  "keeps (\<lambda>r. marked_tx tx i name) nowC" "keeps (\<lambda>r. marked_tx tx i name) uuidC" "keeps (\<lambda>r. marked_tx tx i name) callC"
  "keeps (\<lambda>r. marked_tx tx i name) (dbRead g)" "keeps (\<lambda>r. marked_tx tx i name) (poolRead g)"
  by (intro keeps_now keeps_uuid keeps_call keeps_dbRead keeps_poolRead; simp)+

lemma marks_write [keeps_intros]: "keeps_processed f \<Longrightarrow> keeps (\<lambda>r. marked_tx tx i name) (dbWrite f)"
  by (rule keeps_dbWrite) (auto simp: keeps_processed_def intro: marked_set_db)

lemma marks_readonly: "readonly c \<Longrightarrow> keeps (\<lambda>r. marked_tx tx i name) c"
  unfolding keeps_def using readonlyD [of c] by (metis marked_steps(1))

lemmas marks_guards [keeps_intros] = readonly_guards [THEN marks_readonly] readonly_GetQuotaUsage [THEN marks_readonly]

lemma marks_storage [keeps_intros]:
  "keeps (\<lambda>r. marked_tx tx i name) (storage_Get key)" "keeps (\<lambda>r. marked_tx tx i name) (storage_Put key b)"
  "keeps (\<lambda>r. marked_tx tx i name) (storage_PutThumbnail key b)" "keeps (\<lambda>r. marked_tx tx i name) (storage_Delete key)"
  "keeps (\<lambda>r. marked_tx tx i name) (storage_DeleteThumbnail key)" "keeps (\<lambda>r. marked_tx tx i name) (Lock ws)"
  unfolding storage_Get_def storage_Put_def storage_PutThumbnail_def storage_Delete_def storage_DeleteThumbnail_def
    Lock_def
  by (intro keeps_intros keeps_state; simp split: option.splits)+

lemma marks_withTx:
  assumes "keeps (\<lambda>r. marked_tx True i name) c"
  shows "keeps (\<lambda>r. marked_tx False i name) (withTx c)"
  unfolding keeps_wp
proof (intro allI impI)
  fix r w assume w: "marked i name w"
  then have "marked_tx True i name (beginTx w)" by (auto simp: marked_tx_def beginTx_def)
  then have "wp c (\<lambda>_. marked_tx True i name) (\<lambda>_. marked_tx True i name) r (beginTx w)"
    using assms by (simp add: keeps_wp)
  then show "wp (withTx c) (\<lambda>_. marked i name) (\<lambda>_. marked i name) r w"
    unfolding wp_withTx
    by (rule wp_mono) (auto simp: marked_tx_def commitTx_def rollbackTx_def)
qed

lemma marks_repositories [keeps_intros]:
  "keeps (\<lambda>r. marked_tx tx i name) (media_Update m)" "keeps (\<lambda>r. marked_tx tx i name) (media_GetByID j)"
  "keeps (\<lambda>r. marked_tx tx i name) (content_Update c)" "keeps (\<lambda>r. marked_tx tx i name) (content_GetByID j)"
  "keeps (\<lambda>r. marked_tx tx i name) (content_Save c)" "keeps (\<lambda>r. marked_tx tx i name) (ListByMediaID j)"
  "keeps (\<lambda>r. marked_tx tx i name) (StoreEvents es)" "keeps (\<lambda>r. marked_tx tx i name) (result_Upsert x)"
  "keeps (\<lambda>r. marked_tx tx i name) (FindByContentID j)"
  unfolding repository_defs result_Upsert_def FindByContentID_def StoreEvents_def
  by (intro keeps_intros; auto simp: keeps_processed_def media_put_def content_put_def outbox_put_def
      content_insert_def results_upsert_def split: sum.splits)+

section \<open>Every handler of the registries\<close>

lemma marks_quiet: "quiet c \<Longrightarrow> keeps (\<lambda>r. marked_tx tx i name) c"
  unfolding keeps_def quiet_def by (metis marked_steps(1,4))

lemma marks_attempt [keeps_intros]: "keeps (\<lambda>r. marked_tx tx i name) (GenerateJPEG raw n)"
  unfolding GenerateJPEG_def by (intro keeps_intros)

lemma marks_runDetectors: "\<forall>d \<in> set ds. detector_quiet d \<Longrightarrow> keeps (\<lambda>r. marked_tx tx i name) (runDetectors c err ds)"
proof (induction ds arbitrary: err)
  case Nil
  show ?case unfolding runDetectors.simps by (intro keeps_intros)
next
  case (Cons d ds)
  have "keeps (\<lambda>r. marked_tx tx i name) (storeOutcome c d started oc)" for started oc
    unfolding storeOutcome_def Let_def using Cons.prems
    by (intro keeps_intros marks_quiet) (auto simp: detector_quiet_def)
  moreover have "keeps (\<lambda>r. marked_tx tx i name) (det_Analyze d x j key)" for x j key
    using Cons.prems by (intro marks_quiet) (simp add: detector_quiet_def)
  ultimately have "keeps (\<lambda>r. marked_tx tx i name) (runDetector c x d)" for x
    unfolding runDetector_def by (intro keeps_intros)
  then show ?case unfolding runDetectors.simps using Cons by (intro keeps_intros) auto
qed

lemma marks_tryFinalizeMedia [keeps_intros]: "keeps (\<lambda>r. marked i name) (tryFinalizeMedia j)"
  unfolding tryFinalizeMedia_def by (intro keeps_intros marks_withTx)

lemma marks_analyze_and_render:
  assumes "handler_ok h"
  shows "keeps (\<lambda>r. marked i name) (analyze_and_render h c)"
  unfolding analyze_and_render_def renderVerdictTx_def Let_def
proof (rule keeps_bind_value, goal_cases)
  case 1
  show ?case by (rule marks_readonly [OF readonly_selectDetectors])
next
  case (2 r w ds)
  then have "set (ah_schedule h ds) \<subseteq> set (ah_detectors h)"
    using selectDetectors_subset assms by (metis handler_ok_def mset_eq_setD)
  then have "\<forall>d \<in> set (ah_schedule h ds). detector_quiet d" using assms by (auto simp: handler_ok_def)
  then show ?case by (intro keeps_intros marks_withTx marks_runDetectors)
qed

lemma marks_AnalyzeContent:
  assumes "handler_ok h"
  shows "keeps (\<lambda>r. marked i name) (AnalyzeContent h c)"
  unfolding AnalyzeContent_def failQuotaBlockedAnalysis_def reserveAnalysis_def AssertAnalyze_def
  by (intro keeps_intros marks_withTx marks_analyze_and_render assms; (split content_status.split)?;
      intro conjI impI keeps_intros marks_withTx marks_analyze_and_render assms)

lemma marks_ToMembers [keeps_intros]: "keeps (\<lambda>r. marked_tx tx i name) (ToMembers entity action us payload)"
  and marks_ToUser [keeps_intros]: "keeps (\<lambda>r. marked_tx tx i name) (ToUser entity action payload u)"
proof -
  show u: "keeps (\<lambda>r. marked_tx tx i name) (ToUser entity action payload u)" for u
    unfolding ToUser_def PublishToUserInterest_def by (intro keeps_intros keeps_state) simp
  show "keeps (\<lambda>r. marked_tx tx i name) (ToMembers entity action us payload)"
    by (induction us) (auto intro: keeps_intros u)
qed

lemma marks_ExtractFrames: "keeps (\<lambda>r. marked i name) (ExtractFrames quota j)"
  unfolding ExtractFrames_def ensure_processing_def extract_and_store_def extract_fail_def resolveMaxFrames_def
    downloadToTemp_def store_frame_def new_content_def frames_tx_def save_frame_def save_media_def Let_def
  by (intro keeps_intros marks_withTx)

lemma marks_delete_each: "(\<And>k. keeps (\<lambda>r. marked_tx tx i name) (del k)) \<Longrightarrow> keeps (\<lambda>r. marked_tx tx i name) (delete_each del ks)"
  by (induction ks) (auto intro: keeps_intros)

lemma marks_activity_Insert [keeps_intros]: "keeps (\<lambda>r. marked_tx tx i name) (activity_Insert a)"
  unfolding activity_Insert_def
  by (intro keeps_intros keeps_state) (simp add: marked_set_db activity_insert_def)

lemma marks_reads [keeps_intros]:
  "keeps (\<lambda>r. marked_tx tx i name) (clientRead_FindByID j)" "keeps (\<lambda>r. marked_tx tx i name) (mediaRead_FindByID j)"
  "keeps (\<lambda>r. marked_tx tx i name) (userRead_FindByID j)"
  unfolding clientRead_FindByID_def mediaRead_FindByID_def userRead_FindByID_def by (intro keeps_intros)+

lemma marks_project [keeps_intros]: "keeps (\<lambda>r. marked_tx tx i name) (project_insert a)"
  "keeps (\<lambda>r. marked_tx tx i name) (media_filename j)" "keeps (\<lambda>r. marked_tx tx i name) undecodable"
  unfolding project_insert_def publishCreated_def media_filename_def undecodable_def by (intro keeps_intros)+

lemma marks_publish [keeps_intros]: "keeps (\<lambda>r. marked_tx tx i name) (publishToClientMembers entity action j e)"
  unfolding publishToClientMembers_def by (intro keeps_intros)

lemma keeps_marks_log: "keeps_marks e (log_only f)"
  by (auto simp: keeps_marks_def log_only_def intro: keeps_intros)

lemma keeps_marks_realtime:
  "keeps_marks e realtime_OnUploadRequested" "keeps_marks e realtime_OnUploaded"
  "keeps_marks e realtime_OnStatusChanged" "keeps_marks e realtime_OnVerdictRendered"
  "keeps_marks e realtime_OnMediaDeleted" "keeps_marks e realtime_OnContentVerdict"
  "keeps_marks e (campaign_realtime f a)" "keeps_marks e (user_realtime g a)"
  "keeps_marks e realtime_OnClientCreated" "keeps_marks e realtime_OnClientUpdated"
  "keeps_marks e realtime_OnClientDeleted" "keeps_marks e realtime_OnMemberAdded"
  "keeps_marks e realtime_OnMemberRemoved"
  unfolding keeps_marks_def realtime_defs
  by (auto split: domain_event.splits media_event.splits content_event.splits client_event.splits intro: keeps_intros)

lemma keeps_marks_projector:
  "keeps_marks e OnMediaVerdictRendered" "keeps_marks e OnMediaStatusChanged" "keeps_marks e OnCampaignCreated"
  "keeps_marks e OnClientMemberAdded"
  unfolding keeps_marks_def projector_defs
  by (auto simp: Let_def split: domain_event.splits media_event.splits campaign_event.splits client_event.splits
      option.splits intro!: keeps_intros)

lemma keeps_marks_delete: "keeps_marks e DeleteMediaObjects" "keeps_marks e DeleteCampaignObjects"
  unfolding keeps_marks_def DeleteMediaObjects_def DeleteCampaignObjects_def undecodable_def Let_def
  by (auto split: domain_event.splits media_event.splits campaign_event.splits
      intro!: keeps_intros marks_delete_each)

lemma keeps_marks_commands:
  "handler_ok h \<Longrightarrow> keeps_marks e (AnalyzeOnUploaded h)" "keeps_marks e (ExtractOnUploaded quota)"
  unfolding keeps_marks_def AnalyzeOnUploaded_def ExtractOnUploaded_def undecodable_def
  by (auto split: domain_event.splits media_event.splits content_event.splits
      intro!: keeps_intros marks_AnalyzeContent marks_ExtractFrames)

section \<open>Redelivery\<close>

definition wrapped :: "(string \<times> event_handler) list \<Rightarrow> event_handler list" where
  "wrapped hs = List.map (\<lambda>(name, h). with_dedup name h) hs"

lemma wrapped_simps [simp]: "wrapped [] = []" "wrapped ((name, h) # hs) = with_dedup name h # wrapped hs"
  "wrapped (xs @ ys) = wrapped xs @ wrapped ys"
  by (simp_all add: wrapped_def)

definition all_marked :: "uuid \<Rightarrow> string list \<Rightarrow> world \<Rightarrow> bool" where
  "all_marked i names w \<longleftrightarrow> idle w \<and> (\<forall>n \<in> set names. marked i n w)"

lemma all_marked_keeps: "all_marked i names w \<Longrightarrow> keeps_all i name w w' \<Longrightarrow> name \<notin> set names \<Longrightarrow> idle w' \<Longrightarrow> all_marked i names w'"
  by (auto simp: all_marked_def keeps_all_def)

text \<open>A run marks every handler it gets past, and keeps the marks of the ones before.\<close>

lemma wp_run_wrapped:
  fixes w :: world
  assumes "\<And>name h. (name, h) \<in> set hs \<Longrightarrow> keeps_marks e h" and "distinct (seen @ List.map fst hs)"
    and r: "honest_duplicates r" and "all_marked (EventID e) seen w"
  shows "wp (run_handlers t (Payload e) (wrapped hs)) (\<lambda>_. all_marked (EventID e) (seen @ List.map fst hs))
    (\<lambda>_ w'. \<exists>k < length hs. all_marked (EventID e) (seen @ List.map fst (take k hs)) w') r w"
  using assms(1,2,4)
proof (induction hs arbitrary: seen w)
  case Nil
  then show ?case by simp
next
  case (Cons nh hs)
  obtain name h where nh: "nh = (name, h)" by (cases nh)
  have h: "keeps_marks e h" using Cons.prems(1) [of name h] nh by simp
  have w: "idle w" using Cons.prems(3) by (simp add: all_marked_def)
  have new: "name \<notin> set seen" using Cons.prems(2) nh by simp
  have rest: "wp (run_handlers t (Payload e) (wrapped hs)) (\<lambda>_. all_marked (EventID e) (seen @ List.map fst (nh # hs)))
      (\<lambda>_ w'. \<exists>k < length (nh # hs). all_marked (EventID e) (seen @ List.map fst (take k (nh # hs))) w') r v"
    if "marked (EventID e) name v" "keeps_all (EventID e) name w v" for v
  proof -
    have v: "all_marked (EventID e) (seen @ [name]) v"
      using all_marked_keeps [OF Cons.prems(3) that(2) new] that(1) by (auto simp: all_marked_def marked_idle)
    show ?thesis
    proof (rule wp_mono [OF Cons.IH [OF _ _ v]], goal_cases)
      case (4 err w')
      then obtain k where "k < length hs" "all_marked (EventID e) ((seen @ [name]) @ List.map fst (take k hs)) w'" by blast
      then show ?case using nh by (intro exI [of _ "Suc k"]) simp
    qed (use Cons.prems nh in auto)
  qed
  show ?case
    unfolding nh wrapped_simps run_handlers.simps wp_then wp_mapErr
  proof (rule wp_mono [OF wp_with_dedup_marks [OF h r w]], goal_cases)
    case (1 a v)
    then show ?case using rest nh by blast
  next
    case (2 err v)
    then show ?case using all_marked_keeps [OF Cons.prems(3) _ new] by (intro exI [of _ 0]) auto
  qed
qed

text \<open>Marked handlers are passed over.\<close>

definition only_ticks :: "world \<Rightarrow> world \<Rightarrow> bool" where
  "only_ticks w w' \<longleftrightarrow> (\<exists>m. w' = w\<lparr>wd_tick := m\<rparr>)"

lemma only_ticks_intros [simp]: "only_ticks w w" "only_ticks w (w\<lparr>wd_tick := m\<rparr>)"
  by (auto simp: only_ticks_def intro: exI [of _ "wd_tick w"])

lemma only_ticks_from: "only_ticks (w\<lparr>wd_tick := n\<rparr>) w' \<Longrightarrow> only_ticks w w'"
  by (auto simp: only_ticks_def)

lemma wp_run_marked:
  fixes w :: world
  assumes "all_marked (EventID e) (List.map fst hs) w"
  shows "wp (run_handlers t (Payload e) (wrapped hs)) (\<lambda>_. only_ticks w) (\<lambda>_. only_ticks w) r w"
  using assms
proof (induction hs arbitrary: w)
  case Nil
  then show ?case by simp
next
  case (Cons nh hs)
  obtain name h where nh: "nh = (name, h)" by (cases nh)
  have m: "marked (EventID e) name w" using Cons.prems nh by (simp add: all_marked_def)
  have rest: "wp (run_handlers t (Payload e) (wrapped hs)) (\<lambda>_. only_ticks w)
      (\<lambda>_. only_ticks w) r (w\<lparr>wd_tick := n\<rparr>)" for n
    by (rule wp_mono [OF Cons.IH]) (use Cons.prems in \<open>auto simp: all_marked_def idle_def intro: only_ticks_from\<close>)
  show ?case
    unfolding nh wrapped_simps run_handlers.simps wp_then wp_mapErr
    by (rule wp_mono [OF wp_with_dedup_skips [OF m]]) (use rest in auto)
qed

section \<open>The registries\<close>

definition of_type :: "string \<Rightarrow> (string \<times> string \<times> event_handler) list \<Rightarrow> (string \<times> event_handler) list" where
  "of_type t hs = List.map snd (List.filter (\<lambda>x. fst x = t) hs)"

lemma register_all_handlers: "handlers_of (register_all hs) t = wrapped (of_type t hs)"
proof -
  have "handlers_of (fold (\<lambda>(t, name, h). Register t (with_dedup name h)) hs reg) t =
      handlers_of reg t @ wrapped (of_type t hs)" for reg
  proof (induction hs arbitrary: reg)
    case (Cons x hs)
    obtain t' name h where "x = (t', name, h)" by (cases x)
    then show ?case using Cons by (simp add: handlers_of_Register of_type_def)
  qed (simp add: of_type_def)
  then show ?thesis by (simp add: register_all_def handlers_of_def)
qed

lemma of_type_names: "distinct (handler_names hs) \<Longrightarrow> distinct (List.map fst (of_type t hs))"
  by (induction hs) (auto simp: handler_names_def of_type_def image_def)

definition registry_ok :: "(string \<times> string \<times> event_handler) list \<Rightarrow> bool" where
  "registry_ok hs \<longleftrightarrow> distinct (handler_names hs) \<and> (\<forall>e. \<forall>(t, name, h) \<in> set hs. keeps_marks e h)"

lemma registry_ok_of_type: "registry_ok hs \<Longrightarrow> (name, h) \<in> set (of_type t hs) \<Longrightarrow> keeps_marks e h"
  by (force simp: registry_ok_def of_type_def)

text \<open>After a delivery that succeeded the event is a no-op for ever; after one that failed, the handlers
  before the failing one are.\<close>

lemma wp_Dispatch_twice:
  fixes w :: world
  assumes "registry_ok hs" and "honest_duplicates r" and "idle w"
  shows "wp (Dispatch (register_all hs) t (Payload e))
    (\<lambda>_. all_marked (EventID e) (List.map fst (of_type t hs)))
    (\<lambda>_ w'. \<exists>k < length (of_type t hs). all_marked (EventID e) (List.map fst (take k (of_type t hs))) w') r w"
proof -
  have "all_marked (EventID e) [] w" using assms(3) by (simp add: all_marked_def)
  moreover have "distinct (List.map fst (of_type t hs))" using assms(1) of_type_names by (auto simp: registry_ok_def)
  ultimately show ?thesis
    using wp_run_wrapped [of "of_type t hs" e "[]" r w t] registry_ok_of_type [OF assms(1)] assms(2)
    by (simp add: Dispatch_run register_all_handlers)
qed

lemma wp_Dispatch_marked:
  fixes w :: world
  assumes "all_marked (EventID e) (List.map fst (of_type t hs)) w"
  shows "wp (Dispatch (register_all hs) t (Payload e)) (\<lambda>_. only_ticks w)
    (\<lambda>_. only_ticks w) r w"
  using wp_run_marked [OF assms] by (simp add: Dispatch_run register_all_handlers)

lemma worker_names: "distinct (handler_names (worker_handlers send))"
  by (simp add: handler_names_def worker_handlers_def)

lemma worker_registry_ok:
  assumes "\<And>i name u m. keeps (\<lambda>r. marked i name) (send u m)"
  shows "registry_ok (worker_handlers send)"
proof -
  have n: "keeps_marks e (NotifyUserOnCreated send)" for e
    unfolding keeps_marks_def NotifyUserOnCreated_def undecodable_def
    by (auto split: domain_event.splits user_event.splits intro!: keeps_intros assms)
  show ?thesis
    unfolding registry_ok_def
    by (simp only: worker_names) (simp add: worker_handlers_def log_defs keeps_marks_log keeps_marks_realtime
        keeps_marks_projector keeps_marks_delete n realtime_OnCampaignCreated_def realtime_OnCampaignUpdated_def
        realtime_OnCampaignDeleted_def realtime_OnBackgroundUpdated_def realtime_OnUserCreated_def
        realtime_OnUserUpdated_def realtime_OnUserDeleted_def realtime_OnCurrentClientChanged_def)
qed

lemma analysis_registry_ok: "handler_ok h \<Longrightarrow> registry_ok (analysis_handlers h)"
  by (simp add: registry_ok_def analysis_handlers_def handler_names_def keeps_marks_commands)

lemma frame_registry_ok: "registry_ok (frame_handlers quota)"
  by (simp add: registry_ok_def frame_handlers_def handler_names_def keeps_marks_commands)

end
