(* ===== verification/Steady.thy ===== *)
theory Steady
  imports Deduplication AccountInvariant BillingInvariant Soundness
begin

text \<open>
  Frames: an invariant that reads some tables is kept by whatever writes the others. A command is
  followed through its transactions, in which the working copy and the committed database both keep
  the invariant. The locales say which tables the invariant depends on; what writes other tables is
  proved once inside them, and the invariants of the accounts and of the verdicts are instances.
\<close>

section \<open>Inside and outside a transaction\<close>

lemma keeps_bool [keeps_intros]: "(x \<Longrightarrow> keeps I c) \<Longrightarrow> (\<not> x \<Longrightarrow> keeps I d) \<Longrightarrow> keeps I (case x of True \<Rightarrow> c | False \<Rightarrow> d)"
  by (cases x) auto

lemma keeps_list [keeps_intros]:
  "(x = [] \<Longrightarrow> keeps I c) \<Longrightarrow> (\<And>y ys. x = y # ys \<Longrightarrow> keeps I (f y ys)) \<Longrightarrow> keeps I (case x of [] \<Rightarrow> c | y # ys \<Rightarrow> f y ys)"
  by (cases x) auto

lemma keeps_media_type [keeps_intros]:
  "(x = MediaTypeImage \<Longrightarrow> keeps I c) \<Longrightarrow> (x = MediaTypeVideo \<Longrightarrow> keeps I d) \<Longrightarrow>
    keeps I (case x of MediaTypeImage \<Rightarrow> c | MediaTypeVideo \<Rightarrow> d)"
  by (cases x) auto

definition steady :: "bool \<Rightarrow> (db \<Rightarrow> bool) \<Rightarrow> world \<Rightarrow> bool" where
  "steady tx I w \<longleftrightarrow> wd_tx w = tx \<and> I (wd_db w) \<and> I (wd_committed w) \<and> (\<not> tx \<longrightarrow> wd_db w = wd_committed w)"

lemma holds_steady: "holds I = steady False I"
  by (auto simp: steady_def holds_def idle_def fun_eq_iff)

lemma steady_steps [simp]:
  "steady tx I (w\<lparr>wd_tick := n\<rparr>) = steady tx I w" "steady tx I (w\<lparr>wd_locks := l\<rparr>) = steady tx I w"
  "steady tx I (w\<lparr>wd_objects := b\<rparr>) = steady tx I w" "steady tx I (w\<lparr>wd_thumbnails := b\<rparr>) = steady tx I w"
  "steady tx I (w\<lparr>wd_realtime := m\<rparr>) = steady tx I w" "steady tx I (w\<lparr>wd_published := p\<rparr>) = steady tx I w"
  "steady tx I (w\<lparr>wd_dlq := q\<rparr>) = steady tx I w" "steady tx I (w\<lparr>wd_rulesets := s\<rparr>) = steady tx I w"
  by (simp_all add: steady_def)

lemma steady_calls [keeps_intros]:
  "keeps (\<lambda>r. steady tx I) nowC" "keeps (\<lambda>r. steady tx I) uuidC" "keeps (\<lambda>r. steady tx I) callC"
  "keeps (\<lambda>r. steady tx I) (dbRead g)" "keeps (\<lambda>r. steady tx I) (poolRead g)"
  by (intro keeps_now keeps_uuid keeps_call keeps_dbRead keeps_poolRead; simp)+

lemma steady_readonly: "readonly c \<Longrightarrow> keeps (\<lambda>r. steady tx I) c"
  unfolding keeps_def using readonlyD [of c] by (metis steady_steps(1))

lemma steady_quiet: "quiet c \<Longrightarrow> keeps (\<lambda>r. steady tx I) c"
  unfolding keeps_def quiet_def by (metis steady_steps(1,8))

lemmas steady_guards [keeps_intros] = readonly_guards [THEN steady_readonly] readonly_GetQuotaUsage [THEN steady_readonly]

lemma steady_write: "(\<And>d d'. I d \<Longrightarrow> f d = Inr d' \<Longrightarrow> I d') \<Longrightarrow> keeps (\<lambda>r. steady tx I) (dbWrite f)"
  by (intro keeps_dbWrite) (auto simp: steady_def set_db_def)

lemma steady_storage [keeps_intros]:
  "keeps (\<lambda>r. steady tx I) (storage_Get key)" "keeps (\<lambda>r. steady tx I) (storage_Put key b)"
  "keeps (\<lambda>r. steady tx I) (storage_PutThumbnail key b)" "keeps (\<lambda>r. steady tx I) (storage_Delete key)"
  "keeps (\<lambda>r. steady tx I) (storage_DeleteThumbnail key)" "keeps (\<lambda>r. steady tx I) (Lock ws)"
  "keeps (\<lambda>r. steady tx I) (GenerateJPEG raw n)" "keeps (\<lambda>r. steady tx I) (PresignedPutURL key)"
  unfolding storage_Get_def storage_Put_def storage_PutThumbnail_def storage_Delete_def storage_DeleteThumbnail_def
    Lock_def GenerateJPEG_def PresignedPutURL_def
  by (intro keeps_intros keeps_state; simp split: option.splits)+

lemma steady_withTx [keeps_intros]:
  assumes "keeps (\<lambda>r. steady True I) c"
  shows "keeps (\<lambda>r. steady False I) (withTx c)"
  unfolding keeps_wp
proof (intro allI impI)
  fix r w assume "steady False I w"
  then have "steady True I (beginTx w)" by (auto simp: steady_def beginTx_def)
  then have "wp c (\<lambda>_. steady True I) (\<lambda>_. steady True I) r (beginTx w)"
    using assms by (simp add: keeps_wp)
  then show "wp (withTx c) (\<lambda>_. steady False I) (\<lambda>_. steady False I) r w"
    unfolding wp_withTx by (rule wp_mono) (auto simp: steady_def commitTx_def rollbackTx_def)
qed

text \<open>The reads of the repositories.\<close>

lemma steady_reads [keeps_intros]:
  "keeps (\<lambda>r. steady tx I) (media_GetByID i)"
  "keeps (\<lambda>r. steady tx I) (media_GetByObjectKey k)"
  "keeps (\<lambda>r. steady tx I) (ListProcessingUpdatedBefore t n)"
  "keeps (\<lambda>r. steady tx I) (ListActiveByCampaignID i)"
  "keeps (\<lambda>r. steady tx I) (content_GetByID i)"
  "keeps (\<lambda>r. steady tx I) (content_GetByObjectKey k)"
  "keeps (\<lambda>r. steady tx I) (ListByMediaID i)"
  "keeps (\<lambda>r. steady tx I) (FindByContentID i)"
  "keeps (\<lambda>r. steady tx I) (campaign_GetByID i)"
  "keeps (\<lambda>r. steady tx I) (campaign_GetByIDForUpdate i)"
  "keeps (\<lambda>r. steady tx I) (GetDefaultByClientID i)"
  "keeps (\<lambda>r. steady tx I) (GetByBackgroundPendingKey k)"
  "keeps (\<lambda>r. steady tx I) (client_GetByID i)"
  "keeps (\<lambda>r. steady tx I) (user_GetByID i)"
  "keeps (\<lambda>r. steady tx I) (user_GetByClerkID k)"
  "keeps (\<lambda>r. steady tx I) (workspace_GetByID i)"
  "keeps (\<lambda>r. steady tx I) (workspace_GetByOwnerUserID i)"
  "keeps (\<lambda>r. steady tx I) (workspace_GetBySubscriptionID i)"
  "keeps (\<lambda>r. steady tx I) (workspace_GetByStripeCustomerID k)"
  "keeps (\<lambda>r. steady tx I) (subscription_GetByID i)"
  "keeps (\<lambda>r. steady tx I) (GetByStripeSubscriptionID k)"
  "keeps (\<lambda>r. steady tx I) (GetByStripeCustomerID k)"
  "keeps (\<lambda>r. steady tx I) (plan_GetByID i)"
  "keeps (\<lambda>r. steady tx I) (plan_GetBySlug k)"
  "keeps (\<lambda>r. steady tx I) (plan_GetByStripePriceID k)"
  "keeps (\<lambda>r. steady tx I) (GetByStripeInvoiceID k)"
  "keeps (\<lambda>r. steady tx I) (FetchUnpublished n)"
  "keeps (\<lambda>r. steady tx I) (clientRead_FindByID i)"
  "keeps (\<lambda>r. steady tx I) (workspaceRead_FindByID i)"
  "keeps (\<lambda>r. steady tx I) (subscriptionRead_FindByID i)"
  "keeps (\<lambda>r. steady tx I) (planRead_FindByID i)"
  "keeps (\<lambda>r. steady tx I) (mediaRead_FindByID i)"
  "keeps (\<lambda>r. steady tx I) (userRead_FindByID i)"
  "keeps (\<lambda>r. steady tx I) (findSubscriptionByStripeIDs k k')"
  unfolding media_GetByID_def media_GetByObjectKey_def ListProcessingUpdatedBefore_def ListActiveByCampaignID_def
    content_GetByID_def content_GetByObjectKey_def ListByMediaID_def FindByContentID_def campaign_GetByID_def
    campaign_GetByIDForUpdate_def GetDefaultByClientID_def GetByBackgroundPendingKey_def client_GetByID_def
    user_GetByID_def user_GetByClerkID_def workspace_GetByID_def workspace_GetByOwnerUserID_def
    workspace_GetBySubscriptionID_def workspace_GetByStripeCustomerID_def subscription_GetByID_def
    GetByStripeSubscriptionID_def GetByStripeCustomerID_def plan_GetByID_def plan_GetBySlug_def
    plan_GetByStripePriceID_def GetByStripeInvoiceID_def FetchUnpublished_def clientRead_FindByID_def
    workspaceRead_FindByID_def subscriptionRead_FindByID_def planRead_FindByID_def mediaRead_FindByID_def
    userRead_FindByID_def findSubscriptionByStripeIDs_def toPlanViewWithQuota_def
  by (intro keeps_intros)+

section \<open>Messages and announcements\<close>

lemma steady_ToUser [keeps_intros]: "keeps (\<lambda>r. steady tx I) (ToUser entity action payload u)"
  unfolding ToUser_def PublishToUserInterest_def by (intro keeps_intros keeps_state) simp

lemma steady_ToMembers [keeps_intros]: "keeps (\<lambda>r. steady tx I) (ToMembers entity action us payload)"
  by (induction us) (auto intro: keeps_intros)

lemma steady_publish [keeps_intros]: "keeps (\<lambda>r. steady tx I) (publishToClientMembers entity action j e)"
  "keeps (\<lambda>r. steady tx I) (media_filename j)" "keeps (\<lambda>r. steady tx I) undecodable"
  unfolding publishToClientMembers_def media_filename_def undecodable_def by (intro keeps_intros)+

lemma steady_delete_each: "(\<And>k. keeps (\<lambda>r. steady tx I) (del k)) \<Longrightarrow> keeps (\<lambda>r. steady tx I) (delete_each del ks)"
  by (induction ks) (auto intro: keeps_intros)

text \<open>A handler of events that keeps the invariant, whatever it is given.\<close>

definition steady_handler :: "(db \<Rightarrow> bool) \<Rightarrow> event_handler \<Rightarrow> bool" where
  "steady_handler I h \<longleftrightarrow> (\<forall>e. keeps (\<lambda>r. steady False I) (h (Payload e)))"

lemma steady_handler_log: "steady_handler I (log_only f)"
  by (auto simp: steady_handler_def log_only_def intro: keeps_intros)

lemma steady_handler_realtime:
  "steady_handler I realtime_OnUploadRequested" "steady_handler I realtime_OnUploaded"
  "steady_handler I realtime_OnStatusChanged" "steady_handler I realtime_OnVerdictRendered"
  "steady_handler I realtime_OnMediaDeleted" "steady_handler I realtime_OnContentVerdict"
  "steady_handler I (campaign_realtime f a)" "steady_handler I (user_realtime g a)"
  "steady_handler I realtime_OnClientCreated" "steady_handler I realtime_OnClientUpdated"
  "steady_handler I realtime_OnClientDeleted" "steady_handler I realtime_OnMemberAdded"
  "steady_handler I realtime_OnMemberRemoved"
  unfolding steady_handler_def realtime_defs
  by (auto split: domain_event.splits media_event.splits content_event.splits client_event.splits intro: keeps_intros)

lemmas realtime_named = realtime_OnCampaignCreated_def realtime_OnCampaignUpdated_def realtime_OnCampaignDeleted_def
  realtime_OnBackgroundUpdated_def realtime_OnUserCreated_def realtime_OnUserUpdated_def realtime_OnUserDeleted_def
  realtime_OnCurrentClientChanged_def

lemma steady_handler_delete: "steady_handler I DeleteMediaObjects" "steady_handler I DeleteCampaignObjects"
  unfolding steady_handler_def DeleteMediaObjects_def DeleteCampaignObjects_def undecodable_def Let_def
  by (auto split: domain_event.splits media_event.splits campaign_event.splits
      intro!: keeps_intros steady_delete_each)

lemma steady_handler_notify:
  assumes "\<And>u m. keeps (\<lambda>r. steady False I) (send u m)"
  shows "steady_handler I (NotifyUserOnCreated send)"
  unfolding steady_handler_def NotifyUserOnCreated_def
  by (auto split: domain_event.splits user_event.splits intro!: keeps_intros assms)

lemma steady_publish_loop: "keeps (\<lambda>r. steady tx I) (publish_loop ms ids)"
  by (induction ms arbitrary: ids) (auto simp: Publish_def intro!: keeps_intros keeps_state)

lemma steady_sendToDLQ [keeps_intros]: "keeps (\<lambda>r. steady tx I) (sendToDLQ m reason)"
  unfolding keeps_def sendToDLQ_run by simp

section \<open>What no invariant here depends on\<close>

locale frame =
  fixes I :: "db \<Rightarrow> bool"
  assumes same_tables: "I d \<Longrightarrow> t_media d' = t_media d \<Longrightarrow> t_contents d' = t_contents d \<Longrightarrow> t_users d' = t_users d \<Longrightarrow>
    t_clients d' = t_clients d \<Longrightarrow> t_user_clients d' = t_user_clients d \<Longrightarrow> t_campaigns d' = t_campaigns d \<Longrightarrow> I d'"
begin

lemma stays:
  assumes "\<And>d d'. f d = Inr d' \<Longrightarrow> t_media d' = t_media d \<and> t_contents d' = t_contents d \<and> t_users d' = t_users d \<and>
    t_clients d' = t_clients d \<and> t_user_clients d' = t_user_clients d \<and> t_campaigns d' = t_campaigns d"
  shows "keeps (\<lambda>r. steady tx I) (dbWrite f)"
  by (rule steady_write) (metis assms same_tables)

lemma repositories [keeps_intros]:
  "keeps (\<lambda>r. steady tx I) (StoreEvents es)" "keeps (\<lambda>r. steady tx I) (result_Upsert x)"
  "keeps (\<lambda>r. steady tx I) (workspace_Save v)" "keeps (\<lambda>r. steady tx I) (workspace_Update v)"
  "keeps (\<lambda>r. steady tx I) (subscription_Save s)" "keeps (\<lambda>r. steady tx I) (subscription_Update s)"
  "keeps (\<lambda>r. steady tx I) (UpsertByStripeInvoiceID iv)" "keeps (\<lambda>r. steady tx I) (MarkPublished ids)"
  "keeps (\<lambda>r. steady tx I) (MarkProcessed e name)" "keeps (\<lambda>r. steady tx I) (UnmarkProcessed e name)"
  unfolding StoreEvents_def result_Upsert_def workspace_Save_def workspace_Update_def subscription_Save_def
    subscription_Update_def UpsertByStripeInvoiceID_def GetByStripeInvoiceID_def MarkPublished_def MarkProcessed_def UnmarkProcessed_def
  by (intro keeps_intros stays; auto simp: outbox_put_def results_upsert_def workspace_put_def subscription_put_def
      outbox_mark_def split: if_splits sum.splits)+

subsection \<open>Billing\<close>

lemma reports [keeps_intros]:
  "keeps (\<lambda>r. steady False I) (InvoicePaymentFailedHandler a b)"
  "keeps (\<lambda>r. steady False I) (InvoicePaymentSucceededHandler a b ps pe)"
  "keeps (\<lambda>r. steady False I) (PaymentMethodExpiring e a b br l m y)"
  "keeps (\<lambda>r. steady False I) (SubscriptionRenewalUpcomingHandler e a b n cu pe)"
  "keeps (\<lambda>r. steady False I) (SubscriptionDeletedHandler a)"
  "keeps (\<lambda>r. steady False I) (SubscriptionUpdatedHandler sd)"
  unfolding InvoicePaymentFailedHandler_def InvoicePaymentSucceededHandler_def PaymentMethodExpiring_def
    SubscriptionRenewalUpcomingHandler_def SubscriptionDeletedHandler_def SubscriptionUpdatedHandler_def
    save_subscription_def apply_update_def
  by (intro keeps_intros)+

lemma invoices [keeps_intros]: "keeps (\<lambda>r. steady False I) (UpsertInvoice cmd)"
  unfolding UpsertInvoice_def resolveOwner_def snapshot_def raise_payment_def
  by (intro keeps_intros)

lemma checkout [keeps_intros]:
  assumes "gateway_quiet g"
  shows "keeps (\<lambda>r. steady False I) (CheckoutCompleted g i cu sub)"
proof -
  have "keeps (\<lambda>r. steady tx I) (sg_Retrieve g j)" "keeps (\<lambda>r. steady tx I) (sg_RetrieveLatestInvoice g j)" for j tx
    using assms by (auto simp: gateway_quiet_def intro: steady_readonly)
  then show ?thesis
    unfolding CheckoutCompleted_def checkout_tx_def syncLatestInvoice_def was_free_def linked_subscription_def
      apply_update_def Let_def
    by (intro keeps_intros)
qed

lemma plan_change [keeps_intros]:
  assumes "gateway_quiet g" "\<And>c. readonly (fetchEmail c)" "\<And>q. readonly (checkout q)"
  shows "keeps (\<lambda>r. steady False I) (CreateSubscription g fetchEmail checkout ws u p d)"
proof -
  have "keeps (\<lambda>r. steady tx I) (sg_Retrieve g j)" "keeps (\<lambda>r. steady tx I) (sg_UpdatePrice g a b c e)" for j a b c e tx
    using assms by (auto simp: gateway_quiet_def intro: steady_readonly)
  moreover have "keeps (\<lambda>r. steady tx I) (fetchEmail c)" "keeps (\<lambda>r. steady tx I) (checkout q)" for c q tx
    using assms by (auto intro: steady_readonly)
  ultimately show ?thesis
    unfolding CreateSubscription_def updateExistingSubscription_def current_subscription_def apply_update_def
    by (intro keeps_intros)
qed

subsection \<open>Events\<close>

lemma activities [keeps_intros]: "keeps (\<lambda>r. steady tx I) (activity_Insert a)"
  unfolding activity_Insert_def
  by (intro keeps_intros keeps_state) (auto simp: steady_def set_db_def activity_insert_def elim: same_tables)

lemma projector: "steady_handler I OnMediaVerdictRendered" "steady_handler I OnMediaStatusChanged"
  "steady_handler I OnCampaignCreated" "steady_handler I OnClientMemberAdded"
  unfolding steady_handler_def projector_defs project_insert_def publishCreated_def
  by (auto simp: Let_def split: domain_event.splits media_event.splits campaign_event.splits client_event.splits
      option.splits intro!: keeps_intros)

lemma dedup: "steady_handler I h \<Longrightarrow> keeps (\<lambda>r. steady False I) (with_dedup name h p)"
  unfolding with_dedup_def by (cases p) (auto simp: steady_handler_def intro!: keeps_intros)

lemma run_wrapped:
  "(\<And>name h. (name, h) \<in> set hs \<Longrightarrow> steady_handler I h) \<Longrightarrow> keeps (\<lambda>r. steady False I) (run_handlers t p (wrapped hs))"
proof (induction hs)
  case Nil
  then show ?case by (simp add: keeps_return)
next
  case (Cons nh hs)
  obtain name h where nh: "nh = (name, h)" by (cases nh)
  have "keeps (\<lambda>r. steady False I) (with_dedup name h p)" using Cons.prems [of name h] nh by (simp add: dedup)
  then show ?case unfolding nh wrapped_simps run_handlers.simps using Cons.IH Cons.prems nh by (intro keeps_intros) auto
qed

lemma delivery:
  assumes "\<And>t name h. (t, name, h) \<in> set hs \<Longrightarrow> steady_handler I h" and "co_registry c = register_all hs"
  shows "keeps (\<lambda>r. steady False I) (handleDelivery c m)"
proof -
  have "keeps (\<lambda>r. steady False I) (Dispatch (co_registry c) t p)" for t p
    unfolding Dispatch_run assms(2) register_all_handlers
    by (rule run_wrapped) (use assms(1) in \<open>auto simp: of_type_def\<close>)
  then show ?thesis unfolding handleDelivery_def by (intro keeps_intros)
qed

lemma relay [keeps_intros]: "keeps (\<lambda>r. steady False I) (publishBatch n)"
  unfolding publishBatch_def by (intro keeps_intros steady_publish_loop)

lemma workers:
  assumes "\<And>u m. keeps (\<lambda>r. steady False I) (send u m)" and "co_registry c = register_all (worker_handlers send)"
  shows "keeps (\<lambda>r. steady False I) (handleDelivery c m)"
proof (rule delivery [OF _ assms(2)])
  have "\<forall>(t, name, h) \<in> set (worker_handlers send). steady_handler I h"
    by (simp add: worker_handlers_def log_defs realtime_named steady_handler_log steady_handler_realtime
        steady_handler_delete steady_handler_notify assms(1) projector)
  then show "steady_handler I h" if "(t, name, h) \<in> set (worker_handlers send)" for t name h using that by blast
qed

end

end
