(* ===== verification/SteadyCommands.thy ===== *)
theory SteadyCommands
  imports Steady
begin

text \<open>
  The commands as seen by an invariant: those on clients, users and campaigns keep what depends on
  medias and contents alone, and those on medias keep what depends on clients, users and campaigns
  alone. The verdicts and the accounts are such invariants; the two meet in the deletions, which take
  the medias of a client or a campaign along.
\<close>

section \<open>Invariants of medias and contents\<close>

locale media_frame =
  fixes I :: "db \<Rightarrow> bool"
  assumes same_medias: "I d \<Longrightarrow> t_media d' = t_media d \<Longrightarrow> t_contents d' = t_contents d \<Longrightarrow> I d'"

sublocale media_frame \<subseteq> base: frame I
  by unfold_locales (rule same_medias)

context media_frame begin

lemma stays:
  assumes "\<And>d d'. f d = Inr d' \<Longrightarrow> t_media d' = t_media d \<and> t_contents d' = t_contents d"
  shows "keeps (\<lambda>r. steady tx I) (dbWrite f)"
  by (rule steady_write) (metis assms same_medias)

lemma repositories [keeps_intros]:
  "keeps (\<lambda>r. steady tx I) (user_Save u)" "keeps (\<lambda>r. steady tx I) (user_Update u)"
  "keeps (\<lambda>r. steady tx I) (client_Save c)" "keeps (\<lambda>r. steady tx I) (client_Update c)"
  "keeps (\<lambda>r. steady tx I) (campaign_Save v)" "keeps (\<lambda>r. steady tx I) (campaign_Update v)"
  unfolding user_Save_def user_Update_def client_Save_def client_Update_def ReplaceMembers_def campaign_Save_def campaign_Update_def
  by (intro keeps_intros stays; auto simp: user_put_def campaign_put_def campaign_insert_def drop_members_def add_members_def
      Let_def split: if_splits sum.splits)+

lemma campaign_commands [keeps_intros]:
  "keeps (\<lambda>r. steady False I) (CreateCampaign quota name c s e)" "keeps (\<lambda>r. steady False I) (UpdateCampaign i name s e)"
  "keeps (\<lambda>r. steady False I) (PresignBackground i c file ct)" "keeps (\<lambda>r. steady False I) (ClearBackground i c)"
  "keeps (\<lambda>r. steady False I) (ProcessBackgroundUpload key ct sz)"
  unfolding CreateCampaign_def UpdateCampaign_def PresignBackground_def ClearBackground_def ProcessBackgroundUpload_def
    background_fail_def background_ready_def Let_def
  by (intro keeps_intros)+

lemma account_commands [keeps_intros]:
  "keeps (\<lambda>r. steady False I) (CreateClient name u)" "keeps (\<lambda>r. steady False I) (UpdateClient i name)"
  "keeps (\<lambda>r. steady False I) (AddClientMember quota i u a)" "keeps (\<lambda>r. steady False I) (RemoveClientMember i u)"
  "keeps (\<lambda>r. steady False I) (CreateUser k fn sn em b)" "keeps (\<lambda>r. steady False I) (UpdateUser v fn sn em b)"
  "keeps (\<lambda>r. steady False I) (SetCurrentClientOf u i)"
  unfolding CreateClient_def UpdateClient_def AddClientMember_def RemoveClientMember_def CreateUser_def UpdateUser_def
    SetCurrentClientOf_def new_client_def default_campaign_def free_subscription_def Let_def
  by (intro keeps_intros)+

end

section \<open>Invariants of clients, users and campaigns\<close>

locale account_frame =
  fixes I :: "db \<Rightarrow> bool"
  assumes same_accounts: "I d \<Longrightarrow> t_users d' = t_users d \<Longrightarrow> t_clients d' = t_clients d \<Longrightarrow>
    t_user_clients d' = t_user_clients d \<Longrightarrow> t_campaigns d' = t_campaigns d \<Longrightarrow> I d'"

sublocale account_frame \<subseteq> base: frame I
  by unfold_locales (rule same_accounts)

context account_frame begin

lemma stays:
  assumes "\<And>d d'. f d = Inr d' \<Longrightarrow> t_users d' = t_users d \<and> t_clients d' = t_clients d \<and>
    t_user_clients d' = t_user_clients d \<and> t_campaigns d' = t_campaigns d"
  shows "keeps (\<lambda>r. steady tx I) (dbWrite f)"
  by (rule steady_write) (metis assms same_accounts)

lemma repositories [keeps_intros]:
  "keeps (\<lambda>r. steady tx I) (media_Save m)" "keeps (\<lambda>r. steady tx I) (media_Update m)"
  "keeps (\<lambda>r. steady tx I) (content_Save c)" "keeps (\<lambda>r. steady tx I) (content_Update c)"
  unfolding media_Save_def media_Update_def content_Save_def content_Update_def
  by (intro keeps_intros stays; auto simp: media_put_def media_insert_def content_put_def content_insert_def
      split: if_splits sum.splits)+

lemma upload_commands [keeps_intros]:
  "keeps (\<lambda>r. steady False I) (PresignMedia quota cp c files)" "keeps (\<lambda>r. steady False I) (ProcessUpload quota key ct sz)"
  unfolding PresignMedia_def ProcessUpload_def normalize_file_def resolveCampaign_def create_upload_def presign_tx_def
    presign_item_of_def process_fail_def accept_upload_def new_content_def image_tx_def handleImage_def handleVideo_def
    announced_quota_def stored_quota_def process_stored_def Let_def
  by (intro keeps_intros)+

lemma frame_commands [keeps_intros]:
  "keeps (\<lambda>r. steady False I) (ExtractFrames quota i)" "keeps (\<lambda>r. steady False I) (RecoverStale h now)"
  unfolding ExtractFrames_def ensure_processing_def extract_and_store_def extract_fail_def resolveMaxFrames_def
    downloadToTemp_def store_frame_def new_content_def frames_tx_def save_frame_def save_media_def
    RecoverStale_def recover_one_def requeueMedia_def requeue_content_def
    recover_failMedia_def fail_content_def fail_stale_def Let_def
  by (intro keeps_intros)+

lemma detectors: "\<forall>d \<in> set ds. detector_quiet d \<Longrightarrow> keeps (\<lambda>r. steady tx I) (runDetectors c err ds)"
proof (induction ds arbitrary: err)
  case Nil
  show ?case unfolding runDetectors.simps by (intro keeps_intros)
next
  case (Cons d ds)
  have "keeps (\<lambda>r. steady tx I) (storeOutcome c d started oc)" for started oc
    unfolding storeOutcome_def Let_def using Cons.prems
    by (intro keeps_intros steady_quiet) (auto simp: detector_quiet_def)
  moreover have "keeps (\<lambda>r. steady tx I) (det_Analyze d x j key)" for x j key
    using Cons.prems by (intro steady_quiet) (simp add: detector_quiet_def)
  ultimately have "keeps (\<lambda>r. steady tx I) (runDetector c x d)" for x
    unfolding runDetector_def by (intro keeps_intros)
  then show ?case unfolding runDetectors.simps using Cons by (intro keeps_intros) auto
qed

lemma finalize [keeps_intros]: "keeps (\<lambda>r. steady False I) (tryFinalizeMedia i)"
  unfolding tryFinalizeMedia_def by (intro keeps_intros)

lemma verdict:
  assumes "handler_ok h"
  shows "keeps (\<lambda>r. steady False I) (analyze_and_render h c)"
  unfolding analyze_and_render_def renderVerdictTx_def Let_def
proof (rule keeps_bind_value, goal_cases)
  case 1
  show ?case by (rule steady_readonly [OF readonly_selectDetectors])
next
  case (2 r w ds)
  then have "set (ah_schedule h ds) \<subseteq> set (ah_detectors h)"
    using selectDetectors_subset assms by (metis handler_ok_def mset_eq_setD)
  then have "\<forall>d \<in> set (ah_schedule h ds). detector_quiet d" using assms by (auto simp: handler_ok_def)
  then show ?case by (intro keeps_intros detectors)
qed

lemma analysis [keeps_intros]:
  assumes "handler_ok h"
  shows "keeps (\<lambda>r. steady False I) (AnalyzeContent h c)"
  unfolding AnalyzeContent_def failQuotaBlockedAnalysis_def reserveAnalysis_def AssertAnalyze_def
  by (intro keeps_intros verdict assms; (split content_status.split)?; intro conjI impI keeps_intros verdict assms)

end

end
