(* ===== verification/Served.thy ===== *)
theory Served
  imports Routes SteadyCommands
begin

text \<open>
  What the server does to an invariant of the database: the handlers keep what the commands keep. The
  locale lists the commands the handlers call; the queries, the middlewares and the routing are
  followed once inside it.
\<close>

section \<open>Requests\<close>

lemma steady_respond [keeps_intros]: "keeps (\<lambda>r. steady tx I) (respond st b)"
  unfolding respond_def by (intro keeps_intros)

lemma steady_status [keeps_intros]: "keeps (\<lambda>r. steady tx I) c \<Longrightarrow> keeps (\<lambda>r. steady tx I) (status c)"
  unfolding status_def by (intro keeps_intros)

lemma steady_request [keeps_intros]:
  "(\<And>u. keeps (\<lambda>r. steady tx I) (f u)) \<Longrightarrow> keeps (\<lambda>r. steady tx I) (with_user rq f)"
  "(\<And>i. keeps (\<lambda>r. steady tx I) (g i)) \<Longrightarrow> keeps (\<lambda>r. steady tx I) (with_client rq g)"
  "(\<And>b. keeps (\<lambda>r. steady tx I) (h b)) \<Longrightarrow> keeps (\<lambda>r. steady tx I) (BindBody rq valid h)"
  "(\<And>q. keeps (\<lambda>r. steady tx I) (p q)) \<Longrightarrow> keeps (\<lambda>r. steady tx I) (with_page rq p)"
  "keeps (\<lambda>r. steady tx I) bad \<Longrightarrow> (\<And>i. keeps (\<lambda>r. steady tx I) (k i)) \<Longrightarrow> keeps (\<lambda>r. steady tx I) (with_uuid lb raw bad k)"
  "(\<And>x. keeps (\<lambda>r. steady tx I) (x1 x)) \<Longrightarrow> keeps (\<lambda>r. steady tx I) (with_filter m field parsed x1)"
  "(\<And>x. keeps (\<lambda>r. steady tx I) (x2 x)) \<Longrightarrow> keeps (\<lambda>r. steady tx I) (with_period parsed' x2)"
  by (auto simp: with_user_def BindBody_def with_uuid_def with_page_def with_client_def with_filter_def with_period_def steady_respond split: sum.splits option.splits)

lemma keeps_chosen [keeps_intros]:
  "(b \<Longrightarrow> keeps I (f h)) \<Longrightarrow> (\<not> b \<Longrightarrow> keeps I (g h)) \<Longrightarrow> keeps I ((if b then f else g) h)"
  by simp

lemma steady_quota_error [keeps_intros]: "keeps (\<lambda>r. steady tx I) f \<Longrightarrow> keeps (\<lambda>r. steady tx I) (or_quota e f)"
  by (simp add: or_quota_def respondQuotaError_def steady_respond)

section \<open>Queries\<close>

lemma steady_load_members [keeps_intros]: "keeps (\<lambda>r. steady tx I) (load_members rows)"
  by (induction rows) (auto intro: keeps_intros)

lemma steady_queries [keeps_intros]:
  "keeps (\<lambda>r. steady tx I) (GetUserByID i)" "keeps (\<lambda>r. steady tx I) (GetClientByID i)"
  "keeps (\<lambda>r. steady tx I) (GetCampaignByID i)" "keeps (\<lambda>r. steady tx I) (ListClientsByUser coll i q)"
  "keeps (\<lambda>r. steady tx I) (ListCampaignsByClient coll i q)" "keeps (\<lambda>r. steady tx I) ListActivePlans"
  "keeps (\<lambda>r. steady tx I) (ListInvoices coll i q)" "keeps (\<lambda>r. steady tx I) (GetMediaByID i c)"
  "keeps (\<lambda>r. steady tx I) (ListMediaByClient coll c f q)" "keeps (\<lambda>r. steady tx I) (GetMediaStats c cp from' to')"
  "keeps (\<lambda>r. steady tx I) (ListActivitiesByClient c cps f1 t1 q)" "keeps (\<lambda>r. steady tx I) (GetCurrentSubscription ws)"
  "keeps (\<lambda>r. steady tx I) (storage_GetThumbnail key)" "keeps (\<lambda>r. steady tx I) (NewConnectionInfo sign i)"
  "keeps (\<lambda>r. steady tx I) (GetUserByExternalID k)"
  unfolding GetUserByID_def GetClientByID_def GetCampaignByID_def ListClientsByUser_def ListCampaignsByClient_def
    ListActivePlans_def ListInvoices_def GetMediaByID_def ListMediaByClient_def GetMediaStats_def ListActivitiesByClient_def
    GetCurrentSubscription_def storage_GetThumbnail_def NewConnectionInfo_def GetUserByExternalID_def
    campaignRead_FindByID_def campaignRead_FindByIDs_def attach_one_def attachContentCounts_def clientRead_FindPageByUserID_def
    campaignRead_FindPageByClientID_def FindActive_def toPlanViewsWithQuota_def FindInvoicesByWorkspaceID_def
    FindContentsByMediaID_def mediaRead_FindPageByClientID_def check_campaigns_def CountStatsByClientID_def
    countDashboardKPIs_def activityRead_FindPageByClientID_def Let_def
  by (intro keeps_intros; (rule keeps_state, simp split: option.split)?)+

section \<open>The commands behind the handlers\<close>

text \<open>The services of a deployment talk to the outside and leave the database alone.\<close>

definition deployment_quiet :: "deployment \<Rightarrow> bool" where
  "deployment_quiet dp \<longleftrightarrow> gateway_quiet (dp_Gateway dp) \<and> (\<forall>c. readonly (dp_Fetch dp c)) \<and>
     (\<forall>q. readonly (dp_Checkout dp q)) \<and> (\<forall>c. readonly (dp_Portal dp c))"

locale kept_by_commands =
  fixes I :: "db \<Rightarrow> bool"
  assumes clients: "keeps (\<lambda>r. steady False I) (CreateClient name u)" "keeps (\<lambda>r. steady False I) (UpdateClient i name)"
      "keeps (\<lambda>r. steady False I) (DeleteClient i)" "keeps (\<lambda>r. steady False I) (AddClientMember quota i u a)"
      "keeps (\<lambda>r. steady False I) (RemoveClientMember i u)"
    and users: "keeps (\<lambda>r. steady False I) (CreateUser k fn sn em b)" "keeps (\<lambda>r. steady False I) (webhook_updateUser kd)"
      "keeps (\<lambda>r. steady False I) (SetCurrentClientOf u i)" "keeps (\<lambda>r. steady False I) (DeleteUserByExternalID k)"
    and campaigns: "keeps (\<lambda>r. steady False I) (CreateCampaign quota name c sd ed)"
      "keeps (\<lambda>r. steady False I) (UpdateCampaign i name sd ed)" "keeps (\<lambda>r. steady False I) (DeleteCampaign i)"
      "keeps (\<lambda>r. steady False I) (PresignBackground i c file ct)" "keeps (\<lambda>r. steady False I) (ClearBackground i c)"
      "keeps (\<lambda>r. steady False I) (ProcessBackgroundUpload key ct sz)"
    and medias: "keeps (\<lambda>r. steady False I) (PresignMedia quota cp c files)"
      "keeps (\<lambda>r. steady False I) (ProcessUpload quota key ct sz)"
    and subscriptions: "gateway_quiet g \<Longrightarrow> keeps (\<lambda>r. steady False I) (CheckoutCompleted g i cu sub)"
      "gateway_quiet g \<Longrightarrow> (\<And>c. readonly (fetchEmail c)) \<Longrightarrow> (\<And>q. readonly (checkout q)) \<Longrightarrow>
        keeps (\<lambda>r. steady False I) (CreateSubscription g fetchEmail checkout ws u p d)"
    and reports: "keeps (\<lambda>r. steady False I) (InvoicePaymentFailedHandler k1 k2)"
      "keeps (\<lambda>r. steady False I) (InvoicePaymentSucceededHandler k1 k2 ps pe)"
      "keeps (\<lambda>r. steady False I) (PaymentMethodExpiring k3 k1 k2 br l m y)"
      "keeps (\<lambda>r. steady False I) (SubscriptionRenewalUpcomingHandler k3 k1 k2 n cur pe)"
      "keeps (\<lambda>r. steady False I) (SubscriptionDeletedHandler k1)"
      "keeps (\<lambda>r. steady False I) (SubscriptionUpdatedHandler data)" "keeps (\<lambda>r. steady False I) (UpsertInvoice cmd)"
begin

lemmas commands [keeps_intros] = clients users campaigns medias subscriptions reports

lemma user_handlers [keeps_intros]:
  "keeps (\<lambda>r. steady False I) (UserHandler_GetUser rq)" "keeps (\<lambda>r. steady False I) (UserHandler_SetCurrentClient lb rq1)"
  unfolding UserHandler_GetUser_def UserHandler_SetCurrentClient_def
  by (intro keeps_intros)+

lemma client_handlers [keeps_intros]:
  "keeps (\<lambda>r. steady False I) (ClientHandler_List lb rq)" "keeps (\<lambda>r. steady False I) (ClientHandler_Create rq1)"
  "keeps (\<lambda>r. steady False I) (ClientHandler_GetByID lb rq)" "keeps (\<lambda>r. steady False I) (ClientHandler_Update lb rq1)"
  "keeps (\<lambda>r. steady False I) (ClientHandler_Delete lb rq)" "keeps (\<lambda>r. steady False I) (ClientHandler_AddMember lb rq1)"
  "keeps (\<lambda>r. steady False I) (ClientHandler_RemoveMember lb rq)"
  unfolding ClientHandler_List_def ClientHandler_Create_def ClientHandler_GetByID_def ClientHandler_Update_def
    ClientHandler_Delete_def ClientHandler_AddMember_def ClientHandler_RemoveMember_def Let_def
  by (intro keeps_intros)+

lemma campaign_handlers [keeps_intros]:
  "keeps (\<lambda>r. steady False I) (CampaignHandler_List lb rq)" "keeps (\<lambda>r. steady False I) (CampaignHandler_Create lb rq1)"
  "keeps (\<lambda>r. steady False I) (CampaignHandler_GetByID lb rq)" "keeps (\<lambda>r. steady False I) (CampaignHandler_Update lb rq1)"
  "keeps (\<lambda>r. steady False I) (CampaignHandler_Delete lb rq)" "keeps (\<lambda>r. steady False I) (CampaignHandler_PresignBackground lb rq2)"
  "keeps (\<lambda>r. steady False I) (CampaignHandler_ClearBackground lb rq)" "keeps (\<lambda>r. steady False I) (CampaignHandler_GetThumbnail lb rq)"
  unfolding CampaignHandler_List_def CampaignHandler_Create_def CampaignHandler_GetByID_def CampaignHandler_Update_def
    CampaignHandler_Delete_def CampaignHandler_PresignBackground_def CampaignHandler_ClearBackground_def
    CampaignHandler_GetThumbnail_def with_own_campaign_def with_campaign_body_def wrong_client_def get_campaign_error_def
    schedule_error_def default_protected_def send_thumbnail_def Let_def
  by (intro keeps_intros)+

lemma media_handlers [keeps_intros]:
  "keeps (\<lambda>r. steady False I) (MediaHandler_List lb rq)" "keeps (\<lambda>r. steady False I) (MediaHandler_Presign lb rq1)"
  "keeps (\<lambda>r. steady False I) (MediaHandler_GetByID lb rq)" "keeps (\<lambda>r. steady False I) (MediaHandler_Stats lb rq)"
  "keeps (\<lambda>r. steady False I) (MediaHandler_GetThumbnail lb rq)"
  "keeps (\<lambda>r. steady False I) (MediaHandler_GetContentThumbnail lb rq)"
  unfolding MediaHandler_List_def MediaHandler_Presign_def MediaHandler_GetByID_def MediaHandler_Stats_def
    MediaHandler_GetThumbnail_def MediaHandler_GetContentThumbnail_def presign_error_def media_status_error_def
    list_error_def optional_period_def send_thumbnail_def Let_def o_def
  by (intro keeps_intros)+

lemma other_handlers [keeps_intros]:
  "keeps (\<lambda>r. steady False I) (ActivityHandler_List lb rq)" "keeps (\<lambda>r. steady False I) (RealtimeHandler_GetConnection sign rq)"
  "keeps (\<lambda>r. steady False I) (PlanHandler_List rq)"
  unfolding ActivityHandler_List_def RealtimeHandler_GetConnection_def PlanHandler_List_def optional_period_def
    list_error_def Let_def
  by (intro keeps_intros)+

lemma steady_resolve [keeps_intros]:
  "keeps (\<lambda>r. steady False I) (resolveCurrentClientWorkspace rq)" "keeps (\<lambda>r. steady False I) (respondResolveClientWorkspaceError e)"
  unfolding resolveCurrentClientWorkspace_def respondResolveClientWorkspaceError_def by (intro keeps_intros)+

lemma steady_workspace [keeps_intros]:
  "(\<And>c ws. keeps (\<lambda>r. steady False I) (f c ws)) \<Longrightarrow> keeps (\<lambda>r. steady False I) (with_workspace rq f)"
  unfolding with_workspace_def by (intro keeps_intros)

lemma subscription_handlers [keeps_intros]:
  "keeps (\<lambda>r. steady False I) (SubscriptionHandler_GetSubscription rq)" "keeps (\<lambda>r. steady False I) (SubscriptionHandler_GetQuota rq)"
  "keeps (\<lambda>r. steady False I) (InvoiceHandler_GetInvoices lb rq)"
  unfolding SubscriptionHandler_GetSubscription_def SubscriptionHandler_GetQuota_def InvoiceHandler_GetInvoices_def
    subscription_error_def Let_def
  by (intro keeps_intros)+

lemma plan_handlers:
  assumes "gateway_quiet g" "\<And>c. readonly (fetchEmail c)" "\<And>q. readonly (checkout q)"
  shows "keeps (\<lambda>r. steady False I) (SubscriptionHandler_CreateSubscription lb g fetchEmail checkout rq1)"
    "keeps (\<lambda>r. steady False I) (SubscriptionHandler_PreviewSubscription lb g rq2)"
proof -
  have "keeps (\<lambda>r. steady tx I) (sg_Retrieve g j)" "keeps (\<lambda>r. steady tx I) (sg_PreviewPriceChange g a b c)" for j a b c tx
    using assms(1) by (auto simp: gateway_quiet_def intro: steady_readonly)
  then have "keeps (\<lambda>r. steady False I) (PreviewPlanChange g ws p)" for ws p
    unfolding PreviewPlanChange_def current_subscription_def Let_def by (intro keeps_intros)
  then show "keeps (\<lambda>r. steady False I) (SubscriptionHandler_PreviewSubscription lb g rq2)"
    unfolding SubscriptionHandler_PreviewSubscription_def by (intro keeps_intros)
  show "keeps (\<lambda>r. steady False I) (SubscriptionHandler_CreateSubscription lb g fetchEmail checkout rq1)"
    unfolding SubscriptionHandler_CreateSubscription_def by (intro keeps_intros assms)
qed

lemma portal_handler:
  assumes "\<And>c. readonly (portal c)"
  shows "keeps (\<lambda>r. steady False I) (SubscriptionHandler_CreateBillingPortal portal rq)"
proof -
  have "keeps (\<lambda>r. steady False I) (portal c)" for c using assms by (rule steady_readonly)
  then show ?thesis
    unfolding SubscriptionHandler_CreateBillingPortal_def CreateBillingPortal_def by (intro keeps_intros)
qed

lemma user_webhook [keeps_intros]: "keeps (\<lambda>r. steady False I) (UserWebhook_Protected ok payload UserWebhook_Execute)"
  unfolding UserWebhook_Protected_def UserWebhook_Execute_def with_clerk_data_def webhook_createUser_def
    webhook_deleteUser_def
  by (cases payload) (auto split: decoded.split intro!: keeps_intros)

lemma upload_webhook [keeps_intros]:
  "keeps (\<lambda>r. steady False I) (MediaUpload_Protected secret header (MediaUpload_ObjectCreated quota bucket payload))"
proof -
  have "keeps (\<lambda>r. steady False I) (process_record quota bucket x)" for x
    unfolding process_record_def ObjectCreated_def Let_def by (intro keeps_intros)
  then have "keeps (\<lambda>r. steady False I) (process_records quota bucket xs)" for xs
    by (induction xs) (auto intro!: keeps_intros)
  then show ?thesis
    unfolding MediaUpload_Protected_def MediaUpload_ObjectCreated_def
    by (cases payload) (auto intro!: keeps_intros)
qed

lemma billing_webhook:
  assumes "gateway_quiet g"
  shows "keeps (\<lambda>r. steady False I) (BillingWebhook_Protected secret sig ok payload (BillingWebhook_Execute lb g))"
proof -
  have "keeps (\<lambda>r. steady False I) (billing_dispatch lb g ev)" for ev
    unfolding billing_dispatch_def handleCheckoutCompleted_def handleSubscriptionUpdated_def handleSubscriptionDeleted_def
      handleInvoicePaymentSucceeded_def handleInvoicePaymentFailed_def handleInvoiceUpcoming_def
      handlePaymentMethodExpiring_def with_invoice_def undecodable_def
    by (auto split: decoded.split stripe_object.split intro!: keeps_intros assms)
  then have "keeps (\<lambda>r. steady False I) (BillingWebhook_Execute lb g ev)" for ev
    unfolding BillingWebhook_Execute_def by (intro keeps_intros)
  then show ?thesis
    unfolding BillingWebhook_Protected_def by (cases payload) (auto intro!: keeps_intros)
qed

section \<open>The server\<close>

lemma steady_email:
  assumes "deployment_quiet dp"
  shows "readonly (fetch_email dp c)"
  using assms unfolding fetch_email_def deployment_quiet_def by (auto intro!: readonly_intros)

lemma steady_endpoint:
  assumes "deployment_quiet dp"
  shows "keeps (\<lambda>r. steady False I) (run_endpoint dp e q u ps)"
  using assms steady_email [OF assms]
  by (cases e) (auto simp: deployment_quiet_def intro!: keeps_intros plan_handlers portal_handler billing_webhook)

lemma steady_authenticated:
  assumes "deployment_quiet dp" and "\<And>u. keeps (\<lambda>r. steady False I) (f u)"
  shows "keeps (\<lambda>r. steady False I) (authenticated dp q f)"
proof -
  have "keeps (\<lambda>r. steady False I) (dp_Fetch dp c)" for c
    using assms(1) by (auto simp: deployment_quiet_def intro: steady_readonly)
  then show ?thesis
    unfolding authenticated_def Authenticate_def ValidateToken_def known_or_created_def
    by (intro keeps_intros assms(2))
qed

lemma steady_serve:
  assumes "deployment_quiet dp"
  shows "keeps (\<lambda>r. steady False I) (serve dp q)"
proof -
  have "keeps (\<lambda>r. steady False I) (serve_layers dp ls q u)" for ls u
  proof (induction ls arbitrary: u)
    case (Cons l ls)
    then show ?case
      by (cases l) (auto split: option.split intro!: steady_endpoint steady_authenticated assms)
  qed (auto intro: keeps_intros)
  then show ?thesis unfolding serve_def .
qed

end

end
