(* ===== verification/VideoSampling.thy ===== *)
theory VideoSampling
  imports Frames Presenter
begin

text \<open>
  The sampler of video frames, \<open>src/internal/infrastructure/ffmpeg/extractor.go\<close>, on ffprobe and ffmpeg as parameters, and the
  contract of the port \<open>FrameExtractor\<close> as a locale: frames are numbered from 0 and ordered in time, so
  the frames of a video are stored under keys of their own. \<open>ParseFloat\<close> reads the decimal numbers;
  hexadecimal ones, infinities and not-a-number are left out, and a millisecond count fits in its type.
\<close>

section \<open>The duration\<close>

definition parse_sign :: "string \<Rightarrow> int \<times> string" where
  "parse_sign s = (case s of [] \<Rightarrow> (1, [])
     | c # t \<Rightarrow> if c = CHR ''-'' then (-1, t) else if c = CHR ''+'' then (1, t) else (1, s))"

definition parse_exponent :: "string \<Rightarrow> int option" where
  "parse_exponent s = (case s of [] \<Rightarrow> Some 0
     | c # t \<Rightarrow> if c \<noteq> CHR ''e'' \<and> c \<noteq> CHR ''E'' then None else
         (let (sg, ds) = parse_sign t in
          if ds = [] \<or> \<not> list_all is_digit ds then None else Some (sg * atoi_digits ds)))"

definition decimals :: "string \<Rightarrow> string \<times> string" where
  "decimals s = (case s of [] \<Rightarrow> ([], [])
     | c # t \<Rightarrow> if c = CHR ''.'' then (takeWhile is_digit t, dropWhile is_digit t) else ([], s))"

definition ParseFloat :: "string \<Rightarrow> rat option" where
  "ParseFloat s = (let (sg, s) = parse_sign s; whole = takeWhile is_digit s;
       (part, s) = decimals (dropWhile is_digit s) in
     if whole = [] \<and> part = [] then None else
     map_option (\<lambda>e. of_int (sg * atoi_digits (whole @ part)) * 10 powi (e - int (length part)))
       (parse_exponent s))"

text \<open>The conversion of a float to an integer.\<close>

definition trunc :: "rat \<Rightarrow> int" where
  "trunc x = (if x < 0 then - \<lfloor>- x\<rfloor> else \<lfloor>x\<rfloor>)"

record extractor =
  ex_Binary :: string
  ex_ProbeBinary :: string

record dir_entry =
  de_Name :: string
  de_IsDir :: bool
  de_Read :: "bytes res"

text \<open>The programs and the file system: a program gives its output and perhaps an error, a run of ffmpeg
  also what the directory then holds.\<close>

record ffmpeg_tools =
  ff_Probe :: "string \<Rightarrow> bytes \<Rightarrow> go_error option \<times> string"
  ff_MkdirTemp :: "go_error option"
  ff_Run :: "string \<Rightarrow> bytes \<Rightarrow> rat \<Rightarrow> int \<Rightarrow> go_error option \<times> string \<times> dir_entry list res"

definition NewExtractor :: extractor where
  "NewExtractor = \<lparr>ex_Binary = ''ffmpeg'', ex_ProbeBinary = ''ffprobe''\<rparr>"

definition command_error :: "string \<Rightarrow> go_error \<Rightarrow> string \<Rightarrow> go_error" where
  "command_error what e out = Err (what @ '': '' @ Error e @ '' ('' @ TrimSpace out @ '')'')"

definition probeDurationMs :: "extractor \<Rightarrow> ffmpeg_tools \<Rightarrow> bytes \<Rightarrow> int res" where
  "probeDurationMs e t video =
    (case ff_Probe t (if ex_ProbeBinary e = [] then ''ffprobe'' else ex_ProbeBinary e) video of
       (Some x, out) \<Rightarrow> Inl (command_error ''ffprobe duration'' x out)
     | (None, out) \<Rightarrow> (case ParseFloat (TrimSpace out) of
         None \<Rightarrow> Inl (Wrapped ''ffprobe duration parse'' (Err ''invalid syntax''))
       | Some sec \<Rightarrow> Inr (trunc (sec * 1000))))"

section \<open>The frames\<close>

definition clampFrames :: "int \<Rightarrow> int" where
  "clampFrames maxFrames = (let n = (if maxFrames \<le> 0 then DefaultFramesPerVideo else maxFrames) in
     if MaxHardFramesPerVideo < n then MaxHardFramesPerVideo else n)"

definition timestampForIndex :: "int \<Rightarrow> int \<Rightarrow> int \<Rightarrow> int" where
  "timestampForIndex index n durationMs = (if n \<le> 1 then 0
     else trunc (of_int index * of_int durationMs / of_int (n - 1)))"

definition skipped_entry :: "dir_entry \<Rightarrow> bool" where
  "skipped_entry x \<longleftrightarrow> de_IsDir x \<or> \<not> HasSuffix (de_Name x) ''.jpg''"

fun read_frames :: "int \<Rightarrow> int \<Rightarrow> extracted_frame list \<Rightarrow> dir_entry list \<Rightarrow> extracted_frame list res" where
  "read_frames n durationMs frames [] = Inr frames"
| "read_frames n durationMs frames (x # xs) =
    (if skipped_entry x then read_frames n durationMs frames xs else
     case de_Read x of Inl e \<Rightarrow> Inl e | Inr raw \<Rightarrow>
       let idx = int (length frames) in
       read_frames n durationMs (frames @ [\<lparr>fr_Index = idx,
         fr_TimestampMs = timestampForIndex idx n durationMs, fr_JPEGBytes = raw\<rparr>]) xs)"

text \<open>The timestamps are computed anew when the number of frames is known.\<close>

definition restamp :: "int \<Rightarrow> extracted_frame list \<Rightarrow> extracted_frame list" where
  "restamp durationMs frames = List.map (\<lambda>(i, f). f\<lparr>fr_TimestampMs :=
     timestampForIndex (int i) (int (length frames)) durationMs\<rparr>) (enumerate 0 frames)"

definition read_directory :: "int \<Rightarrow> dir_entry list \<Rightarrow> extracted_frame list res" where
  "read_directory durationMs entries =
    (case read_frames (int (length entries)) durationMs [] entries of Inl x \<Rightarrow> Inl x | Inr frames \<Rightarrow>
     if frames = [] then Inl (Err ''ffmpeg extract: no frames produced'') else Inr (restamp durationMs frames))"

definition Extract :: "extractor \<Rightarrow> ffmpeg_tools \<Rightarrow> bytes \<Rightarrow> int \<Rightarrow> extracted_frame list res" where
  "Extract e t video maxFrames = (let n = clampFrames maxFrames in
    case probeDurationMs e t video of Inl x \<Rightarrow> Inl x | Inr durationMs \<Rightarrow>
    if durationMs \<le> 0 then Inl (Err (''ffmpeg extract: invalid duration '' @ int_string durationMs)) else
    case ff_MkdirTemp t of Some x \<Rightarrow> Inl x | None \<Rightarrow>
    let fps = of_int n / (of_int durationMs / 1000) in
    case ff_Run t (ex_Binary e) video fps n of
      (Some x, out, _) \<Rightarrow> Inl (command_error ''ffmpeg extract'' x out)
    | (None, _, Inl x) \<Rightarrow> Inl x
    | (None, _, Inr entries) \<Rightarrow> read_directory durationMs entries)"

subsection \<open>Facts\<close>

lemma trunc_nonneg: "0 \<le> x \<Longrightarrow> trunc x = \<lfloor>x\<rfloor>"
  by (simp add: trunc_def)

lemma clampFrames_bounds: "1 \<le> clampFrames m \<and> clampFrames m \<le> 30"
  by (simp add: clampFrames_def DefaultFramesPerVideo_def MaxHardFramesPerVideo_def Let_def)

lemma timestamp_floor:
  assumes "0 \<le> i" and "0 \<le> d"
  shows "timestampForIndex i n d = (if n \<le> 1 then 0 else i * d div (n - 1))"
proof -
  have "\<lfloor>(of_int (i * d) :: rat) / of_int (n - 1)\<rfloor> = i * d div (n - 1)" by (rule floor_divide_of_int_eq)
  moreover have "1 < n \<Longrightarrow> (0 :: rat) \<le> of_int i * of_int d / of_int (n - 1)" using assms by simp
  ultimately show ?thesis by (auto simp: timestampForIndex_def trunc_nonneg)
qed

lemma timestamp_mono:
  assumes "0 \<le> i" and "i \<le> j" and "0 \<le> d"
  shows "timestampForIndex i n d \<le> timestampForIndex j n d"
  using assms by (simp add: timestamp_floor zdiv_mono1 mult_right_mono)

lemma timestamp_ends:
  assumes "0 \<le> d"
  shows "timestampForIndex 0 n d = 0" "1 < n \<Longrightarrow> timestampForIndex (n - 1) n d = d"
  using assms by (simp_all add: timestamp_floor)

text \<open>What is read: the JPEG files of the directory, numbered in its order.\<close>

lemma read_frames_ok:
  assumes "read_frames n d frames xs = Inr fs"
  shows "List.map fr_JPEGBytes fs = List.map fr_JPEGBytes frames @
      List.map (\<lambda>x. projr (de_Read x)) (List.filter (\<lambda>x. \<not> skipped_entry x) xs)"
    "List.map fr_Index frames = List.map int [0..<length frames] \<Longrightarrow> List.map fr_Index fs = List.map int [0..<length fs]"
  using assms by (induction n d frames xs rule: read_frames.induct)
    (auto simp: Let_def split: if_splits sum.splits)

lemma restamp_fields:
  "List.map fr_Index (restamp d fs) = List.map fr_Index fs"
  "List.map fr_JPEGBytes (restamp d fs) = List.map fr_JPEGBytes fs"
  "List.map fr_TimestampMs (restamp d fs) = List.map (\<lambda>i. timestampForIndex (int i) (int (length fs)) d) [0..<length fs]"
  by (auto simp: restamp_def enumerate_eq_zip intro!: nth_equalityI)

lemma length_restamp [simp]: "length (restamp d fs) = length fs"
  by (simp add: restamp_def)

text \<open>What a successful run gives: the files ffmpeg has written, in order, from the start to the end.\<close>

lemma read_directory_ok:
  assumes "read_directory d xs = Inr fs" and "0 \<le> d"
  shows "fs \<noteq> []" "List.map fr_JPEGBytes fs = List.map (\<lambda>x. projr (de_Read x)) (List.filter (\<lambda>x. \<not> skipped_entry x) xs)"
    "List.map fr_Index fs = List.map int [0..<length fs]" "sorted (List.map fr_TimestampMs fs)"
    "i < length fs \<Longrightarrow> fr_TimestampMs (fs ! i) = timestampForIndex (int i) (int (length fs)) d"
proof -
  from assms(1) obtain gs where gs: "read_frames (int (length xs)) d [] xs = Inr gs" "gs \<noteq> []" "fs = restamp d gs"
    by (auto simp: read_directory_def split: sum.splits if_splits)
  note r = read_frames_ok [OF gs(1)] restamp_fields [of d gs]
  show "fs \<noteq> []" using gs(2,3) by (metis length_restamp length_0_conv)
  show "List.map fr_JPEGBytes fs = List.map (\<lambda>x. projr (de_Read x)) (List.filter (\<lambda>x. \<not> skipped_entry x) xs)"
    using r(1) r(4) gs(3) by simp
  show "List.map fr_Index fs = List.map int [0..<length fs]" using r(2) r(3) gs(3) by simp
  show "sorted (List.map fr_TimestampMs fs)"
    using assms(2) unfolding gs(3) r(5) by (simp add: sorted_iff_nth_mono timestamp_mono)
  assume "i < length fs"
  then show "fr_TimestampMs (fs ! i) = timestampForIndex (int i) (int (length fs)) d"
    using arg_cong [OF r(5), of "\<lambda>l. l ! i"] gs(3) by simp
qed

lemma Extract_ok:
  assumes "Extract e t video m = Inr fs"
  obtains d xs out where "probeDurationMs e t video = Inr d" "0 < d"
    "ff_Run t (ex_Binary e) video (of_int (clampFrames m) / (of_int d / 1000)) (clampFrames m) = (None, out, Inr xs)"
    "read_directory d xs = Inr fs"
  using assms by (auto simp: Extract_def Let_def split: sum.splits if_splits option.splits prod.splits)

lemma Extract_span:
  assumes "Extract e t video m = Inr fs"
  shows "\<exists>d. probeDurationMs e t video = Inr d \<and> 0 < d \<and> fr_TimestampMs (hd fs) = 0 \<and>
    (1 < length fs \<longrightarrow> fr_TimestampMs (last fs) = d) \<and> (\<forall>f \<in> set fs. 0 \<le> fr_TimestampMs f \<and> fr_TimestampMs f \<le> d)"
proof (rule Extract_ok [OF assms])
  fix d xs out
  assume p: "probeDurationMs e t video = Inr d" "0 < d" and x: "read_directory d xs = Inr fs"
  let ?n = "int (length fs)"
  from p(2) have d: "0 \<le> d" by simp
  note r = read_directory_ok [OF x d]
  have ts: "0 \<le> fr_TimestampMs (fs ! i) \<and> fr_TimestampMs (fs ! i) \<le> d" if "i < length fs" for i
  proof (cases "length fs = 1")
    case False
    with that have "1 < ?n" by simp
    with that show ?thesis
      using r(5) [OF that] timestamp_mono [of 0 "int i" d ?n] timestamp_mono [of "int i" "?n - 1" d ?n]
        timestamp_ends [OF d, of ?n] d by simp
  qed (use that r(5) [OF that] d in \<open>simp add: timestampForIndex_def\<close>)
  have "fr_TimestampMs (hd fs) = 0"
    using r(1) r(5) [of 0] timestamp_ends(1) [OF d] by (simp add: hd_conv_nth)
  moreover have "fr_TimestampMs (last fs) = d" if "1 < length fs"
    using r(1) r(5) [of "length fs - 1"] timestamp_ends(2) [OF d, of ?n] that by (simp add: last_conv_nth)
  ultimately show ?thesis using p ts by (auto simp: in_set_conv_nth)
qed

section \<open>The contract of the port\<close>

locale frame_extractor =
  fixes sample :: "bytes \<Rightarrow> int \<Rightarrow> extracted_frame list res"
  assumes numbered: "sample video m = Inr fs \<Longrightarrow> List.map fr_Index fs = List.map int [0..<length fs]"
    and ordered: "sample video m = Inr fs \<Longrightarrow> sorted (List.map fr_TimestampMs fs)"
    and some_frame: "sample video m = Inr fs \<Longrightarrow> fs \<noteq> []"

interpretation ffmpeg: frame_extractor "Extract e t" for e t
proof (unfold_locales, goal_cases)
  case (1 video m fs)
  then show ?case by (rule Extract_ok) (rule read_directory_ok, auto)
next
  case (2 video m fs)
  then show ?case by (rule Extract_ok) (rule read_directory_ok, auto)
next
  case (3 video m fs)
  then show ?case by (rule Extract_ok) (use read_directory_ok in auto)
qed

section \<open>Keys of frames\<close>

lemma pad3_read: "0 \<le> i \<Longrightarrow> atoi_digits (pad3 i) = i"
  using nat_digits_read [of "nat i"] by (simp add: pad3_def Let_def zeros_read)

lemma frame_keys_inj:
  assumes "NewFrameObjectKey us a b c i = NewFrameObjectKey us a b c j" and "0 \<le> i" and "0 \<le> j"
  shows "i = j"
proof -
  have "pad3 i = pad3 j" using assms(1) by (simp add: NewFrameObjectKey_def)
  then show ?thesis using pad3_read assms by metis
qed

lemma TrimSpace_plain:
  assumes "\<not> is_space c" and "\<not> is_space d"
  shows "TrimSpace (c # s @ [d]) = c # s @ [d]"
  using assms by (simp add: TrimSpace_def)

lemma frame_key_trimmed: "TrimSpace (NewFrameObjectKey us a b c i) = NewFrameObjectKey us a b c i"
proof -
  obtain s where "NewFrameObjectKey us a b c i = CHR ''c'' # s @ [CHR ''g'']"
    by (simp add: NewFrameObjectKey_def)
  then show ?thesis by (simp add: TrimSpace_plain is_space_def)
qed

section \<open>Storing the frames\<close>

definition frame_key :: "env \<Rightarrow> media \<Rightarrow> extracted_frame \<Rightarrow> string" where
  "frame_key r m f = NewFrameObjectKey (en_uuid_string r) (m_ClientID m) (m_CampaignID m) (m_ID m) (fr_Index f)"

text \<open>The contents that stand for frames, each with its picture in the object store.\<close>

definition kept_apart :: "env \<Rightarrow> media \<Rightarrow> extracted_frame list \<Rightarrow> content list \<Rightarrow> world \<Rightarrow> bool" where
  "kept_apart r m fs cs w \<longleftrightarrow> List.map c_ObjectKey cs = List.map (frame_key r m) fs \<and>
     List.map c_FrameIndex cs = List.map (Some \<circ> fr_Index) fs \<and>
     List.map c_TimestampMs cs = List.map (Some \<circ> fr_TimestampMs) fs \<and>
     (\<forall>f \<in> set fs. wd_objects w (frame_key r m f) = Some (fr_JPEGBytes f))"

lemma kept_apart_snoc:
  assumes "kept_apart r m fs cs w" and "frame_key r m f \<notin> frame_key r m ` set fs"
    and "c_ObjectKey c = frame_key r m f" "c_FrameIndex c = Some (fr_Index f)" "c_TimestampMs c = Some (fr_TimestampMs f)"
    and "wd_objects w' = (wd_objects w)(frame_key r m f \<mapsto> fr_JPEGBytes f)"
  shows "kept_apart r m (fs @ [f]) (cs @ [c]) w'"
proof -
  have "wd_objects w' (frame_key r m g) = Some (fr_JPEGBytes g)" if "g \<in> set fs" for g
    using assms that by (metis (no_types) fun_upd_other image_eqI kept_apart_def)
  then show ?thesis using assms by (auto simp: kept_apart_def)
qed

lemma SetThumbnailKey_fields: "c_ObjectKey (SetThumbnailKey now k c) = c_ObjectKey c"
  "c_FrameIndex (SetThumbnailKey now k c) = c_FrameIndex c" "c_TimestampMs (SetThumbnailKey now k c) = c_TimestampMs c"
  by (simp_all add: SetThumbnailKey_def Let_def)

lemma wp_store_frame:
  assumes "kept_apart r m fs cs w" and "frame_key r m f \<notin> frame_key r m ` set fs"
  shows "wp (store_frame m f cs) (\<lambda>cs' w'. kept_apart r m (fs @ [f]) cs' w') (\<lambda>_ _. True) r w"
  unfolding store_frame_def Let_def storage_Put_def storage_PutThumbnail_def new_content_def NewFromMedia_cases
  by (auto simp: frame_key_def frame_key_trimmed SetThumbnailKey_fields intro!: kept_apart_snoc [OF assms])

context frame_extractor begin

lemma keys_distinct:
  assumes "sample video n = Inr fs"
  shows "distinct (List.map (frame_key r m) fs)"
proof -
  have i: "fr_Index (fs ! i) = int i" if "i < length fs" for i
    using arg_cong [OF numbered [OF assms], of "\<lambda>l. l ! i"] that by simp
  then show ?thesis
    unfolding distinct_conv_nth by (auto simp: frame_key_def dest: frame_keys_inj)
qed

lemma frames_kept:
  assumes "sample video n = Inr fs"
  shows "wp (foldC (store_frame m) fs []) (\<lambda>cs w'. kept_apart r m fs cs w') (\<lambda>_ _. True) r w"
proof -
  let ?I = "\<lambda>xs cs v. \<exists>ys. fs = ys @ xs \<and> kept_apart r m ys cs v"
  have "wp (foldC (store_frame m) fs []) (\<lambda>cs w'. ?I [] cs w') (\<lambda>_ _. True) r w"
  proof (rule wp_foldC)
    show "?I fs [] w" by (simp add: kept_apart_def)
  next
    fix x xs cs and v :: world
    assume "?I (x # xs) cs v"
    then obtain ys where ys: "fs = ys @ x # xs" "kept_apart r m ys cs v" by blast
    have "frame_key r m x \<notin> frame_key r m ` set ys" using keys_distinct [OF assms, of r m] ys(1) by simp
    then show "wp (store_frame m x cs) (\<lambda>cs' w'. ?I xs cs' w') (\<lambda>_ _. True) r v"
      by (rule wp_mono [OF wp_store_frame [OF ys(2)]]) (use ys(1) in \<open>auto intro!: exI [of _ "ys @ [x]"]\<close>)
  qed
  then show ?thesis by (rule wp_mono) auto
qed

end

section \<open>A video of twelve and a half seconds\<close>

definition sample_tools :: ffmpeg_tools where
  "sample_tools = \<lparr>ff_Probe = (\<lambda>_ _. (None, ''12.5 '')), ff_MkdirTemp = None,
     ff_Run = (\<lambda>_ _ _ _. (None, [], Inr [
       \<lparr>de_Name = ''frame_001.jpg'', de_IsDir = False, de_Read = Inr [1]\<rparr>,
       \<lparr>de_Name = ''frame_002.jpg'', de_IsDir = False, de_Read = Inr [2]\<rparr>,
       \<lparr>de_Name = ''frame_003.jpg'', de_IsDir = False, de_Read = Inr [3]\<rparr>,
       \<lparr>de_Name = ''notes.txt'', de_IsDir = False, de_Read = Inr []\<rparr>]))\<rparr>"

definition sample_frames :: "extracted_frame list" where
  "sample_frames = [\<lparr>fr_Index = 0, fr_TimestampMs = 0, fr_JPEGBytes = [1]\<rparr>,
     \<lparr>fr_Index = 1, fr_TimestampMs = 6250, fr_JPEGBytes = [2]\<rparr>,
     \<lparr>fr_Index = 2, fr_TimestampMs = 12500, fr_JPEGBytes = [3]\<rparr>]"

lemma sample_probe: "probeDurationMs NewExtractor sample_tools v = Inr 12500"
proof -
  have "ParseFloat ''12.5'' = Some (25 / 2)"
    by (simp add: ParseFloat_def parse_sign_def decimals_def parse_exponent_def is_digit_def digit_of_def
      atoi_digits_def power_int_minus)
  moreover have "TrimSpace ''12.5 '' = ''12.5''" by (simp add: TrimSpace_def is_space_def)
  ultimately show ?thesis by (simp add: probeDurationMs_def sample_tools_def trunc_def)
qed

lemma sample_Extract: "Extract NewExtractor sample_tools v 10 = Inr sample_frames"
  by (simp add: Extract_def sample_probe)
    (simp add: sample_tools_def read_directory_def skipped_entry_def HasSuffix_def restamp_def
      timestamp_floor sample_frames_def Let_def suffix_to_prefix)

end
