(* ===== verification/Configuration.thy ===== *)
theory Configuration
  imports VideoSampling
begin

text \<open>
  The configuration of every process, \<open>src/internal/infrastructure/config/config.go\<close>: environment
  variables, with \<open>strconv.Atoi\<close> and \<open>time.ParseDuration\<close> as the standard library has them, and panics as
  values. The file \<open>.env\<close> is part of the environment.
\<close>

section \<open>Integers and durations\<close>

definition Atoi :: "string \<Rightarrow> int option" where
  "Atoi s = (let (sg, ds) = parse_sign s in
     if ds = [] \<or> \<not> list_all is_digit ds then None
     else (let n = sg * atoi_digits ds in if - (2 ^ 63) \<le> n \<and> n < 2 ^ 63 then Some n else None))"

text \<open>The leading digits, refused when they exceed \<open>2 ^ 63\<close>.\<close>

fun leadingInt :: "int \<Rightarrow> string \<Rightarrow> (int \<times> string) option" where
  "leadingInt x [] = Some (x, [])"
| "leadingInt x (c # s) = (case digit_of c of
      None \<Rightarrow> Some (x, c # s)
    | Some k \<Rightarrow> if x > 2 ^ 63 div 10 then None
        else (let y = 10 * x + k in if y > 2 ^ 63 then None else leadingInt y s))"

text \<open>The digits of a fraction with their scale; those that do not fit are dropped.\<close>

fun leadingFraction :: "int \<Rightarrow> int \<Rightarrow> bool \<Rightarrow> string \<Rightarrow> int \<times> int \<times> string" where
  "leadingFraction x scale overflow [] = (x, scale, [])"
| "leadingFraction x scale overflow (c # s) = (case digit_of c of
      None \<Rightarrow> (x, scale, c # s)
    | Some k \<Rightarrow> if overflow \<or> x > (2 ^ 63 - 1) div 10 then leadingFraction x scale True s
        else (let y = 10 * x + k in
          if y > 2 ^ 63 then leadingFraction x scale True s else leadingFraction y (10 * scale) False s))"

definition unitMap :: "string \<Rightarrow> int option" where
  "unitMap u = (if u = ''ns'' then Some 1
     else if u = ''us'' \<or> u = [CHR 0xC2, CHR 0xB5, CHR ''s''] \<or> u = [CHR 0xCE, CHR 0xBC, CHR ''s''] then Some 1000
     else if u = ''ms'' then Some 1000000 else if u = ''s'' then Some Second
     else if u = ''m'' then Some Minute else if u = ''h'' then Some Hour else None)"

definition in_unit :: "char \<Rightarrow> bool" where
  "in_unit c \<longleftrightarrow> c \<noteq> CHR ''.'' \<and> \<not> is_digit c"

definition fraction_part :: "string \<Rightarrow> bool \<times> int \<times> int \<times> string" where
  "fraction_part s = (case s of [] \<Rightarrow> (False, 0, 1, [])
     | c # t \<Rightarrow> if c \<noteq> CHR ''.'' then (False, 0, 1, s)
         else (let (f, scale, u) = leadingFraction 0 1 False t in (u \<noteq> t, f, scale, u)))"

text \<open>One number with its unit. A fraction is cut off below a nanosecond.\<close>

definition duration_term :: "string \<Rightarrow> (int \<times> string) option" where
  "duration_term s = (if s = [] \<or> in_unit (hd s) then None else
     case leadingInt 0 s of None \<Rightarrow> None
     | Some (v, t) \<Rightarrow> (let (post, f, scale, t') = fraction_part t; u = takeWhile in_unit t'; rest = dropWhile in_unit t' in
         if t = s \<and> \<not> post \<or> u = [] then None
         else (case unitMap u of None \<Rightarrow> None
           | Some n \<Rightarrow> if v > 2 ^ 63 div n then None
               else (let d = v * n + f * n div scale in if d > 2 ^ 63 then None else Some (d, rest)))))"

lemma leadingInt_length: "leadingInt x s = Some (v, t) \<Longrightarrow> length t \<le> length s"
  by (induction x s rule: leadingInt.induct) (auto simp: Let_def le_SucI split: option.splits if_splits)

lemma leadingFraction_length: "leadingFraction x sc ov s = (v, sc', t) \<Longrightarrow> length t \<le> length s"
  by (induction x sc ov s rule: leadingFraction.induct) (auto simp: Let_def le_SucI split: option.splits if_splits)

lemma fraction_part_length: "fraction_part s = (p, f, sc, t) \<Longrightarrow> length t \<le> length s"
  by (auto simp: fraction_part_def dest!: leadingFraction_length split: list.splits if_splits prod.splits)

lemma dropWhile_shorter: "takeWhile P s \<noteq> [] \<Longrightarrow> length (dropWhile P s) < length s"
  by (cases s) (auto simp: le_imp_less_Suc length_dropWhile_le split: if_splits)

lemma duration_term_length: "duration_term s = Some (d, rest) \<Longrightarrow> length rest < length s"
  unfolding duration_term_def
  by (auto simp: Let_def dest!: leadingInt_length fraction_part_length dropWhile_shorter split: option.splits prod.splits if_splits)

text \<open>The terms are added in 64 bits.\<close>

function duration_terms :: "int \<Rightarrow> string \<Rightarrow> int option" where
  "duration_terms d s = (if s = [] then Some d else
     case duration_term s of None \<Rightarrow> None
     | Some (v, rest) \<Rightarrow> (let e = (d + v) mod 2 ^ 64 in if e > 2 ^ 63 then None else duration_terms e rest))"
  by pat_completeness auto

termination
  by (relation "measure (\<lambda>(d, s). length s)") (auto dest: duration_term_length)

declare duration_terms.simps [simp del]

definition ParseDuration :: "string \<Rightarrow> duration option" where
  "ParseDuration s = (let (sg, t) = parse_sign s in
     if t = ''0'' then Some 0 else if t = [] then None
     else (case duration_terms 0 t of None \<Rightarrow> None
       | Some d \<Rightarrow> if sg = -1 then Some (- d) else if d > 2 ^ 63 - 1 then None else Some d))"

section \<open>Environment variables\<close>

type_synonym env_vars = "string \<Rightarrow> string"

datatype config_panic = NotSet string | InvalidInteger string string | InvalidDuration string string

definition getEnv :: "env_vars \<Rightarrow> string \<Rightarrow> config_panic + string" where
  "getEnv vars key = (if vars key \<noteq> [] then Inr (vars key) else Inl (NotSet key))"

definition getEnvOrDefault :: "env_vars \<Rightarrow> string \<Rightarrow> string \<Rightarrow> string" where
  "getEnvOrDefault vars key defaultValue = (if vars key \<noteq> [] then vars key else defaultValue)"

definition getEnvBool :: "env_vars \<Rightarrow> string \<Rightarrow> bool" where
  "getEnvBool vars key = (if vars key = [] then False else vars key = ''true'')"

definition getEnvInt :: "env_vars \<Rightarrow> string \<Rightarrow> config_panic + int" where
  "getEnvInt vars key = (if vars key = [] then Inl (NotSet key) else
     case Atoi (vars key) of None \<Rightarrow> Inl (InvalidInteger key (vars key)) | Some n \<Rightarrow> Inr n)"

definition getEnvIntOrDefault :: "env_vars \<Rightarrow> string \<Rightarrow> int \<Rightarrow> config_panic + int" where
  "getEnvIntOrDefault vars key defaultValue = (if vars key = [] then Inr defaultValue else
     case Atoi (vars key) of None \<Rightarrow> Inl (InvalidInteger key (vars key)) | Some n \<Rightarrow> Inr n)"

definition getEnvDuration :: "env_vars \<Rightarrow> string \<Rightarrow> duration \<Rightarrow> config_panic + duration" where
  "getEnvDuration vars key defaultValue = (if vars key = [] then Inr defaultValue else
     case ParseDuration (vars key) of None \<Rightarrow> Inl (InvalidDuration key (vars key)) | Some d \<Rightarrow> Inr d)"

section \<open>Loading\<close>

record config =
  cf_DatabaseURL :: string
  cf_ClerkWebhookSecret :: string
  cf_Port :: string
  cf_Environment :: string
  cf_ClerkSecretKey :: string
  cf_ClerkFrontendAPI :: string
  cf_CORSAllowedOrigins :: "string list"
  cf_CORSAllowCredentials :: bool
  cf_CORSAllowMethods :: "string list"
  cf_CORSAllowHeaders :: "string list"
  cf_CORSMaxAge :: int
  cf_RateLimitMax :: int
  cf_RabbitMQURL :: string
  cf_RabbitMQExchange :: string
  cf_RabbitMQQueue :: string
  cf_RabbitMQRoutingKey :: string
  cf_RabbitMQRetryTTLMS :: int
  cf_WorkerMaxRetries :: int
  cf_OutboxPollInterval :: duration
  cf_WorkerConcurrency :: int
  cf_CentrifugoURL :: string
  cf_CentrifugoAPIKey :: string
  cf_CentrifugoTokenSecret :: string
  cf_CentrifugoPublicWSURL :: string
  cf_StorageEndpoint :: string
  cf_StorageInternalEndpoint :: string
  cf_StorageRegion :: string
  cf_StorageAccessKey :: string
  cf_StorageSecretKey :: string
  cf_StorageBucket :: string
  cf_StorageThumbnailBucket :: string
  cf_StorageUsePathStyle :: bool
  cf_MinIOWebhookSecret :: string
  cf_SightengineAPIURL :: string
  cf_SightengineAPIUser :: string
  cf_SightengineAPISecret :: string
  cf_AnalysisQueue :: string
  cf_AnalysisRoutingKey :: string
  cf_AnalysisConcurrency :: int
  cf_AnalysisMaxDetectors :: int
  cf_FrameExtractionQueue :: string
  cf_FrameExtractionRoutingKey :: string
  cf_FrameExtractionConcurrency :: int
  cf_StripeSecretKey :: string
  cf_StripeWebhookSecret :: string
  cf_RedirectSuccessURL :: string
  cf_RedirectCancelURL :: string
  cf_RedirectPortalURL :: string
  cf_SchedulerInterval :: duration
  cf_SchedulerStaleAfter :: duration
  cf_SchedulerStaleMaxAge :: duration

definition need :: "config_panic + 'a \<Rightarrow> ('a \<Rightarrow> config_panic + 'b) \<Rightarrow> config_panic + 'b" where
  "need r f = (case r of Inl p \<Rightarrow> Inl p | Inr a \<Rightarrow> f a)"

definition Load :: "env_vars \<Rightarrow> config_panic + config" where
  "Load vars =
    need (getEnv vars ''DATABASE_URL'') (\<lambda>databaseURL.
    need (getEnv vars ''CLERK_WEBHOOK_SECRET'') (\<lambda>clerkWebhookSecret.
    need (getEnv vars ''PORT'') (\<lambda>port.
    need (getEnv vars ''GO_ENV'') (\<lambda>environment.
    need (getEnv vars ''CLERK_SECRET_KEY'') (\<lambda>clerkSecretKey.
    need (getEnv vars ''CLERK_FRONTEND_API'') (\<lambda>clerkFrontendAPI.
    need (getEnv vars ''CORS_ALLOWED_ORIGINS'') (\<lambda>cORSAllowedOrigins.
    need (getEnv vars ''CORS_ALLOW_METHODS'') (\<lambda>cORSAllowMethods.
    need (getEnv vars ''CORS_ALLOW_HEADERS'') (\<lambda>cORSAllowHeaders.
    need (getEnvInt vars ''CORS_MAX_AGE'') (\<lambda>cORSMaxAge.
    need (getEnvInt vars ''RATE_LIMIT_MAX'') (\<lambda>rateLimitMax.
    need (getEnv vars ''RABBITMQ_URL'') (\<lambda>rabbitMQURL.
    need (getEnvIntOrDefault vars ''RABBITMQ_RETRY_TTL_MS'' 30000) (\<lambda>rabbitMQRetryTTLMS.
    need (getEnvIntOrDefault vars ''WORKER_MAX_RETRIES'' 3) (\<lambda>workerMaxRetries.
    need (getEnvDuration vars ''OUTBOX_POLL_INTERVAL'' (2 * Second)) (\<lambda>outboxPollInterval.
    need (getEnvIntOrDefault vars ''WORKER_CONCURRENCY'' 4) (\<lambda>workerConcurrency.
    need (getEnv vars ''CENTRIFUGO_URL'') (\<lambda>centrifugoURL.
    need (getEnv vars ''CENTRIFUGO_API_KEY'') (\<lambda>centrifugoAPIKey.
    need (getEnv vars ''CENTRIFUGO_TOKEN_SECRET'') (\<lambda>centrifugoTokenSecret.
    need (getEnv vars ''STORAGE_ENDPOINT'') (\<lambda>storageEndpoint.
    need (getEnv vars ''STORAGE_ACCESS_KEY'') (\<lambda>storageAccessKey.
    need (getEnv vars ''STORAGE_SECRET_KEY'') (\<lambda>storageSecretKey.
    need (getEnv vars ''STORAGE_BUCKET'') (\<lambda>storageBucket.
    need (getEnv vars ''MINIO_WEBHOOK_SECRET'') (\<lambda>minIOWebhookSecret.
    need (getEnvIntOrDefault vars ''ANALYSIS_CONCURRENCY'' 2) (\<lambda>analysisConcurrency.
    need (getEnvIntOrDefault vars ''ANALYSIS_MAX_DETECTORS'' 3) (\<lambda>analysisMaxDetectors.
    need (getEnvIntOrDefault vars ''FRAME_EXTRACTION_CONCURRENCY'' 1) (\<lambda>frameExtractionConcurrency.
    need (getEnvDuration vars ''SCHEDULER_INTERVAL'' (10 * Minute)) (\<lambda>schedulerInterval.
    need (getEnvDuration vars ''SCHEDULER_STALE_AFTER'' (30 * Minute)) (\<lambda>schedulerStaleAfter.
    need (getEnvDuration vars ''SCHEDULER_STALE_MAX_AGE'' (2 * Hour)) (\<lambda>schedulerStaleMaxAge.
    Inr \<lparr>cf_DatabaseURL = databaseURL,
      cf_ClerkWebhookSecret = clerkWebhookSecret,
      cf_Port = port,
      cf_Environment = environment,
      cf_ClerkSecretKey = clerkSecretKey,
      cf_ClerkFrontendAPI = clerkFrontendAPI,
      cf_CORSAllowedOrigins = split_comma cORSAllowedOrigins [],
      cf_CORSAllowCredentials = getEnvBool vars ''CORS_ALLOW_CREDENTIALS'',
      cf_CORSAllowMethods = split_comma cORSAllowMethods [],
      cf_CORSAllowHeaders = split_comma cORSAllowHeaders [],
      cf_CORSMaxAge = cORSMaxAge,
      cf_RateLimitMax = rateLimitMax,
      cf_RabbitMQURL = rabbitMQURL,
      cf_RabbitMQExchange = getEnvOrDefault vars ''RABBITMQ_EXCHANGE'' ''domain.events'',
      cf_RabbitMQQueue = getEnvOrDefault vars ''RABBITMQ_QUEUE'' ''domain.events'',
      cf_RabbitMQRoutingKey = getEnvOrDefault vars ''RABBITMQ_ROUTING_KEY'' ''user.#,client.#,campaign.#,content.#,media.#,subscription.#,invoice.#,quota.#,plan.#'',
      cf_RabbitMQRetryTTLMS = rabbitMQRetryTTLMS,
      cf_WorkerMaxRetries = workerMaxRetries,
      cf_OutboxPollInterval = outboxPollInterval,
      cf_WorkerConcurrency = workerConcurrency,
      cf_CentrifugoURL = centrifugoURL,
      cf_CentrifugoAPIKey = centrifugoAPIKey,
      cf_CentrifugoTokenSecret = centrifugoTokenSecret,
      cf_CentrifugoPublicWSURL = getEnvOrDefault vars ''CENTRIFUGO_PUBLIC_WS_URL'' [],
      cf_StorageEndpoint = storageEndpoint,
      cf_StorageInternalEndpoint = getEnvOrDefault vars ''STORAGE_INTERNAL_ENDPOINT'' [],
      cf_StorageRegion = getEnvOrDefault vars ''STORAGE_REGION'' ''us-east-1'',
      cf_StorageAccessKey = storageAccessKey,
      cf_StorageSecretKey = storageSecretKey,
      cf_StorageBucket = storageBucket,
      cf_StorageThumbnailBucket = getEnvOrDefault vars ''STORAGE_THUMBNAIL_BUCKET'' ''thumbnails'',
      cf_StorageUsePathStyle = getEnvBool vars ''STORAGE_USE_PATH_STYLE'',
      cf_MinIOWebhookSecret = minIOWebhookSecret,
      cf_SightengineAPIURL = getEnvOrDefault vars ''SIGHTENGINE_API_URL'' ''https://api.sightengine.com/1.0/check.json'',
      cf_SightengineAPIUser = vars ''SIGHTENGINE_API_USER'',
      cf_SightengineAPISecret = vars ''SIGHTENGINE_API_SECRET'',
      cf_AnalysisQueue = getEnvOrDefault vars ''ANALYSIS_QUEUE'' ''analysis'',
      cf_AnalysisRoutingKey = getEnvOrDefault vars ''ANALYSIS_ROUTING_KEY'' ''content.uploaded.v1'',
      cf_AnalysisConcurrency = analysisConcurrency,
      cf_AnalysisMaxDetectors = analysisMaxDetectors,
      cf_FrameExtractionQueue = getEnvOrDefault vars ''FRAME_EXTRACTION_QUEUE'' ''frame-extraction'',
      cf_FrameExtractionRoutingKey = getEnvOrDefault vars ''FRAME_EXTRACTION_ROUTING_KEY'' ''media.uploaded.v1'',
      cf_FrameExtractionConcurrency = frameExtractionConcurrency,
      cf_StripeSecretKey = getEnvOrDefault vars ''STRIPE_SECRET_KEY'' [],
      cf_StripeWebhookSecret = getEnvOrDefault vars ''STRIPE_WEBHOOK_SECRET'' [],
      cf_RedirectSuccessURL = getEnvOrDefault vars ''REDIRECT_SUCCESS_URL'' ''http://localhost:3000/subscription/success'',
      cf_RedirectCancelURL = getEnvOrDefault vars ''REDIRECT_CANCEL_URL'' ''http://localhost:3000/subscription/failed'',
      cf_RedirectPortalURL = getEnvOrDefault vars ''REDIRECT_PORTAL_URL'' ''http://localhost:3000/subscription'',
      cf_SchedulerInterval = schedulerInterval,
      cf_SchedulerStaleAfter = schedulerStaleAfter,
      cf_SchedulerStaleMaxAge = schedulerStaleMaxAge\<rparr>))))))))))))))))))))))))))))))"

section \<open>What is asked of the environment\<close>

datatype demand = Required | RequiredInteger | OptionalInteger | OptionalDuration

text \<open>The variables that can stop a process, in the order in which they are looked at.\<close>

definition demands :: "(string \<times> demand) list" where
  "demands = [(''DATABASE_URL'', Required), (''CLERK_WEBHOOK_SECRET'', Required), (''PORT'', Required),
     (''GO_ENV'', Required), (''CLERK_SECRET_KEY'', Required), (''CLERK_FRONTEND_API'', Required),
     (''CORS_ALLOWED_ORIGINS'', Required), (''CORS_ALLOW_METHODS'', Required),
     (''CORS_ALLOW_HEADERS'', Required), (''CORS_MAX_AGE'', RequiredInteger),
     (''RATE_LIMIT_MAX'', RequiredInteger), (''RABBITMQ_URL'', Required),
     (''RABBITMQ_RETRY_TTL_MS'', OptionalInteger), (''WORKER_MAX_RETRIES'', OptionalInteger),
     (''OUTBOX_POLL_INTERVAL'', OptionalDuration), (''WORKER_CONCURRENCY'', OptionalInteger),
     (''CENTRIFUGO_URL'', Required), (''CENTRIFUGO_API_KEY'', Required),
     (''CENTRIFUGO_TOKEN_SECRET'', Required), (''STORAGE_ENDPOINT'', Required),
     (''STORAGE_ACCESS_KEY'', Required), (''STORAGE_SECRET_KEY'', Required), (''STORAGE_BUCKET'', Required),
     (''MINIO_WEBHOOK_SECRET'', Required), (''ANALYSIS_CONCURRENCY'', OptionalInteger),
     (''ANALYSIS_MAX_DETECTORS'', OptionalInteger), (''FRAME_EXTRACTION_CONCURRENCY'', OptionalInteger),
     (''SCHEDULER_INTERVAL'', OptionalDuration), (''SCHEDULER_STALE_AFTER'', OptionalDuration),
     (''SCHEDULER_STALE_MAX_AGE'', OptionalDuration)]"

definition complaint :: "env_vars \<Rightarrow> string \<times> demand \<Rightarrow> config_panic option" where
  "complaint vars d = (let (key, kind) = d; v = vars key in
     if v = [] then (if kind = Required \<or> kind = RequiredInteger then Some (NotSet key) else None)
     else if kind = Required then None
     else if kind = OptionalDuration then (if ParseDuration v = None then Some (InvalidDuration key v) else None)
     else (if Atoi v = None then Some (InvalidInteger key v) else None))"

fun first_complaint :: "env_vars \<Rightarrow> (string \<times> demand) list \<Rightarrow> config_panic option" where
  "first_complaint vars [] = None"
| "first_complaint vars (d # ds) = (case complaint vars d of Some p \<Rightarrow> Some p | None \<Rightarrow> first_complaint vars ds)"

definition panic_of :: "config_panic + 'a \<Rightarrow> config_panic option" where
  "panic_of r = (case r of Inl p \<Rightarrow> Some p | Inr a \<Rightarrow> None)"

lemma panic_of_need:
  "panic_of (need r f) = (case panic_of r of Some p \<Rightarrow> Some p | None \<Rightarrow> panic_of (f (projr r)))"
  by (cases r) (simp_all add: panic_of_def need_def)

lemma need_ok: "need r f = Inr c \<longleftrightarrow> (\<exists>a. r = Inr a \<and> f a = Inr c)"
  by (cases r) (simp_all add: need_def)

lemma panic_of_Inr: "panic_of (Inr a) = None"
  by (simp add: panic_of_def)

lemma panic_of_get:
  "panic_of (getEnv vars k) = complaint vars (k, Required)"
  "panic_of (getEnvInt vars k) = complaint vars (k, RequiredInteger)"
  "panic_of (getEnvIntOrDefault vars k n) = complaint vars (k, OptionalInteger)"
  "panic_of (getEnvDuration vars k t) = complaint vars (k, OptionalDuration)"
  by (simp_all add: panic_of_def getEnv_def getEnvInt_def getEnvIntOrDefault_def getEnvDuration_def complaint_def
      split: option.split)

lemma panic_of_Load: "panic_of (Load vars) = first_complaint vars demands"
  unfolding Load_def panic_of_need panic_of_get panic_of_Inr demands_def first_complaint.simps ..

lemma first_complaint_None: "first_complaint vars ds = None \<longleftrightarrow> (\<forall>d \<in> set ds. complaint vars d = None)"
  by (induction ds) (auto split: option.splits)

section \<open>Written numbers are read back\<close>

lemma digit_range: "digit_of c = Some k \<Longrightarrow> 0 \<le> k \<and> k \<le> 9"
  by (auto simp: digit_of_def Let_def split: if_splits)

definition read_from :: "int \<Rightarrow> string \<Rightarrow> int" where
  "read_from = (\<lambda>x ds. fold (\<lambda>c n. 10 * n + (case digit_of c of None \<Rightarrow> 0 | Some k \<Rightarrow> k)) ds x)"

lemma read_from_simps [simp]:
  "read_from x [] = x" "digit_of c = Some k \<Longrightarrow> read_from x (c # ds) = read_from (10 * x + k) ds"
  "read_from 0 ds = atoi_digits ds"
  by (simp_all add: read_from_def atoi_digits_def)

lemma read_from_grows: "list_all is_digit ds \<Longrightarrow> 0 \<le> x \<Longrightarrow> x \<le> read_from x ds"
proof (induction ds arbitrary: x)
  case (Cons c ds)
  then obtain k where k: "digit_of c = Some k" by (auto simp: is_digit_def)
  show ?case using Cons.IH [of "10 * x + k"] Cons.prems digit_range [OF k] by (simp add: k)
qed simp

lemma leadingInt_digits:
  assumes "rest = [] \<or> \<not> is_digit (hd rest)"
  shows "list_all is_digit ds \<Longrightarrow> 0 \<le> x \<Longrightarrow> read_from x ds \<le> 2 ^ 63 \<Longrightarrow>
    leadingInt x (ds @ rest) = Some (read_from x ds, rest)"
proof (induction ds arbitrary: x)
  case Nil
  then show ?case using assms by (cases rest) (auto simp: is_digit_def split: option.splits)
next
  case (Cons c ds)
  then obtain k where k: "digit_of c = Some k" by (auto simp: is_digit_def)
  have r: "0 \<le> k" "k \<le> 9" using digit_range [OF k] by auto
  have "10 * x + k \<le> read_from (10 * x + k) ds" using Cons.prems r by (intro read_from_grows) auto
  then have "10 * x + k \<le> 2 ^ 63" using Cons.prems(3) k by simp
  then show ?case using Cons.IH [of "10 * x + k"] Cons.prems k r by (simp add: Let_def)
qed

lemma nat_digits_nonempty [simp]: "nat_digits n \<noteq> []"
  by (subst nat_digits.simps) simp

lemma digits_head: "is_digit (hd (nat_digits n))"
  using nat_digits_read [of n] by (cases "nat_digits n") auto

lemma parse_sign_digits: "is_digit (hd s) \<Longrightarrow> s \<noteq> [] \<Longrightarrow> parse_sign s = (1, s)"
  by (cases s) (auto simp: parse_sign_def is_digit_def digit_of_def)

lemma Atoi_written:
  assumes "- (2 ^ 63) \<le> n" and "n < 2 ^ 63"
  shows "Atoi (int_string n) = Some n"
proof (cases "n < 0")
  case True
  then show ?thesis
    using assms nat_digits_read [of "nat (- n)"] by (simp add: Atoi_def int_string_def parse_sign_def Let_def)
next
  case False
  then show ?thesis
    using assms nat_digits_read [of "nat n"] parse_sign_digits [OF digits_head, of "nat n"]
    by (simp add: Atoi_def int_string_def Let_def)
qed

text \<open>A duration written as whole numbers of units, such as \<open>1h30m\<close>.\<close>

definition unit_value :: "string \<Rightarrow> int" where
  "unit_value u = (case unitMap u of None \<Rightarrow> 0 | Some n \<Rightarrow> n)"

fun written :: "(nat \<times> string) list \<Rightarrow> string" where
  "written [] = []"
| "written ((n, u) # ts) = nat_digits n @ u @ written ts"

fun amount :: "(nat \<times> string) list \<Rightarrow> duration" where
  "amount [] = 0"
| "amount ((n, u) # ts) = int n * unit_value u + amount ts"

lemma unit_facts:
  assumes "unitMap u = Some k"
  shows "u \<noteq> []" "list_all in_unit u" "0 < k" "\<not> is_digit (hd u)" "hd u \<noteq> CHR ''.''"
  using assms by (auto simp: unitMap_def in_unit_def is_digit_def digit_of_def split: if_splits)

lemma amount_nonneg: "(\<And>n u. (n, u) \<in> set ts \<Longrightarrow> unitMap u \<noteq> None) \<Longrightarrow> 0 \<le> amount ts"
proof (induction ts)
  case (Cons t ts)
  obtain n u where t: "t = (n, u)" by (cases t)
  then obtain k where k: "unitMap u = Some k" using Cons.prems [of n u] by auto
  have "0 \<le> amount ts" by (rule Cons.IH) (use Cons.prems in auto)
  then show ?case using t k unit_facts(3) [OF k] by (simp add: unit_value_def)
qed simp

lemma written_head: "written ts = [] \<or> is_digit (hd (written ts))"
  by (cases ts rule: written.cases) (auto simp: hd_append digits_head)

lemma duration_term_written:
  assumes u: "unitMap u = Some k" and n: "int n * k \<le> 2 ^ 63" and t: "t = [] \<or> is_digit (hd t)"
  shows "duration_term (nat_digits n @ u @ t) = Some (int n * k, t)"
proof -
  note f = unit_facts [OF u]
  have k: "int n \<le> 2 ^ 63 div k"
    using zdiv_mono1 [OF n f(3)] f(3) by simp
  also have "\<dots> \<le> 2 ^ 63" using f(3) using zdiv_mono2 [of "2 ^ 63" 1 k] by simp
  finally have "int n \<le> 2 ^ 63" .
  then have "leadingInt 0 (nat_digits n @ u @ t) = Some (int n, u @ t)"
    using nat_digits_read [of n] f by (subst leadingInt_digits) auto
  moreover have "fraction_part (u @ t) = (False, 0, 1, u @ t)"
    using f by (cases u) (auto simp: fraction_part_def)
  moreover have "takeWhile in_unit (u @ t) = u" "dropWhile in_unit (u @ t) = t"
    using f(2) t by (cases t; auto simp: list_all_iff takeWhile_append dropWhile_append in_unit_def)+
  moreover have "\<not> in_unit (hd (nat_digits n @ u @ t))" using digits_head [of n] by (simp add: in_unit_def)
  ultimately show ?thesis using f u n k by (simp add: duration_term_def Let_def)
qed

lemma duration_terms_written:
  assumes "\<And>n u. (n, u) \<in> set ts \<Longrightarrow> unitMap u \<noteq> None" and "0 \<le> d" and "d + amount ts \<le> 2 ^ 63"
  shows "duration_terms d (written ts) = Some (d + amount ts)"
  using assms
proof (induction ts arbitrary: d)
  case Nil
  then show ?case by (simp add: duration_terms.simps)
next
  case (Cons t ts)
  obtain n u where t: "t = (n, u)" by (cases t)
  then obtain k where k: "unitMap u = Some k" using Cons.prems(1) [of n u] by auto
  have a: "0 \<le> amount ts" by (rule amount_nonneg) (use Cons.prems(1) in auto)
  have v: "0 \<le> int n * k" using unit_facts(3) [OF k] by simp
  have b: "d + int n * k \<le> 2 ^ 63" "int n * k \<le> 2 ^ 63"
    using Cons.prems(2,3) a v t k by (auto simp: unit_value_def)
  have m: "(d + int n * k) mod 2 ^ 64 = d + int n * k" using b v Cons.prems(2) by (intro mod_pos_pos_trivial) auto
  have "duration_terms (d + int n * k) (written ts) = Some (d + int n * k + amount ts)"
    by (rule Cons.IH) (use Cons.prems v t k in \<open>auto simp: unit_value_def add.assoc\<close>)
  then show ?case
    using b m unit_facts(1) [OF k] duration_term_written [OF k b(2) written_head, of ts]
    by (subst duration_terms.simps) (simp add: t k unit_value_def add.assoc del: mult_of_nat_commute)
qed

lemma ParseDuration_written:
  assumes "ts \<noteq> []" and "\<And>n u. (n, u) \<in> set ts \<Longrightarrow> unitMap u \<noteq> None" and "amount ts < 2 ^ 63"
  shows "ParseDuration (written ts) = Some (amount ts)"
proof -
  obtain n u us where ts: "ts = (n, u) # us" using assms(1) by (cases ts) auto
  then obtain k where k: "unitMap u = Some k" using assms(2) [of n u] by auto
  have "written ts \<noteq> []" "is_digit (hd (written ts))" using written_head [of ts] by (auto simp: ts)
  moreover have "written ts \<noteq> ''0''"
  proof
    assume "written ts = ''0''"
    then have "length (written ts) = 1" by simp
    moreover have "0 < length (nat_digits n)" "0 < length u" using unit_facts(1) [OF k] by auto
    ultimately show False by (simp add: ts)
  qed
  ultimately show ?thesis
    using duration_terms_written [of ts 0] assms(2,3)
    by (simp add: ParseDuration_def parse_sign_digits Let_def)
qed

text \<open>The variables of the environment read back what was written to them.\<close>

lemma nothing_parses: "ParseDuration [] = None" "Atoi [] = None"
  by (simp_all add: ParseDuration_def Atoi_def parse_sign_def)

lemma getEnvDuration_read: "ParseDuration (vars key) = Some d \<Longrightarrow> getEnvDuration vars key defaultValue = Inr d"
  using nothing_parses(1) by (auto simp: getEnvDuration_def)

lemma getEnvInt_read: "Atoi (vars key) = Some n \<Longrightarrow>
    getEnvInt vars key = Inr n \<and> getEnvIntOrDefault vars key defaultValue = Inr n"
  using nothing_parses(2) by (auto simp: getEnvInt_def getEnvIntOrDefault_def)

end
