(* ===== verification/Heuristic.thy ===== *)
theory Heuristic
  imports AnalyzeContent
begin

text \<open>
  \<open>src/internal/infrastructure/analysis/heuristic\<close>: what the checks of the internal detector compute
  from the bytes and the pixels of an image. Floats are rationals. A slice that is read out of range
  panics in Go; here the result is then \<open>None\<close>.
\<close>

section \<open>Quantization tables: \<open>jpeg_dqt.go\<close>\<close>

text \<open>The body of one DQT segment: a byte with precision and identifier, then 64 entries of one byte, or of
  two. Only a precision of exactly 1 is asked to leave room for 128 bytes.\<close>

definition dqt_word :: "bytes \<Rightarrow> nat \<Rightarrow> nat" where
  "dqt_word bs j = unat (bs ! (2 * j)) * 256 + unat (bs ! (2 * j + 1))"

function dqt_segment :: "bytes \<Rightarrow> nat list list \<Rightarrow> nat list list option" where
  "dqt_segment [] tables = Some tables"
| "dqt_segment (info # bs) tables =
    (let precision = unat info div 16; n = (if precision = 1 then 128 else 64) in
     if length bs < n then Some tables
     else if precision = 0 then dqt_segment (drop 64 bs) (tables @ [List.map unat (take 64 bs)])
     else if length bs < 128 then None
     else dqt_segment (drop 128 bs) (tables @ [List.map (dqt_word bs) [0..<64]]))"
  by pat_completeness auto
termination by (relation "measure (\<lambda>(bs, _). length bs)") auto

text \<open>The scan over the markers, on the rest of the file at position \<open>i\<close>.\<close>

function dqt_scan :: "bytes \<Rightarrow> nat list list \<Rightarrow> nat list list option" where
  "dqt_scan s tables = (case s of a # m # h # l # rest \<Rightarrow>
     if a \<noteq> 0xFF then dqt_scan (m # h # l # rest) tables
     else if m = 0xD9 \<or> m = 0xDA then Some tables
     else if m = 0 \<or> m = 1 \<or> (0xD0 \<le> m \<and> m \<le> 0xD7) then dqt_scan (h # l # rest) tables
     else let n = unat h * 256 + unat l in
       if n < 2 \<or> length s < 2 + n then Some tables
       else (case (if m = 0xDB then dqt_segment (take (n - 2) rest) tables else Some tables) of
           None \<Rightarrow> None
         | Some tables \<Rightarrow> dqt_scan (drop (n - 2) rest) tables)
   | _ \<Rightarrow> Some tables)"
  by pat_completeness auto
termination by (relation "measure (\<lambda>(s, _). length s)") auto

declare dqt_scan.simps [simp del]

definition parseDQTMarkers :: "bytes \<Rightarrow> nat list list option" where
  "parseDQTMarkers raw = (if length raw < 4 \<or> raw ! 0 \<noteq> 0xFF \<or> raw ! 1 \<noteq> 0xD8 then Some []
     else dqt_scan (drop 2 raw) [])"

definition isGenericExportQuant :: "nat list list \<Rightarrow> string option" where
  "isGenericExportQuant tables = (case tables of [] \<Rightarrow> None | t # _ \<Rightarrow>
     let uniq = card (set t); avg = of_nat (sum_list t) / of_nat (length t) :: rat in
     if uniq \<le> 12 \<and> 8 \<le> avg \<and> avg \<le> 40 then Some ''generic-export''
     else if uniq \<le> 3 then Some ''flat-quant'' else None)"

section \<open>Metadata: \<open>image_util.go\<close>\<close>

definition ascii :: "string \<Rightarrow> bytes" where
  "ascii s = List.map of_char s"

definition hasJPEGExif :: "bytes \<Rightarrow> bool" where
  "hasJPEGExif raw \<longleftrightarrow> list_ex (\<lambda>i. raw ! i = 0xFF \<and> raw ! (i + 1) = 0xE1 \<and> i + 10 < length raw \<and>
     take 4 (drop (i + 4) raw) = ascii ''Exif'') [0..<length raw - 4]"

text \<open>\<open>bytes.ToLower\<close> as far as a search for ASCII text can tell: besides the ASCII letters, the Kelvin sign
  becomes \<open>k\<close> and the dotted capital I becomes \<open>i\<close>; no other character becomes an ASCII one.\<close>

function bytes_ToLower :: "bytes \<Rightarrow> bytes" where
  "bytes_ToLower [] = []"
| "bytes_ToLower (b # bs) =
    (if b = 0xE2 \<and> take 2 bs = [0x84, 0xAA] then 0x6B # bytes_ToLower (drop 2 bs)
     else if b = 0xC4 \<and> take 1 bs = [0xB0] then 0x69 # bytes_ToLower (drop 1 bs)
     else (if 0x41 \<le> b \<and> b \<le> 0x5A then b + 0x20 else b) # bytes_ToLower bs)"
  by pat_completeness auto
termination by (relation "measure length") auto

fun bytes_Contains :: "bytes \<Rightarrow> bytes \<Rightarrow> bool" where
  "bytes_Contains [] sub = (sub = [])"
| "bytes_Contains (b # bs) sub = (take (length sub) (b # bs) = sub \<or> bytes_Contains bs sub)"

definition generativeHints :: "string list" where
  "generativeHints = [''trainedalgorithmicmedia'', ''generative'', ''synthetic'', ''ai generated'', ''created with ai'']"

text \<open>\<open>Some generative\<close> when there is a marker.\<close>

definition hasC2PAMarker :: "bytes \<Rightarrow> bool option" where
  "hasC2PAMarker raw = (let lower = bytes_ToLower raw in
     if \<not> bytes_Contains lower (ascii ''c2pa'') \<and> \<not> bytes_Contains lower (ascii ''jumb'') then None
     else Some (list_ex (\<lambda>hint. bytes_Contains lower (ascii hint)) generativeHints))"

section \<open>Known hashes: \<open>known_hash_repo.go\<close>\<close>

definition hexNibble :: "char \<Rightarrow> nat" where
  "hexNibble c = (let n = of_char c in
     if 48 \<le> n \<and> n \<le> 57 then n - 48 else if 97 \<le> n \<and> n \<le> 102 then n - 97 + 10
     else if 65 \<le> n \<and> n \<le> 70 then n - 65 + 10 else 0)"

fun bit_count :: "nat \<Rightarrow> nat" where
  "bit_count x = (if x = 0 then 0 else x mod 2 + bit_count (x div 2))"

declare bit_count.simps [simp del]

unbundle bit_operations_syntax

definition nibble_distance :: "char \<Rightarrow> char \<Rightarrow> nat" where
  "nibble_distance a b = bit_count (hexNibble a XOR hexNibble b)"

definition hammingHex :: "string \<Rightarrow> string \<Rightarrow> int" where
  "hammingHex a b = (if length a \<noteq> length b then - 1
     else int (sum_list (map2 nibble_distance a b)))"

record known_hash =
  kh_PHash :: string
  kh_Source :: string
  kh_Label :: string

text \<open>The loop keeps the first of the closest rows.\<close>

fun closest :: "string \<Rightarrow> int \<Rightarrow> (known_hash \<times> int) option \<Rightarrow> known_hash list \<Rightarrow> (known_hash \<times> int) option" where
  "closest phash maxDistance best [] = best"
| "closest phash maxDistance best (row # rows) = (let d = hammingHex phash (kh_PHash row) in
     if d < 0 \<or> maxDistance < d then closest phash maxDistance best rows
     else (case best of
         None \<Rightarrow> closest phash maxDistance (Some (row, d)) rows
       | Some (r, e) \<Rightarrow> closest phash maxDistance (if d < e then Some (row, d) else best) rows))"

definition FindClosest :: "known_hash list app \<Rightarrow> string \<Rightarrow> int \<Rightarrow> (known_hash \<times> int) option app" where
  "FindClosest rows phash maxDistance = (if phash = [] then returnC None else
     tryC rows (\<lambda>e. if e = Err ''record not found'' then returnC None else failC e)
       (\<lambda>rs. returnC (closest phash (max 0 maxDistance) None rs)))"

section \<open>Pixels\<close>

text \<open>An image of Go's standard library: its bounds, and the 16-bit channels of a point.\<close>

record image =
  im_MinX :: int
  im_MinY :: int
  im_MaxX :: int
  im_MaxY :: int
  im_RGBA :: "int \<Rightarrow> int \<Rightarrow> int \<times> int \<times> int"

definition Dx :: "image \<Rightarrow> int" where "Dx im = im_MaxX im - im_MinX im"

definition Dy :: "image \<Rightarrow> int" where "Dy im = im_MaxY im - im_MinY im"

definition grayAt :: "image \<Rightarrow> int \<Rightarrow> int \<Rightarrow> rat" where
  "grayAt im x y = (case im_RGBA im x y of (r, g, b) \<Rightarrow>
     (299 / 1000 * of_int r + 587 / 1000 * of_int g + 114 / 1000 * of_int b) / 65535)"

definition toGrayMatrix :: "image \<Rightarrow> nat \<Rightarrow> rat list list" where
  "toGrayMatrix im n = List.map (\<lambda>y. List.map (\<lambda>x.
     grayAt im (im_MinX im + int x * Dx im div int n) (im_MinY im + int y * Dy im div int n)) [0..<n]) [0..<n]"

definition mean :: "rat list \<Rightarrow> rat" where
  "mean vs = (if vs = [] then 0 else sum_list vs / of_nat (length vs))"

definition variance :: "rat list \<Rightarrow> rat" where
  "variance vs = (if vs = [] then 0 else sum_list (List.map (\<lambda>v. (v - mean vs) * (v - mean vs)) vs) / of_nat (length vs))"

definition laplacianVariance :: "image \<Rightarrow> int \<Rightarrow> int \<Rightarrow> int \<Rightarrow> int \<Rightarrow> rat" where
  "laplacianVariance im x0 y0 x1 y1 =
    (let x0 = max x0 (im_MinX im); y0 = max y0 (im_MinY im); x1 = min x1 (im_MaxX im); y1 = min y1 (im_MaxY im) in
     if x1 - x0 < 3 \<or> y1 - y0 < 3 then 0
     else variance (concat (List.map (\<lambda>y. List.map (\<lambda>x.
       \<bar>4 * grayAt im x y - grayAt im x (y - 1) - grayAt im x (y + 1) - grayAt im (x - 1) y - grayAt im (x + 1) y\<bar>)
         [x0 + 1..x1 - 2]) [y0 + 1..y1 - 2])))"

definition tooSmall :: "image \<Rightarrow> int \<Rightarrow> bool" where
  "tooSmall im n \<longleftrightarrow> Dx im < n \<or> Dy im < n"

section \<open>Rulesets: \<open>ruleset.go\<close>, \<open>ruleset_store.go\<close>\<close>

record check_params =
  kp_Enabled :: bool
  kp_Weights :: "string \<rightharpoonup> rat"
  kp_Thresholds :: "string \<rightharpoonup> rat"
  kp_Params :: "string \<rightharpoonup> rat"

record ruleset =
  rs_Version :: int
  rs_ShortCircuitOn :: "string list"
  rs_ShortCircuitMinWeight :: rat
  rs_Checks :: "string \<rightharpoonup> check_params"

definition WeightFor :: "check_params \<Rightarrow> string \<Rightarrow> rat" where
  "WeightFor p code = (case kp_Weights p code of None \<Rightarrow> 2 / 10 | Some x \<Rightarrow> x)"

definition Threshold :: "check_params \<Rightarrow> string \<Rightarrow> rat" where
  "Threshold p name = (case kp_Thresholds p name of None \<Rightarrow> 0 | Some x \<Rightarrow> x)"

text \<open>The conversion of a float to an integer drops the fraction.\<close>

definition IntParam :: "check_params \<Rightarrow> string \<Rightarrow> int" where
  "IntParam p name = (case kp_Params p name of None \<Rightarrow> 0 | Some x \<Rightarrow> if 0 \<le> x then \<lfloor>x\<rfloor> else \<lceil>x\<rceil>)"

definition check_disabled :: check_params where
  "check_disabled = \<lparr>kp_Enabled = False, kp_Weights = Map.empty, kp_Thresholds = Map.empty, kp_Params = Map.empty\<rparr>"

definition ParamsFor :: "ruleset \<Rightarrow> string \<Rightarrow> check_params" where
  "ParamsFor r name = (case rs_Checks r name of None \<Rightarrow> check_disabled | Some p \<Rightarrow> p)"

definition ShouldShortCircuit :: "ruleset \<Rightarrow> signal list \<Rightarrow> bool" where
  "ShouldShortCircuit r signals = (let minWeight = (if rs_ShortCircuitMinWeight r \<le> 0 then 8 / 10 else rs_ShortCircuitMinWeight r) in
     list_ex (\<lambda>s. sg_Code s \<in> set (rs_ShortCircuitOn r) \<and> minWeight \<le> sg_Weight s) signals)"

definition DefaultRuleset :: ruleset where
  "DefaultRuleset = \<lparr>rs_Version = 0, rs_ShortCircuitOn = [''c2pa_generative'', ''known_hash_match''],
     rs_ShortCircuitMinWeight = 8 / 10,
     rs_Checks = [
       ''exif'' \<mapsto> check_disabled\<lparr>kp_Enabled := True,
         kp_Weights := [''exif_missing'' \<mapsto> 15 / 100, ''c2pa_generative'' \<mapsto> 95 / 100]\<rparr>,
       ''jpeg_quant'' \<mapsto> check_disabled\<lparr>kp_Enabled := True, kp_Weights := [''jpeg_quant_generic'' \<mapsto> 25 / 100]\<rparr>,
       ''prnu'' \<mapsto> check_disabled,
       ''frequency'' \<mapsto> check_disabled\<lparr>kp_Enabled := True,
         kp_Thresholds := [''frequency_peak_min'' \<mapsto> 35 / 100, ''frequency_periodicity_max'' \<mapsto> 55 / 100],
         kp_Weights := [''frequency_artifact'' \<mapsto> 4 / 10]\<rparr>,
       ''geometry'' \<mapsto> check_disabled,
       ''patch_noise'' \<mapsto> check_disabled\<lparr>kp_Enabled := True,
         kp_Params := [''patch_grid_size'' \<mapsto> 8, ''patch_outlier_max_count'' \<mapsto> 6],
         kp_Thresholds := [''patch_variance_stddev'' \<mapsto> 2], kp_Weights := [''patch_noise_inconsistent'' \<mapsto> 35 / 100]\<rparr>,
       ''known_hash'' \<mapsto> check_disabled\<lparr>kp_Enabled := True, kp_Params := [''hash_max_distance'' \<mapsto> 8],
         kp_Weights := [''known_hash_match'' \<mapsto> 9 / 10]\<rparr>]\<rparr>"

text \<open>The cache of the store: a ruleset and the time it was loaded. A row is a version and what its JSON
  decodes to; no row means the defaults.\<close>

record ruleset_cache =
  rc_Cached :: ruleset
  rc_LoadedAt :: gotime

definition rulesetTTL :: duration where
  "rulesetTTL = 2 * Minute"

definition Active :: "(ruleset res) option res \<Rightarrow> gotime \<Rightarrow> ruleset_cache \<Rightarrow> ruleset res \<times> ruleset_cache" where
  "Active row now c =
    (if \<not> IsZero (rc_LoadedAt c) \<and> now - rc_LoadedAt c < rulesetTTL then (Inr (rc_Cached c), c) else
     case row of Inl e \<Rightarrow> (Inl e, c)
     | Inr None \<Rightarrow> (Inr DefaultRuleset, \<lparr>rc_Cached = DefaultRuleset, rc_LoadedAt = now\<rparr>)
     | Inr (Some (Inl e)) \<Rightarrow> (Inl e, c)
     | Inr (Some (Inr cfg)) \<Rightarrow> (Inr cfg, \<lparr>rc_Cached = cfg, rc_LoadedAt = now\<rparr>))"

section \<open>Checks\<close>

text \<open>What the checks take from elsewhere: the image decoders and the perceptual hash, the trigonometric sum
  of the spectrum, the two formats of a float, and the rows of known hashes where a repository is configured.\<close>

record image_tools =
  it_decode :: "bytes \<Rightarrow> (image \<times> string) res"
  it_phash :: "image \<Rightarrow> string res"
  it_periodicity :: "rat list list \<Rightarrow> rat \<Rightarrow> rat"
  it_float2 :: "rat \<Rightarrow> string"
  it_percent :: "rat \<Rightarrow> string"
  it_hashes :: "known_hash list app option"

record check_input =
  ci_RawBytes :: bytes
  ci_Img :: image
  ci_Format :: string

definition okSignal :: "string \<Rightarrow> string \<Rightarrow> signal" where
  "okSignal name description = \<lparr>sg_Type = ''meta'', sg_Code = name @ ''_ok'', sg_Description = description, sg_Weight = 0\<rparr>"

definition skippedSignal :: "string \<Rightarrow> string \<Rightarrow> signal" where
  "skippedSignal name description =
     \<lparr>sg_Type = ''meta'', sg_Code = name @ ''_skipped'', sg_Description = description, sg_Weight = 0\<rparr>"

type_synonym check_run = "image_tools \<Rightarrow> check_input \<Rightarrow> check_params \<Rightarrow> signal list app"

text \<open>An index out of range ends the process in Go; here the analysis ends with this error.\<close>

definition index_panic :: go_error where
  "index_panic = Err ''runtime error: index out of range''"

definition ExifCheck :: check_run where
  "ExifCheck T i p = returnC (
     if hasC2PAMarker (ci_RawBytes i) = Some True then
       [\<lparr>sg_Type = ''metadata'', sg_Code = ''c2pa_generative'',
         sg_Description = ''Content Credentials declare generative origin (c2pa)'', sg_Weight = WeightFor p ''c2pa_generative''\<rparr>]
     else if ci_Format i = ''jpeg'' \<or> ci_Format i = ''jpg'' then
       if \<not> hasJPEGExif (ci_RawBytes i) then
         [\<lparr>sg_Type = ''metadata'', sg_Code = ''exif_missing'', sg_Description = ''No EXIF metadata found'',
           sg_Weight = WeightFor p ''exif_missing''\<rparr>]
       else [okSignal ''exif'' ''EXIF metadata present; no generative Content Credentials'']
     else [skippedSignal ''exif'' (''EXIF presence not scored for '' @ ci_Format i @ ''; no generative Content Credentials'')])"

definition KnownHashCheck :: check_run where
  "KnownHashCheck T i p = (case it_hashes T of
     None \<Rightarrow> returnC [skippedSignal ''known_hash'' ''Known-hash repository not configured'']
   | Some rows \<Rightarrow>
     bindC (liftC (it_phash T (ci_Img i))) (\<lambda>hash.
     let maxDistance = IntParam p ''hash_max_distance''; maxDistance = (if maxDistance \<le> 0 then 8 else maxDistance) in
     bindC (FindClosest rows hash maxDistance) (\<lambda>found. returnC (case found of
       None \<Rightarrow> [okSignal ''known_hash'' ''No match in known AI corpus'']
     | Some (row, d) \<Rightarrow>
       let src = (if kh_Source row = [] then ''known-ai-corpus'' else kh_Source row) in
       [\<lparr>sg_Type = ''heuristic'', sg_Code = ''known_hash_match'',
         sg_Description = ''Matches previously flagged content ('' @ src @ '', distance '' @ int_string d @ '')'',
         sg_Weight = WeightFor p ''known_hash_match''\<rparr>]))))"

definition JPEGQuantCheck :: check_run where
  "JPEGQuantCheck T i p =
    (if ci_Format i \<noteq> ''jpeg'' \<and> ci_Format i \<noteq> ''jpg'' then
       returnC [skippedSignal ''jpeg_quant'' (''JPEG quantization check not applicable for '' @ ci_Format i)]
     else case parseDQTMarkers (ci_RawBytes i) of
       None \<Rightarrow> failC index_panic
     | Some tables \<Rightarrow> returnC (case isGenericExportQuant tables of
         None \<Rightarrow> [okSignal ''jpeg_quant'' ''Quantization tables do not match known generic export profiles'']
       | Some tool \<Rightarrow> [\<lparr>sg_Type = ''heuristic'', sg_Code = ''jpeg_quant_generic'',
           sg_Description = ''Generic quantization table ('' @ tool @ ''), no real camera signature'',
           sg_Weight = WeightFor p ''jpeg_quant_generic''\<rparr>]))"

definition dimensions :: "image \<Rightarrow> string" where
  "dimensions im = int_string (Dx im) @ ''x'' @ int_string (Dy im)"

definition or_default :: "rat \<Rightarrow> rat \<Rightarrow> rat" where
  "or_default x d = (if x \<le> 0 then d else x)"

definition FrequencyCheck :: check_run where
  "FrequencyCheck T i p =
    (if tooSmall (ci_Img i) 32 then returnC [skippedSignal ''frequency''
       (''Image too small for spectral analysis ('' @ dimensions (ci_Img i) @ '', min 32)'')]
     else
       let score = it_periodicity T (toGrayMatrix (ci_Img i) 32) (or_default (Threshold p ''frequency_peak_min'') (35 / 100)) in
       returnC (if or_default (Threshold p ''frequency_periodicity_max'') (55 / 100) < score then
         [\<lparr>sg_Type = ''heuristic'', sg_Code = ''frequency_artifact'',
           sg_Description = ''Periodic pattern detected in frequency spectrum (score '' @ it_float2 T score @ '')'',
           sg_Weight = WeightFor p ''frequency_artifact''\<rparr>]
       else [okSignal ''frequency'' (''Frequency spectrum within normal range (score '' @ it_float2 T score @ '')'')]))"

text \<open>The distance to the mean in standard deviations is compared squared, so that no root is taken.\<close>

definition outliers :: "rat \<Rightarrow> rat list \<Rightarrow> int" where
  "outliers t vs = int (length (List.filter (\<lambda>v. variance vs \<noteq> 0 \<and>
     t * t * variance vs < (v - mean vs) * (v - mean vs)) vs))"

definition PatchNoiseCheck :: check_run where
  "PatchNoiseCheck T i p =
    (let im = ci_Img i; grid = IntParam p ''patch_grid_size''; grid = (if grid \<le> 0 then 8 else grid);
         pw = Dx im div grid; ph = Dy im div grid in
     returnC (if tooSmall im 64 then [skippedSignal ''patch_noise''
         (''Image too small for patch analysis ('' @ dimensions im @ '', min 64)'')]
       else if pw < 4 \<or> ph < 4 then [skippedSignal ''patch_noise'' ''Image too small for patch grid'']
       else
         let variances = concat (List.map (\<lambda>gy. List.map (\<lambda>gx.
               let x0 = im_MinX im + gx * pw; y0 = im_MinY im + gy * ph in
               laplacianVariance im x0 y0 (x0 + pw) (y0 + ph)) [0..grid - 1]) [0..grid - 1]);
             n = outliers (or_default (Threshold p ''patch_variance_stddev'') 2) variances;
             maxOutliers = IntParam p ''patch_outlier_max_count'';
             maxOutliers = (if maxOutliers \<le> 0 then 6 else maxOutliers) in
         if maxOutliers < n then
           [\<lparr>sg_Type = ''heuristic'', sg_Code = ''patch_noise_inconsistent'',
             sg_Description = int_string n @ '' regions with inconsistent sharpness relative to the rest of the image'',
             sg_Weight = WeightFor p ''patch_noise_inconsistent''\<rparr>]
         else [okSignal ''patch_noise'' (''Patch sharpness consistent across regions ('' @ int_string n @
           '' outliers, max '' @ int_string maxOutliers @ '')'')]))"

definition PRNUCheck :: check_run where
  "PRNUCheck T i p = returnC [skippedSignal ''prnu'' ''PRNU runtime not wired'']"

definition GeometryCheck :: check_run where
  "GeometryCheck T i p = returnC [skippedSignal ''geometry'' ''Geometry/landmark runtime not wired'']"

definition heuristic_checks :: "(string \<times> check_run) list" where
  "heuristic_checks = [(''exif'', ExifCheck), (''known_hash'', KnownHashCheck), (''jpeg_quant'', JPEGQuantCheck),
     (''frequency'', FrequencyCheck), (''patch_noise'', PatchNoiseCheck), (''prnu'', PRNUCheck),
     (''geometry'', GeometryCheck)]"

section \<open>The detector: \<open>detector.go\<close>\<close>

definition skip_remaining :: "ruleset \<Rightarrow> string \<Rightarrow> signal" where
  "skip_remaining rs name = skippedSignal name
     (if kp_Enabled (ParamsFor rs name) then ''Skipped after decisive finding'' else ''Check disabled in active ruleset'')"

fun run_checks :: "image_tools \<Rightarrow> ruleset \<Rightarrow> check_input \<Rightarrow> (string \<times> check_run) list \<Rightarrow> signal list \<Rightarrow> signal list app" where
  "run_checks T rs i [] signals = returnC signals"
| "run_checks T rs i ((name, run) # checks) signals =
    (if \<not> kp_Enabled (ParamsFor rs name) then
       run_checks T rs i checks (signals @ [skippedSignal name ''Check disabled in active ruleset''])
     else tryC (run T i (ParamsFor rs name))
       (\<lambda>e. if e = index_panic then failC e
            else run_checks T rs i checks (signals @ [skippedSignal name ''Check failed'']))
       (\<lambda>sigs. let signals = signals @ sigs in
          if ShouldShortCircuit rs signals
          then returnC (signals @ List.map (\<lambda>(name, _). skip_remaining rs name) checks)
          else run_checks T rs i checks signals))"

text \<open>\<open>rulesets\<close> is the store, if there is one. A cancelled context fails the download.\<close>

definition active_ruleset :: "ruleset app option \<Rightarrow> ruleset app" where
  "active_ruleset rulesets = (case rulesets of None \<Rightarrow> returnC DefaultRuleset
     | Some active \<Rightarrow> tryC active (\<lambda>e. returnC DefaultRuleset) returnC)"

definition MaxContentBytes :: int where
  "MaxContentBytes = 20 * 1024 * 1024"

definition heuristic_Analyze :: "image_tools \<Rightarrow> ruleset app option \<Rightarrow> bool \<Rightarrow> uuid \<Rightarrow> string \<Rightarrow> signal list app" where
  "heuristic_Analyze T rulesets cancelled contentID objectKey =
    bindC (active_ruleset rulesets) (\<lambda>rs.
    thenC (stateC (\<lambda>w. (Inr (), w\<lparr>wd_rulesets := (wd_rulesets w)(contentID \<mapsto> rs_Version rs)\<rparr>)))
    (bindC (mapErrC (Wrapped ''heuristic: download'')
        (if cancelled then failC (Err ''context canceled'') else storage_Get objectKey)) (\<lambda>raw.
    thenC (mapErrC (Wrapped ''heuristic: read'') callC)
    (if MaxContentBytes < int (length raw) then failC (Err ''heuristic: file too large'') else
    bindC (mapErrC (Wrapped ''heuristic: decode image'') (liftC (it_decode T raw))) (\<lambda>(img, fmt).
    run_checks T rs \<lparr>ci_RawBytes = raw, ci_Img = img, ci_Format = fmt\<rparr> heuristic_checks [])))))"

definition TakeRulesetVersion :: "uuid \<Rightarrow> int option app" where
  "TakeRulesetVersion contentID = stateC (\<lambda>w. (Inr (case wd_rulesets w contentID of
       None \<Rightarrow> None | Some v \<Rightarrow> if v \<le> 0 then None else Some v),
     w\<lparr>wd_rulesets := (wd_rulesets w)(contentID := None)\<rparr>))"

definition heuristic_detector :: "image_tools \<Rightarrow> ruleset app option \<Rightarrow> detector" where
  "heuristic_detector T rulesets = \<lparr>det_Name = ''heuristic'', det_ExpectedWeight = 1, det_ExternalDetector = None,
     det_Analyze = heuristic_Analyze T rulesets, det_TakeRulesetVersion = Some TakeRulesetVersion\<rparr>"

end
