(* ===== verification/Detectors.thy ===== *)
theory Detectors
  imports Heuristic
begin

text \<open>
  \<open>src/internal/infrastructure/analysis/registry.go\<close>, \<open>.../analysis/metadata\<close> and
  \<open>.../sightengine/detector.go\<close>: the detectors that production runs, and what their answers mean for
  the verdict.
\<close>

section \<open>The metadata detector\<close>

definition metadata_detector :: detector where
  "metadata_detector = \<lparr>det_Name = ''metadata'', det_ExpectedWeight = 1, det_ExternalDetector = None,
     det_Analyze = (\<lambda>cancelled contentID objectKey. returnC [\<lparr>sg_Type = ''meta'', sg_Code = ''object_present'',
       sg_Description = ''Object key recorded: '' @ objectKey, sg_Weight = 1 / 10\<rparr>]),
     det_TakeRulesetVersion = None\<rparr>"

section \<open>Sightengine\<close>

text \<open>What the service answers: the status code, the first bytes of the body, and what its JSON decodes to. The
  scores of the generators come in the order in which Go iterates over the map.\<close>

record se_response =
  se_Status :: string
  se_AIGenerated :: rat
  se_AIGenerators :: "(string \<times> rat) list"

record se_reply =
  sr_StatusCode :: int
  sr_Body :: string
  sr_Decoded :: "se_response res"

fun top_loop :: "(string \<times> rat) \<Rightarrow> (string \<times> rat) list \<Rightarrow> string \<times> rat" where
  "top_loop best [] = best"
| "top_loop best ((name, score) # rest) = top_loop (if snd best < score then (name, score) else best) rest"

definition topGenerator :: "(string \<times> rat) list \<Rightarrow> string \<times> rat" where
  "topGenerator gs = top_loop ([], 0) gs"

definition mapToSignals :: "image_tools \<Rightarrow> se_response \<Rightarrow> signal list" where
  "mapToSignals T out =
    [\<lparr>sg_Type = ''model'', sg_Code = ''sightengine_genai'',
      sg_Description = ''Sightengine (GenAI): '' @ it_percent T (se_AIGenerated out * 100) @ ''% AI confidence'',
      sg_Weight = se_AIGenerated out\<rparr>] @
    (if 3 / 10 < se_AIGenerated out then
       let (name, score) = topGenerator (se_AIGenerators out) in
       if 1 / 10 < score then
         [\<lparr>sg_Type = ''model'', sg_Code = ''sightengine_generator_match'',
           sg_Description = ''Probable match: '' @ name @ '' ('' @ it_percent T (score * 100) @ ''%)'', sg_Weight = score\<rparr>]
       else []
     else [])"

definition callAPI :: "image_tools \<Rightarrow> (bytes \<Rightarrow> se_reply app) \<Rightarrow> bytes \<Rightarrow> signal list app" where
  "callAPI T send raw =
    bindC (mapErrC (Wrapped ''sightengine: request failed'') (send raw)) (\<lambda>reply.
    if 400 \<le> sr_StatusCode reply then
      failC (Err (''sightengine: status '' @ int_string (sr_StatusCode reply) @ '': '' @ sr_Body reply)) else
    bindC (mapErrC (Wrapped ''sightengine: decode'') (liftC (sr_Decoded reply))) (\<lambda>out.
    if se_Status out \<noteq> ''success'' then failC (Err (''sightengine: api status '' @ se_Status out))
    else returnC (mapToSignals T out)))"

text \<open>The copy to a temporary file is a call that may fail.\<close>

definition sightengine_Analyze :: "image_tools \<Rightarrow> (bytes \<Rightarrow> se_reply app) \<Rightarrow> bool \<Rightarrow> uuid \<Rightarrow> string \<Rightarrow> signal list app" where
  "sightengine_Analyze T send cancelled contentID objectKey =
    bindC (mapErrC (Wrapped ''sightengine: download'')
      (bindC (if cancelled then failC (Err ''context canceled'') else storage_Get objectKey)
        (\<lambda>raw. thenC callC (returnC raw)))) (callAPI T send)"

definition sightengine_detector :: "image_tools \<Rightarrow> (bytes \<Rightarrow> se_reply app) \<Rightarrow> detector" where
  "sightengine_detector T send = \<lparr>det_Name = ''sightengine'', det_ExpectedWeight = 1, det_ExternalDetector = Some True,
     det_Analyze = sightengine_Analyze T send, det_TakeRulesetVersion = None\<rparr>"

section \<open>The registry\<close>

definition BuildDetectors :: "string \<Rightarrow> string \<Rightarrow> image_tools \<Rightarrow> ruleset app option \<Rightarrow> (bytes \<Rightarrow> se_reply app) \<Rightarrow> detector list" where
  "BuildDetectors apiUser apiSecret T rulesets send =
    [metadata_detector, heuristic_detector T rulesets] @
    (if apiUser \<noteq> [] \<and> apiSecret \<noteq> [] then [sightengine_detector T send] else [])"

section \<open>The detectors are quiet\<close>

text \<open>A quiet computation keeps, whatever the world is, that only the clock and the noted versions moved.\<close>

definition noted :: "world \<Rightarrow> world \<Rightarrow> bool" where
  "noted w w' \<longleftrightarrow> (\<exists>n f. w' = w\<lparr>wd_tick := n, wd_rulesets := f\<rparr>)"

lemma noted_refl: "noted w w"
proof -
  have "w = w\<lparr>wd_tick := wd_tick w, wd_rulesets := wd_rulesets w\<rparr>" by simp
  then show ?thesis unfolding noted_def by blast
qed

lemma noted_step: "noted w v \<Longrightarrow> noted w (v\<lparr>wd_tick := n\<rparr>)" "noted w v \<Longrightarrow> noted w (v\<lparr>wd_rulesets := f\<rparr>)"
  by (cases w; cases v; auto simp: noted_def)+

lemma noted_trans: "noted w v \<Longrightarrow> noted v u \<Longrightarrow> noted w u"
  by (cases w; cases v; cases u) (auto simp: noted_def)

lemma quiet_keeps: "quiet c \<longleftrightarrow> (\<forall>w. keeps (\<lambda>r. noted w) c)"
proof
  assume q: "quiet c"
  show "\<forall>w. keeps (\<lambda>r. noted w) c"
    unfolding keeps_def using q noted_trans unfolding quiet_def noted_def by metis
next
  assume k: "\<forall>w. keeps (\<lambda>r. noted w) c"
  show "quiet c"
    unfolding quiet_def using k noted_refl unfolding keeps_def noted_def by metis
qed

lemmas quietI = quiet_keeps [THEN iffD2, rule_format]
lemmas quietD = quiet_keeps [THEN iffD1, rule_format]

lemma keeps_noted_calls: "keeps (\<lambda>r. noted w) callC" "keeps (\<lambda>r. noted w) (storage_Get key)"
  unfolding storage_Get_def by (intro keeps_intros keeps_call keeps_state noted_step; auto split: option.splits)+

lemma quiet_TakeRulesetVersion: "quiet (TakeRulesetVersion i)"
  unfolding TakeRulesetVersion_def by (intro quietI keeps_state) (simp add: noted_step)

lemma quiet_metadata: "detector_quiet metadata_detector"
  unfolding detector_quiet_def metadata_detector_def by (auto intro!: quietI keeps_intros)

lemma quiet_sightengine:
  assumes "\<And>raw. quiet (send raw)"
  shows "detector_quiet (sightengine_detector T send)"
proof -
  have "quiet (sightengine_Analyze T send x i key)" for x i key
    unfolding sightengine_Analyze_def callAPI_def
    by (rule quietI) (intro keeps_intros keeps_noted_calls quietD [OF assms])
  then show ?thesis by (simp add: detector_quiet_def sightengine_detector_def)
qed

text \<open>Every check is quiet when the read of the known hashes is.\<close>

definition tools_quiet :: "image_tools \<Rightarrow> bool" where
  "tools_quiet T \<longleftrightarrow> (\<forall>rows. it_hashes T = Some rows \<longrightarrow> quiet rows)"

lemma keeps_checks:
  assumes "tools_quiet T" and "(name, run) \<in> set heuristic_checks"
  shows "keeps (\<lambda>r. noted w) (run T i p)"
proof -
  have "keeps (\<lambda>r. noted w) rows" if "it_hashes T = Some rows" for rows
    using assms(1) that quietD by (auto simp: tools_quiet_def)
  then have "keeps (\<lambda>r. noted w) (KnownHashCheck T i p)"
    unfolding KnownHashCheck_def FindClosest_def Let_def by (auto intro!: keeps_intros split: option.splits)
  moreover have "keeps (\<lambda>r. noted w) (f T i p)"
    if "f \<in> {ExifCheck, JPEGQuantCheck, FrequencyCheck, PatchNoiseCheck, PRNUCheck, GeometryCheck}" for f
    using that by (auto simp: ExifCheck_def JPEGQuantCheck_def FrequencyCheck_def PatchNoiseCheck_def PRNUCheck_def
        GeometryCheck_def Let_def intro!: keeps_intros split: option.splits)
  ultimately show ?thesis using assms(2) by (auto simp: heuristic_checks_def)
qed

lemma keeps_run_checks:
  assumes "tools_quiet T" and "set cs \<subseteq> set heuristic_checks"
  shows "keeps (\<lambda>r. noted w) (run_checks T rs i cs ss)"
  using assms(2)
proof (induction cs arbitrary: ss)
  case Nil
  then show ?case by (simp add: keeps_return)
next
  case (Cons c cs)
  have k: "keeps (\<lambda>r. noted w) (snd c T i p)" for p
    using keeps_checks [OF assms(1), of "fst c" "snd c"] Cons.prems by simp
  have ih: "keeps (\<lambda>r. noted w) (run_checks T rs i cs ss)" for ss using Cons by simp
  show ?case
    by (cases c) (use k ih in \<open>auto simp: Let_def intro!: keeps_try keeps_if keeps_fail keeps_return\<close>)
qed

lemma quiet_heuristic:
  assumes "tools_quiet T" and "\<And>active. rulesets = Some active \<Longrightarrow> quiet active"
  shows "detector_quiet (heuristic_detector T rulesets)"
proof -
  have "keeps (\<lambda>r. noted w) (active_ruleset rulesets)" for w
    unfolding active_ruleset_def using assms(2) quietD by (auto intro!: keeps_intros split: option.splits)
  then have "quiet (heuristic_Analyze T rulesets x i key)" for x i key
    unfolding heuristic_Analyze_def
    by (intro quietI keeps_intros keeps_noted_calls keeps_run_checks [OF assms(1)] keeps_state order_refl) (auto simp: noted_step)
  then show ?thesis by (simp add: detector_quiet_def heuristic_detector_def quiet_TakeRulesetVersion)
qed

lemma BuildDetectors_quiet:
  assumes "tools_quiet T" and "\<And>active. rulesets = Some active \<Longrightarrow> quiet active" and "\<And>raw. quiet (send raw)"
    and "d \<in> set (BuildDetectors u k T rulesets send)"
  shows "detector_quiet d"
  using assms(4) quiet_metadata quiet_heuristic [OF assms(1,2)] quiet_sightengine [OF assms(3)]
  by (auto simp: BuildDetectors_def split: if_splits)

end
