(* ===== verification/DetectorFacts.thy ===== *)
theory DetectorFacts
  imports Detectors
begin

text \<open>
  What the detectors answer: every check of the heuristic detector speaks once, the checks that found
  nothing or did not apply leave the verdict alone, the closest known hash is found, and the tables of
  a JPEG are read without a panic where the file keeps to the standard.
\<close>

section \<open>One signal per check\<close>

definition speaks_once :: "signal list app \<Rightarrow> bool" where
  "speaks_once c \<longleftrightarrow> (\<forall>r w. wp c (\<lambda>ss _. length ss = 1) (\<lambda>_ _. True) r w)"

lemma checks_speak_once:
  assumes "(name, run) \<in> set heuristic_checks"
  shows "speaks_once (run T i p)"
proof -
  have "speaks_once (KnownHashCheck T i p)"
    by (cases "it_hashes T"; cases "it_phash T (ci_Img i)")
      (simp_all add: speaks_once_def KnownHashCheck_def FindClosest_def Let_def split: if_splits, (intro allI impI conjI; rule wp_any; auto split: option.splits)+)
  then show ?thesis
    using assms by (auto simp: heuristic_checks_def speaks_once_def ExifCheck_def JPEGQuantCheck_def FrequencyCheck_def
        PatchNoiseCheck_def PRNUCheck_def GeometryCheck_def Let_def split: option.splits)
qed

lemma wp_run_checks:
  fixes w :: world
  assumes "set cs \<subseteq> set heuristic_checks"
  shows "wp (run_checks T rs i cs ss) (\<lambda>res _. length res = length ss + length cs \<and> (\<exists>new. res = ss @ new))
    (\<lambda>e _. e = index_panic) r w"
  using assms
proof (induction cs arbitrary: ss w)
  case Nil
  then show ?case by simp
next
  case (Cons c cs)
  obtain name run where c: "c = (name, run)" by (cases c)
  have one: "wp (run T i p) Q E r v" if q: "\<And>x v. Q [x] v" and e: "\<And>e v. E e v" for p Q E and v :: world
  proof (rule wp_mono)
    show "wp (run T i p) (\<lambda>ss _. length ss = 1) (\<lambda>_ _. True) r v"
      using checks_speak_once [of name run T i p] Cons.prems by (simp add: speaks_once_def c)
    show "length a = 1 \<Longrightarrow> Q a w'" for a w' using q by (cases a) auto
  qed (rule e)
  have go: "wp (run_checks T rs i cs (ss @ [x])) (\<lambda>res _. length res = length ss + length (c # cs) \<and> (\<exists>new. res = ss @ new))
      (\<lambda>e _. e = index_panic) r v" for x and v :: world
    by (rule wp_mono [OF Cons.IH]) (use Cons.prems in auto)
  have run: "wp (tryC (run T i p) (\<lambda>e. if e = index_panic then failC e
        else run_checks T rs i cs (ss @ [skippedSignal name ''Check failed'']))
      (\<lambda>sigs. let signals = ss @ sigs in if ShouldShortCircuit rs signals then returnC (signals @ List.map (\<lambda>(name, _). skip_remaining rs name) cs)
          else run_checks T rs i cs signals)) (\<lambda>res _. length res = length ss + length (c # cs) \<and> (\<exists>new. res = ss @ new))
      (\<lambda>e _. e = index_panic) r v" for p and v :: world
    unfolding wp_try Let_def by (rule one) (use go in auto)
  show ?case
    unfolding c run_checks.simps using run go by (simp add: c)
qed

text \<open>Only the findings count: what says that a check found nothing, or was skipped, leaves the label alone.\<close>

lemma computeLabel_counted: "computeLabel (List.filter signal_counts ss) = computeLabel ss"
  by (simp add: computeLabel_def aiScore_eq)

lemma silent_signals: "\<not> signal_counts (okSignal name d)" "\<not> signal_counts (skippedSignal name d)"
  by (simp_all add: signal_counts_def okSignal_def skippedSignal_def)

section \<open>The closest known hash\<close>

lemma hexNibble_less: "hexNibble c < 16"
  by (auto simp: hexNibble_def Let_def)

lemma bit_count_0: "bit_count x = 0 \<longleftrightarrow> x = 0"
proof (induction x rule: bit_count.induct)
  case (1 x)
  have "bit_count x = x mod 2 + bit_count (x div 2)" if "x \<noteq> 0" using that bit_count.simps [of x] by simp
  then show ?case using 1 by (cases "x = 0") (auto simp: bit_count.simps [of 0])
qed

lemma nibble_distance_0: "nibble_distance a b = 0 \<longleftrightarrow> hexNibble a = hexNibble b"
proof -
  have "xor x y = 0 \<longleftrightarrow> x = y" for x y :: nat by (auto simp: bit_eq_iff bit_simps)
  then show ?thesis by (simp add: nibble_distance_def bit_count_0)
qed

lemma nibble_distance_sym: "nibble_distance a b = nibble_distance b a"
  by (simp add: nibble_distance_def xor.commute)

lemma hammingHex_sym: "hammingHex a b = hammingHex b a"
proof -
  have "map2 nibble_distance a b = map2 nibble_distance b a"
    by (subst zip_commute) (auto intro: nibble_distance_sym)
  then show ?thesis by (simp add: hammingHex_def)
qed

lemma hammingHex_0: "hammingHex a b = 0 \<longleftrightarrow> List.map hexNibble a = List.map hexNibble b"
proof (cases "length a = length b")
  case True
  then have "(\<forall>(x, y) \<in> set (zip a b). nibble_distance x y = 0) \<longleftrightarrow> List.map hexNibble a = List.map hexNibble b"
    by (induction a b rule: list_induct2) (auto simp: nibble_distance_0)
  then show ?thesis using True by (auto simp: hammingHex_def)
next
  case False
  then have "List.map hexNibble a \<noteq> List.map hexNibble b" by (metis length_map)
  then show ?thesis using False by (simp add: hammingHex_def)
qed

text \<open>The rows that are close enough, and what the search makes of them.\<close>

definition near :: "string \<Rightarrow> int \<Rightarrow> known_hash \<Rightarrow> bool" where
  "near phash maxDistance row \<longleftrightarrow> 0 \<le> hammingHex phash (kh_PHash row) \<and> hammingHex phash (kh_PHash row) \<le> maxDistance"

definition closest_of :: "string \<Rightarrow> int \<Rightarrow> known_hash list \<Rightarrow> (known_hash \<times> int) option \<Rightarrow> bool" where
  "closest_of phash maxDistance rows res \<longleftrightarrow> (case res of
     None \<Rightarrow> \<forall>row \<in> set rows. \<not> near phash maxDistance row
   | Some (row, d) \<Rightarrow> row \<in> set rows \<and> near phash maxDistance row \<and> d = hammingHex phash (kh_PHash row) \<and>
       (\<forall>row' \<in> set rows. near phash maxDistance row' \<longrightarrow> d \<le> hammingHex phash (kh_PHash row')))"

lemma closest_of_step: "closest_of p m seen best \<Longrightarrow> closest_of p m (seen @ rows) (closest p m best rows)"
proof (induction rows arbitrary: seen best)
  case Nil
  then show ?case by simp
next
  case (Cons row rows)
  let ?d = "hammingHex p (kh_PHash row)"
  define best' where "best' = (if ?d < 0 \<or> m < ?d then best else (case best of None \<Rightarrow> Some (row, ?d)
     | Some (q, e) \<Rightarrow> if ?d < e then Some (row, ?d) else best))"
  have "closest_of p m (seen @ [row]) best'"
    using Cons.prems by (auto simp: best'_def closest_of_def near_def split: option.splits if_splits)
  from Cons.IH [OF this] have "closest_of p m (seen @ row # rows) (closest p m best' rows)" by simp
  moreover have "closest p m best (row # rows) = closest p m best' rows"
    by (auto simp: best'_def Let_def split: option.splits)
  ultimately show ?case by simp
qed

lemma closest_of_search: "closest_of p m rows (closest p m None rows)"
  using closest_of_step [of p m "[]" None rows] by (simp add: closest_of_def)

section \<open>Quantization tables\<close>

lemma dqt_segment_64: "dqt_segment bs ts = Some us \<Longrightarrow> \<forall>t \<in> set ts. length t = 64 \<Longrightarrow> \<forall>t \<in> set us. length t = 64"
proof (induction bs ts rule: dqt_segment.induct)
  case (1 ts)
  then show ?case by simp
next
  case (2 info bs ts)
  then show ?case by (auto simp: Let_def split: if_splits)
qed

lemma dqt_scan_64: "dqt_scan s ts = Some us \<Longrightarrow> \<forall>t \<in> set ts. length t = 64 \<Longrightarrow> \<forall>t \<in> set us. length t = 64"
proof (induction "length s" arbitrary: s ts rule: less_induct)
  case less
  have ih: "dqt_scan s' ts' = Some us \<Longrightarrow> length s' < length s \<Longrightarrow> \<forall>t \<in> set ts'. length t = 64 \<Longrightarrow>
      u \<in> set us \<Longrightarrow> length u = 64" for s' ts' u
    using less.hyps by blast
  show ?case
  proof
    fix u
    assume "u \<in> set us"
    then show "length u = 64"
      using less.prems dqt_segment_64
      by (subst (asm) dqt_scan.simps)
        (auto simp: Let_def split: list.splits if_splits option.splits elim!: ih; blast)
  qed
qed

text \<open>A table as the standard writes it, of bytes or of words, and a file of such tables up to the scan.\<close>

definition word_bytes :: "nat \<Rightarrow> bytes" where
  "word_bytes v = [word_of_nat (v div 256), word_of_nat (v mod 256)]"

definition encode_table :: "bool \<times> nat \<times> nat list \<Rightarrow> bytes" where
  "encode_table = (\<lambda>(wide, i, t). if wide then word_of_nat (16 + i) # concat (List.map word_bytes t)
     else word_of_nat i # List.map word_of_nat t)"

definition table_wf :: "bool \<times> nat \<times> nat list \<Rightarrow> bool" where
  "table_wf = (\<lambda>(wide, i, t). i < 16 \<and> length t = 64 \<and> (\<forall>v \<in> set t. v < (if wide then 65536 else 256)))"

definition dqt_marker :: "(bool \<times> nat \<times> nat list) list \<Rightarrow> bytes" where
  "dqt_marker ts = [0xFF, 0xDB] @ word_bytes (length (concat (List.map encode_table ts)) + 2) @ concat (List.map encode_table ts)"

lemma unat_byte [simp]: "n < 256 \<Longrightarrow> unat (word_of_nat n :: 8 word) = n"
  by (simp add: unat_of_nat)

lemma word_bytes_value: "v < 65536 \<Longrightarrow> unat (word_of_nat (v div 256) :: 8 word) * 256 + unat (word_of_nat (v mod 256) :: 8 word) = v"
  by (subst unat_byte; simp add: less_mult_imp_div_less)

lemma dqt_words:
  assumes "\<forall>v \<in> set t. v < 65536" and "j < length t"
  shows "dqt_word (concat (List.map word_bytes t) @ rest) j = t ! j"
  using assms
proof (induction t arbitrary: j)
  case Nil
  then show ?case by simp
next
  case (Cons v t)
  show ?case
  proof (cases j)
    case 0
    then show ?thesis using Cons.prems word_bytes_value [of v] by (simp add: dqt_word_def word_bytes_def)
  next
    case (Suc k)
    have "dqt_word (concat (List.map word_bytes (v # t)) @ rest) j = dqt_word (concat (List.map word_bytes t) @ rest) k"
      by (simp add: dqt_word_def word_bytes_def Suc)
    then show ?thesis using Cons Suc by simp
  qed
qed

lemma length_word_bytes: "length (concat (List.map word_bytes t)) = 2 * length t"
  by (induction t) (auto simp: word_bytes_def)

lemma dqt_segment_table:
  assumes "table_wf x"
  shows "dqt_segment (encode_table x @ rest) ts = dqt_segment rest (ts @ [snd (snd x)])"
proof -
  obtain wide i t where x: "x = (wide, i, t)" by (cases x)
  have t: "i < 16" "length t = 64" using assms by (auto simp: x table_wf_def)
  show ?thesis
  proof (cases wide)
    case True
    then have v: "\<forall>v \<in> set t. v < 65536" using assms by (simp add: x table_wf_def)
    have "List.map (dqt_word (concat (List.map word_bytes t) @ rest)) [0..<64] = t"
      using dqt_words [OF v] t(2) by (intro nth_equalityI) auto
    moreover have "unat (word_of_nat (16 + i) :: 8 word) div 16 = 1" using t(1) by (subst unat_byte) auto
    ultimately show ?thesis using t True by (simp add: x encode_table_def length_word_bytes Let_def del: of_nat_add)
  next
    case False
    have "List.map (\<lambda>v. unat (word_of_nat v :: 8 word)) t = t"
      using assms False by (intro map_idI) (simp add: x table_wf_def)
    then show ?thesis using t False by (simp add: x encode_table_def Let_def comp_def)
  qed
qed

lemma dqt_segment_tables:
  "\<forall>x \<in> set xs. table_wf x \<Longrightarrow> dqt_segment (concat (List.map encode_table xs)) ts = Some (ts @ List.map (snd \<circ> snd) xs)"
proof (induction xs arbitrary: ts)
  case Nil
  then show ?case by simp
next
  case (Cons x xs)
  then show ?case using dqt_segment_table [of x] by simp
qed

lemma dqt_scan_marker:
  assumes "\<forall>x \<in> set xs. table_wf x" and "length (concat (List.map encode_table xs)) + 2 < 65536"
  shows "dqt_scan (dqt_marker xs @ rest) ts = dqt_scan rest (ts @ List.map (snd \<circ> snd) xs)"
proof -
  let ?body = "concat (List.map encode_table xs)"
  obtain h l where hl: "word_bytes (length ?body + 2) = [h, l]" "unat h * 256 + unat l = length ?body + 2"
    using word_bytes_value [OF assms(2)] by (simp add: word_bytes_def)
  have "dqt_scan (0xFF # 0xDB # h # l # ?body @ rest) ts = dqt_scan rest (ts @ List.map (snd \<circ> snd) xs)"
    by (subst dqt_scan.simps) (simp add: Let_def hl(2) dqt_segment_tables [OF assms(1)])
  then show ?thesis unfolding dqt_marker_def hl(1) by simp
qed

lemma dqt_scan_markers:
  assumes "\<forall>xs \<in> set xss. (\<forall>x \<in> set xs. table_wf x) \<and> length (concat (List.map encode_table xs)) + 2 < 65536"
  shows "dqt_scan (concat (List.map dqt_marker xss) @ 0xFF # 0xDA # rest) ts =
    Some (ts @ concat (List.map (List.map (snd \<circ> snd)) xss))"
  using assms
proof (induction xss arbitrary: ts)
  case Nil
  then show ?case by (subst dqt_scan.simps) (auto split: list.splits)
next
  case (Cons xs xss)
  then show ?case using dqt_scan_marker [of xs "concat (List.map dqt_marker xss) @ 0xFF # 0xDA # rest" ts] by simp
qed

lemma parseDQTMarkers_file:
  assumes "\<forall>xs \<in> set xss. (\<forall>x \<in> set xs. table_wf x) \<and> length (concat (List.map encode_table xs)) + 2 < 65536"
  shows "parseDQTMarkers ([0xFF, 0xD8] @ concat (List.map dqt_marker xss) @ [0xFF, 0xDA] @ rest) =
    Some (concat (List.map (List.map (snd \<circ> snd)) xss))"
  using dqt_scan_markers [OF assms, of rest "[]"] by (simp add: parseDQTMarkers_def)

text \<open>A table that claims a precision above 1 gets by with 64 bytes, and is read with 128.\<close>

lemma parseDQTMarkers_panics:
  assumes "2 \<le> unat info div 16" and "length bs = 64"
  shows "parseDQTMarkers ([0xFF, 0xD8, 0xFF, 0xDB, 0, 67] @ info # bs @ rest) = None"
proof -
  have "dqt_scan (0xFF # 0xDB # 0 # 67 # info # bs @ rest) [] = None"
    by (subst dqt_scan.simps) (use assms in \<open>simp add: Let_def\<close>)
  then show ?thesis by (simp add: parseDQTMarkers_def)
qed

section \<open>The top generator\<close>

lemma top_loop_best: "snd best \<le> snd (top_loop best gs) \<and> (\<forall>g \<in> set gs. snd g \<le> snd (top_loop best gs)) \<and>
    top_loop best gs \<in> insert best (set gs)"
proof (induction gs arbitrary: best)
  case Nil
  then show ?case by simp
next
  case (Cons g gs)
  obtain n c where g: "g = (n, c)" by (cases g)
  define b where "b = (if snd best < c then (n, c) else best)"
  have b: "snd best \<le> snd b" "c \<le> snd b" "b = best \<or> b = g" by (auto simp: b_def g)
  have "top_loop best (g # gs) = top_loop b gs" by (simp add: g b_def)
  then show ?case using Cons.IH [of b] b by (auto simp: g intro: order_trans)
qed

lemma topGenerator_max: "g \<in> set gs \<Longrightarrow> snd g \<le> snd (topGenerator gs)"
  using top_loop_best [of "([], 0)" gs] by (simp add: topGenerator_def)

section \<open>The production handler\<close>

lemma wp_heuristic_Analyze:
  "wp (heuristic_Analyze T rulesets x i key) (\<lambda>ss _. length ss = length heuristic_checks) (\<lambda>_ _. True) r w"
proof -
  have run: "wp (run_checks T rs inp heuristic_checks []) (\<lambda>ss _. length ss = length heuristic_checks) (\<lambda>_ _. True) r v"
    for rs inp and v :: world
    by (rule wp_mono [OF wp_run_checks]) auto
  have rest: "wp (thenC (stateC (\<lambda>w. (Inr (), w\<lparr>wd_rulesets := (wd_rulesets w)(i \<mapsto> rs_Version rs)\<rparr>)))
    (bindC (mapErrC (Wrapped ''heuristic: download'')
        (if x then failC (Err ''context canceled'') else storage_Get key)) (\<lambda>raw.
    thenC (mapErrC (Wrapped ''heuristic: read'') callC)
    (if MaxContentBytes < int (length raw) then failC (Err ''heuristic: file too large'') else
    bindC (mapErrC (Wrapped ''heuristic: decode image'') (liftC (it_decode T raw))) (\<lambda>(img, fmt).
    run_checks T rs \<lparr>ci_RawBytes = raw, ci_Img = img, ci_Format = fmt\<rparr> heuristic_checks [])))))
      (\<lambda>ss _. length ss = length heuristic_checks) (\<lambda>_ _. True) r v" for rs and v :: world
    by (auto simp: storage_Get_def run split: option.splits sum.splits)
  note rest = rest [unfolded wp_bind wp_then]
  show ?thesis
  proof (cases rulesets)
    case None
    then show ?thesis
      unfolding heuristic_Analyze_def active_ruleset_def wp_bind wp_then by (simp only: option.case wp_return rest)
  next
    case (Some active)
    then show ?thesis
      unfolding heuristic_Analyze_def active_ruleset_def wp_bind wp_then
      by (simp only: option.case wp_try wp_return) (rule wp_any; unfold wp_return; rule rest)
  qed
qed

text \<open>The handler of the analysis binary: these detectors, with or without the quota service, in any order of
  the goroutines.\<close>

definition production_handler :: "string \<Rightarrow> string \<Rightarrow> image_tools \<Rightarrow> ruleset app option \<Rightarrow> (bytes \<Rightarrow> se_reply app)
    \<Rightarrow> bool \<Rightarrow> (detector list \<Rightarrow> detector list) \<Rightarrow> analyze_handler" where
  "production_handler u k T rulesets send quota schedule = \<lparr>ah_detectors = BuildDetectors u k T rulesets send,
     ah_quota = quota, ah_schedule = schedule\<rparr>"

lemma production_handler_ok:
  assumes "tools_quiet T" and "\<And>active. rulesets = Some active \<Longrightarrow> quiet active" and "\<And>raw. quiet (send raw)"
    and "\<And>ds. mset (schedule ds) = mset ds"
  shows "handler_ok (production_handler u k T rulesets send quota schedule)"
  using BuildDetectors_quiet [OF assms(1-3), where u = u and k = k] assms(4) by (simp add: handler_ok_def production_handler_def)

end
