(* ===== verification/Startup.thy ===== *)
theory Startup
  imports Routes Configuration DetectorFacts EventHandlers
begin

text \<open>
  What the processes are made of: the check of the schema, the containers of the five binaries under
  \<open>src/cmd\<close> as functions of the configuration, and the loop of the scheduler. The connections made at the
  start and the clients of the libraries are parameters.
\<close>

section \<open>The schema\<close>

record schema_field =
  sf_DBName :: string
  sf_IgnoreMigration :: bool

record migrator =
  mg_HasTable :: "string \<Rightarrow> bool"
  mg_ColumnTypes :: "string \<Rightarrow> string list res"

definition Models :: "string list" where
  "Models = [''UserModel'', ''WorkspaceModel'', ''ClientModel'', ''UserClientModel'', ''CampaignModel'', ''MediaModel'',
     ''ContentModel'', ''ContentAnalysisResultModel'', ''ActivityEventModel'', ''QuotaModel'', ''PlanModel'',
     ''SubscriptionModel'', ''InvoiceModel'', ''OutboxEvent'', ''ProcessedEvent'']"

definition drift :: "string \<Rightarrow> string \<Rightarrow> string \<Rightarrow> go_error" where
  "drift table column what = Err (''schema drift: table '' @ quote_text table @ '' column '' @ quote_text column @ what)"

text \<open>The loop over the fields of the model collects their columns; the one over the columns of the
  database looks for strangers.\<close>

fun check_fields :: "string \<Rightarrow> string list \<Rightarrow> schema_field list \<Rightarrow> string list \<Rightarrow> string list res" where
  "check_fields table dbColumns [] modelColumns = Inr modelColumns"
| "check_fields table dbColumns (f # fs) modelColumns =
     (if sf_DBName f = [] \<or> sf_IgnoreMigration f then check_fields table dbColumns fs modelColumns
      else if sf_DBName f \<notin> set dbColumns then Inl (drift table (sf_DBName f) '' exists on model but not in database'')
      else check_fields table dbColumns fs (sf_DBName f # modelColumns))"

fun check_columns :: "string \<Rightarrow> string list \<Rightarrow> string list \<Rightarrow> unit res" where
  "check_columns table [] modelColumns = Inr ()"
| "check_columns table (name # names) modelColumns = (if name \<notin> set modelColumns
     then Inl (drift table name '' exists in database but not on model'') else check_columns table names modelColumns)"

text \<open>\<open>parse\<close> is the ORM's reading of a model: its table and fields.\<close>

definition assertModelMatchesDB :: "(string \<Rightarrow> (string \<times> schema_field list) res) \<Rightarrow> migrator \<Rightarrow> string \<Rightarrow> unit res" where
  "assertModelMatchesDB parse mg model = (case parse model of
     Inl e \<Rightarrow> Inl (Wrapped ''parse model'' e)
   | Inr (table, fs) \<Rightarrow>
       if \<not> mg_HasTable mg table
       then Inl (Err (''schema drift: table '' @ quote_text table @ '' missing in database (run migrations)''))
       else (case mg_ColumnTypes mg table of
           Inl e \<Rightarrow> Inl (Wrapped (''schema drift: inspect table '' @ quote_text table) e)
         | Inr dbColumns \<Rightarrow> (case check_fields table dbColumns fs [] of
               Inl e \<Rightarrow> Inl e
             | Inr modelColumns \<Rightarrow> check_columns table dbColumns modelColumns)))"

fun assert_models :: "(string \<Rightarrow> (string \<times> schema_field list) res) \<Rightarrow> migrator \<Rightarrow> string list \<Rightarrow> unit res" where
  "assert_models parse mg [] = Inr ()"
| "assert_models parse mg (m # ms) = (case assertModelMatchesDB parse mg m of
     Inl e \<Rightarrow> Inl e | Inr _ \<Rightarrow> assert_models parse mg ms)"

definition AssertModelsMatchDB :: "(string \<Rightarrow> (string \<times> schema_field list) res) \<Rightarrow> migrator \<Rightarrow> unit res" where
  "AssertModelsMatchDB parse mg = assert_models parse mg Models"

definition model_columns :: "schema_field list \<Rightarrow> string set" where
  "model_columns fs = {sf_DBName f | f. f \<in> set fs \<and> sf_DBName f \<noteq> [] \<and> \<not> sf_IgnoreMigration f}"

lemma model_columns_simps [simp]:
  "model_columns [] = {}"
  "model_columns (f # fs) = (if sf_DBName f = [] \<or> sf_IgnoreMigration f then {} else {sf_DBName f}) \<union> model_columns fs"
  by (auto simp: model_columns_def)

lemma check_fields_sound:
  "check_fields t db fs acc = Inr cs \<Longrightarrow> set cs = model_columns fs \<union> set acc \<and> model_columns fs \<subseteq> set db"
  by (induction t db fs acc rule: check_fields.induct) (auto split: if_splits)

lemma check_fields_complete: "model_columns fs \<subseteq> set db \<Longrightarrow> \<exists>cs. check_fields t db fs acc = Inr cs"
  by (induction t db fs acc rule: check_fields.induct) (auto split: if_splits)

lemma check_columns_ok: "check_columns t names cs = Inr () \<longleftrightarrow> set names \<subseteq> set cs"
  by (induction t names cs rule: check_columns.induct) auto

text \<open>A model and a table agree when the table exists with the columns of the model and no other.\<close>

definition agrees :: "migrator \<Rightarrow> (string \<times> schema_field list) res \<Rightarrow> bool" where
  "agrees mg parsed \<longleftrightarrow> (\<exists>table fs columns. parsed = Inr (table, fs) \<and> mg_HasTable mg table \<and>
     mg_ColumnTypes mg table = Inr columns \<and> set columns = model_columns fs)"

lemma assertModel_agrees: "assertModelMatchesDB parse mg m = Inr () \<longleftrightarrow> agrees mg (parse m)"
proof -
  have "(case check_fields t db fs [] of Inl e \<Rightarrow> Inl e | Inr cs \<Rightarrow> check_columns t db cs) = Inr () \<longleftrightarrow>
      set db = model_columns fs" for t db fs
  proof (cases "check_fields t db fs []")
    case (Inl e)
    then have "\<not> model_columns fs \<subseteq> set db" using check_fields_complete [of fs db t "[]"] by auto
    then show ?thesis using Inl by auto
  next
    case (Inr cs)
    then show ?thesis using check_fields_sound [OF Inr] by (auto simp: check_columns_ok)
  qed
  then show ?thesis
    by (auto simp: assertModelMatchesDB_def agrees_def split: sum.splits)
qed

lemma assert_models_agree: "assert_models parse mg ms = Inr () \<longleftrightarrow> (\<forall>m \<in> set ms. agrees mg (parse m))"
  by (induction ms) (auto simp: assertModel_agrees [symmetric] split: sum.splits)

section \<open>The clients of the services\<close>

text \<open>What Clerk's SDK answers, and the user the program makes of it: the primary address, or the first.\<close>

record clerk_account =
  ca_FirstName :: "string option"
  ca_LastName :: "string option"
  ca_PrimaryEmailAddressID :: "string option"
  ca_EmailAddresses :: "(string \<times> string) list"
  ca_Banned :: bool

definition primary_email :: "clerk_account \<Rightarrow> string" where
  "primary_email u = (let email = (case List.find (\<lambda>(i, a). ca_PrimaryEmailAddressID u = Some i) (ca_EmailAddresses u) of
       None \<Rightarrow> [] | Some (i, a) \<Rightarrow> a) in
     if email = [] then (case ca_EmailAddresses u of [] \<Rightarrow> [] | (i, a) # _ \<Rightarrow> a) else email)"

definition UserGateway_Get :: "(string \<Rightarrow> clerk_account app) \<Rightarrow> string \<Rightarrow> clerk_user app" where
  "UserGateway_Get fetch clerkID = bindC (mapErrC (\<lambda>_. Err ''failed to get user'') (fetch clerkID))
     (\<lambda>u. returnC \<lparr>ck_FirstName = (case ca_FirstName u of None \<Rightarrow> [] | Some n \<Rightarrow> n),
        ck_LastName = (case ca_LastName u of None \<Rightarrow> [] | Some n \<Rightarrow> n), ck_Email = primary_email u,
        ck_Banned = ca_Banned u\<rparr>)"

text \<open>Two clients of the object store: one inside the network, one whose address the browser knows.\<close>

record 'c minio_storage =
  mi_Client :: 'c
  mi_PresignCli :: 'c
  mi_Bucket :: string
  mi_ThumbnailBucket :: string

definition NewMinIOStorage :: "(config \<Rightarrow> string \<Rightarrow> 'c res) \<Rightarrow> config \<Rightarrow> 'c minio_storage res" where
  "NewMinIOStorage newS3Client cfg =
    (let internalEndpoint = (if cf_StorageInternalEndpoint cfg = [] then cf_StorageEndpoint cfg
        else cf_StorageInternalEndpoint cfg) in
     case newS3Client cfg internalEndpoint of Inl e \<Rightarrow> Inl e | Inr internalClient \<Rightarrow>
     (case newS3Client cfg (cf_StorageEndpoint cfg) of Inl e \<Rightarrow> Inl e | Inr publicClient \<Rightarrow>
       Inr \<lparr>mi_Client = internalClient, mi_PresignCli = publicClient, mi_Bucket = cf_StorageBucket cfg,
         mi_ThumbnailBucket = cf_StorageThumbnailBucket cfg\<rparr>))"

text \<open>The notifier of the worker writes to the log.\<close>

definition LogNotifier_Send :: "uuid \<Rightarrow> string \<Rightarrow> unit app" where
  "LogNotifier_Send userID m = returnC ()"

section \<open>The containers\<close>

record container =
  ct_Topology :: topology
  ct_Consumer :: consumer

record relay =
  re_Interval :: duration
  re_BatchSize :: int

record worker = container +
  wk_Relay :: relay

definition NewRelay :: "duration \<Rightarrow> int \<Rightarrow> relay" where
  "NewRelay interval batchSize = \<lparr>re_Interval = (if interval \<le> 0 then 2 * Second else interval),
     re_BatchSize = NewRelay_batchSize batchSize\<rparr>"

definition worker_NewContainer :: "config \<Rightarrow> worker" where
  "worker_NewContainer env = \<lparr>
     ct_Topology = DefaultTopology (cf_RabbitMQExchange env) (cf_RabbitMQQueue env) (cf_RabbitMQRoutingKey env)
       (cf_RabbitMQRetryTTLMS env),
     ct_Consumer = NewConsumer (register_all (worker_handlers LogNotifier_Send)) (cf_WorkerMaxRetries env),
     wk_Relay = NewRelay (cf_OutboxPollInterval env) 50\<rparr>"

text \<open>The services behind the detectors, and the order in which the goroutines run.\<close>

record detection =
  dt_Tools :: image_tools
  dt_Rulesets :: "ruleset app option"
  dt_Send :: "bytes \<Rightarrow> se_reply app"
  dt_Schedule :: "detector list \<Rightarrow> detector list"

definition analysis_handler :: "detection \<Rightarrow> config \<Rightarrow> analyze_handler" where
  "analysis_handler dt env = production_handler (cf_SightengineAPIUser env) (cf_SightengineAPISecret env)
     (dt_Tools dt) (dt_Rulesets dt) (dt_Send dt) True (dt_Schedule dt)"

definition analysis_NewContainer :: "detection \<Rightarrow> config \<Rightarrow> container" where
  "analysis_NewContainer dt env = \<lparr>
     ct_Topology = DefaultTopology (cf_RabbitMQExchange env) (cf_AnalysisQueue env) (cf_AnalysisRoutingKey env)
       (cf_RabbitMQRetryTTLMS env),
     ct_Consumer = NewConsumer (register_all (analysis_handlers (analysis_handler dt env))) (cf_WorkerMaxRetries env)\<rparr>"

definition frames_NewContainer :: "config \<Rightarrow> container" where
  "frames_NewContainer env = \<lparr>
     ct_Topology = DefaultTopology (cf_RabbitMQExchange env) (cf_FrameExtractionQueue env) (cf_FrameExtractionRoutingKey env)
       (cf_RabbitMQRetryTTLMS env),
     ct_Consumer = NewConsumer (register_all (frame_handlers True)) (cf_WorkerMaxRetries env)\<rparr>"

record poller =
  po_Handler :: recover_handler
  po_StaleAfter :: duration
  po_MaxAge :: duration

definition scheduler_NewContainer :: "config \<Rightarrow> poller" where
  "scheduler_NewContainer env =
    (let staleAfter = (if cf_SchedulerStaleAfter env \<le> 0 then DefaultStaleAfter else cf_SchedulerStaleAfter env);
         maxAge = (if cf_SchedulerStaleMaxAge env \<le> 0 then DefaultMaxAge else cf_SchedulerStaleMaxAge env) in
     \<lparr>po_Handler = NewRecoverStale staleAfter maxAge, po_StaleAfter = staleAfter, po_MaxAge = maxAge\<rparr>)"

text \<open>The services behind the server: the framework, the tokens of Clerk for an issuer, its accounts, the
  signature of a realtime token under a secret, and Stripe.\<close>

record services =
  sv_Framework :: framework
  sv_ParseUUID :: "string \<Rightarrow> uuid option"
  sv_IsUUID :: "string \<Rightarrow> bool"
  sv_Collation :: "string \<Rightarrow> int"
  sv_Verify :: "string \<Rightarrow> string \<Rightarrow> token_claims option"
  sv_Accounts :: "string \<Rightarrow> string \<Rightarrow> clerk_account app"
  sv_Sign :: "string \<Rightarrow> string \<Rightarrow> int \<Rightarrow> string list \<Rightarrow> string res"
  sv_Stripe :: stripe_api

definition redirects_of :: "config \<Rightarrow> redirects" where
  "redirects_of env = \<lparr>rd_SuccessURL = cf_RedirectSuccessURL env, rd_CancelURL = cf_RedirectCancelURL env,
     rd_PortalURL = cf_RedirectPortalURL env\<rparr>"

definition api_NewContainer :: "services \<Rightarrow> config \<Rightarrow> deployment" where
  "api_NewContainer sv env = \<lparr>
     dp_Framework = sv_Framework sv,
     dp_Libs = \<lparr>lb_ParseUUID = sv_ParseUUID sv, lb_IsUUID = sv_IsUUID sv, lb_Collation = sv_Collation sv, lb_Quota = True\<rparr>,
     dp_Verify = sv_Verify sv (cf_ClerkFrontendAPI env),
     dp_Fetch = UserGateway_Get (sv_Accounts sv (cf_ClerkSecretKey env)),
     dp_Sign = sv_Sign sv (cf_CentrifugoTokenSecret env),
     dp_Gateway = SubscriptionGateway (cf_StripeSecretKey env) (sv_Stripe sv),
     dp_Checkout = Checkout_Create (cf_StripeSecretKey env) (sv_Stripe sv) (redirects_of env),
     dp_Portal = BillingPortal_Create (cf_StripeSecretKey env) (sv_Stripe sv) (redirects_of env),
     dp_Bucket = cf_StorageBucket env,
     dp_MinIOSecret = cf_MinIOWebhookSecret env,
     dp_StripeSecret = cf_StripeWebhookSecret env\<rparr>"

section \<open>The scheduler\<close>

definition durationUntilNextInterval :: "gotime \<Rightarrow> duration \<Rightarrow> duration" where
  "durationUntilNextInterval now interval =
    (let interval = (if interval \<le> 0 then Minute else interval); now = UTC now;
         next = now div interval * interval + interval in next - now)"

definition tickStaleMedias :: "poller \<Rightarrow> unit app" where
  "tickStaleMedias c = bindC nowC (\<lambda>startedAt.
     tryC (RecoverStale (po_Handler c) startedAt) (\<lambda>_. returnC ()) (\<lambda>_. thenC nowC (returnC ())))"

text \<open>\<open>runStaleMediaPoller\<close> until its context ends after a number of rounds: a tick, and then one after each
  timer. The result lists the instants at which a timer is set with its duration.\<close>

fun poll_rounds :: "nat \<Rightarrow> poller \<Rightarrow> duration \<Rightarrow> (gotime \<times> duration) list \<Rightarrow> (gotime \<times> duration) list app" where
  "poll_rounds 0 c interval timers = returnC timers"
| "poll_rounds (Suc n) c interval timers = bindC nowC (\<lambda>now.
     let wait = durationUntilNextInterval now interval in
     thenC (tickStaleMedias c) (poll_rounds n c interval (timers @ [(now, wait)])))"

definition runStaleMediaPoller :: "nat \<Rightarrow> poller \<Rightarrow> duration \<Rightarrow> (gotime \<times> duration) list app" where
  "runStaleMediaPoller n c interval = (let interval = (if interval \<le> 0 then 10 * Minute else interval) in
     thenC (tickStaleMedias c) (poll_rounds n c interval []))"

text \<open>A timer ends on the clock, at the first multiple of the interval that is still to come.\<close>

lemma durationUntilNextInterval_aligned:
  assumes "0 < interval"
  shows "0 < durationUntilNextInterval now interval" "durationUntilNextInterval now interval \<le> interval"
    "(now + durationUntilNextInterval now interval) mod interval = 0"
proof -
  have d: "durationUntilNextInterval now interval = interval - now mod interval"
    using assms by (simp add: durationUntilNextInterval_def Let_def minus_mult_div_eq_mod [symmetric] algebra_simps)
  then show "0 < durationUntilNextInterval now interval" "durationUntilNextInterval now interval \<le> interval"
    using assms by (simp_all add: pos_mod_bound)
  have "now + (interval - now mod interval) = interval * (now div interval + 1)"
    by (simp add: minus_mult_div_eq_mod [symmetric] algebra_simps)
  then show "(now + durationUntilNextInterval now interval) mod interval = 0" unfolding d by simp
qed

definition on_the_clock :: "duration \<Rightarrow> gotime \<times> duration \<Rightarrow> bool" where
  "on_the_clock interval = (\<lambda>(now, wait). 0 < wait \<and> wait \<le> interval \<and> (now + wait) mod interval = 0)"

lemma wp_tickStaleMedias: "(\<And>w'. Q () w') \<Longrightarrow> wp (tickStaleMedias c) Q E r w"
  unfolding tickStaleMedias_def wp_bind wp_now wp_try
  by (rule wp_any) simp_all

lemma wp_poll_rounds:
  fixes w :: world
  assumes "0 < interval" and "\<forall>t \<in> set timers. on_the_clock interval t"
  shows "wp (poll_rounds n c interval timers) (\<lambda>ts _. length ts = length timers + n \<and>
    (\<forall>t \<in> set ts. on_the_clock interval t)) (\<lambda>_ _. False) r w"
  using assms
proof (induction n arbitrary: timers w)
  case (Suc n)
  have t: "\<forall>t \<in> set (timers @ [(now, durationUntilNextInterval now interval)]). on_the_clock interval t" for now
    using Suc.prems durationUntilNextInterval_aligned [OF Suc.prems(1), of now] by (auto simp: on_the_clock_def)
  show ?case
    unfolding poll_rounds.simps wp_bind wp_now Let_def wp_then
    by (rule wp_tickStaleMedias, rule wp_mono [OF Suc.IH [OF Suc.prems(1) t]]) simp_all
qed simp

lemma wp_runStaleMediaPoller:
  "wp (runStaleMediaPoller n c interval) (\<lambda>ts _. length ts = n \<and>
     (\<forall>t \<in> set ts. on_the_clock (if interval \<le> 0 then 10 * Minute else interval) t)) (\<lambda>_ _. False) r w"
  unfolding runStaleMediaPoller_def Let_def wp_then
  by (rule wp_tickStaleMedias, rule wp_mono [OF wp_poll_rounds]) auto

section \<open>Routing keys\<close>

text \<open>What the broker promises of a topic exchange: \<open>#\<close> stands for any words, a key without wildcards for itself.\<close>

definition topic_exchange :: "(string \<Rightarrow> string \<Rightarrow> bool) \<Rightarrow> bool" where
  "topic_exchange topic \<longleftrightarrow> (\<forall>word rest. topic (word @ ''.#'') (word @ ''.'' @ rest)) \<and> (\<forall>key. topic key key)"

definition reaches :: "(string \<Rightarrow> string \<Rightarrow> bool) \<Rightarrow> topology \<Rightarrow> domain_event \<Rightarrow> bool" where
  "reaches topic t e \<longleftrightarrow> (\<exists>key \<in> set (splitRoutingKeys (tp_RoutingKey t)). topic key (EventType e))"

definition default_queues :: "config \<Rightarrow> bool" where
  "default_queues cfg \<longleftrightarrow> cf_RabbitMQRoutingKey cfg =
       ''user.#,client.#,campaign.#,content.#,media.#,subscription.#,invoice.#,quota.#,plan.#'' \<and>
     cf_AnalysisRoutingKey cfg = ''content.uploaded.v1'' \<and> cf_FrameExtractionRoutingKey cfg = ''media.uploaded.v1''"

lemma default_keys: "splitRoutingKeys ''user.#,client.#,campaign.#,content.#,media.#,subscription.#,invoice.#,quota.#,plan.#'' =
    [''user.#'', ''client.#'', ''campaign.#'', ''content.#'', ''media.#'', ''subscription.#'', ''invoice.#'', ''quota.#'', ''plan.#'']"
  by (simp add: splitRoutingKeys_def TrimSpace_def is_space_def)

lemma single_key: "splitRoutingKeys ''content.uploaded.v1'' = [''content.uploaded.v1'']"
  "splitRoutingKeys ''media.uploaded.v1'' = [''media.uploaded.v1'']"
  by (simp_all add: splitRoutingKeys_def TrimSpace_def is_space_def)

text \<open>Each event type starts with the word of its entity.\<close>

definition entity_word :: "domain_event \<Rightarrow> string" where
  "entity_word e = (case e of EvMedia _ \<Rightarrow> ''media'' | EvContent _ \<Rightarrow> ''content'' | EvCampaign _ \<Rightarrow> ''campaign''
     | EvClient _ \<Rightarrow> ''client'' | EvUser _ \<Rightarrow> ''user'' | EvWorkspace _ \<Rightarrow> ''workspace''
     | EvSubscription _ \<Rightarrow> ''subscription'' | EvInvoice _ \<Rightarrow> ''invoice'')"

lemma EventType_word: "\<exists>rest. EventType e = entity_word e @ ''.'' @ rest"
proof (cases e)
  case (EvMedia x) then show ?thesis by (cases x) (simp_all add: entity_word_def)
next
  case (EvContent x) then show ?thesis by (cases x) (simp_all add: entity_word_def)
next
  case (EvCampaign x) then show ?thesis by (cases x) (simp_all add: entity_word_def)
next
  case (EvClient x) then show ?thesis by (cases x) (simp_all add: entity_word_def)
next
  case (EvUser x) then show ?thesis by (cases x) (simp_all add: entity_word_def)
next
  case (EvWorkspace x) then show ?thesis by (cases x) (simp_all add: entity_word_def)
next
  case (EvSubscription x) then show ?thesis by (cases x) (simp_all add: entity_word_def)
next
  case (EvInvoice x) then show ?thesis by (cases x) (simp_all add: entity_word_def)
qed

lemma default_reaches_worker:
  assumes "topic_exchange topic" and "default_queues cfg" and "entity_word e \<noteq> ''workspace''"
  shows "reaches topic (ct_Topology (worker_NewContainer cfg)) e"
proof -
  obtain rest where r: "EventType e = entity_word e @ ''.'' @ rest" using EventType_word by blast
  have "topic (entity_word e @ ''.#'') (EventType e)" using assms(1) unfolding topic_exchange_def r by blast
  moreover have "entity_word e @ ''.#'' \<in> set [''user.#'', ''client.#'', ''campaign.#'', ''content.#'', ''media.#'',
      ''subscription.#'', ''invoice.#'', ''quota.#'', ''plan.#'']"
    using assms(3) by (cases e) (simp_all add: entity_word_def)
  moreover have "tp_RoutingKey (ct_Topology (worker_NewContainer cfg)) =
      ''user.#,client.#,campaign.#,content.#,media.#,subscription.#,invoice.#,quota.#,plan.#''"
    using assms(2) by (simp add: worker_NewContainer_def DefaultTopology_def Let_def default_queues_def)
  ultimately show ?thesis unfolding reaches_def by (metis default_keys)
qed

lemma default_reaches_workers_of_uploads:
  assumes "topic_exchange topic" and "default_queues cfg"
  shows "EventType e = ''content.uploaded.v1'' \<Longrightarrow> reaches topic (ct_Topology (analysis_NewContainer dt cfg)) e"
    "EventType e = ''media.uploaded.v1'' \<Longrightarrow> reaches topic (ct_Topology (frames_NewContainer cfg)) e"
  using assms by (simp_all add: reaches_def analysis_NewContainer_def frames_NewContainer_def DefaultTopology_def Let_def
      default_queues_def single_key topic_exchange_def)

lemma Load_default_queues:
  assumes "Load vars = Inr cfg" and "vars ''RABBITMQ_ROUTING_KEY'' = []" and "vars ''ANALYSIS_ROUTING_KEY'' = []"
    and "vars ''FRAME_EXTRACTION_ROUTING_KEY'' = []"
  shows "default_queues cfg"
  using assms unfolding Load_def by (auto simp: need_ok default_queues_def getEnvOrDefault_def)

end
