(* ===== verification/WholeSystem.thy ===== *)
theory WholeSystem
  imports Served Startup CampaignLifecycle
begin

text \<open>
  The invariants of the accounts and of the verdicts under everything the system does.
\<close>

section \<open>Deletions and the verdicts\<close>

lemma tbl_first_delete:
  assumes "keys_distinct key t" and "\<And>q. Q q \<Longrightarrow> key q = k"
  shows "tbl_first key Q (tbl_delete P t) = (case tbl_first key Q t of None \<Rightarrow> None | Some r \<Rightarrow> if P r then None else Some r)"
proof (cases "tbl_first key Q t")
  case None
  then have "tbl_first key Q (tbl_delete P t) = None" unfolding tbl_first_None set_tbl_delete by blast
  then show ?thesis using None by simp
next
  case (Some r)
  then have r: "r \<in> set t" "Q r" using tbl_first_Some [OF Some] by auto
  have only: "q = r" if "q \<in> set t" "Q q" for q
    using keys_distinct_unique [OF assms(1) that(1) r(1)] assms(2) that(2) r(2) by metis
  show ?thesis
  proof (cases "P r")
    case True
    then have "tbl_first key Q (tbl_delete P t) = None" using only by (auto simp: tbl_first_None set_tbl_delete)
    then show ?thesis using Some True by simp
  next
    case False
    have "tbl_first key Q (tbl_delete P t) = Some r"
      by (rule tbl_first_key [OF tbl_delete_distinct [OF assms(1)]]) (use False r assms(2) in \<open>auto simp: set_tbl_delete\<close>)
    then show ?thesis using Some False by simp
  qed
qed

lemma media_row_cascade:
  assumes "media_table d"
  shows "media_row j (cascade_client i d) = (case media_row j d of None \<Rightarrow> None | Some r \<Rightarrow> if mm_ClientID r = i then None else Some r)"
proof -
  have "t_media (cascade_client i d) = tbl_delete (\<lambda>r. mm_ClientID r = i) (t_media d)"
    by (simp add: cascade_client_def Let_def)
  then show ?thesis
    using assms tbl_first_delete [of mm_ID "t_media d" "\<lambda>r. mm_DeletedAt r = None \<and> mm_ID r = j" j "\<lambda>r. mm_ClientID r = i"]
    by (simp add: media_row_def media_table_def)
qed

lemma contents_of_cascade:
  assumes "media_table d" and "media_row j d = Some r" and "mm_ClientID r \<noteq> i"
  shows "contents_of j (cascade_client i d) = contents_of j d"
proof -
  have "tbl_first mm_ID (\<lambda>r. mm_DeletedAt r = None \<and> mm_ID r = j) (t_media d) = Some r"
    using assms(2) by (simp add: media_row_def)
  from tbl_first_Some [OF this] have r: "r \<in> set (t_media d)" "mm_ID r = j" by auto
  have "q = r" if "q \<in> set (t_media d)" "mm_ID q = j" for q
    using keys_distinct_unique [of mm_ID, OF _ that(1) r(1)] that(2) r(2) assms(1) by (simp add: media_table_def)
  then have "j \<notin> mm_ID ` {q \<in> set (t_media d). mm_ClientID q = i}" using assms(3) by blast
  then have "List.filter (\<lambda>q. cm_MediaID q = j) (t_contents (cascade_client i d)) =
      List.filter (\<lambda>q. cm_MediaID q = j) (t_contents d)"
    by (auto simp: cascade_client_def Let_def tbl_delete_def intro!: filter_cong)
  then show ?thesis using assms by (simp add: contents_of_def media_row_cascade)
qed

lemma analysis_inv_cascade:
  assumes "analysis_inv d"
  shows "analysis_inv (cascade_client i d)"
proof -
  have t: "media_table d" "verdict_sound d" using assms by (simp_all add: analysis_inv_def)
  have get: "media_get j d = Some m \<and> contents_of j (cascade_client i d) = contents_of j d"
    if "media_get j (cascade_client i d) = Some m" for j m
    using that contents_of_cascade [OF t(1)]
    by (auto simp: media_get_def media_row_cascade [OF t(1)] split: option.splits if_splits)
  have "verdict_sound (cascade_client i d)"
    using t(2) get unfolding verdict_sound_def by metis
  moreover have "media_table (cascade_client i d)" "content_table (cascade_client i d)"
    using assms by (auto simp: analysis_inv_def media_table_def content_table_def cascade_client_def Let_def
        tbl_delete_distinct set_tbl_delete)
  ultimately show ?thesis by (simp add: analysis_inv_def)
qed

lemma analysis_inv_cascades: "analysis_inv d \<Longrightarrow> analysis_inv (fold cascade_client cls d)"
  by (induction cls arbitrary: d) (simp_all add: analysis_inv_cascade)

lemma analysis_inv_removed:
  assumes "analysis_inv d" and "m_DeletedAt m \<noteq> None"
  shows "analysis_inv (media_put m d)"
proof -
  have t: "media_table d" "verdict_sound d" using assms by (simp_all add: analysis_inv_def)
  have k: "keys_distinct mm_ID (t_media d)" using t(1) by (simp add: media_table_def)
  have "contents_of j (media_put m d) = contents_of j d" if "j \<noteq> m_ID m" for j
    unfolding contents_of_def media_row_put [OF k] using that by (simp add: media_put_def cong: option.case_cong)
  moreover have "media_get j (media_put m d) = (if j = m_ID m then None else media_get j d)" for j
    unfolding media_get_put [OF t(1)] using assms(2) by (cases "m_DeletedAt m") auto
  ultimately have "verdict_sound (media_put m d)"
    using t(2) by (auto simp: verdict_sound_def)
  then show ?thesis
    using assms media_table_put [OF t(1)] by (auto simp: analysis_inv_def content_table_def media_put_def)
qed

lemma analysis_inv_frame:
  assumes "t_media d' = t_media d" and "t_contents d' = t_contents d"
  shows "analysis_inv d' = analysis_inv d"
proof -
  have row: "media_row j d' = media_row j d" for j using assms by (simp add: media_row_def)
  have "media_get j d' = media_get j d" "contents_of j d' = contents_of j d" for j
    unfolding media_get_def contents_of_def row assms by simp_all
  then show ?thesis
    using assms by (simp add: analysis_inv_def media_table_def content_table_def verdict_sound_def)
qed

interpretation verdicts: media_frame analysis_inv
  by unfold_locales (metis analysis_inv_frame)

interpretation accounts: account_frame accounts_ok
  by unfold_locales (metis accounts_ok_def accounts_frame)

lemma sound_client_Delete [keeps_intros]: "keeps (\<lambda>r. steady tx analysis_inv) (client_Delete i)"
  unfolding client_Delete_def
  by (intro keeps_intros verdicts.stays steady_write) (auto simp: drop_members_def analysis_inv_cascade)

lemma sound_DeleteClient [keeps_intros]: "keeps (\<lambda>r. steady False analysis_inv) (DeleteClient i)"
  unfolding DeleteClient_def Let_def by (intro keeps_intros)

lemma analysis_inv_cascade_user:
  assumes "analysis_inv d" and "cascade_user i d = Inr d'"
  shows "analysis_inv d'"
proof -
  define e where "e = fold cascade_client (List.map clm_ID (List.filter (\<lambda>r. clm_WorkspaceID r \<in>
      w_ID ` {w \<in> set (t_workspaces d). w_OwnerUserID w = i}) (t_clients d))) d"
  have "t_media d' = t_media e" "t_contents d' = t_contents e"
    using assms(2) by (auto simp: cascade_user_def Let_def e_def split: if_splits)
  then show ?thesis using analysis_inv_frame analysis_inv_cascades [OF assms(1)] e_def by metis
qed

lemma sound_DeleteUser [keeps_intros]: "keeps (\<lambda>r. steady False analysis_inv) (DeleteUserByExternalID x)"
proof -
  have "keeps (\<lambda>r. steady tx analysis_inv) (user_Delete i)" for tx i
    unfolding user_Delete_def
    by (rule steady_write) (rule analysis_inv_cascade_user)
  then show ?thesis unfolding DeleteUserByExternalID_def Let_def by (intro keeps_intros)
qed

lemma SoftDelete_deleted: "m_DeletedAt (SoftDelete us now eid refs b m) \<noteq> None"
  by (simp add: SoftDelete_def recordEvent_def IsDeleted_def)

lemma sound_DeleteCampaign [keeps_intros]: "keeps (\<lambda>r. steady False analysis_inv) (DeleteCampaign i)"
proof -
  have "keeps (\<lambda>r. steady tx analysis_inv) (media_Update (SoftDelete us now eid refs b m))" for tx us now eid refs b m
    unfolding media_Update_def by (rule steady_write) (auto intro: analysis_inv_removed [OF _ SoftDelete_deleted])
  then show ?thesis
    unfolding DeleteCampaign_def delete_media_def contentObjectRefs_def Let_def by (intro keeps_intros)
qed

section \<open>Every command, for both invariants\<close>

lemma sound_AnalyzeContent: "handler_ok h \<Longrightarrow> keeps (\<lambda>r. sound) (AnalyzeContent h i)"
  unfolding keeps_def using AnalyzeContent_steps analysis_txs_inv by (fastforce simp: holds_def)

lemmas sound_commands [keeps_intros] = sound_ProcessUpload [unfolded holds_steady] sound_PresignMedia [unfolded holds_steady]
  sound_ExtractFrames [unfolded holds_steady] sound_RecoverStale [unfolded holds_steady]
  sound_AnalyzeContent [unfolded holds_steady]

lemma accounts_webhook_updateUser: "keeps (\<lambda>r. holds accounts_ok) (webhook_updateUser d)"
  unfolding keeps_wp
proof (intro allI impI)
  fix r and w :: world
  assume "holds accounts_ok w"
  then have "wp (GetUserByExternalID (kd_ID d)) (\<lambda>u. wp (UpdateUser u (kd_FirstName d) (kd_LastName d) (kd_Email d)
      (kd_Banned d = Some True)) (\<lambda>_. holds accounts_ok) (\<lambda>_. holds accounts_ok) r) (\<lambda>_. holds accounts_ok) r w"
    using accounts_UpdateUser [of "kd_ID d" "kd_FirstName d" "kd_LastName d" "kd_Email d" "kd_Banned d = Some True"]
    by (simp add: keeps_wp)
  then show "wp (webhook_updateUser d) (\<lambda>_. holds accounts_ok) (\<lambda>_. holds accounts_ok) r w"
    unfolding webhook_updateUser_def wp_bind
  proof (rule wp_mono)
    fix u v
    assume "wp (UpdateUser u (kd_FirstName d) (kd_LastName d) (kd_Email d) (kd_Banned d = Some True))
      (\<lambda>_. holds accounts_ok) (\<lambda>_. holds accounts_ok) r v"
    then show "wp (case u of None \<Rightarrow> returnC False | Some u \<Rightarrow> thenC (UpdateUser (Some u) (kd_FirstName d) (kd_LastName d)
        (kd_Email d) (kd_Banned d = Some True)) (returnC True)) (\<lambda>_. holds accounts_ok) (\<lambda>_. holds accounts_ok) r v"
      by (cases u) (simp add: UpdateUser_def, simp add: wp_return_eta)
  qed simp
qed

lemmas accounts_commands = accounts_CreateClient accounts_UpdateClient accounts_DeleteClient accounts_AddClientMember
  accounts_RemoveClientMember accounts_CreateUser accounts_webhook_updateUser accounts_SetCurrentClientOf
  accounts_DeleteUserByExternalID accounts_CreateCampaign accounts_UpdateCampaign accounts_DeleteCampaign
  accounts_PresignBackground accounts_ClearBackground accounts_ProcessBackgroundUpload

lemma verdicts_webhook_updateUser [keeps_intros]: "keeps (\<lambda>r. steady False analysis_inv) (webhook_updateUser d)"
  unfolding webhook_updateUser_def by (intro keeps_intros)

interpretation verdict_service: kept_by_commands analysis_inv
  by unfold_locales (intro keeps_intros; assumption?)+

interpretation account_service: kept_by_commands accounts_ok
  by unfold_locales (intro accounts_commands [unfolded holds_steady] keeps_intros; assumption?)+

section \<open>The consumers\<close>

lemma steady_mapErr_handler:
  "keeps (\<lambda>r. steady False I) c \<Longrightarrow> keeps (\<lambda>r. steady False I) (mapErrC f c)"
  by (rule keeps_intros)

lemma analysis_steady:
  assumes "\<And>i. keeps (\<lambda>r. steady False I) (AnalyzeContent h i)"
  shows "steady_handler I (AnalyzeOnUploaded h)"
  unfolding steady_handler_def AnalyzeOnUploaded_def
  by (auto split: domain_event.splits content_event.splits intro!: keeps_intros assms)

lemma extraction_steady:
  assumes "\<And>i. keeps (\<lambda>r. steady False I) (ExtractFrames quota i)"
  shows "steady_handler I (ExtractOnUploaded quota)"
  unfolding steady_handler_def ExtractOnUploaded_def
  by (auto split: domain_event.splits media_event.splits intro!: keeps_intros assms)

lemma steady_poller:
  assumes "\<And>h now. keeps (\<lambda>r. steady False I) (RecoverStale h now)"
  shows "keeps (\<lambda>r. steady False I) (tickStaleMedias c)"
  unfolding tickStaleMedias_def by (intro keeps_intros assms)

section \<open>The whole system\<close>

text \<open>What runs: the configuration and the services behind it. The services behave when those of the SDKs
  leave this database alone, the detectors only look, and the goroutines run each detector once.\<close>

record system =
  sy_Config :: config
  sy_Services :: services
  sy_Detection :: detection

definition system_ok :: "system \<Rightarrow> bool" where
  "system_ok s \<longleftrightarrow> api_quiet (sv_Stripe (sy_Services s)) \<and> (\<forall>k i. readonly (sv_Accounts (sy_Services s) k i)) \<and>
     tools_quiet (dt_Tools (sy_Detection s)) \<and> (\<forall>active. dt_Rulesets (sy_Detection s) = Some active \<longrightarrow> quiet active) \<and>
     (\<forall>raw. quiet (dt_Send (sy_Detection s) raw)) \<and> (\<forall>ds. mset (dt_Schedule (sy_Detection s) ds) = mset ds)"

definition the_server :: "system \<Rightarrow> deployment" where
  "the_server s = api_NewContainer (sy_Services s) (sy_Config s)"

text \<open>The steps of the five processes, in any order and with any message, each under an environment of its
  own: its clock, its identifiers, its faults and what the libraries answer.\<close>

inductive system_step :: "system \<Rightarrow> world \<Rightarrow> world \<Rightarrow> bool" for s where
  Request: "system_step s w (snd (serve (the_server s) q r w))"
| Work: "system_step s w (snd (handleDelivery (ct_Consumer (worker_NewContainer (sy_Config s))) m r w))"
| Relaying: "system_step s w (snd (publishBatch (re_BatchSize (wk_Relay (worker_NewContainer (sy_Config s)))) r w))"
| Analysis: "system_step s w (snd (handleDelivery (ct_Consumer (analysis_NewContainer (sy_Detection s) (sy_Config s))) m r w))"
| Extraction: "system_step s w (snd (handleDelivery (ct_Consumer (frames_NewContainer (sy_Config s))) m r w))"
| Recovery: "system_step s w (snd (tickStaleMedias (scheduler_NewContainer (sy_Config s)) r w))"

definition system_runs :: "system \<Rightarrow> world \<Rightarrow> world \<Rightarrow> bool" where
  "system_runs s = (system_step s)\<^sup>*\<^sup>*"

lemma server_quiet: "system_ok s \<Longrightarrow> deployment_quiet (the_server s)"
  by (auto simp: system_ok_def deployment_quiet_def the_server_def api_NewContainer_def SubscriptionGateway_quiet
      readonly_gateways UserGateway_Get_def intro!: readonly_intros)

lemma system_handler_ok: "system_ok s \<Longrightarrow> handler_ok (analysis_handler (sy_Detection s) (sy_Config s))"
  unfolding analysis_handler_def by (rule production_handler_ok) (auto simp: system_ok_def)

lemma consumer_registry: "co_registry (NewConsumer reg n) = reg"
  by (simp add: NewConsumer_def)

text \<open>What an invariant has to be kept by, for the whole system to keep it.\<close>

locale kept_by_system = kept_by_commands I + base: frame I for I :: "db \<Rightarrow> bool" +
  assumes analyses: "handler_ok h \<Longrightarrow> keeps (\<lambda>r. steady False I) (AnalyzeContent h i)"
    and extractions: "keeps (\<lambda>r. steady False I) (ExtractFrames quota i)"
    and recoveries: "keeps (\<lambda>r. steady False I) (RecoverStale rh now)"
begin

lemma step:
  assumes "system_ok s" and "system_step s w w'" and "holds I w"
  shows "holds I w'"
  using assms(2)
proof cases
  case (Request q r)
  then show ?thesis
    using keepsD [OF steady_serve [OF server_quiet [OF assms(1)]]] assms(3) by (simp add: holds_steady)
next
  case (Work m r)
  have "keeps (\<lambda>r. steady False I) (handleDelivery (ct_Consumer (worker_NewContainer (sy_Config s))) m)"
    by (rule base.workers [where send = LogNotifier_Send])
      (auto simp: worker_NewContainer_def consumer_registry LogNotifier_Send_def intro: keeps_intros)
  then show ?thesis using Work assms(3) keepsD by (auto simp: holds_steady)
next
  case (Relaying r)
  then show ?thesis using keepsD [OF base.relay] assms(3) by (simp add: holds_steady)
next
  case (Analysis m r)
  have "keeps (\<lambda>r. steady False I) (handleDelivery (ct_Consumer (analysis_NewContainer (sy_Detection s) (sy_Config s))) m)"
    by (rule base.delivery [where hs = "analysis_handlers (analysis_handler (sy_Detection s) (sy_Config s))"])
      (auto simp: analysis_NewContainer_def consumer_registry analysis_handlers_def
        intro: analysis_steady analyses system_handler_ok assms(1))
  then show ?thesis using Analysis assms(3) keepsD by (auto simp: holds_steady)
next
  case (Extraction m r)
  have "keeps (\<lambda>r. steady False I) (handleDelivery (ct_Consumer (frames_NewContainer (sy_Config s))) m)"
    by (rule base.delivery [where hs = "frame_handlers True"])
      (auto simp: frames_NewContainer_def consumer_registry frame_handlers_def intro: extraction_steady extractions)
  then show ?thesis using Extraction assms(3) keepsD by (auto simp: holds_steady)
next
  case (Recovery r)
  then show ?thesis using keepsD [OF steady_poller [OF recoveries]] assms(3) by (simp add: holds_steady)
qed

lemma runs:
  assumes "system_ok s" and "system_runs s w w'" and "holds I w"
  shows "holds I w'"
  using assms(2,3) unfolding system_runs_def
  by (induction rule: rtranclp_induct) (auto intro: step [OF assms(1)])

end

interpretation verdict_system: kept_by_system analysis_inv
  by unfold_locales (intro keeps_intros; assumption?)+

interpretation account_system: kept_by_system accounts_ok
  by unfold_locales (intro accounts.frame_commands accounts.analysis; assumption?)+

end
