(* ===== verification/Recovery.thy ===== *)
theory Recovery
  imports Steady
begin

text \<open>
  What a pass of the recovery (\<open>src/internal/application/command/media/recover_stale.go\<close>) achieves: in an
  environment without faults it fails every media of its batch that is older than the maximal age, with all its
  contents. The work on a media leaves the other media and their contents alone, so the passes over the batch do
  not disturb each other.
\<close>

section \<open>Work on another media\<close>

text \<open>Media \<open>j\<close> as it was, and, if so asked, all its contents terminal.\<close>

definition untouched :: "uuid \<Rightarrow> media option \<Rightarrow> bool \<Rightarrow> db \<Rightarrow> bool" where
  "untouched j x settled_contents d \<longleftrightarrow> media_table d \<and> content_table d \<and> media_get j d = x \<and>
     (settled_contents \<longrightarrow> (\<forall>c \<in> set (contents_of j d). IsTerminal c))"

lemma untouched_outbox [simp]: "untouched j x s (outbox_put es d) = untouched j x s d"
  by (simp add: untouched_def)

lemma untouched_media:
  assumes "untouched j x s d" and "m_ID m \<noteq> j"
  shows "untouched j x s (media_put m d)"
proof -
  have t: "media_table d" "keys_distinct mm_ID (t_media d)" using assms(1) by (simp_all add: untouched_def media_table_def)
  have "media_row j (media_put m d) = media_row j d" using media_row_put_other [OF t(2)] assms(2) by metis
  then have "contents_of j (media_put m d) = contents_of j d"
    by (simp add: contents_of_def media_put_def cong: option.case_cong)
  then show ?thesis
    using assms t media_table_put [OF t(1)] media_get_put [OF t(1), of j m]
    by (simp add: untouched_def content_table_def media_put_def)
qed

lemma untouched_content:
  assumes "untouched j x s d" and "c_MediaID c \<noteq> j"
  shows "untouched j x s (content_put c d)"
proof -
  have t: "media_table d" "content_table d" using assms(1) by (simp_all add: untouched_def)
  have "set (contents_of j (content_put c d)) \<subseteq> set (contents_of j d)"
    using assms(2) t(2) unfolding set_contents_of contents_put_media
    by (auto simp: content_put_def content_table_def set_tbl_save contentModelFromDomain_def split: option.splits)
  moreover have "media_table (content_put c d)" "media_get j (content_put c d) = media_get j d"
    using t(1) by (simp_all add: media_table_def media_get_def contents_put_media) (simp_all add: content_put_def)
  ultimately show ?thesis
    using assms(1) content_table_put [OF t(2)] by (auto simp: untouched_def)
qed

lemma untouched_writes:
  "m_ID m \<noteq> j \<Longrightarrow> keeps (\<lambda>r. steady tx (untouched j x s)) (media_Update m)"
  "c_MediaID c \<noteq> j \<Longrightarrow> keeps (\<lambda>r. steady tx (untouched j x s)) (content_Update c)"
  "keeps (\<lambda>r. steady tx (untouched j x s)) (StoreEvents es)"
  unfolding media_Update_def content_Update_def StoreEvents_def
  by (auto intro!: steady_write keeps_return untouched_media untouched_content)

text \<open>What a read or a transition hands on.\<close>

lemma keeps_lift_value: "(\<And>a. x = Inr a \<Longrightarrow> keeps I (f a)) \<Longrightarrow> keeps I (bindC (liftC x) f)"
  by (rule keeps_bind_value [OF keeps_lift]) (simp add: liftC_def split: sum.splits)

lemma keeps_read_value:
  assumes "\<And>d. keeps (\<lambda>r. steady tx I) (f (g d))"
  shows "keeps (\<lambda>r. steady tx I) (bindC (dbRead g) f)"
proof (rule keeps_bind_value)
  show "keeps (\<lambda>r. steady tx I) (dbRead g)" by (rule keeps_intros)
  fix r w a assume "fst (dbRead g r w) = Inr a"
  then have "\<exists>d. a = g d"
    by (auto simp: dbRead_def bindC_def thenC_def stateC_def split: prod.splits sum.splits)
  then show "keeps (\<lambda>r. steady tx I) (f a)" using assms by auto
qed

lemma keeps_fold_each:
  assumes "\<And>x s. x \<in> set xs \<Longrightarrow> keeps I (f x s)"
  shows "keeps I (foldC f xs s)"
  using assms by (induction xs arbitrary: s) (auto intro: keeps_intros)

lemma untouched_fail_content:
  "c_MediaID c \<noteq> j \<Longrightarrow> keeps (\<lambda>r. steady tx (untouched j x s)) (fail_content c es)"
  unfolding fail_content_def
  by (intro keeps_intros keeps_lift_value untouched_writes) (auto simp: content_MarkFailed_ok)

lemma untouched_requeue_content:
  "c_MediaID c \<noteq> j \<Longrightarrow> keeps (\<lambda>r. steady tx (untouched j x s)) (requeue_content sb c st)"
  unfolding requeue_content_def Let_def
  by (cases st; simp; intro conjI impI keeps_intros untouched_writes)
    (auto simp: RequeueAnalysis_def content_recordEvent_def)

lemma untouched_save_media: "m_ID m \<noteq> j \<Longrightarrow> keeps (\<lambda>r. steady tx (untouched j x s)) (save_media m es)"
  unfolding save_media_def by (intro keeps_intros untouched_writes)

lemma untouched_fail_stale: "m_ID m \<noteq> j \<Longrightarrow> keeps (\<lambda>r. steady tx (untouched j x s)) (fail_stale m es)"
  unfolding fail_stale_def by (intro keeps_intros keeps_lift_value untouched_save_media) (auto simp: MarkFailed_ok)

lemma untouched_failMedia: "i \<noteq> j \<Longrightarrow> keeps (\<lambda>r. steady False (untouched j x s)) (recover_failMedia i)"
  unfolding recover_failMedia_def media_GetByID_def ListByMediaID_def
  by (intro steady_withTx keeps_read_value keeps_option keeps_if keeps_return keeps_bind keeps_fold_each
      untouched_fail_content untouched_fail_stale) (metis media_get_ID contents_of_media)+

lemma untouched_requeueMedia: "i \<noteq> j \<Longrightarrow> keeps (\<lambda>r. steady False (untouched j x s)) (requeueMedia i sb now)"
  unfolding requeueMedia_def media_GetByID_def ListByMediaID_def
proof (rule steady_withTx, rule keeps_read_value, rule keeps_option [OF keeps_return], rule keeps_if [OF keeps_return],
    rule keeps_read_value, goal_cases)
  case (1 d m d')
  have m: "m_ID m \<noteq> j" and cs: "c \<in> set (contents_of (m_ID m) d') \<Longrightarrow> c_MediaID c \<noteq> j" for c
    using 1 by (metis media_get_ID contents_of_media)+
  have saved: "keeps (\<lambda>r. steady True (untouched j x s)) (bindC nowC (\<lambda>t. bindC uuidC (\<lambda>eid.
      bindC (liftC (g t eid)) (\<lambda>fresh. thenC (save_media fresh es) (returnC True)))))"
    if "\<And>t eid m'. g t eid = Inr m' \<Longrightarrow> m_ID m' = m_ID m" for g es
    by (intro keeps_bind [OF steady_calls(1)] keeps_bind [OF steady_calls(2)] keeps_lift_value keeps_then keeps_return
        untouched_save_media) (use that m in metis)
  show ?case
  proof (intro keeps_if keeps_then [OF _ keeps_return] keeps_bind [OF keeps_fold_each] keeps_prod untouched_fail_stale m
      untouched_requeue_content cs saved keeps_bind [OF steady_calls(1)] keeps_then keeps_return untouched_writes)
  qed (auto simp: media_ok Touch_def m)
qed

section \<open>Failing an old media\<close>

text \<open>Without faults nothing stops the failure of a media: its contents that are not terminal can be failed.\<close>

definition undisturbed :: "env \<Rightarrow> bool" where
  "undisturbed r \<longleftrightarrow> en_fault r = (\<lambda>t. None)"

lemma undisturbed_fail_content: "undisturbed r \<Longrightarrow> wp (fail_content c es) (\<lambda>_ _. True) (\<lambda>_ _. False) r w"
  by (cases "c_Status c") (simp_all add: fail_content_def content_Update_def undisturbed_def IsTerminal_def content_MarkFailed_def)

lemma undisturbed_fail_stale:
  "undisturbed r \<Longrightarrow> m_Status m = StatusProcessing \<Longrightarrow> (\<And>a v. Q a v) \<Longrightarrow> wp (fail_stale m es) Q (\<lambda>_ _. False) r w"
  by (simp add: fail_stale_def save_media_def media_Update_def StoreEvents_def undisturbed_def MarkFailed_def Let_def)

lemma undisturbed_failMedia: "undisturbed r \<Longrightarrow> wp (recover_failMedia i) (\<lambda>_ _. True) (\<lambda>_ _. False) r w"
proof -
  assume u: "undisturbed r"
  have c: "wp (foldC fail_content cs es) (\<lambda>es. wp (fail_stale m es) Q (\<lambda>_ _. False) r) (\<lambda>_ _. False) r v"
    if "m_Status m = StatusProcessing" "\<And>a v. Q a v" for cs es m v Q
    by (rule wp_mono [OF wp_foldC [where I = "\<lambda>_ _ _. True" and E = "\<lambda>_ _. False"]])
      (use u that undisturbed_fail_content undisturbed_fail_stale in auto)
  show ?thesis
    using u unfolding recover_failMedia_def wp_withTx
    by (auto simp: undisturbed_def media_GetByID_def ListByMediaID_def split: option.splits intro!: c)
qed

lemma wp_conj: "wp c P E r w \<Longrightarrow> wp c Q F r w \<Longrightarrow> wp c (\<lambda>a v. P a v \<and> Q a v) (\<lambda>e v. E e v \<and> F e v) r w"
  by (auto simp: wp_def split: prod.splits sum.splits)

text \<open>A media as the pass finds it, and as it leaves an old one.\<close>

definition timed_out :: "uuid \<Rightarrow> db \<Rightarrow> bool" where
  "timed_out i d \<longleftrightarrow> (\<exists>m. media_get i d = Some m \<and> m_Status m = StatusFailed \<and> m_FailureReason m = StaleFailReason) \<and>
     (\<forall>c \<in> set (contents_of i d). IsTerminal c)"

definition still_processing :: "uuid \<Rightarrow> db \<Rightarrow> bool" where
  "still_processing i d \<longleftrightarrow> (\<exists>m. media_get i d = Some m \<and> m_Status m = StatusProcessing)"

lemma old_media_fails:
  assumes "undisturbed r" and "sound w" and "still_processing i (wd_committed w)"
  shows "wp (recover_failMedia i) (\<lambda>_ w'. timed_out i (wd_committed w')) (\<lambda>_ _. False) r w"
  by (rule wp_mono [OF wp_conj [OF wp_recover_failMedia [OF assms(2)] undisturbed_failMedia [OF assms(1)]]])
    (use assms(3) in \<open>auto simp: still_processing_def timed_out_def stale_failed_def\<close>)

text \<open>The work on the media of the batch keeps what the other media have reached.\<close>

lemma sound_tables: "sound w \<Longrightarrow> media_table (wd_committed w) \<and> content_table (wd_committed w) \<and> wd_tx w = False \<and> wd_db w = wd_committed w"
  by (simp add: holds_def analysis_inv_def idle_def)

lemma recover_one_keeps:
  assumes "m_ID m \<noteq> j" and "sound w"
  shows "timed_out j (wd_committed w) \<longrightarrow> timed_out j (wd_committed (snd (recover_one h now m res r w)))"
    and "still_processing j (wd_committed w) \<longrightarrow> still_processing j (wd_committed (snd (recover_one h now m res r w)))"
proof -
  have k: "keeps (\<lambda>r. steady False (untouched j x s)) (recover_one h now m res)" for x s
    unfolding recover_one_def
    by (intro keeps_intros untouched_failMedia untouched_requeueMedia assms(1))
  have "steady False (untouched j x s) (snd (recover_one h now m res r w))"
    if "untouched j x s (wd_committed w)" for x s
    by (rule keepsD [OF k]) (use that sound_tables [OF assms(2)] in \<open>simp add: steady_def\<close>)
  moreover have "untouched j (media_get j (wd_committed w)) s (wd_committed w)"
    if "s \<longrightarrow> (\<forall>c \<in> set (contents_of j (wd_committed w)). IsTerminal c)" for s
    using that sound_tables [OF assms(2)] unfolding untouched_def by blast
  ultimately have u: "untouched j (media_get j (wd_committed w)) s (wd_committed (snd (recover_one h now m res r w)))"
    if "s \<longrightarrow> (\<forall>c \<in> set (contents_of j (wd_committed w)). IsTerminal c)" for s
    using that unfolding steady_def by blast
  show "timed_out j (wd_committed w) \<longrightarrow> timed_out j (wd_committed (snd (recover_one h now m res r w)))"
    using u [of True] by (auto simp: timed_out_def untouched_def)
  show "still_processing j (wd_committed w) \<longrightarrow> still_processing j (wd_committed (snd (recover_one h now m res r w)))"
    using u [of False] by (auto simp: still_processing_def untouched_def)
qed

section \<open>A pass over the batch\<close>

lemma stale_medias_distinct:
  assumes "media_table d"
  shows "distinct (List.map m_ID (stale_medias before limit d))"
proof -
  have "distinct (List.map mm_ID (sort_key mm_UpdatedAt (List.filter P (t_media d))))" for P
    using assms by (simp add: media_table_def keys_distinct_def distinct_map inj_on_def)
  then have "distinct (List.map mm_ID (take n (sort_key mm_UpdatedAt (List.filter P (t_media d)))))" for n P
    unfolding take_map [symmetric] by (rule distinct_take)
  then show ?thesis by (simp add: stale_medias_def Let_def comp_def mediaDomainFromModel_def)
qed

lemma stale_medias_found:
  assumes "media_table d" and "m \<in> set (stale_medias before limit d)"
  shows "still_processing (m_ID m) d"
proof -
  obtain q where q: "q \<in> set (t_media d)" "mm_DeletedAt q = None" "mm_Status q = StatusProcessing" "m = mediaDomainFromModel q"
    using assms(2) by (fastforce simp: stale_medias_def Let_def dest: in_set_takeD)
  have "media_row (mm_ID q) d = Some q"
    unfolding media_row_def using assms(1) q by (intro tbl_first_key) (auto simp: media_table_def)
  then show ?thesis using q by (simp add: still_processing_def media_get_def mediaDomainFromModel_def)
qed

lemma sound_recover_one: "keeps (\<lambda>r. sound) (recover_one h now m res)"
  unfolding recover_one_def by (intro keeps_intros sound_recover_failMedia sound_requeueMedia)

lemma recover_one_fails_old:
  assumes "undisturbed r" and "sound w" and "still_processing (m_ID m) (wd_committed w)" and "m_CreatedAt m < now - rh_maxAge h"
  shows "timed_out (m_ID m) (wd_committed (snd (recover_one h now m res r w)))"
proof -
  have "wp (recover_one h now m res) (\<lambda>_ w'. timed_out (m_ID m) (wd_committed w')) (\<lambda>_ w'. timed_out (m_ID m) (wd_committed w')) r w"
    unfolding recover_one_def using assms(4) by (simp, intro wp_mono [OF old_media_fails [OF assms(1-3)]]) simp_all
  then show ?thesis by (simp add: wp_both)
qed

lemma recover_one_succeeds: "wp (recover_one h now m res) (\<lambda>_ w'. w' = snd (recover_one h now m res r w)) (\<lambda>_ _. False) r w"
proof -
  have "wp (recover_one h now m res) (\<lambda>_ _. True) (\<lambda>_ _. False) r w"
    unfolding recover_one_def by (simp; intro conjI impI; rule wp_any; simp)
  then show ?thesis by (simp add: wp_def split: prod.splits sum.splits)
qed

text \<open>Where the loop stands: the media to come are as the query found them, the old ones behind it have failed.\<close>

definition recovering :: "recover_handler \<Rightarrow> gotime \<Rightarrow> media list \<Rightarrow> media list \<Rightarrow> db \<Rightarrow> bool" where
  "recovering h now batch ms d \<longleftrightarrow> distinct (List.map m_ID ms) \<and> (\<forall>m \<in> set ms. still_processing (m_ID m) d) \<and>
     (\<forall>m \<in> set batch. m_CreatedAt m < now - rh_maxAge h \<longrightarrow> m \<in> set ms \<or> timed_out (m_ID m) d)"

lemma recovering_step:
  assumes "undisturbed r" and "sound w" and "recovering h now batch (m # ms) (wd_committed w)"
  shows "recovering h now batch ms (wd_committed (snd (recover_one h now m res r w)))"
proof -
  note kept = recover_one_keeps [OF _ assms(2), of m _ h now res r]
  have "m_ID m \<noteq> m_ID m'" if "m' \<in> set ms" for m' using assms(3) that by (auto simp: recovering_def)
  then have "\<forall>m' \<in> set ms. still_processing (m_ID m') (wd_committed (snd (recover_one h now m res r w)))"
    using kept(2) assms(3) by (auto simp: recovering_def)
  moreover have "m' \<in> set ms \<or> timed_out (m_ID m') (wd_committed (snd (recover_one h now m res r w)))"
    if m': "m' \<in> set batch" "m_CreatedAt m' < now - rh_maxAge h" for m'
  proof (cases "m_ID m' = m_ID m")
    case True
    have p: "still_processing (m_ID m) (wd_committed w)" using assms(3) by (simp add: recovering_def)
    then have "\<not> timed_out (m_ID m) (wd_committed w)" by (auto simp: still_processing_def timed_out_def)
    then have "m' = m \<or> m' \<in> set ms" using assms(3) m' True by (auto simp: recovering_def)
    then show ?thesis using recover_one_fails_old [OF assms(1,2) p] m' by auto
  next
    case False
    then have "m' \<in> set ms \<or> timed_out (m_ID m') (wd_committed w)" using assms(3) m' by (auto simp: recovering_def)
    then show ?thesis using kept(1) [of "m_ID m'"] False by auto
  qed
  ultimately show ?thesis using assms(3) by (simp add: recovering_def)
qed

text \<open>The time of the pass: what it is given, or the clock.\<close>

definition pass_time :: "gotime \<Rightarrow> env \<Rightarrow> world \<Rightarrow> gotime" where
  "pass_time given r w = (if IsZero given then en_clock r (wd_tick w) else UTC given)"

definition old_in_batch :: "recover_handler \<Rightarrow> gotime \<Rightarrow> db \<Rightarrow> media list" where
  "old_in_batch h now d = List.filter (\<lambda>m. m_CreatedAt m < now - rh_maxAge h)
     (stale_medias (now - rh_staleAfter h) (rh_batchSize h) d)"

lemma wp_RecoverStale_old:
  assumes "undisturbed r" and "sound w"
  shows "wp (RecoverStale h given) (\<lambda>_ w'. sound w' \<and>
      (\<forall>m \<in> set (old_in_batch h (pass_time given r w) (wd_committed w)). timed_out (m_ID m) (wd_committed w'))) (\<lambda>_ _. False) r w"
proof -
  let ?now = "pass_time given r w"
  let ?batch = "stale_medias (?now - rh_staleAfter h) (rh_batchSize h) (wd_committed w)"
  have t: "media_table (wd_committed w)" "wd_db w = wd_committed w" using sound_tables [OF assms(2)] by auto
  have loop: "wp (foldC (recover_one h ?now) ?batch res)
      (\<lambda>_ v. sound v \<and> recovering h ?now ?batch [] (wd_committed v)) (\<lambda>_ _. False) r v"
    if v: "sound v" "wd_committed v = wd_committed w" for res v
  proof (rule wp_foldC [where I = "\<lambda>ms _ v. sound v \<and> recovering h ?now ?batch ms (wd_committed v)"])
    show "sound v \<and> recovering h ?now ?batch ?batch (wd_committed v)"
      using v stale_medias_distinct [OF t(1)] stale_medias_found [OF t(1)] by (simp add: recovering_def)
    fix m ms res' and u :: world assume u: "sound u \<and> recovering h ?now ?batch (m # ms) (wd_committed u)"
    show "wp (recover_one h ?now m res') (\<lambda>_ u'. sound u' \<and> recovering h ?now ?batch ms (wd_committed u')) (\<lambda>_ _. False) r u"
      by (rule wp_mono [OF recover_one_succeeds])
        (use u keepsD [OF sound_recover_one] recovering_step [OF assms(1)] in auto)
  qed
  have "wp (foldC (recover_one h ?now) ?batch res)
      (\<lambda>_ v. sound v \<and> (\<forall>m \<in> set (old_in_batch h ?now (wd_committed w)). timed_out (m_ID m) (wd_committed v))) (\<lambda>_ _. False) r v"
    if "sound v" "wd_committed v = wd_committed w" for res v
    by (rule wp_mono [OF loop [OF that]]) (auto simp: recovering_def old_in_batch_def)
  then show ?thesis
    using assms t unfolding RecoverStale_def ListProcessingUpdatedBefore_def
    by (simp add: undisturbed_def pass_time_def Let_def)
qed

end
