(* ===== verification/Installation.thy ===== *)
theory Installation
  imports WholeSystem Recovery
begin

text \<open>
  An installation: the environment variables, a router that compares paths, Stripe and Clerk that answer,
  and the database of the office. The theorems about configured processes are applied to it.
\<close>

section \<open>Its configuration\<close>

definition sample_vars :: env_vars where
  "sample_vars key = (if (key, Required) \<in> set demands then ''set''
     else if (key, RequiredInteger) \<in> set demands then ''600'' else [])"

definition sample_config :: config where
  "sample_config = projr (Load sample_vars)"

lemma sample_no_complaint: "first_complaint sample_vars demands = None"
proof -
  have "Atoi ''600'' = Some 600"
    by (simp add: Atoi_def parse_sign_def atoi_digits_def is_digit_def digit_of_def Let_def)
  then show ?thesis
    by (simp add: first_complaint_None complaint_def Let_def sample_vars_def demands_def)
qed

lemma sample_Load: "Load sample_vars = Inr sample_config"
proof -
  have "panic_of (Load sample_vars) = None" unfolding panic_of_Load by (rule sample_no_complaint)
  then show ?thesis by (cases "Load sample_vars") (simp_all add: panic_of_def sample_config_def)
qed

section \<open>Its services\<close>

definition sample_price :: stripe_preview where
  "sample_price = \<lparr>vi_Currency = ''eur'', vi_AmountDue = 500, vi_Subtotal = 500, vi_Total = 500, vi_PeriodStart = 1,
     vi_PeriodEnd = 2, vi_Lines = None\<rparr>"

definition sample_stripe :: stripe_api where
  "sample_stripe = \<lparr>sa_GetSubscription = (\<lambda>_ _. failC (Err ''unknown'')), sa_ListInvoices = (\<lambda>_ _ _. returnC []),
     sa_UpdateSubscription = (\<lambda>_ _. failC (Err ''unknown'')), sa_CreatePreview = (\<lambda>_ _. returnC sample_price),
     sa_NewCheckout = (\<lambda>_ _. returnC ''https://checkout''), sa_NewPortal = (\<lambda>_ _ _. returnC ''https://portal'')\<rparr>"

definition sample_framework :: framework where
  "sample_framework = \<lparr>fw_Match = (\<lambda>m pat m' path. if m = m' \<and> pat = path then Some (\<lambda>_. []) else None),
     fw_Under = prefix, fw_NoRoute = (\<lambda>_ _. 404), fw_Liveness = ''/livez'', fw_Readiness = ''/readyz'', fw_Startup = ''/startupz''\<rparr>"

lemma sample_framework_ok: "framework_ok sample_framework"
  by (simp add: framework_ok_def sample_framework_def)

definition sample_services :: services where
  "sample_services = \<lparr>sv_Framework = sample_framework, sv_ParseUUID = (\<lambda>_. None), sv_IsUUID = (\<lambda>_. False),
     sv_Collation = (\<lambda>_. 0), sv_Verify = (\<lambda>_ _. None), sv_Accounts = (\<lambda>_ _. failC (Err ''unknown'')),
     sv_Sign = (\<lambda>_ _ _ _. Inr ''token''), sv_Stripe = sample_stripe\<rparr>"

definition sample_detection :: detection where
  "sample_detection = \<lparr>dt_Tools = \<lparr>it_decode = (\<lambda>_. Inl (Err ''unknown format'')), it_phash = (\<lambda>_. Inr []),
       it_periodicity = (\<lambda>_ _. 0), it_float2 = (\<lambda>_. []), it_percent = (\<lambda>_. []), it_hashes = None\<rparr>,
     dt_Rulesets = None, dt_Send = (\<lambda>_. failC (Err ''unreachable'')), dt_Schedule = (\<lambda>ds. ds)\<rparr>"

definition sample_system :: system where
  "sample_system = \<lparr>sy_Config = sample_config, sy_Services = sample_services, sy_Detection = sample_detection\<rparr>"

lemma sample_api_quiet: "api_quiet sample_stripe"
  by (auto simp: api_quiet_def sample_stripe_def intro!: readonly_intros)

lemma quiet_fail: "quiet (failC e)"
  unfolding quiet_keeps by (intro allI keeps_fail)

lemma sample_system_ok: "system_ok sample_system"
  using sample_api_quiet
  by (auto simp: system_ok_def sample_system_def sample_services_def sample_detection_def tools_quiet_def quiet_fail
      intro!: readonly_intros)

lemma office_sound: "sound (world_on office_db)"
proof -
  have "analysis_inv office_db = analysis_inv sample_db"
    by (rule analysis_inv_frame) (simp_all add: office_db_def)
  then show ?thesis using sample_sound by (simp add: holds_def world_on_def idle_def)
qed

text \<open>A request without a token, and the worlds the system goes through.\<close>

definition sample_incoming :: incoming where
  "sample_incoming = \<lparr>in_Method = ''GET'', in_Path = ''/api/plans'', in_Authorization = [], in_StripeSignature = [],
     in_Query = (\<lambda>_. []), in_List = (\<lambda>_. []), in_Page = None, in_Text = (\<lambda>_. None), in_Campaign = None,
     in_Background = None, in_Presign = None, in_Subscribe = None, in_Verified = False, in_Clerk = Undecodable,
     in_Objects = Undecodable, in_Stripe = Undecodable\<rparr>"

definition sample_served :: world where
  "sample_served = snd (serve (the_server sample_system) sample_incoming calm_env (world_on office_db))"

definition sample_recovered :: world where
  "sample_recovered = snd (tickStaleMedias (scheduler_NewContainer sample_config) calm_env sample_served)"

lemma sample_runs: "system_runs sample_system (world_on office_db) sample_recovered"
proof -
  have "system_step sample_system (world_on office_db) sample_served"
    unfolding sample_served_def by (rule Request)
  moreover have "system_step sample_system sample_served sample_recovered"
    using Recovery [of sample_system sample_served calm_env] by (simp add: sample_recovered_def sample_system_def)
  ultimately show ?thesis
    unfolding system_runs_def by (rule converse_rtranclp_into_rtranclp [OF _ r_into_rtranclp])
qed

text \<open>A clock in the time of Unix, and an exchange that is a topic exchange.\<close>

definition unix_env :: env where
  "unix_env = calm_env\<lparr>en_clock := (\<lambda>t. unix_epoch + (1000 + int t) * Second)\<rparr>"

lemma unix_env_clock: "0 < unix_seconds (en_clock unix_env t)"
  by (simp add: unix_env_def unix_seconds_def)

definition plain_topic :: "string \<Rightarrow> string \<Rightarrow> bool" where
  "plain_topic pattern key \<longleftrightarrow> pattern = key \<or>
     (drop (length pattern - 2) pattern = ''.#'' \<and> prefix (butlast pattern) key)"

lemma plain_topic_ok: "topic_exchange plain_topic"
  by (auto simp: topic_exchange_def plain_topic_def butlast_append)

text \<open>Ten hours later the media of the sample is old.\<close>

lemma sample_old_in_batch:
  "old_in_batch (NewRecoverStale 0 0) (pass_time (10 * Hour) calm_env (world_on sample_db)) sample_db = [sample_media]"
  by (simp add: old_in_batch_def pass_time_def stale_medias_def NewRecoverStale_def IsZero_def DefaultStaleAfter_def
      DefaultMaxAge_def DefaultBatchSize_def sample_defs mediaModelFromDomain_def mediaDomainFromModel_def TrimSpace_def)

end
