(* ===== verification/ActivityFeed.thy ===== *)
theory ActivityFeed
  imports Deduplication
begin

text \<open>
  The activity feed keeps one row per event, and announces a new row to the members of its client. A
  row whose announcement failed is in the feed already, so that the retry announces it to nobody.
\<close>

definition in_feed :: "uuid \<Rightarrow> db \<Rightarrow> bool" where
  "in_feed i d \<longleftrightarrow> i \<in> a_ID ` set (t_activities d)"

definition feed_audience :: "uuid \<Rightarrow> db \<Rightarrow> uuid list" where
  "feed_audience clientID d = (case client_get clientID d of None \<Rightarrow> [] | Some c \<Rightarrow> cl_MemberIDs c)"

text \<open>A row that \<open>k\<close> members of the client have heard of.\<close>

definition announced :: "env \<Rightarrow> activity \<Rightarrow> nat \<Rightarrow> world \<Rightarrow> world \<Rightarrow> bool" where
  "announced r a k w w' \<longleftrightarrow> (\<exists>b. a_ID b = a_ID a \<and> a_Message b = a_Message a \<and> wd_realtime w' = wd_realtime w @
     List.map (realtime_to r ''activity'' ''created'' (RtActivity b)) (take k (feed_audience (a_ClientID a) (wd_committed w))))"

definition feed_grown :: "activity \<Rightarrow> world \<Rightarrow> world \<Rightarrow> bool" where
  "feed_grown a w w' \<longleftrightarrow> \<not> in_feed (a_ID a) (wd_committed w) \<and> (\<exists>b. a_ID b = a_ID a \<and> a_ClientID b = a_ClientID a \<and>
     a_Message b = a_Message a \<and>
     wd_committed w' = (wd_committed w)\<lparr>t_activities := t_activities (wd_committed w) @ [b]\<rparr>)"

lemma feed_grown_in: "feed_grown a w w' \<Longrightarrow> in_feed (a_ID a) (wd_committed w')"
  by (auto simp: feed_grown_def in_feed_def)

lemma feed_audience_activities [simp]: "feed_audience i (d\<lparr>t_activities := t\<rparr>) = feed_audience i d"
  by (simp add: feed_audience_def client_get_def members_of_def)

lemma wp_publishCreated:
  fixes w :: world
  shows "wp (publishCreated a)
    (\<lambda>_ w'. wd_committed w' = wd_committed w \<and> idle w' = idle w \<and> (\<exists>k. announced r a k w w' \<and>
       length (feed_audience (a_ClientID a) (wd_committed w)) \<le> k))
    (\<lambda>err w'. as_retryable err \<and> wd_committed w' = wd_committed w \<and> idle w' = idle w \<and> (\<exists>k. announced r a k w w')) r w"
proof -
  let ?us = "feed_audience (a_ClientID a) (wd_committed w)"
  have none: "announced r a 0 w (w\<lparr>wd_tick := n\<rparr>)" for n by (auto simp: announced_def)
  have to: "wp (ToMembers ''activity'' ''created'' us (RtActivity a))
    (\<lambda>_ w'. wd_committed w' = wd_committed w \<and> idle w' = idle w \<and> (\<exists>k. announced r a k w w' \<and> length us \<le> k))
    (\<lambda>err w'. as_retryable err \<and> wd_committed w' = wd_committed w \<and> idle w' = idle w \<and> (\<exists>k. announced r a k w w')) r
    (w\<lparr>wd_tick := n\<rparr>)" if "us = ?us" for us n
  proof (rule wp_mono [OF wp_ToMembers], goal_cases)
    case (1 x w')
    then show ?case using that by (auto simp: announced_def idle_def intro!: exI [of _ "length us"] exI [of _ a])
  next
    case (2 e w')
    then show ?case using that by (fastforce simp: announced_def idle_def)
  qed
  have aud: "?us = members_of (a_ClientID a) (wd_committed w)"
    if "tbl_first clm_ID (\<lambda>r. clm_ID r = a_ClientID a) (t_clients (wd_committed w)) = Some x" for x
    using that by (simp add: feed_audience_def client_get_def clientDomainFromModel_def)
  have out: "?us = []" if "tbl_first clm_ID (\<lambda>r. clm_ID r = a_ClientID a) (t_clients (wd_committed w)) = None"
    using that by (simp add: feed_audience_def client_get_def)
  show ?thesis
    unfolding publishCreated_def clientRead_FindByID_def
    using to none aud out
    by (auto simp: Retryable_def idle_def clientDomainFromModel_def split: option.splits)
qed

lemma wp_activity_Insert:
  fixes w :: world
  assumes "idle w"
  shows "wp (activity_Insert b)
    (\<lambda>new w'. if new then feed_grown b w w' \<and> idle w' \<and> wd_realtime w' = wd_realtime w
      else in_feed (a_ID b) (wd_committed w) \<and> only_ticks w w') (\<lambda>_. only_ticks w) r w"
proof -
  have same: "only_ticks w (w\<lparr>wd_tick := n, wd_db := wd_committed w\<rparr>)" for n
    using assms by (cases w) (auto simp: only_ticks_def idle_def)
  have row: "\<exists>b'. a_ID b' = a_ID b \<and> a_ClientID b' = a_ClientID b \<and> a_Message b' = a_Message b \<and>
      d\<lparr>t_activities := ts @ [x]\<rparr> = d\<lparr>t_activities := ts @ [b']\<rparr>"
    if "a_ID x = a_ID b" "a_ClientID x = a_ClientID b" "a_Message x = a_Message b" for x and d :: db and ts
    using that by blast
  show ?thesis
    using assms same
    by (auto intro!: row simp: activity_Insert_def activity_insert_def set_db_def idle_def feed_grown_def in_feed_def)
qed

text \<open>One run of the projector on one event, success or not: the feed is as before and nobody is told, or it
  has the new row, which all members have heard of on success and some of them otherwise.\<close>

definition projected :: "env \<Rightarrow> activity \<Rightarrow> world \<Rightarrow> world \<Rightarrow> bool" where
  "projected r a w w' \<longleftrightarrow> (if in_feed (a_ID a) (wd_committed w) then only_ticks w w' else feed_grown a w w' \<and> idle w' \<and>
     (\<exists>k. announced r a k w w' \<and> length (feed_audience (a_ClientID a) (wd_committed w)) \<le> k))"

definition unprojected :: "env \<Rightarrow> activity \<Rightarrow> world \<Rightarrow> world \<Rightarrow> bool" where
  "unprojected r a w w' \<longleftrightarrow> idle w' \<and> (only_ticks w w' \<or> feed_grown a w w' \<and> (\<exists>k. announced r a k w w'))"

lemma projected_published:
  assumes "feed_grown b w v" "wd_realtime v = wd_realtime w" "idle v"
    and "a_ID b = a_ID a" "a_ClientID b = a_ClientID a" "a_Message b = a_Message a"
  shows "wp (publishCreated b) (\<lambda>_. projected r a w) (\<lambda>err w'. as_retryable err \<and> unprojected r a w w') r v"
proof -
  have g: "feed_grown a w v" using assms(1,4-6) by (simp add: feed_grown_def)
  then have aud: "feed_audience (a_ClientID a) (wd_committed v) = feed_audience (a_ClientID a) (wd_committed w)"
    by (auto simp: feed_grown_def)
  have an: "announced r b k v w' \<Longrightarrow> announced r a k w w'" for k w'
    using assms aud by (auto simp: announced_def)
  have gr: "wd_committed w' = wd_committed v \<Longrightarrow> feed_grown a w w'" for w' using g by (simp add: feed_grown_def)
  show ?thesis
    by (rule wp_mono [OF wp_publishCreated])
      (use an gr g assms(3,5) aud in \<open>auto simp: projected_def unprojected_def feed_grown_def\<close>)
qed

lemma wp_project_insert:
  fixes w :: world
  assumes "idle w"
  shows "wp (project_insert a) (\<lambda>_. projected r a w) (\<lambda>err w'. as_retryable err \<and> unprojected r a w w') r w"
proof -
  have grown: "feed_grown b (w\<lparr>wd_tick := n\<rparr>) w' \<Longrightarrow> feed_grown b w w'" for b n w' by (auto simp: feed_grown_def)
  have left: "only_ticks (w\<lparr>wd_tick := n\<rparr>) w' \<Longrightarrow> unprojected r a w w'" for n w'
    using assms by (auto simp: only_ticks_def unprojected_def idle_def)
  have old: "only_ticks (w\<lparr>wd_tick := n\<rparr>) w' \<Longrightarrow> in_feed (a_ID a) (wd_committed w) \<Longrightarrow> projected r a w w'" for n w'
    by (auto simp: only_ticks_def projected_def)
  have go: "wp (bindC (mapErrC Retryable (activity_Insert b)) (\<lambda>inserted. if \<not> inserted then returnC () else publishCreated b))
    (\<lambda>_. projected r a w) (\<lambda>err w'. as_retryable err \<and> unprojected r a w w') r (w\<lparr>wd_tick := n\<rparr>)"
    if "a_ID b = a_ID a" "a_ClientID b = a_ClientID a" "a_Message b = a_Message a" for b n
    unfolding wp_bind wp_mapErr
  proof (rule wp_mono [OF wp_activity_Insert], goal_cases)
    case (2 new w')
    then show ?case
      using that grown old by (auto intro!: projected_published split: if_splits)
  qed (use assms left in \<open>auto simp: idle_def Retryable_def\<close>)
  show ?thesis
    using go [of a "wd_tick w"] go [of "a\<lparr>a_OccurredAt := t\<rparr>" n for t n] by (simp add: project_insert_def)
qed

end
