(* ===== verification/CampaignTenancy.thy ===== *)
theory CampaignTenancy
  imports HttpFacts CampaignLifecycle
begin

text \<open>
  The campaigns of other clients stay as they are: what the campaign handlers of
  \<open>src/internal/interfaces/http/handler/campaign_handler.go\<close> may change is the campaigns of the client
  the user works in.
\<close>

definition foreign_campaigns :: "uuid \<Rightarrow> db \<Rightarrow> campaign_model list" where
  "foreign_campaigns c d = List.filter (\<lambda>r. cpm_ClientID r \<noteq> c) (t_campaigns d)"

definition tenant :: "uuid \<Rightarrow> campaign_model list \<Rightarrow> db \<Rightarrow> bool" where
  "tenant c F d \<longleftrightarrow> keys_distinct cpm_ID (t_campaigns d) \<and> foreign_campaigns c d = F"

text \<open>In addition the campaign \<open>i\<close> is one of the client.\<close>

definition tenant_at :: "uuid \<Rightarrow> uuid \<Rightarrow> campaign_model list \<Rightarrow> db \<Rightarrow> bool" where
  "tenant_at i c F d \<longleftrightarrow> tenant c F d \<and> (\<forall>r \<in> set (t_campaigns d). cpm_ID r = i \<longrightarrow> cpm_ClientID r = c)"

lemma tenant_other [simp]:
  "tenant c F (outbox_put es d) = tenant c F d" "tenant_at i c F (outbox_put es d) = tenant_at i c F d"
  "tenant c F (media_put m d) = tenant c F d" "tenant_at i c F (media_put m d) = tenant_at i c F d"
  by (simp_all add: tenant_at_def tenant_def foreign_campaigns_def outbox_put_def media_put_def)

lemma tenant_save:
  assumes "tenant c F d" and "cpm_ClientID row = c" and "\<forall>r \<in> set (t_campaigns d). cpm_ID r = cpm_ID row \<longrightarrow> cpm_ClientID r = c"
  shows "tenant c F (d\<lparr>t_campaigns := tbl_save cpm_ID row (t_campaigns d)\<rparr>)"
proof -
  have "List.filter (\<lambda>r. cpm_ClientID r \<noteq> c) (List.map (\<lambda>r. if cpm_ID r = cpm_ID row then row else r) t) =
      List.filter (\<lambda>r. cpm_ClientID r \<noteq> c) t" if "\<forall>r \<in> set t. cpm_ID r = cpm_ID row \<longrightarrow> cpm_ClientID r = c" for t
    using that assms(2) by (induction t) auto
  then show ?thesis
    using assms tbl_save_distinct [of cpm_ID "t_campaigns d" row]
    by (simp add: tenant_def foreign_campaigns_def) (simp add: tbl_save_def)
qed

lemma tenant_campaign_step:
  assumes "tenant c F d" and "campaign_get i d = Some v" and "cp_ClientID v = c" and "campaign_step v v'"
  shows "tenant c F (campaign_put v' d)" "tenant_at i c F (campaign_put v' d)"
proof -
  obtain row where row: "row \<in> set (t_campaigns d)" "cpm_ID row = i" "v = campaignDomainFromModel row"
    using campaign_get_row [OF assms(2)] by blast
  have k: "keys_distinct cpm_ID (t_campaigns d)" using assms(1) by (simp add: tenant_def)
  have only: "\<forall>r \<in> set (t_campaigns d). cpm_ID r = i \<longrightarrow> cpm_ClientID r = c"
    using k row assms(3) by (auto simp: campaignDomainFromModel_def keys_distinct_def distinct_map inj_on_def)
  have v': "cp_ID v' = i" "cp_ClientID v' = c"
    using campaign_step_identity [OF assms(4)] row assms(3) by (simp_all add: campaignDomainFromModel_def)
  show t: "tenant c F (campaign_put v' d)"
    unfolding campaign_put_def by (rule tenant_save) (use assms(1) only v' in auto)
  show "tenant_at i c F (campaign_put v' d)"
    using t only v' by (auto simp: tenant_at_def campaign_put_def set_tbl_save [OF k])
qed

lemma tenant_at_owner:
  assumes "tenant_at i c F d" and "campaign_get i d = Some v"
  shows "cp_ClientID v = c"
  using assms campaign_get_row [OF assms(2)] by (auto simp: tenant_at_def campaignDomainFromModel_def)

lemma tenant_at_step:
  assumes "tenant_at i c F d" and "campaign_get i d = Some v" and "campaign_step v v'"
  shows "tenant_at i c F (campaign_put v' d)"
  using assms(1) by (intro tenant_campaign_step(2) [OF _ assms(2) tenant_at_owner [OF assms(1,2)] assms(3)])
    (simp add: tenant_at_def)

lemma tenant_UpdateCampaign: "keeps (\<lambda>r. holds (tenant_at i c F)) (UpdateCampaign i name s e)"
  unfolding UpdateCampaign_def
  by (intro keeps_intros holds_withTx, intro tx_safe_intros)
    (auto simp: account_reads split: option.splits intro: tenant_at_step [OF _ _ campaign_step.update])

lemma tenant_ClearBackground: "keeps (\<lambda>r. holds (tenant c F)) (ClearBackground i c)"
  unfolding ClearBackground_def Let_def
  by (intro keeps_intros holds_withTx, intro tx_safe_intros)
    (auto simp: account_reads split: option.splits intro: tenant_campaign_step(1) [OF _ _ _ campaign_step.cleared])

lemma tenant_PresignBackground: "keeps (\<lambda>r. holds (tenant c F)) (PresignBackground i c name ct)"
  unfolding PresignBackground_def Let_def
  by (intro keeps_intros holds_withTx, intro tx_safe_intros)
    (auto simp: account_reads split: option.splits intro: tenant_campaign_step(1) [OF _ _ _ campaign_step.pending])

lemma tenant_delete_media: "keeps (\<lambda>r. in_tx_holds (tenant_at i c F)) (delete_media m es)"
  unfolding delete_media_def contentObjectRefs_def Let_def account_reads
  by (intro keeps_intros in_tx_holds_write) auto

lemma tenant_StoreEvents: "keeps (\<lambda>r. in_tx_holds (tenant_at i c F)) (StoreEvents es)"
  unfolding StoreEvents_def by (intro keeps_intros in_tx_holds_write) auto

lemma tenant_DeleteCampaign: "keeps (\<lambda>r. holds (tenant_at i c F)) (DeleteCampaign i)"
  unfolding DeleteCampaign_def
proof (intro holds_withTx, goal_cases)
  case 1
  show ?case unfolding delete_media_def contentObjectRefs_def Let_def by (intro tx_safe_intros)
next
  case (2 r w)
  have rest: "wp (foldC delete_media ms es) (\<lambda>a. wp (StoreEvents a) (\<lambda>_ w'. tenant_at i c F (wd_db w')) (\<lambda>_ _. True) r)
      (\<lambda>_ _. True) r v" if "in_tx_holds (tenant_at i c F) v" for ms es and v :: world
    by (rule keeps_wpI [OF keeps_foldC [OF tenant_delete_media] that], rule keeps_wpI [OF tenant_StoreEvents [where i = i and c = c and F = F]])
      (simp_all add: in_tx_holds_def)
  have step: "in_tx_holds (tenant_at i c F) (w\<lparr>wd_db := campaign_put c' (wd_db w), wd_tick := n\<rparr>)"
    if "campaign_get i (wd_db w) = Some v" "campaign_SoftDelete now eid v = Inr c'" for v c' n now eid
    using 2 tenant_at_step [OF _ that(1) campaign_step.delete [OF that(2)]] by (simp add: in_tx_holds_def)
  show ?case
    using 2 by (auto simp: campaign_GetByIDForUpdate_def campaign_Update_def ListActiveByCampaignID_def
        split: option.splits intro!: rest step)
qed

lemma keeps_lift_bind:
  assumes "\<And>a. x = Inr a \<Longrightarrow> keeps I (f a)"
  shows "keeps I (bindC (liftC x) f)"
  using assms by (cases x) (auto simp: keeps_wp)

lemma tenant_insert:
  assumes "tenant c F d" and "cp_ClientID v = c" and "campaign_insert v d = Inr d'"
  shows "tenant c F d'"
  using assms tbl_create_distinct [of cpm_ID "t_campaigns d" "campaignModelFromDomain v"]
    tbl_create_rows [of cpm_ID "campaignModelFromDomain v" "t_campaigns d"]
  by (auto simp: campaign_insert_def tenant_def foreign_campaigns_def split: sum.splits)

lemma tenant_CreateCampaign: "keeps (\<lambda>r. holds (tenant c F)) (CreateCampaign quota name c s e)"
proof -
  have store: "keeps (\<lambda>r. holds (tenant c F)) (withTx (thenC (campaign_Save v) (StoreEvents es)))"
    if "cp_ClientID v = c" for v es
    using that by (intro holds_withTx, intro tx_safe_intros) (auto simp: account_reads intro: tenant_insert)
  show ?thesis
    unfolding CreateCampaign_def
    by (rule keeps_lift_bind | rule store | rule keeps_intros | (fastforce simp: NewCampaign_def Let_def campaign_recordEvent_def split: sum.splits if_splits))+
qed

section \<open>The handlers\<close>

lemma tenant_respond: "keeps (\<lambda>r. holds I) (respond st b)"
  unfolding respond_def by (intro keeps_intros)

lemma tenant_at_own:
  assumes "tenant c F d" and "campaign_get i d = Some v" and "cp_ClientID v = c"
  shows "tenant_at i c F d"
proof -
  obtain row where "row \<in> set (t_campaigns d)" "cpm_ID row = i" "v = campaignDomainFromModel row"
    using campaign_get_row [OF assms(2)] by blast
  then show ?thesis
    using assms(1,3) by (auto simp: tenant_at_def tenant_def campaignDomainFromModel_def keys_distinct_def distinct_map inj_on_def)
qed

lemma keeps_request:
  "(\<And>u. keeps (\<lambda>r. holds I) (f u)) \<Longrightarrow> keeps (\<lambda>r. holds I) (with_user rq f)"
  "(\<And>b. keeps (\<lambda>r. holds I) (h b)) \<Longrightarrow> keeps (\<lambda>r. holds I) (BindBody rq valid h)"
  "keeps (\<lambda>r. holds I) bad \<Longrightarrow> (\<And>i. keeps (\<lambda>r. holds I) (k i)) \<Longrightarrow> keeps (\<lambda>r. holds I) (with_uuid lb raw bad k)"
  by (auto simp: request_defs tenant_respond split: sum.splits option.splits)

lemma keeps_with_client:
  "works_in rq c \<Longrightarrow> keeps (\<lambda>r. holds I) (g c) \<Longrightarrow> keeps (\<lambda>r. holds I) (with_client rq g)"
  by (simp add: with_client_def works_in_def)

lemma keeps_own_campaign:
  assumes "works_in rq c" and "\<And>i. keeps (\<lambda>r. holds (tenant_at i c F)) (f i)"
  shows "keeps (\<lambda>r. holds (tenant c F)) (with_own_campaign lb rq f)"
proof -
  have rest: "wp (f i) (\<lambda>_. holds (tenant c F)) (\<lambda>_. holds (tenant c F)) r w"
    if "holds (tenant c F) w" "campaign_get i (wd_committed w) = Some v" "cp_ClientID v = c" for i r w v
  proof -
    have "holds (tenant_at i c F) w" using that tenant_at_own by (auto simp: holds_def)
    then have "wp (f i) (\<lambda>_. holds (tenant_at i c F)) (\<lambda>_. holds (tenant_at i c F)) r w"
      using assms(2) unfolding keeps_wp by blast
    then show ?thesis by (rule wp_mono) (simp_all add: holds_def tenant_at_def)
  qed
  have own: "keeps (\<lambda>r. holds (tenant c F)) (tryC (GetCampaignByID i) get_campaign_error (\<lambda>existing.
      if cp_ClientID (fst existing) \<noteq> c then message 404 ''Campaign not found'' else f i))" for i
    unfolding keeps_wp wp_try
    by (intro allI impI, rule wp_reads_now [OF reads_campaign]) (simp_all add: get_campaign_error_def rest)
  show ?thesis
    unfolding with_own_campaign_def by (intro keeps_request keeps_with_client [OF assms(1)] tenant_respond own)
qed

lemma keeps_or_quota: "keeps (\<lambda>r. holds I) f \<Longrightarrow> keeps (\<lambda>r. holds I) (or_quota e f)"
  by (simp add: or_quota_def respondQuotaError_def tenant_respond)

lemmas tenant_intros = keeps_or_quota keeps_intros keeps_request tenant_respond tenant_CreateCampaign tenant_UpdateCampaign
  tenant_DeleteCampaign tenant_ClearBackground tenant_PresignBackground

lemma tenant_Create:
  assumes "works_in rq c"
  shows "keeps (\<lambda>r. holds (tenant c F)) (CampaignHandler_Create lb rq)"
  unfolding CampaignHandler_Create_def with_campaign_body_def schedule_error_def
  by (intro tenant_intros keeps_with_client [OF assms])

lemma tenant_Update:
  assumes "works_in rq c"
  shows "keeps (\<lambda>r. holds (tenant c F)) (CampaignHandler_Update lb rq)"
  unfolding CampaignHandler_Update_def with_campaign_body_def default_protected_def schedule_error_def
    GetCampaignByID_def campaignRead_FindByID_def attach_one_def attachContentCounts_def
  by (intro keeps_own_campaign [OF assms] tenant_intros)

lemma tenant_Delete:
  assumes "works_in rq c"
  shows "keeps (\<lambda>r. holds (tenant c F)) (CampaignHandler_Delete lb rq)"
  unfolding CampaignHandler_Delete_def default_protected_def by (intro keeps_own_campaign [OF assms] tenant_intros)

lemma tenant_background_handlers:
  assumes "works_in rq c" and "works_in rq' c"
  shows "keeps (\<lambda>r. holds (tenant c F)) (CampaignHandler_ClearBackground lb rq)"
    "keeps (\<lambda>r. holds (tenant c F)) (CampaignHandler_PresignBackground lb rq')"
  unfolding CampaignHandler_ClearBackground_def CampaignHandler_PresignBackground_def
  by (intro tenant_intros keeps_with_client [OF assms(1)] keeps_with_client [OF assms(2)])+

lemma tenant_stays:
  assumes "idle w" "keys_distinct cpm_ID (t_campaigns (wd_committed w))"
    and "\<And>F. keeps (\<lambda>r. holds (tenant c F)) h"
  shows "foreign_campaigns c (wd_committed (snd (h r w))) = foreign_campaigns c (wd_committed w)"
proof -
  have "holds (tenant c (foreign_campaigns c (wd_committed w))) w" using assms(1,2) by (simp add: holds_def tenant_def)
  from keepsD [OF assms(3) this, of r] show ?thesis by (simp add: holds_def tenant_def)
qed

end
