(* ===== verification/Dashboard.thy ===== *)
theory Dashboard
  imports HttpFacts
begin

text \<open>
  What the dashboard shows (\<open>CountStatsByClientID\<close> in
  \<open>src/internal/infrastructure/persistence/read/media_query_repository.go\<close> and the handler \<open>Stats\<close>):
  the days add up to the totals of the period, the rates are percentages, and the rows are those of
  the client the user works in.
\<close>

definition counters :: "(campaign_counts \<Rightarrow> int) list" where
  "counters = [cc_PendingUpload, cc_Uploaded, cc_Analyzing, cc_Analyzed, cc_Failed, cc_Human, cc_AIGenerated, cc_Uncertain]"

lemma counter_rows:
  assumes "f \<in> set counters"
  shows "\<exists>P. \<forall>rows. f (status_counts rows) = count_rows P rows"
  using assms by (auto simp: counters_def status_counts_def)

lemma count_rows_simps [simp]: "count_rows P [] = 0" "count_rows P (r # rows) = (if P r then 1 else 0) + count_rows P rows"
  by (simp_all add: count_rows_def)

lemma count_days:
  assumes "distinct ds" and "\<forall>r \<in> set rows. day r \<in> set ds"
  shows "(\<Sum>d\<leftarrow>ds. count_rows P (List.filter (\<lambda>r. day r = d) rows)) = count_rows P rows"
  using assms(2)
proof (induction rows)
  case (Cons r rows)
  have "(\<Sum>d\<leftarrow>ds. count_rows P (List.filter (\<lambda>r. day r = d) (r # rows))) =
      (\<Sum>d\<leftarrow>ds. (if day r = d then if P r then 1 else 0 else 0) + count_rows P (List.filter (\<lambda>r. day r = d) rows))"
    by (intro arg_cong [where f = sum_list] map_cong) auto
  also have "\<dots> = (\<Sum>d\<leftarrow>ds. if day r = d then if P r then 1 else 0 else 0) + count_rows P rows"
    using Cons by (simp add: sum_list_addf)
  also have "(\<Sum>d\<leftarrow>ds. if day r = d then if P r then 1 else 0 else 0) = (if P r then 1 else 0 :: int)"
    using Cons.prems by (simp add: sum_list_distinct_conv_sum_set [OF assms(1)])
  finally show ?case by simp
qed simp

text \<open>A day without an upload has no entry, and would add nothing.\<close>

lemma sum_list_shown:
  "(\<And>d. g d = [] \<Longrightarrow> h d = (0 :: int)) \<Longrightarrow>
    (\<Sum>x\<leftarrow>concat (List.map (\<lambda>d. if g d = [] then [] else [(d, k (g d))]) ds). f (snd x)) = (\<Sum>d\<leftarrow>ds. if g d = [] then 0 else f (k (g d)))"
  by (induction ds) auto

lemma daily_total:
  assumes "f \<in> set counters"
  shows "(\<Sum>x\<leftarrow>countDailyControls c cp from to d. f (snd x)) =
    f (status_counts (List.filter (created_in from to) (stats_rows c cp d)))"
proof -
  obtain P where P: "\<And>rows. f (status_counts rows) = count_rows P rows" using counter_rows [OF assms] by blast
  let ?rows = "List.filter (created_in from to) (stats_rows c cp d)" and ?ds = "[from div Day..to div Day]"
  have days: "\<forall>r \<in> set ?rows. mm_CreatedAt r div Day \<in> set ?ds"
    by (auto simp: created_in_def intro: zdiv_mono1)
  have "(\<Sum>x\<leftarrow>countDailyControls c cp from to d. f (snd x)) =
      (\<Sum>day\<leftarrow>?ds. count_rows P (List.filter (\<lambda>r. mm_CreatedAt r div Day = day) ?rows))"
    unfolding countDailyControls_def Let_def
    by (subst sum_list_shown [where h = "\<lambda>_. 0"]) (auto simp: P intro!: arg_cong [where f = sum_list] map_cong)
  also have "\<dots> = f (status_counts ?rows)"
    unfolding P by (rule count_days [OF _ days]) simp
  finally show ?thesis .
qed

lemma shown_days:
  "List.map fst (concat (List.map (\<lambda>d. if g d = [] then [] else [(d, k d)]) ds)) = List.filter (\<lambda>d. g d \<noteq> []) ds"
  by (induction ds) auto

lemma daily_sorted: "sorted_wrt (<) (List.map fst (countDailyControls c cp from to d))"
proof -
  have "sorted_wrt (<) [from div Day..to div Day]" by (simp add: strict_sorted_iff)
  then show ?thesis
    unfolding countDailyControls_def Let_def by (subst shown_days) (rule sorted_wrt_filter)
qed

lemma count_rows_mono: "(\<And>r. P r \<Longrightarrow> Q r) \<Longrightarrow> 0 \<le> count_rows P rows \<and> count_rows P rows \<le> count_rows Q rows"
  by (induction rows) auto

definition percentage :: "rat \<Rightarrow> bool" where
  "percentage x \<longleftrightarrow> 0 \<le> x \<and> x \<le> 100"

lemma kpis_rates:
  "percentage (dk_AuthenticityRatePercent (kpis_of month (count_verifications a b rows) prev n))"
  "percentage (dk_AIGeneratedSharePercent (kpis_of month (count_verifications a b rows) prev n))"
proof -
  have part: "0 \<le> count_rows (\<lambda>r. verified_in a b r \<and> P r) rows \<and>
      count_rows (\<lambda>r. verified_in a b r \<and> P r) rows \<le> count_rows (\<lambda>r. verified_in a b r \<and> True) rows" for P
    by (rule count_rows_mono) simp
  show "percentage (dk_AuthenticityRatePercent (kpis_of month (count_verifications a b rows) prev n))"
    "percentage (dk_AIGeneratedSharePercent (kpis_of month (count_verifications a b rows) prev n))"
    unfolding kpis_of_def count_verifications_def Let_def percentage_def dashboard_kpis.simps verification_counts.simps
    by (rule ratePercent_bounds [OF conjunct1 [OF part] conjunct2 [OF part]])+
qed

text \<open>What the statistics of a client are, at a state of the database.\<close>

definition stats_of :: "uuid \<Rightarrow> uuid option \<Rightarrow> db \<Rightarrow> media_stats \<Rightarrow> bool" where
  "stats_of c cp d s \<longleftrightarrow>
     ms_From s \<le> ms_To s \<and>
     ms_Counts s = status_counts (List.filter (created_in (ms_From s) (ms_To s)) (stats_rows c cp d)) \<and>
     sorted_wrt (<) (List.map fst (ms_Daily s)) \<and>
     list_all (\<lambda>f. (\<Sum>x\<leftarrow>ms_Daily s. f (snd x)) = f (ms_Counts s)) counters \<and>
     percentage (dk_AuthenticityRatePercent (ms_KPIs s)) \<and> percentage (dk_AIGeneratedSharePercent (ms_KPIs s))"

lemma reads_stats: "from \<le> to \<Longrightarrow> reads (CountStatsByClientID c cp from to) (stats_of c cp (wd_committed w)) r w"
  by (auto simp: reads_def CountStatsByClientID_def countDashboardKPIs_def Let_def stats_of_def daily_sorted daily_total
      kpis_rates list_all_iff split: prod.splits)

definition stats_of_tenant :: "'b request \<Rightarrow> world \<Rightarrow> media_stats \<Rightarrow> bool" where
  "stats_of_tenant rq w s \<longleftrightarrow> (\<exists>c cp. works_in rq c \<and> stats_of c cp (wd_committed w) s)"

lemma shown_MediaHandler_Stats:
  "shown_in (MediaHandler_Stats lb rq) (stats_of_tenant rq w) r w"
proof -
  have go: "wp (tryC (GetMediaStats c cp a b) (\<lambda>_. message 500 ''Failed to get media stats'') (\<lambda>stats. respond 200 (Json stats)))
      (\<lambda>a w'. shows_only (stats_of_tenant rq w) a \<and> wd_committed w' = wd_committed w)
      (\<lambda>_ _. False) r (w\<lparr>wd_tick := k\<rparr>)" if "works_in rq c" for c cp a b k
    using that unfolding GetMediaStats_def
    by (auto intro!: wp_reads [OF reads_stats] simp: stats_of_tenant_def) blast
  show ?thesis
    unfolding shown_in_def MediaHandler_Stats_def Let_def
    by (auto intro!: shown_steps go split: option.splits sum.splits simp: with_period_def nowC_def simp del: wp_try)
qed

end
