(* ===== verification/Links.thy ===== *)
theory Links
  imports Presenter HttpFacts
begin

text \<open>
  The links of a response lead somewhere: the presenters (\<open>src/internal/interfaces/http/presenter\<close>) show the
  URL of a picture exactly under the conditions on which the handlers behind these URLs
  (\<open>src/internal/interfaces/http/handler\<close>) serve one.
\<close>

lemma works_in_user: "works_in rq c \<Longrightarrow> \<exists>u. rq_User rq = Some u"
  by (auto simp: works_in_def GetCurrentClientID_def GetUser_def split: sum.splits option.splits)

lemma with_client_works [simp]: "works_in rq c \<Longrightarrow> with_client rq g = g c"
  by (simp add: with_client_def works_in_def)

lemma campaign_link:
  assumes "\<And>t. en_fault r t = None" and "works_in rq (cp_ClientID c)"
    and "lb_ParseUUID lb (rq_Param rq ''id'') = Some i" and "campaign_get i (wd_committed w) = Some c"
  shows "wp (CampaignHandler_GetThumbnail lb rq) (\<lambda>a _. rs_Status a = 200 \<longleftrightarrow>
      cr_BackgroundThumbnailURL (NewCampaignDetailResponseFromView us (c, n)) \<noteq> [] \<and>
      wd_thumbnails w (cp_BackgroundThumbnailKey c) \<noteq> None) (\<lambda>_ _. False) r w"
proof -
  obtain u where u: "rq_User rq = Some u" using works_in_user [OF assms(2)] by blast
  show ?thesis
    using assms
    by (auto simp: CampaignHandler_GetThumbnail_def u GetCampaignByID_def campaignRead_FindByID_def attach_one_def
        attachContentCounts_def send_thumbnail_def storage_GetThumbnail_def NewCampaignDetailResponseFromView_def
        render_campaign_def backgroundThumbnailURL_shown split: option.splits)
qed

lemma content_link:
  assumes "\<And>t. en_fault r t = None" and "works_in rq (m_ClientID m)"
    and "lb_ParseUUID lb (rq_Param rq ''id'') = Some i" and "lb_ParseUUID lb (rq_Param rq ''contentId'') = Some (c_ID c)"
    and "media_get i (wd_committed w) = Some m" and "i \<noteq> uuid_Nil"
    and "distinct (List.map c_ID (contents_of i (wd_committed w)))" and "c \<in> set (contents_of i (wd_committed w))"
  shows "wp (MediaHandler_GetContentThumbnail lb rq) (\<lambda>a _. rs_Status a = 200 \<longleftrightarrow>
      cc_ThumbnailURL (content_child us i rs c) \<noteq> None \<and>
      (\<exists>key. c_ThumbnailKey c = Some key \<and> wd_thumbnails w key \<noteq> None)) (\<lambda>_ _. False) r w"
proof -
  obtain u where u: "rq_User rq = Some u" using works_in_user [OF assms(2)] by blast
  have own: "m_ID m = i" using assms(5) by (auto simp: media_get_def media_row_def mediaDomainFromModel_def dest!: tbl_first_Some)
  have pic: "content_picture (c_ID c) (contents_of i (wd_committed w)) = (case c_ThumbnailKey c of None \<Rightarrow> None
      | Some key \<Rightarrow> if key = [] then None else Some (key, c_UpdatedAt c))"
    using find_distinct [OF assms(7,8)] by (simp add: content_picture_def)
  have campaign: "wp (campaignRead_FindByID j) Q E r v" if "\<And>cv n. Q cv (v\<lparr>wd_tick := n\<rparr>)" for j Q E v
    using that assms(1) by (auto simp: campaignRead_FindByID_def attach_one_def attachContentCounts_def split: option.splits)
  have some: "contents_of i (wd_committed w) \<noteq> []" using assms(8) by auto
  show ?thesis
    using assms(1-6) pic own some works_in_not_Nil [OF assms(2)]
    by (auto simp: MediaHandler_GetContentThumbnail_def u GetMediaByID_def mediaRead_FindByID_def FindContentsByMediaID_def
        media_status_error_def send_thumbnail_def storage_GetThumbnail_def content_child_def content_thumbnail_url_def
        split: option.splits intro!: campaign)
qed

end
