(* ===== verification/Progress.thy ===== *)
theory Progress
  imports Messaging
begin

text \<open>
  Loops that end. The loop of the outbox relay (\<open>src/internal/infrastructure/persistence/outbox/relay.go\<close>, \<open>Relay.Start\<close>) and
  its progress: while the database and the broker answer, the ticks of the relay publish every pending
  event, each once and in the order of creation. The search for a quota period
  (\<open>src/internal/domain/subscription/quota_period.go\<close>) takes a number of rounds that is known beforehand.
\<close>

section \<open>The relay\<close>

text \<open>The ticks until the context is done; an error of a batch is logged.\<close>

fun Relay_Start :: "nat \<Rightarrow> int \<Rightarrow> unit app" where
  "Relay_Start 0 n = returnC ()"
| "Relay_Start (Suc k) n = thenC (tryC (publishBatch n) (\<lambda>_. returnC ()) (\<lambda>_. returnC ())) (Relay_Start k n)"

definition pending :: "db \<Rightarrow> outbox_event list" where
  "pending d = sort_key o_CreatedAt (List.filter (\<lambda>o'. o_PublishedAt o' = None) (t_outbox d))"

lemma unpublished_pending: "unpublished n d = take (nat n) (pending d)"
  by (simp add: unpublished_def pending_def)

lemma set_pending: "set (pending d) = {o' \<in> set (t_outbox d). o_PublishedAt o' = None}"
  by (auto simp: pending_def)

definition calm_from :: "env \<Rightarrow> world \<Rightarrow> bool" where
  "calm_from r w \<longleftrightarrow> (\<forall>t \<ge> wd_tick w. en_fault r t = None)"

lemma calm_loop:
  fixes w :: world
  assumes "calm_from r w"
  shows "wp (publish_loop msgs ids) (\<lambda>ids' w'. ids' = ids @ List.map o_ID msgs \<and> (\<exists>m \<ge> wd_tick w.
      w' = w\<lparr>wd_tick := m, wd_published := wd_published w @ List.map envelope_of msgs\<rparr>)) (\<lambda>_ _. False) r w"
  using assms
proof (induction msgs arbitrary: ids w)
  case Nil
  then show ?case by (auto intro!: exI [of _ "wd_tick w"])
next
  case (Cons msg msgs)
  let ?w = "w\<lparr>wd_tick := Suc (wd_tick w), wd_published := wd_published w @ [envelope_of msg]\<rparr>"
  have "calm_from r ?w" using Cons.prems by (simp add: calm_from_def)
  from Cons.IH [OF this, of "ids @ [o_ID msg]"]
  have "wp (publish_loop msgs (ids @ [o_ID msg])) (\<lambda>ids' w'. ids' = ids @ List.map o_ID (msg # msgs) \<and> (\<exists>m \<ge> wd_tick w.
      w' = w\<lparr>wd_tick := m, wd_published := wd_published w @ List.map envelope_of (msg # msgs)\<rparr>)) (\<lambda>_ _. False) r ?w"
    by (rule wp_mono) (auto intro: Suc_leD)
  then show ?case using Cons.prems by (simp add: Publish_def calm_from_def)
qed

section \<open>What is left after a batch\<close>

lemma filter_not_first:
  assumes "distinct (List.map f xs)"
  shows "List.filter (\<lambda>x. f x \<notin> f ` set (take k xs)) xs = drop k xs"
proof -
  have d: "distinct (List.map f (take k xs) @ List.map f (drop k xs))"
    using assms by (metis append_take_drop_id map_append)
  have "List.filter (\<lambda>x. f x \<notin> f ` set (take k xs)) (take k xs @ drop k xs) = drop k xs"
    using d by (auto simp: filter_empty_conv filter_id_conv simp del: append_take_drop_id)
  then show ?thesis by simp
qed

lemma free_marked:
  "List.filter (\<lambda>o'. o_PublishedAt o' = None) (List.map (\<lambda>o'. if o_ID o' \<in> A then o'\<lparr>o_PublishedAt := Some now\<rparr> else o') t) =
   List.filter (\<lambda>o'. o_ID o' \<notin> A) (List.filter (\<lambda>o'. o_PublishedAt o' = None) t)"
  by (induction t) auto

lemma pending_marked:
  assumes "distinct (List.map o_ID (t_outbox d))"
  shows "pending (outbox_mark now (List.map o_ID (take k (pending d))) d) = drop k (pending d)"
proof -
  have "distinct (List.map o_ID (pending d))"
    using assms unfolding pending_def by (simp add: distinct_map inj_on_def)
  from filter_not_first [OF this, of k]
  show ?thesis by (simp add: outbox_mark_def pending_def [of "d\<lparr>t_outbox := _\<rparr>"] free_marked)
    (simp add: pending_def filter_sort)
qed

lemma ids_marked: "List.map o_ID (t_outbox (outbox_mark now ids d)) = List.map o_ID (t_outbox d)"
  by (simp add: outbox_mark_def)

text \<open>The first \<open>k\<close> pending events were published, and are pending no more.\<close>

definition relayed :: "nat \<Rightarrow> world \<Rightarrow> world \<Rightarrow> bool" where
  "relayed k w w' \<longleftrightarrow> idle w' \<and> wd_tick w \<le> wd_tick w' \<and>
     wd_published w' = wd_published w @ List.map envelope_of (take k (pending (wd_committed w))) \<and>
     List.map o_ID (t_outbox (wd_committed w')) = List.map o_ID (t_outbox (wd_committed w)) \<and>
     pending (wd_committed w') = drop k (pending (wd_committed w))"

lemma wp_publishBatch_calm:
  fixes w :: world
  assumes "calm_from r w" and "idle w" and "distinct (List.map o_ID (t_outbox (wd_committed w)))"
  shows "wp (publishBatch n) (\<lambda>_. relayed (nat n) w) (\<lambda>_ _. False) r w"
proof -
  let ?ms = "take (nat n) (pending (wd_committed w))" and ?w = "w\<lparr>wd_tick := Suc (wd_tick w)\<rparr>"
  have none: "relayed (nat n) w ?w" if "?ms = []" using assms(2) that by (auto simp: relayed_def idle_def)
  have over: "relayed (nat n) w v"
    if "v = ?w\<lparr>wd_tick := m, wd_published := wd_published w @ List.map envelope_of ?ms,
        wd_db := outbox_mark now (List.map o_ID ?ms) (wd_committed w), wd_committed := outbox_mark now (List.map o_ID ?ms) (wd_committed w)\<rparr>"
      "wd_tick w \<le> m" for v m now
    using that assms(2,3) by (simp add: relayed_def idle_def pending_marked ids_marked)
  have "calm_from r ?w" using assms(1) by (simp add: calm_from_def)
  note loop = calm_loop [OF this, of ?ms "[]"]
  have mark: "wp (MarkPublished (List.map o_ID ?ms)) (\<lambda>_. relayed (nat n) w) (\<lambda>_ _. False) r
      (?w\<lparr>wd_tick := m, wd_published := wd_published w @ List.map envelope_of ?ms\<rparr>)" if "wd_tick w \<le> m" "?ms \<noteq> []" for m
    using that assms(1,2) unfolding MarkPublished_def
    by (auto simp: calm_from_def set_db_def idle_def intro!: over [where m = "Suc (Suc m)" and now = "en_clock r m"])
  show ?thesis
    using assms(1) none unfolding publishBatch_def FetchUnpublished_def unpublished_pending calm_from_def
    by (auto simp: wp_bind intro!: wp_mono [OF loop] mark [simplified] dest: Suc_leD)
qed

lemma wp_Relay_Start_calm:
  fixes w :: world
  assumes "calm_from r w" and "idle w" and "distinct (List.map o_ID (t_outbox (wd_committed w)))"
  shows "wp (Relay_Start k n) (\<lambda>_. relayed (k * nat n) w) (\<lambda>_ _. False) r w"
  using assms
proof (induction k arbitrary: w)
  case 0
  then show ?case by (simp add: relayed_def)
next
  case (Suc k)
  have "wp (Relay_Start k n) (\<lambda>_. relayed (Suc k * nat n) w) (\<lambda>_ _. False) r v"
    if "relayed (nat n) w v" for v
  proof (rule wp_mono [OF Suc.IH])
    show "calm_from r v" "idle v" "distinct (List.map o_ID (t_outbox (wd_committed v)))"
      using that Suc.prems by (auto simp: relayed_def calm_from_def)
  next
    fix a v'
    assume "relayed (k * nat n) v v'"
    then show "relayed (Suc k * nat n) w v'"
      using that by (auto simp: relayed_def take_add add.commute)
  qed simp
  then show ?case
    by (simp add: thenC_def wp_bind wp_try) (rule wp_mono [OF wp_publishBatch_calm [OF Suc.prems]]; simp)
qed

lemma Relay_Start_drains:
  fixes w :: world
  assumes "calm_from r w" and "idle w" and "distinct (List.map o_ID (t_outbox (wd_committed w)))"
    and "length (pending (wd_committed w)) \<le> k * nat n"
  shows "wp (Relay_Start k n) (\<lambda>_ w'. pending (wd_committed w') = [] \<and>
      wd_published w' = wd_published w @ List.map envelope_of (pending (wd_committed w))) (\<lambda>_ _. False) r w"
  by (rule wp_mono [OF wp_Relay_Start_calm [OF assms(1-3)]]) (use assms(4) in \<open>auto simp: relayed_def\<close>)

section \<open>The quota period\<close>

text \<open>The loop with a bound on its rounds.\<close>

fun quota_rounds :: "nat \<Rightarrow> gotime \<Rightarrow> gotime \<Rightarrow> (gotime \<times> gotime) option" where
  "quota_rounds 0 now start = None"
| "quota_rounds (Suc n) now start = (let nxt = AddDate start 0 1 0 in
     if nxt > now then Some (start, nxt) else quota_rounds n now nxt)"

lemma quota_rounds_enough:
  "start \<le> now \<Longrightarrow> now - start < int n * (28 * Day) \<Longrightarrow> quota_rounds n now start = Some (quota_period_loop now start)"
proof (induction n arbitrary: start)
  case 0
  then show ?case by simp
next
  case (Suc n)
  have later: "start + 28 * Day \<le> AddDate start 0 1 0" using AddDate_month_bounds(1) [of start] by simp
  show ?case
  proof (cases "now < AddDate start 0 1 0")
    case True
    then show ?thesis by (simp add: quota_period_loop.simps [of now start] Let_def)
  next
    case False
    then have "quota_rounds n now (AddDate start 0 1 0) = Some (quota_period_loop now (AddDate start 0 1 0))"
      using Suc later by (intro Suc.IH) (auto simp: algebra_simps)
    then show ?thesis using False by (simp add: quota_period_loop.simps [of now start] Let_def)
  qed
qed

lemma rounds_cover:
  fixes x c :: int
  assumes "0 \<le> x" and "0 < c"
  shows "x < int (nat (x div c) + 1) * c"
proof -
  have "int (nat (x div c) + 1) * c = x div c * c + c"
    using assms by (simp add: pos_imp_zdiv_nonneg_iff algebra_simps)
  then show ?thesis using pos_mod_bound [OF assms(2), of x] div_mult_mod_eq [of x c] by linarith
qed

end
