(* ===== verification/ReadRepositories.thy ===== *)
theory ReadRepositories
  imports Pages
begin

text \<open>
  The reads of \<open>src/internal/infrastructure/persistence/read\<close> that no page asks for: the counts of one client, the
  lookups by a key other than the identifier, the plans with their quotas the way the loop collects them, and
  \<open>FindByContentIDs\<close> of \<open>contentAnalysisResultRepository\<close>. The lemmas relate them to the reads of the handlers: a
  workspace's counts are the sums over its clients, the loops that group rows by identifier read what a lookup per
  identifier reads.
\<close>

section \<open>Counts of a client\<close>

definition client_content :: "uuid \<Rightarrow> db \<Rightarrow> content_model \<Rightarrow> bool" where
  "client_content clientID d r = (case any_media_row (cm_MediaID r) d of None \<Rightarrow> False | Some m \<Rightarrow> mm_ClientID m = clientID)"

definition client_status :: "uuid \<Rightarrow> content_status \<Rightarrow> db \<Rightarrow> int" where
  "client_status clientID st d = int (length (List.filter
     (\<lambda>r. client_content clientID d r \<and> cm_Status r = st) (t_contents d)))"

definition CountByClientIDAndStatus :: "uuid \<Rightarrow> content_status \<Rightarrow> int app" where
  "CountByClientIDAndStatus clientID st = poolRead (client_status clientID st)"

text \<open>The media's date of analysis, absent dates being in no period.\<close>

definition analyzed_in :: "gotime \<Rightarrow> gotime \<Rightarrow> db \<Rightarrow> content_model \<Rightarrow> bool" where
  "analyzed_in from to d r = (case any_media_row (cm_MediaID r) d of None \<Rightarrow> False
     | Some m \<Rightarrow> (case mm_AnalyzedAt m of None \<Rightarrow> False | Some t \<Rightarrow> from \<le> t \<and> t < to))"

definition client_status_in :: "uuid \<Rightarrow> content_status \<Rightarrow> gotime \<Rightarrow> gotime \<Rightarrow> db \<Rightarrow> int" where
  "client_status_in clientID st from to d = int (length (List.filter
     (\<lambda>r. client_content clientID d r \<and> cm_Status r = st \<and> analyzed_in from to d r) (t_contents d)))"

definition CountByClientIDAndStatusInPeriod :: "uuid \<Rightarrow> content_status \<Rightarrow> gotime \<Rightarrow> gotime \<Rightarrow> int app" where
  "CountByClientIDAndStatusInPeriod clientID st from to = poolRead (client_status_in clientID st from to)"

definition client_units :: "uuid \<Rightarrow> gotime \<Rightarrow> gotime \<Rightarrow> db \<Rightarrow> int" where
  "client_units clientID from to d = int (length (List.filter
     (\<lambda>r. client_content clientID d r \<and> quota_unit from to d r) (t_contents d)))"

definition CountQuotaUnitsByClientIDInPeriod :: "uuid \<Rightarrow> gotime \<Rightarrow> gotime \<Rightarrow> int app" where
  "CountQuotaUnitsByClientIDInPeriod clientID from to = poolRead (client_units clientID from to)"

definition client_campaigns :: "uuid \<Rightarrow> db \<Rightarrow> int" where
  "client_campaigns clientID d = int (length (List.filter
     (\<lambda>r. cpm_ClientID r = clientID \<and> \<not> cpm_IsDefault r) (t_campaigns d)))"

definition CountNonDefaultByClientID :: "uuid \<Rightarrow> int app" where
  "CountNonDefaultByClientID clientID = poolRead (client_campaigns clientID)"

section \<open>Lookups by other keys\<close>

definition userRead_FindByClerkID :: "string \<Rightarrow> user option app" where
  "userRead_FindByClerkID clerkID = poolRead (\<lambda>d. map_option userModel
     (tbl_first u_ID (\<lambda>u. u_ClerkID u = clerkID) (t_users d)))"

definition memberships_of :: "uuid \<Rightarrow> db \<Rightarrow> uuid list" where
  "memberships_of userID d = List.map ucm_ClientID (List.filter (\<lambda>m. ucm_UserID m = userID) (t_user_clients d))"

definition clientRead_FindByUserID :: "uuid \<Rightarrow> client list app" where
  "clientRead_FindByUserID userID = bindC (poolRead (memberships_of userID)) (\<lambda>clientIDs.
    if clientIDs = [] then returnC [] else
    bindC (poolRead (\<lambda>d. sort_key clm_CreatedAt (List.filter (\<lambda>r. clm_ID r \<in> set clientIDs) (t_clients d)))) load_members)"

definition toViewWithPlan :: "subscription \<Rightarrow> (subscription \<times> (plan \<times> quota option) option) app" where
  "toViewWithPlan s = bindC (planRead_FindByID (s_PlanID s)) (\<lambda>p. returnC (s, p))"

definition subscriptionRead_FindByStripeSubscriptionID ::
    "string \<Rightarrow> (subscription \<times> (plan \<times> quota option) option) option app" where
  "subscriptionRead_FindByStripeSubscriptionID stripeID = bindC (poolRead (subscription_by_stripe stripeID)) (\<lambda>s.
     case s of None \<Rightarrow> returnC None | Some s \<Rightarrow> bindC (toViewWithPlan s) (\<lambda>v. returnC (Some v)))"

definition subscriptionRead_FindByStripeCustomerID ::
    "string \<Rightarrow> (subscription \<times> (plan \<times> quota option) option) option app" where
  "subscriptionRead_FindByStripeCustomerID customerID = bindC (poolRead (subscription_by_customer customerID)) (\<lambda>s.
     case s of None \<Rightarrow> returnC None | Some s \<Rightarrow> bindC (toViewWithPlan s) (\<lambda>v. returnC (Some v)))"

definition quotaRead_FindByID :: "uuid \<Rightarrow> quota option app" where
  "quotaRead_FindByID i = poolRead (quota_get i)"

definition quotaRead_FindByIDs :: "uuid list \<Rightarrow> quota list app" where
  "quotaRead_FindByIDs ids = (if ids = [] then returnC [] else
     poolRead (\<lambda>d. List.filter (\<lambda>q. q_ID q \<in> set ids) (t_quotas d)))"

section \<open>Plans with their quotas\<close>

text \<open>\<open>toPlanViewsWithQuota\<close> as its loops run: the identifiers not yet seen, one query, a map by identifier.\<close>

fun unseen_quotas :: "uuid set \<Rightarrow> plan list \<Rightarrow> uuid list" where
  "unseen_quotas seen [] = []"
| "unseen_quotas seen (p # rows) = (if p_QuotaID p \<in> seen then unseen_quotas seen rows
     else p_QuotaID p # unseen_quotas (insert (p_QuotaID p) seen) rows)"

fun quotas_by_id :: "(uuid \<rightharpoonup> quota) \<Rightarrow> quota list \<Rightarrow> (uuid \<rightharpoonup> quota)" where
  "quotas_by_id m [] = m"
| "quotas_by_id m (q # qs) = quotas_by_id (m(q_ID q \<mapsto> q)) qs"

definition plan_views :: "plan list \<Rightarrow> (plan \<times> quota option) list app" where
  "plan_views rows = (if rows = [] then returnC [] else
    bindC (quotaRead_FindByIDs (unseen_quotas {} rows)) (\<lambda>quotas.
    returnC (List.map (\<lambda>p. (p, quotas_by_id Map.empty quotas (p_QuotaID p))) rows)))"

definition planRead_FindAll :: "(plan \<times> quota option) list app" where
  "planRead_FindAll = bindC (poolRead (\<lambda>d. sort_key (\<lambda>p. (p_Price p, p_CreatedAt p)) (t_plans d))) plan_views"

section \<open>Outcomes by content\<close>

fun append_results :: "(uuid \<rightharpoonup> result list) \<Rightarrow> result list \<Rightarrow> (uuid \<rightharpoonup> result list)" where
  "append_results out [] = out"
| "append_results out (q # rows) = append_results
     (out(r_ContentID q \<mapsto> (case out (r_ContentID q) of None \<Rightarrow> [] | Some xs \<Rightarrow> xs) @ [q\<lparr>r_Weight := 1\<rparr>])) rows"

definition outcome_rows :: "uuid list \<Rightarrow> db \<Rightarrow> result list" where
  "outcome_rows contentIDs d = sort_key (\<lambda>q. (r_ContentID q, r_DetectorName q))
     (List.filter (\<lambda>q. r_ContentID q \<in> set contentIDs) (t_results d))"

definition FindByContentIDs :: "uuid list \<Rightarrow> (uuid \<rightharpoonup> result list) app" where
  "FindByContentIDs contentIDs = (if contentIDs = [] then returnC Map.empty else
     dbRead (\<lambda>d. append_results Map.empty (outcome_rows contentIDs d)))"

section \<open>A workspace is the sum of its clients\<close>

text \<open>Counting by the owners, each owner listed once.\<close>

lemma count_by_owner:
  assumes "distinct ks"
  shows "int (length (List.filter (\<lambda>x. g x \<in> set ks \<and> P x) xs)) =
    sum_list (List.map (\<lambda>k. int (length (List.filter (\<lambda>x. g x = k \<and> P x) xs))) ks)"
  using assms
proof (induction ks)
  case (Cons k ks)
  have "length (List.filter (\<lambda>x. g x \<in> set (k # ks) \<and> P x) xs) =
      length (List.filter (\<lambda>x. g x = k \<and> P x) xs) + length (List.filter (\<lambda>x. g x \<in> set ks \<and> P x) xs)"
    using Cons.prems by (induction xs) auto
  then show ?case using Cons by simp
qed simp

definition workspace_clients :: "uuid \<Rightarrow> db \<Rightarrow> uuid list" where
  "workspace_clients workspaceID d = List.map clm_ID (List.filter (\<lambda>r. clm_WorkspaceID r = workspaceID) (t_clients d))"

definition content_owner :: "db \<Rightarrow> content_model \<Rightarrow> uuid option" where
  "content_owner d r = map_option mm_ClientID (any_media_row (cm_MediaID r) d)"

lemma workspace_clients_distinct: "keys_distinct clm_ID (t_clients d) \<Longrightarrow> distinct (workspace_clients ws d)"
  unfolding workspace_clients_def keys_distinct_def by (rule distinct_map_filter)

lemma in_workspace_clients: "in_workspace ws d i \<longleftrightarrow> i \<in> set (workspace_clients ws d)"
  by (auto simp: in_workspace_def workspace_clients_def)

lemma workspace_content_owner: "workspace_content ws d r \<longleftrightarrow> content_owner d r \<in> set (List.map Some (workspace_clients ws d))"
  by (auto simp: workspace_content_def content_owner_def in_workspace_clients split: option.splits)

lemma client_content_owner: "client_content i d r \<longleftrightarrow> content_owner d r = Some i"
  by (simp add: client_content_def content_owner_def split: option.splits)

lemma workspace_contents_add_up:
  assumes "keys_distinct clm_ID (t_clients d)"
  shows "int (length (List.filter (\<lambda>r. workspace_content ws d r \<and> P r) (t_contents d))) =
    sum_list (List.map (\<lambda>i. int (length (List.filter (\<lambda>r. client_content i d r \<and> P r) (t_contents d)))) (workspace_clients ws d))"
  using count_by_owner [of "List.map Some (workspace_clients ws d)" "content_owner d" P "t_contents d"]
    workspace_clients_distinct [OF assms, of ws]
  by (simp add: distinct_map workspace_content_owner client_content_owner comp_def)

lemma count_units_add_up: "keys_distinct clm_ID (t_clients d) \<Longrightarrow>
    count_units ws from to d = sum_list (List.map (\<lambda>i. client_units i from to d) (workspace_clients ws d))"
  unfolding count_units_def client_units_def by (rule workspace_contents_add_up)

lemma count_status_add_up: "keys_distinct clm_ID (t_clients d) \<Longrightarrow>
    count_status ws st d = sum_list (List.map (\<lambda>i. client_status i st d) (workspace_clients ws d))"
  unfolding count_status_def client_status_def by (rule workspace_contents_add_up)

lemma count_campaigns_add_up: "keys_distinct clm_ID (t_clients d) \<Longrightarrow>
    count_campaigns ws d = sum_list (List.map (\<lambda>i. client_campaigns i d) (workspace_clients ws d))"
  unfolding count_campaigns_def client_campaigns_def in_workspace_clients
  by (rule count_by_owner) (rule workspace_clients_distinct)

text \<open>What is analysing, and what was analysed in the period, are different units of the client.\<close>

lemma units_cover_outcomes:
  "client_status i ContentAnalyzing d + client_status_in i ContentAnalyzed from to d \<le> client_units i from to d"
proof -
  have "length (List.filter (\<lambda>r. client_content i d r \<and> cm_Status r = ContentAnalyzing) rows) +
      length (List.filter (\<lambda>r. client_content i d r \<and> cm_Status r = ContentAnalyzed \<and> analyzed_in from to d r) rows) \<le>
      length (List.filter (\<lambda>r. client_content i d r \<and> quota_unit from to d r) rows)" for rows
    by (induction rows) (auto simp: quota_unit_def analyzed_in_def Let_def split: option.splits)
  then show ?thesis unfolding client_status_def client_status_in_def client_units_def by (simp only: of_nat_add [symmetric] of_nat_le_iff)
qed

section \<open>Grouping rows reads what looking up reads\<close>

lemma set_unseen_quotas: "set (unseen_quotas seen rows) = p_QuotaID ` set rows - seen"
  by (induction rows arbitrary: seen) auto

lemma distinct_unseen_quotas: "distinct (unseen_quotas seen rows)"
  by (induction rows arbitrary: seen) (auto simp: set_unseen_quotas)

lemma quotas_by_id_other: "i \<notin> q_ID ` set qs \<Longrightarrow> quotas_by_id m qs i = m i"
  by (induction qs arbitrary: m) auto

lemma quotas_by_id_in: "distinct (List.map q_ID qs) \<Longrightarrow> q \<in> set qs \<Longrightarrow> quotas_by_id m qs (q_ID q) = Some q"
  by (induction qs arbitrary: m) (auto simp: quotas_by_id_other)

lemma quotas_by_id_lookup:
  assumes "keys_distinct q_ID (t_quotas d)" and "i \<in> I"
  shows "quotas_by_id Map.empty (List.filter (\<lambda>q. q_ID q \<in> I) (t_quotas d)) i = quota_get i d"
proof (cases "i \<in> q_ID ` set (t_quotas d)")
  case True
  then obtain q where q: "q \<in> set (t_quotas d)" "q_ID q = i" by auto
  have "distinct (List.map q_ID (List.filter (\<lambda>q. q_ID q \<in> I) (t_quotas d)))"
    using assms(1) by (simp add: keys_distinct_def distinct_map_filter)
  then have "quotas_by_id Map.empty (List.filter (\<lambda>q. q_ID q \<in> I) (t_quotas d)) (q_ID q) = Some q"
    using q assms(2) by (intro quotas_by_id_in) auto
  moreover have "quota_get i d = Some q"
    unfolding quota_get_def using q assms(1) by (intro tbl_first_key) auto
  ultimately show ?thesis using q by simp
next
  case False
  then have "quota_get i d = None" by (auto simp: quota_get_def tbl_first_None)
  moreover have "quotas_by_id Map.empty (List.filter (\<lambda>q. q_ID q \<in> I) (t_quotas d)) i = None"
    using False by (subst quotas_by_id_other) auto
  ultimately show ?thesis by simp
qed

lemma plan_views_looked_up:
  assumes "keys_distinct q_ID (t_quotas (wd_committed w))"
  shows "plan_views rows r w = toPlanViewsWithQuota rows r w"
proof (cases "rows = []")
  case False
  then obtain p ps where "rows = p # ps" by (cases rows) auto
  then have "unseen_quotas {} rows \<noteq> []" by simp
  then show ?thesis
    using False assms quotas_by_id_lookup [of "wd_committed w" _ "p_QuotaID ` set rows"]
    by (simp add: plan_views_def toPlanViewsWithQuota_def quotaRead_FindByIDs_def set_unseen_quotas bindC_def thenC_def
        poolRead_def callC_def tickC_def askC_def stateC_def returnC_def failC_def split: option.splits)
qed (simp add: plan_views_def toPlanViewsWithQuota_def)

lemma insort_key_agree: "(\<And>y. y \<in> set ys \<Longrightarrow> f x \<le> f y \<longleftrightarrow> g x \<le> g y) \<Longrightarrow> insort_key f x ys = insort_key g x ys"
  by (induction ys) auto

lemma sort_key_agree:
  assumes "\<And>x y. x \<in> set xs \<Longrightarrow> y \<in> set xs \<Longrightarrow> f x \<le> f y \<longleftrightarrow> g x \<le> g y"
  shows "sort_key f xs = sort_key g xs"
  using assms
proof (induction xs)
  case (Cons x xs)
  have "insort_key f x (sort_key g xs) = insort_key g x (sort_key g xs)"
    using Cons.prems by (intro insort_key_agree) auto
  then show ?case using Cons by simp
qed simp

lemma append_results_groups:
  "append_results out rows i = (case List.filter (\<lambda>q. r_ContentID q = i) rows of [] \<Rightarrow> out i
     | qs \<Rightarrow> Some ((case out i of None \<Rightarrow> [] | Some xs \<Rightarrow> xs) @ List.map (\<lambda>q. q\<lparr>r_Weight := 1\<rparr>) qs))"
  by (induction rows arbitrary: out) (auto split: list.splits)

lemma outcome_rows_of: "i \<in> set ids \<Longrightarrow> List.map (\<lambda>q. q\<lparr>r_Weight := 1\<rparr>)
    (List.filter (\<lambda>q. r_ContentID q = i) (outcome_rows ids d)) = results_of i d"
proof -
  assume i: "i \<in> set ids"
  have "List.filter (\<lambda>q. r_ContentID q = i) (List.filter (\<lambda>q. r_ContentID q \<in> set ids) (t_results d)) =
      List.filter (\<lambda>q. r_ContentID q = i) (t_results d)"
    using i by (auto simp: filter_filter intro!: filter_cong)
  then have "List.filter (\<lambda>q. r_ContentID q = i) (outcome_rows ids d) =
      sort_key (\<lambda>q. (r_ContentID q, r_DetectorName q)) (List.filter (\<lambda>q. r_ContentID q = i) (t_results d))"
    by (simp add: outcome_rows_def filter_sort)
  also have "\<dots> = sort_key r_DetectorName (List.filter (\<lambda>q. r_ContentID q = i) (t_results d))"
    by (rule sort_key_agree) auto
  finally show ?thesis by (simp add: results_of_def)
qed

lemma outcome_rows_asked: "q \<in> set (outcome_rows ids d) \<Longrightarrow> r_ContentID q \<in> set ids"
  by (simp add: outcome_rows_def)

text \<open>The map of the query has an entry for every content asked for that has outcomes: what \<open>FindByContentID\<close> reads.\<close>

lemma outcomes_by_content:
  "append_results Map.empty (outcome_rows ids d) i =
    (if i \<in> set ids \<and> results_of i d \<noteq> [] then Some (results_of i d) else None)"
proof (cases "i \<in> set ids")
  case True
  then show ?thesis using outcome_rows_of [OF True, of d]
    by (auto simp: append_results_groups split: list.splits)
next
  case False
  then have "List.filter (\<lambda>q. r_ContentID q = i) (outcome_rows ids d) = []"
    by (auto simp: filter_empty_conv dest: outcome_rows_asked)
  then show ?thesis using False by (simp add: append_results_groups)
qed

text \<open>The table of outcomes in a media's detail is that map, with no outcome where the map has no entry.\<close>

lemma details_look_up: "\<lbrakk>ids = List.map c_ID contents; c \<in> set contents\<rbrakk> \<Longrightarrow>
    (case append_results Map.empty (outcome_rows ids d) (c_ID c) of None \<Rightarrow> [] | Some xs \<Rightarrow> xs) = results_of (c_ID c) d"
  by (auto simp: outcomes_by_content)

text \<open>Only members see a client: the clients found by a user have the user among their members.\<close>

lemma clients_found_are_joined:
  "r \<in> set (List.filter (\<lambda>r. clm_ID r \<in> set (memberships_of userID d)) (t_clients d)) \<Longrightarrow> userID \<in> set (members_of (clm_ID r) d)"
  by (auto simp: memberships_of_def members_of_def)

end
