(* ===== verification/Validation.thy ===== *)
theory Validation
  imports Http
begin

text \<open>
  \<open>src/internal/interfaces/http/validation/validate.go\<close>: the answers to a body or query that the validator refuses.
  The validator is a parameter that lists the failed fields. The answer has a message per field that failed, and the
  error handler of the framework hears of every error but the refusal, which is answered already.
\<close>

section \<open>Messages\<close>

record field_error =
  fe_Field :: string
  fe_Tag :: string
  fe_Param :: string
  fe_IsString :: bool

definition messageFor :: "field_error \<Rightarrow> string" where
  "messageFor f = (if fe_Tag f = ''required'' then ''is required''
     else if fe_Tag f = ''uuid'' then ''must be a valid UUID''
     else if fe_Tag f = ''email'' then ''must be a valid email''
     else if fe_Tag f = ''url'' then ''must be a valid URL''
     else if fe_Tag f = ''min'' then ''must be at least '' @ fe_Param f @ (if fe_IsString f then '' characters'' else [])
     else if fe_Tag f = ''max'' then ''must be at most '' @ fe_Param f @ (if fe_IsString f then '' characters'' else [])
     else if fe_Tag f = ''gte'' then ''must be greater than or equal to '' @ fe_Param f
     else if fe_Tag f = ''lte'' then ''must be less than or equal to '' @ fe_Param f
     else if fe_Tag f = ''oneof'' then ''is invalid''
     else if fe_Tag f = ''dive'' then ''contains invalid items''
     else ''failed on '' @ [CHR 0x27] @ fe_Tag f @ [CHR 0x27] @ '' validation'')"

text \<open>What \<open>validate.Struct\<close> returns: the failed fields, or an error of the validator itself.\<close>

datatype validation_error = ValidationErrors "field_error list" | InvalidValidation string

fun error_messages :: "(string \<rightharpoonup> string) \<Rightarrow> field_error list \<Rightarrow> (string \<rightharpoonup> string)" where
  "error_messages out [] = out"
| "error_messages out (f # fs) = error_messages (out(fe_Field f \<mapsto> messageFor f)) fs"

definition formatErrors :: "validation_error \<Rightarrow> (string \<rightharpoonup> string)" where
  "formatErrors err = (case err of InvalidValidation msg \<Rightarrow> [''_error'' \<mapsto> msg]
     | ValidationErrors fs \<Rightarrow> error_messages Map.empty fs)"

section \<open>Names of fields\<close>

text \<open>The part of a struct tag before its first comma; a field may have none.\<close>

definition tagName :: "string \<Rightarrow> string" where
  "tagName tag = (let name = takeWhile (\<lambda>c. c \<noteq> CHR '','') tag in if name = [] \<or> name = ''-'' then [] else name)"

record struct_field =
  fl_Name :: string
  fl_json :: string
  fl_query :: string

definition field_name :: "struct_field \<Rightarrow> string" where
  "field_name f = (if tagName (fl_json f) \<noteq> [] then tagName (fl_json f)
     else if tagName (fl_query f) \<noteq> [] then tagName (fl_query f) else fl_Name f)"

section \<open>Answers\<close>

datatype refusal = Unbound string | Refused "string \<rightharpoonup> string"

text \<open>A body or query is bound, then checked; the refusals answer 400.\<close>

definition validation_Struct :: "('b \<Rightarrow> validation_error option) \<Rightarrow> 'b \<Rightarrow> refusal + 'b" where
  "validation_Struct validate b = (case validate b of None \<Rightarrow> Inr b | Some err \<Rightarrow> Inl (Refused (formatErrors err)))"

definition validated_body :: "('b \<Rightarrow> validation_error option) \<Rightarrow> 'b option \<Rightarrow> refusal + 'b" where
  "validated_body validate body = (case body of None \<Rightarrow> Inl (Unbound ''Invalid request body'') | Some b \<Rightarrow> validation_Struct validate b)"

definition BindAndValidateQuery :: "('b \<Rightarrow> validation_error option) \<Rightarrow> 'b option \<Rightarrow> refusal + 'b" where
  "BindAndValidateQuery validate query = (case query of None \<Rightarrow> Inl (Unbound ''Invalid query parameters'') | Some b \<Rightarrow> validation_Struct validate b)"

text \<open>The error of a refusal, which the error handler passes over.\<close>

datatype handler_error = ErrValidationFailed | Handler_Error go_error | Handler_Wrapped string handler_error

fun is_validation_failed :: "handler_error \<Rightarrow> bool" where
  "is_validation_failed ErrValidationFailed = True"
| "is_validation_failed (Handler_Error e) = False"
| "is_validation_failed (Handler_Wrapped what e) = is_validation_failed e"

definition FiberErrorHandler :: "(handler_error \<Rightarrow> handler_error option) \<Rightarrow> handler_error \<Rightarrow> handler_error option" where
  "FiberErrorHandler defaultHandler err = (if is_validation_failed err then None else defaultHandler err)"

section \<open>What the answers say\<close>

lemma error_messages_in: "error_messages out fs k =
    (case List.filter (\<lambda>f. fe_Field f = k) fs of [] \<Rightarrow> out k | f # gs \<Rightarrow> Some (messageFor (last (f # gs))))"
  by (induction fs arbitrary: out) (auto split: list.splits)

text \<open>A field is named exactly if it failed, with the message of its last failure.\<close>

lemma refusal_names_failed_fields: "formatErrors (ValidationErrors fs) k = Some msg \<longleftrightarrow>
    (\<exists>f. List.filter (\<lambda>f. fe_Field f = k) fs \<noteq> [] \<and> f = last (List.filter (\<lambda>f. fe_Field f = k) fs) \<and> msg = messageFor f)"
  by (auto simp: formatErrors_def error_messages_in split: list.splits)

lemma refused_fields: "dom (formatErrors (ValidationErrors fs)) = fe_Field ` set fs"
proof -
  have "dom (error_messages out fs) = dom out \<union> fe_Field ` set fs" for out
    by (induction fs arbitrary: out) auto
  then show ?thesis by (simp add: formatErrors_def)
qed

text \<open>No message is empty, so a refused field is told why.\<close>

lemma messageFor_says: "messageFor f \<noteq> []"
  by (simp add: messageFor_def)

text \<open>The names hold no comma: an option of a tag never leaks into an answer, unless the field itself has one.\<close>

lemma tagName_plain: "CHR '','' \<notin> set (tagName tag)"
  by (auto simp: tagName_def Let_def dest: set_takeWhileD)

lemma field_name_plain: "CHR '','' \<notin> set (fl_Name f) \<Longrightarrow> CHR '','' \<notin> set (field_name f)"
  using tagName_plain by (simp add: field_name_def)

text \<open>The bodies of the handlers are bound by this: what it lets through is what \<open>BindBody\<close> hands on.\<close>

lemma BindBody_validates: "BindBody rq (\<lambda>b. validate b = None) f = (case validated_body validate (rq_Body rq) of
    Inr b \<Rightarrow> f b | Inl (Unbound msg) \<Rightarrow> message 400 msg | Inl (Refused m) \<Rightarrow> respond 400 Invalid)"
  by (simp add: BindBody_def validated_body_def validation_Struct_def split: option.split)

end
