(* ===== verification/Spectrum.thy ===== *)
theory Spectrum
  imports Heuristic
begin

text \<open>
  \<open>dftPeriodicityScore\<close> of \<open>src/internal/infrastructure/analysis/heuristic/image_util.go\<close>, the sum behind the
  frequency check. The trigonometric functions are parameters; cosine and sine take the fraction of a negative turn,
  so that \<open>\<pi>\<close> is not needed. The score is a share, so a threshold of one or more silences the check.
\<close>

section \<open>The score\<close>

record trigonometry =
  tg_Cos :: "rat \<Rightarrow> rat"
  tg_Sin :: "rat \<Rightarrow> rat"
  tg_Hypot :: "rat \<Rightarrow> rat \<Rightarrow> rat"

text \<open>The sums \<open>re\<close> and \<open>im\<close> for the frequency \<open>(u, v)\<close>.\<close>

definition component_sum :: "(rat \<Rightarrow> rat) \<Rightarrow> rat list list \<Rightarrow> nat \<Rightarrow> nat \<Rightarrow> rat" where
  "component_sum f gray u v = (let n = length gray in
     sum_list (List.map (\<lambda>y. sum_list (List.map (\<lambda>x. gray ! y ! x * f (of_nat (u * x + v * y) / of_nat n)) [0..<n])) [0..<n]))"

definition magnitude :: "trigonometry \<Rightarrow> rat list list \<Rightarrow> nat \<Rightarrow> nat \<Rightarrow> rat" where
  "magnitude tg gray u v = tg_Hypot tg (component_sum (tg_Cos tg) gray u v) (component_sum (tg_Sin tg) gray u v) /
     of_nat (length gray * length gray)"

text \<open>All frequencies but the constant one.\<close>

definition magnitudes :: "trigonometry \<Rightarrow> rat list list \<Rightarrow> rat list" where
  "magnitudes tg gray = (let n = length gray in
     concat (List.map (\<lambda>u. List.map (magnitude tg gray u) (List.filter (\<lambda>v. \<not> (u = 0 \<and> v = 0)) [0..<n])) [0..<n]))"

fun greatest :: "rat \<Rightarrow> rat list \<Rightarrow> rat" where
  "greatest m [] = m"
| "greatest m (x # xs) = greatest (if m < x then x else m) xs"

definition share_of_peaks :: "rat list \<Rightarrow> rat \<Rightarrow> rat" where
  "share_of_peaks mags peakMin = (let maxMag = greatest 0 mags; peaks = List.filter (\<lambda>m. peakMin \<le> m) mags in
     if maxMag = 0 \<or> length peaks < 2 then 0 else sum_list peaks / (maxMag * of_nat (length peaks)))"

text \<open>Only the first row is checked for its length: a shorter one below it is read out of range.\<close>

definition dftPeriodicityScore :: "trigonometry \<Rightarrow> rat list list \<Rightarrow> rat \<Rightarrow> rat option" where
  "dftPeriodicityScore tg gray peakMin = (case gray of [] \<Rightarrow> Some 0 | row # rows \<Rightarrow>
     if length row \<noteq> length gray \<or> length gray < 8 then Some 0
     else if \<exists>r \<in> set rows. length r < length gray then None
     else Some (share_of_peaks (magnitudes tg gray) peakMin))"

section \<open>A share\<close>

lemma greatest_start: "m \<le> greatest m xs"
  by (induction m xs rule: greatest.induct) (auto split: if_splits)

lemma greatest_in: "x \<in> set xs \<Longrightarrow> x \<le> greatest m xs"
proof (induction xs arbitrary: m)
  case (Cons y ys)
  have "y \<le> greatest m (y # ys)" using greatest_start [of "if m < y then y else m" ys] by (auto split: if_splits)
  then show ?case using Cons by auto
qed simp

lemma sum_list_le: "(\<And>x. x \<in> set xs \<Longrightarrow> x \<le> (b::rat)) \<Longrightarrow> sum_list xs \<le> b * of_nat (length xs)"
  by (induction xs) (auto simp: algebra_simps intro: add_mono)

lemma share_of_peaks_bounds:
  assumes "\<And>m. m \<in> set mags \<Longrightarrow> 0 \<le> m"
  shows "0 \<le> share_of_peaks mags peakMin" and "share_of_peaks mags peakMin \<le> 1"
proof -
  let ?M = "greatest 0 mags" and ?P = "List.filter (\<lambda>m. peakMin \<le> m) mags"
  have M: "0 \<le> ?M" by (rule greatest_start)
  have s: "0 \<le> sum_list ?P" using assms by (intro sum_list_nonneg) auto
  have l: "sum_list ?P \<le> ?M * of_nat (length ?P)" by (rule sum_list_le) (auto intro: greatest_in)
  show "0 \<le> share_of_peaks mags peakMin" using M s by (simp add: share_of_peaks_def Let_def)
  have "sum_list ?P / (?M * of_nat (length ?P)) \<le> 1" if "?M \<noteq> 0" "2 \<le> length ?P"
    proof -
    have "0 < ?M * of_nat (length ?P)" using that M by (intro mult_pos_pos) auto
    then show ?thesis using l by (rule divide_le_eq_1_pos [THEN iffD2])
  qed
  then show "share_of_peaks mags peakMin \<le> 1" by (simp add: share_of_peaks_def Let_def not_less)
qed

definition hypot_ok :: "trigonometry \<Rightarrow> bool" where
  "hypot_ok tg \<longleftrightarrow> (\<forall>x y. 0 \<le> tg_Hypot tg x y)"

lemma magnitudes_nonneg: "hypot_ok tg \<Longrightarrow> m \<in> set (magnitudes tg gray) \<Longrightarrow> 0 \<le> m"
  unfolding magnitudes_def Let_def by (auto simp: magnitude_def hypot_ok_def simp del: upt_Suc)

lemma score_is_share: "hypot_ok tg \<Longrightarrow> dftPeriodicityScore tg gray peakMin = Some s \<Longrightarrow> 0 \<le> s \<and> s \<le> 1"
  using share_of_peaks_bounds [of "magnitudes tg gray" peakMin] magnitudes_nonneg [of tg _ gray]
  by (auto simp: dftPeriodicityScore_def split: list.splits if_splits)

text \<open>The matrix of an image is square, so the score of the check always exists.\<close>

lemma gray_matrix_scored: "dftPeriodicityScore tg (toGrayMatrix im n) peakMin \<noteq> None"
  by (auto simp: dftPeriodicityScore_def toGrayMatrix_def split: list.splits)

text \<open>The tools with this score. With a threshold of one the check finds nothing, whatever the picture.\<close>

definition with_spectrum :: "trigonometry \<Rightarrow> image_tools \<Rightarrow> image_tools" where
  "with_spectrum tg T = T\<lparr>it_periodicity := (\<lambda>gray m. case dftPeriodicityScore tg gray m of None \<Rightarrow> 0 | Some s \<Rightarrow> s)\<rparr>"

lemma high_threshold_silences:
  assumes "hypot_ok tg" and "1 \<le> Threshold p ''frequency_periodicity_max''"
  shows "\<exists>d. FrequencyCheck (with_spectrum tg T) i p = returnC [skippedSignal ''frequency'' d] \<or>
    FrequencyCheck (with_spectrum tg T) i p = returnC [okSignal ''frequency'' d]"
proof -
  have "it_periodicity (with_spectrum tg T) gray m \<le> 1" for gray m
    using score_is_share [OF assms(1), of gray m] by (auto simp: with_spectrum_def split: option.splits)
  then have "\<not> or_default (Threshold p ''frequency_periodicity_max'') (55 / 100) < it_periodicity (with_spectrum tg T) gray m" for gray m
    using assms(2) by (auto simp: or_default_def not_less intro: order_trans)
  then show ?thesis unfolding FrequencyCheck_def Let_def by auto
qed

end
