(* ===== verification/Processes.thy ===== *)
theory Processes
  imports Startup
begin

text \<open>
  The entry points under \<open>src/cmd\<close>: configuration, database, schema, container, and then the loop of the process.
  \<open>Connect\<close> of \<open>rabbitmq/connection.go\<close> and \<open>Consumer.Start\<close> run here; the broker, the driver of the database
  and the client of the object store are parameters. Nothing reaches the database before the schema is checked,
  and a consumer answers every message it takes.
\<close>

section \<open>Connecting to the broker\<close>

record broker =
  br_Dial :: "string \<Rightarrow> unit res"
  br_Channel :: "unit res"
  br_Declare :: "amqp_declaration \<Rightarrow> unit res"
  br_Qos :: "int \<Rightarrow> unit res"
  br_Consume :: "string \<Rightarrow> unit res"

text \<open>Each declaration of a topology with the text of its error.\<close>

definition topology_steps :: "topology \<Rightarrow> (string \<times> amqp_declaration) list" where
  "topology_steps t =
    [(''declare exchange '' @ tp_Exchange t, ExchangeDeclare (tp_Exchange t) ''topic''),
     (''declare dlx '' @ tp_DLX t, ExchangeDeclare (tp_DLX t) ''direct''),
     (''declare queue '' @ tp_Queue t @ '' (delete existing queue if args changed)'',
       QueueDeclare (tp_Queue t) (Some (tp_DLX t, ''retry'')) None)] @
    List.map (\<lambda>k. (''bind queue '' @ tp_Queue t @ '' key '' @ k, QueueBind (tp_Queue t) k (tp_Exchange t)))
      (splitRoutingKeys (tp_RoutingKey t)) @
    [(''bind queue '' @ tp_Queue t @ '' to dlx main'', QueueBind (tp_Queue t) ''main'' (tp_DLX t)),
     (''declare retry queue '' @ tp_RetryQueue t,
       QueueDeclare (tp_RetryQueue t) (Some (tp_DLX t, ''main'')) (Some (tp_RetryTTLMillis t))),
     (''bind retry queue'', QueueBind (tp_RetryQueue t) ''retry'' (tp_DLX t)),
     (''declare dlq '' @ tp_DLQ t, QueueDeclare (tp_DLQ t) None None),
     (''bind dlq'', QueueBind (tp_DLQ t) ''dlq'' (tp_DLX t))]"

fun declare_steps :: "broker \<Rightarrow> (string \<times> amqp_declaration) list \<Rightarrow> unit res" where
  "declare_steps br [] = Inr ()"
| "declare_steps br ((what, x) # xs) = (case br_Declare br x of Inl e \<Rightarrow> Inl (Wrapped what e) | Inr _ \<Rightarrow> declare_steps br xs)"

fun declare_topologies :: "broker \<Rightarrow> topology list \<Rightarrow> unit res" where
  "declare_topologies br [] = Inr ()"
| "declare_topologies br (t # ts) = (case declare_steps br (topology_steps t) of Inl e \<Rightarrow> Inl e | Inr _ \<Rightarrow> declare_topologies br ts)"

definition Connect :: "broker \<Rightarrow> string \<Rightarrow> topology \<Rightarrow> topology list \<Rightarrow> topology res" where
  "Connect br url t extra = (case br_Dial br url of Inl e \<Rightarrow> Inl (Wrapped ''rabbitmq dial'' e) | Inr _ \<Rightarrow>
     (case br_Channel br of Inl e \<Rightarrow> Inl (Wrapped ''rabbitmq channel'' e) | Inr _ \<Rightarrow>
     (case declare_topologies br (t # extra) of Inl e \<Rightarrow> Inl e | Inr _ \<Rightarrow> Inr t)))"

section \<open>Consuming\<close>

text \<open>What the loop of a consumer selects: the end of its context, a closed channel, a message. Its goroutines run
  one after the other; a relay that runs beside it has its ticks in between.\<close>

datatype arrival = ContextDone | ChannelClosed | Arrived delivery | RelayTick

fun consume_loop :: "consumer \<Rightarrow> int \<Rightarrow> arrival list \<Rightarrow> delivery_action list app" where
  "consume_loop c n [] = returnC []"
| "consume_loop c n (ContextDone # as) = returnC []"
| "consume_loop c n (ChannelClosed # as) = returnC []"
| "consume_loop c n (Arrived m # as) = bindC (handleDelivery c m) (\<lambda>a. bindC (consume_loop c n as) (\<lambda>rest. returnC (a # rest)))"
| "consume_loop c n (RelayTick # as) = thenC (tryC (publishBatch n) (\<lambda>_. returnC ()) (\<lambda>_. returnC ())) (consume_loop c n as)"

definition concurrency_of :: "int \<Rightarrow> int" where
  "concurrency_of concurrency = (if concurrency \<le> 0 then 1 else concurrency)"

definition Consumer_Start :: "broker \<Rightarrow> topology \<Rightarrow> int \<Rightarrow> consumer \<Rightarrow> int \<Rightarrow> arrival list \<Rightarrow> delivery_action list app" where
  "Consumer_Start br t concurrency c n arrivals = (case br_Qos br (concurrency_of concurrency) of Inl e \<Rightarrow> failC (Wrapped ''qos'' e) | Inr _ \<Rightarrow>
     (case br_Consume br (tp_Queue t) of Inl e \<Rightarrow> failC (Wrapped ''consume'' e) | Inr _ \<Rightarrow> consume_loop c n arrivals))"

section \<open>The entry points\<close>

datatype 'a process_end = Panicked config_panic | Fatal string go_error | Ended 'a

text \<open>What a process finds: the variables, the database with its schema, the broker, the object store.\<close>

record 'c surroundings =
  su_Vars :: env_vars
  su_Open :: "string \<Rightarrow> unit res"
  su_DB :: "unit res"
  su_Parse :: "string \<Rightarrow> (string \<times> schema_field list) res"
  su_Migrator :: migrator
  su_Broker :: broker
  su_S3 :: "config \<Rightarrow> string \<Rightarrow> 'c res"

text \<open>\<open>log.Fatalf\<close> ends the process.\<close>

definition or_fatal :: "string \<Rightarrow> 'b res \<Rightarrow> ('b \<Rightarrow> 'a process_end app) \<Rightarrow> 'a process_end app" where
  "or_fatal what x f = (case x of Inl e \<Rightarrow> returnC (Fatal what e) | Inr v \<Rightarrow> f v)"

definition ConnectDatabase :: "'c surroundings \<Rightarrow> config \<Rightarrow> 'a process_end app \<Rightarrow> 'a process_end app" where
  "ConnectDatabase su cfg f = or_fatal ''failed to connect to database'' (su_Open su (cf_DatabaseURL cfg)) (\<lambda>_.
     or_fatal ''failed to get database instance'' (su_DB su) (\<lambda>_. f))"

definition boot :: "'c surroundings \<Rightarrow> (config \<Rightarrow> 'a process_end app) \<Rightarrow> 'a process_end app" where
  "boot su run = (case Load (su_Vars su) of Inl p \<Rightarrow> returnC (Panicked p) | Inr env \<Rightarrow>
     ConnectDatabase su env (or_fatal ''schema check failed'' (AssertModelsMatchDB (su_Parse su) (su_Migrator su)) (\<lambda>_. run env)))"

text \<open>A container of a consumer: the broker, then the object store.\<close>

definition with_container :: "'c surroundings \<Rightarrow> config \<Rightarrow> topology \<Rightarrow> 'a process_end app \<Rightarrow> 'a process_end app" where
  "with_container su env t f = or_fatal ''failed to connect to rabbitmq'' (Connect (su_Broker su) (cf_RabbitMQURL env) t []) (\<lambda>_.
     or_fatal ''failed to init storage'' (NewMinIOStorage (su_S3 su) env) (\<lambda>_. f))"

definition consume_until_stopped :: "string \<Rightarrow> 'c surroundings \<Rightarrow> int \<Rightarrow> topology \<Rightarrow> consumer \<Rightarrow> int \<Rightarrow> arrival list
    \<Rightarrow> delivery_action list process_end app" where
  "consume_until_stopped what su concurrency t c n arrivals = tryC (Consumer_Start (su_Broker su) t concurrency c n arrivals)
     (\<lambda>e. returnC (Fatal what e)) (\<lambda>as. returnC (Ended as))"

definition worker_main :: "'c surroundings \<Rightarrow> arrival list \<Rightarrow> delivery_action list process_end app" where
  "worker_main su arrivals = boot su (\<lambda>env. let wk = worker_NewContainer env in
     with_container su env (ct_Topology wk) (consume_until_stopped ''worker stopped with error'' su (cf_WorkerConcurrency env) (ct_Topology wk)
       (ct_Consumer wk) (re_BatchSize (wk_Relay wk)) arrivals))"

definition analysis_main :: "detection \<Rightarrow> 'c surroundings \<Rightarrow> arrival list \<Rightarrow> delivery_action list process_end app" where
  "analysis_main dt su arrivals = boot su (\<lambda>env. let ct = analysis_NewContainer dt env in
     with_container su env (ct_Topology ct) (consume_until_stopped ''analysis worker stopped with error'' su (cf_AnalysisConcurrency env)
       (ct_Topology ct)
       (ct_Consumer ct) 0 arrivals))"

definition frames_main :: "'c surroundings \<Rightarrow> arrival list \<Rightarrow> delivery_action list process_end app" where
  "frames_main su arrivals = boot su (\<lambda>env. let ct = frames_NewContainer env in
     with_container su env (ct_Topology ct) (consume_until_stopped ''frame-extraction worker stopped with error'' su (cf_FrameExtractionConcurrency env)
       (ct_Topology ct) (ct_Consumer ct) 0 arrivals))"

definition scheduler_main :: "'c surroundings \<Rightarrow> nat \<Rightarrow> (gotime \<times> duration) list process_end app" where
  "scheduler_main su n = boot su (\<lambda>env. bindC (runStaleMediaPoller n (scheduler_NewContainer env) (cf_SchedulerInterval env))
     (\<lambda>timers. returnC (Ended timers)))"

section \<open>The topology is declared as it is described\<close>

lemma topology_steps_declare: "List.map snd (topology_steps t) = topology_declare t"
  by (simp add: topology_steps_def topology_declare_def comp_def)

lemma declare_steps_ok: "declare_steps br xs = Inr () \<longleftrightarrow> list_all (\<lambda>x. br_Declare br x = Inr ()) (List.map snd xs)"
  by (induction xs rule: declare_steps.induct [of _ br]) (auto split: sum.splits)

lemma Connect_declares: "Connect br url t [] = Inr t' \<Longrightarrow>
    t' = t \<and> list_all (\<lambda>x. br_Declare br x = Inr ()) (topology_declare t)"
  using declare_steps_ok [of br "topology_steps t"] unfolding topology_steps_declare
  by (auto simp: Connect_def split: sum.splits)

section \<open>Every message is answered\<close>

text \<open>The messages before the loop ends.\<close>

fun taken :: "arrival list \<Rightarrow> delivery list" where
  "taken (Arrived m # as) = m # taken as"
| "taken (RelayTick # as) = taken as"
| "taken _ = []"

lemma sendToDLQ_returns: "(\<And>w'. Q () w') \<Longrightarrow> wp (sendToDLQ m reason) Q E r w"
  unfolding sendToDLQ_def by simp

lemma handleDelivery_answers: "(\<And>a w'. Q a w') \<Longrightarrow> wp (handleDelivery c m) Q E r w"
  unfolding handleDelivery_def
  by (cases "dl_envelope m") (auto simp: wp_return_eta intro!: sendToDLQ_returns wp_any [where c = "Dispatch reg t p" for reg t p])

lemma wp_consume_loop: "wp (consume_loop c n as) (\<lambda>acts _. length acts = length (taken as)) (\<lambda>_ _. False) r w"
proof (induction c n as arbitrary: w rule: consume_loop.induct)
  case (4 c n m as)
  show ?case
    unfolding consume_loop.simps wp_bind
    by (rule handleDelivery_answers, rule wp_mono [OF 4]) (simp_all add: wp_return_eta)
next
  case (5 c n as)
  show ?case
    unfolding consume_loop.simps wp_then wp_try by (rule wp_any) (use 5 in \<open>simp_all add: wp_return_eta\<close>)
qed simp_all

text \<open>A process runs only on a complete configuration and a database with the schema of the models; before that it
  changes nothing.\<close>

definition booted :: "'c surroundings \<Rightarrow> bool" where
  "booted su \<longleftrightarrow> (\<exists>env. Load (su_Vars su) = Inr env) \<and> list_all (\<lambda>m. agrees (su_Migrator su) (su_Parse su m)) Models"

lemma boot_checks:
  assumes "\<not> booted su"
  shows "\<exists>x. boot su run = returnC x \<and> (\<forall>a. x \<noteq> Ended a)"
  using assms assert_models_agree [of "su_Parse su" "su_Migrator su" Models]
  by (auto simp: booted_def boot_def ConnectDatabase_def or_fatal_def AssertModelsMatchDB_def list_all_iff split: sum.splits)

lemma wp_with_container:
  assumes "\<And>what e. Q (Fatal what e) w" and "wp f Q E r w"
  shows "wp (with_container su env t f) Q E r w"
  using assms by (simp add: with_container_def or_fatal_def split: sum.split)

lemma wp_consume_until_stopped:
  assumes "\<And>what e. Q (Fatal what e) w" and "\<And>acts w'. length acts = length (taken as) \<Longrightarrow> Q (Ended acts) w'"
  shows "wp (consume_until_stopped what su k t c n as) Q (\<lambda>_ _. False) r w"
proof -
  have "wp (consume_loop c n as) (\<lambda>acts. Q (Ended acts)) (\<lambda>e. Q (Fatal what e)) r w" 
    by (rule wp_mono [OF wp_consume_loop]) (use assms(2) in auto)
  then show ?thesis
    using assms(1) by (simp add: consume_until_stopped_def Consumer_Start_def wp_return_eta split: sum.split)
qed

text \<open>How a consuming process ends: stopped before it did anything, or with one answer per message.\<close>

definition answered_all :: "arrival list \<Rightarrow> world \<Rightarrow> delivery_action list process_end \<Rightarrow> world \<Rightarrow> bool" where
  "answered_all as w x w' \<longleftrightarrow> (case x of Ended acts \<Rightarrow> length acts = length (taken as) | _ \<Rightarrow> w' = w)"

lemma wp_boot: 
  assumes "\<And>p. Q (Panicked p) w" and "\<And>what e. Q (Fatal what e) w" and "\<And>env. wp (run env) Q E r w"
  shows "wp (boot su run) Q E r w"
  using assms by (simp add: boot_def ConnectDatabase_def or_fatal_def split: sum.split)

lemma wp_consumers:
  "wp (worker_main su as) (answered_all as w) (\<lambda>_ _. False) r w"
  "wp (analysis_main dt su as) (answered_all as w) (\<lambda>_ _. False) r w"
  "wp (frames_main su as) (answered_all as w) (\<lambda>_ _. False) r w"
  unfolding worker_main_def analysis_main_def frames_main_def Let_def
  by (intro wp_boot wp_with_container wp_consume_until_stopped; simp add: answered_all_def)+

lemma unbooted_process:
  assumes "\<not> booted su"
  shows "wp (worker_main su as) (\<lambda>x w'. w' = w \<and> (\<forall>a. x \<noteq> Ended a)) (\<lambda>_ _. False) r w"
    and "wp (analysis_main dt su as) (\<lambda>x w'. w' = w \<and> (\<forall>a. x \<noteq> Ended a)) (\<lambda>_ _. False) r w"
    and "wp (frames_main su as) (\<lambda>x w'. w' = w \<and> (\<forall>a. x \<noteq> Ended a)) (\<lambda>_ _. False) r w"
    and "wp (scheduler_main su k) (\<lambda>x w'. w' = w \<and> (\<forall>a. x \<noteq> Ended a)) (\<lambda>_ _. False) r w"
proof -
  have stopped: "wp (boot su run) (\<lambda>x w'. w' = w \<and> (\<forall>a. x \<noteq> Ended a)) (\<lambda>_ _. False) r w" for run :: "config \<Rightarrow> 'b process_end app"
    using boot_checks [OF assms, of run] by auto
  show "wp (worker_main su as) (\<lambda>x w'. w' = w \<and> (\<forall>a. x \<noteq> Ended a)) (\<lambda>_ _. False) r w"
    "wp (analysis_main dt su as) (\<lambda>x w'. w' = w \<and> (\<forall>a. x \<noteq> Ended a)) (\<lambda>_ _. False) r w"
    "wp (frames_main su as) (\<lambda>x w'. w' = w \<and> (\<forall>a. x \<noteq> Ended a)) (\<lambda>_ _. False) r w"
    "wp (scheduler_main su k) (\<lambda>x w'. w' = w \<and> (\<forall>a. x \<noteq> Ended a)) (\<lambda>_ _. False) r w"
    unfolding worker_main_def analysis_main_def frames_main_def scheduler_main_def by (rule stopped)+
qed

end
