(* ===== verification/Spec2Isabelle.thy ===== *)
theory Spec2Isabelle
  imports Installation ActivityFeed DetectorFacts CampaignTenancy Dashboard Links Progress Recovery
  ReadRepositories Validation Spectrum Processes
begin

text \<open>
  The API of a service that tells whether images and videos were generated. A user works in a client of
  a workspace; a client has campaigns, a campaign has medias; a media is uploaded to an object store,
  split into contents (the image itself, or frames of the video), each content is judged by detectors,
  and the verdict of the media is the aggregate of its contents. Workspaces pay for plans whose quotas
  bound all this. Everything that changes state stores domain events in an outbox, in the same
  transaction; a relay publishes them, and three consumers run handlers on them: the workers that
  analyse, the realtime messages, the feed of activities.

  \<^bold>\<open>Reading the model.\<close> A handler of the code is a computation (theory Comp): a function of an
  environment and a world that yields a Go error or a value, and the new world. The world (World) holds
  the database inside the transaction and the committed one, the object store and the brokers; each call
  that leaves the process takes a tick, and the environment says by tick whether it fails, what the clock
  shows and which UUID is fresh. A theorem that says nothing about the environment holds for every
  failure at every call. The postcondition \<open>wp c Q E r w\<close> says that \<open>c\<close> ends with a value and \<open>Q\<close>, or with
  an error and \<open>E\<close>: every computation here ends, so nothing is said under a condition of termination.
  Definitions have the names of the code where HOL leaves them free.

  \<^bold>\<open>Theories and code\<close> (under \<open>src/internal\<close>).
  Shared: Prelude (errors, byte strings), Comp, GoTime (calendar of \<open>time.Time\<close>), Table, Database and
  Events (rows and their conversions, domain events), World (transactions, locks, object store),
  Repositories (\<open>infrastructure/persistence\<close>), Invariants (how a handler keeps a database invariant).
  Entities, \<open>domain\<close>: Media, Content, AnalysisResult, Campaign, Accounts (clients, users, workspaces),
  Subscription (with \<open>quota_period.go\<close>), Billing (plans, quotas, invoices).
  Commands and queries, \<open>application\<close>: QuotaUsage (usage and guards), MediaCommands (presigned and
  arrived uploads), Frames (video frames, recovery of stale medias), AnalyzeContent (the analysis),
  CampaignCommands, AccountCommands, BillingCommands, Pages (list queries, dashboard), ReadRepositories (the
  reads no page asks for).
  Detectors, \<open>infrastructure/analysis\<close> and \<open>infrastructure/sightengine\<close>: Heuristic, Spectrum, Detectors.
  Messaging: Messaging (outbox relay, consumer, deduplication, topology), Realtime, Activity,
  EventHandlers (the registries of the three consumers).
  HTTP, \<open>interfaces/http\<close>: QueryParams, Http (requests, authentication), Validation, Handlers, Webhooks,
  Presenter (the records the answers are written from).
  Outside: VideoSampling (\<open>infrastructure/ffmpeg\<close>), StripeGateway (\<open>infrastructure/stripe\<close>).
  Processes: Configuration (\<open>infrastructure/config\<close>), Routes (\<open>src/cmd/api/routes.go\<close>), Startup (the containers of the
  five binaries under \<open>src/cmd\<close>, the schema check, the scheduler), Processes (their entry points, the connection to the
  broker, the loop of a consumer).

  \<^bold>\<open>What is shown.\<close> Soundness: verdicts are the aggregates of terminal contents, through the analysis, the
  uploads, the frame extraction and the recovery. AccountInvariant: users work in clients they are
  members of, clients keep their default campaign, signing up is all or nothing. CampaignLifecycle:
  deletion takes the medias along, backgrounds answer to the last key. BillingInvariant: anchors of quota
  periods, one invoice per Stripe invoice, the preview of a plan change decides as the change. QuotaUsage
  and AnalyzeContent: reservations stay within the quota. Deduplication: a delivery that comes again runs
  no handler twice. ActivityFeed: one row and one announcement per event. DetectorFacts: each check speaks
  once, JPEG tables are read back. HttpFacts and CampaignTenancy: answers and writes stay within the tenant, and
  where the code does not see to it. Dashboard: days add up, percentages. Links: the URLs that are shown
  lead to pictures. Progress: the relay drains the outbox, the quota period is found. Recovery: a pass leaves no
  old media stuck. ReadRepositories: a workspace's counts are the sums over its clients, reading in bulk is reading one
  by one. Processes: nothing runs before the schema is checked, every message is answered. Steady, SteadyCommands
  and Served state as locales what an invariant of the database has to be kept by: an invariant that reads the medias
  and contents, or the accounts, is kept by every command on other tables, and the server keeps what the
  commands keep. WholeSystem puts the processes together as a step relation, and interprets the locales on the
  verdicts and on the accounts. The properties below are a selection, the whole system first.
  Scenario, Office and Installation are the data on which theorems with hypotheses are applied.

  \<^bold>\<open>Choices.\<close> Identifiers are natural numbers, 0 is \<open>uuid.Nil\<close>. Floats are rational numbers, so no rounding is
  modelled. Integers of Go are \<open>int\<close> where they count rows, bytes or time, and words where the code works on
  bits. Transactions run one at a time (the analysis takes a lock per workspace, which is modelled). The
  goroutines of an analysis run one after the other, in an order that is a parameter; an iteration over a
  Go map follows the first occurrences. A slice that is read out of range, a panic in Go, is an error
  value. Loops are recursions over the data they consume; the one bound on rounds is that of the quota
  period, whose loop advances by a month each time: a round per 28 days elapsed is enough (Progress).

  A step of the whole system is a whole request, delivery, batch or tick: steps come in any order, with
  any environment, but two of them do not overlap.

  \<^bold>\<open>Not modelled.\<close> The libraries behind the clients of Stripe, Clerk, MinIO, RabbitMQ, Centrifugo and the image
  formats, and the programs ffmpeg and ffprobe (parameters, or calls that may fail; the arguments the code gives them
  are modelled), the matching of paths and the binding of bodies by the web framework, JSON encoding (the presenters
  build records), migrations and the command line tools, the pool of database connections, the number of goroutines of
  a consumer, rate limits, request and job timeouts: they decide nothing about the data, or belong to libraries.
\<close>

section \<open>The whole system\<close>

text \<open>C1: Whatever the five processes do, in any order, with any requests and messages and whichever calls
  fail, in the committed database the verdict of an analysed media stays the aggregate of its contents, all of them
  terminal, users work in clients they are members of, and clients have a default campaign.\<close>

theorem whole_system_stays_consistent:
  assumes "system_ok s" and "system_runs s w w'" and "sound w" and "holds accounts_ok w"
  shows "sound w' \<and> holds accounts_ok w'"
  using verdict_system.runs [OF assms(1-3)] account_system.runs [OF assms(1,2,4)] ..

theorem whole_system_stays_consistent_witness: "sound sample_recovered \<and> holds accounts_ok sample_recovered"
  by (rule whole_system_stays_consistent [OF sample_system_ok sample_runs office_sound office_accounts])

text \<open>C5: Without a token that admits a user a request is answered by an endpoint that is open to all, or as an
  unknown route, or with 401.\<close>

theorem protected_endpoints_ask_for_a_token:
  assumes "framework_ok (dp_Framework dp)" and "\<And>u. \<not> admitted (dp_Verify dp) (in_Authorization q) u"
  shows "answered_openly dp q (serve dp q) \<or>
    wp (serve dp q) (\<lambda>a _. \<exists>m. a = \<lparr>rs_Status = 401, rs_Body = Message m\<rparr>) (\<lambda>_ _. False) r w"
  using serve_guarded [OF assms(1), of q] authenticated_refuses [OF assms(2)] by metis

theorem protected_endpoints_ask_for_a_token_witness:
  "let q = sample_incoming\<lparr>in_Path := ''/api/users/me''\<rparr>; dp = the_server sample_system in
    answered_openly dp q (serve dp q) \<or>
    wp (serve dp q) (\<lambda>a _. \<exists>m. a = \<lparr>rs_Status = 401, rs_Body = Message m\<rparr>) (\<lambda>_ _. False) calm_env (world_on office_db)"
proof -
  have f: "framework_ok (dp_Framework (the_server sample_system))"
    by (simp add: the_server_def api_NewContainer_def sample_system_def sample_services_def sample_framework_ok)
  have a: "\<not> admitted (dp_Verify (the_server sample_system)) (in_Authorization (sample_incoming\<lparr>in_Path := p\<rparr>)) u" for p u
    by (simp add: admitted_def bearer_token_def sample_incoming_def)
  show ?thesis unfolding Let_def by (rule protected_endpoints_ask_for_a_token [OF f a])
qed

text \<open>C35: With the default routing keys every event but those of a workspace reaches the queue of the worker, an
  uploaded content also that of the analysis, and an uploaded media that of the frame extraction.\<close>

theorem events_reach_their_queues:
  assumes "topic_exchange topic" and "Load vars = Inr cfg" and "vars ''RABBITMQ_ROUTING_KEY'' = []"
    and "vars ''ANALYSIS_ROUTING_KEY'' = []" and "vars ''FRAME_EXTRACTION_ROUTING_KEY'' = []"
  shows "(entity_word e = ''workspace'' \<or> reaches topic (ct_Topology (worker_NewContainer cfg)) e) \<and>
    (EventType e = ''content.uploaded.v1'' \<longrightarrow> reaches topic (ct_Topology (analysis_NewContainer dt cfg)) e) \<and>
    (EventType e = ''media.uploaded.v1'' \<longrightarrow> reaches topic (ct_Topology (frames_NewContainer cfg)) e)"
  using default_reaches_worker default_reaches_workers_of_uploads Load_default_queues [OF assms(2-5)] assms(1) by blast

theorem events_reach_their_queues_witness:
  "let e = EvContent (ContentUploaded 41 20 10 5 3 ''key'' ''thumb'' 7 100) in
    reaches plain_topic (ct_Topology (worker_NewContainer sample_config)) e \<and>
    reaches plain_topic (ct_Topology (analysis_NewContainer sample_detection sample_config)) e"
  using events_reach_their_queues [OF plain_topic_ok sample_Load,
      of "EvContent (ContentUploaded 41 20 10 5 3 ''key'' ''thumb'' 7 100)" sample_detection]
  by (simp add: sample_vars_def demands_def entity_word_def)

text \<open>C6: The bill of a plan change that a user has been shown is the one that Stripe is asked to charge: the instant of
  the preview, handed back, makes the same request.\<close>

theorem bill_is_what_was_shown:
  assumes "\<And>t. 0 < unix_seconds (en_clock r t)"
  shows "wp (sg_PreviewPriceChange (SubscriptionGateway key api) i it p)
    (\<lambda>pv _. \<exists>change shown v. fst (sa_CreatePreview api key change r v) = Inr shown \<and>
        pv = preview_of (pv_ProrationDate pv) shown \<and>
        sg_UpdatePrice (SubscriptionGateway key api) i it p (Some (pv_ProrationDate pv)) =
          bindC (mapErrC (Wrapped ''failed to update subscription price'') (sa_UpdateSubscription api key change))
            (\<lambda>sub. returnC (ExtractSubscriptionData sub)))
    (\<lambda>_ _. True) r w"
  using assms unfolding SubscriptionGateway_def subscription_gateway.select_convs
  by (rule wp_mono [OF PreviewPriceChange_as_updated]) blast+

theorem bill_is_what_was_shown_witness:
  "wp (sg_PreviewPriceChange (SubscriptionGateway ''sk'' sample_stripe) ''sub'' ''item'' ''price'')
    (\<lambda>pv _. \<exists>change shown v. fst (sa_CreatePreview sample_stripe ''sk'' change unix_env v) = Inr shown \<and>
        pv = preview_of (pv_ProrationDate pv) shown \<and>
        sg_UpdatePrice (SubscriptionGateway ''sk'' sample_stripe) ''sub'' ''item'' ''price'' (Some (pv_ProrationDate pv)) =
          bindC (mapErrC (Wrapped ''failed to update subscription price'') (sa_UpdateSubscription sample_stripe ''sk'' change))
            (\<lambda>sub. returnC (ExtractSubscriptionData sub)))
    (\<lambda>_ _. True) unix_env (world_on office_db)"
  by (rule bill_is_what_was_shown [OF unix_env_clock])

text \<open>C7: The frames of a video are numbered from 0, in order of time from its start to its end, and stored under keys of
  their own: on success each content carries the number and the instant of its frame, and its key leads to the picture.\<close>

theorem sampled_frames_are_kept:
  assumes "Extract e t video n = Inr fs"
  shows "List.map fr_Index fs = List.map int [0..<length fs] \<and> sorted (List.map fr_TimestampMs fs) \<and>
    (\<exists>d. probeDurationMs e t video = Inr d \<and> fr_TimestampMs (hd fs) = 0 \<and>
      list_all (\<lambda>f. 0 \<le> fr_TimestampMs f \<and> fr_TimestampMs f \<le> d) fs) \<and>
    distinct (List.map (frame_key r m) fs) \<and>
    wp (foldC (store_frame m) fs []) (\<lambda>cs w'. kept_apart r m fs cs w') (\<lambda>_ _. True) r w"
  using ffmpeg.numbered [OF assms] ffmpeg.ordered [OF assms] Extract_span [OF assms] ffmpeg.keys_distinct [OF assms]
    ffmpeg.frames_kept [OF assms] by (auto simp: list_all_iff)

theorem sampled_frames_are_kept_witness:
  "distinct (List.map (frame_key calm_env sample_media) sample_frames) \<and>
    wp (foldC (store_frame sample_media) sample_frames []) (\<lambda>cs w'. kept_apart calm_env sample_media sample_frames cs w')
      (\<lambda>_ _. True) calm_env (world_on sample_db)"
  using sampled_frames_are_kept [OF sample_Extract] by blast

section \<open>Starting and scheduling\<close>

text \<open>C36: Loading the configuration panics exactly when a demanded variable is missing or unreadable, and names the first
  one in the order in which they are looked at.\<close>

theorem configuration_names_the_first_fault:
  "(case Load vars of Inl p \<Rightarrow> Some p | Inr cfg \<Rightarrow> None) = first_complaint vars demands"
  using panic_of_Load [of vars] by (simp add: panic_of_def)

text \<open>C39: A variable that holds a duration written as whole numbers of units, such as \<open>1h30m\<close>, is read as their sum, if
  that fits in 63 bits; one that holds an integer of 64 bits is read as that integer, with or without a default.\<close>

theorem written_numbers_are_read_back:
  assumes "vars key = written ts" and "ts \<noteq> []" and "\<And>n u. (n, u) \<in> set ts \<Longrightarrow> unitMap u \<noteq> None" and "amount ts < 2 ^ 63"
    and "vars key' = int_string k" and "- (2 ^ 63) \<le> k" and "k < 2 ^ 63"
  shows "getEnvDuration vars key d = Inr (amount ts) \<and> getEnvInt vars key' = Inr k \<and> getEnvIntOrDefault vars key' n = Inr k"
  using getEnvDuration_read [of vars key] getEnvInt_read [of vars key'] ParseDuration_written [OF assms(2-4)]
    Atoi_written [OF assms(6,7)] assms(1,5) by simp

theorem written_numbers_are_read_back_witness:
  "let vars = (\<lambda>key. if key = ''N'' then int_string (- 7) else written [(1, ''h''), (30, ''m'')]) in
    getEnvDuration vars ''STALE'' 0 = Inr (90 * Minute) \<and> getEnvInt vars ''N'' = Inr (- 7) \<and>
    getEnvIntOrDefault vars ''N'' 0 = Inr (- 7)"
proof -
  let ?vars = "(\<lambda>key. if key = ''N'' then int_string (- 7) else written [(1, ''h''), (30, ''m'')])"
  have u: "unitMap ''h'' = Some Hour" "unitMap ''m'' = Some Minute" by (simp_all add: unitMap_def)
  have a: "amount [(1, ''h''), (30, ''m'')] = 90 * Minute" by (simp add: u unit_value_def)
  have "getEnvDuration ?vars ''STALE'' 0 = Inr (amount [(1, ''h''), (30, ''m'')]) \<and> getEnvInt ?vars ''N'' = Inr (- 7) \<and>
      getEnvIntOrDefault ?vars ''N'' 0 = Inr (- 7)"
    by (rule written_numbers_are_read_back) (auto simp: u unit_value_def)
  then show ?thesis unfolding Let_def a .
qed

text \<open>C37: The schema check passes exactly when every model's table exists with the columns of the model and no other.\<close>

theorem schema_check_is_exact:
  "AssertModelsMatchDB parse mg = Inr () \<longleftrightarrow> list_all (\<lambda>m. agrees mg (parse m)) Models"
  by (simp add: AssertModelsMatchDB_def assert_models_agree list_all_iff)

text \<open>C38: The scheduler never fails and never spins: each of its timers is positive, at most an interval long, and ends
  on a multiple of the interval, whatever becomes of the recoveries in between.\<close>

theorem recovery_keeps_to_the_clock:
  "wp (runStaleMediaPoller n c interval) (\<lambda>timers _. length timers = n \<and>
     list_all (on_the_clock (if interval \<le> 0 then 10 * Minute else interval)) timers) (\<lambda>_ _. False) r w"
  unfolding list_all_iff by (rule wp_runStaleMediaPoller)

section \<open>The analysis of a content\<close>

text \<open>C2: A run of \<open>AnalyzeContentHandler.Handle\<close>, whatever calls fail, ends outside any transaction and
  takes the committed database through whole steps of the analysis only: a reserved slot, a content
  blocked by the quota, a stored detector outcome, a rendered verdict, a closed media.\<close>

theorem analyze_runs_whole_steps:
  assumes "handler_ok h" and "idle w"
  shows "idle (snd (AnalyzeContent h i r w)) \<and>
    analysis_tx\<^sup>*\<^sup>* (wd_committed w) (wd_committed (snd (AnalyzeContent h i r w)))"
  using assms by (rule AnalyzeContent_steps)

theorem analyze_runs_whole_steps_witness:
  "idle (snd (AnalyzeContent sample_handler 20 calm_env (world_on sample_db))) \<and>
    analysis_tx\<^sup>*\<^sup>* sample_db (wd_committed (snd (AnalyzeContent sample_handler 20 calm_env (world_on sample_db))))"
  using analyze_runs_whole_steps [OF sample_handler_ok world_on_idle, of 20 calm_env sample_db] by simp

text \<open>In the committed database the verdict of an analysed media is the aggregate of its contents, and
  all of them are terminal. The analysis, the upload, the presigning, the frame extraction and the
  recovery keep this, whatever calls fail.\<close>

theorem verdicts_stay_sound:
  assumes "handler_ok h" and "sound w"
  shows "sound (snd (AnalyzeContent h i r w)) \<and> sound (snd (ProcessUpload q key ct sz r w)) \<and>
    sound (snd (PresignMedia q cp cl files r w)) \<and> sound (snd (ExtractFrames q j r w)) \<and>
    sound (snd (RecoverStale rh now r w))"
proof -
  have "sound (snd (AnalyzeContent h i r w))"
    using AnalyzeContent_steps [OF assms(1), of w i r] analysis_txs_inv assms(2) by (auto simp: holds_def)
  then show ?thesis
    using keepsD [OF sound_ProcessUpload assms(2)] keepsD [OF sound_PresignMedia assms(2)]
      keepsD [OF sound_ExtractFrames assms(2)] keepsD [OF sound_RecoverStale assms(2)] by simp
qed

theorem verdicts_stay_sound_witness:
  "sound (snd (AnalyzeContent sample_handler 20 calm_env (world_on sample_db)))"
  using verdicts_stay_sound [OF sample_handler_ok sample_sound] by blast

text \<open>C3: A content that is terminal before an analysis keeps its status, label and confidence through it.\<close>

theorem terminal_contents_absorb:
  assumes "handler_ok h" and "sound w" and "content_get j (wd_committed w) = Some c" and "IsTerminal c"
  shows "content_get j (wd_committed (snd (AnalyzeContent h i r w))) = Some c"
  using AnalyzeContent_steps [OF assms(1), of w i r] assms analysis_txs_terminal by (auto simp: holds_def)

theorem terminal_contents_absorb_witness:
  "content_get 20 (wd_committed (snd (AnalyzeContent sample_handler 20 calm_env (world_on done_db)))) = Some done_content"
  using terminal_contents_absorb [OF sample_handler_ok done_sound, of 20 done_content 20 calm_env]
  by (simp add: done_content_get IsTerminal_def done_content_def)

text \<open>C4: After a transaction that reserves an analysis slot under a quota service, the workspace of the
  client has at most as many running analyses as its quota allows; otherwise the database is as before.\<close>

theorem reservation_within_quota:
  assumes "content_table (wd_committed w)" and "ah_quota h"
  shows "wp (withTx (reserveAnalysis h c m))
    (\<lambda>_ w'. wd_committed w' = wd_committed w \<or> (\<exists>u t. quota_usage_spec (m_ClientID m) (wd_committed w) t = Some u \<and>
      count_status (qu_WorkspaceID u) ContentAnalyzing (wd_committed w') \<le> qc_Max (qu_ConcurrentAnalyses u)))
    (\<lambda>_ w'. wd_committed w' = wd_committed w) r w"
  by (rule wp_mono [OF wp_reserveAnalysis])
    (use reserved_concurrent [OF _ assms(2) assms(1)] in blast)+

theorem reservation_within_quota_witness:
  "wp (withTx (reserveAnalysis (sample_handler\<lparr>ah_quota := True\<rparr>) sample_content sample_media))
    (\<lambda>_ w'. wd_committed w' = office_db \<or> count_status 2 ContentAnalyzing (wd_committed w') \<le> 1)
    (\<lambda>_ w'. wd_committed w' = office_db) calm_env (world_on office_db)"
  by (rule wp_mono [OF reservation_within_quota])
    (auto simp: office_tables sample_media_def dest: office_usage)

text \<open>\<open>computeLabel\<close> says AI-generated exactly when a counted signal weighs at least 0.7, human exactly
  when none weighs more than 0.3, depends on the set of signals alone, and is at least half certain.\<close>

theorem computeLabel_thresholds:
  "(fst (computeLabel ss) = LabelAIGenerated \<longleftrightarrow> (\<exists>s \<in> set ss. signal_counts s \<and> 7 / 10 \<le> sg_Weight s)) \<and>
   (fst (computeLabel ss) = LabelHuman \<longleftrightarrow> \<not> (\<exists>s \<in> set ss. signal_counts s \<and> 3 / 10 < sg_Weight s)) \<and>
   computeLabel (remdups ss) = computeLabel ss \<and> computeLabel (rev ss) = computeLabel ss \<and>
   1 / 2 \<le> snd (computeLabel ss)"
  using computeLabel_ai [of ss] computeLabel_human [of ss] computeLabel_confidence(1) [of ss]
    computeLabel_set [of "remdups ss" ss] computeLabel_set [of "rev ss" ss]
  by (auto simp: not_less)

text \<open>The verdict of a content is the label of the signals of the detectors that answered; when some
  did not, a last signal says how many did.\<close>

theorem aggregate_ignores_failures:
  "aggregate_results rs =
    (let sg = concat (List.map r_Signals (List.filter (\<lambda>r. r_Status r = ResultSuccess) rs)) in
     \<lparr>v_Label = fst (computeLabel sg), v_Confidence = snd (computeLabel sg),
      v_Signals = (if List.filter (\<lambda>r. r_Status r \<noteq> ResultSuccess) rs \<noteq> []
        then sg @ [partial_sources (int (length (List.filter (\<lambda>r. r_Status r = ResultSuccess) rs))) (int (length rs))]
        else sg)\<rparr>)"
  by (simp add: aggregate_results_eq successes_def Let_def filter_empty_conv)

text \<open>When every detector failed the content is nevertheless called human, with confidence 1.\<close>

theorem all_detectors_failed_is_human:
  "(\<And>r. r \<in> set rs \<Longrightarrow> r_Status r \<noteq> ResultSuccess) \<Longrightarrow>
    v_Label (aggregate_results rs) = LabelHuman \<and> v_Confidence (aggregate_results rs) = 1"
proof -
  assume "\<And>r. r \<in> set rs \<Longrightarrow> r_Status r \<noteq> ResultSuccess"
  then have "successes rs = []" by (auto simp: successes_def filter_empty_conv)
  then show ?thesis by (simp add: aggregate_results_eq computeLabel_def Let_def)
qed

theorem all_detectors_failed_is_human_witness:
  "v_Label (aggregate_results [failed_result]) = LabelHuman \<and> v_Confidence (aggregate_results [failed_result]) = 1"
  using all_detectors_failed_is_human [of "[failed_result]"] by (simp add: failed_result_def)

text \<open>The verdict of a media: AI-generated if a content was judged so, uncertain if a content failed or
  has no clear label, human otherwise; the counts add up, and the order of the contents is irrelevant.\<close>

theorem media_verdict_characterised:
  "AggregateMediaVerdict cs =
    \<lparr>mv_Label = (if \<exists>c \<in> set cs. judged LabelAIGenerated c then LabelAIGenerated
       else if \<exists>c \<in> set cs. c_Status c = ContentFailed \<or> unjudged c then LabelUncertain else LabelHuman),
     mv_FlaggedCount = int (length (List.filter (judged LabelAIGenerated) cs)),
     mv_TotalCount = int (length cs),
     mv_FailedCount = int (length (List.filter (\<lambda>c. c_Status c = ContentFailed) cs))\<rparr> \<and>
   AggregateMediaVerdict (sort_key c_ID cs) = AggregateMediaVerdict cs \<and>
   mv_FlaggedCount (AggregateMediaVerdict cs) + mv_FailedCount (AggregateMediaVerdict cs) \<le> mv_TotalCount (AggregateMediaVerdict cs)"
  using AggregateMediaVerdict_eq [of cs] AggregateMediaVerdict_counts [of cs]
    AggregateMediaVerdict_mset [of "sort_key c_ID cs" cs] by simp

text \<open>A plan's detector limit drops external detectors only, the last ones, and keeps the order.\<close>

theorem detector_limit_keeps_local:
  "List.filter (\<lambda>d. \<not> IsExternal d) (keep_detectors n k ds) = List.filter (\<lambda>d. \<not> IsExternal d) ds \<and>
   List.filter IsExternal (keep_detectors n k ds) = take (nat (n - k)) (List.filter IsExternal ds) \<and>
   subseq (keep_detectors n k ds) ds"
  using keep_detectors_local keep_detectors_external keep_detectors_subseq by blast

section \<open>Quotas\<close>

text \<open>C8: A usage that \<open>GetQuotaUsageHandler.Handle\<close> returns is the abstract usage of the client at some
  clock reading: its members, the campaigns, verifications of the current period, running analyses and
  stored bytes of its workspace, under the quota of its plan or of the free plan.\<close>

theorem usage_refines_spec:
  "wp (GetQuotaUsage clientID)
    (\<lambda>u w'. \<exists>t. quota_usage_spec clientID (wd_committed w) (en_clock r t) = Some u \<and> wd_committed w' = wd_committed w)
    (\<lambda>_ w'. wd_committed w' = wd_committed w) r w"
  by (rule wp_GetQuotaUsage) auto

text \<open>A verification is refused exactly when the plan sells no overage and the use with the new units
  passes the monthly maximum and the grace.\<close>

theorem verification_slots_exact:
  "assertVerificationSlots u n \<noteq> Inr () \<longleftrightarrow> q_OveragePriceCents (qu_Limits u) \<le> 0 \<and>
    qc_Max (qu_Verifications u) + max 0 (q_QuotaOverageGraceVerifications (qu_Limits u)) < qc_Used (qu_Verifications u) + n"
  using assertVerificationSlots_ok [of u n] by linarith

text \<open>A batch of uploads that is accepted has at most 20 files, whatever the plan says.\<close>

theorem batch_never_above_presign_limit:
  "wp (AssertBatchUpload clientID n) (\<lambda>_ w'. n \<le> MaxPresignBatch) (\<lambda>_ _. True) r w"
  using wp_AssertBatchUpload [of clientID n r w] by (simp add: MaxPresignBatch_def)

text \<open>C9: The current quota period of an anchor that is not in the future contains the current time, and is
  one month long.\<close>

theorem quota_period_contains_now:
  assumes "CurrentQuotaPeriod anchor now = (a, b)" and "anchor \<le> now"
  shows "a \<le> now \<and> now < b \<and> b = AddDate a 0 1 0 \<and> a + 28 * Day \<le> b \<and> b \<le> a + 31 * Day"
  using CurrentQuotaPeriod_bounds [OF assms(1)] CurrentQuotaPeriod_length [OF assms(1)] assms(2) by blast

theorem quota_period_contains_now_witness:
  "fst (CurrentQuotaPeriod 0 (45 * Day)) \<le> 45 * Day \<and> 45 * Day < snd (CurrentQuotaPeriod 0 (45 * Day))"
  using quota_period_contains_now [of 0 "45 * Day", OF prod.collapse [symmetric]] by simp

section \<open>Uploads and recovery\<close>

text \<open>C10: Where no call fails, a pass of the recovery leaves no old media stuck: every media of its batch that is older
  than the maximal age ends failed with the reason of the timeout, all its contents terminal.\<close>

theorem recovery_fails_old_medias:
  assumes "undisturbed r" and "sound w"
  shows "wp (RecoverStale h given) (\<lambda>_ w'. list_all (\<lambda>m. timed_out (m_ID m) (wd_committed w'))
      (old_in_batch h (pass_time given r w) (wd_committed w))) (\<lambda>_ _. False) r w"
  by (rule wp_mono [OF wp_RecoverStale_old [OF assms]]) (simp_all add: list_all_iff)

theorem recovery_fails_old_medias_witness:
  "wp (RecoverStale (NewRecoverStale 0 0) (10 * Hour)) (\<lambda>_ w'. timed_out 10 (wd_committed w')) (\<lambda>_ _. False)
    calm_env (world_on sample_db)"
proof -
  have "undisturbed calm_env" by (simp add: undisturbed_def fun_eq_iff)
  from recovery_fails_old_medias [OF this sample_sound, of "NewRecoverStale 0 0" "10 * Hour"]
  show ?thesis unfolding world_on_committed sample_old_in_batch by (rule wp_mono) (simp_all add: sample_media_def)
qed

text \<open>Failing a stale media leaves, on success, a failed media whose contents are all terminal, or
  nothing changed because the media was no longer processing; on an error, nothing changed.\<close>

theorem stale_media_fails_completely:
  assumes "sound w"
  shows "wp (recover_failMedia i)
    (\<lambda>_ w'. idle w' \<and> (stale_failed i (wd_committed w') \<or> wd_committed w' = wd_committed w \<and>
      (\<forall>m. media_get i (wd_committed w) = Some m \<longrightarrow> m_Status m \<noteq> StatusProcessing)))
    (\<lambda>_ w'. idle w' \<and> wd_committed w' = wd_committed w) r w"
  using assms by (rule wp_recover_failMedia)

theorem stale_media_fails_completely_witness:
  "wp (recover_failMedia 10)
    (\<lambda>_ w'. idle w' \<and> (stale_failed 10 (wd_committed w') \<or> wd_committed w' = sample_db \<and>
      (\<forall>m. media_get 10 sample_db = Some m \<longrightarrow> m_Status m \<noteq> StatusProcessing)))
    (\<lambda>_ w'. idle w' \<and> wd_committed w' = sample_db) calm_env (world_on sample_db)"
  using stale_media_fails_completely [OF sample_sound, of 10 calm_env] by simp

text \<open>Requeuing a processing media whose contents are all terminal gives it its verdict; a media that is
  not processing is left alone.\<close>

theorem requeue_settles_media:
  assumes "sound w"
  shows "wp (requeueMedia i staleBefore now)
    (\<lambda>_ w'. idle w' \<and> requeue_result i (wd_committed w) (wd_committed w'))
    (\<lambda>_ w'. idle w' \<and> wd_committed w' = wd_committed w) r w"
  using assms by (rule wp_requeueMedia)

theorem requeue_settles_media_witness:
  "wp (requeueMedia 10 500 1000)
    (\<lambda>_ w'. idle w' \<and> requeue_result 10 done_db (wd_committed w'))
    (\<lambda>_ w'. idle w' \<and> wd_committed w' = done_db) calm_env (world_on done_db)"
  using requeue_settles_media [OF done_sound, of 10 500 1000 calm_env] by simp

text \<open>A pass of the recovery touches no more media than its batch, and counts each at most once.\<close>

theorem recovery_counts_bounded:
  assumes "0 < rh_batchSize h"
  shows "wp (RecoverStale h now) (\<lambda>res _. rr_Requeued res + rr_Failed res + rr_Errors res \<le> rr_Scanned res \<and>
    rr_Scanned res \<le> rh_batchSize h) (\<lambda>_ _. True) r w"
  using assms by (rule wp_RecoverStale_counts)

theorem recovery_counts_bounded_witness:
  "wp (RecoverStale (NewRecoverStale 0 0) 5000) (\<lambda>res _. rr_Requeued res + rr_Failed res + rr_Errors res \<le> rr_Scanned res \<and>
    rr_Scanned res \<le> rh_batchSize (NewRecoverStale 0 0)) (\<lambda>_ _. True) calm_env (world_on sample_db)"
  by (rule recovery_counts_bounded) (simp add: NewRecoverStale_def DefaultBatchSize_def)

section \<open>Events\<close>

text \<open>Storing the same events twice is storing them once; the outbox grows by the fresh ones in order,
  and keeps one row per identifier.\<close>

theorem outbox_stores_once:
  "outbox_append (outbox_append t es) es = outbox_append t es \<and>
   (\<exists>ys. outbox_append t es = t @ List.map outbox_row ys \<and> subseq ys es) \<and>
   o_ID ` set (outbox_append t es) = o_ID ` set t \<union> EventID ` set es"
  using outbox_append_idem outbox_append_prefix outbox_append_ids by blast

text \<open>A batch of the relay publishes the oldest unpublished messages in order up to the first fault, and
  marks exactly those; if the mark fails they stay unpublished in the table.\<close>

theorem relay_publishes_prefix:
  assumes "idle w"
  shows "wp (publishBatch n) (\<lambda>_. batch_done n w) (\<lambda>_. batch_failed n w) r w"
  using assms by (rule wp_publishBatch)

theorem relay_publishes_prefix_witness:
  "wp (publishBatch 50) (\<lambda>_. batch_done 50 (world_on sample_db)) (\<lambda>_. batch_failed 50 (world_on sample_db))
     calm_env (world_on sample_db)"
  by (rule relay_publishes_prefix) (rule world_on_idle)



text \<open>C12: Once a handler has run for an event with success, or failed with an error of no class, every later
  delivery of the event skips it and changes nothing.\<close>

theorem dedup_runs_once:
  fixes w :: world
  assumes "keeps_marks e nxt" and "honest_duplicates r" and "idle w"
  shows "wp (with_dedup name nxt (Payload e)) (\<lambda>_ v. skipped name nxt e r v)
    (\<lambda>err v. as_retryable err \<or> as_deferred err \<or> skipped name nxt e r v) r w"
  by (rule wp_mono [OF wp_with_dedup_marks [where nxt = nxt and e = e and name = name, OF assms]])
    (auto intro: marked_skipped simp: released_def)

theorem dedup_runs_once_witness:
  "wp (with_dedup ''h'' (log_only (\<lambda>_. True)) (Payload sample_event)) (\<lambda>_ v. skipped ''h'' (log_only (\<lambda>_. True)) sample_event calm_env v)
    (\<lambda>err v. as_retryable err \<or> as_deferred err \<or> skipped ''h'' (log_only (\<lambda>_. True)) sample_event calm_env v)
    calm_env (world_on sample_db)"
  by (rule dedup_runs_once [OF keeps_marks_log]) (simp_all add: honest_duplicates_def world_on_idle)



text \<open>The declared topology closes the retry cycle: what the main queue rejects goes to the retry queue,
  what expires there goes back to the main queue, and the dead-letter queue keeps what it gets.\<close>

theorem retry_cycle_closes:
  assumes "exchange \<noteq> queue @ ''.dlx''"
  shows "let t = DefaultTopology exchange queue keys ttl; ds = topology_declare t in
    dead_letter ds queue = [queue @ ''.retry''] \<and> dead_letter ds (queue @ ''.retry'') = [queue] \<and>
    direct_route ds (queue @ ''.dlx'') ''dlq'' = [queue @ ''.dlq''] \<and> dead_letter ds (queue @ ''.dlq'') = []"
  using dead_letter_topology [OF DefaultTopology_wf [OF assms], of keys ttl]
    direct_route_dlx [OF DefaultTopology_wf [OF assms], of keys ttl "''dlq''"]
  by (simp add: Let_def DefaultTopology_def)

theorem retry_cycle_closes_witness:
  "let t = DefaultTopology ''notai'' ''events'' ''#'' 0; ds = topology_declare t in
    dead_letter ds ''events'' = [''events.retry''] \<and> dead_letter ds ''events.retry'' = [''events''] \<and>
    direct_route ds ''events.dlx'' ''dlq'' = [''events.dlq''] \<and> dead_letter ds ''events.dlq'' = []"
  using retry_cycle_closes [of "''notai''" "''events''" "''#''" 0] by simp

section \<open>Entities\<close>

text \<open>C14: A media moves along pending, uploaded, processing to analysed, or fails from a status that is not
  terminal; a terminal media keeps status, verdict and reason; well-formedness is kept.\<close>

theorem media_status_machine:
  assumes "media_step m m'" and "media_wf m"
  shows "media_wf m' \<and> (m_Status m' = m_Status m
    \<or> (m_Status m = StatusPendingUpload \<and> m_Status m' = StatusUploaded)
    \<or> (m_Status m = StatusUploaded \<and> m_Status m' = StatusProcessing)
    \<or> (m_Status m \<in> {StatusUploaded, StatusProcessing} \<and> m_Status m' = StatusAnalyzed)
    \<or> (\<not> media_terminal m \<and> m_Status m' = StatusFailed)) \<and>
    (media_terminal m \<longrightarrow> m_Verdict m' = m_Verdict m \<and> m_FailureReason m' = m_FailureReason m)"
  using media_step_wf [OF assms] media_step_status [OF assms(1)] media_step_terminal [OF assms(1)] by blast

theorem media_status_machine_witness:
  "media_wf (Touch 7 7 sample_media)"
  by (rule media_status_machine [OF media_step.touched sample_media_wf, THEN conjunct1])

text \<open>The status of a content only advances, its label and confidence are set once and for all when it is
  terminal, and its label is one of the three valid ones.\<close>

theorem content_status_machine:
  assumes "content_step\<^sup>*\<^sup>* c c'" and "content_wf c"
  shows "content_wf c' \<and> content_rank (c_Status c) \<le> content_rank (c_Status c') \<and>
    (IsTerminal c \<longrightarrow> c_Status c' = c_Status c \<and> c_Label c' = c_Label c \<and> c_Confidence c' = c_Confidence c)"
  using assms
proof (induction rule: rtranclp_induct)
  case base
  then show ?case by simp
next
  case (step y z)
  then show ?case
    using content_step_wf [of y z] content_step_rank [of y z] content_step_terminal [of y z]
    by (auto simp: IsTerminal_def)
qed

theorem content_status_machine_witness:
  "content_wf (SetThumbnailKey 7 ''t'' sample_content)"
  by (rule content_status_machine [OF r_into_rtranclp [of content_step, OF content_step.thumbnail]
        sample_content_wf, THEN conjunct1])

text \<open>The key of a new upload is a media key: the event dispatcher routes it to the upload handler, never
  to the frames or the thumbnails.\<close>

theorem upload_key_routes_to_media:
  assumes "uuid_text us"
  shows "IsMediaObjectKey (NewObjectKey us clientID campaignID mediaID filename) \<and>
    \<not> IsFrameObjectKey (NewObjectKey us clientID campaignID mediaID filename) \<and>
    IsFrameObjectKey (NewFrameObjectKey us clientID campaignID mediaID i) \<and>
    \<not> IsMediaObjectKey (NewFrameObjectKey us clientID campaignID mediaID i) \<and>
    IsThumbnailObjectKey (NewThumbnailKey us clientID campaignID mediaID)"
  using NewObjectKey_media [OF assms, of clientID campaignID mediaID filename]
    NewFrameObjectKey_frame [of us clientID campaignID mediaID i] media_frame_disjoint
    NewThumbnailKey_thumbnail by blast

theorem upload_key_routes_to_media_witness:
  "IsMediaObjectKey (NewObjectKey (en_uuid_string calm_env) 3 5 10 ''k.jpg'')"
  using upload_key_routes_to_media [of "en_uuid_string calm_env" 3 5 10 "''k.jpg''"]
  by (simp add: uuid_text_def calm_env_def)

text \<open>Adding and removing members keeps the list free of duplicates, changes exactly the one member, and
  is announced by an event exactly when it changes something.\<close>

theorem membership_changes:
  assumes "client_wf c"
  shows "client_wf (snd (AddMember now eid u c)) \<and> client_wf (snd (RemoveMember now eid u c)) \<and>
    set (cl_MemberIDs (snd (AddMember now eid u c))) = insert u (set (cl_MemberIDs c)) \<and>
    set (cl_MemberIDs (snd (RemoveMember now eid u c))) = set (cl_MemberIDs c) - {u} \<and>
    (fst (AddMember now eid u c) \<longleftrightarrow> cl_events (snd (AddMember now eid u c)) \<noteq> cl_events c) \<and>
    (fst (RemoveMember now eid u c) \<longleftrightarrow> cl_events (snd (RemoveMember now eid u c)) \<noteq> cl_events c)"
  using client_wf_AddMember [OF assms] client_wf_RemoveMember [OF assms] AddMember_members
    RemoveMember_members [OF assms] by (auto simp: AddMember_eq RemoveMember_eq)

theorem membership_changes_witness:
  "set (cl_MemberIDs (snd (AddMember 7 8 9 sample_client))) = {1, 9}"
  using membership_changes [of sample_client 7 8 9] by (simp add: client_wf_def sample_client_def insert_commute)

text \<open>A row read back is the entity that was written, without its pending events: media and contents.\<close>

theorem rows_round_trip:
  "media_wf m \<Longrightarrow> mediaDomainFromModel (mediaModelFromDomain m) = m\<lparr>m_events := []\<rparr>"
  by (simp add: media_round_trip media_stored_wf)

theorem rows_round_trip_witness:
  "mediaDomainFromModel (mediaModelFromDomain sample_media) = sample_media\<lparr>m_events := []\<rparr>"
  by (rule rows_round_trip) (rule sample_media_wf)

text \<open>A plan that can be created is complete: named, priced, in a known currency and interval, and stays so
  through every update.\<close>

theorem plans_are_complete:
  "(NewPlan now nid params = Inr p \<longrightarrow> plan_wf p) \<and> (plan_ApplyUpdate now params p0 = Inr p \<longrightarrow> plan_wf p) \<and>
   (plan_wf p \<longrightarrow> plan_wf (plan_Activate now p) \<and> plan_wf (plan_Deactivate now p))"
  using plan_wf_NewPlan plan_wf_ApplyUpdate plan_wf_Activate plan_wf_Deactivate by blast

theorem plans_are_complete_witness:
  "plan_wf sample_plan \<and> plan_wf (plan_Activate 9 sample_plan)"
  using plans_are_complete [where nid = 8 and params = sample_plan_params and p = sample_plan] sample_plan_new
  by blast

section \<open>Accounts and campaigns\<close>



text \<open>C16: Signing up is all or nothing: the user is stored with a workspace on the free plan, a client whose only
  member it is, and the default campaign of that client; or the database is as before.\<close>

theorem sign_up_is_all_or_nothing:
  assumes "holds accounts_ok w"
  shows "wp (CreateUser ck f l em b) (\<lambda>u w'. holds accounts_ok w' \<and> bootstrapped u (wd_committed w'))
    (\<lambda>e w'. e = Err ''failed to create user'' \<and> idle w' \<and> wd_committed w' = wd_committed w) r w"
  using assms by (rule wp_CreateUser)

theorem sign_up_is_all_or_nothing_witness:
  "wp (CreateUser ''c2'' ''Bob'' ''B'' ''b@c'' False) (\<lambda>u w'. holds accounts_ok w' \<and> bootstrapped u (wd_committed w'))
    (\<lambda>e w'. e = Err ''failed to create user'' \<and> idle w' \<and> wd_committed w' = office_db) calm_env (world_on office_db)"
  using sign_up_is_all_or_nothing [OF office_accounts] by simp



text \<open>An uploaded background becomes the one of its campaign only while the campaign still waits for that very
  key; whatever happens, nothing else changes.\<close>

theorem background_answers_last_key:
  assumes "keys_distinct cpm_ID (t_campaigns (wd_committed w))"
  shows "wp (background_ready c key thumbKey ct)
    (\<lambda>_ w'. idle w' \<and> background_settled (cp_ID c) key thumbKey (wd_committed w) (wd_committed w'))
    (\<lambda>_ w'. idle w' \<and> wd_committed w' = wd_committed w) r w"
  using assms by (rule wp_background_ready)

theorem background_answers_last_key_witness:
  "wp (background_ready (campaignDomainFromModel (office_campaign 7 False)) ''k'' ''t'' ''image/png'')
    (\<lambda>_ w'. idle w' \<and> background_settled 7 ''k'' ''t'' office_db (wd_committed w'))
    (\<lambda>_ w'. idle w' \<and> wd_committed w' = office_db) calm_env (world_on office_db)"
  using background_answers_last_key [of "world_on office_db" "campaignDomainFromModel (office_campaign 7 False)"]
    office_tables(3) by (simp add: office_campaign_def)

text \<open>C18: The failure branch has no such guard: a campaign that waits for no key any more, because its background is
  ready or was cleared, is marked failed by a late failure.\<close>

theorem late_failure_spoils_background:
  assumes "keys_distinct cpm_ID (t_campaigns (wd_committed w))" and "idle w"
    and "campaign_get (cp_ID c) (wd_committed w) = Some f" "cp_BackgroundPendingKey f = []"
    and "\<And>t. en_fault r t = None"
  shows "wp (background_fail c key cause) (\<lambda>_ _. False) (\<lambda>err w'. err = cause \<and>
    (\<exists>c'. campaign_get (cp_ID c) (wd_committed w') = Some c' \<and> cp_BackgroundStatus c' = BackgroundStatusFailed)) r w"
  using assms by (rule wp_background_fail_late)

theorem late_failure_spoils_background_witness:
  "wp (background_fail (campaignDomainFromModel (office_campaign 7 False)) ''old'' (Err ''bad image'')) (\<lambda>_ _. False)
    (\<lambda>err w'. err = Err ''bad image'' \<and> (\<exists>c'. campaign_get 7 (wd_committed w') = Some c' \<and>
      cp_BackgroundStatus c' = BackgroundStatusFailed)) calm_env (world_on office_db)"
proof -
  obtain f where f: "campaign_get 7 office_db = Some f" "cp_BackgroundPendingKey f = []" using office_gets(5) by blast
  show ?thesis
    using late_failure_spoils_background [of "world_on office_db" "campaignDomainFromModel (office_campaign 7 False)" f calm_env]
      office_tables(3) f by (simp add: office_campaign_def world_on_idle)
qed

section \<open>Billing\<close>

text \<open>C19: What Stripe reports, a payment, an expiring card, a renewal, a change or an end of the subscription, never
  moves the anchor of a quota period, and adds or drops no subscription.\<close>

theorem reports_keep_quota_anchors:
  assumes "holds (anchored A) w"
  shows "holds (anchored A) (snd (InvoicePaymentFailedHandler a b r w)) \<and>
    holds (anchored A) (snd (InvoicePaymentSucceededHandler a b s e r w)) \<and>
    holds (anchored A) (snd (PaymentMethodExpiring ev a b br l4 m y r w)) \<and>
    holds (anchored A) (snd (SubscriptionRenewalUpcomingHandler ev a b am cu pe r w)) \<and>
    holds (anchored A) (snd (SubscriptionUpdatedHandler cmd r w)) \<and>
    holds (anchored A) (snd (SubscriptionDeletedHandler a r w))"
  using assms
  by (intro conjI)
    (rule keepsD [OF anchored_InvoicePaymentFailed] keepsD [OF anchored_InvoicePaymentSucceeded]
      keepsD [OF anchored_PaymentMethodExpiring] keepsD [OF anchored_RenewalUpcoming]
      keepsD [OF anchored_SubscriptionUpdated] keepsD [OF anchored_SubscriptionDeleted], assumption)+

theorem reports_keep_quota_anchors_witness:
  "holds (anchored [(6, 1)]) (snd (InvoicePaymentFailedHandler ''sub_1'' ''cus'' calm_env (world_on office_db)))"
  using reports_keep_quota_anchors [OF office_anchored] by blast



text \<open>C21: A completed checkout links the workspace to a subscription on the plan whose price Stripe says was bought,
  under the Stripe subscription it names; the rows stay unique, whatever calls fail.\<close>

theorem checkout_links_what_was_bought:
  assumes "gateway_quiet g" and "holds billing_ok w"
  shows "wp (CheckoutCompleted g i cu subID)
    (\<lambda>_ w'. holds billing_ok w' \<and> bought g subID r w i (wd_committed w')) (\<lambda>_. holds billing_ok) r w"
  using assms by (rule wp_CheckoutCompleted)

theorem checkout_links_what_was_bought_witness:
  "wp (CheckoutCompleted office_gateway 2 ''cus'' ''sub_1'')
    (\<lambda>_ w'. bought office_gateway ''sub_1'' calm_env (world_on office_db) 2 (wd_committed w')) (\<lambda>_. holds billing_ok)
    calm_env (world_on office_db)"
  by (rule wp_mono [OF checkout_links_what_was_bought [OF office_gateway_quiet office_billing]]) auto



text \<open>C23: A failed payment that is reported after the subscription was ended, and the workspace is on the free plan,
  finds the subscription by its customer and takes the old Stripe subscription up again, past due.\<close>

theorem late_payment_revives_subscription:
  assumes "holds billing_ok w" and "\<And>t. en_fault r t = None"
    and "subscription_by_stripe subID (wd_committed w) = None" "subscription_by_customer cu (wd_committed w) = Some s"
      "s_StripeSubscriptionID s = []" and "subID \<noteq> []" "cu \<noteq> []"
  shows "wp (InvoicePaymentFailedHandler subID cu) (\<lambda>_ w'. \<exists>s'. subscription_get (s_ID s) (wd_committed w') = Some s' \<and>
      s_Status s' = SubPastDue \<and> s_StripeSubscriptionID s' = subID \<and> s_PlanID s' = s_PlanID s) (\<lambda>_ _. False) r w"
  using assms by (rule wp_late_payment_failed)

theorem late_payment_revives_subscription_witness:
  "wp (InvoicePaymentFailedHandler ''sub_1'' ''cus'') (\<lambda>_ w'. \<exists>s'. subscription_get 6 (wd_committed w') = Some s' \<and>
      s_Status s' = SubPastDue \<and> s_StripeSubscriptionID s' = ''sub_1'' \<and> s_PlanID s' = 8) (\<lambda>_ _. False)
    calm_env (world_on office_db)"
  using late_payment_revives_subscription [OF office_billing, of calm_env "''sub_1''" "''cus''" office_subscription]
    office_gets by (simp add: office_subscription_def)

section \<open>What the users see\<close>

text \<open>C24: A message for a member goes to a channel of that member's own token, which no other user's token holds;
  a run over the members reaches a prefix of them, and all on success.\<close>

theorem messages_stay_private:
  assumes "uuid_text (en_uuid_string r)" and "en_uuid_string r u \<noteq> en_uuid_string r v"
  shows "channel_of r entity u \<in> set (UserSubscribeChannels (en_uuid_string r) u) \<and>
    channel_of r entity u \<notin> set (UserSubscribeChannels (en_uuid_string r) v) \<and>
    wp (ToMembers entity action us payload)
      (\<lambda>_ w'. wd_realtime w' = wd_realtime w @ List.map (realtime_to r entity action payload) us)
      (\<lambda>err w'. as_retryable err \<and> (\<exists>k < length us.
         wd_realtime w' = wd_realtime w @ List.map (realtime_to r entity action payload) (take k us))) r w"
proof (intro conjI)
  show own: "channel_of r entity u \<in> set (UserSubscribeChannels (en_uuid_string r) u)" by (rule channel_of_subscribed)
  then show "channel_of r entity u \<notin> set (UserSubscribeChannels (en_uuid_string r) v)"
    using channels_disjoint [OF assms] by blast
  show "wp (ToMembers entity action us payload)
      (\<lambda>_ w'. wd_realtime w' = wd_realtime w @ List.map (realtime_to r entity action payload) us)
      (\<lambda>err w'. as_retryable err \<and> (\<exists>k < length us.
         wd_realtime w' = wd_realtime w @ List.map (realtime_to r entity action payload) (take k us))) r w"
    by (rule wp_mono [OF wp_ToMembers]) auto
qed

theorem messages_stay_private_witness:
  "channel_of named_env ''media'' 1 \<in> set (UserSubscribeChannels (en_uuid_string named_env) 1) \<and>
    channel_of named_env ''media'' 1 \<notin> set (UserSubscribeChannels (en_uuid_string named_env) 2)"
  using messages_stay_private [of named_env 1 2 "''media''"] by (simp add: named_env_def uuid_text_def)

text \<open>C25: The feed keeps one row per event. A run that finds the row tells nobody; a new row is announced to all
  members of its client on success, and to some of them otherwise, and then no later run announces it again.\<close>

theorem feed_announces_once:
  fixes w :: world
  assumes "idle w"
  shows "wp (project_insert a) (\<lambda>_. projected r a w) (\<lambda>err w'. as_retryable err \<and> unprojected r a w w' \<and>
    (in_feed (a_ID a) (wd_committed w') \<longrightarrow> (\<forall>r'. wp (project_insert a) (\<lambda>_. only_ticks w') (\<lambda>_. only_ticks w') r' w'))) r w"
proof -
  have again: "wp (project_insert a) (\<lambda>_. only_ticks v) (\<lambda>_. only_ticks v) r' v"
    if "in_feed (a_ID a) (wd_committed v)" "idle v" for r' and v :: world
    by (rule wp_mono [OF wp_project_insert [OF that(2)]]) (use that(1) in \<open>auto simp: projected_def unprojected_def feed_grown_def\<close>)
  show ?thesis
    by (rule wp_mono [OF wp_project_insert [OF assms]]) (use again in \<open>auto simp: unprojected_def\<close>)
qed

theorem feed_announces_once_witness:
  "wp (project_insert sample_activity) (\<lambda>_. projected calm_env sample_activity (world_on office_db)) (\<lambda>err _. as_retryable err)
    calm_env (world_on office_db)"
  by (rule wp_mono [OF feed_announces_once [OF world_on_idle]]) auto

section \<open>The HTTP interface\<close>



text \<open>C27: The campaign handlers change campaigns of the client the user works in, and of no other, whatever fails.\<close>

theorem campaign_writes_stay_with_the_tenant:
  assumes "works_in rqc c" "works_in rq c" "works_in rqb c"
    and "idle w" "keys_distinct cpm_ID (t_campaigns (wd_committed w))"
  shows "foreign_campaigns c (wd_committed (snd (CampaignHandler_Create lb rqc r w))) = foreign_campaigns c (wd_committed w) \<and>
    foreign_campaigns c (wd_committed (snd (CampaignHandler_Update lb rqc r w))) = foreign_campaigns c (wd_committed w) \<and>
    foreign_campaigns c (wd_committed (snd (CampaignHandler_Delete lb rq r w))) = foreign_campaigns c (wd_committed w) \<and>
    foreign_campaigns c (wd_committed (snd (CampaignHandler_ClearBackground lb rq r w))) = foreign_campaigns c (wd_committed w) \<and>
    foreign_campaigns c (wd_committed (snd (CampaignHandler_PresignBackground lb rqb r w))) = foreign_campaigns c (wd_committed w)"
  using tenant_stays [OF assms(4,5) tenant_Create [OF assms(1)]] tenant_stays [OF assms(4,5) tenant_Update [OF assms(1)]]
    tenant_stays [OF assms(4,5) tenant_Delete [OF assms(2)]]
    tenant_stays [OF assms(4,5) tenant_background_handlers(1) [OF assms(2,3)]]
    tenant_stays [OF assms(4,5) tenant_background_handlers(2) [OF assms(2,3)]] by blast

theorem campaign_writes_stay_with_the_tenant_witness:
  "foreign_campaigns 3 (wd_committed (snd (CampaignHandler_Delete office_libs (office_request (Some office_user) 7 (Some ()))
     calm_env (world_on (office_db\<lparr>t_campaigns := [(office_campaign 7 False)\<lparr>cpm_ClientID := 9\<rparr>]\<rparr>))))) =
   [(office_campaign 7 False)\<lparr>cpm_ClientID := 9\<rparr>]"
  using campaign_writes_stay_with_the_tenant [where rqc = "office_request (Some office_user) 0 None" and lb = office_libs and
      rq = "office_request (Some office_user) 7 (Some ())" and rqb = "office_request (Some office_user) 0 None" and r = calm_env and
      w = "world_on (office_db\<lparr>t_campaigns := [(office_campaign 7 False)\<lparr>cpm_ClientID := 9\<rparr>]\<rparr>)",
      OF office_works_in office_works_in office_works_in]
  by (simp add: world_on_idle keys_distinct_def foreign_campaigns_def)

text \<open>C28: Deleting a client asks for no membership: whoever sends the request, the client is gone with its members,
  campaigns, medias and activities.\<close>

theorem anyone_deletes_a_client:
  assumes "\<And>t. en_fault r t = None" and "idle w" and "lb_ParseUUID lb (rq_Param rq ''id'') = Some i"
    and "client_get i (wd_committed w) \<noteq> None"
  shows "wp (ClientHandler_Delete lb rq) (\<lambda>a w'. rs_Status a = 204 \<and> client_gone i (wd_committed w')) (\<lambda>_ _. False) r w"
  using assms by (rule ClientHandler_Delete_calm)

theorem anyone_deletes_a_client_witness:
  "wp (ClientHandler_Delete office_libs (office_request (Some (office_user\<lparr>u_ID := 77\<rparr>)) 3 (Some ())))
    (\<lambda>a w'. rs_Status a = 204 \<and> client_gone 3 (wd_committed w')) (\<lambda>_ _. False) calm_env (world_on office_db)"
  by (rule anyone_deletes_a_client)
    (simp_all add: calm_env_def world_on_idle office_libs_def office_request_def office_defs client_get_def tbl_first_def)

text \<open>C29: A request behind the authentication is answered with 401, or by the handler for a user who is not banned and
  whom the valid token names.\<close>

theorem authentication_admits_token_holders:
  "(\<exists>m w'. Authenticate verify fetch header nxt rq r w = (Inr \<lparr>rs_Status = 401, rs_Body = Message m\<rparr>, w')) \<or>
   (\<exists>u w'. admitted verify header u \<and> Authenticate verify fetch header nxt rq r w = nxt (rq\<lparr>rq_User := Some u\<rparr>) r w')"
proof -
  let ?by = "\<lambda>x v. \<exists>u w'. admitted verify header u \<and> nxt (rq\<lparr>rq_User := Some u\<rparr>) r w' = (x, v)"
  have "wp (Authenticate verify fetch header nxt rq)
      (\<lambda>a v. (\<exists>m. a = \<lparr>rs_Status = 401, rs_Body = Message m\<rparr>) \<or> ?by (Inr a) v) (\<lambda>e v. ?by (Inl e) v) r w"
    by (rule wp_Authenticate) (auto simp: wp_def split: prod.splits sum.splits)
  then show ?thesis by (auto simp: wp_def split: prod.splits sum.splits) metis+
qed

text \<open>C32: The statistics of a client count its own medias of the period, the days are in order and add up to the
  totals of every status and label, and the rates are percentages.\<close>

theorem dashboard_adds_up: "shown_in (MediaHandler_Stats lb rq) (stats_of_tenant rq w) r w"
  by (rule shown_MediaHandler_Stats)

text \<open>The pages of a query partition its rows: one after the other they are the whole result in order, each of
  at most 200 rows.\<close>

theorem pages_partition_the_rows:
  "concat (List.map (\<lambda>p. fst (Paginate key ((Normalize q)\<lparr>pq_Page := int p + 1\<rparr>) rows))
      [0..<nat (TotalPages (int (length rows)) (Normalize q))]) = order_by (pq_OrderBy (Normalize q)) key rows \<and>
   mset (order_by (pq_OrderBy (Normalize q)) key rows) = mset rows \<and>
   length (fst (Paginate key (Normalize q) rows)) \<le> 200"
  using Paginate_partition [OF Normalize_bounds(2)] order_by_mset length_Paginate [OF Normalize_bounds(3)] by blast

text \<open>A payment that Stripe reports before the checkout has linked its subscription is answered with 503, so that
  it is sent again, and stores nothing; with 500 only if a call failed.\<close>

theorem early_payments_come_again:
  assumes "idle w" and "payment_event i ev"
    and "subscription_for (subscriptionIDFromInvoice i) (customerIDFromInvoice i) (wd_committed w) = None"
  shows "wp (BillingWebhook_Execute lb g ev) (\<lambda>a w'. wd_committed w' = wd_committed w \<and>
      (rs_Status a = 503 \<or> rs_Status a = 500 \<and> disturbed r w)) (\<lambda>_ _. False) r w"
  using assms by (rule early_payment)

theorem early_payments_come_again_witness:
  "wp (BillingWebhook_Execute office_libs office_gateway office_payment_event) (\<lambda>a w'. wd_committed w' = office_db \<and>
      (rs_Status a = 503 \<or> rs_Status a = 500 \<and> disturbed calm_env (world_on office_db))) (\<lambda>_ _. False)
    calm_env (world_on office_db)"
proof -
  have "payment_event office_payment office_payment_event"
    by (simp add: payment_event_def office_payment_event_def office_payment_def)
  moreover have "subscription_for (subscriptionIDFromInvoice office_payment) (customerIDFromInvoice office_payment) office_db = None"
    by (simp add: office_payment_def subscriptionIDFromInvoice_def customerIDFromInvoice_def subscription_for_def office_defs
      subscription_by_stripe_def subscription_by_customer_def tbl_first_def)
  ultimately show ?thesis
    using early_payments_come_again [of "world_on office_db" office_payment office_payment_event] by (simp add: world_on_idle)
qed

text \<open>C34: The link to a picture in a response is shown exactly when the handler behind it serves one that is stored:
  the background of a campaign of the client, and the picture of a content of one of its medias.\<close>

theorem links_are_served:
  assumes "\<And>t. en_fault r t = None"
    and "works_in rq (cp_ClientID cp)" "lb_ParseUUID lb (rq_Param rq ''id'') = Some k" "campaign_get k (wd_committed w) = Some cp"
    and "works_in rq' (m_ClientID m)" "lb_ParseUUID lb (rq_Param rq' ''id'') = Some i" "lb_ParseUUID lb (rq_Param rq' ''contentId'') = Some (c_ID c)"
    and "media_get i (wd_committed w) = Some m" "i \<noteq> uuid_Nil"
    and "distinct (List.map c_ID (contents_of i (wd_committed w)))" "c \<in> set (contents_of i (wd_committed w))"
  shows "wp (CampaignHandler_GetThumbnail lb rq) (\<lambda>a _. rs_Status a = 200 \<longleftrightarrow>
      cr_BackgroundThumbnailURL (NewCampaignDetailResponseFromView us (cp, n)) \<noteq> [] \<and>
      wd_thumbnails w (cp_BackgroundThumbnailKey cp) \<noteq> None) (\<lambda>_ _. False) r w \<and>
    wp (MediaHandler_GetContentThumbnail lb rq') (\<lambda>a _. rs_Status a = 200 \<longleftrightarrow>
      cc_ThumbnailURL (content_child us i rs c) \<noteq> None \<and>
      (\<exists>key. c_ThumbnailKey c = Some key \<and> wd_thumbnails w key \<noteq> None)) (\<lambda>_ _. False) r w"
  by (rule conjI [OF campaign_link [OF assms(1-4)] content_link [OF assms(1,5-11)]])

text \<open>The office asks for the content 20 of the media 10, which has no picture yet.\<close>

theorem links_are_served_witness:
  "wp (MediaHandler_GetContentThumbnail office_libs ((office_request (Some office_user) 0 (Some ()))\<lparr>rq_Param :=
      (\<lambda>name. replicate (if name = ''id'' then 10 else 20) (CHR ''1''))\<rparr>)) (\<lambda>a _. rs_Status a \<noteq> 200) (\<lambda>_ _. False)
    calm_env (world_on office_db)"
proof -
  let ?rq = "(office_request (Some office_user) 0 (Some ()))\<lparr>rq_Param :=
      (\<lambda>name. replicate (if name = ''id'' then 10 else 20) (CHR ''1''))\<rparr>"
  obtain f where f: "campaign_get 7 office_db = Some f" "cp_BackgroundPendingKey f = []" using office_gets(5) by blast
  then have cl: "cp_ClientID f = 3" by (auto simp: campaign_get_def office_defs office_campaign_def tbl_first_def campaignDomainFromModel_def)
  have works: "works_in (rq\<lparr>rq_Param := p\<rparr>) c = works_in rq c" for rq :: "unit request" and p c
    by (simp add: works_in_def GetCurrentClientID_def GetUser_def)
  have mine: "works_in ?rq 3" unfolding works by (rule office_works_in)
  have tables: "t_media office_db = t_media sample_db" "t_contents office_db = t_contents sample_db" by (simp_all add: office_db_def)
  have contents: "contents_of 10 office_db = [sample_content]" "media_get 10 office_db = Some sample_media"
    using sample_contents_of [of 10] sample_media_get [of 10]
    unfolding contents_of_def content_join_def media_get_def media_row_def tables by simp_all
  have "wp (MediaHandler_GetContentThumbnail office_libs ?rq) (\<lambda>a _. rs_Status a = 200 \<longleftrightarrow>
      cc_ThumbnailURL (content_child (\<lambda>_. []) 10 [] sample_content) \<noteq> None \<and>
      (\<exists>key. c_ThumbnailKey sample_content = Some key \<and> wd_thumbnails (world_on office_db) key \<noteq> None)) (\<lambda>_ _. False)
      calm_env (world_on office_db)"
    by (rule links_are_served [where rq = "office_request (Some office_user) 7 (Some ())" and cp = f and k = 7 and m = sample_media,
        THEN conjunct2])
      (use f cl contents mine office_works_in in \<open>simp_all add: calm_env_def office_libs_def office_request_def
        sample_media_def sample_content_def uuid_Nil_def\<close>)
  then show ?thesis by (rule wp_mono) (simp_all add: sample_content_def)
qed

section \<open>Loops\<close>

text \<open>C30: While the database and the broker answer, enough ticks of the relay publish every pending event, each once
  and in the order of creation.\<close>

theorem relay_drains_the_outbox:
  fixes w :: world
  assumes "calm_from r w" and "idle w" and "distinct (List.map o_ID (t_outbox (wd_committed w)))"
    and "length (pending (wd_committed w)) \<le> k * nat n"
  shows "wp (Relay_Start k n) (\<lambda>_ w'. pending (wd_committed w') = [] \<and>
      wd_published w' = wd_published w @ List.map envelope_of (pending (wd_committed w))) (\<lambda>_ _. False) r w"
  using assms by (rule Relay_Start_drains)

theorem relay_drains_the_outbox_witness:
  "wp (Relay_Start 2 1) (\<lambda>_ w'. pending (wd_committed w') = []) (\<lambda>_ _. False) calm_env
    (world_on (outbox_put [sample_event, sample_verdict] sample_db))"
  by (rule wp_mono [OF relay_drains_the_outbox])
    (auto simp: calm_from_def calm_env_def world_on_idle pending_def outbox_put_def outbox_row_def sample_defs sample_event_def
      sample_verdict_def)

text \<open>C31: The search for the current quota period ends after a round per 28 days since the anchor at most.\<close>

theorem quota_period_is_found:
  assumes "anchor \<noteq> 0" and "anchor \<le> now"
  shows "quota_rounds (nat ((now - anchor) div (28 * Day)) + 1) now anchor = Some (CurrentQuotaPeriod anchor now)"
proof -
  have "now - anchor < int (nat ((now - anchor) div (28 * Day)) + 1) * (28 * Day)"
    using assms(2) by (intro rounds_cover) simp_all
  from quota_rounds_enough [OF assms(2) this] show ?thesis
    using assms by (simp add: CurrentQuotaPeriod_def Let_def IsZero_def)
qed

theorem quota_period_is_found_witness:
  "quota_rounds 2 (45 * Day) Day = Some (CurrentQuotaPeriod Day (45 * Day))"
  using quota_period_is_found [of Day "45 * Day"] by (simp add: numeral_2_eq_2)

section \<open>Quantization tables\<close>



end
